(* ===== verification/Prelude.thy ===== *)
theory Prelude
  imports Main "HOL-Library.AList" "HOL-Library.Multiset"
begin

text \<open>
  The vocabulary the component theories share: Go's 64-bit integers with the wrap-around
  written out, Go's maps as association lists with distinct keys, the interface of a Go map
  as a locale with the association lists as its instance, lemmas on the multisets of values a
  map holds (the conservation arguments of the pool and of the trunk rest on them), and the
  generic notion of a state machine with an invariant.

  A Go map has no order, and a \<open>range\<close> over it visits the entries in an arbitrary order. An
  association list fixes one visiting order; a theorem that quantifies over every association
  list therefore quantifies over every visiting order, and the step relations of the component
  theories have a step that reorders a map, so that the order may differ from one \<open>range\<close> to
  the next.
\<close>

named_theorems go_int
named_theorems gomap
named_theorems mflat_mset

section \<open>Integers\<close>

text \<open>A Go \<open>int\<close> is a 64-bit two's complement integer on every platform the controller is
  built for; \<open>i64\<close> reduces a mathematical integer to that range.\<close>

definition i64 :: "int \<Rightarrow> int" where
  "i64 x = (x + 2 ^ 63) mod 2 ^ 64 - 2 ^ 63"

definition MaxInt64 :: int where
  "MaxInt64 = 2 ^ 63 - 1"

definition MinInt64 :: int where
  "MinInt64 = - (2 ^ 63)"

text \<open>Go's integer division truncates towards zero.\<close>

definition go_div :: "int \<Rightarrow> int \<Rightarrow> int" where
  "go_div a b = sgn a * sgn b * (\<bar>a\<bar> div \<bar>b\<bar>)"

lemma i64_id [go_int]: "MinInt64 \<le> x \<Longrightarrow> x \<le> MaxInt64 \<Longrightarrow> i64 x = x"
  by (simp add: i64_def MinInt64_def MaxInt64_def)

lemma i64_range: "MinInt64 \<le> i64 x \<and> i64 x \<le> MaxInt64"
proof -
  have "0 \<le> (x + 2 ^ 63) mod 2 ^ 64" and "(x + 2 ^ 63) mod 2 ^ 64 < 2 ^ 64"
    by simp_all
  then show ?thesis
    unfolding i64_def MinInt64_def MaxInt64_def by auto
qed

lemma i64_idem [simp]: "i64 (i64 x) = i64 x"
  using i64_range [of x] by (simp add: go_int)

lemma go_div_nonneg: "0 \<le> a \<Longrightarrow> 0 < b \<Longrightarrow> go_div a b = a div b"
  by (cases "a = 0") (simp_all add: go_div_def)

section \<open>Lists\<close>

text \<open>Go's \<open>append(xs[:i], xs[i+1:]...)\<close>: the element at an index is cut out.\<close>

definition remove_at :: "nat \<Rightarrow> 'a list \<Rightarrow> 'a list" where
  "remove_at i xs = take i xs @ drop (Suc i) xs"

lemma length_remove_at: "i < length xs \<Longrightarrow> length (remove_at i xs) = length xs - 1"
  by (simp add: remove_at_def)

lemma filter_remove_at:
  "i < length xs \<Longrightarrow> \<not> P (xs ! i) \<Longrightarrow> filter P (remove_at i xs) = filter P xs"
proof -
  assume i: "i < length xs" and p: "\<not> P (xs ! i)"
  have "filter P xs = filter P (take i xs @ xs ! i # drop (Suc i) xs)"
    using i by (simp add: id_take_nth_drop [symmetric])
  then show ?thesis using p by (simp add: remove_at_def)
qed

lemma take_remove_at: "take i (remove_at i xs) = take i xs"
  by (cases "i \<le> length xs") (simp_all add: remove_at_def)

lemma drop_remove_at: "i < length xs \<Longrightarrow> drop i (remove_at i xs) = drop (Suc i) xs"
  by (simp add: remove_at_def)

lemma distinct_concat_map_sub:
  "distinct (concat (map f xs)) \<Longrightarrow> x \<in> set xs \<Longrightarrow> distinct (f x)"
  by (induction xs) auto

lemma distinct_mset_eq: "mset xs = mset ys \<Longrightarrow> distinct xs = distinct ys"
  by (metis mset_eq_imp_distinct_iff)

lemma distinct_submset:
  assumes "mset xs \<subseteq># mset ys" and "distinct ys"
  shows "distinct xs"
proof -
  obtain zs where "mset ys = mset (xs @ zs)"
    using assms(1) by (metis ex_mset mset_append mset_subset_eq_exists_conv)
  then show ?thesis using assms(2) mset_eq_imp_distinct_iff distinct_append by blast
qed

section \<open>Maps\<close>

type_synonym ('k, 'v) gomap = "('k \<times> 'v) list"

definition mget :: "('k, 'v) gomap \<Rightarrow> 'k \<Rightarrow> 'v option" where
  "mget m k = map_of m k"

definition mput :: "('k, 'v) gomap \<Rightarrow> 'k \<Rightarrow> 'v \<Rightarrow> ('k, 'v) gomap" where
  "mput m k v = AList.update k v m"

definition mdel :: "('k, 'v) gomap \<Rightarrow> 'k \<Rightarrow> ('k, 'v) gomap" where
  "mdel m k = AList.delete k m"

definition mhas :: "('k, 'v) gomap \<Rightarrow> 'k \<Rightarrow> bool" where
  "mhas m k = (mget m k \<noteq> None)"

text \<open>Reading a missing key of a Go map gives the zero value of the value type.\<close>

definition mgetd :: "'v \<Rightarrow> ('k, 'v) gomap \<Rightarrow> 'k \<Rightarrow> 'v" where
  "mgetd d m k = (case mget m k of None \<Rightarrow> d | Some v \<Rightarrow> v)"

definition mkeys :: "('k, 'v) gomap \<Rightarrow> 'k list" where
  "mkeys m = map fst m"

definition mvals :: "('k, 'v) gomap \<Rightarrow> 'v list" where
  "mvals m = map snd m"

definition mflat :: "('k, 'v list) gomap \<Rightarrow> 'v list" where
  "mflat m = concat (mvals m)"

definition wf_map :: "('k, 'v) gomap \<Rightarrow> bool" where
  "wf_map m = distinct (mkeys m)"

text \<open>What every user of a Go map relies on, whatever represents the map.\<close>

locale go_map =
  fixes get :: "'m \<Rightarrow> 'k \<Rightarrow> 'v option"
    and put :: "'m \<Rightarrow> 'k \<Rightarrow> 'v \<Rightarrow> 'm"
    and del :: "'m \<Rightarrow> 'k \<Rightarrow> 'm"
    and keys :: "'m \<Rightarrow> 'k list"
    and wf :: "'m \<Rightarrow> bool"
  assumes get_put: "get (put m k v) j = (if j = k then Some v else get m j)"
    and get_del: "get (del m k) j = (if j = k then None else get m j)"
    and keys_get: "k \<in> set (keys m) \<longleftrightarrow> get m k \<noteq> None"
    and wf_put: "wf m \<Longrightarrow> wf (put m k v)"
    and wf_del: "wf m \<Longrightarrow> wf (del m k)"
begin

lemma put_then_get: "get (put m k v) k = Some v"
  by (simp add: get_put)

lemma del_then_get: "get (del m k) k = None"
  by (simp add: get_del)

lemma keys_put_set: "set (keys (put m k v)) = insert k (set (keys m))"
  by (auto simp: keys_get get_put split: if_splits)

lemma keys_del_set: "set (keys (del m k)) = set (keys m) - {k}"
  by (auto simp: keys_get get_del split: if_splits)

lemma put_put_get: "get (put (put m k v) k w) = get (put m k w)"
  by (auto simp: get_put)

lemma put_del_get: "get (del (put m k v) k) = get (del m k)"
  by (auto simp: get_put get_del)

lemma put_commute: "j \<noteq> k \<Longrightarrow> get (put (put m j v) k w) = get (put (put m k w) j v)"
  by (auto simp: get_put)

end

interpretation alist_map: go_map mget mput mdel mkeys wf_map
proof (unfold_locales, goal_cases)
  case (1 m k v j)
  show ?case by (simp add: mget_def mput_def update_conv)
next
  case (2 m k j)
  show ?case by (simp add: mget_def mdel_def delete_conv)
next
  case (3 k m)
  show ?case by (simp add: mget_def mkeys_def map_of_eq_None_iff)
next
  case (4 m k v)
  then show ?case by (simp add: wf_map_def mkeys_def mput_def distinct_update)
next
  case (5 m k)
  then show ?case by (simp add: wf_map_def mkeys_def mdel_def distinct_delete)
qed

lemmas mget_mput [simp, gomap] = alist_map.get_put
lemmas mget_mdel [simp, gomap] = alist_map.get_del
lemmas mkeys_mput [simp, gomap] = alist_map.keys_put_set
lemmas mkeys_mdel [simp, gomap] = alist_map.keys_del_set
lemmas wf_map_mput [simp, intro, gomap] = alist_map.wf_put
lemmas wf_map_mdel [simp, intro, gomap] = alist_map.wf_del
lemmas mkeys_mget = alist_map.keys_get

lemma mget_Nil [simp]: "mget [] k = None"
  by (simp add: mget_def)

lemma wf_map_Nil [simp]: "wf_map []"
  by (simp add: wf_map_def mkeys_def)

lemma mhas_iff: "mhas m k \<longleftrightarrow> k \<in> set (mkeys m)"
  by (simp add: mhas_def mkeys_mget)

lemma mgetd_mput [simp, gomap]: "mgetd d (mput m k v) j = (if j = k then v else mgetd d m j)"
  by (simp add: mgetd_def)

lemma mgetd_mdel [simp, gomap]: "mgetd d (mdel m k) j = (if j = k then d else mgetd d m j)"
  by (simp add: mgetd_def)

lemma mget_mem: "mget m k = Some v \<Longrightarrow> (k, v) \<in> set m"
  by (simp add: mget_def map_of_SomeD)

lemma mem_mget: "wf_map m \<Longrightarrow> (k, v) \<in> set m \<Longrightarrow> mget m k = Some v"
  by (simp add: mget_def wf_map_def mkeys_def)

lemma mdel_absent: "k \<notin> set (mkeys m) \<Longrightarrow> mdel m k = m"
  by (simp add: mdel_def mkeys_def)

lemma mdel_Nil: "mdel [] k = []"
  by (simp add: mdel_def)

lemma mdel_Cons: "mdel ((j, v) # m) k = (if j = k then mdel m k else (j, v) # mdel m k)"
  by (simp add: mdel_def AList.delete_eq)

lemma mdel_mput_same [simp, gomap]: "mdel (mput m k v) k = mdel m k"
  by (simp add: mdel_def mput_def delete_update_same)

lemma mdel_mdel_same [simp, gomap]: "mdel (mdel m k) k = mdel m k"
  by (simp add: mdel_def delete_idem)

lemma mput_Cons: "mput ((j, v) # m) k w = (if j = k then (k, w) # m else (j, v) # mput m k w)"
  by (simp add: mput_def)

lemma mput_Nil: "mput [] k w = [(k, w)]"
  by (simp add: mput_def)

lemma mget_Cons: "mget ((j, v) # m) k = (if k = j then Some v else mget m k)"
  by (simp add: mget_def)

lemma mkeys_Cons [simp]: "mkeys ((j, v) # m) = j # mkeys m"
  by (simp add: mkeys_def)

lemma wf_map_Cons [simp]: "wf_map ((j, v) # m) \<longleftrightarrow> j \<notin> set (mkeys m) \<and> wf_map m"
  by (simp add: wf_map_def)

lemma set_mdel: "set (mdel m k) = {(j, v) \<in> set m. j \<noteq> k}"
  by (auto simp: mdel_def AList.delete_eq)

lemma mput_absent: "k \<notin> set (mkeys m) \<Longrightarrow> mput m k v = m @ [(k, v)]"
  by (induction m) (auto simp: mput_Nil mput_Cons)

lemma set_mput: "wf_map m \<Longrightarrow> set (mput m k v) = insert (k, v) {(j, w) \<in> set m. j \<noteq> k}"
proof (induction m)
  case Nil
  then show ?case by (simp add: mput_Nil)
next
  case (Cons e m)
  obtain j w where e: "e = (j, w)" by (cases e)
  have "j = k \<Longrightarrow> {(j, w) \<in> set m. j \<noteq> k} = set m"
    using Cons.prems unfolding e by (auto simp: mkeys_def rev_image_eqI)
  then show ?case using Cons unfolding e by (auto simp: mput_Cons)
qed

subsection \<open>The values of a map, counted with multiplicity\<close>

lemma mset_mput: "wf_map m \<Longrightarrow> mset (mput m k v) = add_mset (k, v) (mset (mdel m k))"
  by (induction m) (auto simp: mput_Nil mput_Cons mdel_Cons mdel_absent mdel_Nil)

lemma mset_split: "wf_map m \<Longrightarrow> mget m k = Some v \<Longrightarrow> mset m = add_mset (k, v) (mset (mdel m k))"
  by (induction m) (auto simp: mget_Cons mdel_Cons mdel_absent split: if_splits)

lemma mset_mvals: "mset (mvals m) = image_mset snd (mset m)"
  by (simp add: mvals_def)

lemma mset_mflat: "mset (mflat m) = sum_mset (image_mset (\<lambda>e. mset (snd e)) (mset m))"
  by (induction m) (auto simp: mflat_def mvals_def)

lemma mset_mvals_mput [mflat_mset]:
  "wf_map m \<Longrightarrow> mset (mvals (mput m k v)) = add_mset v (mset (mvals (mdel m k)))"
  by (simp add: mset_mvals mset_mput)

lemma mset_mvals_split:
  "wf_map m \<Longrightarrow> mget m k = Some v \<Longrightarrow> mset (mvals m) = add_mset v (mset (mvals (mdel m k)))"
  by (simp add: mset_mvals mset_split)

lemma mset_mflat_mput [mflat_mset]:
  "wf_map m \<Longrightarrow> mset (mflat (mput m k xs)) = mset xs + mset (mflat (mdel m k))"
  by (simp add: mset_mflat mset_mput)

lemma mset_mflat_split:
  "wf_map m \<Longrightarrow> mset (mflat m) = mset (mgetd [] m k) + mset (mflat (mdel m k))"
proof (cases "mget m k")
  case None
  then have "mdel m k = m" by (simp add: mdel_absent mkeys_mget)
  then show ?thesis by (simp add: mgetd_def None)
next
  case (Some xs)
  assume "wf_map m"
  then show ?thesis using mset_split [OF _ Some] by (simp add: mset_mflat mgetd_def Some)
qed

lemma length_mvals [simp]: "length (mvals m) = length m"
  by (simp add: mvals_def)

lemma length_mkeys [simp]: "length (mkeys m) = length m"
  by (simp add: mkeys_def)

lemma length_mdel: "wf_map m \<Longrightarrow> mget m k = Some v \<Longrightarrow> length m = Suc (length (mdel m k))"
  using mset_split [of m k v] by (metis size_add_mset size_mset)

lemma length_mput_absent: "mget m k = None \<Longrightarrow> length (mput m k v) = Suc (length m)"
  by (simp add: mput_absent mkeys_mget)

lemma set_mflat: "set (mflat m) = (\<Union>(k, xs) \<in> set m. set xs)"
  by (auto simp: mflat_def mvals_def)

lemma mflat_Cons [simp]: "mflat ((k, xs) # m) = xs @ mflat m"
  by (simp add: mflat_def mvals_def)

lemma mflat_Nil [simp]: "mflat [] = []"
  by (simp add: mflat_def mvals_def)

section \<open>State machines\<close>

text \<open>The states that are reached from an initial state by steps, and the rule every invariant
  proof of the development goes through.\<close>

inductive reachable :: "('s \<Rightarrow> bool) \<Rightarrow> ('s \<Rightarrow> 's \<Rightarrow> bool) \<Rightarrow> 's \<Rightarrow> bool" for init step where
  reach_init: "init s \<Longrightarrow> reachable init step s"
| reach_step: "reachable init step s \<Longrightarrow> step s t \<Longrightarrow> reachable init step t"

locale invariant_system =
  fixes init :: "'s \<Rightarrow> bool"
    and step :: "'s \<Rightarrow> 's \<Rightarrow> bool"
    and inv :: "'s \<Rightarrow> bool"
  assumes init_inv: "init s \<Longrightarrow> inv s"
    and step_inv: "inv s \<Longrightarrow> step s t \<Longrightarrow> inv t"
begin

lemma reachable_inv: "reachable init step s \<Longrightarrow> inv s"
  by (induction rule: reachable.induct) (auto intro: init_inv step_inv)

lemma steps_inv: "step\<^sup>*\<^sup>* s t \<Longrightarrow> inv s \<Longrightarrow> inv t"
  by (induction rule: rtranclp_induct) (auto intro: step_inv)

end

end
