(* ===== verification/GoStrings.thy ===== *)
theory GoStrings
  imports Prelude
begin

text \<open>
  The part of Go's standard library the controller's own code calls on strings:
  \<open>strings.HasPrefix\<close>, \<open>strings.Contains\<close>, \<open>strings.Index\<close> and \<open>strings.Split\<close> with a one-byte
  separator, \<open>strings.LastIndex\<close>, \<open>strconv.Itoa\<close>, \<open>strconv.Atoi\<close> (with the value Go returns
  beside an error) and \<open>strconv.ParseBool\<close>. Strings are lists of bytes, as in Go. The
  round trip \<open>Atoi_Itoa\<close> and the lemmas on splitting are what the address arithmetic of the
  prefix provider rests on.
\<close>

section \<open>Searching and splitting\<close>

fun HasPrefix :: "string \<Rightarrow> string \<Rightarrow> bool" where
  "HasPrefix s [] = True"
| "HasPrefix [] (p # ps) = False"
| "HasPrefix (c # s) (p # ps) = (c = p \<and> HasPrefix s ps)"

fun Contains :: "string \<Rightarrow> string \<Rightarrow> bool" where
  "Contains [] p = (p = [])"
| "Contains (c # s) p = (HasPrefix (c # s) p \<or> Contains s p)"

text \<open>\<open>strings.Index\<close> for a one-byte separator: the offset of its first occurrence; Go's -1 is
  \<open>None\<close>.\<close>

fun IndexByte :: "string \<Rightarrow> char \<Rightarrow> nat option" where
  "IndexByte [] c = None"
| "IndexByte (d # s) c = (if d = c then Some 0 else map_option Suc (IndexByte s c))"

fun Split :: "string \<Rightarrow> char \<Rightarrow> string list" where
  "Split [] c = [[]]"
| "Split (d # s) c =
     (if d = c then [] # Split s c
      else (case Split s c of [] \<Rightarrow> [[d]] | w # ws \<Rightarrow> (d # w) # ws))"

definition LastIndexByte :: "string \<Rightarrow> char \<Rightarrow> nat option" where
  "LastIndexByte s c = map_option (\<lambda>i. length s - Suc i) (IndexByte (rev s) c)"

fun Join :: "string list \<Rightarrow> char \<Rightarrow> string" where
  "Join [] c = []"
| "Join [w] c = w"
| "Join (w # ws) c = w @ c # Join ws c"

lemma HasPrefix_iff: "HasPrefix s p \<longleftrightarrow> (\<exists>r. s = p @ r)"
  by (induction s p rule: HasPrefix.induct) auto

lemma Contains_iff: "Contains s p \<longleftrightarrow> (\<exists>a b. s = a @ p @ b)"
proof (induction s p rule: Contains.induct)
  case (1 p)
  show ?case by simp
next
  case (2 c s p)
  show ?case (is "_ \<longleftrightarrow> ?R")
  proof
    assume "Contains (c # s) p"
    then consider "HasPrefix (c # s) p" | "Contains s p" by auto
    then show ?R
    proof cases
      case 1
      then show ?thesis unfolding HasPrefix_iff by (metis append_Nil)
    next
      case 2
      then show ?thesis using "2.IH" by (metis append_Cons)
    qed
  next
    assume ?R
    then obtain a b where ab: "c # s = a @ p @ b" by blast
    show "Contains (c # s) p"
    proof (cases a)
      case Nil
      with ab have "HasPrefix (c # s) p" unfolding HasPrefix_iff by auto
      then show ?thesis by simp
    next
      case (Cons d a')
      with ab have "s = a' @ p @ b" by simp
      with "2.IH" have "Contains s p" by blast
      then show ?thesis by simp
    qed
  qed
qed

lemma IndexByte_Some:
  "IndexByte s c = Some i \<Longrightarrow> i < length s \<and> s ! i = c \<and> c \<notin> set (take i s)"
  by (induction s arbitrary: i) (auto split: if_splits)

lemma IndexByte_None: "IndexByte s c = None \<longleftrightarrow> c \<notin> set s"
  by (induction s) auto

lemma IndexByte_append: "c \<notin> set s \<Longrightarrow> IndexByte (s @ c # r) c = Some (length s)"
  by (induction s) auto

lemma Split_nonempty: "Split s c \<noteq> []"
  by (cases s) (auto split: list.splits)

lemma Split_absent: "c \<notin> set s \<Longrightarrow> Split s c = [s]"
  by (induction s) auto

lemma Split_append: "c \<notin> set s \<Longrightarrow> Split (s @ c # r) c = s # Split r c"
  by (induction s) auto

lemma Split_no_sep: "w \<in> set (Split s c) \<Longrightarrow> c \<notin> set w"
proof (induction s arbitrary: w)
  case Nil
  then show ?case by simp
next
  case (Cons d s)
  obtain v vs where v: "Split s c = v # vs"
    using Split_nonempty [of s c] by (cases "Split s c") auto
  show ?case using Cons by (auto simp: v split: if_splits)
qed

lemma Join_Split: "Join (Split s c) c = s"
proof (induction s)
  case Nil
  show ?case by simp
next
  case (Cons d s)
  obtain v vs where v: "Split s c = v # vs"
    using Split_nonempty [of s c] by (cases "Split s c") auto
  with Cons show ?case by (cases vs) auto
qed

section \<open>Decimal numbers\<close>

definition digit_char :: "nat \<Rightarrow> char" where
  "digit_char d = char_of (48 + d)"

definition is_digit :: "char \<Rightarrow> bool" where
  "is_digit c = (48 \<le> (of_char c :: nat) \<and> (of_char c :: nat) \<le> 57)"

definition digit_val :: "char \<Rightarrow> nat" where
  "digit_val c = of_char c - 48"

fun itoa_nat :: "nat \<Rightarrow> string" where
  "itoa_nat n = (if n < 10 then [digit_char n] else itoa_nat (n div 10) @ [digit_char (n mod 10)])"

declare itoa_nat.simps [simp del]

definition Itoa :: "int \<Rightarrow> string" where
  "Itoa i = (if i < 0 then CHR ''-'' # itoa_nat (nat (- i)) else itoa_nat (nat i))"

definition digits_val :: "nat \<Rightarrow> string \<Rightarrow> nat" where
  "digits_val n s = fold (\<lambda>c a. a * 10 + digit_val c) s n"

datatype num_error = ErrSyntax | ErrRange

text \<open>\<open>strconv.Atoi\<close>: an optional sign and at least one digit. On a syntax error the value is 0;
  on a range error it is the nearest 64-bit integer, beside the error.\<close>

definition atoi_mag :: "bool \<Rightarrow> string \<Rightarrow> int \<times> num_error option" where
  "atoi_mag neg ds =
     (if ds = [] \<or> \<not> list_all is_digit ds then (0, Some ErrSyntax)
      else let v = int (digits_val 0 ds) in
        if neg then (if v > 2 ^ 63 then (MinInt64, Some ErrRange) else (- v, None))
        else (if v \<ge> 2 ^ 63 then (MaxInt64, Some ErrRange) else (v, None)))"

definition Atoi :: "string \<Rightarrow> int \<times> num_error option" where
  "Atoi s = (case s of
       [] \<Rightarrow> (0, Some ErrSyntax)
     | c # ds \<Rightarrow> if c = CHR ''-'' then atoi_mag True ds
                else if c = CHR ''+'' then atoi_mag False ds
                else atoi_mag False s)"

definition ParseBool :: "string \<Rightarrow> bool option" where
  "ParseBool s =
     (if s \<in> set [''1'', ''t'', ''T'', ''TRUE'', ''true'', ''True''] then Some True
      else if s \<in> set [''0'', ''f'', ''F'', ''FALSE'', ''false'', ''False''] then Some False
      else None)"

lemma digit_char_digit: "d < 10 \<Longrightarrow> is_digit (digit_char d) \<and> digit_val (digit_char d) = d"
  by (simp add: is_digit_def digit_val_def digit_char_def)

lemma digits_val_append: "digits_val n (s @ t) = digits_val (digits_val n s) t"
  by (simp add: digits_val_def)

lemma itoa_nat_digits: "itoa_nat n \<noteq> [] \<and> list_all is_digit (itoa_nat n)"
proof (induction n rule: itoa_nat.induct)
  case (1 n)
  then show ?case
    by (subst (1 2) itoa_nat.simps) (auto simp: digit_char_digit)
qed

lemma digits_val_itoa_nat: "digits_val 0 (itoa_nat n) = n"
proof (induction n rule: itoa_nat.induct)
  case (1 n)
  show ?case
  proof (cases "n < 10")
    case True
    then show ?thesis
      by (subst itoa_nat.simps) (simp add: digits_val_def digit_char_digit)
  next
    case False
    have "digits_val 0 (itoa_nat n) = digits_val (digits_val 0 (itoa_nat (n div 10))) [digit_char (n mod 10)]"
      using False by (subst itoa_nat.simps) (simp add: digits_val_append)
    also have "\<dots> = (n div 10) * 10 + n mod 10"
      using "1.IH" [OF False] by (simp add: digits_val_def digit_char_digit)
    finally show ?thesis by simp
  qed
qed

lemma is_digit_not_sign: "is_digit c \<Longrightarrow> c \<noteq> CHR ''-'' \<and> c \<noteq> CHR ''+'' \<and> c \<noteq> CHR ''.'' \<and> c \<noteq> CHR ''/''"
  by (auto simp: is_digit_def)

lemma Atoi_digits:
  assumes "list_all is_digit ds" and "ds \<noteq> []" and "digits_val 0 ds < 2 ^ 63"
  shows "Atoi ds = (int (digits_val 0 ds), None)"
proof -
  obtain c cs where ds: "ds = c # cs" using assms(2) by (cases ds) auto
  have sg: "c \<noteq> CHR ''-''" "c \<noteq> CHR ''+''"
    using assms(1) is_digit_not_sign [of c] unfolding ds by auto
  have "int (digits_val 0 ds) < 2 ^ 63"
    using assms(3) by (metis of_nat_less_iff of_nat_numeral of_nat_power)
  then show ?thesis
    using assms(1) sg unfolding ds by (auto simp: Atoi_def atoi_mag_def Let_def)
qed

lemma Atoi_Itoa:
  assumes "MinInt64 \<le> i" and "i \<le> MaxInt64"
  shows "Atoi (Itoa i) = (i, None)"
proof (cases "i < 0")
  case True
  then have "nat (- i) \<le> 2 ^ 63"
    using assms by (simp add: MinInt64_def)
  with True show ?thesis
    using itoa_nat_digits [of "nat (- i)"]
    by (simp add: Itoa_def Atoi_def atoi_mag_def Let_def digits_val_itoa_nat)
next
  case False
  then have "nat i < 2 ^ 63"
    using assms by (simp add: MaxInt64_def)
  with False show ?thesis
    using itoa_nat_digits [of "nat i"] Atoi_digits [of "itoa_nat (nat i)"]
    by (simp add: Itoa_def digits_val_itoa_nat)
qed

lemma Itoa_nonneg_chars: "0 \<le> i \<Longrightarrow> c \<in> set (Itoa i) \<Longrightarrow> is_digit c"
  using itoa_nat_digits [of "nat i"] by (auto simp: Itoa_def list_all_iff)

lemma Itoa_inj:
  assumes "0 \<le> i" and "0 \<le> j" and "Itoa i = Itoa j"
  shows "i = j"
proof -
  have "itoa_nat (nat i) = itoa_nat (nat j)"
    using assms by (simp add: Itoa_def)
  then have "nat i = nat j"
    by (metis digits_val_itoa_nat)
  then show ?thesis using assms by simp
qed

end
