(* ===== verification/Objects.thy ===== *)
theory Objects
  imports GoStrings
begin

text \<open>
  The Kubernetes and EC2 objects the controller reads, reduced to the fields its code uses, and
  the per-instance-type limits of \<open>pkg/aws/vpc/limits.go\<close>. The generated table of limits is an
  argument \<open>Limits\<close> of the definitions that look an instance type up, so that the theorems hold
  for every table; the program's own table is in \<open>Limits_Table\<close>.
\<close>

section \<open>Kubernetes objects\<close>

datatype pod_phase = PodPending | PodRunning | PodSucceeded | PodFailed | PodUnknown

text \<open>A resource request is an integer quantity, or a quantity \<open>AsInt64\<close> cannot convert.\<close>

record container =
  Requests :: "(string, int option) gomap"

record pod =
  PodName :: string
  PodNamespace :: string
  PodUID :: string
  PodAnnotations :: "(string, string) gomap"
  PodLabels :: "(string, string) gomap"
  PodNodeName :: string
  PodServiceAccount :: string
  PodPhase :: pod_phase
  PodContainers :: "container list"

definition pod_completed :: "pod \<Rightarrow> bool" where
  "pod_completed p = (PodPhase p = PodSucceeded \<or> PodPhase p = PodFailed)"

text \<open>The data of a ConfigMap; a nil map is \<open>None\<close>.\<close>

type_synonym config_map = "(string, string) gomap option"

section \<open>Instance limits\<close>

record network_card =
  MaximumNetworkInterfaces :: int
  NetworkCardIndex :: int

record vpc_limits =
  Interface :: int
  IPv4PerInterface :: int
  IsTrunkingCompatible :: bool
  BranchInterface :: int
  NetworkCards :: "network_card list"
  DefaultNetworkCardIndex :: int
  Hypervisor :: string
  IsBareMetal :: bool

type_synonym limits_table = "string \<Rightarrow> vpc_limits option"

text \<open>One row of the table, for the closed instances of the theorems.\<close>

definition limits_a1_medium :: vpc_limits where
  "limits_a1_medium = \<lparr>Interface = 2, IPv4PerInterface = 4, IsTrunkingCompatible = True,
     BranchInterface = 10,
     NetworkCards = [\<lparr>MaximumNetworkInterfaces = 2, NetworkCardIndex = 0\<rparr>],
     DefaultNetworkCardIndex = 0, Hypervisor = ''nitro'', IsBareMetal = False\<rparr>"

definition sample_limits :: limits_table where
  "sample_limits ty = (if ty = ''a1.medium'' then Some limits_a1_medium else None)"

section \<open>EC2 objects\<close>

text \<open>Tags, the network interface a create call returns, and the interface list of an instance.\<close>

type_synonym ec2_tag = "string \<times> string"

record conn_tracking =
  TcpEstablishedTimeout :: "int option"
  UdpStreamTimeout :: "int option"
  UdpTimeout :: "int option"

record network_interface =
  NetworkInterfaceId :: string
  MacAddress :: string
  NIPrivateIpAddress :: "string option"
  NIIpv6Address :: "string option"
  TagSet :: "ec2_tag list"

text \<open>One entry of an instance's \<open>NetworkInterfaces\<close>: \<open>InterfaceType\<close> is \<open>None\<close> when the instance
  is being deleted; the secondary addresses come with their \<open>Primary\<close> flag, and a nil address
  list is \<open>None\<close>.\<close>

record instance_interface =
  INetworkInterfaceId :: string
  InterfaceType :: "string option"
  ISubnetId :: string
  IGroups :: "string list"
  IPrivateIpAddresses :: "(string \<times> bool) list option"
  IIpv4Prefixes :: "string list"
  IDeviceIndex :: int
  IPrivateIpAddress :: "string option"
  IConnTracking :: "conn_tracking option"

end
