(* ===== verification/Utils.thy ===== *)
theory Utils
  imports Objects
begin

text \<open>
  \<open>pkg/utils\<close>: the arithmetic helpers of \<open>math.go\<close>, the set difference of \<open>set.go\<close>, the retry
  classification of \<open>errors.go\<close>, and from \<open>helper.go\<close> the duplicate removal on security groups,
  the matching of SecurityGroupPolicies, the expansion of an IPv4 prefix into addresses, the
  Nitro test, the checked 32-bit conversion and the instance ID check. Label selectors belong to
  the Kubernetes libraries: \<open>sel_matches\<close> is an argument, \<open>None\<close> for a selector that cannot be
  converted.
\<close>

section \<open>math.go\<close>

definition Minimum :: "'a::linorder \<Rightarrow> 'a \<Rightarrow> 'a" where
  "Minimum a b = (if a < b then a else b)"

definition Maximum :: "'a::linorder \<Rightarrow> 'a \<Rightarrow> 'a" where
  "Maximum a b = (if a > b then a else b)"

text \<open>\<open>MinOf\<close> and \<open>MaxOf\<close> index the first argument: a call without arguments panics (\<open>None\<close>).\<close>

definition MinOf :: "'a::linorder list \<Rightarrow> 'a option" where
  "MinOf vars = (case vars of [] \<Rightarrow> None
     | x # _ \<Rightarrow> Some (fold (\<lambda>v result. if result > v then v else result) vars x))"

definition MaxOf :: "'a::linorder list \<Rightarrow> 'a option" where
  "MaxOf vars = (case vars of [] \<Rightarrow> None
     | x # _ \<Rightarrow> Some (fold (\<lambda>v result. if result < v then v else result) vars x))"

definition CeilDivision :: "int \<Rightarrow> int \<Rightarrow> int" where
  "CeilDivision x y = go_div (i64 (i64 (x + y) - 1)) y"

definition IntPower :: "int \<Rightarrow> int \<Rightarrow> int" where
  "IntPower n m = (if m = 0 then 1 else ((\<lambda>result. i64 (result * n)) ^^ nat (m - 1)) n)"

section \<open>set.go, map.go, errors.go\<close>

definition Difference :: "'a list \<Rightarrow> 'a list \<Rightarrow> 'a list" where
  "Difference a b = filter (\<lambda>item. item \<notin> set b) a"

definition GetKeyValSlice :: "(string, string) gomap \<Rightarrow> string list \<times> string list" where
  "GetKeyValSlice m = fold (\<lambda>(k, v) (key, val). (key @ [k], val @ [v])) m ([], [])"

definition GetTagKeyValueMap :: "ec2_tag list \<Rightarrow> (string, string) gomap" where
  "GetTagKeyValueMap tagSet = fold (\<lambda>(k, v) m. mput m k v) tagSet []"

definition CopyMap :: "(string, string) gomap \<Rightarrow> (string, string) gomap" where
  "CopyMap original = fold (\<lambda>(k, v) m. mput m k v) original []"

definition InsufficientCidrBlocksReason :: string where
  "InsufficientCidrBlocksReason = ''InsufficientCidrBlocks''"

definition NotRetryErrors :: "string list" where
  "NotRetryErrors = [InsufficientCidrBlocksReason]"

fun should_retry_loop :: "string \<Rightarrow> string list \<Rightarrow> bool" where
  "should_retry_loop err [] = True"
| "should_retry_loop err (e # es) = (if HasPrefix err e then False else should_retry_loop err es)"

definition ShouldRetryOnError :: "string \<Rightarrow> bool" where
  "ShouldRetryOnError err = should_retry_loop err NotRetryErrors"

section \<open>helper.go\<close>

definition dedup_step :: "string \<Rightarrow> string list \<times> (string, bool) gomap \<Rightarrow> string list \<times> (string, bool) gomap" where
  "dedup_step sg st = (case st of (processedList, seen) \<Rightarrow>
     if mhas seen sg then (processedList, seen) else (processedList @ [sg], mput seen sg True))"

definition RemoveDuplicatedSg :: "string list \<Rightarrow> string list" where
  "RemoveDuplicatedSg xs = fst (fold dedup_step xs ([], []))"

record 'sel sgp =
  SgpPodSelector :: "'sel option"
  SgpServiceAccountSelector :: "'sel option"
  SgpGroups :: "string list"

definition sgp_valid :: "'sel sgp \<Rightarrow> bool" where
  "sgp_valid p = (\<not> ((SgpPodSelector p = None \<and> SgpServiceAccountSelector p = None) \<or> SgpGroups p = []))"

definition sgp_selected ::
  "('sel option \<Rightarrow> (string, string) gomap \<Rightarrow> bool option) \<Rightarrow> (string, string) gomap \<Rightarrow>
   (string, string) gomap \<Rightarrow> 'sel sgp \<Rightarrow> bool" where
  "sgp_selected sel_matches podLabels saLabels p =
     (let podMatched = (sel_matches (SgpPodSelector p) podLabels = Some True);
          saMatched = (sel_matches (SgpServiceAccountSelector p) saLabels = Some True)
      in \<not> ((SgpPodSelector p \<noteq> None \<and> \<not> podMatched) \<or>
            (SgpServiceAccountSelector p \<noteq> None \<and> \<not> saMatched)))"

fun filter_sgp_loop ::
  "('sel option \<Rightarrow> (string, string) gomap \<Rightarrow> bool option) \<Rightarrow> (string, string) gomap \<Rightarrow>
   (string, string) gomap \<Rightarrow> 'sel sgp list \<Rightarrow> string list \<Rightarrow> string list" where
  "filter_sgp_loop sel_matches pl sl [] sgList = sgList"
| "filter_sgp_loop sel_matches pl sl (p # ps) sgList =
     (if \<not> sgp_valid p then filter_sgp_loop sel_matches pl sl ps sgList
      else if \<not> sgp_selected sel_matches pl sl p then filter_sgp_loop sel_matches pl sl ps sgList
      else filter_sgp_loop sel_matches pl sl ps (sgList @ SgpGroups p))"

definition filterPodSecurityGroups ::
  "('sel option \<Rightarrow> (string, string) gomap \<Rightarrow> bool option) \<Rightarrow> 'sel sgp list \<Rightarrow>
   (string, string) gomap \<Rightarrow> (string, string) gomap \<Rightarrow> string list" where
  "filterPodSecurityGroups sel_matches sgpList podLabels saLabels =
     RemoveDuplicatedSg (filter_sgp_loop sel_matches podLabels saLabels sgpList [])"

datatype list_error = NoMatchError | OtherListError string

text \<open>\<open>GetMatchingSecurityGroupForPods\<close>: the two client reads (the policies of the namespace, the
  labels of the pod's service account) are arguments.\<close>

definition GetMatchingSecurityGroupForPods ::
  "('sel option \<Rightarrow> (string, string) gomap \<Rightarrow> bool option) \<Rightarrow>
   (string \<Rightarrow> list_error + 'sel sgp list) \<Rightarrow>
   (string \<Rightarrow> string \<Rightarrow> string + (string, string) gomap) \<Rightarrow> pod \<Rightarrow> string + string list" where
  "GetMatchingSecurityGroupForPods sel_matches listSGP getSA p =
     (case listSGP (PodNamespace p) of
        Inl NoMatchError \<Rightarrow> Inr []
      | Inl (OtherListError e) \<Rightarrow> Inl e
      | Inr sgpList \<Rightarrow>
         (case getSA (PodNamespace p) (PodServiceAccount p) of
            Inl e \<Rightarrow> Inl e
          | Inr saLabels \<Rightarrow> Inr (filterPodSecurityGroups sel_matches sgpList (PodLabels p) saLabels)))"

datatype prefix_error = InvalidPrefix | PrefixNumError num_error

fun deconstruct_loop :: "string \<Rightarrow> string \<Rightarrow> nat \<Rightarrow> nat \<Rightarrow> string list \<Rightarrow> prefix_error + string list" where
  "deconstruct_loop networkAddr host i 0 ips = Inr ips"
| "deconstruct_loop networkAddr host i (Suc left) ips =
     (case Atoi host of
        (_, Some e) \<Rightarrow> Inl (PrefixNumError e)
      | (hostAddr, None) \<Rightarrow>
          deconstruct_loop networkAddr host (Suc i) left
            (ips @ [networkAddr @ Itoa (i64 (hostAddr + int i)) @ ''/32'']))"

definition DeconstructIPsFromPrefix :: "string \<Rightarrow> prefix_error + string list" where
  "DeconstructIPsFromPrefix prefix =
     (case IndexByte prefix (CHR ''/'') of
        None \<Rightarrow> Inl InvalidPrefix
      | Some index \<Rightarrow>
         (case Split (take index prefix) (CHR ''.'') of
            [a0, a1, a2, a3] \<Rightarrow>
             (let networkAddr = a0 @ ''.'' @ a1 @ ''.'' @ a2 @ ''.'' in
              case Atoi (drop (Suc index) prefix) of
                (_, Some e) \<Rightarrow> Inl (PrefixNumError e)
              | (maskBits, None) \<Rightarrow>
                  if maskBits < 0 \<or> maskBits > 32 then Inl InvalidPrefix
                  else deconstruct_loop networkAddr a3 0 (nat (IntPower 2 (32 - maskBits))) [])
          | _ \<Rightarrow> Inl InvalidPrefix))"

definition IsNitroInstance :: "limits_table \<Rightarrow> string \<Rightarrow> bool option" where
  "IsNitroInstance Limits instanceType =
     (case Limits instanceType of
        None \<Rightarrow> None
      | Some limits \<Rightarrow> Some (IsBareMetal limits \<or> Hypervisor limits = ''nitro''))"

definition PodHasENIRequest :: "string \<Rightarrow> pod option \<Rightarrow> bool" where
  "PodHasENIRequest resourceName p =
     (case p of None \<Rightarrow> False
      | Some pd \<Rightarrow> list_ex (\<lambda>c. mhas (Requests c) resourceName) (PodContainers pd))"

definition IntToInt32 :: "int \<Rightarrow> int option" where
  "IntToInt32 value = (if value < -2147483648 \<or> value > 2147483647 then None else Some value)"

definition is_lower_hex :: "char \<Rightarrow> bool" where
  "is_lower_hex c = (is_digit c \<or> (97 \<le> (of_char c :: nat) \<and> (of_char c :: nat) \<le> 102))"

text \<open>The regular expression \<open>^i-(?:[a-f0-9]{8}|[a-f0-9]{17})$\<close>.\<close>

definition instanceIDRegex :: "string \<Rightarrow> bool" where
  "instanceIDRegex s =
     (take 2 s = ''i-'' \<and> (length (drop 2 s) = 8 \<or> length (drop 2 s) = 17) \<and>
      list_all is_lower_hex (drop 2 s))"

datatype node_id_error = ProviderIDUnset | ProviderIDFormat | NotInstanceID

definition GetNodeID :: "string \<Rightarrow> node_id_error + string" where
  "GetNodeID providerID =
     (if providerID = '''' then Inl ProviderIDUnset
      else case LastIndexByte providerID (CHR ''/'') of
        None \<Rightarrow> Inl ProviderIDFormat
      | Some idx \<Rightarrow>
          if idx \<ge> length providerID - 1 then Inl ProviderIDFormat
          else let instanceID = drop (Suc idx) providerID in
            if \<not> instanceIDRegex instanceID then Inl NotInstanceID else Inr instanceID)"

section \<open>Lemmas\<close>

lemma MinOf_Min: "vars \<noteq> [] \<Longrightarrow> MinOf vars = Some (Min (set vars))"
proof -
  have "(\<lambda>v result. if result > v then v else result) = (min :: 'a \<Rightarrow> 'a \<Rightarrow> 'a)"
    by (intro ext) (auto simp: min_def)
  then show "vars \<noteq> [] \<Longrightarrow> MinOf vars = Some (Min (set vars))"
    by (cases vars) (auto simp: MinOf_def Min.set_eq_fold simp del: list.set)
qed

lemma MaxOf_Max: "vars \<noteq> [] \<Longrightarrow> MaxOf vars = Some (Max (set vars))"
proof -
  have "(\<lambda>v result. if result < v then v else result) = (max :: 'a \<Rightarrow> 'a \<Rightarrow> 'a)"
    by (intro ext) (auto simp: max_def)
  then show "vars \<noteq> [] \<Longrightarrow> MaxOf vars = Some (Max (set vars))"
    by (cases vars) (auto simp: MaxOf_def Max.set_eq_fold simp del: list.set)
qed

lemma CeilDivision_exact:
  assumes "0 \<le> x" and "0 < y" and "x + y \<le> MaxInt64"
  shows "CeilDivision x y = (x + y - 1) div y"
proof -
  have "i64 (x + y) = x + y" "i64 (x + y - 1) = x + y - 1"
    using assms by (auto intro!: i64_id simp: MinInt64_def)
  then show ?thesis using assms by (simp add: CeilDivision_def go_div_nonneg)
qed

lemma ceil_div_bounds:
  fixes x y :: int
  assumes "0 < y"
  shows "x \<le> y * ((x + y - 1) div y)" and "y * ((x + y - 1) div y) < x + y"
proof -
  have e: "y * ((x + y - 1) div y) + (x + y - 1) mod y = x + y - 1"
    by (rule mult_div_mod_eq)
  have "0 \<le> (x + y - 1) mod y" and "(x + y - 1) mod y < y" using assms by simp_all
  with e show "x \<le> y * ((x + y - 1) div y)" and "y * ((x + y - 1) div y) < x + y"
    by linarith+
qed

lemma IntPower_loop:
  assumes "0 < n" and "n ^ Suc k \<le> MaxInt64"
  shows "((\<lambda>result. i64 (result * n)) ^^ k) n = n ^ Suc k"
  using assms(2)
proof (induction k)
  case 0
  then show ?case by simp
next
  case (Suc k)
  have "n ^ Suc k \<le> n ^ Suc (Suc k)"
    using assms(1) by (intro power_increasing) auto
  then have "((\<lambda>result. i64 (result * n)) ^^ k) n = n ^ Suc k"
    using Suc by auto
  moreover have "i64 (n ^ Suc k * n) = n ^ Suc (Suc k)"
  proof -
    have "0 \<le> n ^ Suc (Suc k)" using assms(1) by simp
    moreover have "MinInt64 \<le> 0" by (simp add: MinInt64_def)
    ultimately show ?thesis
      using Suc.prems i64_id [of "n ^ Suc (Suc k)"] by (simp add: mult.commute mult.left_commute)
  qed
  ultimately show ?case by simp
qed

lemma IntPower_power:
  assumes "0 < n" and "0 \<le> m" and "n ^ nat m \<le> MaxInt64"
  shows "IntPower n m = n ^ nat m"
proof (cases "m = 0")
  case False
  then have "nat m = Suc (nat (m - 1))" using assms(2) by simp
  then show ?thesis using assms IntPower_loop [of n "nat (m - 1)"] False
    by (simp add: IntPower_def)
qed (simp add: IntPower_def)

lemma IntPower_two:
  assumes "0 \<le> m" and "m \<le> 32"
  shows "IntPower 2 (32 - m) = 2 ^ nat (32 - m)"
proof (rule IntPower_power)
  have "(2::int) ^ nat (32 - m) \<le> 2 ^ 32" using assms by (intro power_increasing) auto
  then show "(2::int) ^ nat (32 - m) \<le> MaxInt64" by (simp add: MaxInt64_def)
qed (use assms in auto)

lemma Difference_set: "set (Difference a b) = set a - set b"
  by (auto simp: Difference_def)

lemma Difference_distinct: "distinct a \<Longrightarrow> distinct (Difference a b)"
  by (simp add: Difference_def)

lemma Difference_append: "Difference (a @ c) b = Difference a b @ Difference c b"
  by (simp add: Difference_def)

lemma ShouldRetryOnError_iff: "ShouldRetryOnError err \<longleftrightarrow> \<not> HasPrefix err InsufficientCidrBlocksReason"
  by (simp add: ShouldRetryOnError_def NotRetryErrors_def)

lemma dedup_fold:
  assumes "set (mkeys seen) = set out" and "distinct out"
  shows "distinct (fst (fold dedup_step xs (out, seen))) \<and>
         set (fst (fold dedup_step xs (out, seen))) = set out \<union> set xs"
  using assms
proof (induction xs arbitrary: out seen)
  case Nil
  then show ?case by simp
next
  case (Cons x xs)
  show ?case
  proof (cases "x \<in> set out")
    case True
    then have "dedup_step x (out, seen) = (out, seen)"
      using Cons.prems by (simp add: dedup_step_def mhas_iff)
    then show ?thesis using Cons.IH [OF Cons.prems] True by auto
  next
    case False
    then have "dedup_step x (out, seen) = (out @ [x], mput seen x True)"
      using Cons.prems by (simp add: dedup_step_def mhas_iff)
    then show ?thesis
      using Cons.IH [of "mput seen x True" "out @ [x]"] Cons.prems False by auto
  qed
qed

lemma RemoveDuplicatedSg_spec:
  "distinct (RemoveDuplicatedSg xs)" "set (RemoveDuplicatedSg xs) = set xs"
  using dedup_fold [of "[]" "[]" xs] by (simp_all add: RemoveDuplicatedSg_def mkeys_def)

lemma filter_sgp_loop_concat:
  "filter_sgp_loop sel_matches pl sl ps acc =
     acc @ concat (map SgpGroups (filter (\<lambda>p. sgp_valid p \<and> sgp_selected sel_matches pl sl p) ps))"
  by (induction ps arbitrary: acc) auto

lemma deconstruct_loop_map:
  assumes "Atoi host = (h, None)"
  shows "deconstruct_loop net host i n acc =
    Inr (acc @ map (\<lambda>j. net @ Itoa (i64 (h + int j)) @ ''/32'') [i..<i + n])"
proof (induction n arbitrary: i acc)
  case (Suc n)
  have "[i..<i + Suc n] = i # [Suc i..<Suc i + n]" by (simp add: upt_rec)
  then show ?case using assms Suc [of "Suc i"] by simp
qed simp

lemma Split_three_dots:
  assumes "CHR ''.'' \<notin> set a" "CHR ''.'' \<notin> set b" "CHR ''.'' \<notin> set c" "CHR ''.'' \<notin> set d"
  shows "Split (a @ ''.'' @ b @ ''.'' @ c @ ''.'' @ d) (CHR ''.'') = [a, b, c, d]"
  using assms by (simp add: Split_append Split_absent)

lemma digits_no_sep:
  assumes "list_all is_digit s"
  shows "CHR ''.'' \<notin> set s" and "CHR ''/'' \<notin> set s"
  using assms is_digit_not_sign by (auto simp: list_all_iff)

section \<open>Properties\<close>

text \<open>A well-formed IPv4 prefix \<open>a.b.c.h/m\<close> is expanded into its \<open>2 ^ (32 - m)\<close> addresses
  \<open>a.b.c.h/32\<close>, \<open>a.b.c.(h+1)/32\<close>, and so on, in order and all different.\<close>

theorem deconstruct_prefix:
  assumes "CHR ''.'' \<notin> set a" "CHR ''/'' \<notin> set a" "CHR ''.'' \<notin> set b" "CHR ''/'' \<notin> set b"
    and "CHR ''.'' \<notin> set c" "CHR ''/'' \<notin> set c"
    and "list_all is_digit host" "host \<noteq> []" "digits_val 0 host < 2 ^ 62" and "m \<le> 32"
  shows "DeconstructIPsFromPrefix
      (a @ ''.'' @ b @ ''.'' @ c @ ''.'' @ host @ ''/'' @ Itoa (int m)) =
    Inr (map (\<lambda>i. a @ ''.'' @ b @ ''.'' @ c @ ''.'' @ Itoa (int (digits_val 0 host + i)) @ ''/32'')
      [0..<2 ^ (32 - m)]) \<and>
    distinct (map (\<lambda>i. a @ ''.'' @ b @ ''.'' @ c @ ''.'' @ Itoa (int (digits_val 0 host + i)) @ ''/32'')
      [0..<2 ^ (32 - m)])"
proof -
  define h where "h = digits_val 0 host"
  define net where "net = a @ ''.'' @ b @ ''.'' @ c @ ''.''"
  have sl: "CHR ''/'' \<notin> set (net @ host)"
    using assms digits_no_sep by (auto simp: net_def)
  have idx: "IndexByte ((net @ host) @ CHR ''/'' # Itoa (int m)) (CHR ''/'') = Some (length (net @ host))"
    by (rule IndexByte_append [OF sl])
  have spl: "Split (net @ host) (CHR ''.'') = [a, b, c, host]"
    using Split_three_dots [of a b c host] assms digits_no_sep(1) by (simp add: net_def)
  have mask: "Atoi (Itoa (int m)) = (int m, None)"
    using assms(10) by (intro Atoi_Itoa) (auto simp: MinInt64_def MaxInt64_def)
  have hst: "Atoi host = (int h, None)"
    using Atoi_digits [OF assms(7,8)] assms(9) by (simp add: h_def)
  have pw: "nat (IntPower 2 (32 - int m)) = 2 ^ (32 - m)"
  proof -
    have "nat (32 - int m) = 32 - m" using assms(10) by linarith
    then show ?thesis using IntPower_two [of "int m"] assms(10) by (simp add: nat_power_eq)
  qed
  have wrap: "i64 (int h + int i) = int (h + i)" if "i < 2 ^ (32 - m)" for i
  proof -
    have "(2::nat) ^ (32 - m) \<le> 2 ^ 32" by (intro power_increasing) auto
    then have "i < 2 ^ 32" using that by linarith
    then have "int h + int i \<le> MaxInt64" using assms(9) by (simp add: h_def MaxInt64_def)
    then show ?thesis by (simp add: go_int MinInt64_def)
  qed
  have "DeconstructIPsFromPrefix ((net @ host) @ CHR ''/'' # Itoa (int m)) =
      deconstruct_loop net host 0 (nat (IntPower 2 (32 - int m))) []"
  proof -
    have tk: "take (length (net @ host)) ((net @ host) @ CHR ''/'' # Itoa (int m)) = net @ host"
      and dr: "drop (Suc (length (net @ host))) ((net @ host) @ CHR ''/'' # Itoa (int m)) = Itoa (int m)"
      by simp_all
    show ?thesis
      unfolding DeconstructIPsFromPrefix_def idx option.case tk spl list.case dr mask Let_def prod.case
        net_def [symmetric]
      using assms(10) by (simp add: net_def)
  qed
  also have "\<dots> = Inr (map (\<lambda>i. net @ Itoa (i64 (int h + int i)) @ ''/32'') [0..<2 ^ (32 - m)])"
    by (simp add: deconstruct_loop_map [OF hst] pw)
  also have "\<dots> = Inr (map (\<lambda>i. net @ Itoa (int (h + i)) @ ''/32'') [0..<2 ^ (32 - m)])"
    using wrap by simp
  finally have eq: "DeconstructIPsFromPrefix ((net @ host) @ CHR ''/'' # Itoa (int m)) =
      Inr (map (\<lambda>i. net @ Itoa (int (h + i)) @ ''/32'') [0..<2 ^ (32 - m)])" .
  have "distinct (map (\<lambda>i. net @ Itoa (int (h + i)) @ ''/32'') [0..<2 ^ (32 - m)])"
    by (auto simp: distinct_map inj_on_def dest!: Itoa_inj [rotated 2])
  then show ?thesis using eq by (simp add: net_def h_def)
qed

theorem deconstruct_prefix_witness:
  "DeconstructIPsFromPrefix (''10'' @ ''.'' @ ''0'' @ ''.'' @ ''1'' @ ''.'' @ ''16'' @ ''/'' @ Itoa (int 31)) =
   Inr (map (\<lambda>i. ''10'' @ ''.'' @ ''0'' @ ''.'' @ ''1'' @ ''.'' @ Itoa (int (digits_val 0 ''16'' + i)) @ ''/32'')
     [0..<2 ^ (32 - 31)])"
  using deconstruct_prefix [of "''10''" "''0''" "''1''" "''16''" 31]
  by (simp add: is_digit_def digits_val_def digit_val_def)

text \<open>The security groups of a pod are exactly the groups of the valid policies of its
  namespace that select it, each once: a policy without selectors or without groups, or with a
  selector that does not match or cannot be converted, contributes none.\<close>

theorem filterPodSecurityGroups_exact:
  "distinct (filterPodSecurityGroups sel_matches sgps podLabels saLabels) \<and>
   set (filterPodSecurityGroups sel_matches sgps podLabels saLabels) =
     {g. \<exists>p \<in> set sgps. g \<in> set (SgpGroups p) \<and>
        (SgpPodSelector p \<noteq> None \<or> SgpServiceAccountSelector p \<noteq> None) \<and>
        (SgpPodSelector p \<noteq> None \<longrightarrow> sel_matches (SgpPodSelector p) podLabels = Some True) \<and>
        (SgpServiceAccountSelector p \<noteq> None \<longrightarrow>
           sel_matches (SgpServiceAccountSelector p) saLabels = Some True)}"
  using RemoveDuplicatedSg_spec
  by (auto simp: filterPodSecurityGroups_def filter_sgp_loop_concat sgp_valid_def sgp_selected_def Let_def)

theorem filterPodSecurityGroups_exact_witness:
  "filterPodSecurityGroups (\<lambda>s l. Some (s = Some ()))
     [\<lparr>SgpPodSelector = Some (), SgpServiceAccountSelector = None, SgpGroups = [''sg-1'', ''sg-1'']\<rparr>,
      \<lparr>SgpPodSelector = None, SgpServiceAccountSelector = None, SgpGroups = [''sg-2'']\<rparr>] [] [] = [''sg-1''] \<and>
   distinct (filterPodSecurityGroups (\<lambda>s l. Some (s = Some ()))
     [\<lparr>SgpPodSelector = Some (), SgpServiceAccountSelector = None, SgpGroups = [''sg-1'', ''sg-1'']\<rparr>] [] [])"
proof -
  have "filterPodSecurityGroups (\<lambda>s l. Some (s = Some ()))
     [\<lparr>SgpPodSelector = Some (), SgpServiceAccountSelector = None, SgpGroups = [''sg-1'', ''sg-1'']\<rparr>,
      \<lparr>SgpPodSelector = None, SgpServiceAccountSelector = None, SgpGroups = [''sg-2'']\<rparr>] [] [] = [''sg-1'']"
    by code_simp
  then show ?thesis using filterPodSecurityGroups_exact by blast
qed

lemma LastIndexByte_append:
  "c \<notin> set s \<Longrightarrow> LastIndexByte (r @ c # s) c = Some (length r)"
  using IndexByte_append [of c "rev s" "rev r"] by (simp add: LastIndexByte_def)

lemma LastIndexByte_Some:
  assumes "LastIndexByte s c = Some i"
  shows "i < length s \<and> s = take i s @ c # drop (Suc i) s"
proof -
  obtain j where j: "IndexByte (rev s) c = Some j" "i = length s - Suc j"
    using assms by (auto simp: LastIndexByte_def)
  then have "j < length s" "rev s ! j = c" using IndexByte_Some [OF j(1)] by auto
  then have "i < length s" "s ! i = c" using j(2) by (auto simp: rev_nth)
  then show ?thesis using id_take_nth_drop [of i s] by auto
qed

lemma instanceIDRegex_no_slash:
  assumes "instanceIDRegex s"
  shows "CHR ''/'' \<notin> set s \<and> s \<noteq> []"
proof -
  define d where "d = drop 2 s"
  have "s = ''i-'' @ d" using assms by (metis append_take_drop_id instanceIDRegex_def d_def)
  moreover have "CHR ''/'' \<notin> set d"
    using assms by (auto simp: d_def instanceIDRegex_def list_all_iff is_lower_hex_def is_digit_def)
  ultimately show ?thesis by simp
qed

text \<open>\<open>GetNodeID\<close> accepts exactly the provider IDs whose part after the last slash is an EC2
  instance ID, \<open>i-\<close> and 8 or 17 lower case hexadecimal digits, and returns that part.\<close>

theorem GetNodeID_exact:
  "GetNodeID providerID = Inr i \<longleftrightarrow> (\<exists>pre. providerID = pre @ ''/'' @ i) \<and> instanceIDRegex i"
proof
  assume g: "GetNodeID providerID = Inr i"
  then obtain idx where l: "LastIndexByte providerID (CHR ''/'') = Some idx"
    and i: "i = drop (Suc idx) providerID" "instanceIDRegex i"
    by (auto simp: GetNodeID_def Let_def split: if_splits option.splits)
  then show "(\<exists>pre. providerID = pre @ ''/'' @ i) \<and> instanceIDRegex i"
    using LastIndexByte_Some [OF l] by auto
next
  assume a: "(\<exists>pre. providerID = pre @ ''/'' @ i) \<and> instanceIDRegex i"
  then obtain pre where p: "providerID = pre @ CHR ''/'' # i" by auto
  have ns: "CHR ''/'' \<notin> set i" "i \<noteq> []" using a instanceIDRegex_no_slash by auto
  then have "length i > 0" by simp
  then show "GetNodeID providerID = Inr i"
    using a LastIndexByte_append [OF ns(1), of pre] by (auto simp: GetNodeID_def p Let_def)
qed

end
