(* ===== verification/Config.thy ===== *)
theory Config
  imports Utils
begin

text \<open>
  \<open>pkg/config\<close>: the names and default sizes of \<open>type.go\<close> and \<open>loader.go\<close>, the resource and
  warm pool configurations, and how the \<open>amazon-vpc-cni\<close> ConfigMap turns into the Windows IP
  targets; \<open>GetWinWarmPoolConfig\<close> is \<open>pkg/pool/utils.go\<close>. A pointer to a configuration that is
  reached through the returned map is held by value in the map.
\<close>

section \<open>type.go and the constants of loader.go\<close>

definition ResourceNamePodENI :: string where
  "ResourceNamePodENI = ''vpc.amazonaws.com/pod-eni''"

definition ResourceNameIPAddress :: string where
  "ResourceNameIPAddress = ''vpc.amazonaws.com/PrivateIPv4Address''"

definition ResourceTypeIPv4Address :: string where "ResourceTypeIPv4Address = ''IPv4Address''"
definition ResourceTypeIPv4Prefix :: string where "ResourceTypeIPv4Prefix = ''IPv4Prefix''"

definition ResourceNameIPAddressFromPrefix :: string where
  "ResourceNameIPAddressFromPrefix = ''vpc.amazonaws.com/PrivateIPv4AddressFromPrefix''"

definition NetworkInterfaceNodeIDKey :: string where "NetworkInterfaceNodeIDKey = ''node.k8s.amazonaws.com/instance_id''"
definition VPCCNIClusterNameKey :: string where "VPCCNIClusterNameKey = ''cluster.k8s.amazonaws.com/name''"

definition OSWindows :: string where "OSWindows = ''windows''"
definition OSLinux :: string where "OSLinux = ''linux''"

definition EnableWindowsPrefixDelegationKey :: string where
  "EnableWindowsPrefixDelegationKey = ''enable-windows-prefix-delegation''"
definition WarmPrefixTargetKey :: string where "WarmPrefixTargetKey = ''warm-prefix-target''"
definition WarmIPTargetKey :: string where "WarmIPTargetKey = ''warm-ip-target''"
definition MinimumIPTargetKey :: string where "MinimumIPTargetKey = ''minimum-ip-target''"
definition WinWarmPrefixTargetKey :: string where
  "WinWarmPrefixTargetKey = ''windows-warm-prefix-target''"
definition WinWarmIPTargetKey :: string where "WinWarmIPTargetKey = ''windows-warm-ip-target''"
definition WinMinimumIPTargetKey :: string where
  "WinMinimumIPTargetKey = ''windows-minimum-ip-target''"

definition VLandIDTag :: string where "VLandIDTag = ''vpcresources.k8s.aws/vlan-id''"
definition TrunkENIIDTag :: string where "TrunkENIIDTag = ''vpcresources.k8s.aws/trunk-eni-id''"
definition BranchENICooldownPeriodKey :: string where
  "BranchENICooldownPeriodKey = ''branch-eni-cooldown''"

text \<open>\<open>CoolDownPeriod = time.Second * 30\<close>, in nanoseconds.\<close>

definition CoolDownPeriod :: int where "CoolDownPeriod = 30 * 10 ^ 9"

definition IPv4DefaultWinWarmIPTarget :: int where "IPv4DefaultWinWarmIPTarget = 3"
definition IPv4DefaultWinMinIPTarget :: int where "IPv4DefaultWinMinIPTarget = 3"
definition IPv4PDDefaultWPSize :: int where "IPv4PDDefaultWPSize = 1"
definition IPv4PDDefaultWarmIPTargetSize :: int where "IPv4PDDefaultWarmIPTargetSize = 1"
definition IPv4PDDefaultMinIPTargetSize :: int where "IPv4PDDefaultMinIPTargetSize = 3"
definition IPv4PDDefaultWarmPrefixTargetSize :: int where "IPv4PDDefaultWarmPrefixTargetSize = 0"

lemmas config_defaults = IPv4DefaultWinWarmIPTarget_def IPv4DefaultWinMinIPTarget_def
  IPv4PDDefaultWPSize_def IPv4PDDefaultWarmIPTargetSize_def IPv4PDDefaultMinIPTargetSize_def
  IPv4PDDefaultWarmPrefixTargetSize_def

lemmas resource_names = ResourceNamePodENI_def ResourceNameIPAddress_def
  ResourceNameIPAddressFromPrefix_def

record WarmPoolConfig =
  DesiredSize :: int
  ReservedSize :: int
  MaxDeviation :: int
  WarmIPTarget :: int
  MinIPTarget :: int
  WarmPrefixTarget :: int

record ResourceConfig =
  RCName :: string
  WorkerCount :: int
  SupportedOS :: "(string, bool) gomap"
  RCWarmPoolConfig :: "WarmPoolConfig option"

text \<open>The zero value \<open>WarmPoolConfig{}\<close> of a drained pool.\<close>

definition zero_WarmPoolConfig :: WarmPoolConfig where
  "zero_WarmPoolConfig = \<lparr>DesiredSize = 0, ReservedSize = 0, MaxDeviation = 0, WarmIPTarget = 0,
     MinIPTarget = 0, WarmPrefixTarget = 0\<rparr>"

section \<open>loader.go\<close>

definition getDefaultResourceConfig :: "(string, ResourceConfig) gomap" where
  "getDefaultResourceConfig =
    (let podENIConfig = \<lparr>RCName = ResourceNamePodENI, WorkerCount = 30,
           SupportedOS = [(OSWindows, False), (OSLinux, True)], RCWarmPoolConfig = None\<rparr>;
         ipV4WarmPoolConfig = \<lparr>DesiredSize = IPv4DefaultWinWarmIPTarget, ReservedSize = 0,
           MaxDeviation = 0, WarmIPTarget = IPv4DefaultWinWarmIPTarget,
           MinIPTarget = IPv4DefaultWinMinIPTarget, WarmPrefixTarget = 0\<rparr>;
         ipV4Config = \<lparr>RCName = ResourceNameIPAddress, WorkerCount = 2,
           SupportedOS = [(OSWindows, True), (OSLinux, False)],
           RCWarmPoolConfig = Some ipV4WarmPoolConfig\<rparr>;
         prefixIPv4WarmPoolConfig = \<lparr>DesiredSize = IPv4PDDefaultWPSize, ReservedSize = 0,
           MaxDeviation = 0, WarmIPTarget = IPv4PDDefaultWarmIPTargetSize,
           MinIPTarget = IPv4PDDefaultMinIPTargetSize,
           WarmPrefixTarget = IPv4PDDefaultWarmPrefixTargetSize\<rparr>;
         prefixIPv4Config = \<lparr>RCName = ResourceNameIPAddressFromPrefix, WorkerCount = 2,
           SupportedOS = [(OSWindows, True), (OSLinux, False)],
           RCWarmPoolConfig = Some prefixIPv4WarmPoolConfig\<rparr>
     in mput (mput (mput [] ResourceNamePodENI podENIConfig) ResourceNameIPAddress ipV4Config)
          ResourceNameIPAddressFromPrefix prefixIPv4Config)"

definition LoadResourceConfig :: "(string, ResourceConfig) gomap" where
  "LoadResourceConfig = getDefaultResourceConfig"

text \<open>\<open>m[a]\<close>, and \<open>m[b]\<close> when \<open>a\<close> is missing.\<close>

definition get_either :: "(string, string) gomap \<Rightarrow> string \<Rightarrow> string \<Rightarrow> string option" where
  "get_either m a b = (case mget m a of None \<Rightarrow> mget m b | Some v \<Rightarrow> Some v)"

definition parse_warm_ip_target :: "bool \<Rightarrow> string option \<Rightarrow> int" where
  "parse_warm_ip_target isPDEnabled found =
     (case found of
        None \<Rightarrow> 0
      | Some s \<Rightarrow>
         (case Atoi s of
            (v, Some err) \<Rightarrow> v
          | (v, None) \<Rightarrow> if \<not> isPDEnabled \<and> v = 0 then 1 else v))"

definition parse_target :: "string option \<Rightarrow> int" where
  "parse_target found = (case found of None \<Rightarrow> 0 | Some s \<Rightarrow> fst (Atoi s))"

definition ParseWinIPTargetConfigs :: "config_map \<Rightarrow> int \<times> int \<times> int \<times> bool" where
  "ParseWinIPTargetConfigs vpcCniConfigMap =
     (case vpcCniConfigMap of
        None \<Rightarrow> (IPv4DefaultWinWarmIPTarget, IPv4DefaultWinMinIPTarget, 0, False)
      | Some Data \<Rightarrow>
         (let isPDEnabled = (case ParseBool (mgetd '''' Data EnableWindowsPrefixDelegationKey) of
                               None \<Rightarrow> False | Some b \<Rightarrow> b);
              warmIPTarget = parse_warm_ip_target isPDEnabled
                               (get_either Data WarmIPTargetKey WinWarmIPTargetKey);
              minIPTarget = parse_target (get_either Data MinimumIPTargetKey WinMinimumIPTargetKey);
              warmPrefixTarget =
                (if isPDEnabled
                 then parse_target (get_either Data WarmPrefixTargetKey WinWarmPrefixTargetKey)
                 else 0)
          in if warmIPTarget = 0 \<and> minIPTarget = 0 then
               (if isPDEnabled \<and> warmPrefixTarget = 0 then
                  (IPv4PDDefaultWarmIPTargetSize, IPv4PDDefaultMinIPTargetSize,
                   IPv4PDDefaultWarmPrefixTargetSize, isPDEnabled)
                else if \<not> isPDEnabled then
                  (IPv4DefaultWinWarmIPTarget, IPv4DefaultWinMinIPTarget, warmPrefixTarget, isPDEnabled)
                else (warmIPTarget, minIPTarget, warmPrefixTarget, isPDEnabled))
             else (warmIPTarget, minIPTarget, warmPrefixTarget, isPDEnabled)))"

text \<open>\<open>resourceConfig[name].WarmPoolConfig.Field = v\<close> through the pointer of the entry.\<close>

definition upd_warm :: "(string, ResourceConfig) gomap \<Rightarrow> string \<Rightarrow> (WarmPoolConfig \<Rightarrow> WarmPoolConfig) \<Rightarrow>
    (string, ResourceConfig) gomap" where
  "upd_warm m name f = (case mget m name of
       None \<Rightarrow> m
     | Some rc \<Rightarrow> mput m name (rc\<lparr>RCWarmPoolConfig := map_option f (RCWarmPoolConfig rc)\<rparr>))"

definition LoadResourceConfigFromConfigMap :: "config_map \<Rightarrow> (string, ResourceConfig) gomap" where
  "LoadResourceConfigFromConfigMap vpcCniConfigMap =
     (let resourceConfig = getDefaultResourceConfig;
          (warmIPTarget, minIPTarget, warmPrefixTarget, isPDEnabled) =
            ParseWinIPTargetConfigs vpcCniConfigMap
      in if warmIPTarget = 0 \<and> minIPTarget = 0 \<and> warmPrefixTarget = 0 then resourceConfig
         else if isPDEnabled then
           upd_warm resourceConfig ResourceNameIPAddressFromPrefix
             (\<lambda>c. c\<lparr>WarmIPTarget := warmIPTarget, MinIPTarget := minIPTarget,
                    WarmPrefixTarget := warmPrefixTarget\<rparr>)
         else upd_warm resourceConfig ResourceNameIPAddress
             (\<lambda>c. c\<lparr>WarmIPTarget := warmIPTarget, MinIPTarget := minIPTarget\<rparr>))"

text \<open>\<open>pkg/pool/utils.go\<close>: the ConfigMap read is an argument, \<open>None\<close> when it fails; the result is
  \<open>None\<close> where the Go code returns a nil pointer.\<close>

definition GetWinWarmPoolConfig :: "config_map option \<Rightarrow> bool \<Rightarrow> WarmPoolConfig option" where
  "GetWinWarmPoolConfig getConfigMap isPDEnabled =
     (let resourceConfig = (case getConfigMap of
            Some cm \<Rightarrow> LoadResourceConfigFromConfigMap cm
          | None \<Rightarrow> LoadResourceConfig)
      in case mget resourceConfig (if isPDEnabled then ResourceNameIPAddressFromPrefix
                                   else ResourceNameIPAddress) of
           None \<Rightarrow> None
         | Some rc \<Rightarrow> RCWarmPoolConfig rc)"

section \<open>Lemmas\<close>

lemma parse_warm_nonzero_secondary:
  "parse_warm_ip_target False (Some s) = 0 \<Longrightarrow> \<exists>e. snd (Atoi s) = Some e"
  by (auto simp: parse_warm_ip_target_def split: prod.splits option.splits if_splits)

lemma default_config_get:
  "mget getDefaultResourceConfig ResourceNameIPAddress \<noteq> None"
  "mget getDefaultResourceConfig ResourceNameIPAddressFromPrefix \<noteq> None"
  "mget getDefaultResourceConfig ResourceNamePodENI \<noteq> None"
  by (simp_all add: getDefaultResourceConfig_def Let_def resource_names)

text \<open>The targets that come out of the ConfigMap are never all zero, whatever the ConfigMap
  holds: the pool always has something to keep warm.\<close>

lemma ParseWin_nonzero:
  assumes "ParseWinIPTargetConfigs cm = (warm, minT, prefix, pd)"
  shows "warm \<noteq> 0 \<or> minT \<noteq> 0 \<or> prefix \<noteq> 0"
proof (cases cm)
  case None
  then show ?thesis using assms by (auto simp: ParseWinIPTargetConfigs_def config_defaults)
next
  case (Some Data)
  show ?thesis
    using assms unfolding Some ParseWinIPTargetConfigs_def
    by (auto simp: Let_def config_defaults split: if_splits)
qed

lemma ParseWin_no_prefix_without_pd:
  assumes "ParseWinIPTargetConfigs cm = (warm, minT, prefix, False)"
  shows "prefix = 0 \<and> (warm \<noteq> 0 \<or> minT \<noteq> 0)"
  using ParseWin_nonzero [OF assms] assms
  by (auto simp: ParseWinIPTargetConfigs_def Let_def split: option.splits if_splits)

section \<open>Properties\<close>

text \<open>Whatever the ConfigMap holds, and when it cannot be read, a Windows pool gets a
  configuration to work with: there is one, it is not the configuration of a drained pool, and
  not all of its targets are zero, since addresses are not allocated on demand.\<close>

theorem win_config_usable:
  "\<exists>c. GetWinWarmPoolConfig cm isPD = Some c \<and> DesiredSize c > 0 \<and>
     \<not> (WarmIPTarget c = 0 \<and> MinIPTarget c = 0 \<and> WarmPrefixTarget c = 0)"
proof (cases cm)
  case None
  then show ?thesis
    by (simp add: GetWinWarmPoolConfig_def LoadResourceConfig_def getDefaultResourceConfig_def Let_def
        resource_names config_defaults)
next
  case (Some m)
  obtain warm minT prefix pd where p: "ParseWinIPTargetConfigs m = (warm, minT, prefix, pd)"
    by (metis prod_cases4)
  have "warm \<noteq> 0 \<or> minT \<noteq> 0" if "\<not> pd"
    using ParseWin_no_prefix_without_pd [of m warm minT prefix] p that by simp
  then show ?thesis
    using ParseWin_nonzero [OF p]
    by (auto simp: Some GetWinWarmPoolConfig_def LoadResourceConfigFromConfigMap_def p upd_warm_def
        getDefaultResourceConfig_def Let_def resource_names config_defaults)
qed

text \<open>A target that is out of the 64-bit range is not read as zero: \<open>strconv.Atoi\<close> returns the
  largest integer beside its error, and the parser keeps that value as the target.\<close>

theorem huge_warm_target_kept:
  "ParseWinIPTargetConfigs (Some [(''warm-ip-target'', ''99999999999999999999'')]) = (MaxInt64, 0, 0, False)"
proof -
  have "Atoi ''99999999999999999999'' = (MaxInt64, Some ErrRange)"
    by (simp add: Atoi_def atoi_mag_def is_digit_def digits_val_def digit_val_def Let_def)
  then show ?thesis
    by (simp add: ParseWinIPTargetConfigs_def Let_def get_either_def mget_def mgetd_def ParseBool_def
        parse_warm_ip_target_def parse_target_def EnableWindowsPrefixDelegationKey_def WarmIPTargetKey_def
        WinWarmIPTargetKey_def MinimumIPTargetKey_def WinMinimumIPTargetKey_def MaxInt64_def)
qed

end
