(* ===== verification/Jobs.thy ===== *)
theory Jobs
  imports Config
begin

text \<open>
  \<open>pkg/worker/jobs.go\<close>: the operations and the two kinds of jobs the handlers submit to their
  worker queues. Fields a constructor leaves out have Go's zero value: the empty string, 0, and
  for an operation the empty operation.
\<close>

datatype operations =
    OperationProcessDeleteQueue
  | OperationReconcileNode
  | OperationCreate
  | OperationDeleted
  | OperationDeleting
  | OperationReconcileNotRequired
  | OperationReSyncPool
  | OperationDeleteNode
  | OperationEmpty

record OnDemandJob =
  Operation :: operations
  UID :: string
  JPodName :: string
  JPodNamespace :: string
  RequestCount :: int
  JNodeName :: string

definition zero_OnDemandJob :: OnDemandJob where
  "zero_OnDemandJob = \<lparr>Operation = OperationEmpty, UID = '''', JPodName = '''', JPodNamespace = '''',
     RequestCount = 0, JNodeName = ''''\<rparr>"

definition NewOnDemandCreateJob :: "string \<Rightarrow> string \<Rightarrow> int \<Rightarrow> OnDemandJob" where
  "NewOnDemandCreateJob podNamespace podName requestCount = zero_OnDemandJob
     \<lparr>Operation := OperationCreate, JPodNamespace := podNamespace, JPodName := podName,
      RequestCount := requestCount\<rparr>"

definition NewOnDemandDeletedJob :: "string \<Rightarrow> string \<Rightarrow> OnDemandJob" where
  "NewOnDemandDeletedJob node uid = zero_OnDemandJob
     \<lparr>Operation := OperationDeleted, JNodeName := node, UID := uid\<rparr>"

definition NewOnDemandReconcileNodeJob :: "string \<Rightarrow> OnDemandJob" where
  "NewOnDemandReconcileNodeJob node = zero_OnDemandJob
     \<lparr>Operation := OperationReconcileNode, JNodeName := node\<rparr>"

definition NewOnDemandProcessDeleteQueueJob :: "string \<Rightarrow> OnDemandJob" where
  "NewOnDemandProcessDeleteQueueJob node = zero_OnDemandJob
     \<lparr>Operation := OperationProcessDeleteQueue, JNodeName := node\<rparr>"

definition NewOnDemandDeleteNodeJob :: "string \<Rightarrow> OnDemandJob" where
  "NewOnDemandDeleteNodeJob node = zero_OnDemandJob
     \<lparr>Operation := OperationDeleteNode, JNodeName := node\<rparr>"

record WarmPoolJob =
  Operations :: operations
  JobResources :: "string list"
  ResourceCount :: int
  WNodeName :: string

definition zero_WarmPoolJob :: WarmPoolJob where
  "zero_WarmPoolJob = \<lparr>Operations = OperationEmpty, JobResources = [], ResourceCount = 0, WNodeName = ''''\<rparr>"

definition NewWarmPoolCreateJob :: "string \<Rightarrow> int \<Rightarrow> WarmPoolJob" where
  "NewWarmPoolCreateJob node cnt = zero_WarmPoolJob
     \<lparr>Operations := OperationCreate, WNodeName := node, ResourceCount := cnt\<rparr>"

definition NewWarmPoolReSyncJob :: "string \<Rightarrow> WarmPoolJob" where
  "NewWarmPoolReSyncJob node = zero_WarmPoolJob\<lparr>Operations := OperationReSyncPool, WNodeName := node\<rparr>"

definition NewWarmPoolDeleteJob :: "string \<Rightarrow> string list \<Rightarrow> WarmPoolJob" where
  "NewWarmPoolDeleteJob node resourcesToDelete = zero_WarmPoolJob
     \<lparr>Operations := OperationDeleted, WNodeName := node, JobResources := resourcesToDelete,
      ResourceCount := int (length resourcesToDelete)\<rparr>"

definition NewWarmProcessDeleteQueueJob :: "string \<Rightarrow> WarmPoolJob" where
  "NewWarmProcessDeleteQueueJob node = zero_WarmPoolJob
     \<lparr>Operations := OperationProcessDeleteQueue, WNodeName := node\<rparr>"

text \<open>\<open>&worker.WarmPoolJob{Operations: worker.OperationReconcileNotRequired}\<close>\<close>

definition NoReconcileJob :: WarmPoolJob where
  "NoReconcileJob = zero_WarmPoolJob\<lparr>Operations := OperationReconcileNotRequired\<rparr>"

lemmas warm_jobs = NewWarmPoolCreateJob_def NewWarmPoolReSyncJob_def NewWarmPoolDeleteJob_def
  NewWarmProcessDeleteQueueJob_def NoReconcileJob_def zero_WarmPoolJob_def

lemmas on_demand_jobs = NewOnDemandCreateJob_def NewOnDemandDeletedJob_def
  NewOnDemandReconcileNodeJob_def NewOnDemandProcessDeleteQueueJob_def NewOnDemandDeleteNodeJob_def
  zero_OnDemandJob_def

end
