(* ===== verification/Pool.thy ===== *)
theory Pool
  imports Jobs
begin

text \<open>
  \<open>pkg/pool/pool.go\<close>: the warm pool of IPv4 addresses of a Windows node. Every operation runs
  under the pool's lock and is one function on the pool's record, returning the updated pool with
  its results. Where the code reads the clock the time, in nanoseconds, is an argument; a \<open>range\<close>
  over a map visits the association list in order. The counts of resources are exact integers;
  the arithmetic with the configured targets, which come from a ConfigMap and may be any 64-bit
  value, wraps as in Go.
\<close>

section \<open>State\<close>

definition NumIPv4AddrPerPrefix :: int where "NumIPv4AddrPerPrefix = 16"

record resource =
  GroupID :: string
  ResourceID :: string

definition zero_resource :: resource where
  "zero_resource = \<lparr>GroupID = '''', ResourceID = ''''\<rparr>"

record cool_down_resource =
  Resource :: resource
  DeletionTimestamp :: int

type_synonym warm_map = "(string, resource list) gomap"

record pool =
  capacity :: int
  warmPoolConfig :: WarmPoolConfig
  usedResources :: "(string, resource) gomap"
  warmResources :: warm_map
  coolDownQueue :: "cool_down_resource list"
  pendingCreate :: int
  pendingDelete :: int
  nodeName :: string
  reSyncRequired :: bool
  isPDPool :: bool
  prefixAvailable :: bool

datatype pool_error =
    ErrPoolAtMaxCapacity
  | ErrResourceAreBeingCooledDown
  | ErrResourcesAreBeingCreated
  | ErrWarmPoolEmpty
  | ErrInsufficientCidrBlocks
  | ErrResourceAlreadyAssigned
  | ErrResourceDoesntExist
  | ErrIncorrectResourceOwner

record IntrospectResponse =
  UsedResources :: "(string, resource) gomap"
  WarmResources :: warm_map
  CoolingResources :: "cool_down_resource list"

definition NewResourcePool ::
  "WarmPoolConfig \<Rightarrow> (string, resource) gomap \<Rightarrow> warm_map \<Rightarrow> string \<Rightarrow> int \<Rightarrow> bool \<Rightarrow> pool" where
  "NewResourcePool poolConfig used warm node cap isPD =
     \<lparr>capacity = cap, warmPoolConfig = poolConfig, usedResources = used, warmResources = warm,
      coolDownQueue = [], pendingCreate = 0, pendingDelete = 0, nodeName = node,
      reSyncRequired = False, isPDPool = isPD, prefixAvailable = False\<rparr>"

section \<open>Re-synchronisation with the upstream list\<close>

text \<open>The resources of one upstream group. A group whose prefix cannot be deconstructed is
  skipped.\<close>

definition upstream_group :: "bool \<Rightarrow> string \<Rightarrow> resource list" where
  "upstream_group isPD g =
     (if g = '''' then []
      else if isPD then
        (case DeconstructIPsFromPrefix g of
           Inl _ \<Rightarrow> []
         | Inr ids \<Rightarrow> map (\<lambda>i. \<lparr>GroupID = g, ResourceID = i\<rparr>) ids)
      else [\<lparr>GroupID = g, ResourceID = g\<rparr>])"

definition upstream_resources :: "bool \<Rightarrow> string list \<Rightarrow> resource list" where
  "upstream_resources isPD groups = concat (map (upstream_group isPD) groups)"

definition local_resources :: "pool \<Rightarrow> resource list" where
  "local_resources p =
     map Resource (coolDownQueue p) @ mvals (usedResources p) @ mflat (warmResources p)"

definition append_warm :: "warm_map \<Rightarrow> string \<Rightarrow> resource list \<Rightarrow> warm_map" where
  "append_warm w g rs = mput w g (mgetd [] w g @ rs)"

text \<open>\<open>for i := len(warm[g]) - 1; i >= 0; i--\<close>: the argument counts the positions still to visit,
  so that \<open>Suc i\<close> is the visit of position \<open>i\<close>.\<close>

fun resync_warm_loop :: "nat \<Rightarrow> resource \<Rightarrow> warm_map \<Rightarrow> warm_map" where
  "resync_warm_loop 0 r w = w"
| "resync_warm_loop (Suc i) r w =
     (if mgetd [] w (GroupID r) = [] then resync_warm_loop i r w
      else if ResourceID (mgetd [] w (GroupID r) ! i) = ResourceID r then
        (let w' = mput w (GroupID r) (remove_at i (mgetd [] w (GroupID r))) in
         resync_warm_loop i r (if mgetd [] w' (GroupID r) = [] then mdel w' (GroupID r) else w'))
      else resync_warm_loop i r w)"

fun resync_cool_loop :: "nat \<Rightarrow> resource \<Rightarrow> cool_down_resource list \<Rightarrow> cool_down_resource list" where
  "resync_cool_loop 0 r q = q"
| "resync_cool_loop (Suc i) r q =
     (if GroupID (Resource (q ! i)) = GroupID r \<and> ResourceID (Resource (q ! i)) = ResourceID r
      then resync_cool_loop i r (remove_at i q) else resync_cool_loop i r q)"

definition resync_remove :: "resource \<Rightarrow> pool \<Rightarrow> pool" where
  "resync_remove r p = p
     \<lparr>warmResources := resync_warm_loop (length (mgetd [] (warmResources p) (GroupID r))) r (warmResources p),
      coolDownQueue := resync_cool_loop (length (coolDownQueue p)) r (coolDownQueue p)\<rparr>"

definition ReSync :: "string list \<Rightarrow> pool \<Rightarrow> pool" where
  "ReSync upstreamResourceGroupIDs p =
     (if \<not> reSyncRequired p then p
      else
        let p1 = p\<lparr>reSyncRequired := False\<rparr>;
            upstreamResource = upstream_resources (isPDPool p) upstreamResourceGroupIDs;
            localResources = local_resources p;
            newResources = Difference upstreamResource localResources;
            deletedResources = Difference localResources upstreamResource
        in if newResources = [] \<and> deletedResources = [] then p1
           else
             let p2 = p1\<lparr>warmResources :=
                   fold (\<lambda>r w. append_warm w (GroupID r) [r]) newResources (warmResources p1)\<rparr>
             in fold resync_remove deletedResources p2)"

section \<open>Assigning and freeing\<close>

definition findFreeGroup :: "warm_map \<Rightarrow> int \<Rightarrow> string list" where
  "findFreeGroup groups n =
     map fst (filter (\<lambda>(g, rs). rs \<noteq> [] \<and> int (length rs) = n) groups)"

definition min_group_step :: "string \<times> resource list \<Rightarrow> string \<times> int \<Rightarrow> string \<times> int" where
  "min_group_step entry acc =
     (case entry of (groupID, resources) \<Rightarrow> case acc of (grp, minCount) \<Rightarrow>
       if resources = [] then acc
       else if grp = '''' \<or> int (length resources) < minCount
         then (groupID, int (length resources)) else acc)"

definition findMinGroup :: "warm_map \<Rightarrow> string \<times> int" where
  "findMinGroup groups = fold min_group_step groups ('''', 0)"

definition assignResourceFromMinGroup :: "warm_map \<Rightarrow> resource \<times> warm_map" where
  "assignResourceFromMinGroup w =
     (case findMinGroup w of (groupID, resourceCount) \<Rightarrow>
        if groupID = '''' \<or> resourceCount = 0 then (zero_resource, w)
        else let rs = mgetd [] w groupID in
          (hd rs, mput w groupID (if resourceCount = 1 then [] else tl rs)))"

fun assign_any_loop :: "warm_map \<Rightarrow> warm_map \<Rightarrow> resource \<times> warm_map" where
  "assign_any_loop [] w = (zero_resource, w)"
| "assign_any_loop ((groupID, resources) # rest) w =
     (if resources = [] then assign_any_loop rest w
      else (hd resources,
            mput w groupID (if length resources = 1 then [] else tl resources)))"

definition assignResourceFromAnyGroup :: "warm_map \<Rightarrow> resource \<times> warm_map" where
  "assignResourceFromAnyGroup w = assign_any_loop w w"

definition AssignResource :: "string \<Rightarrow> pool \<Rightarrow> pool \<times> string \<times> bool \<times> pool_error option" where
  "AssignResource requesterID p =
     (if mhas (usedResources p) requesterID then (p, '''', False, Some ErrResourceAlreadyAssigned)
      else if int (length (usedResources p)) = capacity p then
        (p, '''', False, Some ErrPoolAtMaxCapacity)
      else if int (length (usedResources p)) + int (length (coolDownQueue p)) = capacity p then
        (p, '''', False, Some ErrResourceAreBeingCooledDown)
      else if int (length (usedResources p)) + int (length (coolDownQueue p)) + pendingCreate p
                + pendingDelete p = capacity p then
        (p, '''', False, Some ErrResourcesAreBeingCreated)
      else if warmResources p = [] then
        (if isPDPool p \<and> \<not> prefixAvailable p then (p, '''', False, Some ErrInsufficientCidrBlocks)
         else (p, '''', True, Some ErrWarmPoolEmpty))
      else
        (case (if isPDPool p then assignResourceFromMinGroup (warmResources p)
               else assignResourceFromAnyGroup (warmResources p)) of
           (resource, w) \<Rightarrow>
             (let p1 = p\<lparr>warmResources := w\<rparr> in
              if ResourceID resource = '''' \<or> GroupID resource = '''' then
                (p1, '''', True, Some ErrWarmPoolEmpty)
              else (p1\<lparr>usedResources := mput (usedResources p1) requesterID resource\<rparr>,
                    ResourceID resource, True, None))))"

definition GetAssignedResource :: "string \<Rightarrow> pool \<Rightarrow> string \<times> bool" where
  "GetAssignedResource requesterID p =
     (case mget (usedResources p) requesterID of
        None \<Rightarrow> (ResourceID zero_resource, False)
      | Some r \<Rightarrow> (ResourceID r, True))"

definition FreeResource :: "int \<Rightarrow> string \<Rightarrow> string \<Rightarrow> pool \<Rightarrow> pool \<times> bool \<times> pool_error option" where
  "FreeResource now requesterID resourceID p =
     (case mget (usedResources p) requesterID of
        None \<Rightarrow> (p, False, Some ErrResourceDoesntExist)
      | Some actualResource \<Rightarrow>
          if ResourceID actualResource \<noteq> resourceID then (p, False, Some ErrIncorrectResourceOwner)
          else (p\<lparr>usedResources := mdel (usedResources p) requesterID,
                  coolDownQueue := coolDownQueue p @
                    [\<lparr>Resource = actualResource, DeletionTimestamp = now\<rparr>]\<rparr>, True, None))"

section \<open>Results of asynchronous jobs, and the cool down queue\<close>

text \<open>The resources a created group brings. A prefix that cannot be deconstructed brings none,
  but its group becomes an entry of the warm pool.\<close>

definition job_group :: "bool \<Rightarrow> string \<Rightarrow> resource list" where
  "job_group isPD g =
     (let resourceIDs = (if isPD then (case DeconstructIPsFromPrefix g of Inl _ \<Rightarrow> [] | Inr ids \<Rightarrow> ids)
                         else [g])
      in map (\<lambda>i. \<lparr>GroupID = g, ResourceID = i\<rparr>) resourceIDs)"

definition UpdatePool :: "WarmPoolJob \<Rightarrow> bool \<Rightarrow> bool \<Rightarrow> pool \<Rightarrow> pool \<times> bool" where
  "UpdatePool job didSucceed prefixAvail p =
     (let shouldReconcile = (\<not> didSucceed);
          n = (if isPDPool p then ResourceCount job * NumIPv4AddrPerPrefix else ResourceCount job)
      in (p\<lparr>reSyncRequired := (if \<not> didSucceed then True else reSyncRequired p),
            prefixAvailable := (if isPDPool p then prefixAvail else prefixAvailable p),
            warmResources := fold (\<lambda>g w. append_warm w g (job_group (isPDPool p) g))
              (JobResources job) (warmResources p),
            pendingCreate := (if Operations job = OperationCreate then pendingCreate p - n
                              else pendingCreate p),
            pendingDelete := (if Operations job = OperationDeleted then pendingDelete p - n
                              else pendingDelete p)\<rparr>, shouldReconcile))"

text \<open>The loop of \<open>ProcessCoolDownQueue\<close>: the clock is read once for each entry, \<open>now i\<close> at entry
  \<open>i\<close>. The result is the queue that is left, the warm pool, and whether entries are left.\<close>

fun cool_down_loop ::
  "(nat \<Rightarrow> int) \<Rightarrow> nat \<Rightarrow> cool_down_resource list \<Rightarrow> warm_map \<Rightarrow>
   cool_down_resource list \<times> warm_map \<times> bool" where
  "cool_down_loop now index [] w = ([], w, False)"
| "cool_down_loop now index (c # q) w =
     (if now index - DeletionTimestamp c \<ge> CoolDownPeriod
      then cool_down_loop now (Suc index) q (append_warm w (GroupID (Resource c)) [Resource c])
      else (c # q, w, True))"

definition ProcessCoolDownQueue :: "(nat \<Rightarrow> int) \<Rightarrow> pool \<Rightarrow> pool \<times> bool" where
  "ProcessCoolDownQueue now p =
     (if coolDownQueue p = [] then (p, False)
      else case cool_down_loop now 0 (coolDownQueue p) (warmResources p) of
        (q, w, needFurther) \<Rightarrow> (p\<lparr>coolDownQueue := q, warmResources := w\<rparr>, needFurther))"

section \<open>Reconciliation\<close>

definition numResourcesFromMap :: "warm_map \<Rightarrow> int" where
  "numResourcesFromMap groups = fold (\<lambda>(g, rs) cnt. cnt + int (length rs)) groups 0"

text \<open>The targets \<open>getPDDeviation\<close> computes with, and which of them are defined. The function
  writes the targets back into the pool's configuration.\<close>

definition pd_targets :: "WarmPoolConfig \<Rightarrow> WarmPoolConfig \<times> bool \<times> bool \<times> bool" where
  "pd_targets c =
     (if DesiredSize c = 0 then
        (c\<lparr>WarmIPTarget := 0, MinIPTarget := 0, WarmPrefixTarget := 0\<rparr>, False, False, False)
      else
        let isWarmIPTargetDefined = (WarmIPTarget c > 0);
            isMinIPTargetDefined = (MinIPTarget c > 0);
            isWarmPrefixTargetDefined = (WarmPrefixTarget c > 0);
            c1 = (if \<not> isWarmIPTargetDefined \<and> (isMinIPTargetDefined \<or> \<not> isWarmPrefixTargetDefined)
                  then c\<lparr>WarmIPTarget := IPv4PDDefaultWarmIPTargetSize\<rparr> else c);
            c2 = (if \<not> isMinIPTargetDefined \<and> (isWarmIPTargetDefined \<or> \<not> isWarmPrefixTargetDefined)
                  then c1\<lparr>MinIPTarget := IPv4PDDefaultMinIPTargetSize\<rparr> else c1)
        in (c2, isWarmIPTargetDefined, isMinIPTargetDefined, isWarmPrefixTargetDefined))"

definition getPDDeviation :: "pool \<Rightarrow> int \<times> pool" where
  "getPDDeviation p =
     (case pd_targets (warmPoolConfig p) of
       (c, isWarmIPTargetDefined, isMinIPTargetDefined, isWarmPrefixTargetDefined) \<Rightarrow>
       let p1 = p\<lparr>warmPoolConfig := c\<rparr>;
           used = int (length (usedResources p));
           numExistingWarmResources = numResourcesFromMap (warmResources p);
           freePrefixes = findFreeGroup (warmResources p) NumIPv4AddrPerPrefix
       in if \<not> isWarmIPTargetDefined \<and> \<not> isMinIPTargetDefined \<and> isWarmPrefixTargetDefined then
            let deviationPrefix = i64 (WarmPrefixTarget c - int (length freePrefixes)
                  - CeilDivision (pendingCreate p) NumIPv4AddrPerPrefix)
            in (i64 (deviationPrefix * NumIPv4AddrPerPrefix), p1)
          else
            let numTotalResources = used + pendingCreate p + numExistingWarmResources
                  + int (length (coolDownQueue p));
                numCurrPrefix = CeilDivision numTotalResources 16;
                numTotalResForWarmIPTarget = i64 (used + WarmIPTarget c);
                numPrefixForWarmIPTarget = CeilDivision numTotalResForWarmIPTarget 16;
                numPrefixForMinIPTarget = CeilDivision (MinIPTarget c) 16;
                deviationPrefix =
                  (if numPrefixForWarmIPTarget \<ge> numPrefixForMinIPTarget
                   then i64 (numPrefixForWarmIPTarget - numCurrPrefix)
                   else i64 (numPrefixForMinIPTarget - numCurrPrefix));
                deviationPrefix' =
                  (if deviationPrefix < 0 \<and> length freePrefixes = 0 then 0 else deviationPrefix)
            in (i64 (deviationPrefix' * NumIPv4AddrPerPrefix), p1))"

definition secondary_targets :: "WarmPoolConfig \<Rightarrow> WarmPoolConfig" where
  "secondary_targets c =
     (let c1 = (if DesiredSize c = 0
                then c\<lparr>WarmIPTarget := 0, MinIPTarget := 0, WarmPrefixTarget := 0\<rparr> else c);
          isMinIPTargetInvalid = (MinIPTarget c1 < 0);
          isWarmIPTargetInvalid = (WarmIPTarget c1 < 0);
          c2 = (if isMinIPTargetInvalid then c1\<lparr>MinIPTarget := IPv4DefaultWinMinIPTarget\<rparr> else c1)
      in if isWarmIPTargetInvalid then c2\<lparr>WarmIPTarget := IPv4DefaultWinWarmIPTarget\<rparr> else c2)"

definition calculateSecondaryIPDeviation :: "pool \<Rightarrow> int \<times> pool" where
  "calculateSecondaryIPDeviation p =
     (let numWarmResources = numResourcesFromMap (warmResources p);
          numUsedResources = int (length (usedResources p));
          numAssignedResources = numUsedResources + numWarmResources + pendingCreate p
            + int (length (coolDownQueue p));
          c = secondary_targets (warmPoolConfig p);
          availableResources = numWarmResources + pendingCreate p;
          resourcesShort = max (i64 (WarmIPTarget c - availableResources)) 0;
          resourcesShort' = max resourcesShort (i64 (MinIPTarget c - numAssignedResources));
          resourcesOver = max (i64 (availableResources - WarmIPTarget c)) 0;
          resourcesOver' = max (min resourcesOver (i64 (numAssignedResources - MinIPTarget c))) 0
      in (i64 (resourcesShort' - resourcesOver'), p\<lparr>warmPoolConfig := c\<rparr>))"

text \<open>The loop that takes free groups out of the warm pool until enough resources are marked for
  deletion: the groups taken so far, the number still to delete, and the pool.\<close>

fun delete_groups_loop :: "string list \<Rightarrow> int \<Rightarrow> string list \<Rightarrow> pool \<Rightarrow> string list \<times> pool" where
  "delete_groups_loop [] numToDelete resourceToDelete p = (resourceToDelete, p)"
| "delete_groups_loop (groupID # gs) numToDelete resourceToDelete p =
     (if numToDelete \<le> 0 then (resourceToDelete, p)
      else let n = int (length (mgetd [] (warmResources p) groupID)) in
        delete_groups_loop gs (numToDelete - n) (resourceToDelete @ [groupID])
          (p\<lparr>pendingDelete := pendingDelete p + n,
             warmResources := mdel (warmResources p) groupID\<rparr>))"

definition total_created :: "pool \<Rightarrow> int" where
  "total_created p = numResourcesFromMap (warmResources p) + int (length (usedResources p))
     + int (length (coolDownQueue p)) + pendingCreate p + pendingDelete p"

definition reconcile_create :: "int \<Rightarrow> int \<Rightarrow> pool \<Rightarrow> pool \<times> WarmPoolJob" where
  "reconcile_create totalCreatedResources deviation p =
     (let canCreateUpto = capacity p - totalCreatedResources in
      if canCreateUpto = 0 then (p, NoReconcileJob)
      else
        let deviation' = (if deviation > canCreateUpto then canCreateUpto else deviation);
            p1 = p\<lparr>pendingCreate := pendingCreate p + deviation'\<rparr>
        in (p1, NewWarmPoolCreateJob (nodeName p)
              (if isPDPool p then go_div deviation' NumIPv4AddrPerPrefix else deviation')))"

definition reconcile_delete :: "int \<Rightarrow> pool \<Rightarrow> pool \<times> WarmPoolJob" where
  "reconcile_delete numToDelete p =
     (let (resourceToDelete, p1) =
            (if numToDelete > 0 then
               let freeResourceGroups =
                     findFreeGroup (warmResources p) (if isPDPool p then NumIPv4AddrPerPrefix else 1)
               in delete_groups_loop freeResourceGroups numToDelete [] p
             else ([], p))
      in if resourceToDelete \<noteq> [] then (p1, NewWarmPoolDeleteJob (nodeName p1) resourceToDelete)
         else (p1, NoReconcileJob))"

definition ReconcilePool :: "pool \<Rightarrow> pool \<times> WarmPoolJob" where
  "ReconcilePool p =
     (let totalCreatedResources = total_created p in
      if reSyncRequired p then
        (if pendingCreate p \<noteq> 0 \<or> pendingDelete p \<noteq> 0 then (p, NoReconcileJob)
         else (p, NewWarmPoolReSyncJob (nodeName p)))
      else if int (length (usedResources p)) + pendingCreate p + pendingDelete p
                + int (length (coolDownQueue p)) = capacity p then (p, NoReconcileJob)
      else
        let (deviation, p1) = (if isPDPool p then getPDDeviation p else calculateSecondaryIPDeviation p)
        in if deviation > MaxDeviation (warmPoolConfig p1) then
             reconcile_create totalCreatedResources deviation p1
           else if i64 (- deviation) > MaxDeviation (warmPoolConfig p1) then
             reconcile_delete (i64 (- deviation)) p1
           else (p1, NoReconcileJob))"

text \<open>\<open>SetToDraining\<close> and \<open>SetToActive\<close> release the lock before they reconcile, so another
  operation may run in between; the first half of each is a step of its own.\<close>

definition set_config :: "WarmPoolConfig \<Rightarrow> pool \<Rightarrow> pool" where
  "set_config c p = p\<lparr>warmPoolConfig := c\<rparr>"

definition SetToDraining :: "pool \<Rightarrow> pool \<times> WarmPoolJob" where
  "SetToDraining p = ReconcilePool (set_config zero_WarmPoolConfig p)"

definition SetToActive :: "WarmPoolConfig \<Rightarrow> pool \<Rightarrow> pool \<times> WarmPoolJob" where
  "SetToActive c p = ReconcilePool (set_config c p)"

definition Introspect :: "pool \<Rightarrow> IntrospectResponse" where
  "Introspect p =
     \<lparr>UsedResources = fold (\<lambda>(k, v) m. mput m k v) (usedResources p) [],
      WarmResources = fold (\<lambda>(g, rs) m. mput m g (fold (\<lambda>r xs. xs @ [r]) rs [])) (warmResources p) [],
      CoolingResources = coolDownQueue p\<rparr>"

end
