(* ===== verification/Pool_Inv.thy ===== *)
theory Pool_Inv
  imports Pool
begin

text \<open>
  What the warm pool promises: a well-formedness invariant (no address is in two places, every
  warm resource is filed under its group) that every operation keeps, and the conservation of
  the multiset of resources by assigning, freeing and cooling down.
\<close>

section \<open>The invariant\<close>

definition pool_ids :: "pool \<Rightarrow> string list" where
  "pool_ids p = map ResourceID (local_resources p)"

definition warm_keyed :: "warm_map \<Rightarrow> bool" where
  "warm_keyed w = list_all (\<lambda>(g, rs). list_all (\<lambda>r. GroupID r = g) rs) w"

definition pool_inv :: "pool \<Rightarrow> bool" where
  "pool_inv p \<longleftrightarrow> wf_map (usedResources p) \<and> wf_map (warmResources p) \<and> distinct (pool_ids p) \<and>
     warm_keyed (warmResources p) \<and>
     (\<not> isPDPool p \<longrightarrow> list_all (\<lambda>r. GroupID r = ResourceID r) (local_resources p))"

lemma pool_invI:
  assumes "wf_map (usedResources p)" "wf_map (warmResources p)" "distinct (pool_ids p)"
    "warm_keyed (warmResources p)"
    "\<not> isPDPool p \<Longrightarrow> \<forall>r \<in> set (local_resources p). GroupID r = ResourceID r"
  shows "pool_inv p"
  using assms by (simp add: pool_inv_def list_all_iff)

lemma pool_invD:
  assumes "pool_inv p"
  shows "wf_map (usedResources p)" "wf_map (warmResources p)" "distinct (pool_ids p)"
    "warm_keyed (warmResources p)"
    "\<not> isPDPool p \<Longrightarrow> r \<in> set (local_resources p) \<Longrightarrow> GroupID r = ResourceID r"
  using assms by (auto simp: pool_inv_def list_all_iff)

lemma mset_local_resources:
  "mset (local_resources p) = mset (map Resource (coolDownQueue p)) + mset (mvals (usedResources p))
     + mset (mflat (warmResources p))"
  by (simp add: local_resources_def union_ac)

lemma set_local_resources:
  "set (local_resources p) = Resource ` set (coolDownQueue p) \<union> set (mvals (usedResources p))
     \<union> set (mflat (warmResources p))"
  by (auto simp: local_resources_def)

lemma pool_ids_distinct_local: "distinct (pool_ids p) \<Longrightarrow> distinct (local_resources p)"
  by (simp add: pool_ids_def distinct_map)

lemma pool_ids_inj:
  "distinct (pool_ids p) \<Longrightarrow> a \<in> set (local_resources p) \<Longrightarrow> b \<in> set (local_resources p) \<Longrightarrow>
   ResourceID a = ResourceID b \<Longrightarrow> a = b"
  by (auto simp: pool_ids_def distinct_map inj_on_def)

text \<open>A step that only moves resources keeps the invariant.\<close>

lemma pool_inv_move:
  assumes "pool_inv p" and "mset (local_resources p') \<subseteq># mset (local_resources p)"
    and "wf_map (usedResources p')" and "wf_map (warmResources p')" and "warm_keyed (warmResources p')"
    and "isPDPool p' = isPDPool p"
  shows "pool_inv p'"
proof (rule pool_invI)
  have sub: "set (local_resources p') \<subseteq> set (local_resources p)"
    using set_mset_mono [OF assms(2)] by simp
  have "mset (pool_ids p') \<subseteq># mset (pool_ids p)"
    using assms(2) by (simp add: pool_ids_def image_mset_subseteq_mono)
  then show "distinct (pool_ids p')"
    using pool_invD(3) [OF assms(1)] by (rule distinct_submset)
  show "\<forall>r \<in> set (local_resources p'). GroupID r = ResourceID r" if "\<not> isPDPool p'"
    using sub that assms(6) pool_invD(5) [OF assms(1)] by auto
qed (use assms in auto)

section \<open>The warm map\<close>

lemma warm_keyed_mget:
  "warm_keyed w \<Longrightarrow> mget w g = Some rs \<Longrightarrow> r \<in> set rs \<Longrightarrow> GroupID r = g"
  using mget_mem by (fastforce simp: warm_keyed_def list_all_iff)

lemma warm_keyed_mgetd: "warm_keyed w \<Longrightarrow> r \<in> set (mgetd [] w g) \<Longrightarrow> GroupID r = g"
  using warm_keyed_mget [of w g] by (cases "mget w g") (auto simp: mgetd_def)

lemma warm_keyed_mput:
  "wf_map w \<Longrightarrow> warm_keyed w \<Longrightarrow> (\<And>r. r \<in> set rs \<Longrightarrow> GroupID r = g) \<Longrightarrow> warm_keyed (mput w g rs)"
  by (auto simp: warm_keyed_def list_all_iff set_mput)

lemma warm_keyed_mdel: "warm_keyed w \<Longrightarrow> warm_keyed (mdel w g)"
  by (auto simp: warm_keyed_def list_all_iff set_mdel)

lemma mem_mflat_keyed:
  assumes "wf_map w" and "warm_keyed w"
  shows "r \<in> set (mflat w) \<longleftrightarrow> r \<in> set (mgetd [] w (GroupID r))"
proof
  assume "r \<in> set (mflat w)"
  then obtain g rs where e: "(g, rs) \<in> set w" and r: "r \<in> set rs" by (auto simp: set_mflat)
  then have "GroupID r = g" using assms(2) by (auto simp: warm_keyed_def list_all_iff)
  then show "r \<in> set (mgetd [] w (GroupID r))"
    using mem_mget [OF assms(1) e] r by (simp add: mgetd_def)
next
  assume "r \<in> set (mgetd [] w (GroupID r))"
  then show "r \<in> set (mflat w)"
    using mset_mflat_split [OF assms(1), of "GroupID r"] by (metis UnCI set_mset_mset set_mset_union)
qed

lemma append_warm_props:
  assumes "wf_map w"
  shows "wf_map (append_warm w g rs)"
    and "mset (mflat (append_warm w g rs)) = mset (mflat w) + mset rs"
    and "warm_keyed w \<Longrightarrow> (\<And>r. r \<in> set rs \<Longrightarrow> GroupID r = g) \<Longrightarrow> warm_keyed (append_warm w g rs)"
  using assms mset_mflat_split [OF assms, of g]
  by (auto simp: append_warm_def mflat_mset union_ac intro!: warm_keyed_mput
      dest: warm_keyed_mgetd)

lemma fold_append_warm:
  assumes "wf_map w" and "warm_keyed w"
    and "\<And>x r. x \<in> set xs \<Longrightarrow> r \<in> set (f x) \<Longrightarrow> GroupID r = g x"
  shows "wf_map (fold (\<lambda>x w. append_warm w (g x) (f x)) xs w) \<and>
    warm_keyed (fold (\<lambda>x w. append_warm w (g x) (f x)) xs w) \<and>
    mset (mflat (fold (\<lambda>x w. append_warm w (g x) (f x)) xs w)) = mset (mflat w) + mset (concat (map f xs))"
  using assms
proof (induction xs arbitrary: w)
  case (Cons x xs)
  have "wf_map (append_warm w (g x) (f x))" "warm_keyed (append_warm w (g x) (f x))"
    "mset (mflat (append_warm w (g x) (f x))) = mset (mflat w) + mset (f x)"
    using append_warm_props [OF Cons.prems(1), where g = "g x" and rs = "f x"] Cons.prems by auto
  then show ?case using Cons.IH Cons.prems(3) by (simp add: union_ac)
qed simp

lemma numResourcesFromMap_length: "numResourcesFromMap w = int (length (mflat w))"
proof -
  have "fold (\<lambda>(g, rs) cnt. cnt + int (length rs)) w n = n + int (length (mflat w))" for n
    by (induction w arbitrary: n) auto
  then show ?thesis by (simp add: numResourcesFromMap_def)
qed

section \<open>Taking a resource out of the warm map\<close>

text \<open>What both ways of taking a resource promise: nothing happens, or one resource leaves the
  multiset of warm resources.\<close>

definition takes_one :: "warm_map \<Rightarrow> resource \<Rightarrow> warm_map \<Rightarrow> bool" where
  "takes_one w r w' \<longleftrightarrow> wf_map w' \<and> warm_keyed w' \<and> set (mkeys w') = set (mkeys w) \<and>
     mset (mflat w) = add_mset r (mset (mflat w'))"

lemma takes_one_tl:
  assumes "wf_map w" "warm_keyed w" "mget w g = Some rs" "rs \<noteq> []"
  shows "takes_one w (hd rs) (mput w g (tl rs))"
proof -
  have "mset (mflat w) = mset rs + mset (mflat (mdel w g))"
    using mset_mflat_split [OF assms(1), of g] assms(3) by (simp add: mgetd_def)
  moreover have "mset rs = add_mset (hd rs) (mset (tl rs))" using assms(4) by (cases rs) auto
  moreover have "g \<in> set (mkeys w)" using assms(3) by (simp add: mkeys_mget)
  moreover have "warm_keyed (mput w g (tl rs))"
    using assms warm_keyed_mget [OF assms(2,3)] by (intro warm_keyed_mput) (auto dest: list.set_sel(2))
  ultimately show ?thesis
    using assms(1) by (auto simp: takes_one_def mflat_mset)
qed

lemma assign_any_takes:
  assumes "wf_map w" "warm_keyed w" "set xs \<subseteq> set w" "assign_any_loop xs w = (r, w')"
  shows "(r = zero_resource \<and> w' = w \<and> mflat xs = []) \<or> takes_one w r w'"
  using assms(3,4)
proof (induction xs)
  case (Cons e rest)
  obtain g rs where e: "e = (g, rs)" by (cases e)
  show ?case
  proof (cases "rs = []")
    case True
    then show ?thesis using Cons by (auto simp: e)
  next
    case False
    then have "mget w g = Some rs" using Cons.prems assms(1) by (auto simp: e intro: mem_mget)
    moreover have "w' = mput w g (tl rs)" "r = hd rs"
      using Cons.prems False by (cases rs; cases "tl rs"; auto simp: e)+
    ultimately show ?thesis using takes_one_tl [OF assms(1,2)] False by simp
  qed
qed simp

text \<open>\<open>findMinGroup\<close>: the fold keeps the best group so far.\<close>

lemma min_group_fold:
  assumes "set xs \<subseteq> set w" "wf_map w"
    and "g0 = '''' \<or> (\<exists>rs. mget w g0 = Some rs \<and> rs \<noteq> [] \<and> n0 = int (length rs))"
    and "fold min_group_step xs (g0, n0) = (g, n)"
  shows "g = '''' \<or> (\<exists>rs. mget w g = Some rs \<and> rs \<noteq> [] \<and> n = int (length rs))"
  using assms(1,3,4)
proof (induction xs arbitrary: g0 n0)
  case (Cons e xs)
  obtain h rs where e: "e = (h, rs)" by (cases e)
  have h: "mget w h = Some rs" using Cons.prems(1) assms(2) by (auto simp: e intro: mem_mget)
  obtain g1 n1 where st: "min_group_step e (g0, n0) = (g1, n1)" by (cases "min_group_step e (g0, n0)")
  then have "g1 = '''' \<or> (\<exists>rs. mget w g1 = Some rs \<and> rs \<noteq> [] \<and> n1 = int (length rs))"
    using Cons.prems(2) h by (auto simp: e min_group_step_def split: if_splits)
  then show ?case using Cons.IH [of g1 n1] Cons.prems st by simp
qed simp

lemma min_group_fold_least:
  assumes "\<forall>(h, rs) \<in> set xs. rs \<noteq> [] \<longrightarrow> h \<noteq> ''''" and "fold min_group_step xs (g0, n0) = (g, n)"
  shows "(g0 \<noteq> '''' \<longrightarrow> g \<noteq> '''' \<and> n \<le> n0) \<and>
    (\<forall>(h, rs) \<in> set xs. rs \<noteq> [] \<longrightarrow> g \<noteq> '''' \<and> n \<le> int (length rs))"
  using assms
proof (induction xs arbitrary: g0 n0)
  case (Cons e xs)
  obtain h rs where e: "e = (h, rs)" by (cases e)
  obtain g1 n1 where st: "min_group_step e (g0, n0) = (g1, n1)" by (cases "min_group_step e (g0, n0)")
  have ih: "(g1 \<noteq> '''' \<longrightarrow> g \<noteq> '''' \<and> n \<le> n1) \<and>
    (\<forall>(h, rs) \<in> set xs. rs \<noteq> [] \<longrightarrow> g \<noteq> '''' \<and> n \<le> int (length rs))"
    using Cons.prems st by (intro Cons.IH) (auto simp: e)
  have "(g0 \<noteq> '''' \<longrightarrow> g1 \<noteq> '''' \<and> n1 \<le> n0) \<and> (rs \<noteq> [] \<longrightarrow> g1 \<noteq> '''' \<and> n1 \<le> int (length rs))"
    using st Cons.prems(1) by (auto simp: e min_group_step_def split: if_splits)
  then show ?case using ih by (auto simp: e)
qed simp

lemma findMinGroup_spec:
  assumes "wf_map w" "findMinGroup w = (g, n)"
  shows "g = '''' \<or> (\<exists>rs. mget w g = Some rs \<and> rs \<noteq> [] \<and> n = int (length rs))"
    and "\<forall>(h, rs) \<in> set w. rs \<noteq> [] \<longrightarrow> h \<noteq> '''' \<Longrightarrow> (h, rs) \<in> set w \<Longrightarrow> rs \<noteq> [] \<Longrightarrow>
      g \<noteq> '''' \<and> n \<le> int (length rs)"
  using min_group_fold [of w w "''''" 0 g n] min_group_fold_least [of w "''''" 0 g n] assms
  by (auto simp: findMinGroup_def)

lemma assign_min_takes:
  assumes "wf_map w" "warm_keyed w" "assignResourceFromMinGroup w = (r, w')"
  shows "(r = zero_resource \<and> w' = w \<and> fst (findMinGroup w) = '''') \<or> takes_one w r w'"
proof -
  obtain g n where g: "findMinGroup w = (g, n)" by (cases "findMinGroup w")
  show ?thesis
  proof (cases "g = ''''")
    case True
    then show ?thesis using assms(3) g by (simp add: assignResourceFromMinGroup_def)
  next
    case False
    then obtain rs where rs: "mget w g = Some rs" "rs \<noteq> []" "n = int (length rs)"
      using findMinGroup_spec(1) [OF assms(1) g] by auto
    then have "r = hd rs" "w' = mput w g (tl rs)"
      using assms(3) g False
      by (cases rs; cases "tl rs"; auto simp: assignResourceFromMinGroup_def mgetd_def Let_def)+
    then show ?thesis using takes_one_tl [OF assms(1,2) rs(1,2)] by simp
  qed
qed

section \<open>Assigning and freeing\<close>

lemma local_resources_cong:
  "usedResources p' = usedResources p \<Longrightarrow> coolDownQueue p' = coolDownQueue p \<Longrightarrow>
   warmResources p' = warmResources p \<Longrightarrow> local_resources p' = local_resources p"
  by (simp add: local_resources_def)

text \<open>A pool whose resources have no empty identifiers: what EC2 returns always has some.\<close>

definition named_resources :: "pool \<Rightarrow> bool" where
  "named_resources p = list_all (\<lambda>r. GroupID r \<noteq> '''' \<and> ResourceID r \<noteq> '''') (local_resources p)"

text \<open>The one case in which assigning changes the pool, seen from the outside.\<close>

lemma AssignResource_cases:
  assumes inv: "pool_inv p" and a: "AssignResource rq p = (p', res, rec, err)"
  obtains (unchanged) e where "p' = p" "err = Some e" "res = ''''"
  | (dropped) r where "err = Some ErrWarmPoolEmpty" "res = ''''" "ResourceID r = '''' \<or> GroupID r = ''''"
      "takes_one (warmResources p) r (warmResources p')" "p' = p\<lparr>warmResources := warmResources p'\<rparr>"
  | (assigned) r where "err = None" "rec" "mget (usedResources p) rq = None" "res = ResourceID r"
      "ResourceID r \<noteq> ''''" "GroupID r \<noteq> ''''"
      "int (length (usedResources p)) \<noteq> capacity p"
      "takes_one (warmResources p) r (warmResources p')"
      "p' = p\<lparr>warmResources := warmResources p', usedResources := mput (usedResources p) rq r\<rparr>"
proof -
  define pick where "pick = (if isPDPool p then assignResourceFromMinGroup (warmResources p)
    else assignResourceFromAnyGroup (warmResources p))"
  obtain r w where rw: "pick = (r, w)" by (cases pick)
  have tk: "(r = zero_resource \<and> w = warmResources p) \<or> takes_one (warmResources p) r w"
    using assign_min_takes [of "warmResources p" r w]
      assign_any_takes [of "warmResources p" "warmResources p" r w] rw pool_invD(2,4) [OF inv]
    by (auto simp: pick_def assignResourceFromAnyGroup_def split: if_splits)
  show ?thesis
  proof (cases "\<exists>e. err = Some e \<and> p' = p")
    case True
    have "res = ''''" using a True
      by (auto simp: AssignResource_def pick_def [symmetric] rw Let_def split: if_splits)
    then show ?thesis using True unchanged by blast
  next
    case False
    have c: "\<not> mhas (usedResources p) rq" "int (length (usedResources p)) \<noteq> capacity p"
      using a False by (auto simp: AssignResource_def split: if_splits)
    show ?thesis
    proof (cases "ResourceID r = '''' \<or> GroupID r = ''''")
      case True
      then have q: "p' = p\<lparr>warmResources := w\<rparr>" "err = Some ErrWarmPoolEmpty" "res = ''''"
        using a False c
        by (auto simp: AssignResource_def pick_def [symmetric] rw Let_def split: if_splits)
      then have "takes_one (warmResources p) r w" using tk False by auto
      then show ?thesis using dropped [of r] q True by simp
    next
      case named: False
      then have q: "p' = p\<lparr>warmResources := w, usedResources := mput (usedResources p) rq r\<rparr>"
        "err = None" "rec" "res = ResourceID r"
        using a False c
        by (auto simp: AssignResource_def pick_def [symmetric] rw Let_def split: if_splits)
      moreover have "takes_one (warmResources p) r w" using tk named by (auto simp: zero_resource_def)
      ultimately show ?thesis using assigned [of r] named c by (simp add: mhas_def)
    qed
  qed
qed

lemma AssignResource_mset:
  assumes "pool_inv p" "AssignResource rq p = (p', res, rec, None)"
  shows "mset (local_resources p') = mset (local_resources p)"
  using assms
proof (cases rule: AssignResource_cases)
  case (assigned r)
  have u: "mset (mvals (usedResources p')) = add_mset r (mset (mvals (usedResources p)))"
    using pool_invD(1) [OF assms(1)] assigned(3)
    by (subst assigned(9)) (simp add: mflat_mset mdel_absent mkeys_mget)
  have "coolDownQueue p' = coolDownQueue p" by (subst assigned(9)) simp
  then show ?thesis using u assigned(8) by (simp add: mset_local_resources takes_one_def)
qed auto

lemma AssignResource_inv:
  assumes "pool_inv p" "AssignResource rq p = (p', res, rec, err)"
  shows "pool_inv p'"
  using assms
proof (cases rule: AssignResource_cases)
  case (unchanged e)
  then show ?thesis using assms by simp
next
  case (dropped r)
  have f: "usedResources p' = usedResources p" "coolDownQueue p' = coolDownQueue p" "isPDPool p' = isPDPool p"
    by (subst dropped(5), simp)+
  have "mset (local_resources p') \<subseteq># mset (local_resources p)"
    using dropped(4) by (simp add: mset_local_resources f takes_one_def)
  then show ?thesis
    using dropped(4) pool_invD(1) [OF assms(1)] f
    by (intro pool_inv_move [OF assms(1)]) (simp_all add: takes_one_def)
next
  case (assigned r)
  have f: "usedResources p' = mput (usedResources p) rq r" "isPDPool p' = isPDPool p"
    by (subst assigned(9), simp)+
  have "mset (local_resources p') = mset (local_resources p)"
    using AssignResource_mset [OF assms(1)] assms(2) assigned(1) by simp
  then show ?thesis
    using assigned(8) pool_invD(1) [OF assms(1)] f
    by (intro pool_inv_move [OF assms(1)]) (simp_all add: takes_one_def)
qed

lemma FreeResource_cases:
  assumes "FreeResource now rq rid p = (p', rec, err)"
  obtains (missing) "mget (usedResources p) rq = None" "p' = p" "\<not> rec" "err = Some ErrResourceDoesntExist"
  | (wrong) r where "mget (usedResources p) rq = Some r" "ResourceID r \<noteq> rid" "p' = p" "\<not> rec"
      "err = Some ErrIncorrectResourceOwner"
  | (freed) r where "mget (usedResources p) rq = Some r" "ResourceID r = rid" "rec" "err = None"
      "p' = p\<lparr>usedResources := mdel (usedResources p) rq,
              coolDownQueue := coolDownQueue p @ [\<lparr>Resource = r, DeletionTimestamp = now\<rparr>]\<rparr>"
  using assms by (auto simp: FreeResource_def split: option.splits if_splits)

lemma FreeResource_mset:
  assumes "pool_inv p" "FreeResource now rq rid p = (p', rec, err)"
  shows "mset (local_resources p') = mset (local_resources p)"
  using assms(2)
proof (cases rule: FreeResource_cases)
  case (freed r)
  then show ?thesis
    using mset_mvals_split [OF pool_invD(1) [OF assms(1)] freed(1)] by (simp add: mset_local_resources)
qed simp_all

lemma FreeResource_inv:
  assumes "pool_inv p" "FreeResource now rq rid p = (p', rec, err)"
  shows "pool_inv p'"
proof (rule pool_inv_move [OF assms(1)])
  show "mset (local_resources p') \<subseteq># mset (local_resources p)"
    using FreeResource_mset [OF assms] by simp
qed (use assms(2) pool_invD [OF assms(1)] in \<open>cases rule: FreeResource_cases; simp\<close>)+

section \<open>The cool down queue\<close>

abbreviation to_warm :: "cool_down_resource list \<Rightarrow> warm_map \<Rightarrow> warm_map" where
  "to_warm cs w \<equiv> fold (\<lambda>c w. append_warm w (GroupID (Resource c)) [Resource c]) cs w"

lemma cool_down_loop_split:
  assumes "cool_down_loop now i q w = (q', w', again)"
  shows "\<exists>done. q = done @ q' \<and> w' = to_warm done w \<and>
    (\<forall>j < length done. now (i + j) - DeletionTimestamp (done ! j) \<ge> CoolDownPeriod) \<and>
    (again \<longleftrightarrow> q' \<noteq> []) \<and>
    (q' \<noteq> [] \<longrightarrow> now (i + length done) - DeletionTimestamp (hd q') < CoolDownPeriod)"
  using assms
proof (induction now i q w arbitrary: q' w' again rule: cool_down_loop.induct)
  case (2 now i c q w)
  show ?case
  proof (cases "now i - DeletionTimestamp c \<ge> CoolDownPeriod")
    case True
    then obtain d where d: "q = d @ q'"
      "w' = to_warm d (append_warm w (GroupID (Resource c)) [Resource c])"
      "\<forall>j < length d. now (Suc i + j) - DeletionTimestamp (d ! j) \<ge> CoolDownPeriod"
      "again \<longleftrightarrow> q' \<noteq> []"
      "q' \<noteq> [] \<longrightarrow> now (Suc i + length d) - DeletionTimestamp (hd q') < CoolDownPeriod"
      using 2 by (auto split: if_splits)
    moreover have "now (i + j) - DeletionTimestamp ((c # d) ! j) \<ge> CoolDownPeriod"
      if "j < length (c # d)" for j
      using that True d(3) by (cases j) auto
    ultimately show ?thesis by (intro exI [of _ "c # d"]) simp
  next
    case False
    then show ?thesis using 2(2) by (intro exI [of _ "[]"]) auto
  qed
qed auto

lemma ProcessCoolDownQueue_split:
  assumes "ProcessCoolDownQueue now p = (p', again)"
  obtains cooled where "coolDownQueue p = cooled @ coolDownQueue p'"
    "warmResources p' = to_warm cooled (warmResources p)"
    "p' = p\<lparr>coolDownQueue := coolDownQueue p', warmResources := warmResources p'\<rparr>"
    "\<And>j. j < length cooled \<Longrightarrow> now j - DeletionTimestamp (cooled ! j) \<ge> CoolDownPeriod"
    "again \<longleftrightarrow> coolDownQueue p' \<noteq> []"
    "coolDownQueue p' \<noteq> [] \<Longrightarrow> now (length cooled) - DeletionTimestamp (hd (coolDownQueue p')) < CoolDownPeriod"
proof -
  obtain q w m where l: "cool_down_loop now 0 (coolDownQueue p) (warmResources p) = (q, w, m)"
    by (cases "cool_down_loop now 0 (coolDownQueue p) (warmResources p)")
  show ?thesis
  proof (cases "coolDownQueue p = []")
    case True
    then show ?thesis using assms that [of "[]"] by (simp add: ProcessCoolDownQueue_def)
  next
    case False
    then show ?thesis using cool_down_loop_split [OF l] assms l that
      by (auto simp: ProcessCoolDownQueue_def)
  qed
qed

lemma to_warm_props:
  assumes "wf_map w" "warm_keyed w"
  shows "wf_map (to_warm cs w)" "warm_keyed (to_warm cs w)"
    "mset (mflat (to_warm cs w)) = mset (mflat w) + mset (map Resource cs)"
  using fold_append_warm [OF assms, of cs "\<lambda>c. [Resource c]" "\<lambda>c. GroupID (Resource c)"]
  by (auto simp: concat_map_singleton)

lemma ProcessCoolDownQueue_mset:
  assumes "pool_inv p" "ProcessCoolDownQueue now p = (p', again)"
  shows "mset (local_resources p') = mset (local_resources p)"
proof -
  from assms(2) obtain cooled where c: "coolDownQueue p = cooled @ coolDownQueue p'"
    "warmResources p' = to_warm cooled (warmResources p)"
    "p' = p\<lparr>coolDownQueue := coolDownQueue p', warmResources := warmResources p'\<rparr>"
    by (rule ProcessCoolDownQueue_split) blast
  have "usedResources p' = usedResources p" by (subst c(3)) simp
  then show ?thesis
    using c(1,2) to_warm_props(3) [OF pool_invD(2,4) [OF assms(1)], of cooled]
    by (simp add: mset_local_resources union_ac)
qed

lemma ProcessCoolDownQueue_inv:
  assumes "pool_inv p" "ProcessCoolDownQueue now p = (p', again)"
  shows "pool_inv p'"
proof -
  from assms(2) obtain cooled where c: "warmResources p' = to_warm cooled (warmResources p)"
    "p' = p\<lparr>coolDownQueue := coolDownQueue p', warmResources := warmResources p'\<rparr>"
    by (rule ProcessCoolDownQueue_split) blast
  have f: "usedResources p' = usedResources p" "isPDPool p' = isPDPool p" by (subst c(2), simp)+
  show ?thesis
    using to_warm_props [OF pool_invD(2,4) [OF assms(1)], of cooled] pool_invD(1) [OF assms(1)] f c(1)
      ProcessCoolDownQueue_mset [OF assms]
    by (intro pool_inv_move [OF assms(1)]) auto
qed

section \<open>Results of jobs\<close>

definition job_resources :: "bool \<Rightarrow> WarmPoolJob \<Rightarrow> resource list" where
  "job_resources isPD job = concat (map (job_group isPD) (JobResources job))"

text \<open>What EC2 promises of the addresses a job brings: they are not in the pool already.\<close>

definition fresh_job :: "pool \<Rightarrow> WarmPoolJob \<Rightarrow> bool" where
  "fresh_job p job \<longleftrightarrow> distinct (map ResourceID (job_resources (isPDPool p) job)) \<and>
     (\<forall>r \<in> set (job_resources (isPDPool p) job). ResourceID r \<notin> set (pool_ids p))"

lemma job_group_GroupID: "r \<in> set (job_group isPD g) \<Longrightarrow> GroupID r = g"
  by (auto simp: job_group_def Let_def)

lemma job_group_secondary: "r \<in> set (job_group False g) \<Longrightarrow> GroupID r = ResourceID r"
  by (auto simp: job_group_def)

lemma UpdatePool_fields:
  assumes "UpdatePool job ok pre p = (p', rec)"
  shows "usedResources p' = usedResources p" "coolDownQueue p' = coolDownQueue p"
    "isPDPool p' = isPDPool p" "capacity p' = capacity p" "nodeName p' = nodeName p"
    "warmPoolConfig p' = warmPoolConfig p"
    "warmResources p' = fold (\<lambda>g w. append_warm w g (job_group (isPDPool p) g)) (JobResources job) (warmResources p)"
    "reSyncRequired p' \<longleftrightarrow> reSyncRequired p \<or> \<not> ok" "rec \<longleftrightarrow> \<not> ok"
    "prefixAvailable p' = (if isPDPool p then pre else prefixAvailable p)"
  using assms by (auto simp: UpdatePool_def Let_def)

lemma UpdatePool_warm:
  assumes "pool_inv p" "UpdatePool job ok pre p = (p', rec)"
  shows "mset (mflat (warmResources p')) =
    mset (mflat (warmResources p)) + mset (job_resources (isPDPool p) job)"
  using fold_append_warm [OF pool_invD(2,4) [OF assms(1)], of "JobResources job" "job_group (isPDPool p)" "\<lambda>g. g"]
    job_group_GroupID
  by (simp add: UpdatePool_fields(7) [OF assms(2)] job_resources_def)

lemma UpdatePool_mset:
  assumes "pool_inv p" "UpdatePool job ok pre p = (p', rec)"
  shows "mset (local_resources p') = mset (local_resources p) + mset (job_resources (isPDPool p) job)"
    and "wf_map (warmResources p')" and "warm_keyed (warmResources p')"
  using fold_append_warm [OF pool_invD(2,4) [OF assms(1)], of "JobResources job" "job_group (isPDPool p)" "\<lambda>g. g"]
  by (auto simp: mset_local_resources UpdatePool_fields [OF assms(2)] job_resources_def union_ac
      dest: job_group_GroupID)

lemma UpdatePool_inv:
  assumes "pool_inv p" "UpdatePool job ok pre p = (p', rec)" "fresh_job p job"
  shows "pool_inv p'"
proof (rule pool_invI)
  have "mset (pool_ids p') = mset (pool_ids p @ map ResourceID (job_resources (isPDPool p) job))"
    using UpdatePool_mset(1) [OF assms(1,2)] by (simp add: pool_ids_def)
  moreover have "distinct (pool_ids p @ map ResourceID (job_resources (isPDPool p) job))"
    using assms(3) pool_invD(3) [OF assms(1)] by (auto simp: fresh_job_def)
  ultimately show "distinct (pool_ids p')" by (metis mset_eq_imp_distinct_iff)
  show "wf_map (usedResources p')"
    using UpdatePool_fields(1) [OF assms(2)] pool_invD(1) [OF assms(1)] by simp
  show "\<forall>r \<in> set (local_resources p'). GroupID r = ResourceID r" if "\<not> isPDPool p'"
  proof -
    have "set (local_resources p') = set (local_resources p) \<union> set (job_resources (isPDPool p) job)"
      using UpdatePool_mset(1) [OF assms(1,2)] by (metis set_mset_mset set_mset_union)
    then show ?thesis using that UpdatePool_fields(3) [OF assms(2)] pool_invD(5) [OF assms(1)]
      by (auto simp: job_resources_def dest: job_group_secondary)
  qed
qed (use UpdatePool_mset(2,3) [OF assms(1,2)] in auto)

end
