(* ===== verification/Pool_ReSync.thy ===== *)
theory Pool_ReSync
  imports Pool_Inv
begin

text \<open>
  Re-synchronisation: the two index loops that cut deleted resources out of slices while walking
  them backwards are filters, and after \<open>ReSync\<close> the pool holds the upstream resources and the
  ones that are in use.
\<close>

section \<open>The backward loops are filters\<close>

lemma take_Suc_filter:
  assumes "i < length xs"
  shows "filter P (take (Suc i) xs) @ drop (Suc i) xs =
    (if P (xs ! i) then filter P (take i xs) @ drop i xs
     else filter P (take i xs) @ drop (Suc i) xs)"
  using assms by (simp add: take_Suc_conv_app_nth Cons_nth_drop_Suc)

lemma resync_cool_loop_filter_prefix:
  "i \<le> length q \<Longrightarrow>
   resync_cool_loop i r q = filter (\<lambda>c. Resource c \<noteq> r) (take i q) @ drop i q"
proof (induction i arbitrary: q)
  case (Suc i)
  have eq: "GroupID (Resource (q ! i)) = GroupID r \<and> ResourceID (Resource (q ! i)) = ResourceID r \<longleftrightarrow>
      Resource (q ! i) = r"
    by (metis resource.equality unit_eq)
  show ?case
  proof (cases "Resource (q ! i) = r")
    case True
    have "resync_cool_loop (Suc i) r q = resync_cool_loop i r (remove_at i q)"
      using True by simp
    also have "\<dots> = filter (\<lambda>c. Resource c \<noteq> r) (take i (remove_at i q)) @ drop i (remove_at i q)"
      using Suc by (intro Suc.IH) (simp add: length_remove_at)
    finally show ?thesis
      using Suc.prems True take_Suc_filter [of i q "\<lambda>c. Resource c \<noteq> r"]
      by (simp add: take_remove_at drop_remove_at del: resync_cool_loop.simps)
  next
    case False
    then have "resync_cool_loop (Suc i) r q = resync_cool_loop i r q" using eq by auto
    then show ?thesis
      using Suc.prems Suc.IH [of q] False take_Suc_filter [of i q "\<lambda>c. Resource c \<noteq> r"]
      by (simp del: resync_cool_loop.simps)
  qed
qed simp

lemma resync_cool_loop_filter:
  "resync_cool_loop (length q) r q = filter (\<lambda>c. Resource c \<noteq> r) q"
  using resync_cool_loop_filter_prefix [of "length q" q r] by simp

lemma resync_warm_loop_get:
  assumes "i \<le> length (mgetd [] w (GroupID r))"
  shows "mgetd [] (resync_warm_loop i r w) (GroupID r) =
      filter (\<lambda>x. ResourceID x \<noteq> ResourceID r) (take i (mgetd [] w (GroupID r)))
        @ drop i (mgetd [] w (GroupID r)) \<and>
    mdel (resync_warm_loop i r w) (GroupID r) = mdel w (GroupID r)"
  using assms
proof (induction i arbitrary: w)
  case (Suc i)
  define xs where "xs = mgetd [] w (GroupID r)"
  define w1 where "w1 = mput w (GroupID r) (remove_at i xs)"
  define w2 where "w2 = (if remove_at i xs = [] then mdel w1 (GroupID r) else w1)"
  have ne: "xs \<noteq> []" and i: "i < length xs" using Suc.prems by (auto simp: xs_def)
  have w2: "mgetd [] w2 (GroupID r) = remove_at i xs" "mdel w2 (GroupID r) = mdel w (GroupID r)"
    by (auto simp: w2_def w1_def)
  show ?case
  proof (cases "ResourceID (xs ! i) = ResourceID r")
    case True
    then have "resync_warm_loop (Suc i) r w = resync_warm_loop i r w2"
      using ne by (simp add: xs_def [symmetric] w1_def [symmetric] w2_def Let_def)
        (simp add: w1_def)
    moreover have "i \<le> length (mgetd [] w2 (GroupID r))"
      using i by (simp add: w2 length_remove_at)
    ultimately show ?thesis
      using Suc.IH [of w2] True i take_Suc_filter [of i xs "\<lambda>x. ResourceID x \<noteq> ResourceID r"]
      by (simp add: w2 take_remove_at drop_remove_at xs_def [symmetric] del: resync_warm_loop.simps)
  next
    case False
    then have "resync_warm_loop (Suc i) r w = resync_warm_loop i r w"
      using ne by (simp add: xs_def [symmetric])
    then show ?thesis
      using Suc.IH [of w] False i take_Suc_filter [of i xs "\<lambda>x. ResourceID x \<noteq> ResourceID r"]
      by (simp add: xs_def [symmetric] del: resync_warm_loop.simps)
  qed
qed simp

lemma resync_warm_loop_wf: "wf_map w \<Longrightarrow> wf_map (resync_warm_loop i r w)"
  by (induction i r w rule: resync_warm_loop.induct) (simp_all add: Let_def)

lemma warm_keyed_if:
  assumes "wf_map w" "warm_keyed (mdel w g)" "\<And>r. r \<in> set (mgetd [] w g) \<Longrightarrow> GroupID r = g"
  shows "warm_keyed w"
  unfolding warm_keyed_def list_all_iff
proof (clarify)
  fix h rs r assume e: "(h, rs) \<in> set w" and r: "r \<in> set rs"
  show "GroupID r = h"
  proof (cases "h = g")
    case True
    then show ?thesis using assms(3) mem_mget [OF assms(1) e] r by (simp add: mgetd_def)
  next
    case False
    then show ?thesis using assms(2) e r by (auto simp: warm_keyed_def list_all_iff set_mdel)
  qed
qed

lemma resync_warm_loop_mset:
  fixes r :: resource
  assumes "wf_map w" "warm_keyed w"
  defines "w' \<equiv> resync_warm_loop (length (mgetd [] w (GroupID r))) r w"
  shows "wf_map w'" and "warm_keyed w'"
    and "mset (mflat w') = filter_mset (\<lambda>x. x \<noteq> r) (mset (mflat w))"
proof -
  let ?g = "GroupID r"
  have get: "mgetd [] w' ?g = filter (\<lambda>x. ResourceID x \<noteq> ResourceID r) (mgetd [] w ?g)"
    and del: "mdel w' ?g = mdel w ?g"
    using resync_warm_loop_get [of "length (mgetd [] w ?g)" w r] by (simp_all add: w'_def)
  show wf: "wf_map w'" using assms(1) by (simp add: w'_def resync_warm_loop_wf)
  show "warm_keyed w'"
    using assms(2) warm_keyed_mgetd [OF assms(2)] warm_keyed_mdel [OF assms(2)]
    by (intro warm_keyed_if [OF wf, of ?g]) (auto simp: get del)
  have same: "filter (\<lambda>x. ResourceID x \<noteq> ResourceID r) (mgetd [] w ?g) =
      filter (\<lambda>x. x \<noteq> r) (mgetd [] w ?g)"
    using warm_keyed_mgetd [OF assms(2), of _ ?g]
    by (intro filter_cong refl) (metis resource.equality unit_eq)
  have other: "filter_mset (\<lambda>x. x \<noteq> r) (mset (mflat (mdel w ?g))) = mset (mflat (mdel w ?g))"
    using warm_keyed_mdel [OF assms(2), of ?g] mem_mflat_keyed [of "mdel w ?g" r] assms(1)
    by (intro filter_mset_eq_conv [THEN iffD2]) auto
  show "mset (mflat w') = filter_mset (\<lambda>x. x \<noteq> r) (mset (mflat w))"
    unfolding mset_mflat_split [OF wf, of ?g] mset_mflat_split [OF assms(1), of ?g] get del same
    by (simp add: other)
qed

section \<open>ReSync\<close>

lemma resync_remove_props:
  assumes "wf_map (warmResources p)" "warm_keyed (warmResources p)"
  shows "wf_map (warmResources (resync_remove r p))" "warm_keyed (warmResources (resync_remove r p))"
    "mset (mflat (warmResources (resync_remove r p))) =
       filter_mset (\<lambda>x. x \<noteq> r) (mset (mflat (warmResources p)))"
    "coolDownQueue (resync_remove r p) = filter (\<lambda>c. Resource c \<noteq> r) (coolDownQueue p)"
    "resync_remove r p = p\<lparr>warmResources := warmResources (resync_remove r p),
       coolDownQueue := coolDownQueue (resync_remove r p)\<rparr>"
  using resync_warm_loop_mset [OF assms, of r]
  by (simp_all add: resync_remove_def resync_cool_loop_filter)

lemma fold_resync_remove:
  assumes "wf_map (warmResources p)" "warm_keyed (warmResources p)"
  shows "wf_map (warmResources (fold resync_remove rs p)) \<and>
    warm_keyed (warmResources (fold resync_remove rs p)) \<and>
    mset (mflat (warmResources (fold resync_remove rs p))) =
      filter_mset (\<lambda>x. x \<notin> set rs) (mset (mflat (warmResources p))) \<and>
    coolDownQueue (fold resync_remove rs p) = filter (\<lambda>c. Resource c \<notin> set rs) (coolDownQueue p) \<and>
    fold resync_remove rs p = p\<lparr>warmResources := warmResources (fold resync_remove rs p),
       coolDownQueue := coolDownQueue (fold resync_remove rs p)\<rparr>"
  using assms
proof (induction rs arbitrary: p)
  case (Cons r rs)
  define q where "q = resync_remove r p"
  note q = resync_remove_props [OF Cons.prems, of r, folded q_def]
  note ih = Cons.IH [OF q(1,2)]
  have "fold resync_remove rs q = p\<lparr>warmResources := warmResources (fold resync_remove rs q),
       coolDownQueue := coolDownQueue (fold resync_remove rs q)\<rparr>"
    by (subst ih [THEN conjunct2, THEN conjunct2, THEN conjunct2, THEN conjunct2], subst q(5)) simp
  moreover have "mset (mflat (warmResources (fold resync_remove rs q))) =
      filter_mset (\<lambda>x. x \<notin> set (r # rs)) (mset (mflat (warmResources p)))"
    unfolding ih [THEN conjunct2, THEN conjunct2, THEN conjunct1] q(3) filter_filter_mset
    by (intro filter_mset_cong refl) auto
  moreover have "coolDownQueue (fold resync_remove rs q) =
      filter (\<lambda>c. Resource c \<notin> set (r # rs)) (coolDownQueue p)"
    unfolding ih [THEN conjunct2, THEN conjunct2, THEN conjunct2, THEN conjunct1] q(4) filter_filter
    by (intro filter_cong refl) auto
  ultimately show ?case
    using ih [THEN conjunct1] ih [THEN conjunct2, THEN conjunct1] by (simp only: fold_simps q_def)
qed simp

definition upstream_of :: "pool \<Rightarrow> string list \<Rightarrow> resource list" where
  "upstream_of p groups = upstream_resources (isPDPool p) groups"

text \<open>What a re-synchronisation leaves in the pool.\<close>

lemma ReSync_shape:
  fixes groups :: "string list"
  assumes inv: "pool_inv p" and rq: "reSyncRequired p"
  defines "U \<equiv> upstream_of p groups" and "L \<equiv> local_resources p"
  shows "wf_map (warmResources (ReSync groups p))" and "warm_keyed (warmResources (ReSync groups p))"
    and "mset (mflat (warmResources (ReSync groups p))) =
       filter_mset (\<lambda>x. x \<in> set U) (mset (mflat (warmResources p))) + mset (Difference U L)"
    and "coolDownQueue (ReSync groups p) = filter (\<lambda>c. Resource c \<in> set U) (coolDownQueue p)"
    and "ReSync groups p = p\<lparr>reSyncRequired := False, warmResources := warmResources (ReSync groups p),
       coolDownQueue := coolDownQueue (ReSync groups p)\<rparr>"
proof -
  define p1 where "p1 = p\<lparr>reSyncRequired := False\<rparr>"
  define p2 where "p2 = p1\<lparr>warmResources :=
     fold (\<lambda>r w. append_warm w (GroupID r) [r]) (Difference U L) (warmResources p1)\<rparr>"
  define p3 where "p3 = fold resync_remove (Difference L U) p2"
  have eq: "ReSync groups p = p3"
    using rq by (auto simp: ReSync_def Let_def p3_def p2_def p1_def U_def L_def upstream_of_def)
  have "wf_map (warmResources p2) \<and> warm_keyed (warmResources p2) \<and>
     mset (mflat (warmResources p2)) = mset (mflat (warmResources p)) + mset (Difference U L)"
    using fold_append_warm [OF pool_invD(2,4) [OF inv], of "Difference U L" "\<lambda>r. [r]" GroupID]
    by (simp add: p2_def p1_def concat_map_singleton)
  then have p2: "wf_map (warmResources p2)" "warm_keyed (warmResources p2)"
     "mset (mflat (warmResources p2)) = mset (mflat (warmResources p)) + mset (Difference U L)"
    by simp_all
  note p3 = fold_resync_remove [OF p2(1,2), of "Difference L U", folded p3_def]
  have L: "set (mflat (warmResources p)) \<subseteq> set L" "\<And>c. c \<in> set (coolDownQueue p) \<Longrightarrow> Resource c \<in> set L"
    by (auto simp: L_def set_local_resources)
  show "wf_map (warmResources (ReSync groups p))" "warm_keyed (warmResources (ReSync groups p))"
    using p3 by (simp_all add: eq)
  have "filter_mset (\<lambda>x. x \<notin> set (Difference L U)) (mset (mflat (warmResources p))) =
      filter_mset (\<lambda>x. x \<in> set U) (mset (mflat (warmResources p)))"
    using L(1) by (intro filter_mset_cong refl) (auto simp: Difference_set)
  moreover have "filter_mset (\<lambda>x. x \<notin> set (Difference L U)) (mset (Difference U L)) = mset (Difference U L)"
    by (intro filter_mset_eq_conv [THEN iffD2]) (auto simp: Difference_set)
  ultimately show "mset (mflat (warmResources (ReSync groups p))) =
       filter_mset (\<lambda>x. x \<in> set U) (mset (mflat (warmResources p))) + mset (Difference U L)"
    using p3 by (simp add: eq p2(3))
  show "coolDownQueue (ReSync groups p) = filter (\<lambda>c. Resource c \<in> set U) (coolDownQueue p)"
    using p3 L(2) by (auto simp: eq p2_def p1_def Difference_set intro!: filter_cong)
  show "ReSync groups p = p\<lparr>reSyncRequired := False, warmResources := warmResources (ReSync groups p),
       coolDownQueue := coolDownQueue (ReSync groups p)\<rparr>"
    unfolding eq by (subst p3 [THEN conjunct2, THEN conjunct2, THEN conjunct2, THEN conjunct2])
      (simp add: p2_def p1_def)
qed

lemma ReSync_not_required: "\<not> reSyncRequired p \<Longrightarrow> ReSync groups p = p"
  by (simp add: ReSync_def)

lemma ReSync_used: "pool_inv p \<Longrightarrow> usedResources (ReSync groups p) = usedResources p"
proof (cases "reSyncRequired p")
  case True
  assume "pool_inv p"
  then show ?thesis by (subst ReSync_shape(5) [OF _ True]) simp_all
qed (simp add: ReSync_not_required)

lemma ReSync_set:
  assumes "pool_inv p" "reSyncRequired p"
  shows "set (local_resources (ReSync groups p)) =
    set (upstream_of p groups) \<union> set (mvals (usedResources p))"
proof -
  let ?U = "set (upstream_of p groups)"
  have "set (mflat (warmResources (ReSync groups p))) =
      {x \<in> set (mflat (warmResources p)). x \<in> ?U} \<union> (?U - set (local_resources p))"
    using arg_cong [OF ReSync_shape(3) [OF assms, of groups], of set_mset]
    by (simp add: Difference_set)
  then show ?thesis
    using ReSync_shape(4) [OF assms, of groups] ReSync_used [OF assms(1), of groups]
    by (auto simp: set_local_resources)
qed

text \<open>What is asked of the upstream list: it names no address twice, and an address that is
  local too is listed under the same group (a prefix is never split or moved).\<close>

definition upstream_ok :: "pool \<Rightarrow> string list \<Rightarrow> bool" where
  "upstream_ok p groups \<longleftrightarrow> distinct (map ResourceID (upstream_of p groups)) \<and>
     (\<forall>u \<in> set (upstream_of p groups). \<forall>l \<in> set (local_resources p).
        ResourceID u = ResourceID l \<longrightarrow> u = l)"

lemma ReSync_inv:
  assumes inv: "pool_inv p" and up: "upstream_ok p groups"
  shows "pool_inv (ReSync groups p)"
proof (cases "reSyncRequired p")
  case False
  then show ?thesis using inv by (simp add: ReSync_not_required)
next
  case rq: True
  let ?q = "ReSync groups p" and ?U = "upstream_of p groups" and ?L = "local_resources p"
  have pd: "isPDPool ?q = isPDPool p" by (subst ReSync_shape(5) [OF inv rq]) simp
  show ?thesis
  proof (rule pool_invI)
    have "mset (local_resources ?q) \<subseteq># mset (?L @ Difference ?U ?L)"
    proof -
      have "mset (map Resource (filter (\<lambda>c. Resource c \<in> set ?U) (coolDownQueue p)))
          \<subseteq># mset (map Resource (coolDownQueue p))"
        by (simp add: image_mset_subseteq_mono)
      then have "mset (map Resource (filter (\<lambda>c. Resource c \<in> set ?U) (coolDownQueue p)))
          + mset (mvals (usedResources p))
          + filter_mset (\<lambda>x. x \<in> set ?U) (mset (mflat (warmResources p))) + mset (Difference ?U ?L)
          \<subseteq># mset ?L + mset (Difference ?U ?L)"
        unfolding mset_local_resources
        by (intro subset_mset.add_mono subset_mset.order_refl multiset_filter_subset)
      then show ?thesis
        unfolding mset_append mset_local_resources [of ?q] ReSync_used [OF inv] ReSync_shape(3,4) [OF inv rq]
        by (simp only: add.assoc)
    qed
    then have "mset (pool_ids ?q) \<subseteq># mset (map ResourceID (?L @ Difference ?U ?L))"
      unfolding pool_ids_def mset_map by (rule image_mset_subseteq_mono)
    moreover have "distinct (map ResourceID (?L @ Difference ?U ?L))"
    proof -
      have "distinct (map ResourceID (Difference ?U ?L))"
        using up by (simp add: upstream_ok_def Difference_def distinct_map_filter)
      moreover have "ResourceID l \<noteq> ResourceID u" if "l \<in> set ?L" "u \<in> set (Difference ?U ?L)" for l u
        using up that unfolding upstream_ok_def Difference_set by (metis DiffD1 DiffD2)
      ultimately show ?thesis using pool_invD(3) [OF inv] by (auto simp: pool_ids_def)
    qed
    ultimately show "distinct (pool_ids ?q)"
      by (rule distinct_submset)
    show "\<forall>r \<in> set (local_resources ?q). GroupID r = ResourceID r" if "\<not> isPDPool ?q"
    proof -
      have "\<forall>r \<in> set ?U. GroupID r = ResourceID r"
        using that pd by (auto simp: upstream_of_def upstream_resources_def upstream_group_def)
      then show ?thesis
        unfolding ReSync_set [OF inv rq, of groups]
        using pool_invD(5) [OF inv, of r for r] that unfolding pd set_local_resources by blast
    qed
  qed (simp_all only: ReSync_shape(1,2) [OF inv rq] ReSync_used [OF inv] pool_invD(1) [OF inv])
qed

end
