(* ===== verification/Pool_Reconcile.thy ===== *)
theory Pool_Reconcile
  imports Pool_ReSync
begin

text \<open>
  Reconciliation of the warm pool: what the two deviation functions compute, the four outcomes of
  \<open>ReconcilePool\<close>, and that it keeps the invariant and the capacity bound.
\<close>

section \<open>Taking free groups out of the warm pool\<close>

lemma findFreeGroup_spec:
  assumes "wf_map w"
  shows "distinct (findFreeGroup w n)"
    and "g \<in> set (findFreeGroup w n) \<Longrightarrow> \<exists>rs. mget w g = Some rs \<and> rs \<noteq> [] \<and> int (length rs) = n"
proof -
  have "distinct (map fst (filter (\<lambda>(g, rs). rs \<noteq> [] \<and> int (length rs) = n) w))"
    using assms by (simp add: wf_map_def mkeys_def distinct_map_filter)
  then show "distinct (findFreeGroup w n)" by (simp add: findFreeGroup_def)
  show "\<exists>rs. mget w g = Some rs \<and> rs \<noteq> [] \<and> int (length rs) = n" if "g \<in> set (findFreeGroup w n)"
    using that mem_mget [OF assms] by (auto simp: findFreeGroup_def)
qed

lemma mset_mflat_mdel_sub: "wf_map w \<Longrightarrow> mset (mflat (mdel w g)) \<subseteq># mset (mflat w)"
  using mset_mflat_split [of w g] by simp

lemma length_mflat_mdel:
  "wf_map w \<Longrightarrow> length (mflat w) = length (mgetd [] w g) + length (mflat (mdel w g))"
  using mset_mflat_split [of w g] by (metis mset_append size_mset length_append)

abbreviation drop_groups :: "string list \<Rightarrow> warm_map \<Rightarrow> warm_map" where
  "drop_groups gs w \<equiv> fold (\<lambda>g w. mdel w g) gs w"

lemma drop_groups_props:
  assumes "wf_map w" "warm_keyed w" "distinct gs"
    and "\<And>g. g \<in> set gs \<Longrightarrow> int (length (mgetd [] w g)) = u"
  shows "wf_map (drop_groups gs w) \<and> warm_keyed (drop_groups gs w) \<and>
    mset (mflat (drop_groups gs w)) \<subseteq># mset (mflat w) \<and>
    int (length (mflat w)) = int (length (mflat (drop_groups gs w))) + u * int (length gs)"
  using assms
proof (induction gs arbitrary: w)
  case (Cons g gs)
  have u: "int (length (mgetd [] w g)) = u" using Cons.prems(4) by simp
  have "\<And>h. h \<in> set gs \<Longrightarrow> int (length (mgetd [] (mdel w g) h)) = u"
    using Cons.prems(3,4) by auto
  note ih = Cons.IH [OF wf_map_mdel [OF Cons.prems(1)] warm_keyed_mdel [OF Cons.prems(2)] _ this]
  have "mset (mflat (drop_groups (g # gs) w)) \<subseteq># mset (mflat w)"
    using ih Cons.prems(3) mset_mflat_mdel_sub [OF Cons.prems(1), of g] by auto
  moreover have "int (length (mflat w)) =
      int (length (mflat (drop_groups (g # gs) w))) + u * int (length (g # gs))"
    using length_mflat_mdel [OF Cons.prems(1), of g] ih Cons.prems(3) u by (auto simp: algebra_simps)
  ultimately show ?case using ih Cons.prems(3) by simp
qed simp

lemma delete_groups_loop_spec:
  assumes "distinct gs" and "\<And>g. g \<in> set gs \<Longrightarrow> int (length (mgetd [] (warmResources p) g)) = u"
    and "delete_groups_loop gs k acc p = (out, p')"
  shows "\<exists>taken. out = acc @ taken \<and> set taken \<subseteq> set gs \<and> distinct taken \<and>
    (taken = [] \<or> u * (int (length taken) - 1) < k) \<and>
    p' = p\<lparr>warmResources := drop_groups taken (warmResources p),
           pendingDelete := pendingDelete p + u * int (length taken)\<rparr>"
  using assms
proof (induction gs arbitrary: k acc p)
  case (Cons g gs)
  show ?case
  proof (cases "k \<le> 0")
    case True
    then show ?thesis using Cons.prems by (intro exI [of _ "[]"]) auto
  next
    case False
    define q where "q = p\<lparr>pendingDelete := pendingDelete p + u, warmResources := mdel (warmResources p) g\<rparr>"
    have call: "delete_groups_loop gs (k - u) (acc @ [g]) q = (out, p')"
      using Cons.prems(2,3) False by (simp add: q_def Let_def)
    have "\<And>h. h \<in> set gs \<Longrightarrow> int (length (mgetd [] (warmResources q) h)) = u"
      using Cons.prems(1,2) by (auto simp: q_def)
    then obtain t where t: "out = (acc @ [g]) @ t" "set t \<subseteq> set gs" "distinct t"
      "t = [] \<or> u * (int (length t) - 1) < k - u"
      "p' = q\<lparr>warmResources := drop_groups t (warmResources q),
              pendingDelete := pendingDelete q + u * int (length t)\<rparr>"
      using Cons.IH [OF _ _ call] Cons.prems(1) by auto
    then show ?thesis
      using Cons.prems(1) False by (intro exI [of _ "g # t"]) (auto simp: q_def algebra_simps)
  qed
qed (intro exI [of _ "[]"], simp)

section \<open>The deviations\<close>

text \<open>\<open>pool_small\<close>: the counts and targets are far from the 64-bit bounds, so nothing wraps.\<close>

definition small_int :: "int \<Rightarrow> bool" where
  "small_int x \<longleftrightarrow> \<bar>x\<bar> \<le> 2 ^ 56"

definition pool_small :: "pool \<Rightarrow> bool" where
  "pool_small p \<longleftrightarrow> small_int (WarmIPTarget (warmPoolConfig p)) \<and> small_int (MinIPTarget (warmPoolConfig p)) \<and>
     small_int (WarmPrefixTarget (warmPoolConfig p)) \<and> small_int (int (length (usedResources p))) \<and>
     small_int (int (length (mflat (warmResources p)))) \<and> small_int (int (length (coolDownQueue p))) \<and>
     small_int (pendingCreate p)"

lemma i64_small: "\<bar>x\<bar> \<le> 2 ^ 62 \<Longrightarrow> i64 x = x"
  by (rule i64_id) (auto simp: MinInt64_def MaxInt64_def)

definition available :: "pool \<Rightarrow> int" where
  "available p = int (length (mflat (warmResources p))) + pendingCreate p"

definition assigned_total :: "pool \<Rightarrow> int" where
  "assigned_total p = available p + int (length (usedResources p)) + int (length (coolDownQueue p))"

lemma secondary_deviation_core:
  fixes W M a s :: int
  shows "max (max (W - a) 0) (M - s) - max (min (max (a - W) 0) (s - M)) 0 = max (W - a) (M - s)"
  by (simp add: max_def min_def)

lemma calculateSecondary_spec:
  assumes "pool_small p"
  shows "calculateSecondaryIPDeviation p =
    (max (WarmIPTarget (secondary_targets (warmPoolConfig p)) - available p)
         (MinIPTarget (secondary_targets (warmPoolConfig p)) - assigned_total p),
     p\<lparr>warmPoolConfig := secondary_targets (warmPoolConfig p)\<rparr>)"
proof -
  define c where "c = secondary_targets (warmPoolConfig p)"
  define W where "W = WarmIPTarget c"
  define M where "M = MinIPTarget c"
  define a where "a = available p"
  define s where "s = assigned_total p"
  have W: "0 \<le> W" "W \<le> 2 ^ 56" and M: "0 \<le> M" "M \<le> 2 ^ 56"
    using assms by (auto simp: W_def M_def c_def secondary_targets_def Let_def config_defaults
        pool_small_def small_int_def)
  have b: "\<bar>a\<bar> \<le> 2 ^ 57" "\<bar>s\<bar> \<le> 2 ^ 58"
    using assms by (auto simp: a_def s_def available_def assigned_total_def pool_small_def small_int_def)
  have "calculateSecondaryIPDeviation p =
      (i64 (max (max (i64 (W - a)) 0) (i64 (M - s)) - max (min (max (i64 (a - W)) 0) (i64 (s - M))) 0),
       p\<lparr>warmPoolConfig := c\<rparr>)"
    by (simp add: calculateSecondaryIPDeviation_def Let_def c_def W_def M_def a_def s_def
        available_def assigned_total_def numResourcesFromMap_length algebra_simps)
  also have "\<dots> = (max (W - a) (M - s), p\<lparr>warmPoolConfig := c\<rparr>)"
  proof -
    have "i64 (W - a) = W - a" "i64 (M - s) = M - s" "i64 (a - W) = a - W" "i64 (s - M) = s - M"
      using W M b by (auto intro!: i64_small)
    moreover have "i64 (max (W - a) (M - s)) = max (W - a) (M - s)"
      using W M b by (auto intro!: i64_small simp: max_def)
    ultimately show ?thesis by (simp add: secondary_deviation_core)
  qed
  finally show ?thesis by (simp add: c_def W_def M_def a_def s_def)
qed

text \<open>The number of prefixes that \<open>n\<close> addresses need.\<close>

definition prefixes_for :: "int \<Rightarrow> int" where
  "prefixes_for n = (n + 15) div 16"

lemma CeilDivision_16: "- 15 \<le> x \<Longrightarrow> x \<le> 2 ^ 60 \<Longrightarrow> CeilDivision x 16 = prefixes_for x"
proof -
  assume x: "- 15 \<le> x" "x \<le> 2 ^ 60"
  have "i64 (x + 16) = x + 16" using x by (intro i64_small) auto
  moreover have "i64 (x + 16 - 1) = x + 15"
    using x i64_small [of "x + 15"] by (simp add: add.commute)
  ultimately show ?thesis using x unfolding CeilDivision_def prefixes_for_def
    by (simp only: go_div_nonneg)
qed

lemma prefixes_for_bounds: "16 * prefixes_for n \<ge> n" "16 * prefixes_for n < n + 16"
  using ceil_div_bounds [of 16 n] by (simp_all add: prefixes_for_def)

text \<open>In prefix mode the deviation is a whole number of prefixes: what the targets need less what
  the pool has, except that nothing is deleted when no prefix is entirely free.\<close>

lemma getPDDeviation_spec:
  assumes "pool_small p" and "0 \<le> pendingCreate p"
    and "pd_targets (warmPoolConfig p) = (c, dw, dm, dp)" and "dw \<or> dm \<or> \<not> dp"
  shows "getPDDeviation p =
    (let need = max (prefixes_for (int (length (usedResources p)) + WarmIPTarget c))
                    (prefixes_for (MinIPTarget c));
         d = need - prefixes_for (assigned_total p)
     in (16 * (if d < 0 \<and> findFreeGroup (warmResources p) 16 = [] then 0 else d),
         p\<lparr>warmPoolConfig := c\<rparr>))"
proof -
  define W where "W = WarmIPTarget c"
  define M where "M = MinIPTarget c"
  define n where "n = int (length (usedResources p))"
  define s where "s = assigned_total p"
  have W: "0 \<le> W" "W \<le> 2 ^ 56" and M: "0 \<le> M" "M \<le> 2 ^ 56"
    using assms by (auto simp: W_def M_def pd_targets_def Let_def config_defaults
        pool_small_def small_int_def split: if_splits)
  have b: "0 \<le> n" "n \<le> 2 ^ 56" "0 \<le> s" "s \<le> 2 ^ 58"
    using assms(1,2) by (auto simp: n_def s_def available_def assigned_total_def pool_small_def small_int_def)
  define A where "A = prefixes_for (n + W)"
  define B where "B = prefixes_for M"
  define C where "C = prefixes_for s"
  have bd: "0 \<le> A" "A \<le> 2 ^ 57" "0 \<le> B" "B \<le> 2 ^ 57" "0 \<le> C" "C \<le> 2 ^ 58"
    using W M b prefixes_for_bounds [of "n + W"] prefixes_for_bounds [of M] prefixes_for_bounds [of s]
    by (auto simp: A_def B_def C_def)
  have cd: "CeilDivision s 16 = C" "CeilDivision (n + W) 16 = A" "CeilDivision M 16 = B"
      "i64 (n + W) = n + W"
    using W M b by (auto simp: A_def B_def C_def intro!: CeilDivision_16 i64_small)
  define D where "D = max A B - C"
  have i: "i64 (A - C) = A - C" "i64 (B - C) = B - C" "i64 (D * 16) = D * 16" "i64 0 = 0"
    using bd by (auto intro!: i64_small simp: D_def max_def)
  have D: "(if A \<ge> B then A - C else B - C) = D" by (simp add: D_def)
  have sum: "n + pendingCreate p + int (length (mflat (warmResources p))) + int (length (coolDownQueue p)) = s"
    by (simp add: s_def n_def assigned_total_def available_def)
  have "getPDDeviation p =
      (i64 ((if D < 0 \<and> length (findFreeGroup (warmResources p) 16) = 0 then 0 else D) * 16),
       p\<lparr>warmPoolConfig := c\<rparr>)"
    using assms(4) unfolding getPDDeviation_def assms(3) Let_def prod.case numResourcesFromMap_length
      NumIPv4AddrPerPrefix_def n_def [symmetric] W_def [symmetric] M_def [symmetric] sum cd i D
    by auto
  then show ?thesis
    unfolding Let_def n_def [symmetric] W_def [symmetric] M_def [symmetric] s_def [symmetric]
      A_def [symmetric] B_def [symmetric] C_def [symmetric] D_def [symmetric]
    by (cases "D < 0 \<and> findFreeGroup (warmResources p) 16 = []") (auto simp: i mult.commute)
qed

lemma pd_targets_DesiredSize: "fst (pd_targets c) = c' \<Longrightarrow> DesiredSize c' = DesiredSize c \<and> MaxDeviation c' = MaxDeviation c"
  by (auto simp: pd_targets_def Let_def)

text \<open>Normalising the configured targets a second time changes nothing, so that it makes no
  difference whether the configuration object is shared between the pools of a node.\<close>

lemma secondary_targets_idem: "secondary_targets (secondary_targets c) = secondary_targets c"
  by (simp add: secondary_targets_def Let_def config_defaults)

lemma pd_targets_idem: "fst (pd_targets (fst (pd_targets c))) = fst (pd_targets c)"
  by (auto simp: pd_targets_def Let_def config_defaults)

section \<open>The outcomes of ReconcilePool\<close>

definition group_unit :: "pool \<Rightarrow> int" where
  "group_unit p = (if isPDPool p then NumIPv4AddrPerPrefix else 1)"

lemma deviation_only_config:
  assumes "(if isPDPool p then getPDDeviation p else calculateSecondaryIPDeviation p) = (d, q)"
  obtains c where "q = p\<lparr>warmPoolConfig := c\<rparr>"
  using assms by (auto simp: getPDDeviation_def calculateSecondaryIPDeviation_def Let_def
      split: if_splits prod.splits)

text \<open>The branches of \<open>ReconcilePool\<close>, with the deviation computed.\<close>

lemma ReconcilePool_branches:
  assumes dq: "(if isPDPool p then getPDDeviation p else calculateSecondaryIPDeviation p) = (d, q)"
    and r: "ReconcilePool p = (p', job)"
  obtains (early) "p' = p" "job = NoReconcileJob"
    | (sync) "job = NewWarmPoolReSyncJob (nodeName p)" "p' = p" "reSyncRequired p"
        "pendingCreate p = 0" "pendingDelete p = 0"
    | (up) "\<not> reSyncRequired p" "d > MaxDeviation (warmPoolConfig q)"
        "reconcile_create (total_created p) d q = (p', job)"
    | (down) "\<not> reSyncRequired p" "i64 (- d) > MaxDeviation (warmPoolConfig q)"
        "reconcile_delete (i64 (- d)) q = (p', job)"
    | (quiet) "p' = q" "job = NoReconcileJob" "\<not> reSyncRequired p"
        "d \<le> MaxDeviation (warmPoolConfig q)" "i64 (- d) \<le> MaxDeviation (warmPoolConfig q)"
proof -
  define full where "full \<longleftrightarrow> int (length (usedResources p)) + pendingCreate p + pendingDelete p
    + int (length (coolDownQueue p)) = capacity p"
  have eq: "ReconcilePool p =
     (if reSyncRequired p then
        if pendingCreate p = 0 \<and> pendingDelete p = 0 then (p, NewWarmPoolReSyncJob (nodeName p))
        else (p, NoReconcileJob)
      else if full then (p, NoReconcileJob)
      else if d > MaxDeviation (warmPoolConfig q) then reconcile_create (total_created p) d q
      else if i64 (- d) > MaxDeviation (warmPoolConfig q) then reconcile_delete (i64 (- d)) q
      else (q, NoReconcileJob))"
    unfolding ReconcilePool_def Let_def dq prod.case full_def by simp
  show ?thesis
  proof (cases "reSyncRequired p")
    case True
    show ?thesis
    proof (cases "pendingCreate p = 0 \<and> pendingDelete p = 0")
      case z: True
      have "(p', job) = (p, NewWarmPoolReSyncJob (nodeName p))"
        using r unfolding eq if_P [OF True] if_P [OF z] by (rule sym)
      then have "p' = p" "job = NewWarmPoolReSyncJob (nodeName p)" by blast+
      then show ?thesis using sync True z by blast
    next
      case nz: False
      have "(p', job) = (p, NoReconcileJob)"
        using r unfolding eq if_P [OF True] if_not_P [OF nz] by (rule sym)
      then show ?thesis using early by blast
    qed
  next
    case False
    note r' = r [unfolded eq, unfolded if_not_P [OF False]]
    show ?thesis
    proof (cases full)
      case True
      have "(p', job) = (p, NoReconcileJob)" using r' unfolding if_P [OF True] by (rule sym)
      then show ?thesis using early by blast
    next
      case nf: False
      note r'' = r' [unfolded if_not_P [OF nf]]
      show ?thesis
      proof (cases "d > MaxDeviation (warmPoolConfig q)")
        case True
        show ?thesis using up [OF False True] r'' [unfolded if_P [OF True]] by blast
      next
        case le: False
        note s = r'' [unfolded if_not_P [OF le]]
        show ?thesis
        proof (cases "i64 (- d) > MaxDeviation (warmPoolConfig q)")
          case True
          show ?thesis using down [OF False True] s [unfolded if_P [OF True]] by blast
        next
          case le2: False
          have "(p', job) = (q, NoReconcileJob)" using s unfolding if_not_P [OF le2] by (rule sym)
          then show ?thesis using quiet False le le2 by (auto simp: not_less)
        qed
      qed
    qed
  qed
qed

lemma ReconcilePool_cases:
  assumes inv: "pool_inv p" and r: "ReconcilePool p = (p', job)"
  obtains (none) c where "job = NoReconcileJob" "p' = p\<lparr>warmPoolConfig := c\<rparr>"
  | (resync) "job = NewWarmPoolReSyncJob (nodeName p)" "p' = p" "reSyncRequired p"
      "pendingCreate p = 0" "pendingDelete p = 0"
  | (creates) c d where "p' = p\<lparr>warmPoolConfig := c, pendingCreate := pendingCreate p + d\<rparr>"
      "job = NewWarmPoolCreateJob (nodeName p) (if isPDPool p then go_div d NumIPv4AddrPerPrefix else d)"
      "d \<le> capacity p - total_created p" "total_created p \<noteq> capacity p" "\<not> reSyncRequired p"
  | (deletes) c gs where
      "p' = p\<lparr>warmPoolConfig := c, warmResources := drop_groups gs (warmResources p),
              pendingDelete := pendingDelete p + group_unit p * int (length gs)\<rparr>"
      "job = NewWarmPoolDeleteJob (nodeName p) gs" "gs \<noteq> []" "distinct gs" "\<not> reSyncRequired p"
      "\<And>g. g \<in> set gs \<Longrightarrow> int (length (mgetd [] (warmResources p) g)) = group_unit p"
proof -
  obtain d q where dq: "(if isPDPool p then getPDDeviation p else calculateSecondaryIPDeviation p) = (d, q)"
    by (metis surj_pair)
  then obtain c where q: "q = p\<lparr>warmPoolConfig := c\<rparr>" by (rule deviation_only_config)
  from dq r show ?thesis
  proof (cases rule: ReconcilePool_branches)
    case early
    then show ?thesis using none [of "warmPoolConfig p"] by simp
  next
    case sync
    then show ?thesis using resync by blast
  next
    case up
    then show ?thesis
      using creates [where c = c and d = "min d (capacity p - total_created p)"] none [of c]
      by (auto simp: reconcile_create_def Let_def q min_def split: if_splits)
  next
    case down
    define gs where "gs = findFreeGroup (warmResources p) (group_unit p)"
    obtain out p1 where l: "delete_groups_loop gs (i64 (- d)) [] q = (out, p1)"
      by (metis surj_pair)
    have gs: "distinct gs" "\<And>g. g \<in> set gs \<Longrightarrow> int (length (mgetd [] (warmResources p) g)) = group_unit p"
      using findFreeGroup_spec [OF pool_invD(2) [OF inv]] by (fastforce simp: gs_def mgetd_def)+
    obtain t where t: "out = t" "set t \<subseteq> set gs" "distinct t"
        "p1 = q\<lparr>warmResources := drop_groups t (warmResources p),
                pendingDelete := pendingDelete p + group_unit p * int (length t)\<rparr>"
      using delete_groups_loop_spec [OF gs(1) _ l, of "group_unit p"] gs(2) by (auto simp: q)
    show ?thesis
    proof (cases "i64 (- d) > 0 \<and> t \<noteq> []")
      case True
      then have "p' = p1" "job = NewWarmPoolDeleteJob (nodeName p) t"
        using down l t(1,4) by (auto simp: reconcile_delete_def q gs_def group_unit_def Let_def)
      then show ?thesis
        using deletes [where c = c and gs = t] t True gs down(1) by (auto simp: q subset_iff)
    next
      case False
      have "t = [] \<Longrightarrow> p1 = q" using t(4) by (simp add: q)
      then have "p' = q" "job = NoReconcileJob"
        using down l False t(1) by (auto simp: reconcile_delete_def q gs_def group_unit_def Let_def split: if_splits)
      then show ?thesis using none [of c] q by simp
    qed
  next
    case quiet
    then show ?thesis using none [of c] q by simp
  qed
qed

lemma deletes_props:
  assumes "pool_inv p" "distinct gs"
    and "\<And>g. g \<in> set gs \<Longrightarrow> int (length (mgetd [] (warmResources p) g)) = group_unit p"
  shows "wf_map (drop_groups gs (warmResources p))" "warm_keyed (drop_groups gs (warmResources p))"
    "mset (mflat (drop_groups gs (warmResources p))) \<subseteq># mset (mflat (warmResources p))"
    "int (length (mflat (warmResources p))) =
       int (length (mflat (drop_groups gs (warmResources p)))) + group_unit p * int (length gs)"
  using drop_groups_props [OF pool_invD(2,4) [OF assms(1)] assms(2,3)] by blast+

lemma ReconcilePool_inv:
  assumes "pool_inv p" "ReconcilePool p = (p', job)"
  shows "pool_inv p'"
  using assms
proof (cases rule: ReconcilePool_cases)
  case (deletes c gs)
  note d = deletes_props [OF assms(1) deletes(4,6)]
  show ?thesis
  proof (rule pool_inv_move [OF assms(1)])
    show "mset (local_resources p') \<subseteq># mset (local_resources p)"
      unfolding mset_local_resources deletes(1) using d(3) by simp
  qed (use deletes(1) d pool_invD(1) [OF assms(1)] in simp_all)
qed (use assms(1) in \<open>simp_all add: pool_inv_def pool_ids_def local_resources_def\<close>)

text \<open>The number of resources that exist or are being created or deleted stays within the
  capacity.\<close>

lemma ReconcilePool_total:
  assumes "pool_inv p" "ReconcilePool p = (p', job)" "total_created p \<le> capacity p"
  shows "total_created p' \<le> capacity p' \<and> capacity p' = capacity p"
  using assms(1,2)
proof (cases rule: ReconcilePool_cases)
  case (deletes c gs)
  then show ?thesis
    using assms(3) deletes_props(4) [OF assms(1) deletes(4,6)]
    by (simp add: total_created_def numResourcesFromMap_length)
qed (use assms(3) in \<open>simp_all add: total_created_def\<close>)

end
