(* ===== verification/Pool_System.thy ===== *)
theory Pool_System
  imports Pool_Reconcile
begin

text \<open>
  The warm pool in its environment: the interface a resource handler sees as a locale, and a
  step relation in which pods are assigned and freed, time passes, jobs are in flight and come
  back in any order, and the pool is re-synchronised. The invariants of this system are that no
  address is in two places, that the pending counters count the jobs in flight, and that no
  address is assigned again before its cool down period is over.
\<close>

section \<open>The interface of a pool\<close>

locale warm_pool =
  fixes assign :: "string \<Rightarrow> 'p \<Rightarrow> 'p \<times> string \<times> bool \<times> 'e option"
    and free :: "int \<Rightarrow> string \<Rightarrow> string \<Rightarrow> 'p \<Rightarrow> 'p \<times> bool \<times> 'e option"
    and lookup :: "string \<Rightarrow> 'p \<Rightarrow> string \<times> bool"
    and inv :: "'p \<Rightarrow> bool"
  assumes assign_inv: "inv p \<Longrightarrow> assign r p = (p', x, b, err) \<Longrightarrow> inv p'"
    and free_inv: "inv p \<Longrightarrow> free t r x p = (p', b, err) \<Longrightarrow> inv p'"
    and assign_ok: "inv p \<Longrightarrow> assign r p = (p', x, b, None) \<Longrightarrow>
      \<not> snd (lookup r p) \<and> lookup q p' = (if q = r then (x, True) else lookup q p)"
    and assign_error: "inv p \<Longrightarrow> assign r p = (p', x, b, Some e) \<Longrightarrow> lookup q p' = lookup q p"
    and free_exact: "inv p \<Longrightarrow> (\<exists>p' b. free t r x p = (p', b, None)) \<longleftrightarrow> lookup r p = (x, True)"
    and free_ok: "inv p \<Longrightarrow> free t r x p = (p', b, None) \<Longrightarrow>
      lookup q p' = (if q = r then ('''', False) else lookup q p)"
    and free_error: "free t r x p = (p', b, Some e) \<Longrightarrow> p' = p"
    and lookup_none: "\<not> snd (lookup r p) \<Longrightarrow> lookup r p = ('''', False)"
    and lookup_inj: "inv p \<Longrightarrow> lookup q p = (x, True) \<Longrightarrow> lookup r p = (x, True) \<Longrightarrow> q = r"
begin

lemma assign_free_round_trip:
  assumes "inv p" "assign r p = (p1, x, b, None)"
  shows "\<exists>p2 b'. free t r x p1 = (p2, b', None) \<and> inv p2 \<and> (\<forall>q. lookup q p2 = lookup q p)"
proof -
  have inv1: "inv p1" using assms by (rule assign_inv)
  have "lookup r p1 = (x, True)" using assign_ok [OF assms, of r] by simp
  then obtain p2 b' where f: "free t r x p1 = (p2, b', None)" using free_exact [OF inv1] by blast
  have "lookup q p2 = lookup q p" for q
    using free_ok [OF inv1 f, of q] assign_ok [OF assms, of q] lookup_none [of r p] by auto
  then show ?thesis using f free_inv [OF inv1 f] by blast
qed

lemma assign_exclusive:
  assumes "inv p" "assign r p = (p', x, b, None)" "lookup q p' = (x, True)"
  shows "q = r"
  using lookup_inj [OF assign_inv [OF assms(1,2)] assms(3), of r] assign_ok [OF assms(1,2), of r] by simp

lemma assign_not_owned:
  assumes "inv p" "assign r p = (p', x, b, None)"
  shows "lookup q p \<noteq> (x, True)"
proof
  assume "lookup q p = (x, True)"
  moreover have "q \<noteq> r" using calculation assign_ok [OF assms, of r] by auto
  ultimately have "lookup q p' = (x, True)" using assign_ok [OF assms, of q] by simp
  then show False using assign_exclusive [OF assms] \<open>q \<noteq> r\<close> by blast
qed

lemma assign_again_fails:
  assumes "inv p" "assign r p = (p', x, b, None)" "assign r p' = (p'', y, b', e)"
  shows "e \<noteq> None"
  using assign_ok [OF assign_inv [OF assms(1,2)], of r p'' y b' r] assign_ok [OF assms(1,2), of r] assms(3)
  by auto

end

interpretation wp: warm_pool AssignResource FreeResource GetAssignedResource pool_inv
proof (unfold_locales, goal_cases)
  case (1 p r p' x b e)
  then show ?case by (rule AssignResource_inv)
next
  case (2 p t r x p' b e)
  then show ?case by (rule FreeResource_inv)
next
  case (3 p r p' x b q)
  from 3 show ?case
  proof (cases rule: AssignResource_cases)
    case (assigned r')
    have "usedResources p' = mput (usedResources p) r r'" by (subst assigned(9)) simp
    then show ?thesis using assigned(3,4) by (simp add: GetAssignedResource_def)
  qed auto
next
  case (4 p r p' x b e q)
  from 4 show ?case
  proof (cases rule: AssignResource_cases)
    case (dropped r')
    have "usedResources p' = usedResources p" by (subst dropped(5)) simp
    then show ?thesis by (simp add: GetAssignedResource_def)
  qed auto
next
  case (5 p t r x)
  show ?case by (auto simp: FreeResource_def GetAssignedResource_def split: option.splits if_splits)
next
  case (6 p t r x p' b q)
  from 6(2) show ?case
    by (cases rule: FreeResource_cases) (auto simp: GetAssignedResource_def zero_resource_def)
next
  case (7 t r x p p' b e)
  then show ?case by (cases rule: FreeResource_cases) auto
next
  case (8 r p)
  then show ?case by (auto simp: GetAssignedResource_def zero_resource_def split: option.splits)
next
  case (9 p q x r)
  then obtain a b where ab: "mget (usedResources p) q = Some a" "ResourceID a = x"
      "mget (usedResources p) r = Some b" "ResourceID b = x"
    by (auto simp: GetAssignedResource_def split: option.splits)
  show ?case
  proof (rule ccontr)
    assume "q \<noteq> r"
    let ?u = "usedResources p"
    have "mget (mdel ?u q) r = Some b" using ab \<open>q \<noteq> r\<close> by simp
    then have "mset (mvals ?u) = add_mset a (add_mset b (mset (mvals (mdel (mdel ?u q) r))))"
      using mset_mvals_split [of ?u q a] mset_mvals_split [of "mdel ?u q" r b] ab pool_invD(1) [OF 9(1)] by simp
    then have "mset (pool_ids p) = add_mset x (add_mset x (mset (map ResourceID (mvals (mdel (mdel ?u q) r)
        @ map Resource (coolDownQueue p) @ mflat (warmResources p)))))"
      using ab by (simp add: pool_ids_def mset_local_resources union_ac multiset.map_comp)
    then show False
      using pool_invD(3) [OF 9(1)] mset_eq_imp_distinct_iff
      by (metis distinct.simps(2) list.set_intros(1) mset.simps(2))
  qed
qed

section \<open>The pool and its environment\<close>

text \<open>The state: the pool, the create and delete jobs that are in flight, the clock, and the time
  at which an address of the pool was last freed. The last component is history and not read by
  any operation: an address that enters the pool anew has none.\<close>

record pool_sys =
  sys_pool :: pool
  inflight :: "WarmPoolJob list"
  clock :: int
  freedAt :: "string \<Rightarrow> int option"

definition is_pool_job :: "WarmPoolJob \<Rightarrow> bool" where
  "is_pool_job job \<longleftrightarrow> Operations job = OperationCreate \<or> Operations job = OperationDeleted"

definition pool_sys_init :: "pool_sys \<Rightarrow> bool" where
  "pool_sys_init s \<longleftrightarrow> pool_inv (sys_pool s) \<and> pendingCreate (sys_pool s) = 0 \<and>
     pendingDelete (sys_pool s) = 0 \<and> coolDownQueue (sys_pool s) = [] \<and> inflight s = [] \<and>
     freedAt s = (\<lambda>_. None)"

text \<open>The steps. A job comes back with any resources EC2 may have given it, in any order, having
  succeeded or failed; a \<open>ReSync\<close> may come at any time with any admissible upstream list; a map
  may be visited in another order from one step to the next.\<close>

inductive pool_step :: "pool_sys \<Rightarrow> pool_sys \<Rightarrow> bool" where
  assign: "AssignResource rq (sys_pool s) = (p', x, b, e) \<Longrightarrow> pool_step s (s\<lparr>sys_pool := p'\<rparr>)"
| free: "FreeResource (clock s) rq x (sys_pool s) = (p', b, e) \<Longrightarrow>
    pool_step s (s\<lparr>sys_pool := p',
      freedAt := (if e = None then (freedAt s)(x \<mapsto> clock s) else freedAt s)\<rparr>)"
| tick: "clock s \<le> t \<Longrightarrow> pool_step s (s\<lparr>clock := t\<rparr>)"
| cool: "ProcessCoolDownQueue now (sys_pool s) = (p', b) \<Longrightarrow> (\<And>i. clock s \<le> now i \<and> now i \<le> t) \<Longrightarrow>
    pool_step s (s\<lparr>sys_pool := p', clock := t\<rparr>)"
| reconcile: "ReconcilePool (sys_pool s) = (p', job) \<Longrightarrow>
    pool_step s (s\<lparr>sys_pool := p', inflight := (if is_pool_job job then job # inflight s else inflight s)\<rparr>)"
| set_targets: "pool_step s (s\<lparr>sys_pool := set_config c (sys_pool s)\<rparr>)"
| job_done: "job \<in> set (inflight s) \<Longrightarrow> job' = job\<lparr>JobResources := rs\<rparr> \<Longrightarrow>
    fresh_job (sys_pool s) job' \<Longrightarrow> UpdatePool job' ok pre (sys_pool s) = (p', b) \<Longrightarrow>
    pool_step s (s\<lparr>sys_pool := p', inflight := remove1 job (inflight s),
      freedAt := (\<lambda>x. if x \<in> set (pool_ids (sys_pool s)) then freedAt s x else None)\<rparr>)"
| resync: "upstream_ok (sys_pool s) groups \<Longrightarrow> ReSync groups (sys_pool s) = p' \<Longrightarrow>
    pool_step s (s\<lparr>sys_pool := p',
      freedAt := (\<lambda>x. if x \<in> set (pool_ids (sys_pool s)) then freedAt s x else None)\<rparr>)"
| reorder: "mset w = mset (warmResources (sys_pool s)) \<Longrightarrow> mset u = mset (usedResources (sys_pool s)) \<Longrightarrow>
    pool_step s (s\<lparr>sys_pool := (sys_pool s)\<lparr>warmResources := w, usedResources := u\<rparr>\<rparr>)"

inductive_cases pool_stepE: "pool_step s t"

definition job_count :: "operations \<Rightarrow> WarmPoolJob list \<Rightarrow> int" where
  "job_count op jobs = sum_list (map ResourceCount (filter (\<lambda>j. Operations j = op) jobs))"

text \<open>The cool down part of the invariant.\<close>

definition cool_inv :: "pool \<Rightarrow> int \<Rightarrow> (string \<Rightarrow> int option) \<Rightarrow> bool" where
  "cool_inv p now freed \<longleftrightarrow>
     (\<forall>c \<in> set (coolDownQueue p). \<forall>t. freed (ResourceID (Resource c)) = Some t \<longrightarrow> t \<le> DeletionTimestamp c) \<and>
     (\<forall>r \<in> set (mflat (warmResources p)). \<forall>t. freed (ResourceID r) = Some t \<longrightarrow> t + CoolDownPeriod \<le> now)"

definition pending_inv :: "pool \<Rightarrow> WarmPoolJob list \<Rightarrow> bool" where
  "pending_inv p jobs \<longleftrightarrow>
     (\<not> isPDPool p \<longrightarrow> pendingCreate p = job_count OperationCreate jobs) \<and>
     pendingDelete p = group_unit p * job_count OperationDeleted jobs"

definition pool_sys_inv :: "pool_sys \<Rightarrow> bool" where
  "pool_sys_inv s \<longleftrightarrow> pool_inv (sys_pool s) \<and> pending_inv (sys_pool s) (inflight s) \<and>
     cool_inv (sys_pool s) (clock s) (freedAt s)"

section \<open>The invariant of the cool down period\<close>

lemma cool_inv_mono:
  assumes "cool_inv p now freed" "now \<le> now'"
    and "set (coolDownQueue p') \<subseteq> set (coolDownQueue p)"
    and "set (mflat (warmResources p')) \<subseteq> set (mflat (warmResources p))"
  shows "cool_inv p' now' freed"
  using assms unfolding cool_inv_def by fastforce

lemma takes_one_sub: "takes_one w r w' \<Longrightarrow> set (mflat w') \<subseteq> set (mflat w) \<and> r \<in> set (mflat w)"
  unfolding takes_one_def by (metis insert_iff set_mset_add_mset_insert set_mset_mset subsetI)

lemma cool_inv_assign:
  assumes "pool_inv p" "AssignResource rq p = (p', x, b, e)" "cool_inv p now freed"
  shows "cool_inv p' now freed"
  using assms(1,2)
proof (cases rule: AssignResource_cases)
  case (unchanged e')
  then show ?thesis using assms(3) by simp
next
  case (dropped r)
  have "coolDownQueue p' = coolDownQueue p" by (subst dropped(5)) simp
  then show ?thesis using cool_inv_mono [OF assms(3) order_refl] takes_one_sub [OF dropped(4)] by simp
next
  case (assigned r)
  have "coolDownQueue p' = coolDownQueue p" by (subst assigned(9)) simp
  then show ?thesis using cool_inv_mono [OF assms(3) order_refl] takes_one_sub [OF assigned(8)] by simp
qed

text \<open>An address that is in use is neither warm nor cooling down.\<close>

lemma used_apart:
  assumes "pool_inv p" "mget (usedResources p) rq = Some r"
  shows "r' \<in> set (mflat (warmResources p)) \<Longrightarrow> ResourceID r' \<noteq> ResourceID r"
    and "c \<in> set (coolDownQueue p) \<Longrightarrow> ResourceID (Resource c) \<noteq> ResourceID r"
proof -
  have r: "ResourceID r \<in> ResourceID ` set (mvals (usedResources p))"
    using mget_mem [OF assms(2)] by (force simp: mvals_def)
  have "distinct (map ResourceID (map Resource (coolDownQueue p)) @
      map ResourceID (mvals (usedResources p)) @ map ResourceID (mflat (warmResources p)))"
    using pool_invD(3) [OF assms(1)] by (simp add: pool_ids_def local_resources_def)
  then have "ResourceID ` Resource ` set (coolDownQueue p) \<inter> ResourceID ` set (mvals (usedResources p)) = {}"
    "ResourceID ` set (mvals (usedResources p)) \<inter> ResourceID ` set (mflat (warmResources p)) = {}"
    unfolding distinct_append set_map set_append by blast+
  then show "r' \<in> set (mflat (warmResources p)) \<Longrightarrow> ResourceID r' \<noteq> ResourceID r"
    and "c \<in> set (coolDownQueue p) \<Longrightarrow> ResourceID (Resource c) \<noteq> ResourceID r"
    using r by (metis IntI empty_iff imageI)+
qed

lemma cool_inv_free:
  assumes "pool_inv p" "FreeResource now rq x p = (p', b, e)" "cool_inv p now freed"
  shows "cool_inv p' now (if e = None then freed(x \<mapsto> now) else freed)"
  using assms(2)
proof (cases rule: FreeResource_cases)
  case (freed r)
  then show ?thesis
    using assms(3) used_apart [OF assms(1) freed(1)] by (auto simp: cool_inv_def)
qed (use assms(3) in simp_all)

lemma cool_inv_cool:
  assumes "pool_inv p" "ProcessCoolDownQueue now p = (p', b)" "cool_inv p clk freed"
    and "\<And>i. clk \<le> now i \<and> now i \<le> t"
  shows "cool_inv p' t freed"
proof -
  from assms(2) obtain cooled where c: "coolDownQueue p = cooled @ coolDownQueue p'"
    "warmResources p' = to_warm cooled (warmResources p)"
    "\<And>j. j < length cooled \<Longrightarrow> now j - DeletionTimestamp (cooled ! j) \<ge> CoolDownPeriod"
    by (rule ProcessCoolDownQueue_split) blast
  have w: "set (mflat (warmResources p')) = set (mflat (warmResources p)) \<union> Resource ` set cooled"
    using arg_cong [OF to_warm_props(3) [OF pool_invD(2,4) [OF assms(1)], of cooled], of set_mset] c(2)
    by simp
  have "u + CoolDownPeriod \<le> t"
    if k: "k \<in> set cooled" and u: "freed (ResourceID (Resource k)) = Some u" for k u
  proof -
    obtain j where j: "j < length cooled" "k = cooled ! j" using k by (metis in_set_conv_nth)
    have "u \<le> DeletionTimestamp k" using assms(3) u k c(1) by (auto simp: cool_inv_def)
    then show ?thesis using c(3) [OF j(1)] j(2) assms(4) [of j] by auto
  qed
  moreover have "clk \<le> t" using assms(4) [of 0] by linarith
  ultimately show ?thesis using assms(3) c(1) by (fastforce simp: cool_inv_def w)
qed

text \<open>A step that only adds addresses that are new to the pool keeps the invariant, if their
  history is forgotten.\<close>

lemma cool_inv_new:
  assumes "cool_inv p now freed" and "set (coolDownQueue p') \<subseteq> set (coolDownQueue p)"
    and "\<And>r. r \<in> set (mflat (warmResources p')) \<Longrightarrow>
      r \<in> set (mflat (warmResources p)) \<or> ResourceID r \<notin> set (pool_ids p)"
  shows "cool_inv p' now (\<lambda>x. if x \<in> set (pool_ids p) then freed x else None)"
  using assms unfolding cool_inv_def by (metis option.distinct(1) subsetD)

lemma cool_inv_update:
  assumes "pool_inv p" "UpdatePool job ok pre p = (p', b)" "fresh_job p job" "cool_inv p now freed"
  shows "cool_inv p' now (\<lambda>x. if x \<in> set (pool_ids p) then freed x else None)"
proof (rule cool_inv_new [OF assms(4)])
  show "set (coolDownQueue p') \<subseteq> set (coolDownQueue p)"
    using UpdatePool_fields(2) [OF assms(2)] by simp
  fix r assume "r \<in> set (mflat (warmResources p'))"
  moreover have "set (mflat (warmResources p')) = set (mflat (warmResources p)) \<union> set (job_resources (isPDPool p) job)"
    using arg_cong [OF UpdatePool_warm [OF assms(1,2)], of set_mset] by simp
  ultimately show "r \<in> set (mflat (warmResources p)) \<or> ResourceID r \<notin> set (pool_ids p)"
    using assms(3) by (auto simp: fresh_job_def)
qed

lemma cool_inv_resync:
  assumes "pool_inv p" "upstream_ok p groups" "cool_inv p now freed"
  shows "cool_inv (ReSync groups p) now (\<lambda>x. if x \<in> set (pool_ids p) then freed x else None)"
proof (cases "reSyncRequired p")
  case True
  show ?thesis
  proof (rule cool_inv_new [OF assms(3)])
    show "set (coolDownQueue (ReSync groups p)) \<subseteq> set (coolDownQueue p)"
      by (auto simp: ReSync_shape(4) [OF assms(1) True])
    fix r assume r: "r \<in> set (mflat (warmResources (ReSync groups p)))"
    have "set (mflat (warmResources (ReSync groups p))) \<subseteq> set (mflat (warmResources p)) \<union>
        (set (upstream_of p groups) - set (local_resources p))"
      using arg_cong [OF ReSync_shape(3) [OF assms(1) True, of groups], of set_mset]
      by (auto simp: Difference_set)
    then show "r \<in> set (mflat (warmResources p)) \<or> ResourceID r \<notin> set (pool_ids p)"
      using r assms(2) unfolding upstream_ok_def pool_ids_def by fastforce
  qed
next
  case False
  then show ?thesis using cool_inv_new [OF assms(3)] by (simp add: ReSync_not_required)
qed

section \<open>The pending counters\<close>

lemma job_count_Cons [simp]:
  "job_count op (j # js) = (if Operations j = op then ResourceCount j else 0) + job_count op js"
  by (simp add: job_count_def)

lemma job_count_remove1:
  "j \<in> set js \<Longrightarrow>
   job_count op (remove1 j js) = job_count op js - (if Operations j = op then ResourceCount j else 0)"
  by (induction js) auto

lemma pending_inv_cong:
  "pendingCreate p' = pendingCreate p \<Longrightarrow> pendingDelete p' = pendingDelete p \<Longrightarrow>
   isPDPool p' = isPDPool p \<Longrightarrow> pending_inv p' jobs = pending_inv p jobs"
  by (simp add: pending_inv_def group_unit_def)

lemma AssignResource_pending:
  "AssignResource rq p = (p', x, b, e) \<Longrightarrow>
   pendingCreate p' = pendingCreate p \<and> pendingDelete p' = pendingDelete p \<and> isPDPool p' = isPDPool p"
  by (auto simp: AssignResource_def Let_def split: if_splits prod.splits)

lemma pending_inv_reconcile:
  assumes "pool_inv p" "ReconcilePool p = (p', job)" "pending_inv p jobs"
  shows "pending_inv p' (if is_pool_job job then job # jobs else jobs)"
  using assms(1,2)
proof (cases rule: ReconcilePool_cases)
  case (deletes c gs)
  then show ?thesis
    using assms(3)
    by (simp add: pending_inv_def group_unit_def is_pool_job_def warm_jobs algebra_simps)
qed (use assms(3) in \<open>simp_all add: pending_inv_def group_unit_def is_pool_job_def warm_jobs\<close>)

lemma pending_inv_update:
  assumes "job \<in> set jobs" "pending_inv p jobs"
    and "UpdatePool (job\<lparr>JobResources := rs\<rparr>) ok pre p = (p', b)"
  shows "pending_inv p' (remove1 job jobs)"
  using assms
  by (auto simp: pending_inv_def UpdatePool_def Let_def job_count_remove1 group_unit_def algebra_simps)

section \<open>The invariant of the system\<close>

lemma pool_inv_reorder:
  assumes "pool_inv p" "mset w = mset (warmResources p)" "mset u = mset (usedResources p)"
  shows "pool_inv (p\<lparr>warmResources := w, usedResources := u\<rparr>)"
proof (rule pool_inv_move [OF assms(1)])
  have "mset (mkeys u) = mset (mkeys (usedResources p))" "mset (mkeys w) = mset (mkeys (warmResources p))"
    using assms(2,3) by (simp_all add: mkeys_def)
  then show "wf_map (usedResources (p\<lparr>warmResources := w, usedResources := u\<rparr>))"
    "wf_map (warmResources (p\<lparr>warmResources := w, usedResources := u\<rparr>))"
    using pool_invD(1,2) [OF assms(1)] distinct_mset_eq by (auto simp: wf_map_def)
  show "warm_keyed (warmResources (p\<lparr>warmResources := w, usedResources := u\<rparr>))"
    using pool_invD(4) [OF assms(1)] mset_eq_setD [OF assms(2)] by (simp add: warm_keyed_def list_all_iff)
  show "mset (local_resources (p\<lparr>warmResources := w, usedResources := u\<rparr>)) \<subseteq># mset (local_resources p)"
    using assms(2,3) by (simp add: mset_local_resources mset_mvals mset_mflat)
qed simp

lemma cool_inv_reorder:
  assumes "mset w = mset (warmResources p)" "cool_inv p now freed"
  shows "cool_inv (p\<lparr>warmResources := w, usedResources := u\<rparr>) now freed"
  using cool_inv_mono [OF assms(2) order_refl] mset_eq_setD [OF assms(1)] by (simp add: set_mflat)

lemma pool_sys_step_inv:
  assumes "pool_sys_inv s" "pool_step s t"
  shows "pool_sys_inv t"
proof -
  have inv: "pool_inv (sys_pool s)" "pending_inv (sys_pool s) (inflight s)"
      "cool_inv (sys_pool s) (clock s) (freedAt s)"
    using assms(1) by (auto simp: pool_sys_inv_def)
  from assms(2) show ?thesis
  proof cases
    case (assign rq p' x b e)
    then show ?thesis
      using AssignResource_inv [OF inv(1) assign(2)] cool_inv_assign [OF inv(1) assign(2) inv(3)]
        inv(2) AssignResource_pending [OF assign(2)] pending_inv_cong [of p' "sys_pool s"]
      by (simp add: pool_sys_inv_def)
  next
    case (free rq x p' b e)
    have "pending_inv p' (inflight s)"
      using free(2) inv(2) by (cases rule: FreeResource_cases) (auto simp: pending_inv_def group_unit_def)
    then show ?thesis
      using free(1) FreeResource_inv [OF inv(1) free(2)] cool_inv_free [OF inv(1) free(2) inv(3)]
      by (simp add: pool_sys_inv_def)
  next
    case (tick t')
    then show ?thesis using inv cool_inv_mono [OF inv(3), of t'] by (simp add: pool_sys_inv_def)
  next
    case (cool now p' b t')
    from cool(2) have "pending_inv p' (inflight s) = pending_inv (sys_pool s) (inflight s)"
      by (auto simp: ProcessCoolDownQueue_def pending_inv_def group_unit_def split: if_splits prod.splits)
    then show ?thesis
      using cool(1) inv(2) ProcessCoolDownQueue_inv [OF inv(1) cool(2)]
        cool_inv_cool [OF inv(1) cool(2) inv(3) cool(3)]
      by (simp add: pool_sys_inv_def)
  next
    case (reconcile p' job)
    have "cool_inv p' (clock s) (freedAt s)"
      using inv(1) reconcile(2)
    proof (cases rule: ReconcilePool_cases)
      case (deletes c gs)
      then show ?thesis
        using cool_inv_mono [OF inv(3) order_refl]
          set_mset_mono [OF deletes_props(3) [OF inv(1) deletes(4,6)]] by simp
    qed (use inv(3) in \<open>simp_all add: cool_inv_def\<close>)
    then show ?thesis
      using reconcile(1) ReconcilePool_inv [OF inv(1) reconcile(2)] pending_inv_reconcile [OF inv(1) reconcile(2) inv(2)]
      by (simp add: pool_sys_inv_def)
  next
    case (set_targets c)
    then show ?thesis using inv
      by (simp add: pool_sys_inv_def set_config_def pool_inv_def pool_ids_def local_resources_def
          pending_inv_def group_unit_def cool_inv_def)
  next
    case (job_done job job' rs ok pre p' b)
    then show ?thesis
      using UpdatePool_inv [OF inv(1) job_done(5,4)] cool_inv_update [OF inv(1) job_done(5,4) inv(3)]
        pending_inv_update [OF job_done(2) inv(2)] job_done(5)
      by (simp add: pool_sys_inv_def)
  next
    case (resync groups p')
    have "pending_inv p' (inflight s)"
    proof (cases "reSyncRequired (sys_pool s)")
      case True
      have "pendingCreate p' = pendingCreate (sys_pool s)" "pendingDelete p' = pendingDelete (sys_pool s)"
        "isPDPool p' = isPDPool (sys_pool s)"
        unfolding resync(3) [symmetric] by (subst ReSync_shape(5) [OF inv(1) True], simp)+
      then show ?thesis using inv(2) pending_inv_cong by blast
    next
      case False
      then show ?thesis using inv(2) resync(3) by (simp add: ReSync_not_required)
    qed
    then show ?thesis
      using resync ReSync_inv [OF inv(1) resync(2)] cool_inv_resync [OF inv(1) resync(2) inv(3)]
      by (auto simp: pool_sys_inv_def)
  next
    case (reorder w u)
    then show ?thesis
      using pool_inv_reorder [OF inv(1)] cool_inv_reorder [OF _ inv(3)] inv(2)
      by (simp add: pool_sys_inv_def pending_inv_def group_unit_def)
  qed
qed

lemma pool_sys_init_inv: "pool_sys_init s \<Longrightarrow> pool_sys_inv s"
  by (simp add: pool_sys_init_def pool_sys_inv_def pending_inv_def cool_inv_def job_count_def)

interpretation pool_machine: invariant_system pool_sys_init pool_step pool_sys_inv
  by unfold_locales (fact pool_sys_init_inv, fact pool_sys_step_inv)

end
