(* ===== verification/Pool_Props.thy ===== *)
theory Pool_Props
  imports Pool_System
begin

text \<open>
  The properties of the warm pool, each with a closed instance on a small pool.
\<close>

section \<open>A small pool\<close>

definition sample_resource :: resource where
  "sample_resource = \<lparr>GroupID = ''10.0.0.1/32'', ResourceID = ''10.0.0.1/32''\<rparr>"

definition sample_config :: WarmPoolConfig where
  "sample_config = \<lparr>DesiredSize = 3, ReservedSize = 0, MaxDeviation = 0, WarmIPTarget = 3,
     MinIPTarget = 3, WarmPrefixTarget = 0\<rparr>"

definition sample_pool :: pool where
  "sample_pool = NewResourcePool sample_config [] [(''10.0.0.1/32'', [sample_resource])] ''node-1'' 14 False"

definition sample_used :: pool where
  "sample_used = sample_pool\<lparr>warmResources := [(''10.0.0.1/32'', [])],
     usedResources := [(''pod-a'', sample_resource)]\<rparr>"

definition sample_cooling :: pool where
  "sample_cooling = sample_pool\<lparr>warmResources := [(''10.0.0.1/32'', [])],
     coolDownQueue := [\<lparr>Resource = sample_resource, DeletionTimestamp = 5\<rparr>]\<rparr>"

lemmas sample_pools = sample_pool_def sample_used_def sample_cooling_def sample_resource_def
  sample_config_def NewResourcePool_def

lemma sample_pool_inv: "pool_inv sample_pool"
  by code_simp

lemma sample_assign: "AssignResource ''pod-a'' sample_pool = (sample_used, ''10.0.0.1/32'', True, None)"
  by code_simp

lemma sample_free:
  "FreeResource 5 ''pod-a'' ''10.0.0.1/32'' sample_used = (sample_cooling, True, None)"
  by code_simp

lemma sample_cool: "ProcessCoolDownQueue (\<lambda>_. 30000000005) sample_cooling = (sample_pool, False)"
  by code_simp

definition sample_sys :: "pool \<Rightarrow> int \<Rightarrow> int option \<Rightarrow> pool_sys" where
  "sample_sys p now t = \<lparr>sys_pool = p, inflight = [], clock = now,
     freedAt = (\<lambda>x. if x = ''10.0.0.1/32'' then t else None)\<rparr>"

lemma sample_sys_init: "pool_sys_init (sample_sys sample_pool 5 None)"
  using sample_pool_inv by (auto simp: pool_sys_init_def sample_sys_def sample_pools)

lemma sample_reach_used: "reachable pool_sys_init pool_step (sample_sys sample_used 5 None)"
proof (rule reachable.reach_step)
  show "reachable pool_sys_init pool_step (sample_sys sample_pool 5 None)"
    by (intro reachable.reach_init sample_sys_init)
  show "pool_step (sample_sys sample_pool 5 None) (sample_sys sample_used 5 None)"
    using pool_step.assign [of "''pod-a''" "sample_sys sample_pool 5 None"] sample_assign
    by (simp add: sample_sys_def)
qed

lemma sample_reach_cooling: "reachable pool_sys_init pool_step (sample_sys sample_cooling 5 (Some 5))"
proof (rule reachable.reach_step)
  show "reachable pool_sys_init pool_step (sample_sys sample_used 5 None)" by (rule sample_reach_used)
  show "pool_step (sample_sys sample_used 5 None) (sample_sys sample_cooling 5 (Some 5))"
    using pool_step.free [of "sample_sys sample_used 5 None" "''pod-a''" "''10.0.0.1/32''"] sample_free
    by (simp add: sample_sys_def fun_upd_def if_distrib)
qed

lemma sample_reach_warm: "reachable pool_sys_init pool_step (sample_sys sample_pool 30000000005 (Some 5))"
proof (rule reachable.reach_step)
  show "reachable pool_sys_init pool_step (sample_sys sample_cooling 5 (Some 5))" by (rule sample_reach_cooling)
  show "pool_step (sample_sys sample_cooling 5 (Some 5)) (sample_sys sample_pool 30000000005 (Some 5))"
    using pool_step.cool [of "\<lambda>_. 30000000005" "sample_sys sample_cooling 5 (Some 5)" sample_pool False
        30000000005] sample_cool
    by (simp add: sample_sys_def)
qed

definition sample_creating :: pool where
  "sample_creating = sample_pool\<lparr>pendingCreate := 2\<rparr>"

lemma sample_reconcile:
  "ReconcilePool sample_pool = (sample_creating, NewWarmPoolCreateJob ''node-1'' 2)"
  by code_simp

lemma sample_reach_creating:
  "reachable pool_sys_init pool_step
     ((sample_sys sample_creating 5 None)\<lparr>inflight := [NewWarmPoolCreateJob ''node-1'' 2]\<rparr>)"
proof (rule reachable.reach_step)
  show "reachable pool_sys_init pool_step (sample_sys sample_pool 5 None)"
    by (intro reachable.reach_init sample_sys_init)
  show "pool_step (sample_sys sample_pool 5 None)
     ((sample_sys sample_creating 5 None)\<lparr>inflight := [NewWarmPoolCreateJob ''node-1'' 2]\<rparr>)"
    using pool_step.reconcile [of "sample_sys sample_pool 5 None"] sample_reconcile
    by (simp add: sample_sys_def is_pool_job_def warm_jobs)
qed

section \<open>Safety of the pool in its environment\<close>

text \<open>C1. In every state the pool can reach, whatever the order in which pods come and go, jobs
  finish or fail and re-synchronisations run, no address is held twice: the identifiers of all
  used, cooling and warm resources are distinct, and no two pods own the same address.\<close>

theorem pool_never_double_assigns:
  assumes "reachable pool_sys_init pool_step s"
  shows "distinct (pool_ids (sys_pool s)) \<and>
    (\<forall>q r x. GetAssignedResource q (sys_pool s) = (x, True) \<and>
             GetAssignedResource r (sys_pool s) = (x, True) \<longrightarrow> q = r)"
proof -
  have "pool_inv (sys_pool s)"
    using pool_machine.reachable_inv [OF assms] by (simp add: pool_sys_inv_def)
  then show ?thesis using pool_invD(3) wp.lookup_inj by blast
qed

theorem pool_never_double_assigns_witness:
  "distinct (pool_ids sample_used) \<and> GetAssignedResource ''pod-a'' sample_used = (''10.0.0.1/32'', True)"
  using pool_never_double_assigns [OF sample_reach_used]
  by (simp add: sample_sys_def GetAssignedResource_def sample_pools mget_def)





section \<open>Assigning and freeing\<close>

text \<open>C4. Assigning and freeing are inverse for the owners: after a successful assignment the same
  requester can free exactly the address it got, nobody's ownership changes in between, no
  resource is created or lost, and the address sits at the end of the cool down queue, stamped
  with the time of the call.\<close>

theorem assign_then_free:
  assumes "pool_inv p" and "AssignResource rq p = (p1, x, rec, None)"
  shows "rec \<and> GetAssignedResource rq p1 = (x, True) \<and>
    (\<exists>p2. FreeResource now rq x p1 = (p2, True, None) \<and> pool_inv p2 \<and>
       (\<forall>q. GetAssignedResource q p2 = GetAssignedResource q p) \<and>
       mset (local_resources p2) = mset (local_resources p) \<and>
       ResourceID (Resource (last (coolDownQueue p2))) = x \<and>
       DeletionTimestamp (last (coolDownQueue p2)) = now)"
proof -
  have inv1: "pool_inv p1" using AssignResource_inv assms by blast
  have got: "GetAssignedResource rq p1 = (x, True)" using wp.assign_ok [OF assms, of rq] by simp
  have rec: "rec" using assms by (cases rule: AssignResource_cases) auto
  obtain p2 b' where f: "FreeResource now rq x p1 = (p2, b', None)" "pool_inv p2"
      "\<forall>q. GetAssignedResource q p2 = GetAssignedResource q p"
    using wp.assign_free_round_trip [OF assms] by blast
  have "mset (local_resources p2) = mset (local_resources p)"
    using FreeResource_mset [OF inv1 f(1)] AssignResource_mset [OF assms] by simp
  moreover have "b' \<and> ResourceID (Resource (last (coolDownQueue p2))) = x \<and>
      DeletionTimestamp (last (coolDownQueue p2)) = now"
    using f(1) by (cases rule: FreeResource_cases) auto
  ultimately show ?thesis using rec got f by (intro conjI exI [of _ p2]) auto
qed

theorem assign_then_free_witness:
  "GetAssignedResource ''pod-a'' sample_used = (''10.0.0.1/32'', True) \<and>
   (\<exists>p2. FreeResource 5 ''pod-a'' ''10.0.0.1/32'' sample_used = (p2, True, None) \<and> pool_inv p2)"
  using assign_then_free [OF sample_pool_inv sample_assign, of 5] by blast

lemma named_keys:
  assumes "pool_inv p" "named_resources p"
  shows "\<forall>(h, rs) \<in> set (warmResources p). rs \<noteq> [] \<longrightarrow> h \<noteq> ''''"
proof (clarify)
  fix rs assume e: "('''', rs) \<in> set (warmResources p)" and "rs \<noteq> []"
  then have r: "hd rs \<in> set rs" by simp
  have "hd rs \<in> set (mflat (warmResources p))" using e r by (auto simp: set_mflat)
  then have "GroupID (hd rs) \<noteq> ''''"
    using assms(2) by (auto simp: named_resources_def list_all_iff set_local_resources)
  moreover have "GroupID (hd rs) = ''''"
    using pool_invD(4) [OF assms(1)] e r by (auto simp: warm_keyed_def list_all_iff)
  ultimately show False by simp
qed

lemma pick_takes:
  assumes "pool_inv p" "named_resources p" "mflat (warmResources p) \<noteq> []"
    and "(if isPDPool p then assignResourceFromMinGroup (warmResources p)
          else assignResourceFromAnyGroup (warmResources p)) = (r, w)"
  shows "takes_one (warmResources p) r w"
proof (cases "isPDPool p")
  case True
  obtain h rs where h: "(h, rs) \<in> set (warmResources p)" "rs \<noteq> []"
    using assms(3) by (induction "warmResources p") (auto simp: mflat_def mvals_def)
  have "fst (findMinGroup (warmResources p)) \<noteq> ''''"
    using findMinGroup_spec(2) [OF pool_invD(2) [OF assms(1)] _ named_keys [OF assms(1,2)] h]
    by (metis prod.collapse)
  then show ?thesis
    using assign_min_takes [OF pool_invD(2,4) [OF assms(1)]] True assms(4) by auto
next
  case False
  then show ?thesis
    using assign_any_takes [OF pool_invD(2,4) [OF assms(1)] subset_refl] assms(3,4)
    by (auto simp: assignResourceFromAnyGroup_def)
qed

text \<open>\<open>AssignResource\<close> succeeds exactly when it should: the requester owns nothing yet, the
  pool is below its capacity also when the cooling and the pending resources are counted, and
  some group of the warm pool has a free address.\<close>

theorem assign_succeeds_iff:
  assumes "pool_inv p" and "named_resources p"
  shows "(\<exists>p' x. AssignResource rq p = (p', x, True, None)) \<longleftrightarrow>
    mget (usedResources p) rq = None \<and>
    int (length (usedResources p)) \<noteq> capacity p \<and>
    int (length (usedResources p)) + int (length (coolDownQueue p)) \<noteq> capacity p \<and>
    int (length (usedResources p)) + int (length (coolDownQueue p)) + pendingCreate p + pendingDelete p
      \<noteq> capacity p \<and>
    mflat (warmResources p) \<noteq> []" (is "?L \<longleftrightarrow> ?R")
proof
  assume ?L
  then obtain p' x where a: "AssignResource rq p = (p', x, True, None)" by blast
  from assms(1) a have "mflat (warmResources p) \<noteq> []"
  proof (cases rule: AssignResource_cases)
    case (assigned r)
    then show ?thesis using takes_one_sub by fastforce
  qed auto
  then show ?R using a by (auto simp: AssignResource_def mhas_def split: if_splits)
next
  assume R: ?R
  obtain r w where rw: "(if isPDPool p then assignResourceFromMinGroup (warmResources p)
      else assignResourceFromAnyGroup (warmResources p)) = (r, w)" by (metis surj_pair)
  have "takes_one (warmResources p) r w" using pick_takes [OF assms _ rw] R by blast
  then have "r \<in> set (local_resources p)" by (auto simp: set_local_resources dest: takes_one_sub)
  then have "ResourceID r \<noteq> ''''" "GroupID r \<noteq> ''''"
    using assms(2) by (auto simp: named_resources_def list_all_iff)
  moreover have "warmResources p \<noteq> []" using R by auto
  ultimately show ?L using R unfolding AssignResource_def rw by (simp add: mhas_def Let_def)
qed

theorem assign_succeeds_iff_witness: "\<exists>p' x. AssignResource ''pod-z'' sample_pool = (p', x, True, None)"
proof -
  have "named_resources sample_pool" by code_simp
  then show ?thesis
    using assign_succeeds_iff [OF sample_pool_inv, of "''pod-z''"] by (simp add: sample_pools)
qed

text \<open>In prefix delegation mode addresses are packed: the address that is assigned comes from
  a prefix with the fewest free addresses, so that full prefixes stay free to be released.\<close>

theorem prefix_assign_packs:
  assumes "pool_inv p" "named_resources p" "isPDPool p" "AssignResource rq p = (p', x, rec, None)"
  shows "\<exists>r. mget (usedResources p') rq = Some r \<and> ResourceID r = x \<and>
    r \<in> set (mgetd [] (warmResources p) (GroupID r)) \<and>
    (\<forall>(h, rs) \<in> set (warmResources p). rs \<noteq> [] \<longrightarrow>
       length (mgetd [] (warmResources p) (GroupID r)) \<le> length rs)"
proof -
  let ?w = "warmResources p"
  obtain g n where g: "findMinGroup ?w = (g, n)" by (cases "findMinGroup ?w")
  obtain r w where rw: "assignResourceFromMinGroup ?w = (r, w)" by (cases "assignResourceFromMinGroup ?w")
  have x: "mget (usedResources p') rq = Some r" "ResourceID r = x" "ResourceID r \<noteq> ''''"
    using assms(3,4) by (auto simp: AssignResource_def rw Let_def split: if_splits)
  have gne: "g \<noteq> ''''" using x(3) rw g by (auto simp: assignResourceFromMinGroup_def zero_resource_def)
  then obtain rs where rs: "mget ?w g = Some rs" "rs \<noteq> []" "n = int (length rs)"
    using findMinGroup_spec(1) [OF pool_invD(2) [OF assms(1)] g] by blast
  have r: "r = hd rs" using rw g gne rs by (auto simp: assignResourceFromMinGroup_def mgetd_def Let_def)
  then have "GroupID r = g" using warm_keyed_mget [OF pool_invD(4) [OF assms(1)] rs(1)] rs(2) by simp
  then show ?thesis
    using x r rs findMinGroup_spec(2) [OF pool_invD(2) [OF assms(1)] g named_keys [OF assms(1,2)]]
    by (auto simp: mgetd_def intro!: exI [of _ r])
qed

definition sample_pd_pool :: pool where
  "sample_pd_pool = NewResourcePool \<lparr>DesiredSize = 1, ReservedSize = 0, MaxDeviation = 0, WarmIPTarget = 1,
       MinIPTarget = 3, WarmPrefixTarget = 0\<rparr> []
     [(''a'', [\<lparr>GroupID = ''a'', ResourceID = ''a1''\<rparr>, \<lparr>GroupID = ''a'', ResourceID = ''a2''\<rparr>]),
      (''b'', [\<lparr>GroupID = ''b'', ResourceID = ''b1''\<rparr>])] ''node-1'' 224 True"

theorem prefix_assign_packs_witness:
  "\<exists>r. mget (usedResources (fst (AssignResource ''pod-z'' sample_pd_pool))) ''pod-z'' = Some r \<and>
     ResourceID r = ''b1''"
proof -
  have a: "AssignResource ''pod-z'' sample_pd_pool =
      (fst (AssignResource ''pod-z'' sample_pd_pool), ''b1'', True, None)" by code_simp
  have "pool_inv sample_pd_pool" "named_resources sample_pd_pool" "isPDPool sample_pd_pool" by code_simp+
  then show ?thesis using prefix_assign_packs [OF _ _ _ a] by blast
qed

section \<open>Re-synchronising, cooling down and reconciling\<close>

text \<open>C5. After a re-synchronisation the pool holds exactly the upstream resources and the ones
  in use: resources EC2 has and the pool lacks become warm, resources EC2 no longer has leave the
  warm pool and the cool down queue, owners keep what they own, and nothing is held twice.\<close>

theorem resync_matches_upstream:
  assumes "pool_inv p" "reSyncRequired p" "upstream_ok p groups"
  shows "set (local_resources (ReSync groups p)) =
      set (upstream_resources (isPDPool p) groups) \<union> set (mvals (usedResources p)) \<and>
    usedResources (ReSync groups p) = usedResources p \<and>
    coolDownQueue (ReSync groups p) =
      filter (\<lambda>c. Resource c \<in> set (upstream_resources (isPDPool p) groups)) (coolDownQueue p) \<and>
    \<not> reSyncRequired (ReSync groups p) \<and> pool_inv (ReSync groups p)"
proof -
  have "\<not> reSyncRequired (ReSync groups p)" by (subst ReSync_shape(5) [OF assms(1,2)]) simp
  then show ?thesis
    using ReSync_set [OF assms(1,2), of groups] ReSync_used [OF assms(1), of groups]
      ReSync_shape(4) [OF assms(1,2), of groups] ReSync_inv [OF assms(1,3)]
    by (simp add: upstream_of_def)
qed

theorem resync_matches_upstream_witness:
  "set (local_resources (ReSync [''10.0.0.9/32''] (sample_pool\<lparr>reSyncRequired := True\<rparr>))) =
     {\<lparr>GroupID = ''10.0.0.9/32'', ResourceID = ''10.0.0.9/32''\<rparr>}"
proof -
  let ?p = "sample_pool\<lparr>reSyncRequired := True\<rparr>"
  have "pool_inv ?p" "upstream_ok ?p [''10.0.0.9/32'']" by code_simp+
  then show ?thesis
    using resync_matches_upstream [of ?p "[''10.0.0.9/32'']"]
    by (simp add: upstream_resources_def upstream_group_def sample_pools mvals_def)
qed

text \<open>\<open>ProcessCoolDownQueue\<close> moves exactly the longest prefix of entries that have cooled down
  to the warm pool, in order, keeps the rest, and asks to be called again exactly when something
  is left.\<close>

theorem cool_down_moves_prefix:
  assumes "pool_inv p" and "ProcessCoolDownQueue now p = (p', again)"
  shows "\<exists>cooled. coolDownQueue p = cooled @ coolDownQueue p' \<and>
    (\<forall>j < length cooled. now j - DeletionTimestamp (cooled ! j) \<ge> CoolDownPeriod) \<and>
    (coolDownQueue p' \<noteq> [] \<longrightarrow>
       now (length cooled) - DeletionTimestamp (hd (coolDownQueue p')) < CoolDownPeriod) \<and>
    mset (mflat (warmResources p')) = mset (mflat (warmResources p)) + mset (map Resource cooled) \<and>
    (again \<longleftrightarrow> coolDownQueue p' \<noteq> []) \<and> usedResources p' = usedResources p"
proof -
  from assms(2) obtain cooled where c: "coolDownQueue p = cooled @ coolDownQueue p'"
    "warmResources p' = to_warm cooled (warmResources p)"
    "p' = p\<lparr>coolDownQueue := coolDownQueue p', warmResources := warmResources p'\<rparr>"
    "\<And>j. j < length cooled \<Longrightarrow> now j - DeletionTimestamp (cooled ! j) \<ge> CoolDownPeriod"
    "again \<longleftrightarrow> coolDownQueue p' \<noteq> []"
    "coolDownQueue p' \<noteq> [] \<Longrightarrow> now (length cooled) - DeletionTimestamp (hd (coolDownQueue p')) < CoolDownPeriod"
    by (rule ProcessCoolDownQueue_split) blast
  have "usedResources p' = usedResources p" by (subst c(3)) simp
  moreover have "mset (mflat (warmResources p')) = mset (mflat (warmResources p)) + mset (map Resource cooled)"
    using to_warm_props(3) [OF pool_invD(2,4) [OF assms(1)]] c(2) by simp
  ultimately show ?thesis using c(1,4,5,6) by (intro exI [of _ cooled]) simp
qed

theorem cool_down_moves_prefix_witness:
  "\<exists>cooled. coolDownQueue sample_cooling = cooled @ coolDownQueue sample_pool"
proof -
  have "pool_inv sample_cooling" by code_simp
  then show ?thesis using cool_down_moves_prefix [OF _ sample_cool] by blast
qed

text \<open>C6. Reconciling never takes the node over its capacity: if the resources that exist or are
  pending fit, they still fit afterwards, whatever targets are configured.\<close>

theorem reconcile_within_capacity:
  assumes "pool_inv p" "total_created p \<le> capacity p"
  shows "total_created (fst (ReconcilePool p)) \<le> capacity p \<and> pool_inv (fst (ReconcilePool p))"
proof -
  obtain p' job where r: "ReconcilePool p = (p', job)" by (cases "ReconcilePool p")
  then show ?thesis
    using ReconcilePool_total [OF assms(1) r assms(2)] ReconcilePool_inv [OF assms(1) r] by auto
qed

theorem reconcile_within_capacity_witness:
  "total_created sample_pool \<le> 14 \<and> total_created (fst (ReconcilePool sample_pool)) \<le> 14"
  using reconcile_within_capacity [OF sample_pool_inv] by (simp add: sample_pools total_created_def
      numResourcesFromMap_def)

text \<open>The secondary IP deviation is the smallest correction that meets both targets: with \<open>d\<close>
  more addresses the pool has at least the warm target available and at least the minimum
  target in all, and with one fewer it has not.\<close>

theorem secondary_deviation_exact:
  assumes "pool_small p" and "calculateSecondaryIPDeviation p = (d, p')"
  shows "WarmIPTarget (warmPoolConfig p') \<le> available p + d \<and>
    MinIPTarget (warmPoolConfig p') \<le> assigned_total p + d \<and>
    \<not> (WarmIPTarget (warmPoolConfig p') \<le> available p + (d - 1) \<and>
       MinIPTarget (warmPoolConfig p') \<le> assigned_total p + (d - 1)) \<and>
    warmPoolConfig p' = secondary_targets (warmPoolConfig p)"
  using assms(2) unfolding calculateSecondary_spec [OF assms(1)] by auto

theorem secondary_deviation_exact_witness:
  "available sample_pool = 1 \<and> fst (calculateSecondaryIPDeviation sample_pool) = 2 \<and>
   WarmIPTarget (warmPoolConfig (snd (calculateSecondaryIPDeviation sample_pool))) \<le> 1 + 2"
proof -
  have "pool_small sample_pool" by (simp add: sample_pools pool_small_def small_int_def)
  moreover have "available sample_pool = 1" by (simp add: sample_pools available_def)
  moreover have "fst (calculateSecondaryIPDeviation sample_pool) = 2" by code_simp
  ultimately show ?thesis
    using secondary_deviation_exact [of sample_pool 2 "snd (calculateSecondaryIPDeviation sample_pool)"]
    by (metis prod.collapse)
qed

text \<open>The prefix delegation deviation is a whole number of prefixes and the smallest
  correction that meets both targets, except that prefixes in excess are kept while none of them
  is entirely free: a prefix is only ever released when a free one exists.\<close>

theorem prefix_deviation_exact:
  assumes "pool_small p" "0 \<le> pendingCreate p"
    and "pd_targets (warmPoolConfig p) = (c, dw, dm, dp)" "dw \<or> dm \<or> \<not> dp"
    and "getPDDeviation p = (d, p')"
  defines "needed \<equiv> max (int (length (usedResources p)) + WarmIPTarget c) (MinIPTarget c)"
    and "free \<equiv> findFreeGroup (warmResources p) 16"
  shows "\<exists>k. d = 16 * k \<and>
    needed \<le> 16 * (prefixes_for (assigned_total p) + k) \<and>
    (k \<noteq> 0 \<or> free \<noteq> [] \<longrightarrow> \<not> needed \<le> 16 * (prefixes_for (assigned_total p) + k - 1)) \<and>
    (k < 0 \<longrightarrow> free \<noteq> [])"
proof -
  define A where "A = prefixes_for (int (length (usedResources p)) + WarmIPTarget c)"
  define B where "B = prefixes_for (MinIPTarget c)"
  define H where "H = prefixes_for (assigned_total p)"
  have need: "needed \<le> 16 * max A B" "\<not> needed \<le> 16 * (max A B - 1)"
    using prefixes_for_bounds [of "int (length (usedResources p)) + WarmIPTarget c"]
      prefixes_for_bounds [of "MinIPTarget c"]
    by (auto simp: needed_def A_def B_def max_def)
  define k where "k = (if max A B - H < 0 \<and> free = [] then 0 else max A B - H)"
  have "d = 16 * k"
    using assms(5) unfolding getPDDeviation_spec [OF assms(1-4)] Let_def A_def B_def H_def free_def k_def
      prod.inject by (elim conjE) (rule sym)
  then show ?thesis
    unfolding H_def [symmetric] using need
    by (intro exI [of _ k]) (auto simp: k_def split: if_splits)
qed

theorem prefix_deviation_exact_witness:
  "\<exists>k. fst (getPDDeviation (sample_pd_pool\<lparr>warmResources := []\<rparr>)) = 16 * k \<and> 3 \<le> 16 * (0 + k)"
proof -
  let ?p = "sample_pd_pool\<lparr>warmResources := []\<rparr>"
  have t: "pd_targets (warmPoolConfig ?p) = (warmPoolConfig ?p, True, True, False)" by code_simp
  have "pool_small ?p" "0 \<le> pendingCreate ?p"
    by (simp_all add: sample_pd_pool_def NewResourcePool_def pool_small_def small_int_def)
  then obtain k where "fst (getPDDeviation ?p) = 16 * k"
      "max (int (length (usedResources ?p)) + WarmIPTarget (warmPoolConfig ?p)) (MinIPTarget (warmPoolConfig ?p))
        \<le> 16 * (prefixes_for (assigned_total ?p) + k)"
    using prefix_deviation_exact [OF _ _ t, of "fst (getPDDeviation ?p)" "snd (getPDDeviation ?p)"] by auto
  then show ?thesis
    by (auto simp: sample_pd_pool_def NewResourcePool_def assigned_total_def available_def prefixes_for_def)
qed

text \<open>In secondary IP mode, when the pool may reconcile, \<open>ReconcilePool\<close> does what the deviation
  \<open>d\<close> asks: for a positive \<open>d\<close> it requests \<open>d\<close> addresses, or as many as the capacity leaves; for a
  negative one it releases at most \<open>-d\<close> warm addresses, so that both targets still hold.\<close>

theorem secondary_reconcile_meets_targets:
  assumes "pool_inv p" "pool_small p" "\<not> isPDPool p" "\<not> reSyncRequired p"
    and "MaxDeviation (warmPoolConfig p) = 0"
    and "int (length (usedResources p)) + pendingCreate p + pendingDelete p
           + int (length (coolDownQueue p)) \<noteq> capacity p"
    and "calculateSecondaryIPDeviation p = (d, q)" and "ReconcilePool p = (p', job)"
  shows "(d > 0 \<and> total_created p < capacity p \<longrightarrow>
       job = NewWarmPoolCreateJob (nodeName p) (min d (capacity p - total_created p)) \<and>
       available p' = available p + min d (capacity p - total_created p)) \<and>
    (d \<le> 0 \<longrightarrow> Operations job \<noteq> OperationCreate \<and>
       WarmIPTarget (warmPoolConfig p') \<le> available p' \<and>
       MinIPTarget (warmPoolConfig p') \<le> assigned_total p')"
proof -
  let ?c = "secondary_targets (warmPoolConfig p)"
  have dq: "d = max (WarmIPTarget ?c - available p) (MinIPTarget ?c - assigned_total p)"
    "q = p\<lparr>warmPoolConfig := ?c\<rparr>"
    using assms(7) unfolding calculateSecondary_spec [OF assms(2)] by auto
  have mx: "MaxDeviation ?c = 0" using assms(5) by (simp add: secondary_targets_def Let_def)
  have dev: "(if isPDPool p then getPDDeviation p else calculateSecondaryIPDeviation p) = (d, q)"
    using assms(3,7) by simp
  have small: "i64 (- d) = - d"
  proof -
    have "0 \<le> WarmIPTarget ?c" "0 \<le> MinIPTarget ?c" "WarmIPTarget ?c \<le> 2 ^ 56" "MinIPTarget ?c \<le> 2 ^ 56"
      using assms(2) by (auto simp: secondary_targets_def Let_def config_defaults pool_small_def small_int_def)
    moreover have "\<bar>available p\<bar> \<le> 2 ^ 57" "\<bar>assigned_total p\<bar> \<le> 2 ^ 58"
      using assms(2) by (auto simp: available_def assigned_total_def pool_small_def small_int_def)
    ultimately show ?thesis using dq(1) by (intro i64_small) (auto simp: max_def)
  qed
  have r: "ReconcilePool p =
     (if d > 0 then reconcile_create (total_created p) d q
      else if - d > 0 then reconcile_delete (- d) q else (q, NoReconcileJob))"
    using assms(4,6) unfolding ReconcilePool_def Let_def dev prod.case small by (simp add: dq(2) mx)
  show ?thesis
  proof (cases "d > 0")
    case True
    then show ?thesis
      using r assms(3,8) dq(2) by (auto simp: reconcile_create_def Let_def available_def min_def)
  next
    case False
    show ?thesis
    proof (cases "d = 0")
      case True
      then show ?thesis
        using r assms(8) dq by (auto simp: warm_jobs available_def assigned_total_def)
    next
      case neg: False
      define gs where "gs = findFreeGroup (warmResources p) 1"
      obtain out p1 where l: "delete_groups_loop gs (- d) [] q = (out, p1)" by (metis surj_pair)
      have gs: "distinct gs" "\<And>g. g \<in> set gs \<Longrightarrow> int (length (mgetd [] (warmResources p) g)) = 1"
        using findFreeGroup_spec [OF pool_invD(2) [OF assms(1)]] by (fastforce simp: gs_def mgetd_def)+
      obtain t where t: "out = t" "set t \<subseteq> set gs" "distinct t" "t = [] \<or> int (length t) - 1 < - d"
          "p1 = q\<lparr>warmResources := drop_groups t (warmResources p),
                  pendingDelete := pendingDelete p + int (length t)\<rparr>"
        using delete_groups_loop_spec [OF gs(1) _ l, of 1] gs(2) by (auto simp: dq(2))
      have p': "p' = p1" "Operations job \<noteq> OperationCreate"
        using r assms(3,8) False neg l t(1)
        by (auto simp: reconcile_delete_def Let_def dq(2) gs_def warm_jobs split: if_splits)
      have len: "int (length (mflat (warmResources p))) =
          int (length (mflat (drop_groups t (warmResources p)))) + int (length t)"
        using deletes_props(4) [OF assms(1) t(3)] gs(2) t(2) assms(3) by (auto simp: group_unit_def)
      have "int (length t) \<le> - d" using t(4) False neg by auto
      then have "WarmIPTarget ?c \<le> available p - int (length t)" "MinIPTarget ?c \<le> assigned_total p - int (length t)"
        using dq(1) by auto
      then show ?thesis
        using p' t(5) len False by (simp add: dq(2) available_def assigned_total_def)
    qed
  qed
qed

theorem secondary_reconcile_meets_targets_witness:
  "ReconcilePool sample_pool = (sample_creating, NewWarmPoolCreateJob ''node-1'' (min 2 13)) \<and>
   available sample_creating = available sample_pool + min 2 13"
proof -
  have d: "calculateSecondaryIPDeviation sample_pool = (2, sample_pool)" by code_simp
  have "pool_small sample_pool" by (simp add: sample_pools pool_small_def small_int_def)
  then show ?thesis
    using secondary_reconcile_meets_targets [OF sample_pool_inv _ _ _ _ _ d sample_reconcile] sample_reconcile
    by (simp add: sample_pools total_created_def numResourcesFromMap_def)
qed

end
