(* ===== verification/Env.thy ===== *)
theory Env
  imports Utils Config "HOL-Library.Monad_Syntax"
begin

text \<open>
  The world outside the controller as its components see it: the interface \<open>EC2APIHelper\<close> of
  \<open>pkg/aws/ec2/api/helper.go\<close> and the clock. A component calls them through a record of
  functions. Every call is added to a history, and the answer may depend on the whole history, so
  that a theorem for every such record is a theorem for every behaviour of EC2 and of the clock;
  the history is the trace of the calls that were made. An error is the text of the error.

  Definitions that can panic (an index out of range, a nil pointer) return an option, where
  \<open>None\<close> is the panic.
\<close>

datatype ec2_call =
    GetInstanceDetailsCall string
  | GetSubnetCall string
  | GetInstanceNetworkInterfaceCall string
  | WaitForStatusCall string string
  | CreateAndAttachCall string string "string list" "ec2_tag list" int
  | GetBranchNetworkInterfaceCall string string
  | CreateNetworkInterfaceCall string "string list" "ec2_tag list" "conn_tracking option"
  | AssociateBranchToTrunkCall string string int
  | DisassociateTrunkInterfaceCall string
  | DeleteNetworkInterfaceCall string
  | AssignIPv4Call string string int
  | UnassignIPv4Call string string "string list"
  | DetachAndDeleteCall string
  | ReadClock

type_synonym hist = "ec2_call list"

text \<open>A subnet: its CIDR block, nil as \<open>None\<close>, and its IPv6 CIDR blocks.\<close>

record subnet =
  CidrBlock :: "string option"
  Ipv6CidrBlocks :: "string option list"

record instance_details =
  SubnetId :: "string option"
  InstanceType :: string
  InstancePrivateIp :: "string option"
  NetworkInterfaces :: "instance_interface list"

record ec2_api =
  GetInstanceDetails :: "hist \<Rightarrow> string \<Rightarrow> string + instance_details option"
  GetSubnet :: "hist \<Rightarrow> string \<Rightarrow> string + subnet option"
  GetInstanceNetworkInterface :: "hist \<Rightarrow> string \<Rightarrow> string + instance_interface list"
  WaitForNetworkInterfaceStatusChange :: "hist \<Rightarrow> string \<Rightarrow> string \<Rightarrow> string option"
  CreateAndAttachNetworkInterface ::
    "hist \<Rightarrow> string \<Rightarrow> string \<Rightarrow> string list \<Rightarrow> ec2_tag list \<Rightarrow> int \<Rightarrow> string + network_interface"
  GetBranchNetworkInterface :: "hist \<Rightarrow> string \<Rightarrow> string \<Rightarrow> string + network_interface list"
  CreateNetworkInterface ::
    "hist \<Rightarrow> string \<Rightarrow> string list \<Rightarrow> ec2_tag list \<Rightarrow> conn_tracking option \<Rightarrow> string + network_interface"
  AssociateBranchToTrunk :: "hist \<Rightarrow> string \<Rightarrow> string \<Rightarrow> int \<Rightarrow> string + string"
  DisassociateTrunkInterface :: "hist \<Rightarrow> string \<Rightarrow> string option"
  DeleteNetworkInterface :: "hist \<Rightarrow> string \<Rightarrow> string option"
  AssignIPv4Resources :: "hist \<Rightarrow> string \<Rightarrow> string \<Rightarrow> int \<Rightarrow> string list \<times> string option"
  UnassignIPv4Resources :: "hist \<Rightarrow> string \<Rightarrow> string \<Rightarrow> string list \<Rightarrow> string option"
  Now :: "hist \<Rightarrow> int"

text \<open>\<open>xs[i]\<close> and \<open>xs[i] = v\<close> with an integer index.\<close>

definition index_get :: "'a list \<Rightarrow> int \<Rightarrow> 'a option" where
  "index_get xs i = (if 0 \<le> i \<and> i < int (length xs) then Some (xs ! nat i) else None)"

definition index_set :: "'a list \<Rightarrow> int \<Rightarrow> 'a \<Rightarrow> 'a list option" where
  "index_set xs i v = (if 0 \<le> i \<and> i < int (length xs) then Some (xs[nat i := v]) else None)"

lemma index_get_Some: "index_get xs i = Some v \<longleftrightarrow> 0 \<le> i \<and> i < int (length xs) \<and> v = xs ! nat i"
  by (auto simp: index_get_def)

lemma index_set_Some: "index_set xs i v = Some ys \<longleftrightarrow> 0 \<le> i \<and> i < int (length xs) \<and> ys = xs[nat i := v]"
  by (auto simp: index_set_def)

text \<open>An EC2 on which every call succeeds, for the closed instances of the theorems: interfaces
  are named after the number of calls before, and the clock counts calls.\<close>

definition sample_api :: ec2_api where
  "sample_api =
    \<lparr>GetInstanceDetails = (\<lambda>h i. Inr None),
     GetSubnet = (\<lambda>h s. Inr (Some \<lparr>CidrBlock = Some ''10.0.0.0/16'', Ipv6CidrBlocks = []\<rparr>)),
     GetInstanceNetworkInterface = (\<lambda>h i. Inr []),
     WaitForNetworkInterfaceStatusChange = (\<lambda>h n s. None),
     CreateAndAttachNetworkInterface = (\<lambda>h i s g t d. Inr \<lparr>NetworkInterfaceId = ''eni-trunk'',
        MacAddress = ''mac'', NIPrivateIpAddress = None, NIIpv6Address = None, TagSet = t\<rparr>),
     GetBranchNetworkInterface = (\<lambda>h t s. Inr []),
     CreateNetworkInterface = (\<lambda>h s g t c. Inr \<lparr>NetworkInterfaceId = ''eni-'' @ Itoa (int (length h)),
        MacAddress = ''mac'', NIPrivateIpAddress = Some ''10.0.0.7'', NIIpv6Address = None, TagSet = t\<rparr>),
     AssociateBranchToTrunk = (\<lambda>h t n v. Inr (''assoc-'' @ n)),
     DisassociateTrunkInterface = (\<lambda>h a. None),
     DeleteNetworkInterface = (\<lambda>h n. None),
     AssignIPv4Resources = (\<lambda>h n ty c. ([], None)),
     UnassignIPv4Resources = (\<lambda>h n ty rs. None),
     Now = (\<lambda>h. int (length h))\<rparr>"

end
