(* ===== verification/Instance.thy ===== *)
theory Instance
  imports Env
begin

text \<open>
  \<open>pkg/aws/ec2/instance.go\<close>: what the controller knows of an EC2 instance: its subnets and security
  groups, which of them are current (custom networking or the primary interface), the device
  indexes in use and the connection tracking settings of the primary interface. The accessors
  are the fields of the record.
\<close>

record ec2_instance =
  name :: string
  os :: string
  instanceID :: string
  instanceType :: string
  instanceSubnetID :: string
  instanceSubnetCidrBlock :: string
  instanceSubnetV6CidrBlock :: string
  currentSubnetID :: string
  currentSubnetCIDRBlock :: string
  currentSubnetV6CIDRBlock :: string
  currentInstanceSecurityGroups :: "string list"
  subnetMask :: string
  subnetV6Mask :: string
  deviceIndexes :: "bool list"
  primaryENISecurityGroups :: "string list"
  primaryENIID :: string
  newCustomNetworkingSubnetID :: string
  newCustomNetworkingSecurityGroups :: "string list"
  connectionTracking :: conn_tracking

definition zero_conn_tracking :: conn_tracking where
  "zero_conn_tracking = \<lparr>TcpEstablishedTimeout = None, UdpStreamTimeout = None, UdpTimeout = None\<rparr>"

definition NewEC2Instance :: "string \<Rightarrow> string \<Rightarrow> string \<Rightarrow> ec2_instance" where
  "NewEC2Instance node instance_id osName =
     \<lparr>name = node, os = osName, instanceID = instance_id, instanceType = '''', instanceSubnetID = '''',
      instanceSubnetCidrBlock = '''', instanceSubnetV6CidrBlock = '''', currentSubnetID = '''',
      currentSubnetCIDRBlock = '''', currentSubnetV6CIDRBlock = '''', currentInstanceSecurityGroups = [],
      subnetMask = '''', subnetV6Mask = '''', deviceIndexes = [], primaryENISecurityGroups = [],
      primaryENIID = '''', newCustomNetworkingSubnetID = '''', newCustomNetworkingSecurityGroups = [],
      connectionTracking = zero_conn_tracking\<rparr>"

datatype instance_error =
    Ec2Error string
  | InstanceNotFound
  | SubnetNotFound
  | UnsupportedInstanceType
  | NoNetworkCard
  | NoFreeDeviceIndex
  | IndexNotInt32

text \<open>A method of the instance returns the instance, the history of calls and an error or \<open>None\<close>.\<close>

type_synonym instance_result = "ec2_instance \<times> hist \<times> instance_error option"

definition updateCurrentSubnetAndCidrBlock :: "ec2_api \<Rightarrow> ec2_instance \<Rightarrow> hist \<Rightarrow> instance_result" where
  "updateCurrentSubnetAndCidrBlock api i h =
     (if newCustomNetworkingSubnetID i \<noteq> '''' then
        let i1 = i\<lparr>currentInstanceSecurityGroups :=
                    (if newCustomNetworkingSecurityGroups i \<noteq> [] then newCustomNetworkingSecurityGroups i
                     else primaryENISecurityGroups i)\<rparr>
        in if newCustomNetworkingSubnetID i1 \<noteq> currentSubnetID i1 then
             let h1 = GetSubnetCall (newCustomNetworkingSubnetID i1) # h in
             (case GetSubnet api h (newCustomNetworkingSubnetID i1) of
                Inl e \<Rightarrow> (i1, h1, Some (Ec2Error e))
              | Inr None \<Rightarrow> (i1, h1, Some SubnetNotFound)
              | Inr (Some s) \<Rightarrow>
                 (case CidrBlock s of
                    None \<Rightarrow> (i1, h1, Some SubnetNotFound)
                  | Some cidr \<Rightarrow>
                     (i1\<lparr>currentSubnetID := newCustomNetworkingSubnetID i1,
                         currentSubnetCIDRBlock := cidr\<rparr>, h1, None)))
           else (i1, h, None)
      else (i\<lparr>currentSubnetID := instanceSubnetID i,
              currentSubnetCIDRBlock := instanceSubnetCidrBlock i,
              currentSubnetV6CIDRBlock := instanceSubnetV6CidrBlock i,
              currentInstanceSecurityGroups := primaryENISecurityGroups i\<rparr>, h, None))"

definition UpdateCurrentSubnetAndCidrBlock :: "ec2_api \<Rightarrow> ec2_instance \<Rightarrow> hist \<Rightarrow> instance_result" where
  "UpdateCurrentSubnetAndCidrBlock api i h = updateCurrentSubnetAndCidrBlock api i h"

text \<open>\<open>strings.Split(cidr, "/")[1]\<close>\<close>

definition cidr_mask :: "string \<Rightarrow> string option" where
  "cidr_mask cidr = index_get (Split cidr (CHR ''/'')) 1"

text \<open>The loop that caches the first IPv6 CIDR block of the subnet.\<close>

fun load_v6 :: "string option list \<Rightarrow> ec2_instance \<Rightarrow> ec2_instance option" where
  "load_v6 [] i = Some i"
| "load_v6 (None # bs) i = load_v6 bs i"
| "load_v6 (Some b # bs) i =
     (case cidr_mask b of
        None \<Rightarrow> None
      | Some m \<Rightarrow> Some (i\<lparr>instanceSubnetV6CidrBlock := b, subnetV6Mask := m\<rparr>))"

definition default_card_limit :: "vpc_limits \<Rightarrow> int" where
  "default_card_limit limits =
     (case filter (\<lambda>nc. NetworkCardIndex nc = DefaultNetworkCardIndex limits) (NetworkCards limits) of
        [] \<Rightarrow> 0 | nc # _ \<Rightarrow> MaximumNetworkInterfaces nc)"

text \<open>The loop over the network interfaces of the instance.\<close>

fun load_interfaces :: "string option \<Rightarrow> instance_interface list \<Rightarrow> ec2_instance \<Rightarrow> ec2_instance option" where
  "load_interfaces privateIp [] i = Some i"
| "load_interfaces privateIp (nw # nws) i =
     (case index_set (deviceIndexes i) (IDeviceIndex nw) True of
        None \<Rightarrow> None
      | Some idxs \<Rightarrow>
         (let i1 = i\<lparr>deviceIndexes := idxs\<rparr>;
              i2 = (if primaryENISecurityGroups i1 = [] \<and> IPrivateIpAddress nw \<noteq> None \<and>
                       privateIp \<noteq> None \<and> IPrivateIpAddress nw = privateIp
                    then i1\<lparr>primaryENIID := INetworkInterfaceId nw, primaryENISecurityGroups := IGroups nw\<rparr>
                    else i1);
              i3 = (if IDeviceIndex nw = 0 then
                      (case IConnTracking nw of
                         None \<Rightarrow> i2 | Some c \<Rightarrow> i2\<lparr>connectionTracking := c\<rparr>)
                    else i2)
          in load_interfaces privateIp nws i3))"

definition LoadDetails :: "limits_table \<Rightarrow> ec2_api \<Rightarrow> ec2_instance \<Rightarrow> hist \<Rightarrow> instance_result option" where
  "LoadDetails Limits api i h =
    (let h1 = GetInstanceDetailsCall (instanceID i) # h in
     case GetInstanceDetails api h (instanceID i) of
       Inl e \<Rightarrow> Some (i, h1, Some (Ec2Error e))
     | Inr None \<Rightarrow> Some (i, h1, Some InstanceNotFound)
     | Inr (Some d) \<Rightarrow>
        (case SubnetId d of
           None \<Rightarrow> Some (i, h1, Some InstanceNotFound)
         | Some sn \<Rightarrow>
            (let i1 = i\<lparr>instanceSubnetID := sn\<rparr>; h2 = GetSubnetCall sn # h1 in
             case GetSubnet api h1 sn of
               Inl e \<Rightarrow> Some (i1, h2, Some (Ec2Error e))
             | Inr None \<Rightarrow> Some (i1, h2, Some SubnetNotFound)
             | Inr (Some s) \<Rightarrow>
                (case CidrBlock s of
                   None \<Rightarrow> Some (i1, h2, Some SubnetNotFound)
                 | Some cidr \<Rightarrow>
                    do {
                      m \<leftarrow> cidr_mask cidr;
                      let i2 = i1\<lparr>instanceSubnetCidrBlock := cidr, subnetMask := m\<rparr>;
                      i3 \<leftarrow> load_v6 (Ipv6CidrBlocks s) i2;
                      let i4 = i3\<lparr>instanceType := InstanceType d\<rparr>;
                      case Limits (InstanceType d) of
                        None \<Rightarrow> Some (i4, h2, Some UnsupportedInstanceType)
                      | Some limits \<Rightarrow>
                          if default_card_limit limits = 0 then Some (i4, h2, Some NoNetworkCard)
                          else do {
                            let maxInterfaces = Minimum (Interface limits) (default_card_limit limits);
                            (if maxInterfaces < 0 then None else Some ());
                            i5 \<leftarrow> load_interfaces (InstancePrivateIp d) (NetworkInterfaces d)
                                   (i4\<lparr>deviceIndexes := replicate (nat maxInterfaces) False\<rparr>);
                            Some (updateCurrentSubnetAndCidrBlock api i5 h2)
                          }
                    }))))"

text \<open>\<open>for index := len - 1; index >= 0; index--\<close>: \<open>Suc index\<close> is the visit of \<open>index\<close>.\<close>

fun highest_unused :: "bool list \<Rightarrow> nat \<Rightarrow> nat option" where
  "highest_unused idxs 0 = None"
| "highest_unused idxs (Suc index) = (if idxs ! index = False then Some index else highest_unused idxs index)"

definition GetHighestUnusedDeviceIndex :: "ec2_instance \<Rightarrow> ec2_instance \<times> (instance_error + int)" where
  "GetHighestUnusedDeviceIndex i =
     (case highest_unused (deviceIndexes i) (length (deviceIndexes i)) of
        None \<Rightarrow> (i, Inl NoFreeDeviceIndex)
      | Some index \<Rightarrow>
          (i\<lparr>deviceIndexes := (deviceIndexes i)[index := True]\<rparr>,
           case IntToInt32 (int index) of None \<Rightarrow> Inl IndexNotInt32 | Some v \<Rightarrow> Inr v))"

definition FreeDeviceIndex :: "int \<Rightarrow> ec2_instance \<Rightarrow> ec2_instance option" where
  "FreeDeviceIndex index i =
     map_option (\<lambda>idxs. i\<lparr>deviceIndexes := idxs\<rparr>) (index_set (deviceIndexes i) index False)"

definition SetNewCustomNetworkingSpec :: "string \<Rightarrow> string list \<Rightarrow> ec2_instance \<Rightarrow> ec2_instance" where
  "SetNewCustomNetworkingSpec sn securityGroups i =
     i\<lparr>newCustomNetworkingSubnetID := sn, newCustomNetworkingSecurityGroups := securityGroups\<rparr>"

definition GetCustomNetworkingSpec :: "ec2_instance \<Rightarrow> string \<times> string list" where
  "GetCustomNetworkingSpec i = (newCustomNetworkingSubnetID i, newCustomNetworkingSecurityGroups i)"

definition GetConnectionTrackingSpec :: "ec2_instance \<Rightarrow> conn_tracking" where
  "GetConnectionTrackingSpec i = connectionTracking i"

section \<open>Properties\<close>

lemma highest_unused_Some:
  assumes "highest_unused idxs n = Some k" "n \<le> length idxs"
  shows "k < n \<and> \<not> idxs ! k \<and> (\<forall>j. k < j \<and> j < n \<longrightarrow> idxs ! j)"
  using assms by (induction n) (auto split: if_splits simp: less_Suc_eq)

lemma highest_unused_None:
  "highest_unused idxs n = None \<longleftrightarrow> (\<forall>j < n. idxs ! j)"
  by (induction n) (auto simp: less_Suc_eq)

text \<open>\<open>GetHighestUnusedDeviceIndex\<close> gives out the highest free device index, marks it used, and
  fails exactly when every index is used; freeing the index restores the instance.\<close>

theorem device_index_round_trip:
  assumes "length (deviceIndexes i) \<le> 2147483647"
  shows "(\<forall>j < length (deviceIndexes i). deviceIndexes i ! j) \<and>
      GetHighestUnusedDeviceIndex i = (i, Inl NoFreeDeviceIndex) \<or>
    (\<exists>k < length (deviceIndexes i). \<exists>i'. GetHighestUnusedDeviceIndex i = (i', Inr (int k)) \<and>
       \<not> deviceIndexes i ! k \<and> (\<forall>j. k < j \<and> j < length (deviceIndexes i) \<longrightarrow> deviceIndexes i ! j) \<and>
       deviceIndexes i' ! k \<and> FreeDeviceIndex (int k) i' = Some i)"
proof (cases "highest_unused (deviceIndexes i) (length (deviceIndexes i))")
  case None
  then show ?thesis
    using highest_unused_None [of "deviceIndexes i" "length (deviceIndexes i)"]
    by (simp add: GetHighestUnusedDeviceIndex_def)
next
  case (Some k)
  note k = highest_unused_Some [OF Some order_refl]
  have "(deviceIndexes i)[k := True, k := False] = deviceIndexes i"
    using k by (metis (full_types) list_update_id list_update_overwrite)
  then have "\<exists>i'. GetHighestUnusedDeviceIndex i = (i', Inr (int k)) \<and> deviceIndexes i' ! k \<and>
      FreeDeviceIndex (int k) i' = Some i"
    using Some k assms
    by (simp add: GetHighestUnusedDeviceIndex_def IntToInt32_def FreeDeviceIndex_def index_set_def)
  then show ?thesis using k by blast
qed

theorem device_index_round_trip_witness:
  "\<exists>i'. GetHighestUnusedDeviceIndex ((NewEC2Instance ''n'' ''i-1'' ''linux'')\<lparr>deviceIndexes := [True, False, False, True]\<rparr>) =
     (i', Inr 2)"
  using device_index_round_trip [of "(NewEC2Instance ''n'' ''i-1'' ''linux'')\<lparr>deviceIndexes := [True, False, False, True]\<rparr>"]
  by (simp add: GetHighestUnusedDeviceIndex_def NewEC2Instance_def IntToInt32_def numeral_2_eq_2)

text \<open>Which subnet and security groups are current: with a custom networking subnet they are
  the configured ones (the groups of the primary interface when none are configured), without
  one the subnet and groups of the primary interface; when the subnet cannot be read the current
  subnet stays as it is.\<close>

theorem current_subnet_spec:
  assumes "UpdateCurrentSubnetAndCidrBlock api i h = (i', h', err)"
  shows "(newCustomNetworkingSubnetID i = '''' \<longrightarrow> err = None \<and>
      currentSubnetID i' = instanceSubnetID i \<and> currentInstanceSecurityGroups i' = primaryENISecurityGroups i) \<and>
    (newCustomNetworkingSubnetID i \<noteq> '''' \<longrightarrow>
      currentInstanceSecurityGroups i' =
        (if newCustomNetworkingSecurityGroups i = [] then primaryENISecurityGroups i
         else newCustomNetworkingSecurityGroups i) \<and>
      currentSubnetID i' = (if err = None then newCustomNetworkingSubnetID i else currentSubnetID i) \<and>
      (err \<noteq> None \<longrightarrow> currentSubnetCIDRBlock i' = currentSubnetCIDRBlock i))"
  using assms
  by (auto simp: UpdateCurrentSubnetAndCidrBlock_def updateCurrentSubnetAndCidrBlock_def Let_def
      split: if_splits sum.splits option.splits)

definition sample_instance :: ec2_instance where
  "sample_instance = (NewEC2Instance ''node-1'' ''i-0123456789abcdef0'' ''linux'')
     \<lparr>instanceType := ''a1.medium'', instanceSubnetID := ''subnet-1'', currentSubnetID := ''subnet-1'',
      instanceSubnetCidrBlock := ''10.0.0.0/16'', currentSubnetCIDRBlock := ''10.0.0.0/16'',
      deviceIndexes := [True, False], primaryENISecurityGroups := [''sg-1''],
      currentInstanceSecurityGroups := [''sg-1''], primaryENIID := ''eni-0'', subnetMask := ''16''\<rparr>"

theorem current_subnet_spec_witness:
  "currentSubnetID (fst (UpdateCurrentSubnetAndCidrBlock sample_api sample_instance [])) = ''subnet-1''"
proof -
  obtain i' h' e where u: "UpdateCurrentSubnetAndCidrBlock sample_api sample_instance [] = (i', h', e)"
    by (metis prod_cases3)
  show ?thesis using current_subnet_spec [OF u] u by (simp add: sample_instance_def NewEC2Instance_def)
qed

end
