(* ===== verification/Cooldown.thy ===== *)
theory Cooldown
  imports Env
begin

text \<open>
  \<open>pkg/provider/branch/cooldown/cooldown.go\<close>: the cool down period of branch interfaces, in
  nanoseconds. \<open>time.Second * time.Duration(n)\<close> wraps as a 64-bit product. The ConfigMap read is an
  argument: \<open>None\<close> when it fails.
\<close>

record cooldown =
  coolDownPeriod :: int

definition DefaultCoolDownPeriod :: int where "DefaultCoolDownPeriod = 60 * 10 ^ 9"
definition MinimalCoolDownPeriod :: int where "MinimalCoolDownPeriod = 30 * 10 ^ 9"

text \<open>The period, and whether an error is returned beside it.\<close>

definition GetVpcCniConfigMapCoolDownPeriodOrDefault :: "config_map option \<Rightarrow> int \<times> bool" where
  "GetVpcCniConfigMapCoolDownPeriodOrDefault getConfigMap =
     (case getConfigMap of
        Some (Some Data) \<Rightarrow>
          (case mget Data BranchENICooldownPeriodKey of
             Some val \<Rightarrow>
               (case Atoi val of
                  (_, Some e) \<Rightarrow> (DefaultCoolDownPeriod, True)
                | (n, None) \<Rightarrow> (i64 (10 ^ 9 * n), False))
           | None \<Rightarrow> (DefaultCoolDownPeriod, True))
      | _ \<Rightarrow> (DefaultCoolDownPeriod, True))"

definition SetCoolDownPeriod :: "int \<Rightarrow> cooldown \<Rightarrow> cooldown" where
  "SetCoolDownPeriod p c = c\<lparr>coolDownPeriod := p\<rparr>"

definition InitCoolDownPeriod :: "config_map option \<Rightarrow> cooldown" where
  "InitCoolDownPeriod getConfigMap =
     SetCoolDownPeriod (fst (GetVpcCniConfigMapCoolDownPeriodOrDefault getConfigMap)) \<lparr>coolDownPeriod = 0\<rparr>"

definition GetCoolDownPeriod :: "cooldown \<Rightarrow> int" where
  "GetCoolDownPeriod c =
     (if coolDownPeriod c < 30 * 10 ^ 9 then MinimalCoolDownPeriod else coolDownPeriod c)"

text \<open>The cool down period that is used is at least 30 seconds for every ConfigMap, also where
  the configured seconds overflow, and it is the configured period whenever that is at least 30
  seconds and fits in 64 bits.\<close>

theorem cool_down_period_spec:
  "30 * 10 ^ 9 \<le> GetCoolDownPeriod (InitCoolDownPeriod cm) \<and>
   (30 \<le> n \<and> n \<le> 9223372036 \<longrightarrow>
     GetCoolDownPeriod (InitCoolDownPeriod (Some (Some [(BranchENICooldownPeriodKey, Itoa n)]))) = n * 10 ^ 9)"
proof -
  have "Atoi (Itoa n) = (n, None)" and "i64 (10 ^ 9 * n) = n * 10 ^ 9" if "30 \<le> n" "n \<le> 9223372036"
    using that i64_id [of "10 ^ 9 * n"]
    by (auto intro!: Atoi_Itoa simp: MinInt64_def MaxInt64_def mult.commute)
  then show ?thesis
    by (auto simp: GetCoolDownPeriod_def InitCoolDownPeriod_def SetCoolDownPeriod_def MinimalCoolDownPeriod_def
        GetVpcCniConfigMapCoolDownPeriodOrDefault_def mget_def)
qed

theorem cool_down_period_spec_witness:
  "GetCoolDownPeriod (InitCoolDownPeriod (Some (Some [(BranchENICooldownPeriodKey, Itoa 90)]))) = 90 * 10 ^ 9"
  using cool_down_period_spec [of None 90] by simp

end
