(* ===== verification/Trunk.thy ===== *)
theory Trunk
  imports Instance Cooldown "HOL-Library.List_Lexorder" "HOL-Library.Char_ord"
begin

text \<open>
  \<open>pkg/provider/branch/trunk/trunk.go\<close>: the trunk interface of a Linux node, the branch interfaces
  of its pods and the queue of branch interfaces that wait to be deleted. The operations are
  functions on the trunk's record and the history of EC2 calls; each takes the locks of the code
  where the code does, which only matters for the interleavings of a later theory. A pointer to
  an \<open>ENIDetails\<close> object is in one place at a time (the cache, the delete queue or a local
  variable), so the objects are held by value. \<open>None\<close> is a panic.

  \<open>json.Unmarshal\<close> of the pod annotation is the argument \<open>unmarshal\<close>: the list of details it
  leaves behind, \<open>None\<close> for a JSON null in the list; the fields that are not exported are not
  touched by it and have their zero value.
\<close>

section \<open>State\<close>

definition MaxAllocatableVlanIds :: nat where "MaxAllocatableVlanIds = 121"
definition MaxDeleteRetries :: int where "MaxDeleteRetries = 3"

text \<open>\<open>deletionTimeStamp\<close> is \<open>None\<close> for the zero time.\<close>

record eni_details =
  ID :: string
  MACAdd :: string
  IPV4Addr :: string
  IPV6Addr :: string
  VlanID :: int
  SubnetCIDR :: string
  SubnetV6CIDR :: string
  deletionTimeStamp :: "int option"
  deleteRetryCount :: int
  AssociationID :: string

type_synonym eni_map = "(string, eni_details list) gomap"

record trunk_eni =
  trunkENIId :: string
  usedVlanIds :: "bool list"
  uidToBranchENIMap :: eni_map
  deleteQueue :: "eni_details list"
  nodeIDTag :: "ec2_tag list"

record trunk_introspect =
  TrunkENIID :: string
  InstanceID :: string
  PodToBranchENI :: eni_map
  DeleteQueueCopy :: "eni_details list"

datatype trunk_error =
    TrunkEc2Error string
  | EmptyInterface
  | TrunkNotAttached string
  | DeviceIndexError instance_error
  | EniAlreadyExists
  | ErrCurrentlyAtMaxCapacity
  | NoFreeVlanId
  | CreatingInterface string
  | AssociatingBranch string


definition NewTrunkENI :: "ec2_instance \<Rightarrow> trunk_eni" where
  "NewTrunkENI i =
     \<lparr>trunkENIId = '''', usedVlanIds = (replicate MaxAllocatableVlanIds False)[0 := True],
      uidToBranchENIMap = [], deleteQueue = [],
      nodeIDTag = [(NetworkInterfaceNodeIDKey, instanceID i)]\<rparr>"

section \<open>VLAN ids\<close>

fun first_free :: "bool list \<Rightarrow> nat \<Rightarrow> nat option" where
  "first_free [] index = None"
| "first_free (used # us) index = (if \<not> used then Some index else first_free us (Suc index))"

definition assignVlanId :: "trunk_eni \<Rightarrow> trunk_eni \<times> int option" where
  "assignVlanId t =
     (case first_free (usedVlanIds t) 0 of
        None \<Rightarrow> (t, None)
      | Some index \<Rightarrow> (t\<lparr>usedVlanIds := (usedVlanIds t)[index := True]\<rparr>, Some (int index)))"

definition markVlanAssigned :: "int \<Rightarrow> trunk_eni \<Rightarrow> trunk_eni option" where
  "markVlanAssigned vlanId t =
     map_option (\<lambda>u. t\<lparr>usedVlanIds := u\<rparr>) (index_set (usedVlanIds t) vlanId True)"

definition freeVlanId :: "int \<Rightarrow> trunk_eni \<Rightarrow> trunk_eni option" where
  "freeVlanId vlanId t =
     (case index_get (usedVlanIds t) vlanId of
        None \<Rightarrow> None
      | Some isUsed \<Rightarrow>
          if \<not> isUsed then Some t
          else map_option (\<lambda>u. t\<lparr>usedVlanIds := u\<rparr>) (index_set (usedVlanIds t) vlanId False))"

fun getVlanIdFromTag :: "ec2_tag list \<Rightarrow> int option" where
  "getVlanIdFromTag [] = None"
| "getVlanIdFromTag ((k, v) # tags) =
     (if k = VLandIDTag then (case Atoi v of (n, None) \<Rightarrow> Some n | (_, Some e) \<Rightarrow> None)
      else getVlanIdFromTag tags)"

section \<open>The delete queue and the cache\<close>

definition pushENIToDeleteQueue :: "eni_details \<Rightarrow> trunk_eni \<Rightarrow> trunk_eni" where
  "pushENIToDeleteQueue eni t = t\<lparr>deleteQueue := deleteQueue t @ [eni]\<rparr>"

definition PushENIsToFrontOfDeleteQueue :: "string option \<Rightarrow> eni_details list \<Rightarrow> trunk_eni \<Rightarrow> trunk_eni" where
  "PushENIsToFrontOfDeleteQueue podUID eniList t =
     (let t1 = (case podUID of None \<Rightarrow> t
                | Some uid \<Rightarrow> t\<lparr>uidToBranchENIMap := mdel (uidToBranchENIMap t) uid\<rparr>)
      in t1\<lparr>deleteQueue := eniList @ deleteQueue t1\<rparr>)"

definition popENIFromDeleteQueue :: "trunk_eni \<Rightarrow> trunk_eni \<times> eni_details option" where
  "popENIFromDeleteQueue t =
     (case deleteQueue t of [] \<Rightarrow> (t, None) | eni # q \<Rightarrow> (t\<lparr>deleteQueue := q\<rparr>, Some eni))"

definition addBranchToCache :: "string \<Rightarrow> eni_details list \<Rightarrow> trunk_eni \<Rightarrow> trunk_eni" where
  "addBranchToCache uid branchENIs t =
     (if mhas (uidToBranchENIMap t) uid then t
      else t\<lparr>uidToBranchENIMap := mput (uidToBranchENIMap t) uid branchENIs\<rparr>)"

definition getBranchFromCache :: "string \<Rightarrow> trunk_eni \<Rightarrow> eni_details list option" where
  "getBranchFromCache uid t = mget (uidToBranchENIMap t) uid"

definition branch_limit :: "limits_table \<Rightarrow> ec2_instance \<Rightarrow> int" where
  "branch_limit Limits i = (case Limits (instanceType i) of None \<Rightarrow> 0 | Some l \<Rightarrow> BranchInterface l)"

definition canCreateMore :: "limits_table \<Rightarrow> ec2_instance \<Rightarrow> trunk_eni \<Rightarrow> bool" where
  "canCreateMore Limits i t =
     (let usedBranches = fold (\<lambda>(uid, branches) n. n + int (length branches)) (uidToBranchENIMap t) 0
      in usedBranches + int (length (deleteQueue t)) < branch_limit Limits i)"

text \<open>The loop that stamps the interfaces of a pod and appends them to the delete queue; the clock
  is read once for each.\<close>

fun stamp_and_push :: "ec2_api \<Rightarrow> eni_details list \<Rightarrow> trunk_eni \<Rightarrow> hist \<Rightarrow> trunk_eni \<times> hist" where
  "stamp_and_push api [] t h = (t, h)"
| "stamp_and_push api (eni # enis) t h =
     stamp_and_push api enis
       (t\<lparr>deleteQueue := deleteQueue t @ [eni\<lparr>deletionTimeStamp := Some (Now api h)\<rparr>]\<rparr>) (ReadClock # h)"

definition PushBranchENIsToCoolDownQueue :: "ec2_api \<Rightarrow> string \<Rightarrow> trunk_eni \<Rightarrow> hist \<Rightarrow> trunk_eni \<times> hist" where
  "PushBranchENIsToCoolDownQueue api uid t h =
     (case mget (uidToBranchENIMap t) uid of
        None \<Rightarrow> (t, h)
      | Some branchENIs \<Rightarrow>
         (case stamp_and_push api branchENIs t h of
            (t1, h1) \<Rightarrow> (t1\<lparr>uidToBranchENIMap := mdel (uidToBranchENIMap t1) uid\<rparr>, h1)))"

text \<open>\<open>Reconcile\<close>: the loop over the entries of the cache; the flag counts the leaked entries.\<close>

fun reconcile_loop ::
  "ec2_api \<Rightarrow> string list \<Rightarrow> eni_map \<Rightarrow> nat \<Rightarrow> trunk_eni \<Rightarrow> hist \<Rightarrow> trunk_eni \<times> hist \<times> nat" where
  "reconcile_loop api current [] leaked t h = (t, h, leaked)"
| "reconcile_loop api current ((uid, branchENIs) # rest) leaked t h =
     (if uid \<in> set current then reconcile_loop api current rest leaked t h
      else case stamp_and_push api branchENIs t h of
        (t1, h1) \<Rightarrow> reconcile_loop api current rest (leaked + 1)
          (t1\<lparr>uidToBranchENIMap := mdel (uidToBranchENIMap t1) uid\<rparr>) h1)"

definition TrunkReconcile :: "ec2_api \<Rightarrow> pod list \<Rightarrow> trunk_eni \<Rightarrow> hist \<Rightarrow> trunk_eni \<times> hist \<times> bool" where
  "TrunkReconcile api pods t h =
     (case reconcile_loop api (map PodUID pods) (uidToBranchENIMap t) 0 t h of
        (t1, h1, leakedENIs) \<Rightarrow> (t1, h1, leakedENIs > 0))"

section \<open>Deleting interfaces\<close>

definition NotFoundInterfaceID :: string where
  "NotFoundInterfaceID = ''InvalidNetworkInterfaceID.NotFound''"

text \<open>A failed disassociation is only logged: the interface is deleted anyway.\<close>

definition deleteENI :: "ec2_api \<Rightarrow> eni_details \<Rightarrow> trunk_eni \<Rightarrow> hist \<Rightarrow> (trunk_eni \<times> hist \<times> string option) option" where
  "deleteENI api eni t h =
     (let h1 = (if AssociationID eni \<noteq> '''' then DisassociateTrunkInterfaceCall (AssociationID eni) # h else h);
          h2 = DeleteNetworkInterfaceCall (ID eni) # h1
      in case DeleteNetworkInterface api h1 (ID eni) of
           Some err \<Rightarrow>
             if \<not> Contains err NotFoundInterfaceID then Some (t, h2, Some err)
             else if VlanID eni \<noteq> 0 then map_option (\<lambda>t'. (t', h2, None)) (freeVlanId (VlanID eni) t)
             else Some (t, h2, None)
         | None \<Rightarrow>
             if VlanID eni \<noteq> 0 then map_option (\<lambda>t'. (t', h2, None)) (freeVlanId (VlanID eni) t)
             else Some (t, h2, None))"

definition cooled_down :: "ec2_api \<Rightarrow> int \<Rightarrow> eni_details \<Rightarrow> hist \<Rightarrow> bool" where
  "cooled_down api period eni h =
     (case deletionTimeStamp eni of None \<Rightarrow> True | Some ts \<Rightarrow> Now api h > ts + period)"

text \<open>The queue weight that goes down with every turn of \<open>DeleteCooledDownENIs\<close>.\<close>

definition retry_weight :: "eni_details \<Rightarrow> nat" where
  "retry_weight eni = Suc (nat (MaxDeleteRetries - deleteRetryCount eni))"

definition queue_weight :: "eni_details list \<Rightarrow> nat" where
  "queue_weight q = sum_list (map retry_weight q)"

lemma freeVlanId_queue: "freeVlanId v t = Some t' \<Longrightarrow> deleteQueue t' = deleteQueue t"
  by (auto simp: freeVlanId_def split: option.splits if_splits)

lemma deleteENI_queue: "deleteENI api eni t h = Some (t', h', e) \<Longrightarrow> deleteQueue t' = deleteQueue t"
  by (auto simp: deleteENI_def Let_def freeVlanId_queue split: option.splits if_splits)

function DeleteCooledDownENIs :: "ec2_api \<Rightarrow> int \<Rightarrow> trunk_eni \<Rightarrow> hist \<Rightarrow> (trunk_eni \<times> hist) option" where
  "DeleteCooledDownENIs api period t h =
     (case popENIFromDeleteQueue t of
        (t1, None) \<Rightarrow> Some (t1, h)
      | (t1, Some eni) \<Rightarrow>
          (let h1 = (if deletionTimeStamp eni = None then h else ReadClock # h) in
           if cooled_down api period eni h then
             (case deleteENI api eni t1 h1 of
                None \<Rightarrow> None
              | Some (t2, h2, None) \<Rightarrow> DeleteCooledDownENIs api period t2 h2
              | Some (t2, h2, Some err) \<Rightarrow>
                  (let eni' = eni\<lparr>deleteRetryCount := deleteRetryCount eni + 1\<rparr> in
                   if deleteRetryCount eni' \<ge> MaxDeleteRetries then DeleteCooledDownENIs api period t2 h2
                   else DeleteCooledDownENIs api period (PushENIsToFrontOfDeleteQueue None [eni'] t2) h2))
           else Some (PushENIsToFrontOfDeleteQueue None [eni] t1, h1)))"
  by pat_completeness auto
termination
  by (relation "measure (\<lambda>(api, period, t, h). queue_weight (deleteQueue t))")
    (auto simp: popENIFromDeleteQueue_def queue_weight_def retry_weight_def PushENIsToFrontOfDeleteQueue_def
      dest!: deleteENI_queue split: list.splits)

declare DeleteCooledDownENIs.simps [simp del]

fun delete_all_loop :: "ec2_api \<Rightarrow> eni_details list \<Rightarrow> trunk_eni \<Rightarrow> hist \<Rightarrow> (trunk_eni \<times> hist) option" where
  "delete_all_loop api [] t h = Some (t, h)"
| "delete_all_loop api (eni # enis) t h =
     (case deleteENI api eni t h of
        None \<Rightarrow> None
      | Some (t1, h1, _) \<Rightarrow> delete_all_loop api enis t1 h1)"

definition DeleteAllBranchENIs :: "ec2_api \<Rightarrow> trunk_eni \<Rightarrow> hist \<Rightarrow> (trunk_eni \<times> hist) option" where
  "DeleteAllBranchENIs api t h =
     do {
       (t1, h1) \<leftarrow> delete_all_loop api (mflat (uidToBranchENIMap t)) t h;
       delete_all_loop api (deleteQueue t1) t1 h1
     }"

section \<open>Creating interfaces\<close>

definition getConnectionTrackingSpec :: "ec2_instance \<Rightarrow> conn_tracking option" where
  "getConnectionTrackingSpec i =
     (let c = GetConnectionTrackingSpec i in
      if TcpEstablishedTimeout c \<noteq> None \<or> UdpStreamTimeout c \<noteq> None \<or> UdpTimeout c \<noteq> None
      then Some c else None)"

definition branch_tags :: "trunk_eni \<Rightarrow> int \<Rightarrow> ec2_tag list" where
  "branch_tags t vlan = [(VLandIDTag, Itoa vlan), (TrunkENIIDTag, trunkENIId t)] @ nodeIDTag t"

definition new_eni :: "ec2_instance \<Rightarrow> network_interface \<Rightarrow> int \<Rightarrow> eni_details" where
  "new_eni i nw vlan =
     \<lparr>ID = NetworkInterfaceId nw, MACAdd = MacAddress nw,
      IPV4Addr = (case NIPrivateIpAddress nw of None \<Rightarrow> '''' | Some a \<Rightarrow> a),
      IPV6Addr = (case NIIpv6Address nw of None \<Rightarrow> '''' | Some a \<Rightarrow> a),
      VlanID = vlan, SubnetCIDR = currentSubnetCIDRBlock i, SubnetV6CIDR = currentSubnetV6CIDRBlock i,
      deletionTimeStamp = None, deleteRetryCount = 0, AssociationID = ''''\<rparr>"

text \<open>The creation loop: the interfaces created so far, and the error that ends it.\<close>

fun create_loop ::
  "ec2_api \<Rightarrow> ec2_instance \<Rightarrow> string list \<Rightarrow> nat \<Rightarrow> trunk_eni \<Rightarrow> hist \<Rightarrow> eni_details list \<Rightarrow>
   (trunk_eni \<times> hist \<times> eni_details list \<times> trunk_error option) option" where
  "create_loop api i sgs 0 t h newENIs = Some (t, h, newENIs, None)"
| "create_loop api i sgs (Suc n) t h newENIs =
     (case assignVlanId t of
        (t1, None) \<Rightarrow> Some (t1, h, newENIs, Some NoFreeVlanId)
      | (t1, Some vlan) \<Rightarrow>
         (let h1 = CreateNetworkInterfaceCall (currentSubnetID i) sgs (branch_tags t1 vlan)
                     (getConnectionTrackingSpec i) # h in
          case CreateNetworkInterface api h (currentSubnetID i) sgs (branch_tags t1 vlan)
                 (getConnectionTrackingSpec i) of
            Inl e \<Rightarrow> map_option (\<lambda>t2. (t2, h1, newENIs, Some (CreatingInterface e))) (freeVlanId vlan t1)
          | Inr nw \<Rightarrow>
             (let eni = new_eni i nw vlan;
                  h2 = AssociateBranchToTrunkCall (trunkENIId t1) (ID eni) vlan # h1 in
              case AssociateBranchToTrunk api h1 (trunkENIId t1) (ID eni) vlan of
                Inl e \<Rightarrow> Some (t1, h2, newENIs @ [eni], Some (AssociatingBranch e))
              | Inr assoc \<Rightarrow>
                  create_loop api i sgs n t1 h2 (newENIs @ [eni\<lparr>AssociationID := assoc\<rparr>]))))"

definition CreateAndAssociateBranchENIs ::
  "limits_table \<Rightarrow> ec2_api \<Rightarrow> ec2_instance \<Rightarrow> string \<Rightarrow> string list \<Rightarrow> int \<Rightarrow> trunk_eni \<Rightarrow> hist \<Rightarrow>
   (trunk_eni \<times> hist \<times> (trunk_error + eni_details list)) option" where
  "CreateAndAssociateBranchENIs Limits api i podUID securityGroups eniCount t h =
     (if getBranchFromCache podUID t \<noteq> None then Some (t, h, Inl EniAlreadyExists)
      else if \<not> canCreateMore Limits i t then Some (t, h, Inl ErrCurrentlyAtMaxCapacity)
      else
        (let sgs = (if securityGroups = [] then currentInstanceSecurityGroups i else securityGroups) in
         case create_loop api i sgs (nat eniCount) t h [] of
           None \<Rightarrow> None
         | Some (t1, h1, newENIs, Some err) \<Rightarrow>
             Some (PushENIsToFrontOfDeleteQueue None newENIs t1, h1, Inl err)
         | Some (t1, h1, newENIs, None) \<Rightarrow> Some (addBranchToCache podUID newENIs t1, h1, Inr newENIs)))"

section \<open>Initialising the trunk\<close>

definition exported :: "eni_details \<Rightarrow> eni_details" where
  "exported eni = eni\<lparr>deletionTimeStamp := None, deleteRetryCount := 0\<rparr>"

definition getBranchInterfacesUsedByPod ::
  "(string \<Rightarrow> eni_details option list) \<Rightarrow> pod \<Rightarrow> eni_details option list" where
  "getBranchInterfacesUsedByPod unmarshal p =
     (case mget (PodAnnotations p) ResourceNamePodENI of
        None \<Rightarrow> []
      | Some annotation \<Rightarrow> map (map_option exported) (unmarshal annotation))"

definition zero_eni :: eni_details where
  "zero_eni = \<lparr>ID = '''', MACAdd = '''', IPV4Addr = '''', IPV6Addr = '''', VlanID = 0, SubnetCIDR = '''',
     SubnetV6CIDR = '''', deletionTimeStamp = None, deleteRetryCount = 0, AssociationID = ''''\<rparr>"

text \<open>The loop that finds the trunk among the interfaces of the instance: the last attached one.\<close>

fun find_trunk :: "ec2_api \<Rightarrow> instance_interface list \<Rightarrow> trunk_eni \<Rightarrow> hist \<Rightarrow> trunk_eni \<times> hist \<times> trunk_error option" where
  "find_trunk api [] t h = (t, h, None)"
| "find_trunk api (nw # nws) t h =
     (case InterfaceType nw of
        None \<Rightarrow> (t, h, Some EmptyInterface)
      | Some ty \<Rightarrow>
          if ty = ''trunk'' then
            let h1 = WaitForStatusCall (INetworkInterfaceId nw) ''attached'' # h in
            (case WaitForNetworkInterfaceStatusChange api h (INetworkInterfaceId nw) ''attached'' of
               None \<Rightarrow> find_trunk api nws (t\<lparr>trunkENIId := INetworkInterfaceId nw\<rparr>) h1
             | Some e \<Rightarrow> (t, h1, Some (TrunkNotAttached (INetworkInterfaceId nw))))
          else find_trunk api nws t h)"

text \<open>The interfaces of one pod: those EC2 knows are kept and their VLAN ids marked. The second
  component is the set of associated interfaces that no pod has claimed yet.\<close>

fun adopt_enis ::
  "eni_details option list \<Rightarrow> trunk_eni \<Rightarrow> (string, network_interface) gomap \<Rightarrow> eni_details list \<Rightarrow>
   (trunk_eni \<times> (string, network_interface) gomap \<times> eni_details list) option" where
  "adopt_enis [] t assoc branchENIs = Some (t, assoc, branchENIs)"
| "adopt_enis (None # enis) t assoc branchENIs = None"
| "adopt_enis (Some eni # enis) t assoc branchENIs =
     (if \<not> mhas assoc (ID eni) then adopt_enis enis t assoc branchENIs
      else case markVlanAssigned (VlanID eni) t of
        None \<Rightarrow> None
      | Some t1 \<Rightarrow> adopt_enis enis t1 (mdel assoc (ID eni)) (branchENIs @ [eni]))"

fun adopt_pods ::
  "(string \<Rightarrow> eni_details option list) \<Rightarrow> pod list \<Rightarrow> trunk_eni \<Rightarrow> (string, network_interface) gomap \<Rightarrow>
   (trunk_eni \<times> (string, network_interface) gomap) option" where
  "adopt_pods unmarshal [] t assoc = Some (t, assoc)"
| "adopt_pods unmarshal (p # ps) t assoc =
     (let eniListFromPod = getBranchInterfacesUsedByPod unmarshal p in
      if eniListFromPod = [] then adopt_pods unmarshal ps t assoc
      else case adopt_enis eniListFromPod t assoc [] of
        None \<Rightarrow> None
      | Some (t1, assoc1, branchENIs) \<Rightarrow>
          adopt_pods unmarshal ps
            (t1\<lparr>uidToBranchENIMap := mput (uidToBranchENIMap t1) (PodUID p) branchENIs\<rparr>) assoc1)"

fun queue_orphans ::
  "ec2_api \<Rightarrow> (string, network_interface) gomap \<Rightarrow> trunk_eni \<Rightarrow> hist \<Rightarrow> (trunk_eni \<times> hist) option" where
  "queue_orphans api [] t h = Some (t, h)"
| "queue_orphans api ((eniID, nw) # rest) t h =
     (case getVlanIdFromTag (TagSet nw) of
        None \<Rightarrow> queue_orphans api rest t h
      | Some vlan \<Rightarrow>
         (case markVlanAssigned vlan t of
            None \<Rightarrow> None
          | Some t1 \<Rightarrow>
              queue_orphans api rest
                (pushENIToDeleteQueue (zero_eni\<lparr>ID := NetworkInterfaceId nw, VlanID := vlan,
                   deletionTimeStamp := Some (Now api h)\<rparr>) t1) (ReadClock # h)))"

definition interface_set :: "network_interface list \<Rightarrow> (string, network_interface) gomap" where
  "interface_set nws = fold (\<lambda>nw m. mput m (NetworkInterfaceId nw) nw) nws []"

text \<open>\<open>slices.Sort(expectedSecurityGroups)\<close> sorts the slice of the instance in place; the current
  security groups are the same slice when they come from the custom networking configuration.\<close>

definition sort_custom_groups :: "ec2_instance \<Rightarrow> ec2_instance" where
  "sort_custom_groups i =
     (let (expectedSubnetID, expectedSecurityGroups) = GetCustomNetworkingSpec i in
      if expectedSecurityGroups \<noteq> [] \<or> expectedSubnetID \<noteq> '''' then
        i\<lparr>newCustomNetworkingSecurityGroups := sort expectedSecurityGroups,
          currentInstanceSecurityGroups :=
            (if currentInstanceSecurityGroups i = expectedSecurityGroups then sort expectedSecurityGroups
             else currentInstanceSecurityGroups i)\<rparr>
      else i)"

definition InitTrunk ::
  "(string \<Rightarrow> eni_details option list) \<Rightarrow> ec2_api \<Rightarrow> pod list \<Rightarrow> ec2_instance \<Rightarrow> trunk_eni \<Rightarrow> hist \<Rightarrow>
   (ec2_instance \<times> trunk_eni \<times> hist \<times> trunk_error option) option" where
  "InitTrunk unmarshal api podList i t h =
     (let h1 = GetInstanceNetworkInterfaceCall (instanceID i) # h in
      case GetInstanceNetworkInterface api h (instanceID i) of
        Inl e \<Rightarrow> Some (i, t, h1, Some (TrunkEc2Error e))
      | Inr nwInterfaces \<Rightarrow>
         (case find_trunk api nwInterfaces t h1 of
            (t1, h2, Some e) \<Rightarrow> Some (i, t1, h2, Some e)
          | (t1, h2, None) \<Rightarrow>
              if trunkENIId t1 = '''' then
                (case GetHighestUnusedDeviceIndex i of
                   (i1, Inl e) \<Rightarrow> Some (i1, t1, h2, Some (DeviceIndexError e))
                 | (i1, Inr freeIndex) \<Rightarrow>
                    (let h3 = CreateAndAttachCall (instanceID i1) (currentSubnetID i1)
                                (currentInstanceSecurityGroups i1) (nodeIDTag t1) freeIndex # h2 in
                     case CreateAndAttachNetworkInterface api h2 (instanceID i1) (currentSubnetID i1)
                            (currentInstanceSecurityGroups i1) (nodeIDTag t1) freeIndex of
                       Inl e \<Rightarrow> Some (i1, t1, h3, Some (TrunkEc2Error e))
                     | Inr nw \<Rightarrow> Some (i1, t1\<lparr>trunkENIId := NetworkInterfaceId nw\<rparr>, h3, None)))
              else
                (let i1 = sort_custom_groups i;
                     h3 = GetBranchNetworkInterfaceCall (trunkENIId t1) (currentSubnetID i1) # h2 in
                 case GetBranchNetworkInterface api h2 (trunkENIId t1) (currentSubnetID i1) of
                   Inl e \<Rightarrow> Some (i1, t1, h3, Some (TrunkEc2Error e))
                 | Inr branchInterfaces \<Rightarrow>
                     do {
                       (t2, assoc) \<leftarrow> adopt_pods unmarshal podList t1 (interface_set branchInterfaces);
                       (t3, h4) \<leftarrow> queue_orphans api assoc t2 h3;
                       Some (i1, t3, h4, None)
                     })))"

definition TrunkIntrospect :: "ec2_instance \<Rightarrow> trunk_eni \<Rightarrow> trunk_introspect" where
  "TrunkIntrospect i t =
     \<lparr>TrunkENIID = trunkENIId t, InstanceID = instanceID i,
      PodToBranchENI = fold (\<lambda>(uid, allENI) m. mput m uid (fold (\<lambda>eni xs. xs @ [eni]) allENI []))
        (uidToBranchENIMap t) [],
      DeleteQueueCopy = fold (\<lambda>eni xs. xs @ [eni]) (deleteQueue t) []\<rparr>"

end
