(* ===== verification/Trunk_Inv.thy ===== *)
theory Trunk_Inv
  imports Trunk
begin

text \<open>
  The trunk's invariant: the branch interfaces in the cache and in the delete queue have
  different VLAN ids, all in range and all marked used. The VLAN table is presented as an
  allocator interface; the operations of the trunk keep the invariant through its laws.
\<close>

section \<open>An allocator of identifiers\<close>

text \<open>\<open>owns s vs\<close>: in state \<open>s\<close> the identifiers \<open>vs\<close> are handed out.\<close>

locale id_allocator =
  fixes alloc :: "'s \<Rightarrow> 's \<times> int option"
    and release :: "int \<Rightarrow> 's \<Rightarrow> 's option"
    and owns :: "'s \<Rightarrow> int list \<Rightarrow> bool"
  assumes alloc_fresh: "owns s vs \<Longrightarrow> alloc s = (s', Some v) \<Longrightarrow> owns s' (v # vs)"
    and alloc_none: "alloc s = (s', None) \<Longrightarrow> s' = s"
    and release_owned: "owns s (v # vs) \<Longrightarrow> \<exists>s'. release v s = Some s' \<and> owns s' vs"
    and owns_distinct: "owns s vs \<Longrightarrow> distinct vs"
    and owns_sub: "owns s vs \<Longrightarrow> mset ws \<subseteq># mset vs \<Longrightarrow> owns s ws"
begin

lemma owns_perm: "owns s vs \<Longrightarrow> mset ws = mset vs \<Longrightarrow> owns s ws"
  by (erule owns_sub) (simp add: subset_mset.order_refl)

lemma alloc_not_owned: "owns s vs \<Longrightarrow> alloc s = (s', Some v) \<Longrightarrow> v \<notin> set vs"
  using owns_distinct [OF alloc_fresh] by fastforce

lemma alloc_release:
  "owns s vs \<Longrightarrow> alloc s = (s', Some v) \<Longrightarrow> \<exists>s''. release v s' = Some s'' \<and> owns s'' vs"
  using alloc_fresh release_owned by blast

lemma release_member:
  assumes "owns s vs" "v \<in> set vs"
  shows "\<exists>s'. release v s = Some s' \<and> owns s' (remove1 v vs)"
proof -
  have "owns s (v # remove1 v vs)" using assms by (auto intro: owns_perm)
  then show ?thesis by (rule release_owned)
qed

end

definition vlan_owns :: "trunk_eni \<Rightarrow> int list \<Rightarrow> bool" where
  "vlan_owns t vs \<longleftrightarrow> length (usedVlanIds t) = MaxAllocatableVlanIds \<and> usedVlanIds t ! 0 \<and> distinct vs \<and>
     list_all (\<lambda>v. 0 < v \<and> v < int MaxAllocatableVlanIds \<and> usedVlanIds t ! nat v) vs"

lemma first_free_Some:
  "first_free us k = Some i \<Longrightarrow>
   k \<le> i \<and> i < k + length us \<and> \<not> us ! (i - k) \<and> (\<forall>j < i - k. us ! j)"
proof (induction us k rule: first_free.induct)
  case (2 used us k)
  show ?case
  proof (cases used)
    case True
    then have ih: "Suc k \<le> i \<and> i < Suc k + length us \<and> \<not> us ! (i - Suc k) \<and> (\<forall>j < i - Suc k. us ! j)"
      using 2 by simp
    then obtain d where d: "i = Suc k + d" using le_Suc_ex by blast
    show ?thesis using ih True by (auto simp: d less_Suc_eq_0_disj)
  next
    case False
    then show ?thesis using 2 by auto
  qed
qed simp

lemma first_free_None: "first_free us k = None \<longleftrightarrow> list_all id us"
  by (induction us k rule: first_free.induct) auto

lemma assignVlanId_Some:
  assumes "assignVlanId t = (t', Some v)"
  shows "\<exists>n < length (usedVlanIds t). v = int n \<and> \<not> usedVlanIds t ! n \<and>
    t' = t\<lparr>usedVlanIds := (usedVlanIds t)[n := True]\<rparr>"
  using assms first_free_Some [of "usedVlanIds t" 0] by (auto simp: assignVlanId_def split: option.splits)

lemma assignVlanId_None: "assignVlanId t = (t', None) \<Longrightarrow> t' = t \<and> list_all id (usedVlanIds t)"
  by (auto simp: assignVlanId_def first_free_None split: option.splits)

interpretation vlans: id_allocator assignVlanId freeVlanId vlan_owns
proof (unfold_locales, goal_cases)
  case (1 t vs t' v)
  then obtain n where n: "n < length (usedVlanIds t)" "v = int n" "\<not> usedVlanIds t ! n"
      "t' = t\<lparr>usedVlanIds := (usedVlanIds t)[n := True]\<rparr>"
    using assignVlanId_Some by blast
  have "n \<noteq> 0" using n(3) 1(1) by (auto simp: vlan_owns_def intro: gr0I)
  moreover have "v \<notin> set vs" using n 1(1) by (auto simp: vlan_owns_def list_all_iff)
  ultimately show ?case using 1(1) n by (auto simp: vlan_owns_def list_all_iff nth_list_update)
next
  case (2 t t')
  then show ?case using assignVlanId_None by blast
next
  case (3 t v vs)
  have v: "0 < v" "v < int (length (usedVlanIds t))" "usedVlanIds t ! nat v"
    using 3 by (auto simp: vlan_owns_def)
  then have "freeVlanId v t = Some (t\<lparr>usedVlanIds := (usedVlanIds t)[nat v := False]\<rparr>)"
    by (simp add: freeVlanId_def index_get_def index_set_def)
  moreover have "vlan_owns (t\<lparr>usedVlanIds := (usedVlanIds t)[nat v := False]\<rparr>) vs"
  proof -
    have "nat v \<noteq> nat w" if "w \<in> set vs" for w
    proof -
      have "0 < w" "w \<noteq> v" using 3 that by (auto simp: vlan_owns_def list_all_iff)
      then show ?thesis using v(1) by simp
    qed
    then show ?thesis using 3 v by (auto simp: vlan_owns_def list_all_iff nth_list_update)
  qed
  ultimately show ?case by blast
next
  case (4 t vs)
  then show ?case by (simp add: vlan_owns_def)
next
  case (5 t vs ws)
  then have "set ws \<subseteq> set vs" by (metis set_mset_mono set_mset_mset)
  then show ?case using 5 distinct_submset [OF 5(2)] by (auto simp: vlan_owns_def list_all_iff)
qed

section \<open>The invariant\<close>

definition live_enis :: "trunk_eni \<Rightarrow> eni_details list" where
  "live_enis t = mflat (uidToBranchENIMap t) @ deleteQueue t"

definition live_vlans :: "trunk_eni \<Rightarrow> int list" where
  "live_vlans t = map VlanID (live_enis t)"

definition trunk_inv :: "trunk_eni \<Rightarrow> bool" where
  "trunk_inv t \<longleftrightarrow> wf_map (uidToBranchENIMap t) \<and> vlan_owns t (live_vlans t)"

lemma vlan_owns_cong: "usedVlanIds t' = usedVlanIds t \<Longrightarrow> vlan_owns t' vs = vlan_owns t vs"
  by (simp add: vlan_owns_def)

lemma trunk_inv_move:
  assumes "trunk_inv t" "usedVlanIds t' = usedVlanIds t" "wf_map (uidToBranchENIMap t')"
    and "mset (live_vlans t') \<subseteq># mset (live_vlans t)"
  shows "trunk_inv t'"
proof -
  have "vlan_owns t (live_vlans t')"
    using assms(1,4) by (auto simp: trunk_inv_def intro: vlans.owns_sub)
  then show ?thesis using assms(2,3) vlan_owns_cong [of t' t] by (simp add: trunk_inv_def)
qed

lemma mset_live_enis:
  "mset (live_enis t) = mset (mflat (uidToBranchENIMap t)) + mset (deleteQueue t)"
  by (simp add: live_enis_def)

lemma mset_live_vlans: "mset (live_vlans t) = image_mset VlanID (mset (live_enis t))"
  by (simp add: live_vlans_def)

lemma live_vlans_cong:
  "uidToBranchENIMap t' = uidToBranchENIMap t \<Longrightarrow> deleteQueue t' = deleteQueue t \<Longrightarrow> live_vlans t' = live_vlans t"
  by (simp add: live_vlans_def live_enis_def)

lemma NewTrunkENI_inv: "trunk_inv (NewTrunkENI i)"
  by (simp add: trunk_inv_def NewTrunkENI_def vlan_owns_def live_vlans_def live_enis_def
      MaxAllocatableVlanIds_def)

section \<open>Moving interfaces to the delete queue\<close>

text \<open>The same interface, stamped for deletion.\<close>

definition same_eni :: "eni_details \<Rightarrow> eni_details \<Rightarrow> bool" where
  "same_eni a b \<longleftrightarrow> a\<lparr>deletionTimeStamp := None\<rparr> = b\<lparr>deletionTimeStamp := None\<rparr>"

lemma same_eni_fields: "same_eni a b \<Longrightarrow> ID a = ID b \<and> VlanID a = VlanID b \<and> AssociationID a = AssociationID b"
  by (cases a; cases b) (simp add: same_eni_def)

lemma same_eni_stamp: "same_eni (a\<lparr>deletionTimeStamp := x\<rparr>) a"
  by (simp add: same_eni_def)

lemma stamp_and_push_spec:
  assumes "stamp_and_push api enis t h = (t', h')"
  shows "\<exists>stamped. t' = t\<lparr>deleteQueue := deleteQueue t @ stamped\<rparr> \<and> list_all2 same_eni stamped enis \<and>
    (\<forall>e \<in> set stamped. deletionTimeStamp e \<noteq> None)"
  using assms
proof (induction api enis t h rule: stamp_and_push.induct)
  case (2 api eni enis t h)
  define e where "e = eni\<lparr>deletionTimeStamp := Some (Now api h)\<rparr>"
  obtain st where st: "t' = (t\<lparr>deleteQueue := deleteQueue t @ [e]\<rparr>)
        \<lparr>deleteQueue := deleteQueue (t\<lparr>deleteQueue := deleteQueue t @ [e]\<rparr>) @ st\<rparr>"
      "list_all2 same_eni st enis" "\<forall>e \<in> set st. deletionTimeStamp e \<noteq> None"
    using 2 unfolding e_def by auto
  then show ?case
    by (intro exI [of _ "e # st"]) (simp add: e_def same_eni_stamp)
qed simp

lemma same_eni_vlans: "list_all2 same_eni as bs \<Longrightarrow> map VlanID as = map VlanID bs"
  by (induction rule: list_all2_induct) (simp_all add: same_eni_fields)

lemma same_eni_ids: "list_all2 same_eni as bs \<Longrightarrow> map ID as = map ID bs"
  by (induction rule: list_all2_induct) (simp_all add: same_eni_fields)

lemma move_entry_vlans:
  assumes "wf_map (uidToBranchENIMap t)" "mget (uidToBranchENIMap t) uid = Some enis" "list_all2 same_eni st enis"
    and "t' = t\<lparr>deleteQueue := deleteQueue t @ st, uidToBranchENIMap := mdel (uidToBranchENIMap t) uid\<rparr>"
  shows "mset (live_vlans t') = mset (live_vlans t)"
proof -
  have "mset (mflat (uidToBranchENIMap t)) = mset enis + mset (mflat (mdel (uidToBranchENIMap t) uid))"
    using mset_mflat_split [OF assms(1), of uid] assms(2) by (simp add: mgetd_def)
  moreover have "image_mset VlanID (mset st) = image_mset VlanID (mset enis)"
    using arg_cong [OF same_eni_vlans [OF assms(3)], of mset] by simp
  ultimately show ?thesis by (simp add: mset_live_vlans mset_live_enis assms(4) union_ac)
qed

lemma PushBranch_cases:
  assumes "PushBranchENIsToCoolDownQueue api uid t h = (t', h')"
  obtains (missing) "mget (uidToBranchENIMap t) uid = None" "t' = t" "h' = h"
  | (moved) enis st where "mget (uidToBranchENIMap t) uid = Some enis" "list_all2 same_eni st enis"
      "\<forall>e \<in> set st. deletionTimeStamp e \<noteq> None"
      "t' = t\<lparr>deleteQueue := deleteQueue t @ st, uidToBranchENIMap := mdel (uidToBranchENIMap t) uid\<rparr>"
proof (cases "mget (uidToBranchENIMap t) uid")
  case None
  have "t' = t" "h' = h" using assms by (simp_all add: PushBranchENIsToCoolDownQueue_def None)
  then show ?thesis by (rule missing [OF None])
next
  case (Some enis)
  obtain t1 h1 where s: "stamp_and_push api enis t h = (t1, h1)" by (metis surj_pair)
  then obtain st where st: "t1 = t\<lparr>deleteQueue := deleteQueue t @ st\<rparr>" "list_all2 same_eni st enis"
      "\<forall>e \<in> set st. deletionTimeStamp e \<noteq> None"
    using stamp_and_push_spec by blast
  have "t' = t\<lparr>deleteQueue := deleteQueue t @ st, uidToBranchENIMap := mdel (uidToBranchENIMap t) uid\<rparr>"
    using assms s unfolding PushBranchENIsToCoolDownQueue_def Some by (simp add: st(1))
  then show ?thesis by (rule moved [OF Some st(2,3)])
qed

lemma PushBranch_inv:
  assumes "trunk_inv t" "PushBranchENIsToCoolDownQueue api uid t h = (t', h')"
  shows "trunk_inv t'"
  using assms(2)
proof (cases rule: PushBranch_cases)
  case missing
  then show ?thesis using assms(1) by simp
next
  case (moved enis st)
  have wf: "wf_map (uidToBranchENIMap t)" using assms(1) by (simp add: trunk_inv_def)
  show ?thesis
    using move_entry_vlans [OF wf moved(1,2,4)] wf moved(4)
    by (intro trunk_inv_move [OF assms(1)]) simp_all
qed

section \<open>Reconciling with the list of pods\<close>

lemma mdel_filter: "mdel m k = filter (\<lambda>(j, v). j \<noteq> k) m"
  by (induction m) (auto simp: mdel_Nil mdel_Cons)

lemma fold_mdel_filter: "fold (\<lambda>k m. mdel m k) ks m = filter (\<lambda>(j, v). j \<notin> set ks) m"
proof (induction ks arbitrary: m)
  case (Cons k ks)
  then show ?case
    by (auto simp: mdel_filter case_prod_unfold intro!: filter_cong)
qed simp

lemma reconcile_loop_spec:
  assumes "reconcile_loop api current rest leaked t h = (t', h', leaked')"
    and "distinct (mkeys rest)" "\<And>u e. (u, e) \<in> set rest \<Longrightarrow> mget (uidToBranchENIMap t) u = Some e"
    and "wf_map (uidToBranchENIMap t)"
  defines "gone \<equiv> filter (\<lambda>(u, e). u \<notin> set current) rest"
  shows "\<exists>st. t' = t\<lparr>deleteQueue := deleteQueue t @ st,
      uidToBranchENIMap := fold (\<lambda>u m. mdel m u) (mkeys gone) (uidToBranchENIMap t)\<rparr> \<and>
    list_all2 same_eni st (mflat gone) \<and> (\<forall>e \<in> set st. deletionTimeStamp e \<noteq> None) \<and>
    leaked' = leaked + length gone \<and> mset (live_vlans t') = mset (live_vlans t)"
  using assms(1-4) unfolding gone_def
proof (induction rest arbitrary: leaked t h)
  case Nil
  then show ?case by (intro exI [of _ "[]"]) (simp add: mkeys_def)
next
  case (Cons entry rest)
  obtain uid enis where e: "entry = (uid, enis)" by (cases entry)
  note pr = Cons.prems [unfolded e]
  show ?case
  proof (cases "uid \<in> set current")
    case True
    then show ?thesis using Cons.IH [of leaked t h] pr by (auto simp: e)
  next
    case False
    obtain t1 h1 where s: "stamp_and_push api enis t h = (t1, h1)" by (metis surj_pair)
    then obtain st where st: "t1 = t\<lparr>deleteQueue := deleteQueue t @ st\<rparr>" "list_all2 same_eni st enis"
        "\<forall>e \<in> set st. deletionTimeStamp e \<noteq> None"
      using stamp_and_push_spec by blast
    define t2 where "t2 = t\<lparr>deleteQueue := deleteQueue t @ st,
      uidToBranchENIMap := mdel (uidToBranchENIMap t) uid\<rparr>"
    have t2: "t1\<lparr>uidToBranchENIMap := mdel (uidToBranchENIMap t1) uid\<rparr> = t2"
      by (simp add: t2_def st(1))
    have call: "reconcile_loop api current rest (leaked + 1) t2 h1 = (t', h', leaked')"
      using pr(1) False s t2 by simp
    have dk: "distinct (mkeys rest)" and nu: "uid \<notin> set (mkeys rest)" using pr(2) by simp_all
    have mg: "\<And>u e. (u, e) \<in> set rest \<Longrightarrow> mget (uidToBranchENIMap t2) u = Some e"
      using pr(3) nu by (force simp: t2_def mkeys_def)
    have wf: "wf_map (uidToBranchENIMap t2)" using pr(4) by (simp add: t2_def)
    note ih = Cons.IH [OF call dk mg wf]
    obtain st2 where st2: "t' = t2\<lparr>deleteQueue := deleteQueue t2 @ st2,
        uidToBranchENIMap := fold (\<lambda>u m. mdel m u) (mkeys (filter (\<lambda>(u, e). u \<notin> set current) rest))
          (uidToBranchENIMap t2)\<rparr>"
      "list_all2 same_eni st2 (mflat (filter (\<lambda>(u, e). u \<notin> set current) rest))"
      "\<forall>e \<in> set st2. deletionTimeStamp e \<noteq> None"
      "leaked' = leaked + 1 + length (filter (\<lambda>(u, e). u \<notin> set current) rest)"
      "mset (live_vlans t') = mset (live_vlans t2)"
      using ih by blast
    have "mset (live_vlans t2) = mset (live_vlans t)"
      using move_entry_vlans [OF pr(4) _ st(2) t2_def] pr(3) by simp
    then show ?thesis
      using st2 st False by (intro exI [of _ "st @ st2"]) (auto simp: e t2_def intro: list_all2_appendI)
  qed
qed

lemma TrunkReconcile_spec:
  assumes "trunk_inv t" "TrunkReconcile api pods t h = (t', h', leaked)"
  defines "gone \<equiv> filter (\<lambda>(u, e). u \<notin> PodUID ` set pods) (uidToBranchENIMap t)"
  shows "uidToBranchENIMap t' = filter (\<lambda>(u, e). u \<in> PodUID ` set pods) (uidToBranchENIMap t)"
    and "\<exists>st. deleteQueue t' = deleteQueue t @ st \<and> list_all2 same_eni st (mflat gone) \<and>
      (\<forall>e \<in> set st. deletionTimeStamp e \<noteq> None)"
    and "leaked \<longleftrightarrow> gone \<noteq> []" and "trunk_inv t'"
proof -
  have wf: "wf_map (uidToBranchENIMap t)" using assms(1) by (simp add: trunk_inv_def)
  obtain n where r: "reconcile_loop api (map PodUID pods) (uidToBranchENIMap t) 0 t h = (t', h', n)"
      "leaked \<longleftrightarrow> n > 0"
    using assms(2) by (auto simp: TrunkReconcile_def split: prod.splits)
  obtain st where st: "t' = t\<lparr>deleteQueue := deleteQueue t @ st,
        uidToBranchENIMap := fold (\<lambda>u m. mdel m u) (mkeys gone) (uidToBranchENIMap t)\<rparr>"
      "list_all2 same_eni st (mflat gone)" "\<forall>e \<in> set st. deletionTimeStamp e \<noteq> None"
      "n = length gone" "mset (live_vlans t') = mset (live_vlans t)"
    using reconcile_loop_spec [OF r(1)] wf mem_mget [OF wf] by (auto simp: gone_def wf_map_def)
  have "fold (\<lambda>u m. mdel m u) (mkeys gone) (uidToBranchENIMap t) =
      filter (\<lambda>(u, e). u \<in> PodUID ` set pods) (uidToBranchENIMap t)"
    unfolding fold_mdel_filter by (rule filter_cong) (force simp: gone_def mkeys_def)+
  then show m: "uidToBranchENIMap t' = filter (\<lambda>(u, e). u \<in> PodUID ` set pods) (uidToBranchENIMap t)"
    by (simp add: st(1))
  show "\<exists>st. deleteQueue t' = deleteQueue t @ st \<and> list_all2 same_eni st (mflat gone) \<and>
      (\<forall>e \<in> set st. deletionTimeStamp e \<noteq> None)"
    using st by (intro exI [of _ st]) simp
  show "leaked \<longleftrightarrow> gone \<noteq> []" using r(2) st(4) by simp
  show "trunk_inv t'"
  proof (rule trunk_inv_move [OF assms(1)])
    show "usedVlanIds t' = usedVlanIds t" by (simp add: st(1))
    show "wf_map (uidToBranchENIMap t')"
      using wf by (simp add: m wf_map_def mkeys_def distinct_map_filter)
  qed (simp add: st(5))
qed

section \<open>Creating interfaces\<close>

lemma create_loop_spec:
  assumes "vlan_owns t (map VlanID new @ vs)"
  shows "\<exists>t' h' ext err. create_loop api i sgs n t h new = Some (t', h', new @ ext, err) \<and>
    vlan_owns t' (map VlanID (new @ ext) @ vs) \<and> length ext \<le> n \<and> (err = None \<longrightarrow> length ext = n) \<and>
    list_all (\<lambda>e. deletionTimeStamp e = None \<and> deleteRetryCount e = 0) ext \<and>
    uidToBranchENIMap t' = uidToBranchENIMap t \<and> deleteQueue t' = deleteQueue t \<and>
    trunkENIId t' = trunkENIId t \<and> nodeIDTag t' = nodeIDTag t"
  using assms
proof (induction n arbitrary: t h new)
  case 0
  then show ?case by auto
next
  case (Suc n)
  obtain t1 ov where a: "assignVlanId t = (t1, ov)" by (metis surj_pair)
  show ?case
  proof (cases ov)
    case None
    then have "t1 = t" using a assignVlanId_None by blast
    then show ?thesis using a None Suc.prems by (intro exI [of _ t]) auto
  next
    case (Some v)
    have f: "uidToBranchENIMap t1 = uidToBranchENIMap t" "deleteQueue t1 = deleteQueue t"
        "trunkENIId t1 = trunkENIId t" "nodeIDTag t1 = nodeIDTag t"
      using assignVlanId_Some [of t t1 v] a Some by auto
    have own: "vlan_owns t1 (v # map VlanID new @ vs)"
      using vlans.alloc_fresh [OF Suc.prems] a Some by simp
    define h1 where "h1 = CreateNetworkInterfaceCall (currentSubnetID i) sgs (branch_tags t1 v)
      (getConnectionTrackingSpec i) # h"
    show ?thesis
    proof (cases "CreateNetworkInterface api h (currentSubnetID i) sgs (branch_tags t1 v) (getConnectionTrackingSpec i)")
      case (Inl e)
      obtain t2 where t2: "freeVlanId v t1 = Some t2" "vlan_owns t2 (map VlanID new @ vs)"
        using vlans.release_owned [OF own] by blast
      have "uidToBranchENIMap t2 = uidToBranchENIMap t1" "deleteQueue t2 = deleteQueue t1"
          "trunkENIId t2 = trunkENIId t1" "nodeIDTag t2 = nodeIDTag t1"
        using t2(1) by (auto simp: freeVlanId_def split: option.splits if_splits)
      then show ?thesis using a Some Inl t2 f by (auto simp: Let_def)
    next
      case (Inr nw)
      define eni where "eni = new_eni i nw v"
      define h2 where "h2 = AssociateBranchToTrunkCall (trunkENIId t1) (ID eni) v # h1"
      have en: "VlanID eni = v" "deletionTimeStamp eni = None" "deleteRetryCount eni = 0"
        by (simp_all add: eni_def new_eni_def)
      show ?thesis
      proof (cases "AssociateBranchToTrunk api h1 (trunkENIId t1) (ID eni) v")
        case (Inl e)
        have "vlan_owns t1 (map VlanID (new @ [eni]) @ vs)"
          using vlans.owns_perm [OF own] en by simp
        then show ?thesis
          using a Some Inr Inl f en
          by (auto simp: Let_def h1_def eni_def [symmetric] intro!: exI [of _ "[eni]"])
      next
        case ok: (Inr assoc)
        define eni' where "eni' = eni\<lparr>AssociationID := assoc\<rparr>"
        have "vlan_owns t1 (map VlanID (new @ [eni']) @ vs)"
          using vlans.owns_perm [OF own] en by (simp add: eni'_def)
        from Suc.IH [OF this, of h2] obtain t' h' ext err where ih:
          "create_loop api i sgs n t1 h2 (new @ [eni']) = Some (t', h', (new @ [eni']) @ ext, err)"
          "vlan_owns t' (map VlanID ((new @ [eni']) @ ext) @ vs)" "length ext \<le> n" "err = None \<longrightarrow> length ext = n"
          "list_all (\<lambda>e. deletionTimeStamp e = None \<and> deleteRetryCount e = 0) ext"
          "uidToBranchENIMap t' = uidToBranchENIMap t1" "deleteQueue t' = deleteQueue t1"
          "trunkENIId t' = trunkENIId t1" "nodeIDTag t' = nodeIDTag t1"
          by blast
        have "create_loop api i sgs (Suc n) t h new = create_loop api i sgs n t1 h2 (new @ [eni'])"
          using a Some Inr ok by (simp add: Let_def h1_def h2_def eni_def eni'_def)
        then show ?thesis
          using ih f en by (intro exI [of _ t'] exI [of _ h'] exI [of _ "eni' # ext"] exI [of _ err])
            (simp add: eni'_def)
      qed
    qed
  qed
qed

lemma mset_live_front:
  "mset (live_vlans (PushENIsToFrontOfDeleteQueue None new t)) = mset (map VlanID new @ live_vlans t)"
  by (simp add: mset_live_vlans mset_live_enis PushENIsToFrontOfDeleteQueue_def union_ac)

lemma mset_live_cache:
  assumes "wf_map (uidToBranchENIMap t)" "mget (uidToBranchENIMap t) uid = None"
  shows "mset (live_vlans (addBranchToCache uid new t)) = mset (map VlanID new @ live_vlans t)"
  using assms
  by (simp add: mset_live_vlans mset_live_enis addBranchToCache_def mhas_def mflat_mset
      mdel_absent mkeys_mget union_ac)

text \<open>Under the invariant creating never panics, and its outcomes are the four of the code.\<close>

lemma CreateAndAssociate_cases:
  assumes inv: "trunk_inv t"
  obtains (exists) "CreateAndAssociateBranchENIs Limits api i uid sgs cnt t h = Some (t, h, Inl EniAlreadyExists)"
      "mget (uidToBranchENIMap t) uid \<noteq> None"
  | (full) "CreateAndAssociateBranchENIs Limits api i uid sgs cnt t h = Some (t, h, Inl ErrCurrentlyAtMaxCapacity)"
      "mget (uidToBranchENIMap t) uid = None" "\<not> canCreateMore Limits i t"
  | (failed) t' h' new err where
      "CreateAndAssociateBranchENIs Limits api i uid sgs cnt t h = Some (t', h', Inl err)"
      "trunk_inv t'" "uidToBranchENIMap t' = uidToBranchENIMap t" "deleteQueue t' = new @ deleteQueue t"
      "length new \<le> nat cnt" "canCreateMore Limits i t"
  | (created) t' h' new where
      "CreateAndAssociateBranchENIs Limits api i uid sgs cnt t h = Some (t', h', Inr new)"
      "trunk_inv t'" "uidToBranchENIMap t' = mput (uidToBranchENIMap t) uid new" "deleteQueue t' = deleteQueue t"
      "length new = nat cnt" "mget (uidToBranchENIMap t) uid = None" "canCreateMore Limits i t"
proof (cases "mget (uidToBranchENIMap t) uid")
  case (Some e)
  then show ?thesis
    by (intro exists) (simp_all add: CreateAndAssociateBranchENIs_def getBranchFromCache_def)
next
  case None
  have wf: "wf_map (uidToBranchENIMap t)" and own: "vlan_owns t (map VlanID [] @ live_vlans t)"
    using inv by (simp_all add: trunk_inv_def)
  show ?thesis
  proof (cases "canCreateMore Limits i t")
    case False
    then show ?thesis
      using None by (intro full) (simp_all add: CreateAndAssociateBranchENIs_def getBranchFromCache_def)
  next
    case True
    define g where "g = (if sgs = [] then currentInstanceSecurityGroups i else sgs)"
    obtain t1 h1 new err where c: "create_loop api i g (nat cnt) t h [] = Some (t1, h1, new, err)"
      "vlan_owns t1 (map VlanID new @ live_vlans t)" "length new \<le> nat cnt" "err = None \<longrightarrow> length new = nat cnt"
      "uidToBranchENIMap t1 = uidToBranchENIMap t" "deleteQueue t1 = deleteQueue t"
      using create_loop_spec [OF own, of api i g "nat cnt" h] by auto
    have lv: "live_vlans t1 = live_vlans t" using c(5,6) by (rule live_vlans_cong)
    have eq: "CreateAndAssociateBranchENIs Limits api i uid sgs cnt t h =
       (case err of Some e \<Rightarrow> Some (PushENIsToFrontOfDeleteQueue None new t1, h1, Inl e)
        | None \<Rightarrow> Some (addBranchToCache uid new t1, h1, Inr new))"
      using None True c(1)
      by (auto simp: CreateAndAssociateBranchENIs_def getBranchFromCache_def g_def [symmetric] split: option.splits)
    show ?thesis
    proof (cases err)
      case (Some e)
      let ?t = "PushENIsToFrontOfDeleteQueue None new t1"
      have "vlan_owns ?t (live_vlans ?t)"
        using vlans.owns_perm [OF c(2), of "live_vlans ?t"] mset_live_front [of new t1] lv
        by (simp add: vlan_owns_def PushENIsToFrontOfDeleteQueue_def)
      then have "trunk_inv ?t"
        using wf c(5) by (simp add: trunk_inv_def PushENIsToFrontOfDeleteQueue_def)
      then show ?thesis
        using eq Some c by (intro failed [where t' = ?t and h' = h1 and new = new and err = e]) (auto simp: PushENIsToFrontOfDeleteQueue_def True)
    next
      case no: None
      let ?t = "addBranchToCache uid new t1"
      have "usedVlanIds ?t = usedVlanIds t1" by (simp add: addBranchToCache_def)
      moreover have "mset (live_vlans ?t) = mset (map VlanID new @ live_vlans t)"
        using mset_live_cache [of t1 uid new] wf None c(5) lv by simp
      ultimately have "vlan_owns ?t (live_vlans ?t)"
        using vlans.owns_perm [OF c(2)] vlan_owns_cong by blast
      then have "trunk_inv ?t"
        using wf c(5) by (simp add: trunk_inv_def addBranchToCache_def)
      then show ?thesis
        using eq no c None by (intro created [where t' = ?t and h' = h1 and new = new]) (auto simp: addBranchToCache_def mhas_def True)
    qed
  qed
qed

section \<open>Deleting interfaces\<close>

text \<open>Deleting an interface whose VLAN id is owned frees the id, or fails and changes nothing.\<close>

lemma deleteENI_owned:
  assumes "vlan_owns t (VlanID eni # vs)"
  obtains (deleted) t' h' where "deleteENI api eni t h = Some (t', h', None)" "vlan_owns t' vs"
      "uidToBranchENIMap t' = uidToBranchENIMap t" "deleteQueue t' = deleteQueue t"
  | (error) h' err where "deleteENI api eni t h = Some (t, h', Some err)"
proof -
  obtain t' where t': "freeVlanId (VlanID eni) t = Some t'" "vlan_owns t' vs"
    using vlans.release_owned [OF assms] by blast
  have f: "uidToBranchENIMap t' = uidToBranchENIMap t" "deleteQueue t' = deleteQueue t"
    using t'(1) by (auto simp: freeVlanId_def split: option.splits if_splits)
  have nz: "VlanID eni \<noteq> 0" using assms by (auto simp: vlan_owns_def)
  define h1 where "h1 = (if AssociationID eni \<noteq> '''' then DisassociateTrunkInterfaceCall (AssociationID eni) # h else h)"
  show ?thesis
  proof (cases "\<exists>err. DeleteNetworkInterface api h1 (ID eni) = Some err \<and> \<not> Contains err NotFoundInterfaceID")
    case True
    then obtain err where "DeleteNetworkInterface api h1 (ID eni) = Some err" "\<not> Contains err NotFoundInterfaceID"
      by blast
    then have "deleteENI api eni t h = Some (t, DeleteNetworkInterfaceCall (ID eni) # h1, Some err)"
      by (simp add: deleteENI_def Let_def h1_def [symmetric])
    then show ?thesis by (rule error)
  next
    case False
    then have "deleteENI api eni t h = Some (t', DeleteNetworkInterfaceCall (ID eni) # h1, None)"
      using t'(1) nz by (auto simp: deleteENI_def Let_def h1_def [symmetric] split: option.splits)
    then show ?thesis using t'(2) f by (rule deleted)
  qed
qed

lemma pop_some:
  assumes "popENIFromDeleteQueue t = (t1, Some eni)"
  shows "deleteQueue t = eni # deleteQueue t1" "uidToBranchENIMap t1 = uidToBranchENIMap t"
    "usedVlanIds t1 = usedVlanIds t"
  using assms by (auto simp: popENIFromDeleteQueue_def split: list.splits)

lemma pop_none: "popENIFromDeleteQueue t = (t1, None) \<longleftrightarrow> deleteQueue t = [] \<and> t1 = t"
  by (cases "deleteQueue t") (auto simp: popENIFromDeleteQueue_def)

text \<open>One turn of \<open>DeleteCooledDownENIs\<close>: the queue is empty, or its head has not cooled down, or
  the loop goes on in a state with a lighter queue.\<close>

lemma front_inv:
  assumes "trunk_inv t" "popENIFromDeleteQueue t = (t1, Some eni)" "VlanID e = VlanID eni"
  shows "trunk_inv (PushENIsToFrontOfDeleteQueue None [e] t1)"
proof (rule trunk_inv_move [OF assms(1)])
  note q = pop_some [OF assms(2)]
  show "usedVlanIds (PushENIsToFrontOfDeleteQueue None [e] t1) = usedVlanIds t"
    "wf_map (uidToBranchENIMap (PushENIsToFrontOfDeleteQueue None [e] t1))"
    using q assms(1) by (simp_all add: PushENIsToFrontOfDeleteQueue_def trunk_inv_def)
  show "mset (live_vlans (PushENIsToFrontOfDeleteQueue None [e] t1)) \<subseteq># mset (live_vlans t)"
    using q assms(3) by (simp add: mset_live_vlans mset_live_enis PushENIsToFrontOfDeleteQueue_def)
qed

lemma pop_owns:
  assumes "trunk_inv t" "popENIFromDeleteQueue t = (t1, Some eni)"
  shows "vlan_owns t1 (VlanID eni # live_vlans t1)" "trunk_inv t1"
    "deleteQueue t = eni # deleteQueue t1" "uidToBranchENIMap t1 = uidToBranchENIMap t"
proof -
  show q: "deleteQueue t = eni # deleteQueue t1" "uidToBranchENIMap t1 = uidToBranchENIMap t"
    using pop_some [OF assms(2)] by blast+
  have u: "usedVlanIds t1 = usedVlanIds t" by (rule pop_some(3) [OF assms(2)])
  have "mset (VlanID eni # live_vlans t1) = mset (live_vlans t)"
    by (simp add: mset_live_vlans mset_live_enis q)
  then show own: "vlan_owns t1 (VlanID eni # live_vlans t1)"
    using assms(1) vlans.owns_perm vlan_owns_cong [OF u] by (auto simp: trunk_inv_def)
  have "vlan_owns t1 (live_vlans t1)" by (rule vlans.owns_sub [OF own]) simp
  then show "trunk_inv t1" using assms(1) q(2) by (simp add: trunk_inv_def)
qed

lemma DeleteCooledDownENIs_turn:
  assumes "trunk_inv t"
  obtains (empty) "deleteQueue t = []" "DeleteCooledDownENIs api period t h = Some (t, h)"
  | (wait) eni t1 where "popENIFromDeleteQueue t = (t1, Some eni)" "\<not> cooled_down api period eni h"
      "DeleteCooledDownENIs api period t h = Some (PushENIsToFrontOfDeleteQueue None [eni] t1, ReadClock # h)"
  | (again) eni t1 t2 h1 h2 where "popENIFromDeleteQueue t = (t1, Some eni)" "cooled_down api period eni h"
      "h1 = (if deletionTimeStamp eni = None then h else ReadClock # h)"
      "\<exists>r e. deleteENI api eni t1 h1 = Some (r, h2, e)"
      "DeleteCooledDownENIs api period t h = DeleteCooledDownENIs api period t2 h2"
      "trunk_inv t2" "uidToBranchENIMap t2 = uidToBranchENIMap t"
      "queue_weight (deleteQueue t2) < queue_weight (deleteQueue t)"
      "deleteQueue t2 = deleteQueue t1 \<or>
       deleteRetryCount eni + 1 < MaxDeleteRetries \<and>
       deleteQueue t2 = eni\<lparr>deleteRetryCount := deleteRetryCount eni + 1\<rparr> # deleteQueue t1"
proof -
  obtain t1 oe where p: "popENIFromDeleteQueue t = (t1, oe)" by (metis surj_pair)
  show ?thesis
  proof (cases oe)
    case None
    have q: "deleteQueue t = []" "t1 = t" using p None pop_none by blast+
    have "DeleteCooledDownENIs api period t h = Some (t, h)"
      by (subst DeleteCooledDownENIs.simps) (simp add: p None q(2))
    then show ?thesis using q(1) empty by blast
  next
    case (Some eni)
    note p = p [unfolded Some]
    note o = pop_owns [OF assms p]
    define h1 where "h1 = (if deletionTimeStamp eni = None then h else ReadClock # h)"
    define eni' where "eni' = eni\<lparr>deleteRetryCount := deleteRetryCount eni + 1\<rparr>"
    show ?thesis
    proof (cases "cooled_down api period eni h")
      case False
      then have "deletionTimeStamp eni \<noteq> None" by (auto simp: cooled_down_def split: option.splits)
      then have "DeleteCooledDownENIs api period t h =
          Some (PushENIsToFrontOfDeleteQueue None [eni] t1, ReadClock # h)"
        using False by (subst DeleteCooledDownENIs.simps) (simp add: p)
      then show ?thesis by (rule wait [OF p False])
    next
      case True
      note again' = again [OF p True h1_def]
      from o(1) show ?thesis
      proof (cases rule: deleteENI_owned [where api = api and h = h1])
        case (deleted t2 h2)
        have "DeleteCooledDownENIs api period t h = DeleteCooledDownENIs api period t2 h2"
          using True deleted(1) by (subst DeleteCooledDownENIs.simps) (simp add: p h1_def)
        moreover have "trunk_inv t2"
          using o(2) deleted(2,3) live_vlans_cong [OF deleted(3,4)] by (simp add: trunk_inv_def)
        moreover have "\<exists>r e. deleteENI api eni t1 h1 = Some (r, h2, e)" using deleted(1) by blast
        moreover have "queue_weight (deleteQueue t2) < queue_weight (deleteQueue t)"
          using deleted(4) o(3) by (simp add: queue_weight_def retry_weight_def)
        ultimately show ?thesis using again' deleted(3,4) o(4) by metis
      next
        case (error h2 err)
        have ex: "\<exists>r e. deleteENI api eni t1 h1 = Some (r, h2, e)" using error by blast
        show ?thesis
        proof (cases "deleteRetryCount eni' \<ge> MaxDeleteRetries")
          case max: True
          have "DeleteCooledDownENIs api period t h = DeleteCooledDownENIs api period t1 h2"
            using True error max by (subst DeleteCooledDownENIs.simps) (simp add: p h1_def eni'_def Let_def)
          moreover have "queue_weight (deleteQueue t1) < queue_weight (deleteQueue t)"
            using o(3) by (simp add: queue_weight_def retry_weight_def)
          ultimately show ?thesis using again' ex o(2,4) by metis
        next
          case retry: False
          let ?t = "PushENIsToFrontOfDeleteQueue None [eni'] t1"
          have "DeleteCooledDownENIs api period t h = DeleteCooledDownENIs api period ?t h2"
            using True error retry by (subst DeleteCooledDownENIs.simps) (simp add: p h1_def eni'_def Let_def)
          moreover have "queue_weight (deleteQueue ?t) < queue_weight (deleteQueue t)"
            using o(3) retry
            by (auto simp: queue_weight_def retry_weight_def PushENIsToFrontOfDeleteQueue_def eni'_def MaxDeleteRetries_def)
          moreover have "trunk_inv ?t" by (rule front_inv [OF assms p]) (simp add: eni'_def)
          moreover have "uidToBranchENIMap ?t = uidToBranchENIMap t" "deleteQueue ?t = eni' # deleteQueue t1"
              "deleteRetryCount eni + 1 < MaxDeleteRetries"
            using o(4) retry by (simp_all add: PushENIsToFrontOfDeleteQueue_def eni'_def)
          ultimately show ?thesis using again' [OF ex] eni'_def by metis
        qed
      qed
    qed
  qed
qed

text \<open>\<open>DeleteCooledDownENIs\<close> returns, without a panic, and keeps the invariant and the cache.\<close>

lemma DeleteCooledDownENIs_inv:
  assumes "trunk_inv t"
  shows "\<exists>t' h'. DeleteCooledDownENIs api period t h = Some (t', h') \<and> trunk_inv t' \<and>
    uidToBranchENIMap t' = uidToBranchENIMap t"
  using assms
proof (induction "queue_weight (deleteQueue t)" arbitrary: t h rule: less_induct)
  case less
  from less.prems show ?case
  proof (cases rule: DeleteCooledDownENIs_turn [where api = api and period = period and h = h])
    case empty
    then show ?thesis using less.prems by simp
  next
    case (wait eni t1)
    then show ?thesis
      using front_inv [OF less.prems wait(1) refl] pop_owns(4) [OF less.prems wait(1)]
      by (simp add: PushENIsToFrontOfDeleteQueue_def)
  next
    case (again eni t1 t2 h1 h2)
    then show ?thesis using less.hyps [OF again(8,6), of h2] by simp
  qed
qed

end
