(* ===== verification/Trunk_Init.thy ===== *)
theory Trunk_Init
  imports Trunk_Inv
begin

text \<open>
  Rebuilding the trunk's state when the controller starts: with annotations and tags that agree
  with the associations in EC2, \<open>InitTrunk\<close> does not panic, establishes the invariant and
  tracks every branch interface of the trunk.
\<close>

section \<open>What annotations and tags are expected to say\<close>

text \<open>\<open>vl\<close> is the VLAN id under which EC2 has associated an interface; \<open>ids\<close> are the associated
  interfaces.\<close>

definition vlan_map_ok :: "(string \<Rightarrow> int) \<Rightarrow> string set \<Rightarrow> bool" where
  "vlan_map_ok vl ids \<longleftrightarrow> inj_on vl ids \<and> (\<forall>x \<in> ids. 0 < vl x \<and> vl x < int MaxAllocatableVlanIds)"

definition annotations_ok ::
  "(string \<Rightarrow> int) \<Rightarrow> string set \<Rightarrow> (string \<Rightarrow> eni_details option list) \<Rightarrow> pod list \<Rightarrow> bool" where
  "annotations_ok vl ids unmarshal pods \<longleftrightarrow>
     (\<forall>p \<in> set pods. \<forall>oe \<in> set (getBranchInterfacesUsedByPod unmarshal p).
        \<exists>e. oe = Some e \<and> (ID e \<in> ids \<longrightarrow> VlanID e = vl (ID e)))"

definition tags_ok :: "(string \<Rightarrow> int) \<Rightarrow> (string, network_interface) gomap \<Rightarrow> bool" where
  "tags_ok vl assoc \<longleftrightarrow> (\<forall>(x, nw) \<in> set assoc. NetworkInterfaceId nw = x \<and>
     (\<forall>v. getVlanIdFromTag (TagSet nw) = Some v \<longrightarrow> v = vl x))"

text \<open>The state of the reconstruction: the VLAN ids of the interfaces \<open>claimed\<close> so far are owned,
  the ones of \<open>assoc\<close> are not claimed yet.\<close>

definition init_inv ::
  "(string \<Rightarrow> int) \<Rightarrow> string set \<Rightarrow> string list \<Rightarrow> eni_details list \<Rightarrow> (string, network_interface) gomap \<Rightarrow>
   trunk_eni \<Rightarrow> bool" where
  "init_inv vl ids claimed acc assoc t \<longleftrightarrow>
     vlan_owns t (map vl claimed) \<and> wf_map assoc \<and> wf_map (uidToBranchENIMap t) \<and>
     distinct (claimed @ mkeys assoc) \<and> set (claimed @ mkeys assoc) = ids \<and>
     mset (map ID acc @ map ID (live_enis t)) = mset claimed \<and>
     (\<forall>e \<in> set (acc @ live_enis t). VlanID e = vl (ID e))"

lemma mark_owned:
  assumes "vlan_map_ok vl ids" "vlan_owns t (map vl claimed)" "x \<in> ids" "set claimed \<subseteq> ids" "x \<notin> set claimed"
  shows "\<exists>t'. markVlanAssigned (vl x) t = Some t' \<and> vlan_owns t' (vl x # map vl claimed) \<and>
    uidToBranchENIMap t' = uidToBranchENIMap t \<and> deleteQueue t' = deleteQueue t"
proof -
  have r: "0 < vl x" "vl x < int MaxAllocatableVlanIds" using assms(1,3) by (auto simp: vlan_map_ok_def)
  have "vl x \<notin> vl ` set claimed"
    using assms by (auto simp: vlan_map_ok_def inj_on_def subset_iff)
  then show ?thesis
    using r assms(2)
    by (auto simp: markVlanAssigned_def index_set_def vlan_owns_def list_all_iff nth_list_update)
qed

lemma adopt_enis_ok:
  assumes "vlan_map_ok vl ids" "init_inv vl ids claimed acc assoc t"
    and "\<forall>oe \<in> set enis. \<exists>e. oe = Some e \<and> (ID e \<in> ids \<longrightarrow> VlanID e = vl (ID e))"
  shows "\<exists>t' assoc' acc' claimed'. adopt_enis enis t assoc acc = Some (t', assoc', acc') \<and>
    init_inv vl ids claimed' acc' assoc' t' \<and> set assoc' \<subseteq> set assoc \<and>
    uidToBranchENIMap t' = uidToBranchENIMap t \<and> deleteQueue t' = deleteQueue t"
  using assms(2,3)
proof (induction enis t assoc acc arbitrary: claimed rule: adopt_enis.induct)
  case (1 t assoc acc)
  then show ?case by auto
next
  case (2 enis t assoc acc)
  then show ?case by simp
next
  case (3 eni enis t assoc acc)
  show ?case
  proof (cases "mhas assoc (ID eni)")
    case False
    then show ?thesis using 3 by simp
  next
    case True
    have k: "ID eni \<in> set (mkeys assoc)" using True by (simp add: mhas_iff)
    have inv: "vlan_owns t (map vl claimed)" "distinct (claimed @ mkeys assoc)"
        "set (claimed @ mkeys assoc) = ids"
      using 3(3) by (simp_all add: init_inv_def)
    have x: "ID eni \<in> ids" "ID eni \<notin> set claimed" "set claimed \<subseteq> ids"
      using k inv(2,3) by auto
    obtain t1 where t1: "markVlanAssigned (vl (ID eni)) t = Some t1"
        "vlan_owns t1 (vl (ID eni) # map vl claimed)"
        "uidToBranchENIMap t1 = uidToBranchENIMap t" "deleteQueue t1 = deleteQueue t"
      using mark_owned [OF assms(1) inv(1) x(1,3,2)] by blast
    have v: "VlanID eni = vl (ID eni)" using 3(4) x(1) by auto
    have l: "live_enis t1 = live_enis t" using t1(3,4) by (simp add: live_enis_def)
    have "init_inv vl ids (ID eni # claimed) (acc @ [eni]) (mdel assoc (ID eni)) t1"
      using 3(3) t1(2,3) v x k unfolding init_inv_def l
      by (auto simp: wf_map_def [symmetric])
    from 3(2) [OF _ _ this] obtain t' assoc' acc' claimed' where
        "adopt_enis enis t1 (mdel assoc (ID eni)) (acc @ [eni]) = Some (t', assoc', acc')"
        "init_inv vl ids claimed' acc' assoc' t'" "set assoc' \<subseteq> set (mdel assoc (ID eni))"
        "uidToBranchENIMap t' = uidToBranchENIMap t1" "deleteQueue t' = deleteQueue t1"
      using 3(4) True v t1(1) by auto
    then show ?thesis using True v t1 by (auto simp: set_mdel)
  qed
qed

text \<open>Caching the interfaces of a pod that is not in the cache yet.\<close>

lemma init_inv_cache:
  assumes "init_inv vl ids claimed acc assoc t" "mget (uidToBranchENIMap t) uid = None"
  shows "init_inv vl ids claimed [] assoc (t\<lparr>uidToBranchENIMap := mput (uidToBranchENIMap t) uid acc\<rparr>)"
proof -
  let ?t = "t\<lparr>uidToBranchENIMap := mput (uidToBranchENIMap t) uid acc\<rparr>"
  have wf: "wf_map (uidToBranchENIMap t)" using assms(1) by (simp add: init_inv_def)
  have ms: "mset (live_enis ?t) = mset (acc @ live_enis t)"
    using wf assms(2) by (simp add: mset_live_enis mflat_mset mdel_absent mkeys_mget live_enis_def)
  then have "mset (map ID (live_enis ?t)) = mset (map ID (acc @ live_enis t))"
    by simp
  moreover have "set (live_enis ?t) = set (acc @ live_enis t)" using ms by (rule mset_eq_setD)
  ultimately show ?thesis
    using assms(1) wf vlan_owns_cong [of ?t t] by (simp add: init_inv_def)
qed

lemma adopt_pods_ok:
  assumes "vlan_map_ok vl ids" "init_inv vl ids claimed [] assoc t" "annotations_ok vl ids unmarshal pods"
    and "distinct (map PodUID pods)" "\<forall>p \<in> set pods. mget (uidToBranchENIMap t) (PodUID p) = None"
  shows "\<exists>t' assoc' claimed'. adopt_pods unmarshal pods t assoc = Some (t', assoc') \<and>
    init_inv vl ids claimed' [] assoc' t' \<and> set assoc' \<subseteq> set assoc"
  using assms(2-5)
proof (induction pods arbitrary: t assoc claimed)
  case Nil
  then show ?case by auto
next
  case (Cons p ps)
  define l where "l = getBranchInterfacesUsedByPod unmarshal p"
  have an: "annotations_ok vl ids unmarshal ps" using Cons.prems(2) by (simp add: annotations_ok_def)
  show ?case
  proof (cases "l = []")
    case True
    then show ?thesis using Cons.IH [OF Cons.prems(1) an] Cons.prems(3,4) by (simp add: l_def)
  next
    case False
    obtain t1 assoc1 acc claimed1 where a: "adopt_enis l t assoc [] = Some (t1, assoc1, acc)"
        "init_inv vl ids claimed1 acc assoc1 t1" "set assoc1 \<subseteq> set assoc"
        "uidToBranchENIMap t1 = uidToBranchENIMap t"
      using adopt_enis_ok [OF assms(1) Cons.prems(1), of l] Cons.prems(2)
      by (auto simp: annotations_ok_def l_def)
    let ?t = "t1\<lparr>uidToBranchENIMap := mput (uidToBranchENIMap t1) (PodUID p) acc\<rparr>"
    have "init_inv vl ids claimed1 [] assoc1 ?t"
      using init_inv_cache [OF a(2)] Cons.prems(4) a(4) by simp
    moreover have "distinct (map PodUID ps)" "\<forall>q \<in> set ps. mget (uidToBranchENIMap ?t) (PodUID q) = None"
      using Cons.prems(3,4) a(4) by (auto simp: image_iff)
    ultimately obtain t' assoc' claimed' where "adopt_pods unmarshal ps ?t assoc1 = Some (t', assoc')"
        "init_inv vl ids claimed' [] assoc' t'" "set assoc' \<subseteq> set assoc1"
      using Cons.IH [OF _ an] by blast
    then show ?thesis using a(1,3) False by (auto simp: l_def)
  qed
qed

lemma queue_orphans_ok:
  assumes "vlan_map_ok vl ids" "tags_ok vl rest" "vlan_owns t (map vl claimed)"
    and "distinct (claimed @ mkeys rest)" "set (claimed @ mkeys rest) \<subseteq> ids"
    and "mset (map ID (live_enis t)) = mset claimed" "\<forall>e \<in> set (live_enis t). VlanID e = vl (ID e)"
  shows "\<exists>t' h' claimed'. queue_orphans api rest t h = Some (t', h') \<and> vlan_owns t' (map vl claimed') \<and>
    mset (map ID (live_enis t')) = mset claimed' \<and> (\<forall>e \<in> set (live_enis t'). VlanID e = vl (ID e)) \<and>
    uidToBranchENIMap t' = uidToBranchENIMap t \<and>
    set claimed' = set claimed \<union> {x. \<exists>nw. (x, nw) \<in> set rest \<and> getVlanIdFromTag (TagSet nw) \<noteq> None}"
  using assms(2-7)
proof (induction api rest t h arbitrary: claimed rule: queue_orphans.induct)
  case (1 api t h)
  then show ?case by (intro exI [of _ t] exI [of _ h] exI [of _ claimed]) auto
next
  case (2 api x nw rest t h)
  have tg: "tags_ok vl rest" "NetworkInterfaceId nw = x"
    using 2(3) by (auto simp: tags_ok_def)
  show ?case
  proof (cases "getVlanIdFromTag (TagSet nw)")
    case None
    have d: "distinct (claimed @ mkeys rest)" "set (claimed @ mkeys rest) \<subseteq> ids" using 2(5,6) by auto
    obtain t' h' claimed' where "queue_orphans api rest t h = Some (t', h')" "vlan_owns t' (map vl claimed')"
        "mset (map ID (live_enis t')) = mset claimed'" "\<forall>e \<in> set (live_enis t'). VlanID e = vl (ID e)"
        "uidToBranchENIMap t' = uidToBranchENIMap t"
        "set claimed' = set claimed \<union> {x. \<exists>nw. (x, nw) \<in> set rest \<and> getVlanIdFromTag (TagSet nw) \<noteq> None}"
      using 2(1) [OF None tg(1) 2(4) d 2(7,8)] by blast
    then show ?thesis using None by (intro exI [of _ t'] exI [of _ h'] exI [of _ claimed']) auto
  next
    case (Some v)
    have v: "v = vl x" using 2(3) Some by (simp add: tags_ok_def)
    have x: "x \<in> ids" "x \<notin> set claimed" "set claimed \<subseteq> ids" using 2(5,6) by auto
    obtain t1 where t1: "markVlanAssigned v t = Some t1" "vlan_owns t1 (vl x # map vl claimed)"
        "uidToBranchENIMap t1 = uidToBranchENIMap t" "deleteQueue t1 = deleteQueue t"
      using mark_owned [OF assms(1) 2(4) x(1,3,2)] v by blast
    define eni where "eni = zero_eni\<lparr>ID := NetworkInterfaceId nw, VlanID := v, deletionTimeStamp := Some (Now api h)\<rparr>"
    define t2 where "t2 = pushENIToDeleteQueue eni t1"
    have own: "vlan_owns t2 (map vl (x # claimed))"
      using t1(2) vlan_owns_cong [of t2 t1] by (simp add: t2_def pushENIToDeleteQueue_def)
    have live: "live_enis t2 = live_enis t @ [eni]"
      using t1(3,4) by (simp add: live_enis_def t2_def pushENIToDeleteQueue_def)
    have d: "distinct ((x # claimed) @ mkeys rest)" "set ((x # claimed) @ mkeys rest) \<subseteq> ids" using 2(5,6) by auto
    have "mset (map ID (live_enis t2)) = mset (x # claimed)" "\<forall>e \<in> set (live_enis t2). VlanID e = vl (ID e)"
      using 2(7,8) tg(2) v by (simp_all add: live eni_def)
    from 2(2) [OF Some t1(1) tg(1) _ d, folded eni_def, folded t2_def, OF own this]
    obtain t' h' claimed' where "queue_orphans api rest t2 (ReadClock # h) = Some (t', h')"
        "vlan_owns t' (map vl claimed')" "mset (map ID (live_enis t')) = mset claimed'"
        "\<forall>e \<in> set (live_enis t'). VlanID e = vl (ID e)" "uidToBranchENIMap t' = uidToBranchENIMap t2"
        "set claimed' = set (x # claimed) \<union> {x. \<exists>nw. (x, nw) \<in> set rest \<and> getVlanIdFromTag (TagSet nw) \<noteq> None}"
      by blast
    then show ?thesis
      using Some t1(1,3) by (intro exI [of _ t'] exI [of _ h'] exI [of _ claimed'])
        (auto simp: eni_def t2_def pushENIToDeleteQueue_def)
  qed
qed

section \<open>InitTrunk\<close>

lemma interface_set_props:
  shows "wf_map (interface_set nws)"
    and "set (mkeys (interface_set nws)) = NetworkInterfaceId ` set nws"
    and "(x, nw) \<in> set (interface_set nws) \<Longrightarrow> NetworkInterfaceId nw = x \<and> nw \<in> set nws"
proof -
  have 1: "wf_map m \<Longrightarrow> wf_map (fold (\<lambda>nw m. mput m (NetworkInterfaceId nw) nw) nws m)" for m
    by (induction nws arbitrary: m) simp_all
  have 2: "set (mkeys (fold (\<lambda>nw m. mput m (NetworkInterfaceId nw) nw) nws m)) =
      set (mkeys m) \<union> NetworkInterfaceId ` set nws" for m
    by (induction nws arbitrary: m) auto
  have 3: "wf_map m \<Longrightarrow> e \<in> set (fold (\<lambda>nw m. mput m (NetworkInterfaceId nw) nw) nws m) \<Longrightarrow>
      e \<in> set m \<or> NetworkInterfaceId (snd e) = fst e \<and> snd e \<in> set nws" for m e
  proof (induction nws arbitrary: m)
    case (Cons nw nws)
    then show ?case
      using Cons.IH [of "mput m (NetworkInterfaceId nw) nw"] set_mput [of m "NetworkInterfaceId nw" nw] by auto
  qed simp
  show "wf_map (interface_set nws)" using 1 [of "[]"] by (simp add: interface_set_def)
  show "set (mkeys (interface_set nws)) = NetworkInterfaceId ` set nws"
    using 2 [of "[]"] by (simp add: interface_set_def mkeys_def)
  show "(x, nw) \<in> set (interface_set nws) \<Longrightarrow> NetworkInterfaceId nw = x \<and> nw \<in> set nws"
    using 3 [of "[]" "(x, nw)"] by (simp add: interface_set_def)
qed

lemma find_trunk_fields:
  "find_trunk api nws t h = (t', h', e) \<Longrightarrow>
   usedVlanIds t' = usedVlanIds t \<and> uidToBranchENIMap t' = uidToBranchENIMap t \<and> deleteQueue t' = deleteQueue t"
proof (induction nws arbitrary: t h)
  case (Cons nw nws)
  show ?case
    using Cons.prems Cons.IH [of "t\<lparr>trunkENIId := INetworkInterfaceId nw\<rparr>"] Cons.IH [of t]
    by (auto simp: Let_def split: option.splits if_splits)
qed simp

lemma adopt_all_ok:
  assumes "vlan_map_ok vl (NetworkInterfaceId ` set nws)"
    and "annotations_ok vl (NetworkInterfaceId ` set nws) unmarshal pods"
    and "tags_ok vl (interface_set nws)" "distinct (map PodUID pods)"
    and "usedVlanIds t = usedVlanIds (NewTrunkENI i)" "uidToBranchENIMap t = []" "deleteQueue t = []"
  shows "\<exists>t' assoc t'' h'. adopt_pods unmarshal pods t (interface_set nws) = Some (t', assoc) \<and>
    queue_orphans api assoc t' h = Some (t'', h') \<and> trunk_inv t'' \<and> distinct (map ID (live_enis t'')) \<and>
    {x. \<exists>nw \<in> set nws. NetworkInterfaceId nw = x \<and> getVlanIdFromTag (TagSet nw) = None} \<union>
      set (map ID (live_enis t'')) = NetworkInterfaceId ` set nws"
proof -
  let ?ids = "NetworkInterfaceId ` set nws"
  note iset = interface_set_props
  have own: "vlan_owns t (map vl [])"
    using assms(5) by (simp add: vlan_owns_def NewTrunkENI_def MaxAllocatableVlanIds_def)
  have none: "\<forall>p \<in> set pods. mget (uidToBranchENIMap t) (PodUID p) = None" using assms(6) by simp
  have "init_inv vl ?ids [] [] (interface_set nws) t"
    using own iset(1,2) [of nws] assms(6,7) by (simp add: init_inv_def wf_map_def live_enis_def mkeys_def)
  then obtain t' assoc claimed where a: "adopt_pods unmarshal pods t (interface_set nws) = Some (t', assoc)"
      "init_inv vl ?ids claimed [] assoc t'" "set assoc \<subseteq> set (interface_set nws)"
    using adopt_pods_ok [OF assms(1) _ assms(2,4) none] by blast
  have tg: "tags_ok vl assoc" using assms(3) a(3) by (auto simp: tags_ok_def)
  have i: "vlan_owns t' (map vl claimed)" "distinct (claimed @ mkeys assoc)" "set (claimed @ mkeys assoc) = ?ids"
      "mset (map ID (live_enis t')) = mset claimed" "\<forall>e \<in> set (live_enis t'). VlanID e = vl (ID e)"
      "wf_map (uidToBranchENIMap t')"
    using a(2) by (simp_all add: init_inv_def)
  obtain t'' h' claimed' where q: "queue_orphans api assoc t' h = Some (t'', h')" "vlan_owns t'' (map vl claimed')"
      "mset (map ID (live_enis t'')) = mset claimed'" "\<forall>e \<in> set (live_enis t''). VlanID e = vl (ID e)"
      "uidToBranchENIMap t'' = uidToBranchENIMap t'"
      "set claimed' = set claimed \<union> {x. \<exists>nw. (x, nw) \<in> set assoc \<and> getVlanIdFromTag (TagSet nw) \<noteq> None}"
    using queue_orphans_ok [OF assms(1) tg i(1,2) _ i(4,5)] i(3) by blast
  have "mset (live_vlans t'') = mset (map vl claimed')"
  proof -
    have "map VlanID (live_enis t'') = map vl (map ID (live_enis t''))" using q(4) by simp
    then have "live_vlans t'' = map vl (map ID (live_enis t''))" by (simp only: live_vlans_def)
    then have "mset (live_vlans t'') = image_mset vl (mset (map ID (live_enis t'')))" by (simp only: mset_map)
    then show ?thesis unfolding q(3) by (simp only: mset_map)
  qed
  then have inv: "trunk_inv t''"
    using vlans.owns_perm [OF q(2)] i(6) q(5) by (simp add: trunk_inv_def)
  have ids: "set (map ID (live_enis t'')) = set claimed'" "distinct (map ID (live_enis t''))"
  proof -
    show "set (map ID (live_enis t'')) = set claimed'" using q(3) by (rule mset_eq_setD)
    have "distinct claimed'" using vlans.owns_distinct [OF q(2)] by (simp add: distinct_map)
    then show "distinct (map ID (live_enis t''))" using distinct_mset_eq [OF q(3)] by simp
  qed
  have keys: "x \<in> set (mkeys assoc) \<longleftrightarrow> (\<exists>nw. (x, nw) \<in> set assoc)" for x by (force simp: mkeys_def)
  have "set claimed' \<subseteq> ?ids" using q(6) i(3) by (auto simp: keys)
  moreover have "x \<in> set claimed'"
    if "nw \<in> set nws" "x = NetworkInterfaceId nw" "\<not> (\<exists>nw \<in> set nws. NetworkInterfaceId nw = x \<and> getVlanIdFromTag (TagSet nw) = None)"
    for x nw
  proof -
    have "x \<in> set claimed \<or> x \<in> set (mkeys assoc)" using that(1,2) i(3) by auto
    then show ?thesis using that(3) q(6) a(3) iset(3) by (fastforce simp: keys)
  qed
  ultimately have "{x. \<exists>nw \<in> set nws. NetworkInterfaceId nw = x \<and> getVlanIdFromTag (TagSet nw) = None} \<union>
      set (map ID (live_enis t'')) = ?ids"
    unfolding ids(1) by blast
  then show ?thesis using a(1) q(1) inv ids(2) by blast
qed

end
