(* ===== verification/Trunk_Props.thy ===== *)
theory Trunk_Props
  imports Trunk_Init
begin

text \<open>
  The properties of the trunk's operations, each with a closed instance.
\<close>

section \<open>Creating branch interfaces\<close>

definition sample_trunk :: trunk_eni where
  "sample_trunk = (NewTrunkENI sample_instance)\<lparr>trunkENIId := ''eni-trunk''\<rparr>"

lemma sample_trunk_inv: "trunk_inv sample_trunk"
  using trunk_inv_move [OF NewTrunkENI_inv, of sample_trunk sample_instance]
  by (simp add: sample_trunk_def NewTrunkENI_def live_vlans_def live_enis_def)

lemma sample_create:
  obtains t' h' new where "CreateAndAssociateBranchENIs sample_limits sample_api sample_instance ''uid-1'' [] 2
    sample_trunk [] = Some (t', h', Inr new)"
proof -
  have "case CreateAndAssociateBranchENIs sample_limits sample_api sample_instance ''uid-1'' [] 2 sample_trunk [] of
      None \<Rightarrow> False | Some (t', h', r) \<Rightarrow> \<not> isl r"
    by code_simp
  then obtain t' h' r where "CreateAndAssociateBranchENIs sample_limits sample_api sample_instance ''uid-1'' [] 2
      sample_trunk [] = Some (t', h', r)" "\<not> isl r"
    by (auto split: option.splits)
  then show ?thesis using that by (cases r) auto
qed



lemma used_branches: "fold (\<lambda>(uid, branches) n. n + int (length branches)) m n = n + int (length (mflat m))"
  by (induction m arbitrary: n) auto

lemma canCreateMore_iff:
  "canCreateMore Limits i t \<longleftrightarrow> int (length (live_enis t)) < branch_limit Limits i"
  by (simp add: canCreateMore_def Let_def used_branches live_enis_def)

text \<open>The branch interface limit of the instance type is exceeded by less than one request: when
  the interfaces in the cache and in the delete queue are below the limit, a request for \<open>cnt\<close>
  interfaces takes them to at most the limit plus \<open>cnt - 1\<close>; at or above the limit nothing is
  created.\<close>

theorem branch_capacity:
  assumes "trunk_inv t" "1 \<le> cnt"
    and "CreateAndAssociateBranchENIs Limits api i uid sgs cnt t h = Some (t', h', r)"
  shows "int (length (live_enis t')) \<le> max (int (length (live_enis t))) (branch_limit Limits i + cnt - 1) \<and>
    (branch_limit Limits i \<le> int (length (live_enis t)) \<longrightarrow> t' = t)"
  using assms(1)
proof (cases rule: CreateAndAssociate_cases [where Limits = Limits and api = api and i = i and uid = uid
      and sgs = sgs and cnt = cnt and h = h])
  case exists
  then show ?thesis using assms(3) by simp
next
  case full
  then show ?thesis using assms(3) by simp
next
  case (failed t1 h1 new err)
  have t: "t' = t1" using failed(1) assms(3) by simp
  have "length (live_enis t') = length new + length (live_enis t)"
    using failed(3,4) by (simp add: live_enis_def t)
  then show ?thesis using failed(5,6) assms(2) by (simp add: canCreateMore_iff)
next
  case (created t1 h1 new)
  have t: "t' = t1" using created(1) assms(3) by simp
  have "size (mset (live_enis t')) = length new + length (live_enis t)"
    using created(3,4,6) assms(1)
    by (simp add: trunk_inv_def mset_live_enis mflat_mset mdel_absent mkeys_mget t live_enis_def)
  then show ?thesis using created(5,7) assms(2) by (simp add: canCreateMore_iff)
qed

theorem branch_capacity_witness:
  "\<exists>t' h' r. CreateAndAssociateBranchENIs sample_limits sample_api sample_instance ''uid-1'' [] 2 sample_trunk [] =
     Some (t', h', r) \<and> int (length (live_enis t')) \<le> 10 + 2 - 1"
proof -
  obtain t' h' new where c: "CreateAndAssociateBranchENIs sample_limits sample_api sample_instance ''uid-1'' [] 2
      sample_trunk [] = Some (t', h', Inr new)" by (rule sample_create)
  have "branch_limit sample_limits sample_instance = 10" "live_enis sample_trunk = []" by code_simp+
  then show ?thesis using branch_capacity [OF sample_trunk_inv _ c] c by simp
qed

section \<open>Reclaiming and deleting branch interfaces\<close>

text \<open>\<open>Reconcile\<close> drops exactly the cache entries of pods that no longer exist: the entries of
  the listed pods stay, every interface of the others is stamped and appended to the delete
  queue, in order, and the result says whether there was any.\<close>

theorem reconcile_moves_leaked:
  assumes "trunk_inv t" "TrunkReconcile api pods t h = (t', h', leaked)"
  shows "trunk_inv t' \<and>
    uidToBranchENIMap t' = filter (\<lambda>(u, enis). u \<in> PodUID ` set pods) (uidToBranchENIMap t) \<and>
    (\<exists>st. deleteQueue t' = deleteQueue t @ st \<and> (\<forall>e \<in> set st. deletionTimeStamp e \<noteq> None) \<and>
       map ID st = map ID (mflat (filter (\<lambda>(u, enis). u \<notin> PodUID ` set pods) (uidToBranchENIMap t)))) \<and>
    (leaked \<longleftrightarrow> filter (\<lambda>(u, enis). u \<notin> PodUID ` set pods) (uidToBranchENIMap t) \<noteq> [])"
  using TrunkReconcile_spec [OF assms] same_eni_ids by blast

definition sample_eni :: eni_details where
  "sample_eni = zero_eni\<lparr>ID := ''eni-5'', VlanID := 5, AssociationID := ''assoc-5''\<rparr>"

definition sample_busy_trunk :: trunk_eni where
  "sample_busy_trunk = sample_trunk\<lparr>usedVlanIds := (usedVlanIds sample_trunk)[5 := True],
     uidToBranchENIMap := [(''uid-1'', [sample_eni])]\<rparr>"

definition sample_queued_trunk :: trunk_eni where
  "sample_queued_trunk = sample_trunk\<lparr>usedVlanIds := (usedVlanIds sample_trunk)[5 := True],
     deleteQueue := [sample_eni\<lparr>deletionTimeStamp := Some 0\<rparr>]\<rparr>"

lemma sample_busy_inv: "trunk_inv sample_busy_trunk" "trunk_inv sample_queued_trunk"
  by code_simp+

theorem reconcile_moves_leaked_witness:
  "uidToBranchENIMap (fst (TrunkReconcile sample_api [] sample_busy_trunk [])) = [] \<and>
   snd (snd (TrunkReconcile sample_api [] sample_busy_trunk []))"
proof -
  obtain t' h' l where r: "TrunkReconcile sample_api [] sample_busy_trunk [] = (t', h', l)" by (metis prod_cases3)
  show ?thesis using reconcile_moves_leaked [OF sample_busy_inv(1) r] r by (simp add: sample_busy_trunk_def)
qed

lemma clock_mono: "(\<And>ev h. Now api h \<le> Now api (ev # h)) \<Longrightarrow> Now api h \<le> Now api (evs @ h)"
  by (induction evs) (auto intro: order_trans)

lemma cooled_down_calls:
  assumes "trunk_inv t" "\<And>ev h. Now api h \<le> Now api (ev # h)"
    and "DeleteCooledDownENIs api period t h = Some (t', h')"
  shows "\<exists>evs. h' = evs @ h \<and> Now api h \<le> Now api h' \<and>
    (\<forall>x. DeleteNetworkInterfaceCall x \<in> set evs \<longrightarrow> (\<exists>e \<in> set (deleteQueue t). ID e = x \<and>
       (\<forall>ts. deletionTimeStamp e = Some ts \<longrightarrow> ts + period < Now api h')))"
  using assms(1,3)
proof (induction "queue_weight (deleteQueue t)" arbitrary: t h rule: less_induct)
  case less
  from less.prems(1) show ?case
  proof (cases rule: DeleteCooledDownENIs_turn [where api = api and period = period and h = h])
    case empty
    then show ?thesis using less.prems(2) by simp
  next
    case (wait eni t1)
    then show ?thesis using less.prems(2) assms(2) [of h ReadClock] by simp
  next
    case (again eni t1 t2 h1 h2)
    obtain r e where d: "deleteENI api eni t1 h1 = Some (r, h2, e)" using again(4) by blast
    have h2: "h2 = DeleteNetworkInterfaceCall (ID eni) # (if AssociationID eni \<noteq> ''''
        then DisassociateTrunkInterfaceCall (AssociationID eni) # h1 else h1)"
      using d by (auto simp: deleteENI_def Let_def split: option.splits if_splits)
    have step: "DeleteCooledDownENIs api period t2 h2 = Some (t', h')" using less.prems(2) again(5) by simp
    obtain evs where ih: "h' = evs @ h2" "Now api h2 \<le> Now api h'"
        "\<forall>x. DeleteNetworkInterfaceCall x \<in> set evs \<longrightarrow> (\<exists>e \<in> set (deleteQueue t2). ID e = x \<and>
          (\<forall>ts. deletionTimeStamp e = Some ts \<longrightarrow> ts + period < Now api h'))"
      using less.hyps [OF again(8,6) step] by blast
    define pre where "pre = DeleteNetworkInterfaceCall (ID eni) # (if AssociationID eni \<noteq> ''''
        then [DisassociateTrunkInterfaceCall (AssociationID eni)] else []) @
        (if deletionTimeStamp eni = None then [] else [ReadClock])"
    have h2': "h2 = pre @ h" by (simp add: h2 pre_def again(3))
    have mono: "Now api h \<le> Now api h2" unfolding h2' by (rule clock_mono) (rule assms(2))
    have q: "deleteQueue t = eni # deleteQueue t1" by (rule pop_some(1) [OF again(1)])
    have head: "\<forall>ts. deletionTimeStamp eni = Some ts \<longrightarrow> ts + period < Now api h'"
      using again(2) mono ih(2) by (auto simp: cooled_down_def)
    have tail: "\<exists>e' \<in> set (deleteQueue t). ID e' = ID e \<and> deletionTimeStamp e' = deletionTimeStamp e"
      if "e \<in> set (deleteQueue t2)" for e
      using that again(9) q by auto
    have "h' = (evs @ pre) @ h" using ih(1) by (simp add: h2')
    moreover have "\<exists>e \<in> set (deleteQueue t). ID e = x \<and>
        (\<forall>ts. deletionTimeStamp e = Some ts \<longrightarrow> ts + period < Now api h')"
      if "DeleteNetworkInterfaceCall x \<in> set (evs @ pre)" for x
    proof (cases "DeleteNetworkInterfaceCall x \<in> set evs")
      case True
      then show ?thesis using ih(3) tail by metis
    next
      case False
      then have "x = ID eni" using that by (auto simp: pre_def split: if_splits)
      then show ?thesis using q head by auto
    qed
    ultimately show ?thesis using mono ih(2) by (intro exI [of _ "evs @ pre"]) auto
  qed
qed

text \<open>C9. \<open>DeleteCooledDownENIs\<close> returns for every behaviour of EC2, without a panic, keeps the
  invariant and the cache, and calls EC2 to delete an interface only if it is in the queue and
  its cool down period is over (or it was never assigned to a pod and has no time stamp); with a
  clock that does not go back.\<close>

theorem delete_cooled_down_enis:
  assumes "trunk_inv t" "\<And>ev h. Now api h \<le> Now api (ev # h)"
  shows "\<exists>t' evs. DeleteCooledDownENIs api period t h = Some (t', evs @ h) \<and> trunk_inv t' \<and>
    uidToBranchENIMap t' = uidToBranchENIMap t \<and>
    (\<forall>x. DeleteNetworkInterfaceCall x \<in> set evs \<longrightarrow> (\<exists>e \<in> set (deleteQueue t). ID e = x \<and>
       (\<forall>ts. deletionTimeStamp e = Some ts \<longrightarrow> ts + period < Now api (evs @ h))))"
proof -
  obtain t' h' where d: "DeleteCooledDownENIs api period t h = Some (t', h')" "trunk_inv t'"
      "uidToBranchENIMap t' = uidToBranchENIMap t"
    using DeleteCooledDownENIs_inv [OF assms(1)] by blast
  then show ?thesis using cooled_down_calls [OF assms d(1)] by blast
qed

theorem delete_cooled_down_enis_witness:
  "\<exists>t' evs. DeleteCooledDownENIs sample_api 30 sample_queued_trunk [] = Some (t', evs @ []) \<and> trunk_inv t'"
  using delete_cooled_down_enis [OF sample_busy_inv(2), of sample_api 30 "[]"]
  by (auto simp: sample_api_def)

definition attempts :: "string \<Rightarrow> eni_details list \<Rightarrow> nat" where
  "attempts x q = sum_list (map (\<lambda>e. if ID e = x then max 1 (nat (MaxDeleteRetries - deleteRetryCount e)) else 0) q)"

lemma attempts_le:
  "\<forall>e \<in> set q. 0 \<le> deleteRetryCount e \<Longrightarrow> attempts x q \<le> nat MaxDeleteRetries * count_list (map ID q) x"
  by (induction q) (auto simp: attempts_def MaxDeleteRetries_def)

lemma deleteENI_calls:
  "deleteENI api eni t h = Some (t', h', e) \<Longrightarrow>
   count_list h' (DeleteNetworkInterfaceCall x) = (if ID eni = x then 1 else 0) + count_list h (DeleteNetworkInterfaceCall x)"
  by (auto simp: deleteENI_def Let_def split: option.splits if_splits)

lemma cooled_down_attempts:
  assumes "trunk_inv t" "DeleteCooledDownENIs api period t h = Some (t', h')"
  shows "count_list h' (DeleteNetworkInterfaceCall x) \<le>
    attempts x (deleteQueue t) + count_list h (DeleteNetworkInterfaceCall x)"
  using assms
proof (induction "queue_weight (deleteQueue t)" arbitrary: t h rule: less_induct)
  case less
  from less.prems(1) show ?case
  proof (cases rule: DeleteCooledDownENIs_turn [where api = api and period = period and h = h])
    case empty
    then show ?thesis using less.prems(2) by simp
  next
    case (wait eni t1)
    then show ?thesis using less.prems(2) by simp
  next
    case (again eni t1 t2 h1 h2)
    obtain r e where d: "deleteENI api eni t1 h1 = Some (r, h2, e)" using again(4) by blast
    have step: "DeleteCooledDownENIs api period t2 h2 = Some (t', h')" using less.prems(2) again(5) by simp
    have q: "deleteQueue t = eni # deleteQueue t1" by (rule pop_some(1) [OF again(1)])
    have "attempts x (deleteQueue t2) + (if ID eni = x then 1 else 0) \<le> attempts x (deleteQueue t)"
      using again(9) q by (auto simp: attempts_def max_def)
    then show ?thesis
      using less.hyps [OF again(8,6) step] deleteENI_calls [OF d, of x] by (simp add: again(3) split: if_splits)
  qed
qed

text \<open>One run of \<open>DeleteCooledDownENIs\<close> asks EC2 to delete an interface at most three times for
  each time it is queued, whatever EC2 answers.\<close>

theorem delete_attempts_bounded:
  assumes "trunk_inv t" "\<forall>e \<in> set (deleteQueue t). 0 \<le> deleteRetryCount e"
    and "DeleteCooledDownENIs api period t h = Some (t', evs @ h)"
  shows "count_list evs (DeleteNetworkInterfaceCall x) \<le> 3 * count_list (map ID (deleteQueue t)) x"
  using cooled_down_attempts [OF assms(1,3), of x] attempts_le [OF assms(2), of x]
  by (simp add: MaxDeleteRetries_def)

definition failing_api :: ec2_api where
  "failing_api = sample_api\<lparr>DeleteNetworkInterface := (\<lambda>h n. Some ''DependencyViolation'')\<rparr>"

theorem delete_attempts_bounded_witness:
  "case DeleteCooledDownENIs failing_api (-1) sample_queued_trunk [] of None \<Rightarrow> False
   | Some (t', evs) \<Rightarrow> count_list evs (DeleteNetworkInterfaceCall ''eni-5'') = 3 \<and>
       count_list evs (DeleteNetworkInterfaceCall ''eni-5'') \<le> 3 * 1"
proof -
  have "case DeleteCooledDownENIs failing_api (-1) sample_queued_trunk [] of None \<Rightarrow> False
      | Some (t', evs) \<Rightarrow> count_list evs (DeleteNetworkInterfaceCall ''eni-5'') = 3" by code_simp
  then obtain t' evs where d: "DeleteCooledDownENIs failing_api (-1) sample_queued_trunk [] = Some (t', evs @ [])"
      "count_list evs (DeleteNetworkInterfaceCall ''eni-5'') = 3"
    by (auto split: option.splits)
  have "count_list evs (DeleteNetworkInterfaceCall ''eni-5'') \<le>
      3 * count_list (map ID (deleteQueue sample_queued_trunk)) ''eni-5''"
    by (rule delete_attempts_bounded [OF sample_busy_inv(2) _ d(1)]) (simp add: sample_queued_trunk_def sample_eni_def zero_eni_def)
  then show ?thesis using d by (simp add: sample_queued_trunk_def sample_eni_def)
qed

section \<open>Starting with existing interfaces\<close>

lemma queue_orphans_hist: "queue_orphans api rest t h = Some (t', h') \<Longrightarrow> \<exists>evs. h' = evs @ h"
proof (induction api rest t h rule: queue_orphans.induct)
  case (2 api x nw rest t h)
  have "\<exists>evs. h' = evs @ h \<or> h' = (evs @ [ReadClock]) @ h"
    using 2 by (auto split: option.splits)
  then show ?case by blast
qed simp

lemma fresh_trunk_inv:
  assumes "usedVlanIds t = usedVlanIds (NewTrunkENI i)" "uidToBranchENIMap t = []" "deleteQueue t = []"
  shows "trunk_inv t"
  using trunk_inv_move [OF NewTrunkENI_inv assms(1)] assms
  by (simp add: live_vlans_def live_enis_def wf_map_def mkeys_def)

lemma markVlanAssigned_trunk: "markVlanAssigned v t = Some t' \<Longrightarrow> trunkENIId t' = trunkENIId t"
  by (auto simp: markVlanAssigned_def)

lemma adopt_enis_trunk: "adopt_enis enis t assoc acc = Some (t', assoc', acc') \<Longrightarrow> trunkENIId t' = trunkENIId t"
  by (induction enis t assoc acc rule: adopt_enis.induct)
    (auto dest: markVlanAssigned_trunk split: if_splits option.splits)

lemma adopt_pods_trunk: "adopt_pods unmarshal pods t assoc = Some (t', assoc') \<Longrightarrow> trunkENIId t' = trunkENIId t"
  by (induction unmarshal pods t assoc rule: adopt_pods.induct)
    (auto simp: Let_def dest: adopt_enis_trunk split: if_splits option.splits)

lemma queue_orphans_trunk: "queue_orphans api rest t h = Some (t', h') \<Longrightarrow> trunkENIId t' = trunkENIId t"
  by (induction api rest t h rule: queue_orphans.induct)
    (auto simp: pushENIToDeleteQueue_def dest: markVlanAssigned_trunk split: option.splits)

lemma find_trunk_tag: "find_trunk api nws t h = (t', h', e) \<Longrightarrow> nodeIDTag t' = nodeIDTag t"
proof (induction nws arbitrary: t h)
  case (Cons nw nws)
  show ?case
    using Cons.prems Cons.IH [of "t\<lparr>trunkENIId := INetworkInterfaceId nw\<rparr>"] Cons.IH [of t]
    by (auto simp: Let_def split: option.splits if_splits)
qed simp


definition tagged :: "string \<Rightarrow> string \<Rightarrow> network_interface" where
  "tagged x v = \<lparr>NetworkInterfaceId = x, MacAddress = ''mac'', NIPrivateIpAddress = None, NIIpv6Address = None,
     TagSet = [(VLandIDTag, v)]\<rparr>"

definition sample_trunk_interface :: instance_interface where
  "sample_trunk_interface = \<lparr>INetworkInterfaceId = ''eni-trunk'', InterfaceType = Some ''trunk'', ISubnetId = ''subnet-1'',
     IGroups = [], IPrivateIpAddresses = None, IIpv4Prefixes = [], IDeviceIndex = 1, IPrivateIpAddress = None,
     IConnTracking = None\<rparr>"

definition sample_init_api :: ec2_api where
  "sample_init_api = sample_api
     \<lparr>GetInstanceNetworkInterface := (\<lambda>h n. Inr [sample_trunk_interface]),
      GetBranchNetworkInterface := (\<lambda>h t s. Inr [tagged ''eni-5'' ''5'', tagged ''eni-6'' ''6''])\<rparr>"

definition sample_pod :: pod where
  "sample_pod = \<lparr>PodName = ''p'', PodNamespace = ''ns'', PodUID = ''uid-1'',
     PodAnnotations = [(ResourceNamePodENI, ''a'')], PodLabels = [], PodNodeName = ''node-1'',
     PodServiceAccount = '''', PodPhase = PodRunning, PodContainers = []\<rparr>"

lemma sample_tags: "getVlanIdFromTag [(VLandIDTag, ''5'')] = Some 5" "getVlanIdFromTag [(VLandIDTag, ''6'')] = Some 6"
  by code_simp+

lemma sample_set: "interface_set [tagged ''eni-5'' ''5'', tagged ''eni-6'' ''6''] =
    [(''eni-5'', tagged ''eni-5'' ''5''), (''eni-6'', tagged ''eni-6'' ''6'')]"
  by code_simp


section \<open>Removing a node\<close>

lemma delete_all_loop_spec:
  assumes "vlan_owns t (map VlanID enis @ vs)"
  shows "\<exists>t' evs. delete_all_loop api enis t h = Some (t', evs @ h) \<and> vlan_owns t' vs \<and>
    uidToBranchENIMap t' = uidToBranchENIMap t \<and> deleteQueue t' = deleteQueue t \<and>
    (\<forall>x. count_list (evs @ h) (DeleteNetworkInterfaceCall x) =
       count_list (map ID enis) x + count_list h (DeleteNetworkInterfaceCall x))"
  using assms
proof (induction enis arbitrary: t h)
  case Nil
  then show ?case by simp
next
  case (Cons eni enis)
  have own: "vlan_owns t (VlanID eni # map VlanID enis @ vs)" using Cons.prems by simp
  obtain t1 h1 e where d: "deleteENI api eni t h = Some (t1, h1, e)" "vlan_owns t1 (map VlanID enis @ vs)"
      "uidToBranchENIMap t1 = uidToBranchENIMap t" "deleteQueue t1 = deleteQueue t"
    using own
  proof (cases rule: deleteENI_owned [where api = api and h = h])
    case (deleted t' h')
    then show ?thesis using that by blast
  next
    case (error h' err)
    have "vlan_owns t (map VlanID enis @ vs)" using vlans.owns_sub [OF own] by simp
    then show ?thesis using that error by blast
  qed
  obtain pre where pre: "h1 = pre @ h"
    using d(1) by (auto simp: deleteENI_def Let_def split: option.splits if_splits)
  obtain t' evs where l: "delete_all_loop api enis t1 h1 = Some (t', evs @ h1)" "vlan_owns t' vs"
      "uidToBranchENIMap t' = uidToBranchENIMap t1" "deleteQueue t' = deleteQueue t1"
      "\<forall>x. count_list (evs @ h1) (DeleteNetworkInterfaceCall x) =
         count_list (map ID enis) x + count_list h1 (DeleteNetworkInterfaceCall x)"
    using Cons.IH [OF d(2)] by blast
  have "\<forall>x. count_list ((evs @ pre) @ h) (DeleteNetworkInterfaceCall x) =
      count_list (map ID (eni # enis)) x + count_list h (DeleteNetworkInterfaceCall x)"
    using l(5) deleteENI_calls [OF d(1)] by (simp add: pre)
  then show ?case using d(1,3,4) l(1-4) pre by (intro exI [of _ t'] exI [of _ "evs @ pre"]) simp
qed

text \<open>\<open>DeleteAllBranchENIs\<close>, called when a node is removed, never panics and asks EC2 to delete
  every tracked interface, in the cache or in the delete queue, exactly once each.\<close>

theorem delete_all_branch_enis:
  assumes "trunk_inv t"
  shows "\<exists>t' evs. DeleteAllBranchENIs api t h = Some (t', evs @ h) \<and>
    uidToBranchENIMap t' = uidToBranchENIMap t \<and> deleteQueue t' = deleteQueue t \<and>
    (\<forall>x. count_list evs (DeleteNetworkInterfaceCall x) = count_list (map ID (live_enis t)) x)"
proof -
  have "vlan_owns t (map VlanID (mflat (uidToBranchENIMap t)) @ map VlanID (deleteQueue t))"
    using assms by (simp add: trunk_inv_def live_vlans_def live_enis_def)
  then obtain t1 e1 where 1: "delete_all_loop api (mflat (uidToBranchENIMap t)) t h = Some (t1, e1 @ h)"
      "vlan_owns t1 (map VlanID (deleteQueue t))" "uidToBranchENIMap t1 = uidToBranchENIMap t"
      "deleteQueue t1 = deleteQueue t"
      "\<forall>x. count_list (e1 @ h) (DeleteNetworkInterfaceCall x) =
         count_list (map ID (mflat (uidToBranchENIMap t))) x + count_list h (DeleteNetworkInterfaceCall x)"
    using delete_all_loop_spec [of t "mflat (uidToBranchENIMap t)" _ api h] by blast
  obtain t2 e2 where 2: "delete_all_loop api (deleteQueue t) t1 (e1 @ h) = Some (t2, e2 @ e1 @ h)"
      "uidToBranchENIMap t2 = uidToBranchENIMap t1" "deleteQueue t2 = deleteQueue t1"
      "\<forall>x. count_list (e2 @ e1 @ h) (DeleteNetworkInterfaceCall x) =
         count_list (map ID (deleteQueue t)) x + count_list (e1 @ h) (DeleteNetworkInterfaceCall x)"
    using delete_all_loop_spec [of t1 "deleteQueue t" "[]" api "e1 @ h"] 1(2) by auto
  have "DeleteAllBranchENIs api t h = Some (t2, (e2 @ e1) @ h)"
    using 1(1,4) 2(1) by (simp add: DeleteAllBranchENIs_def)
  moreover have "count_list (e2 @ e1) (DeleteNetworkInterfaceCall x) = count_list (map ID (live_enis t)) x" for x
    using 1(5) [rule_format, of x] 2(4) [rule_format, of x] by (simp add: live_enis_def)
  ultimately show ?thesis using 1(3,4) 2(2,3) by (intro exI [of _ t2] exI [of _ "e2 @ e1"]) simp
qed

theorem delete_all_branch_enis_witness:
  "\<exists>t' evs. DeleteAllBranchENIs failing_api sample_busy_trunk [] = Some (t', evs @ []) \<and>
     count_list evs (DeleteNetworkInterfaceCall ''eni-5'') = 1"
proof -
  have "count_list (map ID (live_enis sample_busy_trunk)) ''eni-5'' = 1"
    by (simp add: sample_busy_trunk_def live_enis_def sample_eni_def sample_trunk_def NewTrunkENI_def)
  then show ?thesis using delete_all_branch_enis [OF sample_busy_inv(1), of failing_api "[]"] by metis
qed

end
