(* ===== verification/Eni_Manager.thy ===== *)
theory Eni_Manager
  imports Instance
begin

text \<open>
  \<open>pkg/provider/ip/eni/eni.go\<close>: the secondary addresses and prefixes of the interfaces of a Windows
  node. The manager shares \<open>eni\<close> objects between the list of attached interfaces and the map from
  resources to interfaces, so the objects live in a store and are referred to by their address
  (an index of the store). The lock makes each operation one step. \<open>None\<close> is a panic. Where the
  code ranges over a map that it has just built, the order is the argument \<open>ord\<close>.
\<close>

section \<open>State\<close>


record eni =
  eniID :: string
  remainingCapacity :: int

record eni_manager =
  eniStore :: "eni list"
  attachedENIs :: "nat list"
  resourceToENIMap :: "(string, nat) gomap"

record ipv4_resource =
  PrivateIPv4Addresses :: "string list"
  IPv4Prefixes :: "string list"

datatype eni_error =
    EniEc2Error string
  | EniUnsupportedInstanceType
  | NotAllCreated string int int
  | EmptyResourceList
  | FailedToUnassign string "string list"

definition NewENIManager :: eni_manager where
  "NewENIManager = \<lparr>eniStore = [], attachedENIs = [], resourceToENIMap = []\<rparr>"

definition addSubnetMaskToIPSlice :: "ec2_instance \<Rightarrow> string list \<Rightarrow> string list" where
  "addSubnetMaskToIPSlice i ipAddresses = map (\<lambda>ip. ip @ ''/'' @ subnetMask i) ipAddresses"

definition stripSubnetMaskFromIPSlice :: "string list \<Rightarrow> string list" where
  "stripSubnetMaskFromIPSlice ipAddresses = map (\<lambda>ip. hd (Split ip CHR ''/'')) ipAddresses"

section \<open>Loading the resources of an instance\<close>

text \<open>The two inner loops over the addresses and the prefixes of one interface, whose object has the
  address \<open>a\<close>.\<close>

fun load_addresses ::
  "nat \<Rightarrow> (string \<times> bool) list \<Rightarrow> int \<Rightarrow> (string, nat) gomap \<Rightarrow> string list \<Rightarrow> int \<times> (string, nat) gomap \<times> string list" where
  "load_addresses a [] remaining m availIPs = (remaining, m, availIPs)"
| "load_addresses a ((ip, primary) # ips) remaining m availIPs =
     (if \<not> primary then load_addresses a ips (remaining - 1) (mput m ip a) (availIPs @ [ip])
      else load_addresses a ips (remaining - 1) m availIPs)"

fun load_prefixes ::
  "nat \<Rightarrow> string list \<Rightarrow> int \<Rightarrow> (string, nat) gomap \<Rightarrow> string list \<Rightarrow> int \<times> (string, nat) gomap \<times> string list" where
  "load_prefixes a [] remaining m availPrefixes = (remaining, m, availPrefixes)"
| "load_prefixes a (prefix # ps) remaining m availPrefixes =
     load_prefixes a ps (remaining - 1) (mput m prefix a) (availPrefixes @ [prefix])"

fun load_enis ::
  "int \<Rightarrow> instance_interface list \<Rightarrow> eni_manager \<Rightarrow> string list \<Rightarrow> string list \<Rightarrow>
   eni_manager \<times> string list \<times> string list" where
  "load_enis ipLimit [] e availIPs availPrefixes = (e, availIPs, availPrefixes)"
| "load_enis ipLimit (nw # nws) e availIPs availPrefixes =
     (case IPrivateIpAddresses nw of
        None \<Rightarrow> load_enis ipLimit nws e availIPs availPrefixes
      | Some ips \<Rightarrow>
         (let a = length (eniStore e);
              (remaining, m, availIPs') = load_addresses a ips ipLimit (resourceToENIMap e) availIPs;
              (remaining', m', availPrefixes') = load_prefixes a (IIpv4Prefixes nw) remaining m availPrefixes
          in load_enis ipLimit nws
               \<lparr>eniStore = eniStore e @ [\<lparr>eniID = INetworkInterfaceId nw, remainingCapacity = remaining'\<rparr>],
                attachedENIs = attachedENIs e @ [a], resourceToENIMap = m'\<rparr>
               availIPs' availPrefixes'))"

definition InitResources ::
  "limits_table \<Rightarrow> ec2_api \<Rightarrow> ec2_instance \<Rightarrow> eni_manager \<Rightarrow> hist \<Rightarrow>
   eni_manager \<times> hist \<times> (eni_error + ipv4_resource)" where
  "InitResources Limits api i e h =
     (let h1 = GetInstanceNetworkInterfaceCall (instanceID i) # h in
      case GetInstanceNetworkInterface api h (instanceID i) of
        Inl err \<Rightarrow> (e, h1, Inl (EniEc2Error err))
      | Inr nwInterfaces \<Rightarrow>
         (case Limits (instanceType i) of
            None \<Rightarrow> (e, h1, Inl EniUnsupportedInstanceType)
          | Some limits \<Rightarrow>
             (let (e', availIPs, availPrefixes) = load_enis (IPv4PerInterface limits) nwInterfaces e [] []
              in (e', h1, Inr \<lparr>PrivateIPv4Addresses = addSubnetMaskToIPSlice i availIPs,
                               IPv4Prefixes = availPrefixes\<rparr>))))"

section \<open>Creating and deleting resources\<close>

text \<open>The loop over the attached interfaces; \<open>Inl\<close> is the return from inside the loop, which gives
  the list of the last call only.\<close>

fun assign_loop ::
  "ec2_api \<Rightarrow> string \<Rightarrow> int \<Rightarrow> nat list \<Rightarrow> eni_manager \<Rightarrow> hist \<Rightarrow> string list \<Rightarrow>
   eni_manager \<times> hist \<times> (string list \<times> string + string list)" where
  "assign_loop api ty required [] e h assignedIPv4Resources = (e, h, Inr assignedIPv4Resources)"
| "assign_loop api ty required (a # as) e h assignedIPv4Resources =
     (if int (length assignedIPv4Resources) \<ge> required then (e, h, Inr assignedIPv4Resources)
      else
        let eni = eniStore e ! a in
        if remainingCapacity eni > 0 then
          let want = required - int (length assignedIPv4Resources);
              canAssign = (if remainingCapacity eni < want then remainingCapacity eni else want);
              h1 = AssignIPv4Call (eniID eni) ty canAssign # h in
          case AssignIPv4Resources api h (eniID eni) ty canAssign of
            ([], Some err) \<Rightarrow> (e, h1, Inl ([], err))
          | (assigned, _) \<Rightarrow>
              assign_loop api ty required as
                (e\<lparr>eniStore := (eniStore e)[a := eni\<lparr>remainingCapacity := remainingCapacity eni - int (length assigned)\<rparr>],
                   resourceToENIMap := fold (\<lambda>r m. mput m r a) assigned (resourceToENIMap e)\<rparr>)
                h1 (assignedIPv4Resources @ assigned)
        else assign_loop api ty required as e h assignedIPv4Resources)"

definition CreateIPV4Resource ::
  "ec2_api \<Rightarrow> ec2_instance \<Rightarrow> int \<Rightarrow> string \<Rightarrow> eni_manager \<Rightarrow> hist \<Rightarrow>
   eni_manager \<times> hist \<times> string list \<times> eni_error option" where
  "CreateIPV4Resource api i required ty e h =
     (case assign_loop api ty required (attachedENIs e) e h [] of
        (e', h', Inl (assigned, err)) \<Rightarrow> (e', h', assigned, Some (EniEc2Error err))
      | (e', h', Inr assigned) \<Rightarrow>
          (e', h', (if ty = ResourceTypeIPv4Address then addSubnetMaskToIPSlice i assigned else assigned),
           (if int (length assigned) < required then Some (NotAllCreated ty required (int (length assigned)))
            else None)))"

text \<open>The key \<open>None\<close> is the nil pointer of a resource that has no interface in the map.\<close>

definition groupResourcesPerENI :: "eni_manager \<Rightarrow> string list \<Rightarrow> (nat option, string list) gomap" where
  "groupResourcesPerENI e deleteList =
     fold (\<lambda>resource toDelete.
       let eni = mget (resourceToENIMap e) resource
       in mput toDelete eni (mgetd [] toDelete eni @ [resource])) deleteList []"

fun unassign_loop ::
  "ec2_api \<Rightarrow> string \<Rightarrow> (nat option \<times> string list) list \<Rightarrow> eni_manager \<Rightarrow> hist \<Rightarrow> string list \<Rightarrow> string list \<Rightarrow>
   (eni_manager \<times> hist \<times> string list \<times> string list) option" where
  "unassign_loop api ty [] e h failed errors = Some (e, h, failed, errors)"
| "unassign_loop api ty ((None, resources) # gs) e h failed errors = None"
| "unassign_loop api ty ((Some a, resources) # gs) e h failed errors =
     (let eni = eniStore e ! a;
          h1 = UnassignIPv4Call (eniID eni) ty resources # h in
      case UnassignIPv4Resources api h (eniID eni) ty resources of
        Some err \<Rightarrow> unassign_loop api ty gs e h1 (failed @ resources) (errors @ [err])
      | None \<Rightarrow>
          unassign_loop api ty gs
            (e\<lparr>eniStore := (eniStore e)[a := eni\<lparr>remainingCapacity := remainingCapacity eni + int (length resources)\<rparr>],
               resourceToENIMap := fold (\<lambda>r m. mdel m r) resources (resourceToENIMap e)\<rparr>)
            h1 failed errors)"

text \<open>The loop that drops interfaces without resources keeps the others at the front of the same slice.\<close>

fun clean_up_loop ::
  "ec2_api \<Rightarrow> int \<Rightarrow> string \<Rightarrow> eni list \<Rightarrow> nat list \<Rightarrow> hist \<Rightarrow> string list \<Rightarrow> nat list \<times> hist \<times> string list" where
  "clean_up_loop api ipLimit primary store [] h errors = ([], h, errors)"
| "clean_up_loop api ipLimit primary store (a # as) h errors =
     (let eni = store ! a in
      if remainingCapacity eni = ipLimit \<and> primary \<noteq> eniID eni then
        let h1 = DeleteNetworkInterfaceCall (eniID eni) # h in
        case DeleteNetworkInterface api h (eniID eni) of
          Some err \<Rightarrow>
            (case clean_up_loop api ipLimit primary store as h1 (errors @ [err]) of
               (kept, h2, errors2) \<Rightarrow> (a # kept, h2, errors2))
        | None \<Rightarrow> clean_up_loop api ipLimit primary store as h1 errors
      else
        (case clean_up_loop api ipLimit primary store as h errors of
           (kept, h2, errors2) \<Rightarrow> (a # kept, h2, errors2)))"

definition ip_limit :: "limits_table \<Rightarrow> ec2_instance \<Rightarrow> int" where
  "ip_limit Limits i = (case Limits (instanceType i) of None \<Rightarrow> 0 | Some l \<Rightarrow> IPv4PerInterface l)"

definition DeleteIPV4Resource ::
  "((nat option \<times> string list) list \<Rightarrow> (nat option \<times> string list) list) \<Rightarrow> limits_table \<Rightarrow> ec2_api \<Rightarrow> ec2_instance \<Rightarrow>
   string list \<Rightarrow> string \<Rightarrow> eni_manager \<Rightarrow> hist \<Rightarrow> (eni_manager \<times> hist \<times> string list \<times> eni_error option) option" where
  "DeleteIPV4Resource ord Limits api i resourceList ty e h =
     (if resourceList = [] then Some (e, h, resourceList, Some EmptyResourceList)
      else
        let rs = (if ty = ResourceTypeIPv4Address then stripSubnetMaskFromIPSlice resourceList else resourceList) in
        case unassign_loop api ty (ord (groupResourcesPerENI e rs)) e h [] [] of
          None \<Rightarrow> None
        | Some (e1, h1, failedToUnAssign, errors) \<Rightarrow>
           (case clean_up_loop api (ip_limit Limits i - 1) (primaryENIID i) (eniStore e1) (attachedENIs e1) h1 errors of
              (attached, h2, errors2) \<Rightarrow>
                Some (e1\<lparr>attachedENIs := attached\<rparr>, h2,
                      (if errors2 \<noteq> [] then failedToUnAssign else []),
                      (if errors2 \<noteq> [] then Some (FailedToUnassign ty errors2) else None))))"

end
