(* ===== verification/Eni_Inv.thy ===== *)
theory Eni_Inv
  imports Eni_Manager
begin

text \<open>
  The accounting of the ENI manager: every interface has a fixed number of slots, its remaining
  capacity and the resources that are mapped to it, and creating and deleting resources only moves
  slots from one to the other.
\<close>

section \<open>Slots of an interface\<close>

definition eni_ok :: "eni_manager \<Rightarrow> bool" where
  "eni_ok e \<longleftrightarrow> wf_map (resourceToENIMap e) \<and> (\<forall>a \<in> set (attachedENIs e). a < length (eniStore e)) \<and>
     (\<forall>(r, a) \<in> set (resourceToENIMap e). a < length (eniStore e))"

definition held :: "(string, nat) gomap \<Rightarrow> nat \<Rightarrow> nat" where
  "held m a = length (filter (\<lambda>(r, x). x = a) m)"

definition slots :: "eni_manager \<Rightarrow> nat \<Rightarrow> int" where
  "slots e a = remainingCapacity (eniStore e ! a) + int (held (resourceToENIMap e) a)"

lemma held_append [simp]: "held (m @ n) a = held m a + held n a"
  by (simp add: held_def)

lemma held_map [simp]: "held (map (\<lambda>r. (r, a)) rs) b = (if a = b then length rs else 0)"
  by (induction rs) (auto simp: held_def)

lemma held_mset: "held m a = size (filter_mset (\<lambda>(r, x). x = a) (mset m))"
  by (simp add: held_def flip: mset_filter)

lemma held_mput_fresh: "k \<notin> set (mkeys m) \<Longrightarrow> held (mput m k a) b = held m b + (if a = b then 1 else 0)"
  by (simp add: mput_absent held_def)

lemma held_mdel:
  assumes "wf_map m" "mget m k = Some a"
  shows "held (mdel m k) b + (if a = b then 1 else 0) = held m b"
  using mset_split [OF assms] by (auto simp: held_mset)

lemma held_zero: "held m a = 0 \<longleftrightarrow> (\<forall>r. (r, a) \<notin> set m)"
  by (auto simp: held_def filter_empty_conv)

lemma fold_mput_fresh:
  assumes "distinct rs" "set rs \<inter> set (mkeys m) = {}"
  shows "fold (\<lambda>r m. mput m r a) rs m = m @ map (\<lambda>r. (r, a)) rs"
  using assms
proof (induction rs arbitrary: m)
  case (Cons r rs)
  then have "set rs \<inter> set (mkeys (m @ [(r, a)])) = {}" by (auto simp: mkeys_def)
  then show ?case using Cons by (simp add: mput_absent)
qed simp

section \<open>Assigning\<close>

text \<open>What EC2 documents of an assignment: at most as many resources as asked for, all different,
  none that is held already and none twice.\<close>

definition assigns_fresh :: "ec2_api \<Rightarrow> string set \<Rightarrow> bool" where
  "assigns_fresh api taken \<longleftrightarrow> (\<forall>h n ty c. let rs = fst (AssignIPv4Resources api h n ty c) in
     distinct rs \<and> (0 \<le> c \<longrightarrow> int (length rs) \<le> c) \<and> set rs \<inter> taken = {} \<and>
     (\<forall>h' n' ty' c'. length h \<noteq> length h' \<longrightarrow> set rs \<inter> set (fst (AssignIPv4Resources api h' n' ty' c')) = {}))"

lemma assigns_fresh_after:
  assumes "assigns_fresh api taken" "AssignIPv4Resources api h n ty c = (rs, err)" "0 \<le> c"
  shows "distinct rs" "int (length rs) \<le> c" "set rs \<inter> taken = {}"
  using assms unfolding assigns_fresh_def Let_def by (metis fst_conv)+

text \<open>The loop carries the resources EC2 could have given out before the current call.\<close>

definition given_before :: "ec2_api \<Rightarrow> hist \<Rightarrow> string set" where
  "given_before api h = {r. \<exists>h' n ty c. length h' < length h \<and> r \<in> set (fst (AssignIPv4Resources api h' n ty c))}"

lemma given_before_fresh:
  assumes "assigns_fresh api taken" "AssignIPv4Resources api h n ty c = (rs, err)"
  shows "set rs \<inter> given_before api h = {}" "set rs \<subseteq> given_before api (ev # h)" "given_before api h \<subseteq> given_before api (ev # h)"
proof -
  have "r \<notin> set (fst (AssignIPv4Resources api h' n' ty' c'))"
    if "length h' < length h" "r \<in> set rs" for r h' n' ty' c'
  proof -
    have "length h \<noteq> length h'" using that(1) by simp
    then have "set (fst (AssignIPv4Resources api h n ty c)) \<inter> set (fst (AssignIPv4Resources api h' n' ty' c')) = {}"
      using assms(1) unfolding assigns_fresh_def Let_def by blast
    then show ?thesis using that(2) assms(2) by auto
  qed
  then show "set rs \<inter> given_before api h = {}" by (auto simp: given_before_def)
  show "set rs \<subseteq> given_before api (ev # h)"
  proof
    fix r assume "r \<in> set rs"
    then have "r \<in> set (fst (AssignIPv4Resources api h n ty c))" "length h < length (ev # h)" using assms(2) by simp_all
    then show "r \<in> given_before api (ev # h)" unfolding given_before_def by blast
  qed
  show "given_before api h \<subseteq> given_before api (ev # h)"
  proof
    fix r assume "r \<in> given_before api h"
    then obtain h' n ty c where l: "length h' < length h" "r \<in> set (fst (AssignIPv4Resources api h' n ty c))"
      unfolding given_before_def by blast
    have "length h' < length (ev # h)" using l(1) by simp
    then show "r \<in> given_before api (ev # h)" using l(2) unfolding given_before_def by blast
  qed
qed

lemma assign_loop_spec:
  assumes "assigns_fresh api taken" "set (mkeys (resourceToENIMap e)) \<subseteq> taken \<union> given_before api h"
    and "eni_ok e" "\<forall>a \<in> set as. a < length (eniStore e)" "int (length acc) \<le> max 0 required"
    and "assign_loop api ty required as e h acc = (e', h', r)"
  shows "\<exists>new. eni_ok e' \<and> (\<forall>a. slots e' a = slots e a) \<and> attachedENIs e' = attachedENIs e \<and>
    mkeys (resourceToENIMap e') = mkeys (resourceToENIMap e) @ new \<and> int (length (acc @ new)) \<le> max 0 required \<and>
    map eniID (eniStore e') = map eniID (eniStore e) \<and>
    (\<forall>a. 0 \<le> remainingCapacity (eniStore e ! a) \<longrightarrow> 0 \<le> remainingCapacity (eniStore e' ! a)) \<and>
    (case r of Inl (xs, err) \<Rightarrow> xs = [] | Inr xs \<Rightarrow> xs = acc @ new)"
  using assms(2-6)
proof (induction as arbitrary: e h acc)
  case Nil
  then show ?case by (intro exI [of _ "[]"]) auto
next
  case (Cons a as)
  define en where "en = eniStore e ! a"
  consider (stop) "int (length acc) \<ge> required" | (full) "int (length acc) < required" "remainingCapacity en \<le> 0"
    | (ask) "int (length acc) < required" "remainingCapacity en > 0" by linarith
  then show ?case
  proof cases
    case stop
    then show ?thesis using Cons.prems by (intro exI [of _ "[]"]) auto
  next
    case full
    then show ?thesis using Cons.prems(5) Cons.IH [OF Cons.prems(1,2) _ Cons.prems(4)] Cons.prems(3)
      by (simp add: en_def Let_def)
  next
    case ask
    define want where "want = required - int (length acc)"
    define can where "can = (if remainingCapacity en < want then remainingCapacity en else want)"
    define h1 where "h1 = AssignIPv4Call (eniID en) ty can # h"
    obtain rs err where c: "AssignIPv4Resources api h (eniID en) ty can = (rs, err)" by fastforce
    have can: "0 \<le> can" "can \<le> remainingCapacity en" "can \<le> want" using ask by (auto simp: can_def want_def)
    note fresh = assigns_fresh_after [OF assms(1) c can(1)]
    note gb = given_before_fresh [OF assms(1) c]
    define en2 where "en2 = en\<lparr>remainingCapacity := remainingCapacity en - int (length rs)\<rparr>"
    define e2 where "e2 = e\<lparr>eniStore := (eniStore e)[a := en2],
        resourceToENIMap := fold (\<lambda>r m. mput m r a) rs (resourceToENIMap e)\<rparr>"
    have "assign_loop api ty required (a # as) e h acc =
        (case AssignIPv4Resources api h (eniID en) ty can of
           ([], Some err) \<Rightarrow> (e, h1, Inl ([], err))
         | (assigned, _) \<Rightarrow> assign_loop api ty required as
             (e\<lparr>eniStore := (eniStore e)[a := en\<lparr>remainingCapacity := remainingCapacity en - int (length assigned)\<rparr>],
                resourceToENIMap := fold (\<lambda>r m. mput m r a) assigned (resourceToENIMap e)\<rparr>) h1 (acc @ assigned))"
      using ask unfolding en_def can_def want_def h1_def by (simp add: Let_def)
    then have unf: "assign_loop api ty required (a # as) e h acc =
        (if rs = [] \<and> err \<noteq> None then (e, h1, Inl ([], the err)) else assign_loop api ty required as e2 h1 (acc @ rs))"
      unfolding c by (cases rs; cases err) (simp_all add: e2_def en2_def)
    show ?thesis
    proof (cases "rs = [] \<and> err \<noteq> None")
      case True
      then have "e' = e" "r = Inl ([], the err)" using Cons.prems(5) [unfolded unf] by simp_all
      then show ?thesis using Cons.prems(2,4) by (intro exI [of _ "[]"]) simp
    next
      case False
      have run: "assign_loop api ty required as e2 h1 (acc @ rs) = (e', h', r)"
        using Cons.prems(5) [unfolded unf] False by (simp split: if_splits)
      have disj: "set rs \<inter> set (mkeys (resourceToENIMap e)) = {}"
        using Cons.prems(1) fresh(3) gb(1) by blast
      have m: "resourceToENIMap e2 = resourceToENIMap e @ map (\<lambda>r. (r, a)) rs"
        using fold_mput_fresh [OF fresh(1) disj, of a] by (simp add: e2_def)
      have keys: "mkeys (resourceToENIMap e2) = mkeys (resourceToENIMap e) @ rs"
        by (simp add: m mkeys_def comp_def)
      have a: "a < length (eniStore e)" using Cons.prems(3) by simp
      have f2: "attachedENIs e2 = attachedENIs e" "length (eniStore e2) = length (eniStore e)"
        by (simp_all add: e2_def)
      have "distinct (mkeys (resourceToENIMap e2))"
        using Cons.prems(2) fresh(1) disj keys by (auto simp: eni_ok_def wf_map_def)
      then have ok: "eni_ok e2"
        using Cons.prems(2) a f2 unfolding eni_ok_def wf_map_def m by auto
      have sl: "slots e2 b = slots e b" for b
        unfolding slots_def m by (auto simp: e2_def en2_def en_def nth_list_update a)
      have k2: "set (mkeys (resourceToENIMap e2)) \<subseteq> taken \<union> given_before api h1"
        using keys Cons.prems(1) gb(2) [of "AssignIPv4Call (eniID en) ty can"] gb(3) [of "AssignIPv4Call (eniID en) ty can"] unfolding h1_def
        by auto
      have len: "int (length (acc @ rs)) \<le> max 0 required" using fresh(2) can(3) by (simp add: want_def)
      have as2: "\<forall>a \<in> set as. a < length (eniStore e2)" using Cons.prems(3) by (simp add: e2_def)
      obtain new where n: "eni_ok e'" "\<forall>a. slots e' a = slots e2 a" "attachedENIs e' = attachedENIs e2"
          "mkeys (resourceToENIMap e') = mkeys (resourceToENIMap e2) @ new"
          "int (length ((acc @ rs) @ new)) \<le> max 0 required"
          "map eniID (eniStore e') = map eniID (eniStore e2)"
          "\<forall>a. 0 \<le> remainingCapacity (eniStore e2 ! a) \<longrightarrow> 0 \<le> remainingCapacity (eniStore e' ! a)"
          "case r of Inl (xs, err) \<Rightarrow> xs = [] | Inr xs \<Rightarrow> xs = (acc @ rs) @ new"
        using Cons.IH [OF k2 ok as2 len run] by blast
      have ids: "map eniID (eniStore e2) = map eniID (eniStore e)"
        by (simp add: e2_def en2_def en_def map_update) (metis list_update_id map_update)
      have cap: "0 \<le> remainingCapacity (eniStore e ! b) \<Longrightarrow> 0 \<le> remainingCapacity (eniStore e2 ! b)" for b
        using fresh(2) can(2) a by (auto simp: e2_def en2_def nth_list_update)
      show ?thesis
        using n sl keys ids cap by (intro exI [of _ "rs @ new"]) (auto simp: f2 split: sum.splits)
    qed
  qed
qed

section \<open>Unassigning\<close>

lemma fold_mdel_spec:
  assumes "wf_map m" "distinct rs" "\<forall>r \<in> set rs. mget m r = Some a"
  shows "wf_map (fold (\<lambda>r m. mdel m r) rs m)"
    and "mget (fold (\<lambda>r m. mdel m r) rs m) k = (if k \<in> set rs then None else mget m k)"
    and "set (fold (\<lambda>r m. mdel m r) rs m) \<subseteq> set m"
    and "held (fold (\<lambda>r m. mdel m r) rs m) b + (if a = b then length rs else 0) = held m b"
proof -
  have "wf_map (fold (\<lambda>r m. mdel m r) rs m) \<and>
      mget (fold (\<lambda>r m. mdel m r) rs m) k = (if k \<in> set rs then None else mget m k) \<and>
      set (fold (\<lambda>r m. mdel m r) rs m) \<subseteq> set m \<and>
      held (fold (\<lambda>r m. mdel m r) rs m) b + (if a = b then length rs else 0) = held m b"
    using assms
  proof (induction rs arbitrary: m)
    case (Cons r rs)
    have "mget m r = Some a" using Cons.prems(3) by simp
    note hd = held_mdel [OF Cons.prems(1) this, of b]
    have "wf_map (mdel m r)" "distinct rs" "\<forall>x \<in> set rs. mget (mdel m r) x = Some a"
      using Cons.prems by auto
    from Cons.IH [OF this] show ?case
      using hd set_mdel [of m r] by (auto split: if_splits)
  qed simp
  then show "wf_map (fold (\<lambda>r m. mdel m r) rs m)"
    and "mget (fold (\<lambda>r m. mdel m r) rs m) k = (if k \<in> set rs then None else mget m k)"
    and "set (fold (\<lambda>r m. mdel m r) rs m) \<subseteq> set m"
    and "held (fold (\<lambda>r m. mdel m r) rs m) b + (if a = b then length rs else 0) = held m b"
    by blast+
qed

lemma group_spec:
  shows "wf_map (groupResourcesPerENI e rs)"
    and "mgetd [] (groupResourcesPerENI e rs) k = filter (\<lambda>r. mget (resourceToENIMap e) r = k) rs"
    and "mset (mflat (groupResourcesPerENI e rs)) = mset rs"
    and "(k, xs) \<in> set (groupResourcesPerENI e rs) \<Longrightarrow> xs \<noteq> []"
proof -
  let ?g = "groupResourcesPerENI e"
  have 1: "wf_map (?g rs) \<and> (\<forall>k. mgetd [] (?g rs) k = filter (\<lambda>r. mget (resourceToENIMap e) r = k) rs) \<and>
      mset (mflat (?g rs)) = mset rs \<and> (\<forall>(k, xs) \<in> set (?g rs). xs \<noteq> [])"
  proof (induction rs rule: rev_induct)
    case Nil
    then show ?case by (simp add: groupResourcesPerENI_def mgetd_def)
  next
    case (snoc r rs)
    define k where "k = mget (resourceToENIMap e) r"
    have step: "?g (rs @ [r]) = mput (?g rs) k (mgetd [] (?g rs) k @ [r])"
      by (simp add: groupResourcesPerENI_def Let_def k_def)
    have wf: "wf_map (?g rs)" and ne: "\<forall>(k, xs) \<in> set (?g rs). xs \<noteq> []" using snoc by auto
    have "mset (mflat (?g rs)) = mset (mgetd [] (?g rs) k) + mset (mflat (mdel (?g rs) k))"
      by (rule mset_mflat_split [OF wf])
    then have "mset (mflat (?g (rs @ [r]))) = mset (rs @ [r])"
      using snoc wf by (simp add: step mset_mflat_mput)
    moreover have "\<forall>(k, xs) \<in> set (?g (rs @ [r])). xs \<noteq> []"
      using ne wf by (auto simp: step set_mput)
    ultimately show ?case using snoc wf by (auto simp: step k_def)
  qed
  then show "wf_map (?g rs)" "mgetd [] (?g rs) k = filter (\<lambda>r. mget (resourceToENIMap e) r = k) rs"
      "mset (mflat (?g rs)) = mset rs"
    by blast+
  show "(k, xs) \<in> set (?g rs) \<Longrightarrow> xs \<noteq> []" using 1 by blast
qed

lemma group_members:
  "(k, xs) \<in> set (groupResourcesPerENI e rs) \<Longrightarrow> xs = filter (\<lambda>r. mget (resourceToENIMap e) r = k) rs"
  using group_spec(2) [of e rs k] mem_mget [OF group_spec(1)] by (simp add: mgetd_def)

lemma unassign_panics: "unassign_loop api ty gs e h failed errors = None \<longleftrightarrow> None \<in> fst ` set gs"
  by (induction api ty gs e h failed errors rule: unassign_loop.induct) (auto simp: Let_def split: option.splits)

lemma unassign_loop_spec:
  assumes "eni_ok e" "distinct (concat (map snd gs))"
    and "\<forall>(k, xs) \<in> set gs. \<exists>a. k = Some a \<and> (\<forall>r \<in> set xs. mget (resourceToENIMap e) r = Some a)"
    and "\<forall>(k, xs) \<in> set gs. xs \<noteq> []"
  shows "\<exists>e' h' f errs. unassign_loop api ty gs e h failed errors = Some (e', h', failed @ f, errors @ errs) \<and>
    eni_ok e' \<and> (\<forall>a. slots e' a = slots e a) \<and> attachedENIs e' = attachedENIs e \<and>
    map eniID (eniStore e') = map eniID (eniStore e) \<and> set f \<subseteq> set (concat (map snd gs)) \<and>
    (\<forall>k. mget (resourceToENIMap e') k =
       (if k \<in> set (concat (map snd gs)) \<and> k \<notin> set f then None else mget (resourceToENIMap e) k)) \<and>
    (errs = [] \<longleftrightarrow> f = []) \<and> (\<exists>evs. h' = evs @ h \<and> (\<forall>x. DeleteNetworkInterfaceCall x \<notin> set evs))"
  using assms
proof (induction gs arbitrary: e h failed errors)
  case Nil
  then show ?case by (intro exI [of _ e] exI [of _ h] exI [of _ "[]"]) simp
next
  case (Cons g gs)
  obtain a xs where g: "g = (Some a, xs)" and xs: "\<forall>r \<in> set xs. mget (resourceToENIMap e) r = Some a" "xs \<noteq> []"
    using Cons.prems(3,4) by (cases g) auto
  define en where "en = eniStore e ! a"
  define h1 where "h1 = UnassignIPv4Call (eniID en) ty xs # h"
  have d: "distinct xs" "distinct (concat (map snd gs))" "set xs \<inter> set (concat (map snd gs)) = {}"
    using Cons.prems(2) by (auto simp: g)
  show ?case
  proof (cases "UnassignIPv4Resources api h (eniID en) ty xs")
    case (Some err)
    have g2: "\<forall>(k, xs) \<in> set gs. \<exists>a. k = Some a \<and> (\<forall>r \<in> set xs. mget (resourceToENIMap e) r = Some a)"
        "\<forall>(k, xs) \<in> set gs. xs \<noteq> []" using Cons.prems(3,4) by auto
    obtain e' h' f errs evs where i: "unassign_loop api ty gs e h1 (failed @ xs) (errors @ [err]) =
          Some (e', h', (failed @ xs) @ f, (errors @ [err]) @ errs)" "eni_ok e'" "\<forall>a. slots e' a = slots e a"
        "attachedENIs e' = attachedENIs e" "map eniID (eniStore e') = map eniID (eniStore e)"
        "set f \<subseteq> set (concat (map snd gs))"
        "\<forall>k. mget (resourceToENIMap e') k =
           (if k \<in> set (concat (map snd gs)) \<and> k \<notin> set f then None else mget (resourceToENIMap e) k)"
        "h' = evs @ h1" "\<forall>x. DeleteNetworkInterfaceCall x \<notin> set evs"
      using Cons.IH [OF Cons.prems(1) d(2) g2, of h1 "failed @ xs" "errors @ [err]"] by metis
    have "unassign_loop api ty (g # gs) e h failed errors = Some (e', h', failed @ (xs @ f), errors @ (err # errs))"
      using i(1) Some by (simp add: g Let_def en_def h1_def)
    moreover have "h' = (evs @ [UnassignIPv4Call (eniID en) ty xs]) @ h" using i(8) by (simp add: h1_def)
    moreover have "\<forall>x. DeleteNetworkInterfaceCall x \<notin> set (evs @ [UnassignIPv4Call (eniID en) ty xs])" using i(9) by simp
    moreover have "set (xs @ f) \<subseteq> set (concat (map snd (g # gs)))" using i(6) by (auto simp: g)
    moreover have "\<forall>k. mget (resourceToENIMap e') k =
        (if k \<in> set (concat (map snd (g # gs))) \<and> k \<notin> set (xs @ f) then None else mget (resourceToENIMap e) k)"
      using i(7) d(3) by (auto simp: g)
    ultimately show ?thesis using i(2-5) xs(2) by (intro exI [of _ e'] exI [of _ h'] exI [of _ "xs @ f"] exI [of _ "err # errs"]) blast
  next
    case None
    define en2 where "en2 = en\<lparr>remainingCapacity := remainingCapacity en + int (length xs)\<rparr>"
    define e2 where "e2 = e\<lparr>eniStore := (eniStore e)[a := en2],
      resourceToENIMap := fold (\<lambda>r m. mdel m r) xs (resourceToENIMap e)\<rparr>"
    have wf: "wf_map (resourceToENIMap e)" using Cons.prems(1) by (simp add: eni_ok_def)
    note del = fold_mdel_spec [OF wf d(1) xs(1)]
    have f2: "resourceToENIMap e2 = fold (\<lambda>r m. mdel m r) xs (resourceToENIMap e)" "attachedENIs e2 = attachedENIs e"
        "length (eniStore e2) = length (eniStore e)"
      by (simp_all add: e2_def)
    have "(hd xs, a) \<in> set (resourceToENIMap e)" using xs mget_mem by (metis hd_in_set)
    then have a: "a < length (eniStore e)" using Cons.prems(1) by (auto simp: eni_ok_def)
    have ok: "eni_ok e2" using Cons.prems(1) del(1,3) unfolding eni_ok_def f2 by blast
    have sl: "slots e2 b = slots e b" for b
      using del(4) [of b] unfolding slots_def f2(1) by (auto simp: e2_def en2_def en_def nth_list_update a)
    have ids: "map eniID (eniStore e2) = map eniID (eniStore e)"
      by (simp add: e2_def en2_def en_def map_update) (metis list_update_id map_update)
    have g2: "\<forall>(k, ys) \<in> set gs. \<exists>a. k = Some a \<and> (\<forall>r \<in> set ys. mget (resourceToENIMap e2) r = Some a)"
        "\<forall>(k, xs) \<in> set gs. xs \<noteq> []"
      using Cons.prems(3,4) d(3) unfolding f2(1) by (fastforce simp: del(2))+
    obtain e' h' f errs evs where i: "unassign_loop api ty gs e2 h1 failed errors = Some (e', h', failed @ f, errors @ errs)"
        "eni_ok e'" "\<forall>a. slots e' a = slots e2 a"
        "attachedENIs e' = attachedENIs e2" "map eniID (eniStore e') = map eniID (eniStore e2)"
        "set f \<subseteq> set (concat (map snd gs))"
        "\<forall>k. mget (resourceToENIMap e') k =
           (if k \<in> set (concat (map snd gs)) \<and> k \<notin> set f then None else mget (resourceToENIMap e2) k)"
        "errs = [] \<longleftrightarrow> f = []" "h' = evs @ h1" "\<forall>x. DeleteNetworkInterfaceCall x \<notin> set evs"
      using Cons.IH [OF ok d(2) g2, of h1 failed errors] by metis
    have "unassign_loop api ty (g # gs) e h failed errors = Some (e', h', failed @ f, errors @ errs)"
      using i(1) None by (simp add: g Let_def en_def h1_def e2_def en2_def)
    moreover have "h' = (evs @ [UnassignIPv4Call (eniID en) ty xs]) @ h" using i(9) by (simp add: h1_def)
    moreover have "\<forall>x. DeleteNetworkInterfaceCall x \<notin> set (evs @ [UnassignIPv4Call (eniID en) ty xs])" using i(10) by simp
    moreover have "set f \<subseteq> set (concat (map snd (g # gs)))" using i(6) by (auto simp: g)
    moreover have "\<forall>k. mget (resourceToENIMap e') k =
        (if k \<in> set (concat (map snd (g # gs))) \<and> k \<notin> set f then None else mget (resourceToENIMap e) k)"
      using i(6,7) d(3) unfolding f2(1) by (auto simp: g del(2))
    ultimately show ?thesis using i(2-5,8) sl ids f2(2)
      by (intro exI [of _ e'] exI [of _ h'] exI [of _ f] exI [of _ errs]) simp
  qed
qed

end
