(* ===== verification/Eni_Props.thy ===== *)
theory Eni_Props
  imports Eni_Inv
begin

text \<open>
  The properties of the ENI manager's operations.
\<close>

section \<open>Loading\<close>

definition secondaries :: "(string \<times> bool) list \<Rightarrow> string list" where
  "secondaries ips = map fst (filter (\<lambda>(ip, primary). \<not> primary) ips)"

lemma secondaries_simps [simp]:
  "secondaries [] = []" "secondaries ((ip, p) # ips) = (if p then secondaries ips else ip # secondaries ips)"
  by (simp_all add: secondaries_def)

definition interface_resources :: "instance_interface \<Rightarrow> string list" where
  "interface_resources nw = (case IPrivateIpAddresses nw of None \<Rightarrow> [] | Some ips \<Rightarrow> secondaries ips @ IIpv4Prefixes nw)"

definition primaries :: "instance_interface \<Rightarrow> nat" where
  "primaries nw = (case IPrivateIpAddresses nw of None \<Rightarrow> 0 | Some ips \<Rightarrow> length (filter snd ips))"

definition usable :: "instance_interface list \<Rightarrow> instance_interface list" where
  "usable nws = filter (\<lambda>nw. IPrivateIpAddresses nw \<noteq> None) nws"

lemma load_addresses_eq:
  "load_addresses a ips remaining m availIPs =
     (remaining - int (length ips), fold (\<lambda>r m. mput m r a) (secondaries ips) m, availIPs @ secondaries ips)"
  by (induction a ips remaining m availIPs rule: load_addresses.induct) auto

lemma load_prefixes_eq:
  "load_prefixes a ps remaining m avail = (remaining - int (length ps), fold (\<lambda>r m. mput m r a) ps m, avail @ ps)"
  by (induction a ps remaining m avail rule: load_prefixes.induct) auto

lemma secondaries_length: "length (secondaries ips) + length (filter snd ips) = length ips"
  by (induction ips) (auto split: prod.splits)

lemma load_enis_spec:
  assumes "eni_ok e" "distinct (mkeys (resourceToENIMap e) @ concat (map interface_resources nws))"
    and "load_enis ipLimit nws e availIPs availPrefixes = (e', ips, prefixes)"
  shows "eni_ok e' \<and> ips = availIPs @ concat (map (\<lambda>nw. secondaries (the (IPrivateIpAddresses nw))) (usable nws)) \<and>
    prefixes = availPrefixes @ concat (map IIpv4Prefixes (usable nws)) \<and>
    mkeys (resourceToENIMap e') = mkeys (resourceToENIMap e) @ concat (map interface_resources nws) \<and>
    attachedENIs e' = attachedENIs e @ [length (eniStore e) ..< length (eniStore e')] \<and>
    map eniID (eniStore e') = map eniID (eniStore e) @ map INetworkInterfaceId (usable nws) \<and>
    (\<forall>a < length (eniStore e). slots e' a = slots e a) \<and>
    (\<forall>k < length (usable nws). slots e' (length (eniStore e) + k) = ipLimit - int (primaries (usable nws ! k)))"
  using assms
proof (induction nws arbitrary: e availIPs availPrefixes)
  case Nil
  then show ?case by (simp add: usable_def)
next
  case (Cons nw nws)
  show ?case
  proof (cases "IPrivateIpAddresses nw")
    case None
    have "usable (nw # nws) = usable nws" "interface_resources nw = []"
      using None by (simp_all add: usable_def interface_resources_def)
    then show ?thesis using Cons.IH [OF Cons.prems(1)] Cons.prems(2,3) None by simp
  next
    case (Some addrs)
    define a where "a = length (eniStore e)"
    define rs where "rs = interface_resources nw"
    have rs: "rs = secondaries addrs @ IIpv4Prefixes nw" using Some by (simp add: rs_def interface_resources_def)
    define en where "en = \<lparr>eniID = INetworkInterfaceId nw,
      remainingCapacity = ipLimit - int (length addrs) - int (length (IIpv4Prefixes nw))\<rparr>"
    define e1 where "e1 = \<lparr>eniStore = eniStore e @ [en], attachedENIs = attachedENIs e @ [a],
      resourceToENIMap = fold (\<lambda>r m. mput m r a) rs (resourceToENIMap e)\<rparr>"
    have run: "load_enis ipLimit nws e1 (availIPs @ secondaries addrs) (availPrefixes @ IIpv4Prefixes nw) = (e', ips, prefixes)"
      using Cons.prems(3) Some by (simp add: load_addresses_eq load_prefixes_eq Let_def e1_def a_def en_def rs)
    have "distinct rs" "set rs \<inter> set (mkeys (resourceToENIMap e)) = {}"
      using Cons.prems(2) by (auto simp: rs_def)
    then have m: "resourceToENIMap e1 = resourceToENIMap e @ map (\<lambda>r. (r, a)) rs"
      by (simp add: e1_def fold_mput_fresh)
    have keys: "mkeys (resourceToENIMap e1) = mkeys (resourceToENIMap e) @ rs"
      by (simp add: m mkeys_def comp_def)
    have f1: "eniStore e1 = eniStore e @ [en]" "attachedENIs e1 = attachedENIs e @ [a]"
      by (simp_all add: e1_def)
    have d1: "distinct (mkeys (resourceToENIMap e1) @ concat (map interface_resources nws))"
      using Cons.prems(2) unfolding keys by (simp add: rs_def)
    have ok1: "eni_ok e1"
      using Cons.prems(1) d1 unfolding eni_ok_def wf_map_def keys unfolding f1 m by (fastforce simp: a_def)
    have held0: "held (resourceToENIMap e) a = 0"
      using Cons.prems(1) unfolding held_zero by (fastforce simp: eni_ok_def a_def)
    have old: "slots e1 b = slots e b" if "b < a" for b
      using that by (simp add: slots_def m f1 nth_append a_def)
    have new: "slots e1 a = ipLimit - int (primaries nw)"
      using held0 Some secondaries_length [of addrs]
      by (simp add: slots_def m f1 rs primaries_def) (simp add: en_def a_def)
    have u: "usable (nw # nws) = nw # usable nws" using Some by (simp add: usable_def)
    note ih = Cons.IH [OF ok1 d1 run]
    have len: "length (eniStore e1) = Suc a" by (simp add: f1 a_def)
    have ids: "length (eniStore e') = length (eniStore e1) + length (usable nws)"
      using ih by (metis length_append length_map)
    have "slots e' (a + k) = ipLimit - int (primaries (usable (nw # nws) ! k))" if "k < length (usable (nw # nws))" for k
    proof (cases k)
      case 0
      then show ?thesis using ih new by (simp add: len u)
    next
      case (Suc j)
      then show ?thesis using ih that by (simp add: len u)
    qed
    moreover have "slots e' b = slots e b" if "b < a" for b using ih old that by (simp add: len)
    moreover have "attachedENIs e' = attachedENIs e @ [a ..< length (eniStore e')]"
    proof -
      have "a < length (eniStore e')" using ids len by simp
      then have "[a ..< length (eniStore e')] = a # [Suc a ..< length (eniStore e')]" by (rule upt_conv_Cons)
      moreover have "attachedENIs e' = (attachedENIs e @ [a]) @ [Suc a ..< length (eniStore e')]"
        using ih unfolding len f1(2) by blast
      ultimately show ?thesis by simp
    qed
    ultimately show ?thesis using ih Some unfolding a_def [symmetric] by (simp add: u keys rs_def f1 en_def)
  qed
qed

text \<open>\<open>InitResources\<close> on a new manager, when no address or prefix is listed twice: it returns exactly
  the secondary addresses, each with the subnet mask, and the prefixes of the interfaces, knows the
  interface of each, and every interface has as many slots (free or in use) as the instance type
  allows minus its primary addresses.\<close>

theorem init_resources:
  assumes "GetInstanceNetworkInterface api h (instanceID i) = Inr nws" "Limits (instanceType i) = Some limits"
    and "distinct (concat (map interface_resources nws))"
    and "InitResources Limits api i NewENIManager h = (e, h', r)"
  shows "eni_ok e \<and>
    r = Inr \<lparr>PrivateIPv4Addresses = map (\<lambda>ip. ip @ ''/'' @ subnetMask i)
               (concat (map (\<lambda>nw. secondaries (the (IPrivateIpAddresses nw))) (usable nws))),
             IPv4Prefixes = concat (map IIpv4Prefixes (usable nws))\<rparr> \<and>
    mkeys (resourceToENIMap e) = concat (map interface_resources nws) \<and>
    attachedENIs e = [0 ..< length (usable nws)] \<and> map eniID (eniStore e) = map INetworkInterfaceId (usable nws) \<and>
    (\<forall>k < length (usable nws). slots e k = IPv4PerInterface limits - int (primaries (usable nws ! k)))"
proof -
  obtain e1 ips prefixes where l: "load_enis (IPv4PerInterface limits) nws NewENIManager [] [] = (e1, ips, prefixes)"
    by (metis prod_cases3)
  have ok: "eni_ok NewENIManager" by (simp add: eni_ok_def NewENIManager_def)
  have d: "distinct (mkeys (resourceToENIMap NewENIManager) @ concat (map interface_resources nws))"
    using assms(3) by (simp add: NewENIManager_def mkeys_def)
  note s = load_enis_spec [OF ok d l]
  have e: "e = e1" and r: "r = Inr \<lparr>PrivateIPv4Addresses = addSubnetMaskToIPSlice i ips, IPv4Prefixes = prefixes\<rparr>"
    using assms(4) by (simp_all add: InitResources_def assms(1,2) l Let_def)
  have "length (eniStore e1) = length (usable nws)" using s by (metis NewENIManager_def append_Nil eni_manager.select_convs(1) length_map list.map(1))
  then show ?thesis using s by (simp add: e r addSubnetMaskToIPSlice_def NewENIManager_def mkeys_def)
qed

definition sample_interfaces :: "instance_interface list" where
  "sample_interfaces =
     [\<lparr>INetworkInterfaceId = ''eni-0'', InterfaceType = Some ''interface'', ISubnetId = ''subnet-1'', IGroups = [],
       IPrivateIpAddresses = Some [(''10.0.0.4'', True), (''10.0.0.5'', False)], IIpv4Prefixes = [''10.0.1.0/28''],
       IDeviceIndex = 0, IPrivateIpAddress = Some ''10.0.0.4'', IConnTracking = None\<rparr>,
      \<lparr>INetworkInterfaceId = ''eni-1'', InterfaceType = Some ''interface'', ISubnetId = ''subnet-1'', IGroups = [],
       IPrivateIpAddresses = Some [(''10.0.0.8'', True), (''10.0.0.9'', False)], IIpv4Prefixes = [],
       IDeviceIndex = 1, IPrivateIpAddress = Some ''10.0.0.8'', IConnTracking = None\<rparr>]"

text \<open>EC2 with these interfaces, which assigns one resource per call.\<close>

definition sample_ip_api :: ec2_api where
  "sample_ip_api = sample_api
     \<lparr>GetInstanceNetworkInterface := (\<lambda>h n. Inr sample_interfaces),
      AssignIPv4Resources := (\<lambda>h n ty c. (if 0 < c then [''10.0.9.'' @ Itoa (int (length h))] else [], None))\<rparr>"

definition sample_enis :: eni_manager where
  "sample_enis = fst (InitResources sample_limits sample_ip_api sample_instance NewENIManager [])"

lemma sample_enis_simps:
  "sample_enis =
     \<lparr>eniStore = [\<lparr>eniID = ''eni-0'', remainingCapacity = 1\<rparr>, \<lparr>eniID = ''eni-1'', remainingCapacity = 2\<rparr>],
      attachedENIs = [0, 1], resourceToENIMap = [(''10.0.0.5'', 0), (''10.0.1.0/28'', 0), (''10.0.0.9'', 1)]\<rparr>"
  by code_simp

theorem init_resources_witness:
  "slots sample_enis 0 = 4 - 1 \<and> slots sample_enis 1 = 4 - 1 \<and> attachedENIs sample_enis = [0 ..< 2]"
proof -
  obtain limits where lim: "sample_limits (instanceType sample_instance) = Some limits" "IPv4PerInterface limits = 4"
    by (simp add: sample_limits_def sample_instance_def NewEC2Instance_def limits_a1_medium_def)
  obtain h' r where r: "InitResources sample_limits sample_ip_api sample_instance NewENIManager [] = (sample_enis, h', r)"
    by (metis sample_enis_def fst_conv surj_pair)
  have d: "distinct (concat (map interface_resources sample_interfaces))" by code_simp
  have u: "usable sample_interfaces = sample_interfaces" "length sample_interfaces = 2"
      "primaries (sample_interfaces ! 0) = 1" "primaries (sample_interfaces ! 1) = 1" by code_simp+
  have "GetInstanceNetworkInterface sample_ip_api [] (instanceID sample_instance) = Inr sample_interfaces"
    by (simp add: sample_ip_api_def)
  from init_resources [OF this lim(1) d r] show ?thesis using u lim(2) by simp
qed

section \<open>Creating\<close>

lemma create_spec:
  assumes "eni_ok e" "assigns_fresh api (set (mkeys (resourceToENIMap e)))" "0 \<le> required"
    and "CreateIPV4Resource api i required ty e h = (e', h', rs, err)"
  shows "eni_ok e' \<and> (\<forall>a. slots e' a = slots e a) \<and> attachedENIs e' = attachedENIs e \<and>
    (\<forall>a. 0 \<le> remainingCapacity (eniStore e ! a) \<longrightarrow> 0 \<le> remainingCapacity (eniStore e' ! a)) \<and>
    (\<exists>new. mkeys (resourceToENIMap e') = mkeys (resourceToENIMap e) @ new \<and> int (length new) \<le> required \<and>
       (err = None \<longrightarrow> int (length new) = required) \<and>
       (rs = [] \<and> err \<noteq> None \<or>
        rs = (if ty = ResourceTypeIPv4Address then map (\<lambda>ip. ip @ ''/'' @ subnetMask i) new else new)))"
proof -
  obtain e1 h1 r where l: "assign_loop api ty required (attachedENIs e) e h [] = (e1, h1, r)" by (metis prod_cases3)
  have att: "\<forall>a \<in> set (attachedENIs e). a < length (eniStore e)" using assms(1) by (simp add: eni_ok_def)
  obtain new where n: "eni_ok e1" "\<forall>a. slots e1 a = slots e a" "attachedENIs e1 = attachedENIs e"
      "mkeys (resourceToENIMap e1) = mkeys (resourceToENIMap e) @ new" "int (length new) \<le> max 0 required"
      "\<forall>a. 0 \<le> remainingCapacity (eniStore e ! a) \<longrightarrow> 0 \<le> remainingCapacity (eniStore e1 ! a)"
      "case r of Inl (xs, err) \<Rightarrow> xs = [] | Inr xs \<Rightarrow> xs = new"
    using assign_loop_spec [OF assms(2) _ assms(1) att _ l, unfolded append_Nil] by fastforce
  show ?thesis
    using assms(3,4) n l
    by (intro conjI exI [of _ new])
      (auto simp: CreateIPV4Resource_def addSubnetMaskToIPSlice_def split: sum.splits if_splits)
qed


lemma sample_enis_ok: "eni_ok sample_enis"
  unfolding sample_enis_simps by code_simp

lemma sample_fresh: "assigns_fresh sample_ip_api (set (mkeys (resourceToENIMap sample_enis)))"
proof -
  define addr where "addr n = ''10.0.9.'' @ Itoa (int n)" for n :: nat
  have inj: "addr n = addr m \<longleftrightarrow> n = m" for n m
    using Itoa_inj [of "int n" "int m"] by (auto simp: addr_def)
  have new: "addr n \<notin> set (mkeys (resourceToENIMap sample_enis))" for n
    by (simp add: addr_def sample_enis_simps mkeys_def)
  have "fst (AssignIPv4Resources sample_ip_api h n ty c) = (if 0 < c then [addr (length h)] else [])" for h n ty c
    by (simp add: sample_ip_api_def addr_def)
  then show ?thesis unfolding assigns_fresh_def Let_def using new inj by simp
qed


section \<open>Deleting\<close>

lemma clean_up_loop_spec:
  "clean_up_loop api lim primary store as h errors = (kept, h', errors') \<Longrightarrow>
   \<exists>evs es. h' = evs @ h \<and> errors' = errors @ es \<and> set kept \<subseteq> set as \<and>
     (\<forall>a \<in> set as - set kept. remainingCapacity (store ! a) = lim \<and> eniID (store ! a) \<noteq> primary) \<and>
     (\<forall>x. DeleteNetworkInterfaceCall x \<in> set evs \<longrightarrow>
        (\<exists>a \<in> set as. eniID (store ! a) = x \<and> remainingCapacity (store ! a) = lim \<and> x \<noteq> primary))"
proof (induction as arbitrary: h errors kept)
  case (Cons a as)
  define en where "en = store ! a"
  consider (keep) k where "\<not> (remainingCapacity en = lim \<and> primary \<noteq> eniID en)" "kept = a # k"
        "clean_up_loop api lim primary store as h errors = (k, h', errors')"
    | (fail) k e where "remainingCapacity en = lim" "primary \<noteq> eniID en" "kept = a # k"
        "clean_up_loop api lim primary store as (DeleteNetworkInterfaceCall (eniID en) # h) (errors @ [e]) = (k, h', errors')"
    | (drop) "remainingCapacity en = lim" "primary \<noteq> eniID en"
        "clean_up_loop api lim primary store as (DeleteNetworkInterfaceCall (eniID en) # h) errors = (kept, h', errors')"
    using Cons.prems by (auto simp: Let_def en_def split: if_splits option.splits prod.splits)
  then show ?case
  proof cases
    case keep
    then show ?thesis using Cons.IH [OF keep(3)] by auto
  next
    case fail
    obtain evs es where i: "h' = (evs @ [DeleteNetworkInterfaceCall (eniID en)]) @ h" "errors' = errors @ (e # es)"
        "set k \<subseteq> set as" "\<forall>a \<in> set as - set k. remainingCapacity (store ! a) = lim \<and> eniID (store ! a) \<noteq> primary"
        "\<forall>x. DeleteNetworkInterfaceCall x \<in> set evs \<longrightarrow>
          (\<exists>a \<in> set as. eniID (store ! a) = x \<and> remainingCapacity (store ! a) = lim \<and> x \<noteq> primary)"
      using Cons.IH [OF fail(4)] by auto
    then show ?thesis using fail(1-3)
      by (intro exI [of _ "evs @ [DeleteNetworkInterfaceCall (eniID en)]"] exI [of _ "e # es"]) (auto simp: en_def)
  next
    case drop
    obtain evs es where i: "h' = (evs @ [DeleteNetworkInterfaceCall (eniID en)]) @ h" "errors' = errors @ es"
        "set kept \<subseteq> set as" "\<forall>a \<in> set as - set kept. remainingCapacity (store ! a) = lim \<and> eniID (store ! a) \<noteq> primary"
        "\<forall>x. DeleteNetworkInterfaceCall x \<in> set evs \<longrightarrow>
          (\<exists>a \<in> set as. eniID (store ! a) = x \<and> remainingCapacity (store ! a) = lim \<and> x \<noteq> primary)"
      using Cons.IH [OF drop(3)] by auto
    then show ?thesis using drop(1,2)
      by (intro exI [of _ "evs @ [DeleteNetworkInterfaceCall (eniID en)]"] exI [of _ es]) (auto simp: en_def)
  qed
qed simp

definition stripped :: "string \<Rightarrow> string list \<Rightarrow> string list" where
  "stripped ty resourceList = (if ty = ResourceTypeIPv4Address then stripSubnetMaskFromIPSlice resourceList else resourceList)"

lemma ordered_groups:
  assumes "\<And>g. mset (ord g) = mset g"
  shows "mset (concat (map snd (ord (groupResourcesPerENI e rs)))) = mset rs"
    and "set (ord (groupResourcesPerENI e rs)) = set (groupResourcesPerENI e rs)"
proof -
  let ?g = "groupResourcesPerENI e rs"
  have "mset (concat (map snd (ord ?g))) = sum_mset (image_mset (\<lambda>e. mset (snd e)) (mset (ord ?g)))"
    by (simp add: mset_concat sum_mset_sum_list comp_def flip: mset_map)
  also have "\<dots> = mset rs"
    unfolding assms using group_spec(3) [of e rs] by (simp add: mset_mflat)
  finally show "mset (concat (map snd (ord ?g))) = mset rs" .
  show "set (ord ?g) = set ?g" using assms mset_eq_setD by blast
qed

text \<open>Deleting known resources, in whatever order the groups are visited: it does not panic, the
  manager forgets exactly the resources EC2 released and returns the others (without their subnet
  mask) with an error, slots only move from used to free, and an interface is deleted only when it
  is not the primary one and has no resource left.\<close>

theorem delete_resources:
  assumes "eni_ok e" "\<forall>a \<in> set (attachedENIs e). slots e a = ip_limit Limits i - 1" "\<And>g. mset (ord g) = mset g"
    and "resourceList \<noteq> []" "distinct (stripped ty resourceList)"
    and "set (stripped ty resourceList) \<subseteq> set (mkeys (resourceToENIMap e))"
  shows "\<exists>e' evs failed err f. DeleteIPV4Resource ord Limits api i resourceList ty e h = Some (e', evs @ h, failed, err) \<and>
    eni_ok e' \<and> (\<forall>a. slots e' a = slots e a) \<and> set f \<subseteq> set (stripped ty resourceList) \<and>
    set (mkeys (resourceToENIMap e')) = set (mkeys (resourceToENIMap e)) - (set (stripped ty resourceList) - set f) \<and>
    failed = f \<and> (err = None \<longrightarrow> f = []) \<and>
    (\<forall>x. DeleteNetworkInterfaceCall x \<in> set evs \<longrightarrow> x \<noteq> primaryENIID i \<and>
       (\<exists>a \<in> set (attachedENIs e). eniID (eniStore e ! a) = x \<and> (\<forall>r. mget (resourceToENIMap e') r \<noteq> Some a)))"
proof -
  define rs where "rs = stripped ty resourceList"
  define gs where "gs = ord (groupResourcesPerENI e rs)"
  note og = ordered_groups [of ord e rs, OF assms(3), folded gs_def]
  have conc: "distinct (concat (map snd gs))" "set (concat (map snd gs)) = set rs"
    using distinct_mset_eq [OF og(1)] mset_eq_setD [OF og(1)] assms(5) unfolding rs_def by blast+
  have known: "\<exists>a. mget (resourceToENIMap e) r = Some a" if "r \<in> set rs" for r
    using that assms(6) by (auto simp: rs_def mkeys_mget)
  have g1: "\<forall>(k, xs) \<in> set gs. xs \<noteq> []" using group_spec(4) unfolding og(2) by fast
  have g2: "\<forall>(k, xs) \<in> set gs. \<exists>a. k = Some a \<and> (\<forall>r \<in> set xs. mget (resourceToENIMap e) r = Some a)"
  proof (clarify)
    fix k xs assume g: "(k, xs) \<in> set gs"
    have xs: "xs = filter (\<lambda>r. mget (resourceToENIMap e) r = k) rs" using g group_members unfolding og(2) by fast
    obtain r where "r \<in> set xs" using g g1 by (cases xs) auto
    then obtain a where "k = Some a" using known [of r] xs by auto
    then show "\<exists>a. k = Some a \<and> (\<forall>r \<in> set xs. mget (resourceToENIMap e) r = Some a)" using xs by auto
  qed
  obtain e1 h1 f errs evs1 where u: "unassign_loop api ty gs e h [] [] = Some (e1, h1, f, errs)" "eni_ok e1"
      "\<forall>a. slots e1 a = slots e a" "attachedENIs e1 = attachedENIs e" "map eniID (eniStore e1) = map eniID (eniStore e)"
      "set f \<subseteq> set rs" "\<forall>k. mget (resourceToENIMap e1) k =
         (if k \<in> set rs \<and> k \<notin> set f then None else mget (resourceToENIMap e) k)"
      "errs = [] \<longleftrightarrow> f = []" "h1 = evs1 @ h" "\<forall>x. DeleteNetworkInterfaceCall x \<notin> set evs1"
    using unassign_loop_spec [OF assms(1) conc(1) g2 g1, of api ty h "[]" "[]"] unfolding conc(2) append_Nil by blast
  obtain att h2 errs2 where c: "clean_up_loop api (ip_limit Limits i - 1) (primaryENIID i) (eniStore e1) (attachedENIs e1) h1 errs =
      (att, h2, errs2)" by (metis prod_cases3)
  obtain evs2 es where cs: "h2 = evs2 @ h1" "errs2 = errs @ es" "set att \<subseteq> set (attachedENIs e1)"
      "\<forall>x. DeleteNetworkInterfaceCall x \<in> set evs2 \<longrightarrow> (\<exists>a \<in> set (attachedENIs e1). eniID (eniStore e1 ! a) = x \<and>
         remainingCapacity (eniStore e1 ! a) = ip_limit Limits i - 1 \<and> x \<noteq> primaryENIID i)"
    using clean_up_loop_spec [OF c] by blast
  define e' where "e' = e1\<lparr>attachedENIs := att\<rparr>"
  define err where "err = (if errs2 \<noteq> [] then Some (FailedToUnassign ty errs2) else None)"
  have failed: "(if errs2 \<noteq> [] then f else []) = f" "err = None \<longrightarrow> f = []" using u(8) cs(2) by (auto simp: err_def)
  have run: "DeleteIPV4Resource ord Limits api i resourceList ty e h = Some (e', (evs2 @ evs1) @ h, f, err)"
    using assms(4) u(1) c failed(1)
    by (simp add: DeleteIPV4Resource_def Let_def gs_def rs_def stripped_def e'_def err_def cs(1) u(9))
  have keys: "set (mkeys (resourceToENIMap e')) = set (mkeys (resourceToENIMap e)) - (set rs - set f)"
  proof (intro set_eqI)
    fix k
    show "k \<in> set (mkeys (resourceToENIMap e')) \<longleftrightarrow> k \<in> set (mkeys (resourceToENIMap e)) - (set rs - set f)"
      using u(7) [rule_format, of k] by (auto simp: e'_def mkeys_mget split: if_splits)
  qed
  have ok: "eni_ok e'" using u(2) cs(3) unfolding eni_ok_def e'_def by auto
  have sl: "slots e' a = slots e a" for a using u(3) by (simp add: slots_def e'_def)
  have dels: "x \<noteq> primaryENIID i \<and> (\<exists>a \<in> set (attachedENIs e). eniID (eniStore e ! a) = x \<and>
      (\<forall>r. mget (resourceToENIMap e') r \<noteq> Some a))" if x: "DeleteNetworkInterfaceCall x \<in> set (evs2 @ evs1)" for x
  proof -
    obtain a where a: "a \<in> set (attachedENIs e)" "eniID (eniStore e1 ! a) = x"
        "remainingCapacity (eniStore e1 ! a) = ip_limit Limits i - 1" "x \<noteq> primaryENIID i"
      using x u(4,10) cs(4) by auto
    have "held (resourceToENIMap e1) a = 0"
      using a(3) assms(2) [rule_format, OF a(1)] u(3) [rule_format, of a] by (simp add: slots_def)
    then have "\<forall>r. mget (resourceToENIMap e') r \<noteq> Some a"
      unfolding held_zero e'_def using mget_mem by fastforce
    moreover have "eniID (eniStore e ! a) = x"
    proof -
      have "a < length (eniStore e)" using a(1) assms(1) by (simp add: eni_ok_def)
      moreover have "length (eniStore e1) = length (eniStore e)" using u(5) by (metis length_map)
      ultimately show ?thesis using u(5) a(2) by (metis nth_map)
    qed
    ultimately show ?thesis using a(1,4) by blast
  qed
  show ?thesis
    unfolding rs_def [symmetric]
    by (rule exI [of _ e'], rule exI [of _ "evs2 @ evs1"], rule exI [of _ f], rule exI [of _ err], rule exI [of _ f])
      (use run failed(2) ok sl u(6) keys dels in blast)
qed

theorem delete_resources_witness:
  "\<exists>e' evs failed err. DeleteIPV4Resource (\<lambda>g. g) sample_limits sample_ip_api sample_instance [''10.0.0.9/16'']
     ResourceTypeIPv4Address sample_enis [] = Some (e', evs @ [], failed, err) \<and> eni_ok e' \<and> slots e' 1 = slots sample_enis 1"
proof -
  have s: "\<forall>a \<in> set (attachedENIs sample_enis). slots sample_enis a = ip_limit sample_limits sample_instance - 1"
    unfolding sample_enis_simps by code_simp
  have t: "stripped ResourceTypeIPv4Address [''10.0.0.9/16''] = [''10.0.0.9'']" by code_simp
  have k: "set (stripped ResourceTypeIPv4Address [''10.0.0.9/16'']) \<subseteq> set (mkeys (resourceToENIMap sample_enis))"
    unfolding t by (simp add: sample_enis_simps mkeys_def)
  have d: "distinct (stripped ResourceTypeIPv4Address [''10.0.0.9/16''])" "[''10.0.0.9/16''] \<noteq> []" unfolding t by simp_all
  show ?thesis
    using delete_resources [OF sample_enis_ok s _ d(2,1) k, of "\<lambda>g. g" sample_ip_api "[]"] by blast
qed

text \<open>\<open>DeleteIPV4Resource\<close> panics, with a nil pointer, exactly when it is asked for a resource that is not
  in its map.\<close>

theorem delete_panics_iff:
  assumes "\<And>g. mset (ord g) = mset g"
  shows "DeleteIPV4Resource ord Limits api i resourceList ty e h = None \<longleftrightarrow>
    (\<exists>r \<in> set (stripped ty resourceList). mget (resourceToENIMap e) r = None)"
proof -
  let ?g = "groupResourcesPerENI e (stripped ty resourceList)"
  have "None \<in> fst ` set ?g \<longleftrightarrow> (\<exists>r \<in> set (stripped ty resourceList). mget (resourceToENIMap e) r = None)"
  proof
    assume "None \<in> fst ` set ?g"
    then obtain xs where "(None, xs) \<in> set ?g" by auto
    then show "\<exists>r \<in> set (stripped ty resourceList). mget (resourceToENIMap e) r = None"
      using group_spec(4) [of None xs] group_members [of None xs] by (fastforce simp: filter_empty_conv)
  next
    assume "\<exists>r \<in> set (stripped ty resourceList). mget (resourceToENIMap e) r = None"
    then have "mgetd [] ?g None \<noteq> []" by (auto simp: group_spec(2) filter_empty_conv)
    then obtain xs where "mget ?g None = Some xs" by (auto simp: mgetd_def split: option.splits)
    then show "None \<in> fst ` set ?g" using mget_mem by force
  qed
  moreover have "stripped ty [] = []" by (simp add: stripped_def stripSubnetMaskFromIPSlice_def)
  ultimately show ?thesis
    using ordered_groups(2) [of ord e "stripped ty resourceList", OF assms]
      unassign_panics [of api ty "ord ?g" e h "[]" "[]"]
    by (cases "resourceList = []") (auto simp: DeleteIPV4Resource_def Let_def stripped_def split: option.splits prod.splits)
qed

theorem delete_panics_iff_witness:
  "DeleteIPV4Resource (\<lambda>g. g) sample_limits sample_ip_api sample_instance [''10.9.9.9/16''] ResourceTypeIPv4Address
     sample_enis [] = None"
proof -
  have t: "stripped ResourceTypeIPv4Address [''10.9.9.9/16''] = [''10.9.9.9'']" by code_simp
  show ?thesis
    using delete_panics_iff [of "\<lambda>g. g"]
    by (simp add: t sample_enis_simps mget_def)
qed

definition half_failing_api :: ec2_api where
  "half_failing_api = sample_ip_api\<lparr>AssignIPv4Resources := (\<lambda>h n ty c.
     if n = ''eni-0'' then ([''10.0.9.1''], None) else ([], Some ''PrivateIpAddressLimitExceeded''))\<rparr>"

text \<open>When an interface fails after another one has assigned resources, the caller gets an empty list: the
  resources that were assigned before are mapped to their interface, and lost to the pool until it
  is synchronised again. The closed instance: the first interface assigns one address, the second
  one fails.\<close>

theorem create_drops_assigned:
  "case CreateIPV4Resource half_failing_api sample_instance 2 ResourceTypeIPv4Address sample_enis [] of
     (e', h', rs, err) \<Rightarrow> rs = [] \<and> err = Some (EniEc2Error ''PrivateIpAddressLimitExceeded'') \<and>
       mget (resourceToENIMap e') ''10.0.9.1'' = Some 0"
  unfolding sample_enis_simps by code_simp

end
