(* ===== verification/K8s_Env.thy ===== *)
theory K8s_Env
  imports Jobs Env
begin

text \<open>
  What the providers and handlers see of Kubernetes: the answers of the API server and of the
  caches during one operation, as a record of functions, and the effects an operation has on the
  outside, as the list of the calls it makes in order. An event is its object, reason and type;
  its text is left out. The conditions and the ConfigMap of \<open>pkg/condition\<close> are two more answers.
\<close>

datatype k8s_error = is_K8sNotFound: K8sNotFound string | K8sError string

datatype effect =
    PodEvent string string string string
  | NodeEvent string string string
  | is_AnnotatePodCall: AnnotatePodCall string string string string string
  | AdvertiseCapacityCall string string int
  | SubmitWarmJob WarmPoolJob
  | SubmitOnDemandJob OnDemandJob
  | SubmitOnDemandJobAfter OnDemandJob int

record k8s_api =
  GetRunningPodsOnNode :: "string \<Rightarrow> k8s_error + pod list"
  ListPods :: "string \<Rightarrow> k8s_error + pod list"
  GetPod :: "string \<Rightarrow> string \<Rightarrow> k8s_error + pod"
  GetPodFromAPIServer :: "string \<Rightarrow> string \<Rightarrow> k8s_error + pod"
  AnnotatePod :: "string \<Rightarrow> string \<Rightarrow> string \<Rightarrow> string \<Rightarrow> string \<Rightarrow> k8s_error option"
  AdvertiseCapacityIfNotSet :: "string \<Rightarrow> string \<Rightarrow> int \<Rightarrow> k8s_error option"
  NodeExists :: "string \<Rightarrow> bool"
  SecurityGroupsForPod :: "pod \<Rightarrow> k8s_error + string list"
  IsWindowsPrefixDelegationEnabled :: bool
  VpcCniConfigMap :: "config_map option"

text \<open>\<open>ctrl.Result\<close>, durations in nanoseconds.\<close>

record ctrl_result =
  Requeue :: bool
  RequeueAfter :: int

definition no_requeue :: ctrl_result where
  "no_requeue = \<lparr>Requeue = False, RequeueAfter = 0\<rparr>"

definition EventTypeNormal :: string where "EventTypeNormal = ''Normal''"
definition EventTypeWarning :: string where "EventTypeWarning = ''Warning''"

text \<open>\<open>pkg/utils/events.go\<close>: an event for a node that cannot be read is only logged.\<close>

definition SendNodeEventWithNodeName :: "k8s_api \<Rightarrow> string \<Rightarrow> string \<Rightarrow> string \<Rightarrow> effect list" where
  "SendNodeEventWithNodeName k8s node reason eventType =
     (if NodeExists k8s node then [NodeEvent node reason eventType] else [])"

text \<open>The value of an \<open>interface{}\<close> that is given to a worker.\<close>

datatype any_job = AWarmPoolJob WarmPoolJob | AnOnDemandJob OnDemandJob | ANilJob

text \<open>A cluster without pods in which every call succeeds, for the closed instances.\<close>

definition sample_k8s :: k8s_api where
  "sample_k8s =
     \<lparr>GetRunningPodsOnNode = (\<lambda>n. Inr []), ListPods = (\<lambda>n. Inr []),
      GetPod = (\<lambda>ns n. Inl (K8sNotFound n)), GetPodFromAPIServer = (\<lambda>ns n. Inl (K8sNotFound n)),
      AnnotatePod = (\<lambda>ns n u k v. None), AdvertiseCapacityIfNotSet = (\<lambda>n r c. None), NodeExists = (\<lambda>n. True),
      SecurityGroupsForPod = (\<lambda>p. Inr []), IsWindowsPrefixDelegationEnabled = False, VpcCniConfigMap = None\<rparr>"

end
