(* ===== verification/Worker.thy ===== *)
theory Worker
  imports K8s_Env
begin

text \<open>
  \<open>pkg/worker/worker.go\<close>: the worker pool that runs the jobs of a provider. The rate limiting work queue
  is a library of Kubernetes and not part of the program: it is an argument, a record of its
  operations on a state of any type, and what the worker relies on is the hypothesis \<open>queue_ok\<close>.
  The worker function may submit jobs, so it works on the queue and on a state of its own. Each
  turn of the worker's loop also says what it recorded of the job in its log and metrics.
\<close>

section \<open>The work queue\<close>

record 'q work_queue =
  qAdd :: "any_job \<Rightarrow> 'q \<Rightarrow> 'q"
  qAddAfter :: "any_job \<Rightarrow> int \<Rightarrow> 'q \<Rightarrow> 'q"
  qAddRateLimited :: "any_job \<Rightarrow> 'q \<Rightarrow> 'q"
  qForget :: "any_job \<Rightarrow> 'q \<Rightarrow> 'q"
  qDone :: "any_job \<Rightarrow> 'q \<Rightarrow> 'q"
  qNumRequeues :: "any_job \<Rightarrow> 'q \<Rightarrow> int"
  qGet :: "'q \<Rightarrow> (any_job \<times> 'q) option"

text \<open>The documented behaviour of the failure counter: \<open>AddRateLimited\<close> counts one failure of the job,
  \<open>Forget\<close> clears it, and nothing else changes it.\<close>

definition queue_ok :: "'q work_queue \<Rightarrow> bool" where
  "queue_ok Q \<longleftrightarrow>
     (\<forall>j k d q. qNumRequeues Q k (qAdd Q j q) = qNumRequeues Q k q \<and>
        qNumRequeues Q k (qAddAfter Q j d q) = qNumRequeues Q k q \<and>
        qNumRequeues Q k (qDone Q j q) = qNumRequeues Q k q \<and>
        qNumRequeues Q k (qAddRateLimited Q j q) = qNumRequeues Q k q + (if k = j then 1 else 0) \<and>
        qNumRequeues Q k (qForget Q j q) = (if k = j then 0 else qNumRequeues Q k q) \<and>
        (\<forall>q'. qGet Q q = Some (j, q') \<longrightarrow> qNumRequeues Q k q' = qNumRequeues Q k q))"

section \<open>The worker\<close>

type_synonym ('q, 's) worker_func = "any_job \<Rightarrow> 'q \<times> 's \<Rightarrow> ('q \<times> 's) \<times> ctrl_result \<times> k8s_error option"

record ('q, 's) worker =
  workerResource :: string
  workersStarted :: bool
  workerFunc :: "('q, 's) worker_func option"
  maxRetriesOnErr :: int
  maxWorkerCount :: int

datatype job_outcome = Completed | is_TimedRetry: TimedRetry int | Retried | DroppedMaxRetries | DroppedNotFound

definition NewDefaultWorkerPool :: "string \<Rightarrow> int \<Rightarrow> int \<Rightarrow> ('q, 's) worker" where
  "NewDefaultWorkerPool resource workerCount maxRequeue =
     \<lparr>workerResource = resource, workersStarted = False, workerFunc = None,
      maxRetriesOnErr = maxRequeue, maxWorkerCount = workerCount\<rparr>"

definition SetWorkerFunc :: "('q, 's) worker_func \<Rightarrow> ('q, 's) worker \<Rightarrow> ('q, 's) worker" where
  "SetWorkerFunc f w = w\<lparr>workerFunc := Some f\<rparr>"

definition SubmitJob :: "'q work_queue \<Rightarrow> any_job \<Rightarrow> 'q \<Rightarrow> 'q" where
  "SubmitJob Q job q = (if job = ANilJob then q else qAdd Q job q)"

definition SubmitJobAfter :: "'q work_queue \<Rightarrow> any_job \<Rightarrow> int \<Rightarrow> 'q \<Rightarrow> 'q" where
  "SubmitJobAfter Q job submitAfter q = qAddAfter Q job submitAfter q"

text \<open>\<open>finish\<close> is the part of \<open>processNextItem\<close> after the call of the worker function, without the deferred
  \<open>Done\<close>.\<close>

definition finish ::
  "'q work_queue \<Rightarrow> int \<Rightarrow> any_job \<Rightarrow> ctrl_result \<Rightarrow> k8s_error option \<Rightarrow> 'q \<Rightarrow> 'q \<times> job_outcome" where
  "finish Q maxRetries job result err q =
     (case err of
        Some e \<Rightarrow>
          if qNumRequeues Q job q \<ge> maxRetries then (qForget Q job q, DroppedMaxRetries)
          else if is_K8sNotFound e then (qForget Q job q, DroppedNotFound)
          else (qAddRateLimited Q job q, Retried)
      | None \<Rightarrow>
          if Requeue result then (qAddAfter Q job (RequeueAfter result) q, TimedRetry (RequeueAfter result))
          else (qForget Q job q, Completed))"

text \<open>The first component is \<open>cont\<close>; \<open>None\<close> is the call of a nil function.\<close>

definition processNextItem ::
  "'q work_queue \<Rightarrow> ('q, 's) worker \<Rightarrow> 'q \<times> 's \<Rightarrow> (bool \<times> ('q \<times> 's) \<times> (any_job \<times> job_outcome) option) option" where
  "processNextItem Q w st =
     (case qGet Q (fst st) of
        None \<Rightarrow> Some (False, st, None)
      | Some (job, q1) \<Rightarrow>
         (case workerFunc w of
            None \<Rightarrow> None
          | Some f \<Rightarrow>
             (case f job (q1, snd st) of
                ((q2, s2), result, err) \<Rightarrow>
                  (case finish Q (maxRetriesOnErr w) job result err q2 of
                     (q3, oc) \<Rightarrow> Some (True, (qDone Q job q3, s2), Some (job, oc))))))"

text \<open>\<open>runWorker\<close>, for the first \<open>n\<close> turns of its loop: the final state and the record of the jobs.\<close>

fun runWorker ::
  "nat \<Rightarrow> 'q work_queue \<Rightarrow> ('q, 's) worker \<Rightarrow> 'q \<times> 's \<Rightarrow> (('q \<times> 's) \<times> (any_job \<times> job_outcome) list) option" where
  "runWorker 0 Q w st = Some (st, [])"
| "runWorker (Suc n) Q w st =
     (case processNextItem Q w st of
        None \<Rightarrow> None
      | Some (False, st1, _) \<Rightarrow> Some (st1, [])
      | Some (True, st1, out) \<Rightarrow>
         (case runWorker n Q w st1 of
            None \<Rightarrow> None
          | Some (st2, log) \<Rightarrow> Some (st2, (case out of None \<Rightarrow> log | Some jo \<Rightarrow> jo # log))))"

text \<open>\<open>StartWorkerPool\<close>: the worker and the number of routines that run \<open>runWorker\<close>, or the error.\<close>

datatype worker_error = WorkersAlreadyStartedError

definition StartWorkerPool :: "('q, 's) worker_func \<Rightarrow> ('q, 's) worker \<Rightarrow> worker_error + ('q, 's) worker \<times> nat" where
  "StartWorkerPool f w =
     (if workersStarted w then Inl WorkersAlreadyStartedError
      else Inr (w\<lparr>workerFunc := Some f, workersStarted := True\<rparr>, nat (maxWorkerCount w)))"

end
