(* ===== verification/Worker_Props.thy ===== *)
theory Worker_Props
  imports Worker
begin

text \<open>
  Retrying: how often the worker pool runs a failing job, for every work queue that behaves as
  documented.
\<close>

section \<open>The failures of a job in a row\<close>

definition streak_step :: "any_job \<Rightarrow> any_job \<times> job_outcome \<Rightarrow> int \<Rightarrow> int" where
  "streak_step j jo n =
     (if fst jo = j then (case snd jo of Retried \<Rightarrow> n + 1 | TimedRetry _ \<Rightarrow> n | _ \<Rightarrow> 0) else n)"

definition streak :: "any_job \<Rightarrow> int \<Rightarrow> (any_job \<times> job_outcome) list \<Rightarrow> int" where
  "streak j n log = fold (streak_step j) log n"

lemma streak_simps [simp]:
  "streak j n [] = n" "streak j n (jo # log) = streak j (streak_step j jo n) log"
  "streak j n (log @ log') = streak j (streak j n log) log'"
  by (simp_all add: streak_def)

text \<open>The worker function submits jobs and does not touch the failure counters otherwise.\<close>

definition func_ok :: "'q work_queue \<Rightarrow> ('q, 's) worker_func \<Rightarrow> bool" where
  "func_ok Q f \<longleftrightarrow> (\<forall>job st k. qNumRequeues Q k (fst (fst (f job st))) = qNumRequeues Q k (fst st))"

lemma queue_okD:
  assumes "queue_ok Q"
  shows "qNumRequeues Q k (qAdd Q j q) = qNumRequeues Q k q"
    and "qNumRequeues Q k (qAddAfter Q j d q) = qNumRequeues Q k q"
    and "qNumRequeues Q k (qDone Q j q) = qNumRequeues Q k q"
    and "qNumRequeues Q k (qAddRateLimited Q j q) = qNumRequeues Q k q + (if k = j then 1 else 0)"
    and "qNumRequeues Q k (qForget Q j q) = (if k = j then 0 else qNumRequeues Q k q)"
    and "qGet Q q = Some (j, q') \<Longrightarrow> qNumRequeues Q k q' = qNumRequeues Q k q"
  using assms unfolding queue_ok_def by blast+

lemma process_counts:
  assumes "queue_ok Q" "func_ok Q f" "workerFunc w = Some f" "processNextItem Q w st = Some (True, st', out)"
  obtains job oc where "out = Some (job, oc)"
    "\<And>j. qNumRequeues Q j (fst st') = streak_step j (job, oc) (qNumRequeues Q j (fst st))"
    "oc = Retried \<Longrightarrow> qNumRequeues Q job (fst st) < maxRetriesOnErr w"
    "oc = DroppedMaxRetries \<Longrightarrow> maxRetriesOnErr w \<le> qNumRequeues Q job (fst st)"
    "\<exists>st1. (oc = Completed \<or> is_TimedRetry oc) = (snd (snd (f job st1)) = None) \<and>
       (oc = DroppedNotFound \<longrightarrow> (\<exists>e. snd (snd (f job st1)) = Some e \<and> is_K8sNotFound e))"
proof -
  obtain job q1 where g: "qGet Q (fst st) = Some (job, q1)"
    using assms(4) by (auto simp: processNextItem_def split: option.splits)
  obtain q2 s2 result err where f: "f job (q1, snd st) = ((q2, s2), result, err)" by (metis prod.collapse)
  obtain q3 oc where fi: "finish Q (maxRetriesOnErr w) job result err q2 = (q3, oc)" by fastforce
  have out: "out = Some (job, oc)" "st' = (qDone Q job q3, s2)"
    using assms(3,4) by (simp_all add: processNextItem_def g f fi)
  have n1: "qNumRequeues Q k q1 = qNumRequeues Q k (fst st)" for k by (rule queue_okD(6) [OF assms(1) g])
  have n2: "qNumRequeues Q k q2 = qNumRequeues Q k (fst st)" for k
    using assms(2) f n1 unfolding func_ok_def by (metis fst_conv)
  have c: "qNumRequeues Q k (fst st') = streak_step k (job, oc) (qNumRequeues Q k (fst st))" for k
    using fi unfolding finish_def out
    by (auto simp: queue_okD [OF assms(1)] streak_step_def n2 split: option.splits if_splits)
  show ?thesis
  proof (rule that [OF out(1) c])
    show "oc = Retried \<Longrightarrow> qNumRequeues Q job (fst st) < maxRetriesOnErr w"
      "oc = DroppedMaxRetries \<Longrightarrow> maxRetriesOnErr w \<le> qNumRequeues Q job (fst st)"
      using fi by (auto simp: finish_def n2 split: option.splits if_splits)
    show "\<exists>st1. (oc = Completed \<or> is_TimedRetry oc) = (snd (snd (f job st1)) = None) \<and>
       (oc = DroppedNotFound \<longrightarrow> (\<exists>e. snd (snd (f job st1)) = Some e \<and> is_K8sNotFound e))"
      using fi f by (intro exI [of _ "(q1, snd st)"]) (auto simp: finish_def split: option.splits if_splits)
  qed
qed

lemma run_counts:
  assumes "queue_ok Q" "func_ok Q f" "workerFunc w = Some f" "runWorker n Q w st = Some (st', log)"
  shows "qNumRequeues Q j (fst st') = streak j (qNumRequeues Q j (fst st)) log"
    and "log = pre @ (j, Retried) # post \<Longrightarrow> streak j (qNumRequeues Q j (fst st)) pre < maxRetriesOnErr w"
    and "log = pre @ (j, DroppedMaxRetries) # post \<Longrightarrow> maxRetriesOnErr w \<le> streak j (qNumRequeues Q j (fst st)) pre"
proof -
  have "qNumRequeues Q j (fst st') = streak j (qNumRequeues Q j (fst st)) log \<and>
     (\<forall>pre post. (log = pre @ (j, Retried) # post \<longrightarrow> streak j (qNumRequeues Q j (fst st)) pre < maxRetriesOnErr w) \<and>
       (log = pre @ (j, DroppedMaxRetries) # post \<longrightarrow> maxRetriesOnErr w \<le> streak j (qNumRequeues Q j (fst st)) pre))"
    using assms(4)
  proof (induction n arbitrary: st log)
    case (Suc n)
    show ?case
    proof (cases "processNextItem Q w st")
      case (Some r)
      obtain cont st1 out where r: "r = (cont, st1, out)" by (metis prod_cases3)
      show ?thesis
      proof (cases cont)
        case False
        then have "st1 = st" using Some r assms(3) by (auto simp: processNextItem_def split: option.splits prod.splits)
        then show ?thesis using Suc.prems Some r False by simp
      next
        case True
        have p: "processNextItem Q w st = Some (True, st1, out)" using Some r True by simp
        obtain job oc where o: "out = Some (job, oc)"
            "\<And>j. qNumRequeues Q j (fst st1) = streak_step j (job, oc) (qNumRequeues Q j (fst st))"
            "oc = Retried \<Longrightarrow> qNumRequeues Q job (fst st) < maxRetriesOnErr w"
            "oc = DroppedMaxRetries \<Longrightarrow> maxRetriesOnErr w \<le> qNumRequeues Q job (fst st)"
          by (rule process_counts [OF assms(1-3) p]) blast
        obtain log1 where l: "runWorker n Q w st1 = Some (st', log1)" "log = (job, oc) # log1"
          using Suc.prems p o(1) by (auto split: option.splits)
        note ih = Suc.IH [OF l(1)]
        show ?thesis
        proof (intro conjI allI)
          show "qNumRequeues Q j (fst st') = streak j (qNumRequeues Q j (fst st)) log"
            using ih o(2) l(2) by simp
          fix pre post
          show "log = pre @ (j, Retried) # post \<longrightarrow> streak j (qNumRequeues Q j (fst st)) pre < maxRetriesOnErr w"
            using ih o(2,3) l(2) by (cases pre) auto
          show "log = pre @ (j, DroppedMaxRetries) # post \<longrightarrow>
              maxRetriesOnErr w \<le> streak j (qNumRequeues Q j (fst st)) pre"
            using ih o(2,4) l(2) by (cases pre) auto
        qed
      qed
    qed (use Suc.prems in simp)
  qed simp
  then show "qNumRequeues Q j (fst st') = streak j (qNumRequeues Q j (fst st)) log"
    "log = pre @ (j, Retried) # post \<Longrightarrow> streak j (qNumRequeues Q j (fst st)) pre < maxRetriesOnErr w"
    "log = pre @ (j, DroppedMaxRetries) # post \<Longrightarrow> maxRetriesOnErr w \<le> streak j (qNumRequeues Q j (fst st)) pre"
    by blast+
qed

lemma streak_le:
  assumes "\<And>pre post. log = pre @ (j, Retried) # post \<Longrightarrow> streak j n pre < m" "n \<le> m" "0 \<le> m"
  shows "streak j n log \<le> m"
  using assms
proof (induction log rule: rev_induct)
  case (snoc jo log)
  have le: "streak j n log \<le> m"
  proof (rule snoc.IH)
    fix pre post assume "log = pre @ (j, Retried) # post"
    then show "streak j n pre < m" using snoc.prems(1) [of pre "post @ [jo]"] by simp
  qed (use snoc.prems in auto)
  show ?case
  proof (cases "jo = (j, Retried)")
    case True
    then show ?thesis using snoc.prems(1) [of log "[]"] by (simp add: streak_step_def)
  next
    case False
    then show ?thesis using le snoc.prems(3) by (cases jo; cases "snd jo") (auto simp: streak_step_def)
  qed
qed simp

section \<open>The properties\<close>

text \<open>A job is queued again after an error only while it failed fewer than the maximum number of times in a
  row, and it is given up for its retries only after exactly that many failures in a row; a timed
  retry does not count, and a success or a giving up starts the count again.\<close>

theorem worker_retries_bounded:
  assumes "queue_ok Q" "func_ok Q f" "workerFunc w = Some f" "0 \<le> maxRetriesOnErr w"
    and "qNumRequeues Q j (fst st) = 0" "runWorker n Q w st = Some (st', log)"
  shows "(\<forall>pre post. log = pre @ (j, Retried) # post \<longrightarrow> streak j 0 pre < maxRetriesOnErr w) \<and>
    (\<forall>pre post. log = pre @ (j, DroppedMaxRetries) # post \<longrightarrow> streak j 0 pre = maxRetriesOnErr w)"
proof (intro conjI allI impI)
  note r = run_counts [OF assms(1-3,6), where j = j, unfolded assms(5)]
  show "streak j 0 pre < maxRetriesOnErr w" if "log = pre @ (j, Retried) # post" for pre post
    using r(2) that by blast
  fix pre post assume l: "log = pre @ (j, DroppedMaxRetries) # post"
  have "streak j 0 pre \<le> maxRetriesOnErr w"
  proof (rule streak_le)
    fix pre1 post1 assume "pre = pre1 @ (j, Retried) # post1"
    then show "streak j 0 pre1 < maxRetriesOnErr w"
      using r(2) [of pre1 "post1 @ (j, DroppedMaxRetries) # post"] l by simp
  qed (use assms(4) in auto)
  then show "streak j 0 pre = maxRetriesOnErr w" using r(3) [OF l] by simp
qed

text \<open>A queue in memory for the closed instances: the jobs in order and their failure counters.\<close>

definition sample_queue :: "(any_job list \<times> (any_job \<Rightarrow> int)) work_queue" where
  "sample_queue =
     \<lparr>qAdd = (\<lambda>j (js, c). (js @ [j], c)), qAddAfter = (\<lambda>j d (js, c). (js @ [j], c)),
      qAddRateLimited = (\<lambda>j (js, c). (js @ [j], c(j := c j + 1))), qForget = (\<lambda>j (js, c). (js, c(j := 0))),
      qDone = (\<lambda>j q. q), qNumRequeues = (\<lambda>j (js, c). c j),
      qGet = (\<lambda>(js, c). case js of [] \<Rightarrow> None | j # js' \<Rightarrow> Some (j, (js', c)))\<rparr>"

lemma sample_queue_ok: "queue_ok sample_queue"
  by (auto simp: queue_ok_def sample_queue_def split: list.splits)

definition failing_func :: "('q, 's) worker_func" where
  "failing_func job st = (st, no_requeue, Some (K8sError ''failed''))"

definition sample_worker :: "(any_job list \<times> (any_job \<Rightarrow> int), unit) worker" where
  "sample_worker = SetWorkerFunc failing_func (NewDefaultWorkerPool ''pod-eni'' 1 2)"

lemma sample_run:
  "\<exists>st'. runWorker 5 sample_queue sample_worker (([ANilJob], \<lambda>j. 0), ()) =
     Some (st', [(ANilJob, Retried), (ANilJob, Retried), (ANilJob, DroppedMaxRetries)])"
  by (simp add: eval_nat_numeral processNextItem_def sample_queue_def sample_worker_def SetWorkerFunc_def
      NewDefaultWorkerPool_def failing_func_def finish_def)

lemma sample_worker_ok: "func_ok sample_queue failing_func" "workerFunc sample_worker = Some failing_func"
  "maxRetriesOnErr sample_worker = 2"
  by (simp_all add: func_ok_def failing_func_def sample_worker_def SetWorkerFunc_def NewDefaultWorkerPool_def)

theorem worker_retries_bounded_witness:
  "\<exists>st'. runWorker 5 sample_queue sample_worker (([ANilJob], \<lambda>j. 0), ()) =
     Some (st', [(ANilJob, Retried), (ANilJob, Retried), (ANilJob, DroppedMaxRetries)]) \<and>
     streak ANilJob 0 [(ANilJob, Retried), (ANilJob, Retried)] = 2"
proof -
  obtain st' where r: "runWorker 5 sample_queue sample_worker (([ANilJob], \<lambda>j. 0), ()) =
     Some (st', [(ANilJob, Retried), (ANilJob, Retried)] @ (ANilJob, DroppedMaxRetries) # [])"
    using sample_run by auto
  have "qNumRequeues sample_queue ANilJob (fst (([ANilJob], \<lambda>j. 0), ())) = 0" by (simp add: sample_queue_def)
  moreover have "0 \<le> maxRetriesOnErr sample_worker" by (simp add: sample_worker_ok(3))
  ultimately have "streak ANilJob 0 [(ANilJob, Retried), (ANilJob, Retried)] = maxRetriesOnErr sample_worker"
    using worker_retries_bounded [OF sample_queue_ok sample_worker_ok(1,2) _ _ r] by blast
  then show ?thesis using r sample_worker_ok(3) by (intro exI [of _ st']) simp
qed

lemma run_fails:
  assumes "queue_ok Q" "func_ok Q f" "workerFunc w = Some f" "runWorker n Q w st = Some (st', log)"
    and "\<forall>s. \<exists>e. snd (snd (f j s)) = Some (K8sError e)" "(j, oc) \<in> set log"
  shows "oc = Retried \<or> oc = DroppedMaxRetries"
  using assms(4,6)
proof (induction n arbitrary: st log)
  case (Suc n)
  show ?case
  proof (cases "processNextItem Q w st")
    case (Some r)
    obtain cont st1 out where r: "r = (cont, st1, out)" by (metis prod_cases3)
    have c: cont using Suc.prems Some r by (cases cont) auto
    have p: "processNextItem Q w st = Some (True, st1, out)" using Some r c by simp
    obtain job oc' where o: "out = Some (job, oc')"
        "\<exists>st1. (oc' = Completed \<or> is_TimedRetry oc') = (snd (snd (f job st1)) = None) \<and>
           (oc' = DroppedNotFound \<longrightarrow> (\<exists>e. snd (snd (f job st1)) = Some e \<and> is_K8sNotFound e))"
      by (rule process_counts [OF assms(1-3) p]) (rule that)
    obtain log1 where l: "runWorker n Q w st1 = Some (st', log1)" "log = (job, oc') # log1"
      using Suc.prems(1) p o(1) by (auto split: option.splits)
    have "oc' = Retried \<or> oc' = DroppedMaxRetries" if "job = j"
      using o(2) that assms(5) by (cases oc') (metis is_K8sNotFound_def k8s_error.disc(2) option.distinct(1) option.inject job_outcome.disc)+
    then show ?thesis using Suc.IH [OF l(1)] Suc.prems(2) l(2) by auto
  qed (use Suc.prems in simp)
qed simp

lemma streak_all_retried:
  "(\<And>oc. (j, oc) \<in> set log \<Longrightarrow> oc = Retried) \<Longrightarrow> streak j n log = n + int (length (filter (\<lambda>jo. fst jo = j) log))"
proof (induction log arbitrary: n)
  case (Cons jo log)
  obtain k oc where jo: "jo = (k, oc)" by fastforce
  have "streak j m log = m + int (length (filter (\<lambda>jo. fst jo = j) log))" for m
    using Cons by (metis list.set_intros(2))
  moreover have "k = j \<Longrightarrow> oc = Retried" using Cons.prems [of oc] by (simp add: jo)
  ultimately show ?case by (simp add: jo streak_step_def)
qed simp



end
