(* ===== verification/Warm_Handler.thy ===== *)
theory Warm_Handler
  imports Pool Eni_Manager K8s_Env
begin

text \<open>
  \<open>pkg/handler/warm.go\<close> and \<open>pkg/handler/on_demand.go\<close>: what happens when a pod asks for a resource or
  gives it back. The pool of a node is found through the provider, whose cache of pools is the
  state; it is the same record for the secondary IP and the prefix provider
  (\<open>ResourceProviderAndPool\<close> in both packages). The times of the clock are arguments.
\<close>

section \<open>The pools of the nodes\<close>

record resource_provider_and_pool =
  rpInstance :: ec2_instance
  eniManager :: eni_manager
  resourcePool :: pool
  rpCapacity :: int
  isPrevPDEnabled :: bool

type_synonym instance_pools = "(string, resource_provider_and_pool) gomap"

definition GetPool :: "instance_pools \<Rightarrow> string \<Rightarrow> pool option" where
  "GetPool m node = map_option resourcePool (mget m node)"

definition set_pool :: "instance_pools \<Rightarrow> string \<Rightarrow> pool \<Rightarrow> instance_pools" where
  "set_pool m node p =
     (case mget m node of None \<Rightarrow> m | Some rp \<Rightarrow> mput m node (rp\<lparr>resourcePool := p\<rparr>))"

section \<open>The warm resource handler\<close>

definition RequeueAfterWhenPrefixNotAvailable :: int where "RequeueAfterWhenPrefixNotAvailable = 120 * 10 ^ 9"
definition RequeueAfterWhenWPEmpty :: int where "RequeueAfterWhenWPEmpty = 600 * 10 ^ 6"
definition RequeueAfterWhenResourceCooling :: int where "RequeueAfterWhenResourceCooling = 20 * 10 ^ 9"
definition ReasonResourceAllocationFailed :: string where "ReasonResourceAllocationFailed = ''ResourceAllocationFailed''"
definition ReasonResourceAllocated :: string where "ReasonResourceAllocated = ''ResourceAllocated''"

datatype handler_error =
    PoolNotFound string string
  | HandlerPoolError pool_error
  | HandlerK8sError k8s_error
  | AnnotateAndFreeFailed k8s_error pool_error

definition requeue_after :: "int \<Rightarrow> ctrl_result" where
  "requeue_after d = \<lparr>Requeue = True, RequeueAfter = d\<rparr>"

definition reconcilePool :: "bool \<Rightarrow> pool \<Rightarrow> pool \<times> effect list" where
  "reconcilePool shouldReconcile p =
     (if shouldReconcile then
        (case ReconcilePool p of
           (p', job) \<Rightarrow> (p', if Operations job \<noteq> OperationEmpty then [SubmitWarmJob job] else []))
      else (p, []))"

text \<open>The event of a failed allocation, the result and the error the handler returns. In the case of a
  resource that is already assigned the error variable is the one of the API call, which shadows
  the pool's.\<close>

definition assign_failed ::
  "string \<Rightarrow> k8s_api \<Rightarrow> pod \<Rightarrow> pool_error \<Rightarrow> effect list \<times> ctrl_result \<times> handler_error option" where
  "assign_failed resourceName k8s pod err =
     (let event = PodEvent (PodNamespace pod) (PodName pod) ReasonResourceAllocationFailed EventTypeWarning in
      case err of
        ErrResourceAreBeingCooledDown \<Rightarrow> ([event], requeue_after RequeueAfterWhenResourceCooling, None)
      | ErrResourcesAreBeingCreated \<Rightarrow> ([event], requeue_after RequeueAfterWhenWPEmpty, None)
      | ErrWarmPoolEmpty \<Rightarrow> ([event], requeue_after RequeueAfterWhenWPEmpty, None)
      | ErrResourceAlreadyAssigned \<Rightarrow>
          (case GetPodFromAPIServer k8s (PodNamespace pod) (PodName pod) of
             Inl e \<Rightarrow> ([], no_requeue, Some (HandlerK8sError e))
           | Inr pod' \<Rightarrow>
               if mhas (PodAnnotations pod') resourceName then ([], no_requeue, None)
               else ([], no_requeue, None))
      | ErrInsufficientCidrBlocks \<Rightarrow> ([event], requeue_after RequeueAfterWhenPrefixNotAvailable, None)
      | _ \<Rightarrow> ([], no_requeue, Some (HandlerPoolError err)))"

definition HandleCreate ::
  "string \<Rightarrow> k8s_api \<Rightarrow> int \<Rightarrow> pod \<Rightarrow> instance_pools \<Rightarrow>
   instance_pools \<times> effect list \<times> ctrl_result \<times> handler_error option" where
  "HandleCreate resourceName k8s now pod m =
     (case GetPool m (PodNodeName pod) of
        None \<Rightarrow> (m, [], no_requeue, Some (PoolNotFound resourceName (PodNodeName pod)))
      | Some p \<Rightarrow>
          if mhas (PodAnnotations pod) resourceName then (m, [], no_requeue, None)
          else
            (case AssignResource (PodUID pod) p of
               (p1, resID, shouldReconcile, Some err) \<Rightarrow>
                 (case reconcilePool shouldReconcile p1 of
                    (p2, jobs) \<Rightarrow>
                      (case assign_failed resourceName k8s pod err of
                         (events, result, e) \<Rightarrow> (set_pool m (PodNodeName pod) p2, jobs @ events, result, e)))
             | (p1, resID, shouldReconcile, None) \<Rightarrow>
                 (let annotate = AnnotatePodCall (PodNamespace pod) (PodName pod) (PodUID pod) resourceName resID;
                      (p2, e) =
                        (case AnnotatePod k8s (PodNamespace pod) (PodName pod) (PodUID pod) resourceName resID of
                           None \<Rightarrow> (p1, None)
                         | Some er \<Rightarrow>
                             (case FreeResource now (PodUID pod) resID p1 of
                                (p1', _, None) \<Rightarrow> (p1', Some (HandlerK8sError er))
                              | (p1', _, Some errFree) \<Rightarrow> (p1', Some (AnnotateAndFreeFailed er errFree))));
                      event = PodEvent (PodNamespace pod) (PodName pod) ReasonResourceAllocated EventTypeNormal;
                      (p3, jobs) = reconcilePool shouldReconcile p2
                  in (set_pool m (PodNodeName pod) p3, annotate # event # jobs, no_requeue, e))))"

definition HandleDelete ::
  "string \<Rightarrow> int \<Rightarrow> pod \<Rightarrow> instance_pools \<Rightarrow> instance_pools \<times> effect list \<times> ctrl_result \<times> handler_error option" where
  "HandleDelete resourceName now pod m =
     (case GetPool m (PodNodeName pod) of
        None \<Rightarrow> (m, [], no_requeue, None)
      | Some p \<Rightarrow>
          (let (resourceID, present) =
                 (case mget (PodAnnotations pod) resourceName of
                    Some r \<Rightarrow> (r, True)
                  | None \<Rightarrow> GetAssignedResource (PodUID pod) p)
           in if \<not> present then (m, [], no_requeue, None)
              else
                (case FreeResource now (PodUID pod) resourceID p of
                   (p1, _, Some err) \<Rightarrow> (set_pool m (PodNodeName pod) p1, [], no_requeue, None)
                 | (p1, shouldReconcile, None) \<Rightarrow>
                     (case reconcilePool shouldReconcile p1 of
                        (p2, jobs) \<Rightarrow> (set_pool m (PodNodeName pod) p2, jobs, no_requeue, None)))))"

section \<open>The on demand handler\<close>

definition on_demand_HandleCreate :: "int \<Rightarrow> pod \<Rightarrow> effect list \<times> ctrl_result" where
  "on_demand_HandleCreate requestCount pod =
     ([SubmitOnDemandJob (NewOnDemandCreateJob (PodNamespace pod) (PodName pod) requestCount)], no_requeue)"

definition on_demand_HandleDelete :: "pod \<Rightarrow> effect list \<times> ctrl_result" where
  "on_demand_HandleDelete pod =
     ([SubmitOnDemandJob (NewOnDemandDeletedJob (PodNodeName pod) (PodUID pod))], no_requeue)"

end
