(* ===== verification/Handler_Props.thy ===== *)
theory Handler_Props
  imports Warm_Handler Pool_Props
begin

text \<open>
  The warm resource handler refines the pool's step relation: whatever it does to the pool of a node
  is a sequence of the pool's steps, so that the invariants of the pool in its environment hold for
  the handler, and a pod is annotated with the address it owns.
\<close>

section \<open>The handler as steps of the pool\<close>

fun pool_jobs :: "effect list \<Rightarrow> WarmPoolJob list" where
  "pool_jobs [] = []"
| "pool_jobs (SubmitWarmJob job # effs) = (if is_pool_job job then job # pool_jobs effs else pool_jobs effs)"
| "pool_jobs (_ # effs) = pool_jobs effs"

lemma pool_jobs_append [simp]: "pool_jobs (a @ b) = pool_jobs a @ pool_jobs b"
  by (induction a rule: pool_jobs.induct) auto

text \<open>The state \<open>s'\<close> is reached from \<open>s\<close> without time passing, with the jobs of \<open>effs\<close> in flight.\<close>

definition pool_run :: "pool_sys \<Rightarrow> effect list \<Rightarrow> pool_sys \<Rightarrow> bool" where
  "pool_run s effs s' \<longleftrightarrow> pool_step\<^sup>*\<^sup>* s s' \<and> clock s' = clock s \<and> inflight s' = pool_jobs effs @ inflight s"

lemma pool_run_refl: "pool_jobs effs = [] \<Longrightarrow> pool_run s effs s"
  by (simp add: pool_run_def)

lemma pool_run_trans: "pool_run s effs s1 \<Longrightarrow> pool_run s1 effs' s2 \<Longrightarrow> pool_jobs (effs' @ effs) = pool_jobs out \<Longrightarrow> pool_run s out s2"
  by (auto simp: pool_run_def)

lemma assign_run:
  assumes "AssignResource rq (sys_pool s) = (p', x, b, e)"
  shows "pool_run s [] (s\<lparr>sys_pool := p'\<rparr>)"
  using pool_step.assign [OF assms] by (simp add: pool_run_def r_into_rtranclp)

lemma free_run:
  assumes "FreeResource (clock s) rq x (sys_pool s) = (p', b, e)"
  shows "\<exists>s'. pool_run s [] s' \<and> sys_pool s' = p'"
  using pool_step.free [OF assms]
  by (intro exI [of _ "s\<lparr>sys_pool := p', freedAt := (if e = None then (freedAt s)(x \<mapsto> clock s) else freedAt s)\<rparr>"])
    (simp add: pool_run_def r_into_rtranclp)

lemma reconcile_run:
  assumes "reconcilePool b (sys_pool s) = (p', effs)"
  shows "\<exists>s'. pool_run s effs s' \<and> sys_pool s' = p'"
proof (cases b)
  case True
  obtain job where r: "ReconcilePool (sys_pool s) = (p', job)"
      "effs = (if Operations job \<noteq> OperationEmpty then [SubmitWarmJob job] else [])"
    using assms True by (auto simp: reconcilePool_def split: prod.splits)
  have "pool_jobs effs = (if is_pool_job job then [job] else [])"
    using r(2) by (auto simp: is_pool_job_def)
  moreover define s' where "s' = s\<lparr>sys_pool := p', inflight := (if is_pool_job job then job # inflight s else inflight s)\<rparr>"
  moreover have "sys_pool s' = p'" "clock s' = clock s" by (simp_all add: s'_def)
  ultimately show ?thesis
    using pool_step.reconcile [OF r(1), folded s'_def] by (intro exI [of _ s']) (auto simp: pool_run_def)
next
  case False
  then show ?thesis using assms pool_run_refl [of "[]" s] by (auto simp: reconcilePool_def)
qed

lemma GetPool_set_pool:
  assumes "GetPool m node = Some p"
  shows "GetPool (set_pool m node p') node = Some p'"
    and "n \<noteq> node \<Longrightarrow> mget (set_pool m node p') n = mget m n"
  using assms by (auto simp: GetPool_def set_pool_def split: option.splits)

lemma assign_failed_jobs: "assign_failed res k8s pod err = (effs, r, e) \<Longrightarrow> pool_jobs effs = []"
  by (auto simp: assign_failed_def Let_def split: pool_error.splits sum.splits if_splits)

lemma handle_create_run:
  assumes "GetPool m (PodNodeName pod) = Some (sys_pool s)"
    and "HandleCreate res k8s (clock s) pod m = (m', effs, result, err)"
  shows "\<exists>s'. pool_run s effs s' \<and> GetPool m' (PodNodeName pod) = Some (sys_pool s') \<and>
    (\<forall>n. n \<noteq> PodNodeName pod \<longrightarrow> mget m' n = mget m n)"
proof (cases "mhas (PodAnnotations pod) res")
  case True
  then show ?thesis using assms pool_run_refl [of "[]" s] by (auto simp: HandleCreate_def)
next
  case False
  note gp = GetPool_set_pool [OF assms(1)]
  obtain p1 x b oe where a: "AssignResource (PodUID pod) (sys_pool s) = (p1, x, b, oe)" by (metis prod_cases4)
  define s1 where "s1 = s\<lparr>sys_pool := p1\<rparr>"
  have r1: "pool_run s [] s1" "sys_pool s1 = p1" "clock s1 = clock s"
    using assign_run [OF a] by (simp_all add: s1_def)
  show ?thesis
  proof (cases oe)
    case (Some er)
    obtain p2 jobs where rc: "reconcilePool b p1 = (p2, jobs)" by fastforce
    obtain events rs e where af: "assign_failed res k8s pod er = (events, rs, e)" by (metis prod_cases3)
    obtain s2 where s2: "pool_run s1 jobs s2" "sys_pool s2 = p2"
      using reconcile_run [of b s1] rc r1(2) by blast
    have "m' = set_pool m (PodNodeName pod) p2" "effs = jobs @ events"
      using assms False a Some rc af by (simp_all add: HandleCreate_def)
    moreover have "pool_run s effs s2"
      using pool_run_trans [OF r1(1) s2(1)] assign_failed_jobs [OF af] by (simp add: calculation)
    ultimately show ?thesis using s2(2) gp by blast
  next
    case None
    define free where "free = FreeResource (clock s) (PodUID pod) x p1"
    define ann where "ann = AnnotatePod k8s (PodNamespace pod) (PodName pod) (PodUID pod) res x"
    define p2 where "p2 = (if ann = None then p1 else fst free)"
    obtain s2 where s2: "pool_run s1 [] s2" "sys_pool s2 = p2"
    proof (cases "ann = None")
      case True
      then show ?thesis using that [of s1] pool_run_refl [of "[]" s1] r1(2) by (simp add: p2_def)
    next
      case False
      obtain pf bf ef where f: "FreeResource (clock s1) (PodUID pod) x (sys_pool s1) = (pf, bf, ef)" by (metis prod_cases3)
      have "p2 = pf" using False f r1(2,3) by (auto simp: p2_def free_def)
      then show ?thesis using that free_run [OF f] by blast
    qed
    obtain p3 jobs where rc: "reconcilePool b p2 = (p3, jobs)" by fastforce
    obtain s3 where s3: "pool_run s2 jobs s3" "sys_pool s3 = p3"
      using reconcile_run [of b s2] rc s2(2) by blast
    have "m' = set_pool m (PodNodeName pod) p3"
        "effs = AnnotatePodCall (PodNamespace pod) (PodName pod) (PodUID pod) res x #
          PodEvent (PodNamespace pod) (PodName pod) ReasonResourceAllocated EventTypeNormal # jobs"
      using assms False a None rc
      by (auto simp: HandleCreate_def Let_def p2_def free_def ann_def split: option.splits prod.splits)
    moreover have "pool_run s jobs s3"
      using pool_run_trans [OF pool_run_trans [OF r1(1) s2(1), of "[]"] s3(1), of jobs] by simp
    ultimately have "pool_run s effs s3" by (simp add: pool_run_def)
    then show ?thesis using s3(2) gp \<open>m' = set_pool m (PodNodeName pod) p3\<close> by blast
  qed
qed

lemma handle_delete_run:
  assumes "GetPool m (PodNodeName pod) = Some (sys_pool s)"
    and "HandleDelete res (clock s) pod m = (m', effs, result, err)"
  shows "\<exists>s'. pool_run s effs s' \<and> GetPool m' (PodNodeName pod) = Some (sys_pool s') \<and>
    (\<forall>n. n \<noteq> PodNodeName pod \<longrightarrow> mget m' n = mget m n)"
proof -
  note gp = GetPool_set_pool [OF assms(1)]
  obtain rid present where l: "(case mget (PodAnnotations pod) res of Some r \<Rightarrow> (r, True)
      | None \<Rightarrow> GetAssignedResource (PodUID pod) (sys_pool s)) = (rid, present)" by fastforce
  show ?thesis
  proof (cases present)
    case False
    then have "m' = m" "effs = []" using assms l by (auto simp: HandleDelete_def Let_def split: if_splits)
    then show ?thesis using assms(1) pool_run_refl [of "[]" s] by auto
  next
    case True
    obtain p1 b oe where f: "FreeResource (clock s) (PodUID pod) rid (sys_pool s) = (p1, b, oe)" by (metis prod_cases3)
    obtain s1 where s1: "pool_run s [] s1" "sys_pool s1 = p1" using free_run [OF f] by blast
    show ?thesis
    proof (cases oe)
      case (Some er)
      then have "m' = set_pool m (PodNodeName pod) p1" "effs = []"
        using assms l True f by (auto simp: HandleDelete_def Let_def)
      then show ?thesis using s1 gp by blast
    next
      case None
      obtain p2 jobs where rc: "reconcilePool b p1 = (p2, jobs)" by fastforce
      obtain s2 where s2: "pool_run s1 jobs s2" "sys_pool s2 = p2" using reconcile_run [of b s1] rc s1(2) by blast
      have "m' = set_pool m (PodNodeName pod) p2" "effs = jobs"
        using assms l True f None rc by (auto simp: HandleDelete_def Let_def)
      moreover have "pool_run s jobs s2" using pool_run_trans [OF s1(1) s2(1), of jobs] by simp
      ultimately show ?thesis using s2(2) gp by blast
    qed
  qed
qed

text \<open>C12. Refinement: what the handler does to the pool of the pod's node, when a pod is created or deleted, is a
  sequence of steps of the pool in its environment that leaves exactly the submitted create and
  delete jobs in flight; the pools of the other nodes are not touched.\<close>

theorem handler_refines_pool:
  assumes "GetPool m (PodNodeName pod) = Some (sys_pool s)"
    and "HandleCreate res k8s (clock s) pod m = (m', effs, result, err) \<or>
         HandleDelete res (clock s) pod m = (m', effs, result, err)"
  shows "\<exists>s'. pool_step\<^sup>*\<^sup>* s s' \<and> GetPool m' (PodNodeName pod) = Some (sys_pool s') \<and>
    inflight s' = pool_jobs effs @ inflight s \<and> (\<forall>n. n \<noteq> PodNodeName pod \<longrightarrow> mget m' n = mget m n)"
  using assms(2) handle_create_run [OF assms(1)] handle_delete_run [OF assms(1)] unfolding pool_run_def by metis

definition sample_pod_a :: pod where
  "sample_pod_a = \<lparr>PodName = ''p'', PodNamespace = ''ns'', PodUID = ''pod-a'', PodAnnotations = [], PodLabels = [],
     PodNodeName = ''node-1'', PodServiceAccount = '''', PodPhase = PodRunning, PodContainers = []\<rparr>"

definition sample_pools_map :: "pool \<Rightarrow> instance_pools" where
  "sample_pools_map p = [(''node-1'', \<lparr>rpInstance = sample_instance, eniManager = NewENIManager, resourcePool = p,
     rpCapacity = 14, isPrevPDEnabled = False\<rparr>)]"

lemma sample_pools_get [simp]: "GetPool (sample_pools_map p) ''node-1'' = Some p"
  by (simp add: GetPool_def sample_pools_map_def mget_def)

theorem handler_refines_pool_witness:
  "\<exists>m' effs result err s'. HandleCreate ResourceNameIPAddress sample_k8s 5 sample_pod_a (sample_pools_map sample_pool) =
     (m', effs, result, err) \<and> pool_step\<^sup>*\<^sup>* (sample_sys sample_pool 5 None) s' \<and>
     GetPool m' ''node-1'' = Some (sys_pool s')"
proof -
  obtain m' effs result err where h: "HandleCreate ResourceNameIPAddress sample_k8s (clock (sample_sys sample_pool 5 None))
      sample_pod_a (sample_pools_map sample_pool) = (m', effs, result, err)" by (metis prod_cases4)
  have g: "GetPool (sample_pools_map sample_pool) (PodNodeName sample_pod_a) = Some (sys_pool (sample_sys sample_pool 5 None))"
    by (simp add: sample_pod_a_def sample_sys_def)
  show ?thesis using handler_refines_pool [OF g disjI1 [OF h]] h by (auto simp: sample_pod_a_def sample_sys_def)
qed

section \<open>Annotations and ownership\<close>

lemma ReconcilePool_used: "pool_inv p \<Longrightarrow> ReconcilePool p = (p', job) \<Longrightarrow> usedResources p' = usedResources p"
  by (erule (1) ReconcilePool_cases) simp_all

lemma reconcilePool_lookup:
  assumes "pool_inv p" "reconcilePool b p = (p', effs)"
  shows "GetAssignedResource q p' = GetAssignedResource q p"
  using ReconcilePool_used [OF assms(1)] assms(2)
  by (auto simp: reconcilePool_def GetAssignedResource_def split: if_splits prod.splits)

lemma reconcilePool_effs: "reconcilePool b p = (p', effs) \<Longrightarrow> e \<in> set effs \<Longrightarrow> \<exists>job. e = SubmitWarmJob job"
  by (auto simp: reconcilePool_def split: if_splits prod.splits)

lemma assign_failed_effs:
  "assign_failed res k8s pod err = (effs, r, e) \<Longrightarrow> ef \<in> set effs \<Longrightarrow> \<exists>a b c d. ef = PodEvent a b c d"
  by (auto simp: assign_failed_def Let_def split: pool_error.splits sum.splits if_splits)

lemma AssignResource_already: "AssignResource rq p = (p', x, b, Some ErrResourceAlreadyAssigned) \<Longrightarrow> snd (GetAssignedResource rq p)"
  by (auto simp: AssignResource_def GetAssignedResource_def Let_def mhas_def split: if_splits prod.splits option.splits)

lemma create_outcome:
  assumes "pool_inv p" "GetPool m (PodNodeName pod) = Some p" "\<not> mhas (PodAnnotations pod) res"
    and "HandleCreate res k8s now pod m = (m', effs, result, err)" "GetPool m' (PodNodeName pod) = Some p'"
  shows "(\<forall>x. AnnotatePodCall (PodNamespace pod) (PodName pod) (PodUID pod) res x \<in> set effs \<longrightarrow>
      (\<forall>q. GetAssignedResource q p \<noteq> (x, True)) \<and>
      GetAssignedResource (PodUID pod) p' = (if err = None then (x, True) else ('''', False))) \<and>
    (err = None \<and> (\<forall>x. AnnotatePodCall (PodNamespace pod) (PodName pod) (PodUID pod) res x \<notin> set effs) \<longrightarrow>
      Requeue result \<or> snd (GetAssignedResource (PodUID pod) p)) \<and>
    (\<forall>q. q \<noteq> PodUID pod \<longrightarrow> GetAssignedResource q p' = GetAssignedResource q p)"
proof -
  note gp = GetPool_set_pool [OF assms(2)]
  obtain p1 x b oe where a: "AssignResource (PodUID pod) p = (p1, x, b, oe)" by (metis prod_cases4)
  have inv1: "pool_inv p1" using wp.assign_inv [OF assms(1) a] .
  show ?thesis
  proof (cases oe)
    case (Some er)
    obtain p2 jobs where rc: "reconcilePool b p1 = (p2, jobs)" by fastforce
    obtain events rs e where af: "assign_failed res k8s pod er = (events, rs, e)" by (metis prod_cases3)
    have h: "m' = set_pool m (PodNodeName pod) p2" "effs = jobs @ events" "result = rs" "err = e"
      using assms(2-4) a Some rc af by (simp_all add: HandleCreate_def)
    have p': "p' = p2" using assms(5) gp h(1) by simp
    have no: "AnnotatePodCall ns n u r y \<notin> set effs" for ns n u r y
      using reconcilePool_effs [OF rc] assign_failed_effs [OF af] h(2) by fastforce
    have look: "GetAssignedResource q p' = GetAssignedResource q p" for q
      using reconcilePool_lookup [OF inv1 rc] wp.assign_error [OF assms(1) a [unfolded Some]] p' by simp
    have "Requeue result \<or> snd (GetAssignedResource (PodUID pod) p)" if "err = None"
      using that af h(3,4) AssignResource_already a Some
      by (auto simp: assign_failed_def Let_def requeue_after_def split: pool_error.splits sum.splits if_splits)
    then show ?thesis using no look by blast
  next
    case None
    note ok = wp.assign_ok [OF assms(1) a [unfolded None]]
    note fresh = wp.assign_not_owned [OF assms(1) a [unfolded None]]
    define ann where "ann = AnnotatePod k8s (PodNamespace pod) (PodName pod) (PodUID pod) res x"
    obtain pf bf ef where f: "FreeResource now (PodUID pod) x p1 = (pf, bf, ef)" by (metis prod_cases3)
    have "\<exists>p2 b'. FreeResource now (PodUID pod) x p1 = (p2, b', None) \<and> pool_inv p2 \<and>
        (\<forall>q. GetAssignedResource q p2 = GetAssignedResource q p)"
      by (rule wp.assign_free_round_trip [OF assms(1) a [unfolded None]])
    then have fr: "ef = None" "pool_inv pf" "\<forall>q. GetAssignedResource q pf = GetAssignedResource q p" using f by auto
    define p2 where "p2 = (if ann = None then p1 else pf)"
    have inv2: "pool_inv p2" using inv1 fr(2) by (simp add: p2_def)
    obtain p3 jobs where rc: "reconcilePool b p2 = (p3, jobs)" by fastforce
    have h: "m' = set_pool m (PodNodeName pod) p3" "effs = AnnotatePodCall (PodNamespace pod) (PodName pod) (PodUID pod) res x #
          PodEvent (PodNamespace pod) (PodName pod) ReasonResourceAllocated EventTypeNormal # jobs"
        "err = None \<longleftrightarrow> ann = None"
      using assms(2-4) a None rc f fr(1)
      by (auto simp: HandleCreate_def Let_def p2_def ann_def split: option.splits prod.splits)
    have p': "p' = p3" using assms(5) gp h(1) by simp
    have look: "GetAssignedResource q p' = GetAssignedResource q p2" for q
      using reconcilePool_lookup [OF inv2 rc] p' by simp
    have only: "y = x" if "AnnotatePodCall (PodNamespace pod) (PodName pod) (PodUID pod) res y \<in> set effs" for y
      using that reconcilePool_effs [OF rc] h(2) by auto
    have "GetAssignedResource (PodUID pod) p' = (if err = None then (x, True) else ('''', False))"
      using look h(3) ok fr(3) wp.lookup_none [of "PodUID pod" p] by (auto simp: p2_def)
    moreover have "GetAssignedResource q p' = GetAssignedResource q p" if "q \<noteq> PodUID pod" for q
      using look ok fr(3) that by (auto simp: p2_def)
    ultimately show ?thesis using only fresh h(2) by auto
  qed
qed

text \<open>The outcome of \<open>HandleCreate\<close> for a pod without the annotation. A pod is annotated with an address it owns
  afterwards and nobody owned before; when the annotation fails the pod owns nothing; without an
  error and an annotation the pod is queued again or owned a resource already; and the ownership
  of the other pods never changes.\<close>

theorem annotation_means_ownership:
  assumes "pool_inv p" "GetPool m (PodNodeName pod) = Some p" "\<not> mhas (PodAnnotations pod) res"
    and "HandleCreate res k8s now pod m = (m', effs, result, err)" "GetPool m' (PodNodeName pod) = Some p'"
  shows "(\<forall>x. AnnotatePodCall (PodNamespace pod) (PodName pod) (PodUID pod) res x \<in> set effs \<longrightarrow>
      (\<forall>q. GetAssignedResource q p \<noteq> (x, True)) \<and>
      GetAssignedResource (PodUID pod) p' = (if err = None then (x, True) else ('''', False))) \<and>
    (err = None \<and> (\<forall>x. AnnotatePodCall (PodNamespace pod) (PodName pod) (PodUID pod) res x \<notin> set effs) \<longrightarrow>
      Requeue result \<or> snd (GetAssignedResource (PodUID pod) p)) \<and>
    (\<forall>q. q \<noteq> PodUID pod \<longrightarrow> GetAssignedResource q p' = GetAssignedResource q p)"
  using assms by (rule create_outcome)

theorem annotation_means_ownership_witness:
  "case HandleCreate ResourceNameIPAddress sample_k8s 5 sample_pod_a (sample_pools_map sample_pool) of
     (m', effs, result, err) \<Rightarrow> err = None \<and> (\<exists>p'. GetPool m' ''node-1'' = Some p' \<and>
        GetAssignedResource ''pod-a'' p' = (''10.0.0.1/32'', True))"
proof -
  let ?h = "HandleCreate ResourceNameIPAddress sample_k8s 5 sample_pod_a (sample_pools_map sample_pool)"
  obtain m' effs result err where h: "?h = (m', effs, result, err)" by (metis prod_cases4)
  have "case ?h of (m', effs, result, err) \<Rightarrow> err = None \<and> GetPool m' ''node-1'' \<noteq> None \<and>
      hd effs = AnnotatePodCall ''ns'' ''p'' ''pod-a'' ResourceNameIPAddress ''10.0.0.1/32'' \<and> effs \<noteq> []" by code_simp
  then obtain p' where e: "err = None" "GetPool m' ''node-1'' = Some p'"
      "AnnotatePodCall ''ns'' ''p'' ''pod-a'' ResourceNameIPAddress ''10.0.0.1/32'' \<in> set effs"
    using h by (cases effs) auto
  have f: "PodNodeName sample_pod_a = ''node-1''" "PodNamespace sample_pod_a = ''ns''" "PodName sample_pod_a = ''p''"
      "PodUID sample_pod_a = ''pod-a''" "\<not> mhas (PodAnnotations sample_pod_a) ResourceNameIPAddress"
    by (simp_all add: sample_pod_a_def mhas_def)
  have "GetAssignedResource ''pod-a'' p' = (''10.0.0.1/32'', True)"
    using annotation_means_ownership [where pod = sample_pod_a, unfolded f(1-4), OF sample_pool_inv _ f(5) h e(2)] e by simp
  then show ?thesis using h e by simp
qed

text \<open>A pod that owns an address but has no annotation, neither in the cache nor at the API server, gets
  neither an annotation nor a retry nor an error: the error of the pool is shadowed by the one of
  the API call, which is nil.\<close>

theorem already_assigned_is_swallowed:
  assumes "GetPool m (PodNodeName pod) = Some p" "\<not> mhas (PodAnnotations pod) res"
    and "mhas (usedResources p) (PodUID pod)"
    and "GetPodFromAPIServer k8s (PodNamespace pod) (PodName pod) = Inr pod'" "\<not> mhas (PodAnnotations pod') res"
  shows "HandleCreate res k8s now pod m = (set_pool m (PodNodeName pod) p, [], no_requeue, None)"
  using assms by (simp add: HandleCreate_def AssignResource_def reconcilePool_def assign_failed_def Let_def)

theorem already_assigned_is_swallowed_witness:
  "HandleCreate ResourceNameIPAddress (sample_k8s\<lparr>GetPodFromAPIServer := (\<lambda>ns n. Inr sample_pod_a)\<rparr>) 5 sample_pod_a
     (sample_pools_map sample_used) = (set_pool (sample_pools_map sample_used) ''node-1'' sample_used, [], no_requeue, None)"
proof -
  have "PodNodeName sample_pod_a = ''node-1''" "\<not> mhas (PodAnnotations sample_pod_a) ResourceNameIPAddress"
      "mhas (usedResources sample_used) (PodUID sample_pod_a)"
    by (simp_all add: sample_pod_a_def sample_pools mhas_def mget_def)
  then show ?thesis
    using already_assigned_is_swallowed [of "sample_pools_map sample_used" sample_pod_a sample_used ResourceNameIPAddress
        "sample_k8s\<lparr>GetPodFromAPIServer := (\<lambda>ns n. Inr sample_pod_a)\<rparr>" sample_pod_a 5]
    by simp
qed

end
