(* ===== verification/Ip_Provider.thy ===== *)
theory Ip_Provider
  imports Warm_Handler
begin

text \<open>
  \<open>pkg/provider/ip/provider.go\<close>: the provider of secondary IPv4 addresses for Windows nodes. Its state
  is the cache of the nodes' ENI managers and pools; an operation returns the new state, the
  history of EC2 calls and the effects on Kubernetes and on the worker queue. \<open>None\<close> is a panic.
  The map from addresses to prefixes that \<open>InitResource\<close> builds is only logged, and left out.
\<close>

record warm_provider =
  wpConfig :: "WarmPoolConfig option"
  instanceProviderAndPool :: instance_pools

datatype provider_error =
    ProviderEniError eni_error
  | ProviderK8sError k8s_error
  | PrefixError prefix_error
  | InvalidJobType
  | UnsupportedOperation

definition NewWarmProvider :: "ResourceConfig \<Rightarrow> warm_provider" where
  "NewWarmProvider resourceConfig = \<lparr>wpConfig = RCWarmPoolConfig resourceConfig, instanceProviderAndPool = []\<rparr>"

section \<open>The cache of pools\<close>

definition putInstanceProviderAndPool ::
  "string \<Rightarrow> pool \<Rightarrow> eni_manager \<Rightarrow> ec2_instance \<Rightarrow> int \<Rightarrow> bool \<Rightarrow> warm_provider \<Rightarrow> warm_provider" where
  "putInstanceProviderAndPool node p manager i cap isPrevPD prov =
     prov\<lparr>instanceProviderAndPool := mput (instanceProviderAndPool prov) node
       \<lparr>rpInstance = i, eniManager = manager, resourcePool = p, rpCapacity = cap, isPrevPDEnabled = isPrevPD\<rparr>\<rparr>"

definition getInstanceProviderAndPool :: "string \<Rightarrow> warm_provider \<Rightarrow> resource_provider_and_pool option" where
  "getInstanceProviderAndPool node prov = mget (instanceProviderAndPool prov) node"

definition deleteInstanceProviderAndPool :: "string \<Rightarrow> warm_provider \<Rightarrow> warm_provider" where
  "deleteInstanceProviderAndPool node prov =
     prov\<lparr>instanceProviderAndPool := mdel (instanceProviderAndPool prov) node\<rparr>"

definition upd_node :: "string \<Rightarrow> (resource_provider_and_pool \<Rightarrow> resource_provider_and_pool) \<Rightarrow> warm_provider \<Rightarrow> warm_provider" where
  "upd_node node f prov =
     (case mget (instanceProviderAndPool prov) node of
        None \<Rightarrow> prov
      | Some rp \<Rightarrow> prov\<lparr>instanceProviderAndPool := mput (instanceProviderAndPool prov) node (f rp)\<rparr>)"

definition getCapacity :: "limits_table \<Rightarrow> string \<Rightarrow> string \<Rightarrow> int" where
  "getCapacity Limits ty operatingSystem =
     (case Limits ty of
        None \<Rightarrow> 0
      | Some limits \<Rightarrow>
          if operatingSystem = OSWindows then IPv4PerInterface limits - 1
          else (IPv4PerInterface limits - 1) * Interface limits)"

definition difference :: "string list \<Rightarrow> string list \<Rightarrow> string list" where
  "difference allIPs usedIPSet = filter (\<lambda>ip. ip \<notin> set usedIPSet) allIPs"

definition submit_if_required :: "WarmPoolJob \<Rightarrow> effect list" where
  "submit_if_required job = (if Operations job \<noteq> OperationReconcileNotRequired then [SubmitWarmJob job] else [])"

section \<open>Initialisation\<close>

definition UnsupportedInstanceTypeReason :: string where "UnsupportedInstanceTypeReason = ''Unsupported''"

text \<open>The loop over the running pods: the pods that use a secondary address, and those addresses.\<close>

fun used_secondary_loop ::
  "string list \<Rightarrow> pod list \<Rightarrow> (string, resource) gomap \<Rightarrow> string list \<Rightarrow> (string, resource) gomap \<times> string list" where
  "used_secondary_loop presentIPs [] podToResourceMap usedIPSet = (podToResourceMap, usedIPSet)"
| "used_secondary_loop presentIPs (pod # pods) podToResourceMap usedIPSet =
     (case mget (PodAnnotations pod) ResourceNameIPAddress of
        None \<Rightarrow> used_secondary_loop presentIPs pods podToResourceMap usedIPSet
      | Some annotation \<Rightarrow>
          if annotation \<in> set presentIPs then
            used_secondary_loop presentIPs pods
              (mput podToResourceMap (PodUID pod) \<lparr>GroupID = annotation, ResourceID = annotation\<rparr>)
              (annotation # usedIPSet)
          else used_secondary_loop presentIPs pods podToResourceMap usedIPSet)"

definition unsupported_event :: "k8s_api \<Rightarrow> ec2_instance \<Rightarrow> eni_error \<Rightarrow> effect list" where
  "unsupported_event k8s i err =
     (if err = EniUnsupportedInstanceType
      then SendNodeEventWithNodeName k8s (name i) UnsupportedInstanceTypeReason EventTypeWarning else [])"

definition IpInitResource ::
  "limits_table \<Rightarrow> ec2_api \<Rightarrow> k8s_api \<Rightarrow> ec2_instance \<Rightarrow> warm_provider \<Rightarrow> hist \<Rightarrow>
   (warm_provider \<times> hist \<times> effect list \<times> provider_error option) option" where
  "IpInitResource Limits api k8s i prov h =
     (case InitResources Limits api i NewENIManager h of
        (e, h1, Inl err) \<Rightarrow> Some (prov, h1, unsupported_event k8s i err, Some (ProviderEniError err))
      | (e, h1, Inr ipV4Resources) \<Rightarrow>
         (case GetRunningPodsOnNode k8s (name i) of
            Inl err \<Rightarrow> Some (prov, h1, [], Some (ProviderK8sError err))
          | Inr pods \<Rightarrow>
             (let presentIPs = PrivateIPv4Addresses ipV4Resources;
                  (podToResourceMap, usedIPSet) = used_secondary_loop presentIPs pods [] [];
                  warmIPs = difference presentIPs usedIPSet;
                  warm = fold (\<lambda>ip w. append_warm w ip [\<lparr>GroupID = ip, ResourceID = ip\<rparr>]) warmIPs [];
                  nodeCapacity = getCapacity Limits (instanceType i) (os i);
                  isPDEnabled = IsWindowsPrefixDelegationEnabled k8s;
                  conf = GetWinWarmPoolConfig (VpcCniConfigMap k8s) isPDEnabled
              in case (if isPDEnabled then Some zero_WarmPoolConfig else conf) of
                   None \<Rightarrow> None
                 | Some secondaryIPWPConfig \<Rightarrow>
                    (let (p, job) = ReconcilePool (NewResourcePool secondaryIPWPConfig podToResourceMap warm
                           (name i) nodeCapacity False)
                     in Some (putInstanceProviderAndPool (name i) p e i nodeCapacity isPDEnabled
                                (prov\<lparr>wpConfig := conf\<rparr>), h1,
                              submit_if_required job @ [SubmitWarmJob (NewWarmProcessDeleteQueueJob (name i))],
                              None)))))"

definition DeInitResource :: "ec2_instance \<Rightarrow> warm_provider \<Rightarrow> warm_provider" where
  "DeInitResource i prov = deleteInstanceProviderAndPool (name i) prov"

section \<open>Toggling between secondary IPs and prefixes\<close>

definition IpUpdateResourceCapacity ::
  "limits_table \<Rightarrow> k8s_api \<Rightarrow> ec2_instance \<Rightarrow> warm_provider \<Rightarrow> (warm_provider \<times> effect list \<times> provider_error option) option" where
  "IpUpdateResourceCapacity Limits k8s i prov =
     (case getInstanceProviderAndPool (name i) prov of
        None \<Rightarrow> Some (prov, [], None)
      | Some rp \<Rightarrow>
         (let isCurrPDEnabled = IsWindowsPrefixDelegationEnabled k8s;
              isNitroInstance = (IsNitroInstance Limits (instanceType i) = Some True)
          in if isNitroInstance \<and> isPrevPDEnabled rp \<and> isCurrPDEnabled then Some (prov, [], None)
             else if isNitroInstance \<and> \<not> isPrevPDEnabled rp \<and> isCurrPDEnabled then
               (case SetToDraining (resourcePool rp) of
                  (p, job) \<Rightarrow> Some (upd_node (name i) (\<lambda>rp. rp\<lparr>isPrevPDEnabled := True, resourcePool := p\<rparr>) prov,
                                    submit_if_required job, None))
             else
               (let conf = GetWinWarmPoolConfig (VpcCniConfigMap k8s) (isCurrPDEnabled \<and> isNitroInstance) in
                case conf of
                  None \<Rightarrow> None
                | Some c \<Rightarrow>
                   (case SetToActive c (resourcePool rp) of
                      (p, job) \<Rightarrow>
                        Some (upd_node (name i) (\<lambda>rp. rp\<lparr>isPrevPDEnabled := False, resourcePool := p\<rparr>)
                                (prov\<lparr>wpConfig := conf\<rparr>),
                              submit_if_required job @
                                [AdvertiseCapacityCall (name i) ResourceNameIPAddress (rpCapacity rp)],
                              map_option ProviderK8sError
                                (AdvertiseCapacityIfNotSet k8s (name i) ResourceNameIPAddress (rpCapacity rp)))))))"

section \<open>Jobs\<close>

text \<open>\<open>ProcessDeleteQueue\<close>; the clock is read once per entry of the cool down queue.\<close>

definition IpProcessDeleteQueue ::
  "(nat \<Rightarrow> int) \<Rightarrow> WarmPoolJob \<Rightarrow> warm_provider \<Rightarrow> warm_provider \<times> effect list \<times> ctrl_result" where
  "IpProcessDeleteQueue now job prov =
     (case getInstanceProviderAndPool (WNodeName job) prov of
        None \<Rightarrow> (prov, [], no_requeue)
      | Some rp \<Rightarrow>
         (case ProcessCoolDownQueue now (resourcePool rp) of
            (p1, _) \<Rightarrow>
              (case ReconcilePool p1 of
                 (p2, job2) \<Rightarrow> (upd_node (WNodeName job) (\<lambda>rp. rp\<lparr>resourcePool := p2\<rparr>) prov,
                                submit_if_required job2, requeue_after CoolDownPeriod))))"

definition updatePoolAndReconcileIfRequired :: "pool \<Rightarrow> WarmPoolJob \<Rightarrow> bool \<Rightarrow> bool \<Rightarrow> pool \<times> effect list" where
  "updatePoolAndReconcileIfRequired p job didSucceed prefixAvail =
     (case UpdatePool job didSucceed prefixAvail p of
        (p1, shouldReconcile) \<Rightarrow>
          if shouldReconcile then (case ReconcilePool p1 of (p2, job2) \<Rightarrow> (p2, submit_if_required job2))
          else (p1, []))"

definition CreatePrivateIPv4AndUpdatePool ::
  "ec2_api \<Rightarrow> WarmPoolJob \<Rightarrow> warm_provider \<Rightarrow> hist \<Rightarrow> warm_provider \<times> hist \<times> effect list" where
  "CreatePrivateIPv4AndUpdatePool api job prov h =
     (case getInstanceProviderAndPool (WNodeName job) prov of
        None \<Rightarrow> (prov, h, [])
      | Some rp \<Rightarrow>
         (case CreateIPV4Resource api (rpInstance rp) (ResourceCount job) ResourceTypeIPv4Address (eniManager rp) h of
            (e, h1, ips, err) \<Rightarrow>
              (case updatePoolAndReconcileIfRequired (resourcePool rp) (job\<lparr>JobResources := ips\<rparr>) (err = None) False of
                 (p, effs) \<Rightarrow> (upd_node (WNodeName job) (\<lambda>rp. rp\<lparr>eniManager := e, resourcePool := p\<rparr>) prov, h1, effs))))"

definition DeletePrivateIPv4AndUpdatePool ::
  "((nat option \<times> string list) list \<Rightarrow> (nat option \<times> string list) list) \<Rightarrow> limits_table \<Rightarrow> ec2_api \<Rightarrow> WarmPoolJob \<Rightarrow>
   warm_provider \<Rightarrow> hist \<Rightarrow> (warm_provider \<times> hist \<times> effect list) option" where
  "DeletePrivateIPv4AndUpdatePool ord Limits api job prov h =
     (case getInstanceProviderAndPool (WNodeName job) prov of
        None \<Rightarrow> Some (prov, h, [])
      | Some rp \<Rightarrow>
         (case DeleteIPV4Resource ord Limits api (rpInstance rp) (JobResources job) ResourceTypeIPv4Address (eniManager rp) h of
            None \<Rightarrow> None
          | Some (e, h1, failedIPs, err) \<Rightarrow>
              (case updatePoolAndReconcileIfRequired (resourcePool rp) (job\<lparr>JobResources := failedIPs\<rparr>) (err = None) False of
                 (p, effs) \<Rightarrow>
                   Some (upd_node (WNodeName job) (\<lambda>rp. rp\<lparr>eniManager := e, resourcePool := p\<rparr>) prov, h1, effs))))"

definition IpReSyncPool :: "limits_table \<Rightarrow> ec2_api \<Rightarrow> WarmPoolJob \<Rightarrow> warm_provider \<Rightarrow> hist \<Rightarrow> warm_provider \<times> hist" where
  "IpReSyncPool Limits api job prov h =
     (case mget (instanceProviderAndPool prov) (WNodeName job) of
        None \<Rightarrow> (prov, h)
      | Some rp \<Rightarrow>
         (case InitResources Limits api (rpInstance rp) (eniManager rp) h of
            (e, h1, Inl err) \<Rightarrow> (upd_node (WNodeName job) (\<lambda>rp. rp\<lparr>eniManager := e\<rparr>) prov, h1)
          | (e, h1, Inr ipV4Resources) \<Rightarrow>
              (upd_node (WNodeName job) (\<lambda>rp. rp\<lparr>eniManager := e,
                 resourcePool := ReSync (PrivateIPv4Addresses ipV4Resources) (resourcePool rp)\<rparr>) prov, h1)))"

definition IpProcessAsyncJob ::
  "((nat option \<times> string list) list \<Rightarrow> (nat option \<times> string list) list) \<Rightarrow> limits_table \<Rightarrow> ec2_api \<Rightarrow> (nat \<Rightarrow> int) \<Rightarrow>
   any_job \<Rightarrow> warm_provider \<Rightarrow> hist \<Rightarrow>
   (warm_provider \<times> hist \<times> effect list \<times> ctrl_result \<times> provider_error option) option" where
  "IpProcessAsyncJob ord Limits api now job prov h =
     (case job of
        AWarmPoolJob j \<Rightarrow>
         (case Operations j of
            OperationCreate \<Rightarrow>
              (case CreatePrivateIPv4AndUpdatePool api j prov h of
                 (prov', h', effs) \<Rightarrow> Some (prov', h', effs, no_requeue, None))
          | OperationDeleted \<Rightarrow>
              (case DeletePrivateIPv4AndUpdatePool ord Limits api j prov h of
                 None \<Rightarrow> None
               | Some (prov', h', effs) \<Rightarrow> Some (prov', h', effs, no_requeue, None))
          | OperationReSyncPool \<Rightarrow>
              (case IpReSyncPool Limits api j prov h of (prov', h') \<Rightarrow> Some (prov', h', [], no_requeue, None))
          | OperationProcessDeleteQueue \<Rightarrow>
              (case IpProcessDeleteQueue now j prov of (prov', effs, result) \<Rightarrow> Some (prov', h, effs, result, None))
          | _ \<Rightarrow> Some (prov, h, [], no_requeue, None))
      | _ \<Rightarrow> Some (prov, h, [], no_requeue, Some InvalidJobType))"

section \<open>Queries\<close>

definition IpIsInstanceSupported :: "ec2_instance \<Rightarrow> bool" where
  "IpIsInstanceSupported i = (if os i = OSWindows then True else False)"

definition IpIntrospect :: "warm_provider \<Rightarrow> (string, IntrospectResponse) gomap" where
  "IpIntrospect prov = fold (\<lambda>(node, rp) m. mput m node (Introspect (resourcePool rp))) (instanceProviderAndPool prov) []"

record introspect_summary =
  WarmResourcesCount :: int
  CoolingResourcesCount :: int
  UsedResourcesCount :: int

definition ChangeToIntrospectSummary :: "IntrospectResponse \<Rightarrow> introspect_summary" where
  "ChangeToIntrospectSummary details =
     \<lparr>WarmResourcesCount = int (length (WarmResources details)),
      CoolingResourcesCount = int (length (CoolingResources details)),
      UsedResourcesCount = int (length (UsedResources details))\<rparr>"

definition IpIntrospectSummary :: "warm_provider \<Rightarrow> (string, introspect_summary) gomap" where
  "IpIntrospectSummary prov =
     fold (\<lambda>(node, rp) m. mput m node (ChangeToIntrospectSummary (Introspect (resourcePool rp)))) (instanceProviderAndPool prov) []"

text \<open>\<open>None\<close> is the empty struct of an unknown node.\<close>

definition IpIntrospectNode :: "string \<Rightarrow> warm_provider \<Rightarrow> IntrospectResponse option" where
  "IpIntrospectNode node prov = map_option (\<lambda>rp. Introspect (resourcePool rp)) (mget (instanceProviderAndPool prov) node)"

end
