(* ===== verification/Prefix_Provider.thy ===== *)
theory Prefix_Provider
  imports Ip_Provider
begin

text \<open>
  \<open>pkg/provider/prefix/provider.go\<close>: the provider of IPv4 addresses from /28 prefixes for Windows nodes.
  It has the state of the secondary IP provider; a pool's groups are the prefixes. The count of
  secondary addresses in use that \<open>InitResource\<close> keeps is only logged, and left out.
\<close>

section \<open>Initialisation\<close>

text \<open>The map from every address of the prefixes to its prefix.\<close>

fun resource_ids_to_group :: "string list \<Rightarrow> (string, string) gomap \<Rightarrow> prefix_error + (string, string) gomap" where
  "resource_ids_to_group [] m = Inr m"
| "resource_ids_to_group (prefix # prefixes) m =
     (case DeconstructIPsFromPrefix prefix of
        Inl err \<Rightarrow> Inl err
      | Inr ips \<Rightarrow> resource_ids_to_group prefixes (fold (\<lambda>ip m. mput m ip prefix) ips m))"

fun used_prefix_loop ::
  "pod list \<Rightarrow> (string, string) gomap \<Rightarrow> (string, resource) gomap \<Rightarrow> (string, string) gomap \<times> (string, resource) gomap" where
  "used_prefix_loop [] m podToResourceMap = (m, podToResourceMap)"
| "used_prefix_loop (pod # pods) m podToResourceMap =
     (case mget (PodAnnotations pod) ResourceNameIPAddress of
        None \<Rightarrow> used_prefix_loop pods m podToResourceMap
      | Some annotation \<Rightarrow>
         (case mget m annotation of
            Some prefix \<Rightarrow>
              used_prefix_loop pods (mdel m annotation)
                (mput podToResourceMap (PodUID pod) \<lparr>GroupID = prefix, ResourceID = annotation\<rparr>)
          | None \<Rightarrow> used_prefix_loop pods m podToResourceMap))"

text \<open>The addresses that are left are visited in the order \<open>ord\<close> of a range over a map.\<close>

definition warm_from_prefixes ::
  "((string \<times> string) list \<Rightarrow> (string \<times> string) list) \<Rightarrow> (string, string) gomap \<Rightarrow> warm_map" where
  "warm_from_prefixes ord m =
     fold (\<lambda>(ip, prefix) w. append_warm w prefix [\<lparr>GroupID = prefix, ResourceID = ip\<rparr>]) (ord m) []"

definition prefix_getCapacity :: "limits_table \<Rightarrow> string \<Rightarrow> string \<Rightarrow> int" where
  "prefix_getCapacity Limits ty operatingSystem =
     (case Limits ty of
        None \<Rightarrow> 0
      | Some limits \<Rightarrow>
          if operatingSystem = OSWindows then IPv4PerInterface limits - 1
          else (IPv4PerInterface limits - 1) * Interface limits)"

definition PrefixInitResource ::
  "((string \<times> string) list \<Rightarrow> (string \<times> string) list) \<Rightarrow> limits_table \<Rightarrow> ec2_api \<Rightarrow> k8s_api \<Rightarrow> ec2_instance \<Rightarrow>
   warm_provider \<Rightarrow> hist \<Rightarrow> (warm_provider \<times> hist \<times> effect list \<times> provider_error option) option" where
  "PrefixInitResource ord Limits api k8s i prov h =
     (case InitResources Limits api i NewENIManager h of
        (e, h1, Inl err) \<Rightarrow> Some (prov, h1, unsupported_event k8s i err, Some (ProviderEniError err))
      | (e, h1, Inr ipV4Resources) \<Rightarrow>
         (case GetRunningPodsOnNode k8s (name i) of
            Inl err \<Rightarrow> Some (prov, h1, [], Some (ProviderK8sError err))
          | Inr pods \<Rightarrow>
             (case resource_ids_to_group (IPv4Prefixes ipV4Resources) [] of
                Inl err \<Rightarrow> Some (prov, h1, [], Some (PrefixError err))
              | Inr warmResourceIDToGroup \<Rightarrow>
                 (let (m, podToResourceMap) = used_prefix_loop pods warmResourceIDToGroup [];
                      warm = warm_from_prefixes ord m;
                      nodeCapacity = prefix_getCapacity Limits (instanceType i) (os i) * NumIPv4AddrPerPrefix;
                      isPDEnabled = IsWindowsPrefixDelegationEnabled k8s;
                      conf = GetWinWarmPoolConfig (VpcCniConfigMap k8s) isPDEnabled
                  in case (if \<not> isPDEnabled then Some zero_WarmPoolConfig else conf) of
                       None \<Rightarrow> None
                     | Some prefixIPWPConfig \<Rightarrow>
                        (let (p, job) = ReconcilePool (NewResourcePool prefixIPWPConfig podToResourceMap warm
                               (name i) nodeCapacity True)
                         in Some (putInstanceProviderAndPool (name i) p e i nodeCapacity isPDEnabled
                                    (prov\<lparr>wpConfig := conf\<rparr>), h1,
                                  submit_if_required job @ [SubmitWarmJob (NewWarmProcessDeleteQueueJob (name i))],
                                  None))))))"

section \<open>Toggling between secondary IPs and prefixes\<close>

definition PrefixUpdateResourceCapacity ::
  "k8s_api \<Rightarrow> ec2_instance \<Rightarrow> warm_provider \<Rightarrow> (warm_provider \<times> effect list \<times> provider_error option) option" where
  "PrefixUpdateResourceCapacity k8s i prov =
     (case getInstanceProviderAndPool (name i) prov of
        None \<Rightarrow> Some (prov, [], None)
      | Some rp \<Rightarrow>
         (let isCurrPDEnabled = IsWindowsPrefixDelegationEnabled k8s in
          if \<not> isPrevPDEnabled rp \<and> \<not> isCurrPDEnabled then Some (prov, [], None)
          else if isPrevPDEnabled rp \<and> \<not> isCurrPDEnabled then
            (case SetToDraining (resourcePool rp) of
               (p, job) \<Rightarrow> Some (upd_node (name i) (\<lambda>rp. rp\<lparr>isPrevPDEnabled := False, resourcePool := p\<rparr>) prov,
                                 submit_if_required job, None))
          else
            (case GetWinWarmPoolConfig (VpcCniConfigMap k8s) isCurrPDEnabled of
               None \<Rightarrow> None
             | Some c \<Rightarrow>
                (case SetToActive c (resourcePool rp) of
                   (p, job) \<Rightarrow>
                     Some (upd_node (name i) (\<lambda>rp. rp\<lparr>isPrevPDEnabled := True, resourcePool := p\<rparr>) prov,
                           submit_if_required job @
                             [AdvertiseCapacityCall (name i) ResourceNameIPAddress (rpCapacity rp)],
                           map_option ProviderK8sError
                             (AdvertiseCapacityIfNotSet k8s (name i) ResourceNameIPAddress (rpCapacity rp)))))))"

section \<open>Jobs\<close>

text \<open>\<open>err.Error()\<close> of the errors of \<open>CreateIPV4Resource\<close>.\<close>

fun eni_error_text :: "eni_error \<Rightarrow> string" where
  "eni_error_text (EniEc2Error s) = s"
| "eni_error_text (NotAllCreated ty required created) =
     ''not able to create the desired number of '' @ ty @ '', required '' @ Itoa required @ '', created '' @ Itoa created"
| "eni_error_text EniUnsupportedInstanceType = ''unsupported instance type, error: resource was not found''"
| "eni_error_text EmptyResourceList = ''failed to unassign since resourceList is empty''"
| "eni_error_text (FailedToUnassign ty errs) = ''failed to unassign one or more '' @ ty"

definition CreateIPv4PrefixAndUpdatePool ::
  "ec2_api \<Rightarrow> k8s_api \<Rightarrow> WarmPoolJob \<Rightarrow> warm_provider \<Rightarrow> hist \<Rightarrow> warm_provider \<times> hist \<times> effect list" where
  "CreateIPv4PrefixAndUpdatePool api k8s job prov h =
     (case getInstanceProviderAndPool (WNodeName job) prov of
        None \<Rightarrow> (prov, h, [])
      | Some rp \<Rightarrow>
         (case CreateIPV4Resource api (rpInstance rp) (ResourceCount job) ResourceTypeIPv4Prefix (eniManager rp) h of
            (e, h1, resources, err) \<Rightarrow>
              (let notRetry = (case err of None \<Rightarrow> True | Some er \<Rightarrow> \<not> ShouldRetryOnError (eni_error_text er));
                   prefixAvail = (case err of None \<Rightarrow> True
                     | Some er \<Rightarrow> \<not> HasPrefix (eni_error_text er) InsufficientCidrBlocksReason);
                   events = (if prefixAvail then []
                     else SendNodeEventWithNodeName k8s (WNodeName job) InsufficientCidrBlocksReason EventTypeWarning)
               in case updatePoolAndReconcileIfRequired (resourcePool rp) (job\<lparr>JobResources := resources\<rparr>) notRetry prefixAvail of
                    (p, effs) \<Rightarrow>
                      (upd_node (WNodeName job) (\<lambda>rp. rp\<lparr>eniManager := e, resourcePool := p\<rparr>) prov, h1, events @ effs))))"

definition DeleteIPv4PrefixAndUpdatePool ::
  "((nat option \<times> string list) list \<Rightarrow> (nat option \<times> string list) list) \<Rightarrow> limits_table \<Rightarrow> ec2_api \<Rightarrow> WarmPoolJob \<Rightarrow>
   warm_provider \<Rightarrow> hist \<Rightarrow> (warm_provider \<times> hist \<times> effect list) option" where
  "DeleteIPv4PrefixAndUpdatePool ord Limits api job prov h =
     (case getInstanceProviderAndPool (WNodeName job) prov of
        None \<Rightarrow> Some (prov, h, [])
      | Some rp \<Rightarrow>
         (case DeleteIPV4Resource ord Limits api (rpInstance rp) (JobResources job) ResourceTypeIPv4Prefix (eniManager rp) h of
            None \<Rightarrow> None
          | Some (e, h1, failedResources, err) \<Rightarrow>
              (case updatePoolAndReconcileIfRequired (resourcePool rp) (job\<lparr>JobResources := failedResources\<rparr>) (err = None) True of
                 (p, effs) \<Rightarrow>
                   Some (upd_node (WNodeName job) (\<lambda>rp. rp\<lparr>eniManager := e, resourcePool := p\<rparr>) prov, h1, effs))))"

definition PrefixReSyncPool :: "limits_table \<Rightarrow> ec2_api \<Rightarrow> WarmPoolJob \<Rightarrow> warm_provider \<Rightarrow> hist \<Rightarrow> warm_provider \<times> hist" where
  "PrefixReSyncPool Limits api job prov h =
     (case mget (instanceProviderAndPool prov) (WNodeName job) of
        None \<Rightarrow> (prov, h)
      | Some rp \<Rightarrow>
         (case InitResources Limits api (rpInstance rp) (eniManager rp) h of
            (e, h1, Inl err) \<Rightarrow> (upd_node (WNodeName job) (\<lambda>rp. rp\<lparr>eniManager := e\<rparr>) prov, h1)
          | (e, h1, Inr ipV4Resources) \<Rightarrow>
              (upd_node (WNodeName job) (\<lambda>rp. rp\<lparr>eniManager := e,
                 resourcePool := ReSync (IPv4Prefixes ipV4Resources) (resourcePool rp)\<rparr>) prov, h1)))"

definition PrefixProcessDeleteQueue ::
  "(nat \<Rightarrow> int) \<Rightarrow> WarmPoolJob \<Rightarrow> warm_provider \<Rightarrow> warm_provider \<times> effect list \<times> ctrl_result" where
  "PrefixProcessDeleteQueue now job prov =
     (case getInstanceProviderAndPool (WNodeName job) prov of
        None \<Rightarrow> (prov, [], no_requeue)
      | Some rp \<Rightarrow>
         (case ProcessCoolDownQueue now (resourcePool rp) of
            (p1, _) \<Rightarrow>
              (case ReconcilePool p1 of
                 (p2, job2) \<Rightarrow> (upd_node (WNodeName job) (\<lambda>rp. rp\<lparr>resourcePool := p2\<rparr>) prov,
                                submit_if_required job2, requeue_after CoolDownPeriod))))"

definition PrefixProcessAsyncJob ::
  "((nat option \<times> string list) list \<Rightarrow> (nat option \<times> string list) list) \<Rightarrow> limits_table \<Rightarrow> ec2_api \<Rightarrow> k8s_api \<Rightarrow>
   (nat \<Rightarrow> int) \<Rightarrow> any_job \<Rightarrow> warm_provider \<Rightarrow> hist \<Rightarrow>
   (warm_provider \<times> hist \<times> effect list \<times> ctrl_result \<times> provider_error option) option" where
  "PrefixProcessAsyncJob ord Limits api k8s now job prov h =
     (case job of
        AWarmPoolJob j \<Rightarrow>
         (case Operations j of
            OperationCreate \<Rightarrow>
              (case CreateIPv4PrefixAndUpdatePool api k8s j prov h of
                 (prov', h', effs) \<Rightarrow> Some (prov', h', effs, no_requeue, None))
          | OperationDeleted \<Rightarrow>
              (case DeleteIPv4PrefixAndUpdatePool ord Limits api j prov h of
                 None \<Rightarrow> None
               | Some (prov', h', effs) \<Rightarrow> Some (prov', h', effs, no_requeue, None))
          | OperationReSyncPool \<Rightarrow>
              (case PrefixReSyncPool Limits api j prov h of (prov', h') \<Rightarrow> Some (prov', h', [], no_requeue, None))
          | OperationProcessDeleteQueue \<Rightarrow>
              (case PrefixProcessDeleteQueue now j prov of (prov', effs, result) \<Rightarrow> Some (prov', h, effs, result, None))
          | _ \<Rightarrow> Some (prov, h, [], no_requeue, None))
      | _ \<Rightarrow> Some (prov, h, [], no_requeue, Some InvalidJobType))"

section \<open>Queries\<close>

definition PrefixIsInstanceSupported :: "limits_table \<Rightarrow> k8s_api \<Rightarrow> ec2_instance \<Rightarrow> bool \<times> effect list" where
  "PrefixIsInstanceSupported Limits k8s i =
     (if os i \<noteq> OSWindows then (False, [])
      else case IsNitroInstance Limits (instanceType i) of
        None \<Rightarrow> (False, SendNodeEventWithNodeName k8s (name i) UnsupportedInstanceTypeReason EventTypeWarning)
      | Some isNitroInstance \<Rightarrow>
          if isNitroInstance then (True, [])
          else (False, SendNodeEventWithNodeName k8s (name i) UnsupportedInstanceTypeReason EventTypeWarning))"

text \<open>The cache of the pools and its queries are those of the secondary IP provider, over the state of this one.\<close>

definition PrefixDeInitResource :: "ec2_instance \<Rightarrow> warm_provider \<Rightarrow> warm_provider" where
  "PrefixDeInitResource i prov = deleteInstanceProviderAndPool (name i) prov"

definition PrefixGetPool :: "string \<Rightarrow> warm_provider \<Rightarrow> pool option" where
  "PrefixGetPool node prov =
     (case getInstanceProviderAndPool node prov of None \<Rightarrow> None | Some providerAndPool \<Rightarrow> Some (resourcePool providerAndPool))"

definition PrefixIntrospect :: "warm_provider \<Rightarrow> (string, IntrospectResponse) gomap" where
  "PrefixIntrospect prov = fold (\<lambda>(node, rp) m. mput m node (Introspect (resourcePool rp))) (instanceProviderAndPool prov) []"

definition PrefixIntrospectSummary :: "warm_provider \<Rightarrow> (string, introspect_summary) gomap" where
  "PrefixIntrospectSummary prov =
     fold (\<lambda>(node, rp) m. mput m node (ChangeToIntrospectSummary (Introspect (resourcePool rp)))) (instanceProviderAndPool prov) []"

definition PrefixIntrospectNode :: "string \<Rightarrow> warm_provider \<Rightarrow> IntrospectResponse option" where
  "PrefixIntrospectNode node prov =
     (case mget (instanceProviderAndPool prov) node of None \<Rightarrow> None | Some rp \<Rightarrow> Some (Introspect (resourcePool rp)))"

end
