(* ===== verification/Provider_Props.thy ===== *)
theory Provider_Props
  imports Prefix_Provider Handler_Props Eni_Props
begin

text \<open>
  The providers of IPv4 addresses on top of the pool and the ENI manager: the pool they build at start
  up is one the pool's step relation starts from, so that its invariants hold from there on.
\<close>

section \<open>Building a pool\<close>

lemma win_config_some: "\<exists>c. GetWinWarmPoolConfig cm pd = Some c"
  by (cases cm; cases pd)
    (auto simp: GetWinWarmPoolConfig_def LoadResourceConfig_def LoadResourceConfigFromConfigMap_def upd_warm_def
      getDefaultResourceConfig_def Let_def resource_names split: prod.splits option.splits)

lemma pool_jobs_submit:
  "pool_jobs (submit_if_required job @ [SubmitWarmJob (NewWarmProcessDeleteQueueJob n)]) =
     (if is_pool_job job then [job] else [])"
  by (auto simp: submit_if_required_def is_pool_job_def warm_jobs)

lemma new_pool_reachable:
  assumes "pool_inv (NewResourcePool c used warm node cap pd)"
    and "ReconcilePool (NewResourcePool c used warm node cap pd) = (p, job)"
  shows "\<exists>s. reachable pool_sys_init pool_step s \<and> sys_pool s = p \<and>
    inflight s = pool_jobs (submit_if_required job @ [SubmitWarmJob (NewWarmProcessDeleteQueueJob n)])"
proof -
  define s0 where "s0 = \<lparr>sys_pool = NewResourcePool c used warm node cap pd, inflight = [], clock = 0, freedAt = (\<lambda>_. None)\<rparr>"
  have "pool_sys_init s0" using assms(1) by (simp add: pool_sys_init_def s0_def NewResourcePool_def)
  then have r0: "reachable pool_sys_init pool_step s0" by (rule reachable.reach_init)
  define s1 where "s1 = s0\<lparr>sys_pool := p, inflight := (if is_pool_job job then job # inflight s0 else inflight s0)\<rparr>"
  have "pool_step s0 s1" unfolding s1_def
    by (rule pool_step.reconcile) (simp add: s0_def assms(2))
  then have "reachable pool_sys_init pool_step s1" using r0 by (rule reachable.reach_step [rotated])
  then show ?thesis unfolding pool_jobs_submit by (intro exI [of _ s1]) (simp add: s1_def s0_def)
qed

section \<open>Secondary addresses\<close>

definition annotated :: "pod list \<Rightarrow> (string \<times> string) list" where
  "annotated pods = concat (map (\<lambda>p. case mget (PodAnnotations p) ResourceNameIPAddress of
     None \<Rightarrow> [] | Some a \<Rightarrow> [(PodUID p, a)]) pods)"

abbreviation own :: "string \<Rightarrow> resource" where
  "own a \<equiv> \<lparr>GroupID = a, ResourceID = a\<rparr>"

lemma used_secondary_loop_eq:
  assumes "distinct (mkeys used @ map PodUID pods)"
  shows "used_secondary_loop present pods used ips =
    (used @ map (\<lambda>(u, a). (u, own a)) (filter (\<lambda>(u, a). a \<in> set present) (annotated pods)),
     rev (map snd (filter (\<lambda>(u, a). a \<in> set present) (annotated pods))) @ ips)"
  using assms
proof (induction pods arbitrary: used ips)
  case (Cons p pods)
  have d: "distinct (mkeys (used @ [(PodUID p, own a)]) @ map PodUID pods)" for a
    using Cons.prems by (auto simp: mkeys_def)
  have d2: "distinct (mkeys used @ map PodUID pods)" "PodUID p \<notin> set (mkeys used)" using Cons.prems by auto
  show ?case
    using Cons.IH [OF d] Cons.IH [OF d2(1)] d2(2)
    by (auto simp: annotated_def mput_absent split: option.splits)
qed (simp add: annotated_def)

lemma fold_warm_own:
  "distinct (mkeys w @ ips) \<Longrightarrow>
   fold (\<lambda>ip w. append_warm w ip [own ip]) ips w = w @ map (\<lambda>ip. (ip, [own ip])) ips"
proof (induction ips arbitrary: w)
  case (Cons ip ips)
  have "mgetd [] w ip = []" using Cons.prems by (auto simp: mgetd_def mkeys_mget split: option.splits)
  moreover have "ip \<notin> set (mkeys w)" "distinct (mkeys (w @ [(ip, [own ip])]) @ ips)"
    using Cons.prems by (auto simp: mkeys_def)
  ultimately show ?case using Cons.IH [of "w @ [(ip, [own ip])]"] by (simp add: append_warm_def mput_absent)
qed simp

lemma annotated_fst: "map fst (annotated pods) = map PodUID (filter (\<lambda>p. mhas (PodAnnotations p) ResourceNameIPAddress) pods)"
  by (induction pods) (auto simp: annotated_def mhas_def split: option.splits)

lemma ip_init_pool:
  assumes "distinct present" "distinct (map PodUID pods)" "distinct (map snd (annotated pods))"
    and "used_secondary_loop present pods [] [] = (used, ips)"
    and "warm = fold (\<lambda>ip w. append_warm w ip [own ip]) (difference present ips) []"
  shows "pool_inv (NewResourcePool c used warm node cap False)"
    and "set (pool_ids (NewResourcePool c used warm node cap False)) = set present"
    and "(u, a) \<in> set (annotated pods) \<Longrightarrow> a \<in> set present \<Longrightarrow> mget used u = Some (own a)"
proof -
  define sel where "sel = filter (\<lambda>(u, a). a \<in> set present) (annotated pods)"
  have dk: "distinct (mkeys ([] :: (string, resource) gomap) @ map PodUID pods)" using assms(2) by (simp add: mkeys_def)
  have used: "used = map (\<lambda>(u, a). (u, own a)) sel" and "ips = rev (map snd sel)"
    using assms(4) used_secondary_loop_eq [OF dk, of present "[]"] by (simp_all add: sel_def)
  then have ips: "set ips = set (map snd sel)" by simp
  have wips: "distinct (difference present ips)" using assms(1) by (simp add: difference_def)
  have warm: "warm = map (\<lambda>ip. (ip, [own ip])) (difference present ips)"
    unfolding assms(5) using fold_warm_own [of "[]" "difference present ips"] wips by (simp add: mkeys_def)
  have dfst: "distinct (map fst sel)"
  proof -
    have "distinct (map fst (annotated pods))" unfolding annotated_fst using assms(2) by (simp add: distinct_map inj_on_def)
    then show ?thesis unfolding sel_def by (rule distinct_map_filter)
  qed
  have dsnd: "distinct (map snd sel)" unfolding sel_def by (rule distinct_map_filter [OF assms(3)])
  have wfu: "wf_map used"
    using dfst by (simp add: wf_map_def mkeys_def used comp_def case_prod_beta)
  let ?p = "NewResourcePool c used warm node cap False"
  have loc: "local_resources ?p = map own (map snd sel) @ map own (difference present ips)"
    by (simp add: local_resources_def NewResourcePool_def mvals_def mflat_def used warm comp_def case_prod_beta)
  have ids: "pool_ids ?p = map snd sel @ difference present ips"
    unfolding pool_ids_def loc by (simp add: comp_def)
  show "pool_inv ?p"
  proof (rule pool_invI)
    show "wf_map (usedResources ?p)" using wfu by (simp add: NewResourcePool_def)
    show "wf_map (warmResources ?p)" using wips by (simp add: NewResourcePool_def warm wf_map_def mkeys_def comp_def)
    show "distinct (pool_ids ?p)" unfolding ids using dsnd wips ips by (auto simp: difference_def)
    show "warm_keyed (warmResources ?p)" by (simp add: NewResourcePool_def warm warm_keyed_def list_all_iff)
    show "\<forall>r \<in> set (local_resources ?p). GroupID r = ResourceID r" unfolding loc by auto
  qed
  show "set (pool_ids ?p) = set present"
    unfolding ids using ips by (auto simp: difference_def sel_def)
  show "mget used u = Some (own a)" if "(u, a) \<in> set (annotated pods)" "a \<in> set present"
    using that by (intro mem_mget [OF wfu]) (auto simp: used sel_def image_iff)
qed


definition sample_windows :: ec2_instance where
  "sample_windows = sample_instance\<lparr>os := OSWindows\<rparr>"

definition sample_k8s_pods :: k8s_api where
  "sample_k8s_pods = sample_k8s\<lparr>GetRunningPodsOnNode := (\<lambda>n. Inr [sample_pod_a\<lparr>PodAnnotations :=
     [(ResourceNameIPAddress, ''10.0.0.5/16'')]\<rparr>])\<rparr>"

definition sample_provider :: warm_provider where
  "sample_provider = \<lparr>wpConfig = None, instanceProviderAndPool = []\<rparr>"


section \<open>Jobs\<close>

lemma upd_node_get:
  assumes "mget (instanceProviderAndPool prov) node = Some rp"
  shows "mget (instanceProviderAndPool (upd_node node f prov)) node = Some (f rp)"
    and "n \<noteq> node \<Longrightarrow> mget (instanceProviderAndPool (upd_node node f prov)) n = mget (instanceProviderAndPool prov) n"
  using assms by (auto simp: upd_node_def)

lemma pool_jobs_if_required: "pool_jobs (submit_if_required job) = (if is_pool_job job then [job] else [])"
  by (auto simp: submit_if_required_def is_pool_job_def)

text \<open>The end of a job: the pool takes its result and reconciles.\<close>

lemma update_run:
  assumes "job \<in> set (inflight s)" "fresh_job (sys_pool s) (job\<lparr>JobResources := rs\<rparr>)"
    and "updatePoolAndReconcileIfRequired (sys_pool s) (job\<lparr>JobResources := rs\<rparr>) ok pre = (p', effs)"
  shows "\<exists>s'. pool_step\<^sup>*\<^sup>* s s' \<and> sys_pool s' = p' \<and> inflight s' = pool_jobs effs @ remove1 job (inflight s)"
proof -
  obtain p1 b where u: "UpdatePool (job\<lparr>JobResources := rs\<rparr>) ok pre (sys_pool s) = (p1, b)" by fastforce
  define s1 where "s1 = s\<lparr>sys_pool := p1, inflight := remove1 job (inflight s),
      freedAt := (\<lambda>x. if x \<in> set (pool_ids (sys_pool s)) then freedAt s x else None)\<rparr>"
  have 1: "pool_step s s1" unfolding s1_def by (rule pool_step.job_done [OF assms(1) refl assms(2) u])
  have f1: "sys_pool s1 = p1" "inflight s1 = remove1 job (inflight s)" by (simp_all add: s1_def)
  show ?thesis
  proof (cases b)
    case False
    then have "p' = p1" "effs = []" using assms(3) u by (simp_all add: updatePoolAndReconcileIfRequired_def)
    then show ?thesis using 1 f1 by (intro exI [of _ s1]) auto
  next
    case True
    obtain p2 job2 where r: "ReconcilePool p1 = (p2, job2)" by fastforce
    have e: "p' = p2" "effs = submit_if_required job2"
      using assms(3) u r True by (simp_all add: updatePoolAndReconcileIfRequired_def)
    define s2 where "s2 = s1\<lparr>sys_pool := p2, inflight := (if is_pool_job job2 then job2 # inflight s1 else inflight s1)\<rparr>"
    have 2: "pool_step s1 s2" unfolding s2_def by (rule pool_step.reconcile) (simp add: f1 r)
    show ?thesis using 1 2 f1 e
      by (intro exI [of _ s2]) (auto simp: s2_def pool_jobs_if_required)
  qed
qed

lemma ReconcilePool_ids:
  assumes "pool_inv p" "ReconcilePool p = (p', job)"
  shows "set (pool_ids p') \<subseteq> set (pool_ids p)" "isPDPool p' = isPDPool p"
proof -
  have "set (local_resources p') \<subseteq> set (local_resources p) \<and> isPDPool p' = isPDPool p"
    using assms
  proof (cases rule: ReconcilePool_cases)
    case (deletes c gs)
    have "mset (local_resources p') \<subseteq># mset (local_resources p)"
      unfolding mset_local_resources deletes(1) using deletes_props(3) [OF assms(1) deletes(4,6)] by simp
    then show ?thesis using set_mset_mono deletes(1) by force
  qed (simp_all add: local_resources_def)
  then show "set (pool_ids p') \<subseteq> set (pool_ids p)" "isPDPool p' = isPDPool p" by (auto simp: pool_ids_def)
qed

lemma update_ids:
  assumes "pool_inv p" "fresh_job p job" "updatePoolAndReconcileIfRequired p job ok pre = (p', effs)"
  shows "set (pool_ids p') \<subseteq> set (pool_ids p) \<union> ResourceID ` set (job_resources (isPDPool p) job) \<and>
    isPDPool p' = isPDPool p"
proof -
  obtain p1 b where u: "UpdatePool job ok pre p = (p1, b)" by fastforce
  have inv1: "pool_inv p1" by (rule UpdatePool_inv [OF assms(1) u assms(2)])
  have "set (local_resources p1) = set (local_resources p) \<union> set (job_resources (isPDPool p) job)"
    using arg_cong [OF UpdatePool_mset(1) [OF assms(1) u], of set_mset] by simp
  then have "set (pool_ids p1) = set (pool_ids p) \<union> ResourceID ` set (job_resources (isPDPool p) job)"
    by (auto simp: pool_ids_def)
  moreover have "set (pool_ids p') \<subseteq> set (pool_ids p1) \<and> isPDPool p' = isPDPool p1"
    using assms(3) u ReconcilePool_ids [OF inv1]
    by (auto simp: updatePoolAndReconcileIfRequired_def split: if_splits prod.splits)
  ultimately show ?thesis using UpdatePool_fields(3) [OF u] by auto
qed

text \<open>The link between a pool of secondary addresses and its ENI manager: the manager knows every address
  the pool holds.\<close>

definition masked :: "ec2_instance \<Rightarrow> string \<Rightarrow> string" where
  "masked i ip = ip @ ''/'' @ subnetMask i"

definition pool_known :: "resource_provider_and_pool \<Rightarrow> bool" where
  "pool_known rp \<longleftrightarrow> \<not> isPDPool (resourcePool rp) \<and>
     set (pool_ids (resourcePool rp)) \<subseteq> masked (rpInstance rp) ` set (mkeys (resourceToENIMap (eniManager rp)))"

lemma masked_inj: "masked i a = masked i b \<longleftrightarrow> a = b"
  by (simp add: masked_def)

lemma job_resources_secondary: "job_resources False (job\<lparr>JobResources := rs\<rparr>) = map own rs"
  by (induction rs) (simp_all add: job_resources_def job_group_def)

text \<open>Refinement: running a create job of the secondary IP provider, whatever EC2 answers, is the end of that
  job and a reconciliation in the pool's step relation; afterwards exactly the newly submitted
  jobs are in flight instead of it, and the ENI manager still knows every address of the pool.\<close>

theorem create_job_refines_pool:
  assumes "mget (instanceProviderAndPool prov) (WNodeName job) = Some rp" "sys_pool s = resourcePool rp"
    and "job \<in> set (inflight s)" "0 \<le> ResourceCount job"
    and "pool_inv (resourcePool rp)" "pool_known rp" "eni_ok (eniManager rp)"
    and "assigns_fresh api (set (mkeys (resourceToENIMap (eniManager rp))))"
    and "CreatePrivateIPv4AndUpdatePool api job prov h = (prov', h', effs)"
  shows "\<exists>s' rp'. pool_step\<^sup>*\<^sup>* s s' \<and> mget (instanceProviderAndPool prov') (WNodeName job) = Some rp' \<and>
    sys_pool s' = resourcePool rp' \<and> inflight s' = pool_jobs effs @ remove1 job (inflight s) \<and>
    eni_ok (eniManager rp') \<and> pool_known rp'"
proof -
  define i where "i = rpInstance rp"
  obtain e h1 ips err where c: "CreateIPV4Resource api i (ResourceCount job) ResourceTypeIPv4Address (eniManager rp) h =
      (e, h1, ips, err)" by (metis prod_cases4)
  obtain p effs1 where u: "updatePoolAndReconcileIfRequired (resourcePool rp) (job\<lparr>JobResources := ips\<rparr>) (err = None) False =
      (p, effs1)" by fastforce
  define rp' where "rp' = rp\<lparr>eniManager := e, resourcePool := p\<rparr>"
  have pr: "prov' = upd_node (WNodeName job) (\<lambda>rp. rp\<lparr>eniManager := e, resourcePool := p\<rparr>) prov" "effs = effs1"
    using assms(1,9) c u by (simp_all add: CreatePrivateIPv4AndUpdatePool_def getInstanceProviderAndPool_def i_def)
  have get: "mget (instanceProviderAndPool prov') (WNodeName job) = Some rp'"
    using upd_node_get(1) [OF assms(1)] by (simp add: pr(1) rp'_def)
  obtain new where n: "eni_ok e" "mkeys (resourceToENIMap e) = mkeys (resourceToENIMap (eniManager rp)) @ new"
      "ips = [] \<or> ips = map (masked i) new"
    using create_spec [OF assms(7,8,4) c] by (auto simp: masked_def)
  have "distinct (mkeys (resourceToENIMap e))" using n(1) by (simp add: eni_ok_def wf_map_def)
  then have dn: "distinct new" "set new \<inter> set (mkeys (resourceToENIMap (eniManager rp))) = {}" using n(2) by auto
  have dips: "distinct ips" "set ips \<subseteq> masked i ` set new" using n(3) dn(1) by (auto simp: distinct_map inj_on_def masked_inj)
  have pd: "\<not> isPDPool (resourcePool rp)" using assms(6) by (simp add: pool_known_def)
  have "x \<notin> set (pool_ids (resourcePool rp))" if x: "x \<in> set ips" for x
  proof
    assume "x \<in> set (pool_ids (resourcePool rp))"
    then obtain k where "x = masked i k" "k \<in> set (mkeys (resourceToENIMap (eniManager rp)))"
      using assms(6) by (auto simp: pool_known_def i_def)
    moreover obtain l where "x = masked i l" "l \<in> set new" using x dips(2) by blast
    ultimately show False using dn(2) by (auto simp: masked_inj)
  qed
  then have fresh: "fresh_job (resourcePool rp) (job\<lparr>JobResources := ips\<rparr>)"
    using dips(1) pd by (simp add: fresh_job_def job_resources_secondary comp_def)
  obtain s' where s': "pool_step\<^sup>*\<^sup>* s s'" "sys_pool s' = p" "inflight s' = pool_jobs effs @ remove1 job (inflight s)"
    using update_run [OF assms(3), of ips] fresh u pr(2) unfolding assms(2) by blast
  have ids: "set (pool_ids p) \<subseteq> set (pool_ids (resourcePool rp)) \<union> set ips" "isPDPool p = isPDPool (resourcePool rp)"
    using update_ids [OF assms(5) fresh u] pd by (auto simp: job_resources_secondary image_image)
  have "pool_known rp'"
    unfolding pool_known_def
  proof (intro conjI subsetI)
    show "\<not> isPDPool (resourcePool rp')" using pd ids(2) by (simp add: rp'_def)
    fix x assume "x \<in> set (pool_ids (resourcePool rp'))"
    then have "x \<in> masked i ` set (mkeys (resourceToENIMap (eniManager rp))) \<or> x \<in> masked i ` set new"
      using ids(1) dips(2) assms(6) by (auto simp: rp'_def pool_known_def i_def)
    then show "x \<in> masked (rpInstance rp') ` set (mkeys (resourceToENIMap (eniManager rp')))"
      using n(2) by (auto simp: rp'_def i_def)
  qed
  then show ?thesis using s' get n(1) by (intro exI [of _ s'] exI [of _ rp']) (simp add: rp'_def)
qed

definition sample_ip_pool :: pool where
  "sample_ip_pool = (NewResourcePool sample_config [] [(''10.0.0.5/16'', [own ''10.0.0.5/16''])] ''node-1'' 3 False)
     \<lparr>pendingCreate := 1\<rparr>"

definition sample_ip_node :: resource_provider_and_pool where
  "sample_ip_node = \<lparr>rpInstance = sample_windows, eniManager = sample_enis, resourcePool = sample_ip_pool,
     rpCapacity = 3, isPrevPDEnabled = False\<rparr>"

definition sample_ip_provider :: warm_provider where
  "sample_ip_provider = \<lparr>wpConfig = None, instanceProviderAndPool = [(''node-1'', sample_ip_node)]\<rparr>"

theorem create_job_refines_pool_witness:
  "\<exists>prov' h' effs s'. CreatePrivateIPv4AndUpdatePool sample_ip_api (NewWarmPoolCreateJob ''node-1'' 1) sample_ip_provider [] =
     (prov', h', effs) \<and>
     pool_step\<^sup>*\<^sup>* \<lparr>sys_pool = sample_ip_pool, inflight = [NewWarmPoolCreateJob ''node-1'' 1], clock = 0, freedAt = (\<lambda>_. None)\<rparr> s' \<and>
     inflight s' = pool_jobs effs"
proof -
  let ?job = "NewWarmPoolCreateJob ''node-1'' 1"
  let ?s = "\<lparr>sys_pool = sample_ip_pool, inflight = [?job], clock = 0, freedAt = (\<lambda>_. None)\<rparr>"
  obtain prov' h' effs where c: "CreatePrivateIPv4AndUpdatePool sample_ip_api ?job sample_ip_provider [] = (prov', h', effs)"
    by (metis prod_cases3)
  have g: "mget (instanceProviderAndPool sample_ip_provider) (WNodeName ?job) = Some sample_ip_node"
    by (simp add: sample_ip_provider_def mget_def warm_jobs)
  have k: "pool_known sample_ip_node" unfolding sample_ip_node_def sample_enis_simps by code_simp
  have f: "sys_pool ?s = resourcePool sample_ip_node" "?job \<in> set (inflight ?s)" "0 \<le> ResourceCount ?job"
      "eniManager sample_ip_node = sample_enis"
    by (simp_all add: sample_ip_node_def warm_jobs)
  have "pool_inv sample_ip_pool" by code_simp
  then have inv: "pool_inv (resourcePool sample_ip_node)" by (simp add: sample_ip_node_def)
  obtain s' where "pool_step\<^sup>*\<^sup>* ?s s'" "inflight s' = pool_jobs effs @ remove1 ?job (inflight ?s)"
    using create_job_refines_pool [OF g f(1-3) inv k _ _ c, unfolded f(4), OF sample_enis_ok sample_fresh] by blast
  then show ?thesis using c by (intro exI conjI) auto
qed

text \<open>An address that EC2 fails to release comes back to the pool without its subnet mask: the warm pool then
  holds an address in a form no pod is ever annotated with otherwise. The closed instance: the
  pool releases \<open>10.0.0.5/16\<close>, EC2 refuses, and the pool takes back \<open>10.0.0.5\<close>.\<close>

theorem failed_delete_loses_mask:
  "case DeletePrivateIPv4AndUpdatePool (\<lambda>g. g) sample_limits
      (sample_ip_api\<lparr>UnassignIPv4Resources := (\<lambda>h n ty rs. Some ''error'')\<rparr>)
      (NewWarmPoolDeleteJob ''node-1'' [''10.0.0.5/16''])
      (sample_ip_provider\<lparr>instanceProviderAndPool := [(''node-1'', sample_ip_node\<lparr>resourcePool := sample_ip_pool
         \<lparr>warmResources := [], pendingCreate := 0, pendingDelete := 1\<rparr>\<rparr>)]\<rparr>) [] of
     None \<Rightarrow> False
   | Some (prov', h', effs) \<Rightarrow>
       (case GetPool (instanceProviderAndPool prov') ''node-1'' of
          None \<Rightarrow> False
        | Some p \<Rightarrow> warmResources p = [(''10.0.0.5'', [own ''10.0.0.5''])])"
  unfolding sample_ip_node_def sample_enis_simps by code_simp

section \<open>Prefixes\<close>

lemma resource_ids_spec:
  "resource_ids_to_group prefixes m = Inr m' \<Longrightarrow> wf_map m \<Longrightarrow>
   wf_map m' \<and> set (mkeys m') = set (mkeys m) \<union> (\<Union>p \<in> set prefixes. case DeconstructIPsFromPrefix p of Inl _ \<Rightarrow> {} | Inr ips \<Rightarrow> set ips)"
proof (induction prefixes arbitrary: m)
  case (Cons p ps)
  obtain ips where d: "DeconstructIPsFromPrefix p = Inr ips" using Cons.prems(1) by (auto split: sum.splits)
  have "wf_map (fold (\<lambda>ip m. mput m ip p) ips m) \<and> set (mkeys (fold (\<lambda>ip m. mput m ip p) ips m)) = set (mkeys m) \<union> set ips"
    using Cons.prems(2) by (induction ips arbitrary: m) auto
  then show ?case using Cons.IH [of "fold (\<lambda>ip m. mput m ip p) ips m"] Cons.prems(1) d by auto
qed simp

text \<open>The addresses of the prefixes are either in the map or in use.\<close>

lemma used_prefix_loop_spec:
  assumes "used_prefix_loop pods m used = (m', used')" "wf_map m" "wf_map used"
    and "distinct (mkeys used @ map PodUID pods)" "distinct (map ResourceID (mvals used) @ mkeys m)"
  shows "wf_map m' \<and> wf_map used' \<and> distinct (map ResourceID (mvals used') @ mkeys m') \<and>
    set (map ResourceID (mvals used') @ mkeys m') = set (map ResourceID (mvals used) @ mkeys m)"
  using assms
proof (induction pods arbitrary: m used)
  case (Cons p pods)
  have d2: "distinct (mkeys used @ map PodUID pods)" using Cons.prems(4) by auto
  show ?case
  proof (cases "mget (PodAnnotations p) ResourceNameIPAddress")
    case None
    then show ?thesis using Cons.IH [OF _ Cons.prems(2,3) d2 Cons.prems(5)] Cons.prems(1) by simp
  next
    case (Some a)
    show ?thesis
    proof (cases "mget m a")
      case None
      then show ?thesis using Cons.IH [OF _ Cons.prems(2,3) d2 Cons.prems(5)] Cons.prems(1) Some by simp
    next
      case pre: (Some prefix)
      define used1 where "used1 = used @ [(PodUID p, \<lparr>GroupID = prefix, ResourceID = a\<rparr>)]"
      have u: "mput used (PodUID p) \<lparr>GroupID = prefix, ResourceID = a\<rparr> = used1"
        using Cons.prems(4) by (simp add: mput_absent used1_def)
      have run: "used_prefix_loop pods (mdel m a) used1 = (m', used')" using Cons.prems(1) Some pre u by simp
      have a: "a \<in> set (mkeys m)" using pre by (simp add: mkeys_mget)
      have wf1: "wf_map used1" using Cons.prems(4) by (auto simp: used1_def wf_map_def mkeys_def)
      have d1: "distinct (mkeys used1 @ map PodUID pods)" using Cons.prems(4) by (auto simp: used1_def mkeys_def)
      have d5: "distinct (map ResourceID (mvals used1) @ mkeys (mdel m a))"
        using Cons.prems(5) a wf_map_mdel [OF Cons.prems(2), of a] by (auto simp: used1_def mvals_def wf_map_def)
      have "set (map ResourceID (mvals used1) @ mkeys (mdel m a)) = set (map ResourceID (mvals used) @ mkeys m)"
        using a by (auto simp: used1_def mvals_def)
      then show ?thesis using Cons.IH [OF run wf_map_mdel [OF Cons.prems(2)] wf1 d1 d5] by simp
    qed
  qed
qed simp

lemma warm_from_prefixes_props:
  assumes "mset (ord m) = mset m"
  shows "wf_map (warm_from_prefixes ord m)" "warm_keyed (warm_from_prefixes ord m)"
    "mset (map ResourceID (mflat (warm_from_prefixes ord m))) = mset (mkeys m)"
proof -
  let ?f = "\<lambda>(ip, prefix). [\<lparr>GroupID = prefix, ResourceID = ip\<rparr>]"
  have eq: "warm_from_prefixes ord m = fold (\<lambda>x w. append_warm w (snd x) (?f x)) (ord m) []"
    unfolding warm_from_prefixes_def by (rule fold_cong) auto
  have k: "wf_map ([] :: warm_map)" "warm_keyed []" by (simp_all add: warm_keyed_def)
  note fw = fold_append_warm [OF k, of "ord m" ?f snd]
  have fw': "wf_map (warm_from_prefixes ord m) \<and> warm_keyed (warm_from_prefixes ord m) \<and>
      mset (mflat (warm_from_prefixes ord m)) = mset (concat (map ?f (ord m)))"
    unfolding eq using fw by auto
  then show "wf_map (warm_from_prefixes ord m)" "warm_keyed (warm_from_prefixes ord m)" by blast+
  have c: "concat (map ?f xs) = map (\<lambda>(ip, prefix). \<lparr>GroupID = prefix, ResourceID = ip\<rparr>) xs" for xs
    by (induction xs) auto
  have "mset (map ResourceID (mflat (warm_from_prefixes ord m))) = image_mset ResourceID (mset (mflat (warm_from_prefixes ord m)))"
    by simp
  also have "\<dots> = image_mset fst (mset (ord m))"
    using fw' by (simp add: c multiset.map_comp comp_def case_prod_beta)
  also have "\<dots> = mset (mkeys m)" by (simp add: assms mkeys_def)
  finally show "mset (map ResourceID (mflat (warm_from_prefixes ord m))) = mset (mkeys m)" .
qed

lemma used_prefix_loop_keeps:
  "used_prefix_loop pods m used = (m', used') \<Longrightarrow> u \<notin> PodUID ` set pods \<Longrightarrow> mget used' u = mget used u"
proof (induction pods arbitrary: m used)
  case (Cons p pods)
  then show ?case by (auto split: option.splits)
qed simp

lemma used_prefix_loop_owned:
  assumes "used_prefix_loop pods m used = (m', used')" "distinct (map PodUID pods)" "distinct (map snd (annotated pods))"
    and "(u, a) \<in> set (annotated pods)" "a \<in> set (mkeys m)"
  shows "\<exists>g. mget used' u = Some \<lparr>GroupID = g, ResourceID = a\<rparr>"
  using assms
proof (induction pods arbitrary: m used)
  case (Cons p pods)
  define an where "an = mget (PodAnnotations p) ResourceNameIPAddress"
  have ann: "annotated (p # pods) = (case an of None \<Rightarrow> [] | Some x \<Rightarrow> [(PodUID p, x)]) @ annotated pods"
    by (simp add: annotated_def an_def)
  have d: "distinct (map PodUID pods)" "distinct (map snd (annotated pods))"
    using Cons.prems(2,3) by (auto simp: ann)
  show ?case
  proof (cases "an = Some a \<and> u = PodUID p")
    case True
    then obtain g where g: "mget m a = Some g" using Cons.prems(5) by (auto simp: mkeys_mget)
    have "used_prefix_loop pods (mdel m a) (mput used u \<lparr>GroupID = g, ResourceID = a\<rparr>) = (m', used')"
      using Cons.prems(1) True g by (simp add: an_def)
    then have "mget used' u = mget (mput used u \<lparr>GroupID = g, ResourceID = a\<rparr>) u"
      by (rule used_prefix_loop_keeps) (use True Cons.prems(2) in auto)
    then show ?thesis by simp
  next
    case False
    then have mem: "(u, a) \<in> set (annotated pods)" using Cons.prems(4) by (auto simp: ann split: option.splits)
    have "an \<noteq> Some a" using mem Cons.prems(3) by (force simp: ann)
    then obtain m1 used1 where "used_prefix_loop pods m1 used1 = (m', used')" "a \<in> set (mkeys m1)"
      using Cons.prems(1,5) by (auto simp: an_def split: option.splits)
    then show ?thesis using Cons.IH [OF _ d mem] by blast
  qed
qed (simp add: annotated_def)

definition prefix_addresses :: "string list \<Rightarrow> string set" where
  "prefix_addresses prefixes = (\<Union>p \<in> set prefixes. case DeconstructIPsFromPrefix p of Inl _ \<Rightarrow> {} | Inr ips \<Rightarrow> set ips)"

text \<open>Starting the prefix provider, with prefixes that can be expanded and pods annotated with different
  addresses: it does not panic for any order in which the addresses are visited, and the pool it
  caches is one the pool's step relation can be in, with exactly the submitted jobs in flight; it
  holds addresses of the instance's prefixes only, and every pod that is annotated with one owns it.\<close>

theorem prefix_init_starts_pool:
  assumes "InitResources Limits api i NewENIManager h = (e, h1, Inr res)"
    and "GetRunningPodsOnNode k8s (name i) = Inr pods"
    and "resource_ids_to_group (IPv4Prefixes res) [] = Inr ids" "\<And>m. mset (ord m) = mset m"
    and "distinct (map PodUID pods)" "distinct (map snd (annotated pods))"
  shows "\<exists>prov' effs rp s. PrefixInitResource ord Limits api k8s i prov h = Some (prov', h1, effs, None) \<and>
    mget (instanceProviderAndPool prov') (name i) = Some rp \<and>
    reachable pool_sys_init pool_step s \<and> sys_pool s = resourcePool rp \<and> inflight s = pool_jobs effs \<and>
    set (pool_ids (resourcePool rp)) \<subseteq> prefix_addresses (IPv4Prefixes res) \<and>
    (\<forall>(u, a) \<in> set (annotated pods). a \<in> prefix_addresses (IPv4Prefixes res) \<longrightarrow>
       GetAssignedResource u (resourcePool rp) = (a, True))"
proof -
  let ?pd = "IsWindowsPrefixDelegationEnabled k8s"
  have ids: "wf_map ids" "set (mkeys ids) = prefix_addresses (IPv4Prefixes res)"
    using resource_ids_spec [OF assms(3)] by (simp_all add: mkeys_def prefix_addresses_def)
  obtain m used where l: "used_prefix_loop pods ids [] = (m, used)" by fastforce
  have l2: "wf_map m" "wf_map used" "distinct (map ResourceID (mvals used) @ mkeys m)"
      "set (map ResourceID (mvals used) @ mkeys m) = set (mkeys ids)"
    using used_prefix_loop_spec [OF l ids(1)] assms(5) ids(1) by (auto simp: mkeys_def mvals_def wf_map_def)
  define warm where "warm = warm_from_prefixes ord m"
  note w = warm_from_prefixes_props [of ord m, OF assms(4), folded warm_def]
  obtain c0 where c0: "GetWinWarmPoolConfig (VpcCniConfigMap k8s) ?pd = Some c0" using win_config_some by blast
  define c where "c = (if \<not> ?pd then zero_WarmPoolConfig else c0)"
  define cap where "cap = prefix_getCapacity Limits (instanceType i) (os i) * NumIPv4AddrPerPrefix"
  define p0 where "p0 = NewResourcePool c used warm (name i) cap True"
  obtain p job where r: "ReconcilePool p0 = (p, job)" by fastforce
  have "mset (pool_ids p0) = mset (map ResourceID (mvals used) @ mkeys m)"
    using w(3) by (simp add: pool_ids_def local_resources_def p0_def NewResourcePool_def)
  then have p0ids: "distinct (pool_ids p0)" "set (pool_ids p0) = set (mkeys ids)"
    using l2(3,4) distinct_mset_eq mset_eq_setD by metis+
  have inv: "pool_inv p0"
    by (rule pool_invI) (use p0ids(1) l2(2) w(1,2) in \<open>simp_all add: p0_def NewResourcePool_def\<close>)
  define prov' where "prov' = putInstanceProviderAndPool (name i) p e i cap ?pd (prov\<lparr>wpConfig := Some c0\<rparr>)"
  define effs where "effs = submit_if_required job @ [SubmitWarmJob (NewWarmProcessDeleteQueueJob (name i))]"
  have run: "PrefixInitResource ord Limits api k8s i prov h = Some (prov', h1, effs, None)"
    using assms(1-3) l c0 r
    by (cases ?pd) (simp_all add: PrefixInitResource_def Let_def warm_def c_def cap_def p0_def prov'_def effs_def)
  obtain s where s: "reachable pool_sys_init pool_step s" "sys_pool s = p" "inflight s = pool_jobs effs"
    using new_pool_reachable [OF inv [unfolded p0_def] r [unfolded p0_def]] unfolding effs_def by blast
  have rp: "mget (instanceProviderAndPool prov') (name i) =
      Some \<lparr>rpInstance = i, eniManager = e, resourcePool = p, rpCapacity = cap, isPrevPDEnabled = ?pd\<rparr>"
    by (simp add: prov'_def putInstanceProviderAndPool_def)
  have "usedResources p = used" using ReconcilePool_used [OF inv r] by (simp add: p0_def NewResourcePool_def)
  then have own: "GetAssignedResource u p = (a, True)"
    if "(u, a) \<in> set (annotated pods)" "a \<in> prefix_addresses (IPv4Prefixes res)" for u a
    using used_prefix_loop_owned [OF l assms(5,6) that(1)] that(2) ids(2) by (auto simp: GetAssignedResource_def)
  have "set (pool_ids p) \<subseteq> prefix_addresses (IPv4Prefixes res)"
    using ReconcilePool_ids(1) [OF inv r] p0ids(2) ids(2) by simp
  then show ?thesis using run rp s own
    by (intro exI [of _ prov'] exI [of _ effs] exI [of _ "\<lparr>rpInstance = i, eniManager = e, resourcePool = p,
          rpCapacity = cap, isPrevPDEnabled = ?pd\<rparr>"] exI [of _ s]) auto
qed

theorem prefix_init_starts_pool_witness:
  "\<exists>prov' h1 effs rp. PrefixInitResource rev sample_limits sample_ip_api sample_k8s sample_windows sample_provider [] =
     Some (prov', h1, effs, None) \<and> mget (instanceProviderAndPool prov') ''node-1'' = Some rp \<and>
     set (pool_ids (resourcePool rp)) \<subseteq> prefix_addresses [''10.0.1.0/28'']"
proof -
  obtain e h1 r where i: "InitResources sample_limits sample_ip_api sample_windows NewENIManager [] = (e, h1, r)"
    by (metis prod_cases3)
  have "case InitResources sample_limits sample_ip_api sample_windows NewENIManager [] of (e, h1, r) \<Rightarrow>
      r = Inr \<lparr>PrivateIPv4Addresses = [''10.0.0.5/16'', ''10.0.0.9/16''], IPv4Prefixes = [''10.0.1.0/28'']\<rparr>" by code_simp
  then have r: "r = Inr \<lparr>PrivateIPv4Addresses = [''10.0.0.5/16'', ''10.0.0.9/16''], IPv4Prefixes = [''10.0.1.0/28'']\<rparr>"
    by (simp add: i)
  note i' = i [unfolded r]
  have n: "name sample_windows = ''node-1''" by (simp add: sample_windows_def sample_instance_def NewEC2Instance_def)
  have p: "GetRunningPodsOnNode sample_k8s (name sample_windows) = Inr []" by (simp add: sample_k8s_def)
  have "\<not> isl (resource_ids_to_group [''10.0.1.0/28''] [])" by code_simp
  then obtain ids where g: "resource_ids_to_group (IPv4Prefixes \<lparr>PrivateIPv4Addresses = [''10.0.0.5/16'', ''10.0.0.9/16''],
      IPv4Prefixes = [''10.0.1.0/28'']\<rparr>) [] = Inr ids"
    by (cases "resource_ids_to_group [''10.0.1.0/28''] []") auto
  have m: "mset (rev xs) = mset xs" for xs :: "(string \<times> string) list" by simp
  have a: "distinct (map PodUID [])" "distinct (map snd (annotated []))" by (simp_all add: annotated_def)
  show ?thesis
    using prefix_init_starts_pool [where prov = sample_provider and ord = rev, OF i' p g m a, unfolded n] by auto
qed

end
