(* ===== verification/Branch_Provider.thy ===== *)
theory Branch_Provider
  imports Trunk K8s_Env
begin

text \<open>
  \<open>pkg/provider/branch/provider.go\<close>: the provider of branch interfaces, for all Linux nodes. Its state is the
  cache of the trunks by node name. A trunk refers to its node's instance, which the provider never
  changes except through \<open>InitTrunk\<close>; the instance is an argument of the operations that use it.
  \<open>json.Marshal\<close> is the argument \<open>marshal\<close>, and \<open>api_code\<close> is the code \<open>errors.As\<close> finds in an error of
  the AWS SDK, if it is one. The single operations on the cache take the provider's lock, those
  on a trunk the trunk's. \<open>None\<close> is a panic.
\<close>

type_synonym trunk_cache = "(string, trunk_eni) gomap"

definition ReasonSecurityGroupRequested :: string where "ReasonSecurityGroupRequested = ''SecurityGroupRequested''"
definition ReasonBranchAllocationFailed :: string where "ReasonBranchAllocationFailed = ''BranchAllocationFailed''"
definition ReasonBranchENIAnnotationFailed :: string where "ReasonBranchENIAnnotationFailed = ''BranchENIAnnotationFailed''"
definition ReasonBranchAllocated :: string where "ReasonBranchAllocated = ''ResourceAllocated''"
definition ReasonTrunkENICreationFailed :: string where "ReasonTrunkENICreationFailed = ''TrunkENICreationFailed''"
definition NodeTrunkInitiatedReason :: string where "NodeTrunkInitiatedReason = ''NodeTrunkInitiated''"
definition NodeTrunkFailedInitializationReason :: string where
  "NodeTrunkFailedInitializationReason = ''NodeTrunkFailedInit''"
definition UnsupportedTypeReason :: string where "UnsupportedTypeReason = ''Unsupported''"

definition NodeDeleteRequeueRequestDelay :: int where "NodeDeleteRequeueRequestDelay = 60 * 10 ^ 9"

definition deleteQueueRequeueRequest :: ctrl_result where
  "deleteQueueRequeueRequest = \<lparr>Requeue = True, RequeueAfter = 30 * 10 ^ 9\<rparr>"

datatype branch_error =
    BranchK8sError k8s_error
  | InitializingTrunk trunk_error
  | GetNodeForEvent trunk_error
  | TrunkAlreadyInCache
  | TrunkNotFound string
  | BranchTrunkError trunk_error
  | MarshalError string
  | BranchInvalidJobType
  | BranchUnsupportedOperation

section \<open>The cache\<close>

definition addTrunkToCache :: "string \<Rightarrow> trunk_eni \<Rightarrow> trunk_cache \<Rightarrow> trunk_cache \<times> branch_error option" where
  "addTrunkToCache node t b =
     (if mhas b node then (b, Some TrunkAlreadyInCache) else (mput b node t, None))"

definition removeTrunkFromCache :: "string \<Rightarrow> trunk_cache \<Rightarrow> trunk_cache" where
  "removeTrunkFromCache node b = (if \<not> mhas b node then b else mdel b node)"

definition getTrunkFromCache :: "string \<Rightarrow> trunk_cache \<Rightarrow> trunk_eni option" where
  "getTrunkFromCache node b = mget b node"

section \<open>Initialisation and removal of a node\<close>

definition BranchInitResource ::
  "(string \<Rightarrow> eni_details option list) \<Rightarrow> (trunk_error \<Rightarrow> string option) \<Rightarrow> ec2_api \<Rightarrow> k8s_api \<Rightarrow> ec2_instance \<Rightarrow>
   trunk_cache \<Rightarrow> hist \<Rightarrow> (ec2_instance \<times> trunk_cache \<times> hist \<times> effect list \<times> branch_error option) option" where
  "BranchInitResource unmarshal api_code api k8s i b h =
     (case GetRunningPodsOnNode k8s (name i) of
        Inl err \<Rightarrow> Some (i, b, h, [], Some (BranchK8sError err))
      | Inr podList \<Rightarrow>
         (case InitTrunk unmarshal api podList i (NewTrunkENI i) h of
            None \<Rightarrow> None
          | Some (i1, t, h1, Some err) \<Rightarrow>
              (if api_code err \<noteq> None \<and> \<not> NodeExists k8s (name i1) then
                 Some (i1, b, h1, [], Some (GetNodeForEvent err))
               else
                 Some (i1, b, h1,
                   (if api_code err \<noteq> None then [NodeEvent (name i1) ReasonTrunkENICreationFailed EventTypeWarning] else []) @
                     SendNodeEventWithNodeName k8s (name i1) NodeTrunkFailedInitializationReason EventTypeNormal,
                   Some (InitializingTrunk err)))
          | Some (i1, t, h1, None) \<Rightarrow>
              (case addTrunkToCache (name i1) t b of
                 (b1, _) \<Rightarrow>
                   Some (i1, b1, h1,
                     SubmitOnDemandJob (NewOnDemandProcessDeleteQueueJob (name i1)) #
                       SendNodeEventWithNodeName k8s (name i1) NodeTrunkInitiatedReason EventTypeNormal, None))))"

definition BranchDeInitResource :: "ec2_instance \<Rightarrow> effect list" where
  "BranchDeInitResource i =
     [SubmitOnDemandJobAfter (NewOnDemandDeleteNodeJob (name i)) NodeDeleteRequeueRequestDelay]"

definition DeleteNode ::
  "ec2_api \<Rightarrow> string \<Rightarrow> trunk_cache \<Rightarrow> hist \<Rightarrow> (trunk_cache \<times> hist \<times> ctrl_result \<times> branch_error option) option" where
  "DeleteNode api node b h =
     (case getTrunkFromCache node b of
        None \<Rightarrow> Some (b, h, no_requeue, Some (TrunkNotFound node))
      | Some t \<Rightarrow>
         (case DeleteAllBranchENIs api t h of
            None \<Rightarrow> None
          | Some (t1, h1) \<Rightarrow> Some (removeTrunkFromCache node b, h1, no_requeue, None)))"

definition BranchUpdateResourceCapacity :: "limits_table \<Rightarrow> k8s_api \<Rightarrow> ec2_instance \<Rightarrow> effect list \<times> branch_error option" where
  "BranchUpdateResourceCapacity Limits k8s i =
     (let cap = branch_limit Limits i in
      if cap \<noteq> 0 then
        ([AdvertiseCapacityCall (name i) ResourceNamePodENI cap],
         map_option BranchK8sError (AdvertiseCapacityIfNotSet k8s (name i) ResourceNamePodENI cap))
      else ([], None))"

definition BranchReconcileNode :: "ec2_api \<Rightarrow> k8s_api \<Rightarrow> string \<Rightarrow> trunk_cache \<Rightarrow> hist \<Rightarrow> trunk_cache \<times> hist \<times> bool" where
  "BranchReconcileNode api k8s node b h =
     (case getTrunkFromCache node b of
        None \<Rightarrow> (b, h, True)
      | Some t \<Rightarrow>
         (case ListPods k8s node of
            Inl err \<Rightarrow> (b, h, True)
          | Inr pods \<Rightarrow>
              (case TrunkReconcile api pods t h of
                 (t1, h1, foundLeakedENI) \<Rightarrow> (mput b node t1, h1, foundLeakedENI))))"

section \<open>Jobs\<close>

definition BranchProcessDeleteQueue ::
  "ec2_api \<Rightarrow> int \<Rightarrow> string \<Rightarrow> trunk_cache \<Rightarrow> hist \<Rightarrow> (trunk_cache \<times> hist \<times> ctrl_result) option" where
  "BranchProcessDeleteQueue api period node b h =
     (case getTrunkFromCache node b of
        None \<Rightarrow> Some (b, h, no_requeue)
      | Some t \<Rightarrow>
         (case DeleteCooledDownENIs api period t h of
            None \<Rightarrow> None
          | Some (t1, h1) \<Rightarrow> Some (mput b node t1, h1, deleteQueueRequeueRequest)))"

definition DeleteBranchUsedByPods :: "ec2_api \<Rightarrow> string \<Rightarrow> string \<Rightarrow> trunk_cache \<Rightarrow> hist \<Rightarrow> trunk_cache \<times> hist" where
  "DeleteBranchUsedByPods api node uid b h =
     (case getTrunkFromCache node b of
        None \<Rightarrow> (b, h)
      | Some t \<Rightarrow>
         (case PushBranchENIsToCoolDownQueue api uid t h of (t1, h1) \<Rightarrow> (mput b node t1, h1)))"

text \<open>The end of \<open>CreateAndAnnotateResources\<close>: the interfaces are there, and the pod gets its annotation, or
  the interfaces go to the delete queue.\<close>

definition annotate_branches ::
  "(eni_details list \<Rightarrow> string + string) \<Rightarrow> k8s_api \<Rightarrow> pod \<Rightarrow> eni_details list \<Rightarrow> trunk_eni \<Rightarrow>
   trunk_eni \<times> effect list \<times> branch_error option" where
  "annotate_branches marshal k8s pod branchENIs t =
     (case marshal branchENIs of
        Inl err \<Rightarrow> (PushENIsToFrontOfDeleteQueue (Some (PodUID pod)) branchENIs t, [], Some (MarshalError err))
      | Inr json \<Rightarrow>
         (let annotate = AnnotatePodCall (PodNamespace pod) (PodName pod) (PodUID pod) ResourceNamePodENI json in
          case AnnotatePod k8s (PodNamespace pod) (PodName pod) (PodUID pod) ResourceNamePodENI json of
            Some err \<Rightarrow>
              (PushENIsToFrontOfDeleteQueue (Some (PodUID pod)) branchENIs t,
               [annotate, PodEvent (PodNamespace pod) (PodName pod) ReasonBranchENIAnnotationFailed EventTypeWarning],
               Some (BranchK8sError err))
          | None \<Rightarrow>
              (t, [annotate, PodEvent (PodNamespace pod) (PodName pod) ReasonBranchAllocated EventTypeNormal], None)))"

definition security_group_event :: "pod \<Rightarrow> string list \<Rightarrow> effect" where
  "security_group_event pod sgs =
     PodEvent (PodNamespace pod) (PodName pod) ReasonSecurityGroupRequested
       (if sgs = [] then EventTypeWarning else EventTypeNormal)"

definition CreateAndAnnotateResources ::
  "limits_table \<Rightarrow> (eni_details list \<Rightarrow> string + string) \<Rightarrow> ec2_api \<Rightarrow> k8s_api \<Rightarrow> int \<Rightarrow> (string \<Rightarrow> ec2_instance) \<Rightarrow>
   string \<Rightarrow> string \<Rightarrow> int \<Rightarrow> trunk_cache \<Rightarrow> hist \<Rightarrow>
   (trunk_cache \<times> hist \<times> effect list \<times> ctrl_result \<times> branch_error option) option" where
  "CreateAndAnnotateResources Limits marshal api k8s period insts podNamespace podName resourceCount b h =
     (case GetPod k8s podNamespace podName of
        Inl err \<Rightarrow> Some (b, h, [], no_requeue, Some (BranchK8sError err))
      | Inr cached \<Rightarrow>
          if mhas (PodAnnotations cached) ResourceNamePodENI then Some (b, h, [], no_requeue, None)
          else
            (case GetPodFromAPIServer k8s podNamespace podName of
               Inl err \<Rightarrow> Some (b, h, [], no_requeue, Some (BranchK8sError err))
             | Inr pod \<Rightarrow>
                 if mhas (PodAnnotations pod) ResourceNamePodENI then Some (b, h, [], no_requeue, None)
                 else
                   (case SecurityGroupsForPod k8s pod of
                      Inl err \<Rightarrow> Some (b, h, [], no_requeue, Some (BranchK8sError err))
                    | Inr sgs \<Rightarrow>
                       (let event = security_group_event pod sgs; node = PodNodeName pod in
                        case getTrunkFromCache node b of
                          None \<Rightarrow> Some (b, h, [event], no_requeue, Some (TrunkNotFound node))
                        | Some t \<Rightarrow>
                           (case CreateAndAssociateBranchENIs Limits api (insts node) (PodUID pod) sgs resourceCount t h of
                              None \<Rightarrow> None
                            | Some (t1, h1, Inl err) \<Rightarrow>
                                if err = ErrCurrentlyAtMaxCapacity then
                                  Some (mput b node t1, h1, [event], \<lparr>Requeue = True, RequeueAfter = period\<rparr>, None)
                                else
                                  Some (mput b node t1, h1,
                                    [event, PodEvent (PodNamespace pod) (PodName pod) ReasonBranchAllocationFailed EventTypeWarning],
                                    no_requeue, Some (BranchTrunkError err))
                            | Some (t1, h1, Inr branchENIs) \<Rightarrow>
                                (case annotate_branches marshal k8s pod branchENIs t1 of
                                   (t2, effs, err) \<Rightarrow> Some (mput b node t2, h1, event # effs, no_requeue, err)))))))"

definition BranchProcessAsyncJob ::
  "limits_table \<Rightarrow> (eni_details list \<Rightarrow> string + string) \<Rightarrow> ec2_api \<Rightarrow> k8s_api \<Rightarrow> int \<Rightarrow> (string \<Rightarrow> ec2_instance) \<Rightarrow>
   any_job \<Rightarrow> trunk_cache \<Rightarrow> hist \<Rightarrow>
   (trunk_cache \<times> hist \<times> effect list \<times> ctrl_result \<times> branch_error option) option" where
  "BranchProcessAsyncJob Limits marshal api k8s period insts job b h =
     (case job of
        AnOnDemandJob j \<Rightarrow>
         (case Operation j of
            OperationCreate \<Rightarrow>
              CreateAndAnnotateResources Limits marshal api k8s period insts (JPodNamespace j) (JPodName j) (RequestCount j) b h
          | OperationDeleted \<Rightarrow>
              (case DeleteBranchUsedByPods api (JNodeName j) (UID j) b h of
                 (b1, h1) \<Rightarrow> Some (b1, h1, [], no_requeue, None))
          | OperationProcessDeleteQueue \<Rightarrow>
              map_option (\<lambda>(b1, h1, r). (b1, h1, [], r, None)) (BranchProcessDeleteQueue api period (JNodeName j) b h)
          | OperationDeleteNode \<Rightarrow>
              map_option (\<lambda>(b1, h1, r, e). (b1, h1, [], r, e)) (DeleteNode api (JNodeName j) b h)
          | _ \<Rightarrow> Some (b, h, [], no_requeue, Some BranchUnsupportedOperation))
      | _ \<Rightarrow> Some (b, h, [], no_requeue, Some BranchInvalidJobType))"

section \<open>Queries\<close>

definition BranchIsInstanceSupported :: "limits_table \<Rightarrow> k8s_api \<Rightarrow> ec2_instance \<Rightarrow> bool \<times> effect list" where
  "BranchIsInstanceSupported Limits k8s i =
     (if os i \<noteq> OSLinux then (False, [])
      else
        let supported = (case Limits (instanceType i) of None \<Rightarrow> False | Some limits \<Rightarrow> IsTrunkingCompatible limits)
        in (supported, (if \<not> supported
             then SendNodeEventWithNodeName k8s (name i) UnsupportedTypeReason EventTypeWarning else [])))"

definition BranchIntrospect :: "(string \<Rightarrow> ec2_instance) \<Rightarrow> trunk_cache \<Rightarrow> (string, trunk_introspect) gomap" where
  "BranchIntrospect insts b = fold (\<lambda>(node, t) m. mput m node (TrunkIntrospect (insts node) t)) b []"

record trunk_introspect_summary =
  SumTrunkENIID :: string
  SumInstanceID :: string
  BranchENICount :: int
  DeleteQueueLen :: int

definition changeToIntrospectSummary :: "trunk_introspect \<Rightarrow> trunk_introspect_summary" where
  "changeToIntrospectSummary details =
     \<lparr>SumTrunkENIID = TrunkENIID details, SumInstanceID = InstanceID details,
      BranchENICount = int (length (PodToBranchENI details)),
      DeleteQueueLen = int (length (DeleteQueueCopy details))\<rparr>"

definition BranchIntrospectSummary :: "(string \<Rightarrow> ec2_instance) \<Rightarrow> trunk_cache \<Rightarrow> (string, trunk_introspect_summary) gomap" where
  "BranchIntrospectSummary insts b =
     fold (\<lambda>(node, t) m. mput m node (changeToIntrospectSummary (TrunkIntrospect (insts node) t))) b []"

definition BranchIntrospectNode :: "(string \<Rightarrow> ec2_instance) \<Rightarrow> string \<Rightarrow> trunk_cache \<Rightarrow> trunk_introspect option" where
  "BranchIntrospectNode insts node b = map_option (TrunkIntrospect (insts node)) (mget b node)"

end
