(* ===== verification/Branch_Props.thy ===== *)
theory Branch_Props
  imports Branch_Provider Trunk_Props
begin

text \<open>
  The properties of the branch interface provider. Its jobs call the trunk of one node; the
  invariant of the trunk carries over to the whole cache.
\<close>

section \<open>The invariant of the cache\<close>

definition trunks_inv :: "trunk_cache \<Rightarrow> bool" where
  "trunks_inv b \<longleftrightarrow> wf_map b \<and> list_all (\<lambda>(n, t). trunk_inv t) b"

lemma trunks_inv_get: "trunks_inv b \<Longrightarrow> mget b n = Some t \<Longrightarrow> trunk_inv t"
  by (auto simp: trunks_inv_def list_all_iff mget_def dest!: map_of_SomeD)

lemma trunks_inv_put [intro]: "trunks_inv b \<Longrightarrow> trunk_inv t \<Longrightarrow> trunks_inv (mput b n t)"
  by (auto simp: trunks_inv_def list_all_iff set_mput)

lemma trunks_inv_del [intro]: "trunks_inv b \<Longrightarrow> trunks_inv (mdel b n)"
  by (auto simp: trunks_inv_def list_all_iff mdel_filter wf_map_def mkeys_def distinct_map_filter)

section \<open>The jobs\<close>

text \<open>Interfaces whose annotation failed leave the cache and go to the front of the delete queue; no
  VLAN id changes its owner.\<close>

lemma push_front_inv:
  assumes "trunk_inv t" "mget (uidToBranchENIMap t) uid = Some new"
  shows "trunk_inv (PushENIsToFrontOfDeleteQueue (Some uid) new t)"
proof (rule trunk_inv_move [OF assms(1)])
  have wf: "wf_map (uidToBranchENIMap t)" using assms(1) by (simp add: trunk_inv_def)
  show "usedVlanIds (PushENIsToFrontOfDeleteQueue (Some uid) new t) = usedVlanIds t"
    "wf_map (uidToBranchENIMap (PushENIsToFrontOfDeleteQueue (Some uid) new t))"
    using wf by (simp_all add: PushENIsToFrontOfDeleteQueue_def)
  show "mset (live_vlans (PushENIsToFrontOfDeleteQueue (Some uid) new t)) \<subseteq># mset (live_vlans t)"
    using mset_mflat_split [OF wf, of uid] assms(2)
    by (simp add: mset_live_vlans mset_live_enis PushENIsToFrontOfDeleteQueue_def mgetd_def union_ac)
qed

lemma annotate_branches_cases:
  assumes "trunk_inv t" "mget (uidToBranchENIMap t) (PodUID pod) = Some new"
    "annotate_branches marshal k8s pod new t = (t', effs, err)"
  obtains (annotated) json where "marshal new = Inr json" "t' = t" "err = None" "trunk_inv t'"
      "AnnotatePod k8s (PodNamespace pod) (PodName pod) (PodUID pod) ResourceNamePodENI json = None"
      "AnnotatePodCall (PodNamespace pod) (PodName pod) (PodUID pod) ResourceNamePodENI json \<in> set effs"
  | (queued) e where "err = Some e" "t' = PushENIsToFrontOfDeleteQueue (Some (PodUID pod)) new t" "trunk_inv t'"
  using assms push_front_inv [OF assms(1,2)]
  by (auto simp: annotate_branches_def Let_def split: sum.splits option.splits)

text \<open>A create job, by its outcomes: nothing happened, every interface it created is queued for
  deletion, or the pod is annotated.\<close>

lemma CreateAndAnnotate_cases:
  assumes inv: "trunks_inv b"
  obtains (untouched) effs r e where
      "CreateAndAnnotateResources Limits marshal api k8s period insts ns pn cnt b h = Some (b, h, effs, r, e)"
      "list_all (\<lambda>f. \<not> is_AnnotatePodCall f) effs"
  | (queued) pod t t' h' effs r e new where
      "CreateAndAnnotateResources Limits marshal api k8s period insts ns pn cnt b h =
         Some (mput b (PodNodeName pod) t', h', effs, r, e)"
      "GetPodFromAPIServer k8s ns pn = Inr pod" "mget b (PodNodeName pod) = Some t" "trunk_inv t'" "uidToBranchENIMap t' = uidToBranchENIMap t" "deleteQueue t' = new @ deleteQueue t"
      "e \<noteq> None \<or> Requeue r"
  | (annotated) pod t t' h' effs new json where
      "CreateAndAnnotateResources Limits marshal api k8s period insts ns pn cnt b h =
         Some (mput b (PodNodeName pod) t', h', effs, no_requeue, None)"
      "GetPodFromAPIServer k8s ns pn = Inr pod" "mget b (PodNodeName pod) = Some t" "trunk_inv t'"
      "uidToBranchENIMap t' = mput (uidToBranchENIMap t) (PodUID pod) new" "deleteQueue t' = deleteQueue t"
      "length new = nat cnt" "mget (uidToBranchENIMap t) (PodUID pod) = None" "marshal new = Inr json"
      "AnnotatePodCall (PodNamespace pod) (PodName pod) (PodUID pod) ResourceNamePodENI json \<in> set effs"
      "AnnotatePod k8s (PodNamespace pod) (PodName pod) (PodUID pod) ResourceNamePodENI json = None"
proof -
  let ?r = "CreateAndAnnotateResources Limits marshal api k8s period insts ns pn cnt b h"
  show ?thesis
  proof (cases "\<exists>cached pod sgs t. GetPod k8s ns pn = Inr cached \<and> \<not> mhas (PodAnnotations cached) ResourceNamePodENI \<and>
      GetPodFromAPIServer k8s ns pn = Inr pod \<and> \<not> mhas (PodAnnotations pod) ResourceNamePodENI \<and>
      SecurityGroupsForPod k8s pod = Inr sgs \<and> mget b (PodNodeName pod) = Some t")
    case False
    then have "\<exists>effs r e. ?r = Some (b, h, effs, r, e) \<and> list_all (\<lambda>f. \<not> is_AnnotatePodCall f) effs"
      by (auto simp: CreateAndAnnotateResources_def getTrunkFromCache_def security_group_event_def Let_def
          split: sum.splits option.splits)
    then show ?thesis using untouched by blast
  next
    case True
    then obtain cached pod sgs t where g: "GetPod k8s ns pn = Inr cached"
      "\<not> mhas (PodAnnotations cached) ResourceNamePodENI" "GetPodFromAPIServer k8s ns pn = Inr pod"
      "\<not> mhas (PodAnnotations pod) ResourceNamePodENI" "SecurityGroupsForPod k8s pod = Inr sgs"
      "mget b (PodNodeName pod) = Some t" by blast
    note eq = CreateAndAnnotateResources_def getTrunkFromCache_def Let_def g
    have "trunk_inv t" using inv g(6) by (rule trunks_inv_get)
    then show ?thesis
    proof (cases rule: CreateAndAssociate_cases [where Limits = Limits and api = api and i = "insts (PodNodeName pod)"
          and uid = "PodUID pod" and sgs = sgs and cnt = cnt and h = h])
      case exists
      then show ?thesis using g \<open>trunk_inv t\<close> by (intro queued [where pod = pod and new = "[]"]) (auto simp: eq)
    next
      case full
      then show ?thesis using g \<open>trunk_inv t\<close> by (intro queued [where pod = pod and new = "[]"]) (auto simp: eq)
    next
      case (failed t1 h1 new err)
      then show ?thesis using g
        by (cases "err = ErrCurrentlyAtMaxCapacity"; intro queued [where pod = pod and t' = t1 and h' = h1 and new = new]) (auto simp: eq)
    next
      case (created t1 h1 new)
      obtain t2 effs e where a: "annotate_branches marshal k8s pod new t1 = (t2, effs, e)" by (metis surj_pair)
      have got: "mget (uidToBranchENIMap t1) (PodUID pod) = Some new" by (simp add: created(3))
      have r: "?r = Some (mput b (PodNodeName pod) t2, h1, security_group_event pod sgs # effs, no_requeue, e)"
        by (simp add: eq created(1) a)
      from created(2) got a show ?thesis
      proof (cases rule: annotate_branches_cases)
        case (annotated json)
        then show ?thesis using r g created 
          by (intro that(3) [where pod = pod and t = t and t' = t2 and h' = h1 and new = new and json = json
                and effs = "security_group_event pod sgs # effs"]) simp_all
      next
        case (queued e')
        have "uidToBranchENIMap t2 = uidToBranchENIMap t" "deleteQueue t2 = new @ deleteQueue t"
          using created queued by (simp_all add: PushENIsToFrontOfDeleteQueue_def mdel_absent mkeys_mget)
        then show ?thesis using r g queued by (intro that(2) [where pod = pod and t = t and t' = t2 and new = new]) auto
      qed
    qed
  qed
qed

lemma DeleteNode_ok:
  assumes "trunks_inv b"
  shows "\<exists>b' h' r e. DeleteNode api n b h = Some (b', h', r, e) \<and> trunks_inv b'"
proof (cases "mget b n")
  case None
  then show ?thesis using assms by (simp add: DeleteNode_def getTrunkFromCache_def)
next
  case (Some t)
  have "vlan_owns t (map VlanID (mflat (uidToBranchENIMap t)) @ map VlanID (deleteQueue t))"
    using trunks_inv_get [OF assms Some] by (simp add: trunk_inv_def live_vlans_def live_enis_def)
  then obtain t1 e1 where 1: "delete_all_loop api (mflat (uidToBranchENIMap t)) t h = Some (t1, e1 @ h)"
      "vlan_owns t1 (map VlanID (deleteQueue t))" "deleteQueue t1 = deleteQueue t"
    using delete_all_loop_spec [of t "mflat (uidToBranchENIMap t)" _ api h] by blast
  obtain t2 e2 where "delete_all_loop api (deleteQueue t) t1 (e1 @ h) = Some (t2, e2 @ e1 @ h)"
    using delete_all_loop_spec [of t1 "deleteQueue t" "[]" api "e1 @ h"] 1(2) by auto
  then have "DeleteNode api n b h = Some (mdel b n, e2 @ e1 @ h, no_requeue, None)"
    using 1(1,3) Some
    by (simp add: DeleteNode_def getTrunkFromCache_def DeleteAllBranchENIs_def removeTrunkFromCache_def mhas_def mkeys_mget)
  then show ?thesis using assms by auto
qed

lemma ProcessDeleteQueue_ok:
  assumes "trunks_inv b"
  shows "\<exists>b' h' r. BranchProcessDeleteQueue api period n b h = Some (b', h', r) \<and> trunks_inv b'"
proof (cases "mget b n")
  case (Some t)
  then show ?thesis
    using DeleteCooledDownENIs_inv [OF trunks_inv_get [OF assms Some], of api period h] assms
    by (auto simp: BranchProcessDeleteQueue_def getTrunkFromCache_def)
qed (simp add: BranchProcessDeleteQueue_def getTrunkFromCache_def assms)

lemma DeleteBranchUsedByPods_ok:
  assumes "trunks_inv b" "DeleteBranchUsedByPods api n uid b h = (b', h')"
  shows "trunks_inv b'"
proof (cases "mget b n")
  case (Some t)
  obtain t1 h1 where "PushBranchENIsToCoolDownQueue api uid t h = (t1, h1)" by (metis surj_pair)
  then show ?thesis
    using PushBranch_inv [OF trunks_inv_get [OF assms(1) Some]] assms Some
    by (auto simp: DeleteBranchUsedByPods_def getTrunkFromCache_def)
qed (use assms in \<open>simp add: DeleteBranchUsedByPods_def getTrunkFromCache_def\<close>)

lemma BranchReconcileNode_ok:
  assumes "trunks_inv b" "BranchReconcileNode api k8s n b h = (b', h', leaked)"
  shows "trunks_inv b'"
proof (cases "\<exists>t pods. mget b n = Some t \<and> ListPods k8s n = Inr pods")
  case True
  then obtain t pods where tp: "mget b n = Some t" "ListPods k8s n = Inr pods" by blast
  obtain t1 h1 l1 where r: "TrunkReconcile api pods t h = (t1, h1, l1)" by (metis prod_cases3)
  show ?thesis
    using TrunkReconcile_spec(4) [OF trunks_inv_get [OF assms(1) tp(1)] r] r tp assms
    by (auto simp: BranchReconcileNode_def getTrunkFromCache_def)
qed (use assms in \<open>auto simp: BranchReconcileNode_def getTrunkFromCache_def split: option.splits sum.splits\<close>)


text \<open>A node whose trunk is cached, and a cluster with one pod on it that asks for an interface.\<close>

definition sample_branch_pod :: pod where
  "sample_branch_pod = sample_pod\<lparr>PodAnnotations := [], PodNodeName := ''node-1''\<rparr>"

definition sample_branch_k8s :: k8s_api where
  "sample_branch_k8s = sample_k8s\<lparr>GetPod := (\<lambda>ns n. Inr sample_branch_pod),
     GetPodFromAPIServer := (\<lambda>ns n. Inr sample_branch_pod)\<rparr>"

lemma sample_trunks_inv: "trunks_inv [(''node-1'', sample_trunk)]"
  by (simp add: trunks_inv_def sample_trunk_inv mkeys_def)




section \<open>A race between jobs\<close>

lemma some_pair: "(case x of None \<Rightarrow> False | Some (a, b) \<Rightarrow> P a b) \<Longrightarrow> \<exists>a b. x = Some (a, b) \<and> P a b"
  by (auto split: option.splits)

text \<open>EC2 does not know an interface it has deleted.\<close>

definition forgetting_api :: ec2_api where
  "forgetting_api = sample_api\<lparr>DeleteNetworkInterface := (\<lambda>h eni.
     if DeleteNetworkInterfaceCall eni \<in> set h then Some NotFoundInterfaceID else None)\<rparr>"

definition race :: "(trunk_eni \<times> eni_details list) option" where
  "race =
     (case CreateAndAssociateBranchENIs sample_limits forgetting_api sample_instance ''uid-1'' [] 1 sample_trunk [] of
        None \<Rightarrow> None
      | Some (t1, h1, r1) \<Rightarrow>
        (case PushBranchENIsToCoolDownQueue forgetting_api ''uid-1'' t1 h1 of (t2, h2) \<Rightarrow>
        (case popENIFromDeleteQueue (PushENIsToFrontOfDeleteQueue (Some ''uid-1'') (deleteQueue t2) t2) of
           (t3, None) \<Rightarrow> None
         | (t3, Some e3) \<Rightarrow>
           (case deleteENI forgetting_api e3 t3 h2 of
              None \<Rightarrow> None
            | Some (t4, h4, err4) \<Rightarrow>
              (case CreateAndAssociateBranchENIs sample_limits forgetting_api sample_instance ''uid-2'' [] 1 t4 h4 of
                 None \<Rightarrow> None
               | Some (t5, h5, Inl e) \<Rightarrow> None
               | Some (t5, h5, Inr new) \<Rightarrow>
                 (case popENIFromDeleteQueue t5 of
                    (t6, None) \<Rightarrow> None
                  | (t6, Some e6) \<Rightarrow> map_option (\<lambda>(t7, h7, err7). (t7, new)) (deleteENI forgetting_api e6 t6 h5)))))))"

text \<open>A pod is deleted while its create job is annotating it, so that the annotation fails. The delete job
  has moved the interfaces to the delete queue, and the create job pushes the same objects to its front a second
  time. The VLAN id is freed twice, the second time when it already belongs to the interface of
  another pod: the id is free although that pod holds it.\<close>

theorem failed_annotation_race:
  "\<exists>t new. race = Some (t, new) \<and> map VlanID new = [1] \<and> mget (uidToBranchENIMap t) ''uid-2'' = Some new \<and>
     usedVlanIds t ! 1 = False \<and> \<not> trunk_inv t"
proof -
  have "case race of None \<Rightarrow> False | Some (t, new) \<Rightarrow> map VlanID new = [1] \<and>
      mget (uidToBranchENIMap t) ''uid-2'' = Some new \<and> usedVlanIds t ! 1 = False \<and> \<not> trunk_inv t"
    by code_simp
  then show ?thesis by (rule some_pair)
qed

end
