(* ===== verification/Ec2_Helper.thy ===== *)
theory Ec2_Helper
  imports Utils Config "HOL-Library.State_Monad" "HOL-Library.Word"
begin

text \<open>
  \<open>pkg/aws/ec2/api/helper.go\<close>: the helper between the components and the EC2 SDK. It checks the SDK's answers,
  retries, waits until a change is visible and rolls back what it created when a later call fails.

  The SDK (behind \<open>EC2Wrapper\<close>) is a record of functions whose answers may depend on all events
  before; an event is a call with its answer. The operations run in the state monad over the trace
  of the events, latest first. Pointers that the code compares with nil are options.
  \<open>retry.OnError\<close> of client-go is known by its documentation: it calls the function again while its error
  is retriable, at most as often as the back off allows, and returns the last error. How many
  calls a back off allows is the argument \<open>tries\<close>.
\<close>

section \<open>The SDK\<close>

text \<open>What the helper reads of an interface: a nil attachment, address list or prefix list is \<open>None\<close>.\<close>

record raw_interface =
  RawId :: "string option"
  RawTags :: "ec2_tag list"
  RawStatus :: "string option"
  RawIps :: "string list option"
  RawPrefixes :: "string list option"

record IPResourceCount =
  SecondaryIPv4Count :: int
  IPv4PrefixCount :: int

record create_input =
  CDescription :: string
  CGroups :: "string list"
  CSubnetId :: string
  CTags :: "ec2_tag list"
  CConnTracking :: "conn_tracking option"
  CSecondaryCount :: "int option"
  CPrefixCount :: "int option"
  CInterfaceType :: "string option"

record describe_input =
  DIds :: "string list"
  DFilters :: "(string \<times> string list) list"
  DToken :: "string option"

record describe_output =
  DInterfaces :: "raw_interface list option"
  DNextToken :: "string option"

record assign_output =
  AssignedIps :: "string list"
  AssignedPrefixes :: "string list"

datatype ('n, 'i) sdk_event =
    is_CreateEv: CreateEv create_input "string + raw_interface option"
  | PermissionEv string "string option"
  | SubnetEv string "string + 'n list option"
  | DeleteEv string "string option"
  | DescribeEv describe_input "string + describe_output option"
  | AssociateEv string string int "string + string option"
  | ModifyEv string string "string option"
  | AttachEv string string int "string + string option"
  | DetachEv string "string option"
  | InstancesEv string "string + 'i list list option"
  | AssignEv string string "int option" "string + assign_output option"
  | UnassignEv string string "string list" "string option"
  | DisassociateEv string "string option"

type_synonym ('n, 'i) trace = "('n, 'i) sdk_event list"

record ('n, 'i) ec2_sdk =
  SdkCreate :: "('n, 'i) trace \<Rightarrow> create_input \<Rightarrow> string + raw_interface option"
  SdkPermission :: "('n, 'i) trace \<Rightarrow> string \<Rightarrow> string option"
  SdkSubnets :: "('n, 'i) trace \<Rightarrow> string \<Rightarrow> string + 'n list option"
  SdkDelete :: "('n, 'i) trace \<Rightarrow> string \<Rightarrow> string option"
  SdkDescribe :: "('n, 'i) trace \<Rightarrow> describe_input \<Rightarrow> string + describe_output option"
  SdkAssociate :: "('n, 'i) trace \<Rightarrow> string \<Rightarrow> string \<Rightarrow> int \<Rightarrow> string + string option"
  SdkModify :: "('n, 'i) trace \<Rightarrow> string \<Rightarrow> string \<Rightarrow> string option"
  SdkAttach :: "('n, 'i) trace \<Rightarrow> string \<Rightarrow> string \<Rightarrow> int \<Rightarrow> string + string option"
  SdkDetach :: "('n, 'i) trace \<Rightarrow> string \<Rightarrow> string option"
  SdkInstances :: "('n, 'i) trace \<Rightarrow> string \<Rightarrow> string + 'i list list option"
  SdkAssign :: "('n, 'i) trace \<Rightarrow> string \<Rightarrow> string \<Rightarrow> int option \<Rightarrow> string + assign_output option"
  SdkUnassign :: "('n, 'i) trace \<Rightarrow> string \<Rightarrow> string \<Rightarrow> string list \<Rightarrow> string option"
  SdkDisassociate :: "('n, 'i) trace \<Rightarrow> string \<Rightarrow> string option"

text \<open>One call: the answer of the SDK, recorded in the trace.\<close>

definition call :: "(('n, 'i) trace \<Rightarrow> 'r) \<Rightarrow> ('r \<Rightarrow> ('n, 'i) sdk_event) \<Rightarrow> (('n, 'i) trace, 'r) state" where
  "call f ev = State (\<lambda>h. (f h, ev (f h) # h))"

datatype helper_error =
    SdkError string
  | BothCounts
  | NoInterfaceInResponse
  | PermissionFailed string
  | PermissionAndDeleteFailed string helper_error
  | SubnetNotFound
  | NoInterfacesFound
  | InvalidVlanId
  | NoAssociationId
  | CreatingInterface helper_error
  | AttachFailed helper_error
  | AttachAndDeleteFailed helper_error helper_error
  | DeleteOnTerminationFailed helper_error
  | DeleteOnTerminationAndDeleteFailed helper_error helper_error
  | WaitFailed helper_error
  | WaitAndDeleteFailed helper_error helper_error
  | NoAttachmentId
  | ErrRetryAttachmentStatusCheck
  | NoInstanceDetails
  | InvalidCount
  | NothingAssigned
  | ErrIPNotAttachedYet
  | ErrPrefixNotAttachedYet

section \<open>Retries\<close>

datatype backoff = defaultBackOff | waitForENIAttachment | waitForIPAttachment

fun OnError :: "nat \<Rightarrow> (helper_error \<Rightarrow> bool) \<Rightarrow> ('s, helper_error option) state \<Rightarrow> ('s, helper_error option) state" where
  "OnError 0 retriable fn = State_Monad.return None"
| "OnError (Suc n) retriable fn = do {
     err \<leftarrow> fn;
     (case err of
        None \<Rightarrow> State_Monad.return None
      | Some e \<Rightarrow> if retriable e \<and> n \<noteq> 0 then OnError n retriable fn else State_Monad.return (Some e))}"

section \<open>Single calls\<close>


text \<open>A nil slice reads as an empty one.\<close>

definition nil_list :: "'a list option \<Rightarrow> 'a list" where
  "nil_list xs = (case xs of None \<Rightarrow> [] | Some ys \<Rightarrow> ys)"

definition lift_err :: "string option \<Rightarrow> helper_error option" where
  "lift_err = map_option SdkError"

definition DeleteNetworkInterface ::
  "(backoff \<Rightarrow> nat) \<Rightarrow> ('n, 'i) ec2_sdk \<Rightarrow> string \<Rightarrow> (('n, 'i) trace, helper_error option) state" where
  "DeleteNetworkInterface tries sdk nid =
     OnError (tries defaultBackOff) (\<lambda>e. True) (do {
       err \<leftarrow> call (\<lambda>h. SdkDelete sdk h nid) (DeleteEv nid);
       State_Monad.return (lift_err err)})"

definition GetSubnet :: "('n, 'i) ec2_sdk \<Rightarrow> string \<Rightarrow> (('n, 'i) trace, (helper_error + 'n) option) state" where
  "GetSubnet sdk sid = do {
     out \<leftarrow> call (\<lambda>h. SdkSubnets sdk h sid) (SubnetEv sid);
     (case out of
        Inl err \<Rightarrow> State_Monad.return (Some (Inl (SdkError err)))
      | Inr None \<Rightarrow> State_Monad.return None
      | Inr (Some []) \<Rightarrow> State_Monad.return (Some (Inl SubnetNotFound))
      | Inr (Some (s # _)) \<Rightarrow> State_Monad.return (Some (Inr s)))}"

definition GetInstanceDetails :: "('n, 'i) ec2_sdk \<Rightarrow> string \<Rightarrow> (('n, 'i) trace, helper_error + 'i) state" where
  "GetInstanceDetails sdk iid = do {
     out \<leftarrow> call (\<lambda>h. SdkInstances sdk h iid) (InstancesEv iid);
     State_Monad.return (case out of
        Inl err \<Rightarrow> Inl (SdkError err)
      | Inr (Some ((i # _) # _)) \<Rightarrow> Inr i
      | _ \<Rightarrow> Inl NoInstanceDetails)}"

definition GetInstanceNetworkInterface ::
  "('i \<Rightarrow> 'w list option) \<Rightarrow> ('n, 'i) ec2_sdk \<Rightarrow> string \<Rightarrow> (('n, 'i) trace, helper_error + 'w list) state" where
  "GetInstanceNetworkInterface interfaces sdk iid = do {
     details \<leftarrow> GetInstanceDetails sdk iid;
     State_Monad.return (case details of
        Inl err \<Rightarrow> Inl err
      | Inr i \<Rightarrow> (case interfaces i of Some ws \<Rightarrow> Inr ws | None \<Rightarrow> Inl NoInterfacesFound))}"

definition DescribeNetworkInterfaces ::
  "('n, 'i) ec2_sdk \<Rightarrow> string list \<Rightarrow> (('n, 'i) trace, helper_error + raw_interface list) state" where
  "DescribeNetworkInterfaces sdk nids = do {
     out \<leftarrow> call (\<lambda>h. SdkDescribe sdk h \<lparr>DIds = nids, DFilters = [], DToken = None\<rparr>)
       (DescribeEv \<lparr>DIds = nids, DFilters = [], DToken = None\<rparr>);
     State_Monad.return (case out of
        Inl err \<Rightarrow> Inl (SdkError err)
      | Inr None \<Rightarrow> Inl NoInterfacesFound
      | Inr (Some o1) \<Rightarrow> (case DInterfaces o1 of None \<Rightarrow> Inl NoInterfacesFound | Some ws \<Rightarrow> Inr ws))}"

definition SetDeleteOnTermination ::
  "('n, 'i) ec2_sdk \<Rightarrow> string \<Rightarrow> string \<Rightarrow> (('n, 'i) trace, helper_error option) state" where
  "SetDeleteOnTermination sdk aid nid = do {
     err \<leftarrow> call (\<lambda>h. SdkModify sdk h aid nid) (ModifyEv aid nid);
     State_Monad.return (lift_err err)}"

definition AttachNetworkInterfaceToInstance ::
  "('n, 'i) ec2_sdk \<Rightarrow> string \<Rightarrow> string \<Rightarrow> int \<Rightarrow> (('n, 'i) trace, helper_error + string) state" where
  "AttachNetworkInterfaceToInstance sdk iid nid deviceIndex = do {
     out \<leftarrow> call (\<lambda>h. SdkAttach sdk h iid nid deviceIndex) (AttachEv iid nid deviceIndex);
     State_Monad.return (case out of
        Inl err \<Rightarrow> Inl (SdkError err)
      | Inr (Some aid) \<Rightarrow> Inr aid
      | Inr None \<Rightarrow> Inl NoAttachmentId)}"

definition DetachNetworkInterfaceFromInstance ::
  "('n, 'i) ec2_sdk \<Rightarrow> string \<Rightarrow> (('n, 'i) trace, helper_error option) state" where
  "DetachNetworkInterfaceFromInstance sdk aid = do {
     err \<leftarrow> call (\<lambda>h. SdkDetach sdk h aid) (DetachEv aid);
     State_Monad.return (lift_err err)}"

definition DisassociateTrunkInterface ::
  "('n, 'i) ec2_sdk \<Rightarrow> string \<Rightarrow> (('n, 'i) trace, helper_error option) state" where
  "DisassociateTrunkInterface sdk aid = do {
     err \<leftarrow> call (\<lambda>h. SdkDisassociate sdk h aid) (DisassociateEv aid);
     State_Monad.return (lift_err err)}"

text \<open>A resource type that is neither an address nor a prefix sends an empty request: EC2 gets no interface.\<close>

definition UnassignIPv4Resources ::
  "('n, 'i) ec2_sdk \<Rightarrow> string \<Rightarrow> string \<Rightarrow> string list \<Rightarrow> (('n, 'i) trace, helper_error option) state" where
  "UnassignIPv4Resources sdk nid ty rs =
     (let (n, r) = (if ty = ResourceTypeIPv4Address \<or> ty = ResourceTypeIPv4Prefix then (nid, rs) else ('''', [])) in do {
     err \<leftarrow> call (\<lambda>h. SdkUnassign sdk h n ty r) (UnassignEv n ty r);
     State_Monad.return (lift_err err)})"

text \<open>The vlan id is checked after the permission has been created.\<close>

definition AssociateBranchToTrunk ::
  "('n, 'i) ec2_sdk \<Rightarrow> string \<Rightarrow> string \<Rightarrow> int \<Rightarrow> (('n, 'i) trace, helper_error + string) state" where
  "AssociateBranchToTrunk sdk trunk branch vlanId = do {
     perm \<leftarrow> call (\<lambda>h. SdkPermission sdk h branch) (PermissionEv branch);
     (case perm of
        Some err \<Rightarrow> State_Monad.return (Inl (PermissionFailed err))
      | None \<Rightarrow>
         (case IntToInt32 vlanId of
            None \<Rightarrow> State_Monad.return (Inl InvalidVlanId)
          | Some v \<Rightarrow> do {
              out \<leftarrow> call (\<lambda>h. SdkAssociate sdk h trunk branch v) (AssociateEv trunk branch v);
              State_Monad.return (case out of
                 Inl err \<Rightarrow> Inl (SdkError err)
               | Inr (Some aid) \<Rightarrow> Inr aid
               | Inr None \<Rightarrow> Inl NoAssociationId)}))}"

section \<open>Creating an interface\<close>

definition CreateENIDescriptionPrefix :: string where "CreateENIDescriptionPrefix = ''aws-k8s-''"

definition defaultControllerTag :: ec2_tag where
  "defaultControllerTag = (''eks:eni:owner'', ''eks-vpc-resource-controller'')"

definition clusterNameTag :: "string \<Rightarrow> ec2_tag" where
  "clusterNameTag clusterName = (''kubernetes.io/cluster/'' @ clusterName, ''owned'')"

text \<open>\<open>int32(x)\<close> of a Go \<open>int\<close>.\<close>

definition int32 :: "int \<Rightarrow> int" where
  "int32 x = sint (word_of_int x :: 32 word)"

definition create_request ::
  "string \<Rightarrow> string \<Rightarrow> string \<Rightarrow> string list \<Rightarrow> ec2_tag list \<Rightarrow> IPResourceCount option \<Rightarrow> string option \<Rightarrow>
   conn_tracking option \<Rightarrow> helper_error + create_input" where
  "create_request clusterName description subnet sgs tags ipCount ty conn =
     (let input = \<lparr>CDescription = CreateENIDescriptionPrefix @ description, CGroups = sgs, CSubnetId = subnet,
            CTags = tags @ [defaultControllerTag, clusterNameTag clusterName], CConnTracking = conn,
            CSecondaryCount = None, CPrefixCount = None, CInterfaceType = ty\<rparr>
      in case ipCount of
           None \<Rightarrow> Inr input
         | Some c \<Rightarrow>
             if SecondaryIPv4Count c \<noteq> 0 \<and> IPv4PrefixCount c \<noteq> 0 then Inl BothCounts
             else if SecondaryIPv4Count c \<noteq> 0 then Inr (input\<lparr>CSecondaryCount := Some (int32 (SecondaryIPv4Count c))\<rparr>)
             else if IPv4PrefixCount c \<noteq> 0 then Inr (input\<lparr>CPrefixCount := Some (int32 (IPv4PrefixCount c))\<rparr>)
             else Inr input)"

text \<open>The two results of the Go functions, the interface and the error; both can be there.\<close>

type_synonym interface_result = "raw_interface option \<times> helper_error option"

definition CreateNetworkInterface ::
  "(backoff \<Rightarrow> nat) \<Rightarrow> ('n, 'i) ec2_sdk \<Rightarrow> string \<Rightarrow> string \<Rightarrow> string \<Rightarrow> string list \<Rightarrow> ec2_tag list \<Rightarrow> IPResourceCount option \<Rightarrow>
   string option \<Rightarrow> conn_tracking option \<Rightarrow> (('n, 'i) trace, interface_result) state" where
  "CreateNetworkInterface tries sdk clusterName description subnet sgs tags ipCount ty conn =
     (case create_request clusterName description subnet sgs tags ipCount ty conn of
        Inl err \<Rightarrow> State_Monad.return (None, Some err)
      | Inr input \<Rightarrow> do {
          out \<leftarrow> call (\<lambda>h. SdkCreate sdk h input) (CreateEv input);
          (case out of
             Inl err \<Rightarrow> State_Monad.return (None, Some (SdkError err))
           | Inr None \<Rightarrow> State_Monad.return (None, Some NoInterfaceInResponse)
           | Inr (Some w) \<Rightarrow>
              (case RawId w of
                 None \<Rightarrow> State_Monad.return (None, Some NoInterfaceInResponse)
               | Some nid \<Rightarrow>
                   if ty = Some ''trunk'' then do {
                     perm \<leftarrow> call (\<lambda>h. SdkPermission sdk h nid) (PermissionEv nid);
                     (case perm of
                        None \<Rightarrow> State_Monad.return (Some w, None)
                      | Some err \<Rightarrow> do {
                          errDelete \<leftarrow> DeleteNetworkInterface tries sdk nid;
                          State_Monad.return (case errDelete of
                             Some e \<Rightarrow> (Some w, Some (PermissionAndDeleteFailed err e))
                           | None \<Rightarrow> (None, Some (PermissionFailed err)))})}
                   else State_Monad.return (Some w, None)))})"

section \<open>Waiting for an attachment\<close>

definition check_status :: "('n, 'i) ec2_sdk \<Rightarrow> string \<Rightarrow> string \<Rightarrow> (('n, 'i) trace, helper_error option) state" where
  "check_status sdk nid desired = do {
     interfaces \<leftarrow> DescribeNetworkInterfaces sdk [nid];
     State_Monad.return (case interfaces of
        Inl err \<Rightarrow> Some err
      | Inr [w] \<Rightarrow> if RawStatus w = Some desired then None else Some ErrRetryAttachmentStatusCheck
      | Inr _ \<Rightarrow> None)}"

definition WaitForNetworkInterfaceStatusChange ::
  "(backoff \<Rightarrow> nat) \<Rightarrow> ('n, 'i) ec2_sdk \<Rightarrow> string \<Rightarrow> string \<Rightarrow> (('n, 'i) trace, helper_error option) state" where
  "WaitForNetworkInterfaceStatusChange tries sdk nid desired =
     OnError (tries waitForENIAttachment) (\<lambda>e. e = ErrRetryAttachmentStatusCheck) (check_status sdk nid desired)"

definition DetachAndDeleteNetworkInterface ::
  "(backoff \<Rightarrow> nat) \<Rightarrow> ('n, 'i) ec2_sdk \<Rightarrow> string \<Rightarrow> string \<Rightarrow> (('n, 'i) trace, helper_error option) state" where
  "DetachAndDeleteNetworkInterface tries sdk aid nid = do {
     err \<leftarrow> DetachNetworkInterfaceFromInstance sdk aid;
     (case err of
        Some e \<Rightarrow> State_Monad.return (Some e)
      | None \<Rightarrow> do {
          err \<leftarrow> WaitForNetworkInterfaceStatusChange tries sdk nid ''detached'';
          (case err of
             Some e \<Rightarrow> State_Monad.return (Some e)
           | None \<Rightarrow> DeleteNetworkInterface tries sdk nid)})}"

section \<open>Creating and attaching\<close>

definition raw_id :: "raw_interface option \<Rightarrow> string" where
  "raw_id w = (case w of None \<Rightarrow> '''' | Some x \<Rightarrow> (case RawId x of None \<Rightarrow> '''' | Some nid \<Rightarrow> nid))"

text \<open>The part after the interface is attached.\<close>

definition finish_attachment ::
  "(backoff \<Rightarrow> nat) \<Rightarrow> ('n, 'i) ec2_sdk \<Rightarrow> string \<Rightarrow> raw_interface option \<Rightarrow> (('n, 'i) trace, interface_result) state" where
  "finish_attachment tries sdk aid w = do {
     err \<leftarrow> SetDeleteOnTermination sdk aid (raw_id w);
     (case err of
        Some err \<Rightarrow> do {
          errDelete \<leftarrow> DetachAndDeleteNetworkInterface tries sdk aid (raw_id w);
          State_Monad.return (case errDelete of
             Some e \<Rightarrow> (w, Some (DeleteOnTerminationAndDeleteFailed err e))
           | None \<Rightarrow> (None, Some (DeleteOnTerminationFailed err)))}
      | None \<Rightarrow> do {
          err \<leftarrow> WaitForNetworkInterfaceStatusChange tries sdk (raw_id w) ''attached'';
          (case err of
             Some err \<Rightarrow> do {
               errDelete \<leftarrow> DetachAndDeleteNetworkInterface tries sdk aid (raw_id w);
               State_Monad.return (case errDelete of
                  Some e \<Rightarrow> (w, Some (WaitAndDeleteFailed err e))
                | None \<Rightarrow> (None, Some (WaitFailed err)))}
           | None \<Rightarrow> State_Monad.return (w, None))})}"

definition CreateAndAttachNetworkInterface ::
  "(backoff \<Rightarrow> nat) \<Rightarrow> ('n, 'i) ec2_sdk \<Rightarrow> string \<Rightarrow> string \<Rightarrow> string \<Rightarrow> string list \<Rightarrow> ec2_tag list \<Rightarrow> int \<Rightarrow> string \<Rightarrow>
   string option \<Rightarrow> IPResourceCount option \<Rightarrow> conn_tracking option \<Rightarrow> (('n, 'i) trace, interface_result) state" where
  "CreateAndAttachNetworkInterface tries sdk clusterName iid subnet sgs tags deviceIndex description ty ipCount conn = do {
     created \<leftarrow> CreateNetworkInterface tries sdk clusterName description subnet sgs tags ipCount ty conn;
     (case created of
        (_, Some err) \<Rightarrow> State_Monad.return (None, Some (CreatingInterface err))
      | (w, None) \<Rightarrow> do {
          attachment \<leftarrow> AttachNetworkInterfaceToInstance sdk iid (raw_id w) deviceIndex;
          (case attachment of
             Inl err \<Rightarrow> do {
               errDelete \<leftarrow> DeleteNetworkInterface tries sdk (raw_id w);
               State_Monad.return (case errDelete of
                  Some e \<Rightarrow> (w, Some (AttachAndDeleteFailed err e))
                | None \<Rightarrow> (None, Some (AttachFailed err)))}
           | Inr aid \<Rightarrow> finish_attachment tries sdk aid w)})}"

section \<open>Assigning addresses\<close>

text \<open>Of the resources that the assign call returned, those the interface shows; an error when it does not
  show all of them.\<close>

definition attached :: "string list \<Rightarrow> string list \<Rightarrow> helper_error \<Rightarrow> helper_error option \<times> string list" where
  "attached shown assigned err =
     ((if list_all (\<lambda>r. r \<in> set shown) assigned then None else Some err), filter (\<lambda>r. r \<in> set shown) assigned)"

text \<open>The function that is retried sets the captured \<open>assignedResources\<close>, the second part of the state.\<close>

definition check_assigned ::
  "('n, 'i) ec2_sdk \<Rightarrow> string \<Rightarrow> string \<Rightarrow> assign_output \<Rightarrow> (('n, 'i) trace \<times> string list, helper_error option) state" where
  "check_assigned sdk nid ty out = State (\<lambda>(h, _).
     (case run_state (DescribeNetworkInterfaces sdk [nid]) h of
        (Inl err, h1) \<Rightarrow> (Some err, (h1, []))
      | (Inr [w], h1) \<Rightarrow>
          (case (if ty = ResourceTypeIPv4Address \<and> RawIps w \<noteq> None then attached (nil_list (RawIps w)) (AssignedIps out) ErrIPNotAttachedYet
                 else if ty = ResourceTypeIPv4Prefix \<and> RawPrefixes w \<noteq> None then
                   attached (nil_list (RawPrefixes w)) (AssignedPrefixes out) ErrPrefixNotAttachedYet
                 else (None, [])) of
             (err, rs) \<Rightarrow> (err, (h1, rs)))
      | (Inr _, h1) \<Rightarrow> (None, (h1, []))))"

text \<open>The test for an empty answer compares the resource type with the name of the resource, which
  it never is: only an empty answer for prefixes is caught.\<close>

definition AssignIPv4ResourcesAndWaitTillReady ::
  "(backoff \<Rightarrow> nat) \<Rightarrow> ('n, 'i) ec2_sdk \<Rightarrow> string \<Rightarrow> string \<Rightarrow> int \<Rightarrow>
   (('n, 'i) trace, string list \<times> helper_error option) state" where
  "AssignIPv4ResourcesAndWaitTillReady tries sdk nid ty cnt =
     (case IntToInt32 cnt of
        None \<Rightarrow> State_Monad.return ([], Some InvalidCount)
      | Some c \<Rightarrow>
         (let (n, m) = (if ty = ResourceTypeIPv4Address \<or> ty = ResourceTypeIPv4Prefix then (nid, Some c) else ('''', None)) in do {
          res \<leftarrow> call (\<lambda>h. SdkAssign sdk h n ty m) (AssignEv n ty m);
          (case res of
             Inl err \<Rightarrow> State_Monad.return ([], Some (SdkError err))
           | Inr None \<Rightarrow> State_Monad.return ([], Some NothingAssigned)
           | Inr (Some out) \<Rightarrow>
               if (ty = ResourceNameIPAddress \<and> AssignedIps out = []) \<or> (ty = ResourceTypeIPv4Prefix \<and> AssignedPrefixes out = [])
               then State_Monad.return ([], Some NothingAssigned)
               else State (\<lambda>h.
                 (case run_state (OnError (tries waitForIPAttachment)
                         (\<lambda>e. e = ErrIPNotAttachedYet \<or> e = ErrPrefixNotAttachedYet) (check_assigned sdk nid ty out)) (h, []) of
                    (err, (h1, rs)) \<Rightarrow> ((rs, err), h1))))}))"

section \<open>The branch interfaces of a trunk\<close>

definition branch_filters :: "string \<Rightarrow> string \<Rightarrow> (string \<times> string list) list" where
  "branch_filters trunkID subnetID = [(''tag:vpcresources.k8s.aws/trunk-eni-id'', [trunkID]), (''subnet-id'', [subnetID])]"

text \<open>The copy that is kept of an interface.\<close>

definition id_and_tags :: "raw_interface \<Rightarrow> raw_interface" where
  "id_and_tags w = \<lparr>RawId = RawId w, RawTags = RawTags w, RawStatus = None, RawIps = None, RawPrefixes = None\<rparr>"

text \<open>The loop over the pages ends when EC2 says so: \<open>None\<close> is a run that never ends.\<close>

partial_function (option) branch_pages ::
  "('n, 'i) ec2_sdk \<Rightarrow> describe_input \<Rightarrow> raw_interface list \<Rightarrow> ('n, 'i) trace \<Rightarrow>
   ((helper_error + raw_interface list) \<times> ('n, 'i) trace) option" where
  "branch_pages sdk input acc h =
     (let res = SdkDescribe sdk h input; h1 = DescribeEv input res # h in
      case res of
        Inl err \<Rightarrow> Some (Inl (SdkError err), h1)
      | Inr None \<Rightarrow> Some (Inr acc, h1)
      | Inr (Some out) \<Rightarrow>
          if nil_list (DInterfaces out) = [] then Some (Inr acc, h1)
          else
            let acc1 = acc @ map id_and_tags (nil_list (DInterfaces out)) in
            case DNextToken out of
              None \<Rightarrow> Some (Inr acc1, h1)
            | Some tok \<Rightarrow> branch_pages sdk (input\<lparr>DToken := Some tok\<rparr>) acc1 h1)"

declare branch_pages.simps [code]

definition GetBranchNetworkInterface ::
  "('n, 'i) ec2_sdk \<Rightarrow> string \<Rightarrow> string \<Rightarrow> ('n, 'i) trace \<Rightarrow> ((helper_error + raw_interface list) \<times> ('n, 'i) trace) option" where
  "GetBranchNetworkInterface sdk trunkID subnetID h =
     branch_pages sdk \<lparr>DIds = [], DFilters = branch_filters trunkID subnetID, DToken = None\<rparr> [] h"

end
