(* ===== verification/Ec2_Helper_Props.thy ===== *)
theory Ec2_Helper_Props
  imports Ec2_Helper
begin

text \<open>
  The properties of the EC2 helper, for every behaviour of the SDK.
\<close>

section \<open>Traces\<close>

text \<open>A program that only adds events to the trace, all of which satisfy \<open>P\<close>.\<close>

definition emits :: "(('n, 'i) sdk_event \<Rightarrow> bool) \<Rightarrow> (('n, 'i) trace, 'a) state \<Rightarrow> bool" where
  "emits P m \<longleftrightarrow> (\<forall>h. \<exists>evs. snd (run_state m h) = evs @ h \<and> list_all P evs)"

lemma emits_return [intro]: "emits P (State_Monad.return x)"
  by (simp add: emits_def)

lemma emits_call [intro]: "(\<And>r. P (ev r)) \<Longrightarrow> emits P (call f ev)"
  by (simp add: emits_def call_def)

lemma emits_bind [intro]:
  assumes "emits P m" "\<And>x. emits P (f x)"
  shows "emits P (State_Monad.bind m f)"
  unfolding emits_def
proof
  fix h
  obtain x h1 where m: "run_state m h = (x, h1)" by (metis surj_pair)
  obtain evs1 where 1: "h1 = evs1 @ h" "list_all P evs1"
    using assms(1) m unfolding emits_def by (metis snd_conv)
  obtain evs2 where 2: "snd (run_state (f x) h1) = evs2 @ h1" "list_all P evs2"
    using assms(2) unfolding emits_def by blast
  show "\<exists>evs. snd (run_state (State_Monad.bind m f) h) = evs @ h \<and> list_all P evs"
    using m 1 2 by (intro exI [of _ "evs2 @ evs1"]) simp
qed

lemma emits_OnError [intro]: "emits P fn \<Longrightarrow> emits P (OnError n retriable fn)"
  by (induction n) (auto intro!: emits_bind split: option.split)

lemma emitsE:
  assumes "emits P m" "run_state m h = (x, h')"
  obtains evs where "h' = evs @ h" "list_all P evs"
  using assms unfolding emits_def by (metis snd_conv)

section \<open>Deleting with retries\<close>

lemma DeleteNetworkInterface_run:
  assumes "run_state (DeleteNetworkInterface tries sdk nid) h = (r, h')" "0 < tries defaultBackOff"
  shows "\<exists>evs. h' = evs @ h \<and> evs \<noteq> [] \<and> length evs \<le> tries defaultBackOff \<and> list_all (\<lambda>e. \<exists>x. e = DeleteEv nid x) evs \<and>
    (r = None \<longleftrightarrow> DeleteEv nid None \<in> set evs) \<and> (r \<noteq> None \<longrightarrow> length evs = tries defaultBackOff)"
proof -
  let ?fn = "do { err \<leftarrow> call (\<lambda>h. SdkDelete sdk h nid) (DeleteEv nid); State_Monad.return (lift_err err)}"
  have "run_state (OnError n (\<lambda>e. True) ?fn) h = (r, h') \<Longrightarrow> 0 < n \<Longrightarrow>
      \<exists>evs. h' = evs @ h \<and> evs \<noteq> [] \<and> length evs \<le> n \<and> list_all (\<lambda>e. \<exists>x. e = DeleteEv nid x) evs \<and>
        (r = None \<longleftrightarrow> DeleteEv nid None \<in> set evs) \<and> (r \<noteq> None \<longrightarrow> length evs = n)" for n
  proof (induction n arbitrary: h)
    case (Suc n)
    show ?case
    proof (cases "SdkDelete sdk h nid = None \<or> n = 0")
      case True
      then show ?thesis using Suc.prems(1)
        by (intro exI [of _ "[DeleteEv nid (SdkDelete sdk h nid)]"]) (auto simp: call_def lift_err_def split: option.splits)
    next
      case False
      then obtain x where x: "SdkDelete sdk h nid = Some x" by auto
      then obtain evs where "h' = evs @ DeleteEv nid (Some x) # h" "length evs \<le> n" "list_all (\<lambda>e. \<exists>x. e = DeleteEv nid x) evs"
          "r = None \<longleftrightarrow> DeleteEv nid None \<in> set evs" "r \<noteq> None \<longrightarrow> length evs = n"
        using Suc.IH [of "DeleteEv nid (Some x) # h"] Suc.prems(1) False by (auto simp: call_def lift_err_def)
      then show ?thesis by (intro exI [of _ "evs @ [DeleteEv nid (Some x)]"]) auto
    qed
  qed simp
  from this [of "tries defaultBackOff"] show ?thesis using assms by (simp add: DeleteNetworkInterface_def)
qed

text \<open>Deleting an interface calls EC2 until a call succeeds, but at most as often as the back off allows; an
  error is returned only when every one of these calls failed.\<close>

theorem helper_delete_retries:
  assumes "run_state (DeleteNetworkInterface tries sdk nid) h = (r, h')" "0 < tries defaultBackOff"
  shows "\<exists>evs. h' = evs @ h \<and> 0 < length evs \<and> length evs \<le> tries defaultBackOff \<and>
    list_all (\<lambda>e. \<exists>x. e = DeleteEv nid x) evs \<and> (r = None \<longleftrightarrow> DeleteEv nid None \<in> set evs) \<and>
    (r \<noteq> None \<longrightarrow> length evs = tries defaultBackOff)"
  using DeleteNetworkInterface_run [OF assms] by auto

section \<open>Creating and attaching\<close>

lemma emits_Delete: "emits (\<lambda>e. \<not> is_CreateEv e) (DeleteNetworkInterface tries sdk nid)"
  by (auto simp: DeleteNetworkInterface_def intro!: emits_OnError emits_bind emits_call)

lemma emits_Describe: "emits (\<lambda>e. \<not> is_CreateEv e) (DescribeNetworkInterfaces sdk nids)"
  by (auto simp: DescribeNetworkInterfaces_def intro!: emits_bind emits_call)

lemma emits_Wait: "emits (\<lambda>e. \<not> is_CreateEv e) (WaitForNetworkInterfaceStatusChange tries sdk nid st)"
  by (auto simp: WaitForNetworkInterfaceStatusChange_def check_status_def intro!: emits_OnError emits_bind emits_Describe)

lemma emits_DetachAndDelete: "emits (\<lambda>e. \<not> is_CreateEv e) (DetachAndDeleteNetworkInterface tries sdk aid nid)"
  by (auto simp: DetachAndDeleteNetworkInterface_def DetachNetworkInterfaceFromInstance_def
      intro!: emits_bind emits_call emits_return emits_Wait emits_Delete split: option.split)

lemmas emits_helper = emits_Delete emits_Describe emits_Wait emits_DetachAndDelete

lemma Delete_ok:
  assumes "run_state (DeleteNetworkInterface tries sdk nid) h = (None, h')" "0 < tries defaultBackOff"
  shows "\<exists>evs. h' = evs @ h \<and> list_all (\<lambda>e. \<not> is_CreateEv e) evs \<and> DeleteEv nid None \<in> set evs"
  using DeleteNetworkInterface_run [OF assms] by (fastforce simp: list_all_iff)

lemma DetachAndDelete_ok:
  assumes "run_state (DetachAndDeleteNetworkInterface tries sdk aid nid) h = (None, h')" "0 < tries defaultBackOff"
  shows "\<exists>evs. h' = evs @ h \<and> list_all (\<lambda>e. \<not> is_CreateEv e) evs \<and> DeleteEv nid None \<in> set evs"
proof -
  obtain h0 h1 where d: "run_state (DetachNetworkInterfaceFromInstance sdk aid) h = (None, h0)"
      "run_state (WaitForNetworkInterfaceStatusChange tries sdk nid ''detached'') h0 = (None, h1)"
      "run_state (DeleteNetworkInterface tries sdk nid) h1 = (None, h')"
    using assms(1)
    by (auto simp: DetachAndDeleteNetworkInterface_def split: prod.splits option.splits)
  obtain e2 where "h1 = e2 @ h0" "list_all (\<lambda>e. \<not> is_CreateEv e) e2" using d(2) by (rule emitsE [OF emits_Wait])
  moreover obtain e3 where "h' = e3 @ h1" "list_all (\<lambda>e. \<not> is_CreateEv e) e3" "DeleteEv nid None \<in> set e3"
    using Delete_ok [OF d(3) assms(2)] by blast
  moreover have "h0 = DetachEv aid None # h"
    using d(1) by (auto simp: DetachNetworkInterfaceFromInstance_def call_def lift_err_def)
  ultimately show ?thesis by (intro exI [of _ "e3 @ e2 @ [DetachEv aid None]"]) simp
qed

text \<open>The interfaces that EC2 created, in a part of the trace.\<close>

definition created_ids :: "('n, 'i) trace \<Rightarrow> string set" where
  "created_ids evs = {nid. \<exists>input w. CreateEv input (Inr (Some w)) \<in> set evs \<and> RawId w = Some nid}"

lemma created_ids_quiet [simp]: "list_all (\<lambda>e. \<not> is_CreateEv e) evs \<Longrightarrow> created_ids evs = {}"
  by (fastforce simp: created_ids_def list_all_iff)

lemma created_ids_append [simp]: "created_ids (evs @ evs') = created_ids evs \<union> created_ids evs'"
  by (auto simp: created_ids_def)

lemma created_ids_skip [simp]: "\<not> is_CreateEv e \<Longrightarrow> created_ids (e # evs) = created_ids evs"
  by (auto simp: created_ids_def)

text \<open>What \<open>CreateNetworkInterface\<close> can do: nothing was created; one interface was created and returned; or it was
  created and the permission failed, and then it was deleted or every deletion failed.\<close>

lemma CreateNetworkInterface_cases:
  assumes "run_state (CreateNetworkInterface tries sdk cn d subnet sgs tags ipc ty conn) h = ((w, err), h')" "0 < tries defaultBackOff"
  obtains (none_made) evs e where "h' = evs @ h" "created_ids evs = {}" "w = None" "err = Some e"
  | (made) evs x nid where "h' = evs @ h" "created_ids evs = {nid}" "w = Some x" "RawId x = Some nid" "err = None"
      "list_all (\<lambda>e. \<nexists>z. e = DeleteEv nid z) evs"
  | (undone) evs nid e where "h' = evs @ h" "created_ids evs = {nid}" "DeleteEv nid None \<in> set evs" "w = None" "err = Some e"
  | (stuck) evs x nid p e where "h' = evs @ h" "created_ids evs = {nid}" "w = Some x" "RawId x = Some nid"
      "err = Some (PermissionAndDeleteFailed p e)"
proof (cases "create_request cn d subnet sgs tags ipc ty conn")
  case (Inl e)
  then show ?thesis using assms by (intro none_made [of "[]"]) (auto simp: CreateNetworkInterface_def created_ids_def)
next
  case (Inr input)
  let ?ev = "CreateEv input (SdkCreate sdk h input)"
  consider (err) s where "SdkCreate sdk h input = Inl s" | (nil) "SdkCreate sdk h input = Inr None"
    | (noid) x where "SdkCreate sdk h input = Inr (Some x)" "RawId x = None"
    | (ok) x nid where "SdkCreate sdk h input = Inr (Some x)" "RawId x = Some nid"
    by (metis old.sum.exhaust option.exhaust)
  then show ?thesis
  proof cases
    case (ok x nid)
    have ids: "created_ids [?ev] = {nid}" using ok by (auto simp: created_ids_def)
    consider (plain) "ty \<noteq> Some ''trunk''" | (perm) "ty = Some ''trunk''" "SdkPermission sdk (?ev # h) nid = None"
      | (refused) p r h2 where "ty = Some ''trunk''" "SdkPermission sdk (?ev # h) nid = Some p"
          "run_state (DeleteNetworkInterface tries sdk nid) (PermissionEv nid (Some p) # ?ev # h) = (r, h2)"
      by (metis option.exhaust surj_pair)
    then show ?thesis
    proof cases
      case plain
      then show ?thesis using assms(1) Inr ok ids
        by (intro made [of "[?ev]" nid x]) (auto simp: CreateNetworkInterface_def call_def)
    next
      case perm
      then show ?thesis using assms(1) Inr ok ids
        by (intro made [of "[PermissionEv nid None, ?ev]" nid x])
          (auto simp: CreateNetworkInterface_def call_def)
    next
      case (refused p r h2)
      obtain evs where evs: "h2 = evs @ PermissionEv nid (Some p) # ?ev # h" "list_all (\<lambda>e. \<not> is_CreateEv e) evs"
          "r = None \<Longrightarrow> DeleteEv nid None \<in> set evs"
        using DeleteNetworkInterface_run [OF refused(3) assms(2)] by (fastforce simp: list_all_iff)
      let ?evs = "evs @ [PermissionEv nid (Some p), ?ev]"
      have "h' = ?evs @ h" "created_ids ?evs = {nid}"
        using assms(1) Inr ok refused evs ids
        by (auto simp: CreateNetworkInterface_def call_def split: option.splits)
      moreover have "(w, err) = (case r of Some e \<Rightarrow> (Some x, Some (PermissionAndDeleteFailed p e)) | None \<Rightarrow> (None, Some (PermissionFailed p)))"
        using assms(1) Inr ok refused by (simp add: CreateNetworkInterface_def call_def)
      ultimately show ?thesis
        using undone [of ?evs nid] stuck [of ?evs nid x] ok evs(3) by (cases r) auto
    qed
  qed (use assms Inr in \<open>auto intro!: none_made [of "[?ev]"] simp: CreateNetworkInterface_def call_def created_ids_def\<close>)
qed

lemma Attach_run: "run_state (AttachNetworkInterfaceToInstance sdk iid nid dev) h =
    ((case SdkAttach sdk h iid nid dev of Inl e \<Rightarrow> Inl (SdkError e) | Inr (Some a) \<Rightarrow> Inr a | Inr None \<Rightarrow> Inl NoAttachmentId),
     AttachEv iid nid dev (SdkAttach sdk h iid nid dev) # h)"
  by (simp add: AttachNetworkInterfaceToInstance_def call_def)

lemma Modify_run: "run_state (SetDeleteOnTermination sdk aid nid) h =
    (lift_err (SdkModify sdk h aid nid), ModifyEv aid nid (SdkModify sdk h aid nid) # h)"
  by (simp add: SetDeleteOnTermination_def call_def)

text \<open>A rollback after the interface was created: it is deleted, or the interface is returned beside the error.\<close>

lemma rollback:
  assumes "run_state m h = (r, h')" "emits (\<lambda>e. \<not> is_CreateEv e) m"
    and "r = None \<Longrightarrow> \<exists>evs. h' = evs @ h \<and> list_all (\<lambda>e. \<not> is_CreateEv e) evs \<and> DeleteEv nid None \<in> set evs"
  obtains evs where "h' = evs @ h" "list_all (\<lambda>e. \<not> is_CreateEv e) evs" "r = None \<Longrightarrow> DeleteEv nid None \<in> set evs"
  using emitsE [OF assms(2,1)] assms(3) by (metis append_same_eq)

lemma finish_attachment_run:
  assumes run: "run_state (finish_attachment tries sdk aid w0) h = ((w, err), h')" and tries: "0 < tries defaultBackOff"
  shows "\<exists>evs. h' = evs @ h \<and> list_all (\<lambda>e. \<not> is_CreateEv e) evs \<and>
    (if err = None then w = w0 \<and> ModifyEv aid (raw_id w0) None \<in> set evs else w = w0 \<or> DeleteEv (raw_id w0) None \<in> set evs)"
proof -
  let ?nid = "raw_id w0"
  let ?hm = "ModifyEv aid ?nid (SdkModify sdk h aid ?nid) # h"
  note eq = run [unfolded finish_attachment_def run_state_bind Modify_run]
  have undo: "\<exists>evs. h2 = evs @ h1 \<and> list_all (\<lambda>e. \<not> is_CreateEv e) evs \<and> (r = None \<longrightarrow> DeleteEv ?nid None \<in> set evs)"
    if "run_state (DetachAndDeleteNetworkInterface tries sdk aid ?nid) h1 = (r, h2)" for h1 r h2
    using rollback [OF that emits_DetachAndDelete, of ?nid] DetachAndDelete_ok [of tries sdk aid ?nid h1 h2] that tries by metis
  show ?thesis
  proof (cases "SdkModify sdk h aid ?nid")
    case (Some e)
    obtain r h2 where del: "run_state (DetachAndDeleteNetworkInterface tries sdk aid ?nid) ?hm = (r, h2)" by (metis surj_pair)
    obtain evs where "h2 = evs @ ?hm" "list_all (\<lambda>e. \<not> is_CreateEv e) evs" "r = None \<Longrightarrow> DeleteEv ?nid None \<in> set evs"
      using undo [OF del] by blast
    then show ?thesis using eq del Some
      by (intro exI [of _ "evs @ [ModifyEv aid ?nid (Some e)]"]) (auto simp: lift_err_def split: option.splits)
  next
    case None
    obtain r3 h3 where w: "run_state (WaitForNetworkInterfaceStatusChange tries sdk ?nid ''attached'') ?hm = (r3, h3)"
      by (metis surj_pair)
    then obtain evs3 where e3: "h3 = evs3 @ ?hm" "list_all (\<lambda>e. \<not> is_CreateEv e) evs3" by (rule emitsE [OF emits_Wait])
    obtain r h2 where del: "run_state (DetachAndDeleteNetworkInterface tries sdk aid ?nid) h3 = (r, h2)" by (metis surj_pair)
    obtain evs2 where e2: "h2 = evs2 @ h3" "list_all (\<lambda>e. \<not> is_CreateEv e) evs2" "r = None \<Longrightarrow> DeleteEv ?nid None \<in> set evs2"
      using undo [OF del] by blast
    show ?thesis using eq w e3 e2 del None
      by (intro exI [of _ "(if r3 = None then [] else evs2) @ evs3 @ [ModifyEv aid ?nid None]"])
        (auto simp: lift_err_def split: option.splits)
  qed
qed

text \<open>C16. Creating and attaching an interface leaks nothing. On success the interface that is returned is the
  only one that was created, EC2 has attached it to the instance and will delete it with the
  instance. After an error every created interface has been deleted, or it is returned beside the error, or
  the error says that its deletion was tried and failed.\<close>

theorem create_and_attach_no_leak:
  assumes run: "run_state (CreateAndAttachNetworkInterface tries sdk cn iid subnet sgs tags dev d ty ipc conn) h = ((w, err), h')"
    and tries: "0 < tries defaultBackOff"
  shows "\<exists>evs. h' = evs @ h \<and>
    (err = None \<longrightarrow> (\<exists>x nid aid. w = Some x \<and> RawId x = Some nid \<and> created_ids evs = {nid} \<and>
       AttachEv iid nid dev (Inr (Some aid)) \<in> set evs \<and> ModifyEv aid nid None \<in> set evs)) \<and>
    (err \<noteq> None \<longrightarrow> (\<forall>nid \<in> created_ids evs. DeleteEv nid None \<in> set evs \<or> raw_id w = nid \<or>
       (\<exists>p e. err = Some (CreatingInterface (PermissionAndDeleteFailed p e)))))"
proof -
  obtain w0 err0 h0 where c: "run_state (CreateNetworkInterface tries sdk cn d subnet sgs tags ipc ty conn) h = ((w0, err0), h0)"
    by (metis prod_cases3 surj_pair)
  note eq = run [unfolded CreateAndAttachNetworkInterface_def run_state_bind c]
  from c tries show ?thesis
  proof (cases rule: CreateNetworkInterface_cases)
    case (none_made evs e)
    then show ?thesis using eq by (intro exI [of _ evs]) auto
  next
    case (undone evs nid e)
    then show ?thesis using eq by (intro exI [of _ evs]) auto
  next
    case (stuck evs x nid p e)
    then show ?thesis using eq by (intro exI [of _ evs]) auto
  next
    case (made evs x nid)
    have nid: "raw_id w0 = nid" by (simp add: made raw_id_def)
    let ?at = "AttachEv iid nid dev (SdkAttach sdk h0 iid nid dev)"
    show ?thesis
    proof (cases "fst (run_state (AttachNetworkInterfaceToInstance sdk iid nid dev) h0)")
      case (Inl e)
      obtain r h2 where del: "run_state (DeleteNetworkInterface tries sdk nid) (?at # h0) = (r, h2)" by (metis surj_pair)
      obtain evs2 where "h2 = evs2 @ ?at # h0" "list_all (\<lambda>e. \<not> is_CreateEv e) evs2" "r = None \<Longrightarrow> DeleteEv nid None \<in> set evs2"
        using rollback [OF del emits_Delete, of nid] Delete_ok [of tries sdk nid "?at # h0" h2] del tries by metis
      then show ?thesis using eq nid Inl del made
        by (intro exI [of _ "evs2 @ ?at # evs"]) (auto simp: Attach_run split: option.splits)
    next
      case (Inr aid)
      then have aid: "SdkAttach sdk h0 iid nid dev = Inr (Some aid)"
        by (auto simp: Attach_run split: sum.splits option.splits)
      then have "run_state (finish_attachment tries sdk aid w0) (?at # h0) = ((w, err), h')"
        using eq nid made by (simp add: Attach_run)
      from finish_attachment_run [OF this tries] obtain evs2 where "h' = evs2 @ ?at # h0" "list_all (\<lambda>e. \<not> is_CreateEv e) evs2"
        "if err = None then w = w0 \<and> ModifyEv aid nid None \<in> set evs2 else w = w0 \<or> DeleteEv nid None \<in> set evs2"
        unfolding nid by blast
      then show ?thesis using nid made aid
        by (intro exI [of _ "evs2 @ ?at # evs"]) (auto split: if_splits)
    qed
  qed
qed

text \<open>An EC2 on which every call succeeds, and shows the addresses it has assigned.\<close>

definition sample_raw :: raw_interface where
  "sample_raw = \<lparr>RawId = Some ''eni-1'', RawTags = [], RawStatus = Some ''attached'',
     RawIps = Some [''10.0.0.1'', ''10.0.0.2''], RawPrefixes = None\<rparr>"

definition sample_sdk :: "(unit, unit) ec2_sdk" where
  "sample_sdk =
    \<lparr>SdkCreate = (\<lambda>h i. Inr (Some sample_raw)), SdkPermission = (\<lambda>h n. None), SdkSubnets = (\<lambda>h s. Inr (Some [()])),
     SdkDelete = (\<lambda>h n. None), SdkDescribe = (\<lambda>h i. Inr (Some \<lparr>DInterfaces = Some [sample_raw], DNextToken = None\<rparr>)),
     SdkAssociate = (\<lambda>h t b v. Inr (Some ''assoc-1'')), SdkModify = (\<lambda>h a n. Some ''denied''),
     SdkAttach = (\<lambda>h i n d. Inr (Some ''attach-1'')), SdkDetach = (\<lambda>h a. None), SdkInstances = (\<lambda>h i. Inr (Some [[()]])),
     SdkAssign = (\<lambda>h n t c. Inr (Some \<lparr>AssignedIps = [''10.0.0.1'', ''10.0.0.2''], AssignedPrefixes = []\<rparr>)),
     SdkUnassign = (\<lambda>h n t r. None), SdkDisassociate = (\<lambda>h a. None)\<rparr>"

theorem helper_delete_retries_witness:
  "\<exists>evs. snd (run_state (DeleteNetworkInterface (\<lambda>b. 5) sample_sdk ''eni-1'') []) = evs @ [] \<and> 0 < length evs \<and> length evs \<le> 5"
proof -
  obtain r h' where r: "run_state (DeleteNetworkInterface (\<lambda>b. 5) sample_sdk ''eni-1'') [] = (r, h')" by (metis surj_pair)
  from helper_delete_retries [OF r] show ?thesis using r by simp
qed

text \<open>The interface cannot be set to be deleted with its instance and does not reach the status detached
  either: the error comes with the interface.\<close>

theorem create_and_attach_no_leak_witness:
  "\<exists>w err h' evs. run_state (CreateAndAttachNetworkInterface (\<lambda>b. 2) sample_sdk ''c'' ''i-1'' ''subnet'' [] [] 1 ''trunk'' (Some ''trunk'')
      None None) [] = ((w, err), h') \<and> h' = evs @ [] \<and> err \<noteq> None \<and>
     (\<forall>nid \<in> created_ids evs. DeleteEv nid None \<in> set evs \<or> raw_id w = nid \<or>
       (\<exists>p e. err = Some (CreatingInterface (PermissionAndDeleteFailed p e))))"
proof -
  let ?m = "CreateAndAttachNetworkInterface (\<lambda>b. 2) sample_sdk ''c'' ''i-1'' ''subnet'' [] [] 1 ''trunk'' (Some ''trunk'') None None"
  obtain w err h' where r: "run_state ?m [] = ((w, err), h')" by (metis prod_cases3 surj_pair)
  have "snd (fst (run_state ?m [])) \<noteq> None" by code_simp
  then have "err \<noteq> None" using r by simp
  with create_and_attach_no_leak [OF r] r show ?thesis by (metis (no_types, lifting) zero_less_numeral)
qed

section \<open>Assigning addresses and prefixes\<close>

lemma OnError_final:
  assumes "run_state (OnError n retriable fn) s = (e, s')" "0 < n"
    and "\<And>s. R s (snd (run_state fn s))" "transp R" "reflp R"
  shows "\<exists>s0. R s s0 \<and> run_state fn s0 = (e, s')"
  using assms(1,2)
proof (induction n arbitrary: s)
  case (Suc n)
  obtain e1 s1 where f: "run_state fn s = (e1, s1)" by (metis surj_pair)
  show ?case
  proof (cases "\<exists>x. e1 = Some x \<and> retriable x \<and> n \<noteq> 0")
    case True
    then have "\<exists>s0. R s1 s0 \<and> run_state fn s0 = (e, s')" using Suc.prems(1) f by (intro Suc.IH) auto
    then obtain s0 where "R s1 s0" "run_state fn s0 = (e, s')" by blast
    then show ?thesis using assms(3) [of s] f transpD [OF assms(4)] by auto
  next
    case False
    then have "run_state fn s = (e, s')" using Suc.prems(1) f by (auto split: option.splits if_splits)
    then show ?thesis using reflpD [OF assms(5)] by blast
  qed
qed simp

lemma types_differ [simp]: "ResourceTypeIPv4Prefix \<noteq> ResourceTypeIPv4Address" "ResourceTypeIPv4Address \<noteq> ResourceNameIPAddress"
    "ResourceTypeIPv4Prefix \<noteq> ResourceNameIPAddress"
  by (simp_all add: ResourceTypeIPv4Prefix_def ResourceTypeIPv4Address_def ResourceNameIPAddress_def)

definition resources_of :: "string \<Rightarrow> assign_output \<Rightarrow> string list" where
  "resources_of ty out = (if ty = ResourceTypeIPv4Address then AssignedIps out else AssignedPrefixes out)"

definition shown_on :: "string \<Rightarrow> raw_interface \<Rightarrow> string list" where
  "shown_on ty w = (if ty = ResourceTypeIPv4Address then nil_list (RawIps w) else nil_list (RawPrefixes w))"

definition describe_one :: "string \<Rightarrow> describe_input" where
  "describe_one nid = \<lparr>DIds = [nid], DFilters = [], DToken = None\<rparr>"

lemma check_assigned_run:
  assumes "run_state (check_assigned sdk nid ty out) (h, xs) = (e, (h1, rs))"
  shows "h1 = DescribeEv (describe_one nid) (SdkDescribe sdk h (describe_one nid)) # h"
    and "rs \<noteq> [] \<Longrightarrow> \<exists>o1 w. SdkDescribe sdk h (describe_one nid) = Inr (Some o1) \<and> DInterfaces o1 = Some [w] \<and>
      rs = filter (\<lambda>r. r \<in> set (shown_on ty w)) (resources_of ty out) \<and> (e = None \<longrightarrow> rs = resources_of ty out)"
proof -
  note d = check_assigned_def DescribeNetworkInterfaces_def call_def describe_one_def
  show "h1 = DescribeEv (describe_one nid) (SdkDescribe sdk h (describe_one nid)) # h"
    using assms by (auto simp: d split: sum.splits option.splits list.splits if_splits prod.splits)
  assume "rs \<noteq> []"
  then show "\<exists>o1 w. SdkDescribe sdk h (describe_one nid) = Inr (Some o1) \<and> DInterfaces o1 = Some [w] \<and>
      rs = filter (\<lambda>r. r \<in> set (shown_on ty w)) (resources_of ty out) \<and> (e = None \<longrightarrow> rs = resources_of ty out)"
    using assms
    by (auto simp: d shown_on_def resources_of_def attached_def list_all_iff
        split: sum.splits option.splits list.splits if_splits prod.splits)
qed

text \<open>The addresses or prefixes that an assign call returns were assigned by EC2 in this call and were
  seen on the interface; when the call reports success and returns any, it returns all that EC2
  assigned.\<close>

theorem assign_returns_attached:
  assumes "ty = ResourceTypeIPv4Address \<or> ty = ResourceTypeIPv4Prefix" "rs \<noteq> []"
    and run: "run_state (AssignIPv4ResourcesAndWaitTillReady tries sdk nid ty cnt) h = ((rs, err), h')"
  shows "\<exists>evs out o1 w. h' = evs @ h \<and> AssignEv nid ty (Some cnt) (Inr (Some out)) \<in> set evs \<and>
    DescribeEv (describe_one nid) (Inr (Some o1)) \<in> set evs \<and> DInterfaces o1 = Some [w] \<and>
    rs = filter (\<lambda>r. r \<in> set (shown_on ty w)) (resources_of ty out) \<and> (err = None \<longrightarrow> rs = resources_of ty out)"
proof -
  let ?ev = "AssignEv nid ty (Some cnt) (SdkAssign sdk h nid ty (Some cnt))"
  obtain out where out: "SdkAssign sdk h nid ty (Some cnt) = Inr (Some out)"
      "run_state (OnError (tries waitForIPAttachment)
         (\<lambda>e. e = ErrIPNotAttachedYet \<or> e = ErrPrefixNotAttachedYet) (check_assigned sdk nid ty out)) (?ev # h, []) = (err, (h', rs))"
    using run assms(1,2)
    by (auto simp: AssignIPv4ResourcesAndWaitTillReady_def IntToInt32_def call_def
        split: option.splits sum.splits if_splits prod.splits)
  define R where "R a b \<longleftrightarrow> (\<exists>evs. fst b = evs @ fst a)" for a b :: "('a, 'b) trace \<times> string list"
  have pos: "0 < tries waitForIPAttachment"
    using out(2) assms(2) by (cases "tries waitForIPAttachment") auto
  have step: "R s (snd (run_state (check_assigned sdk nid ty out) s))" for s
    using check_assigned_run(1) [of sdk nid ty out "fst s" "snd s"] by (auto simp: R_def) (metis append_Cons append_Nil prod.collapse)
  have rel: "transp R" "reflp R" by (auto simp: R_def intro!: transpI reflpI)
  obtain s0 where s0: "R (?ev # h, []) s0" "run_state (check_assigned sdk nid ty out) s0 = (err, (h', rs))"
    using OnError_final [where R = R, OF out(2) pos step rel] by blast
  then obtain evs where e: "fst s0 = evs @ ?ev # h" by (auto simp: R_def)
  note c = check_assigned_run [of sdk nid ty out "fst s0" "snd s0" err h' rs, simplified, OF s0(2)]
  show ?thesis
    using c(1) c(2) [OF assms(2)] e out(1)
    by (intro exI [of _ "DescribeEv (describe_one nid) (SdkDescribe sdk (fst s0) (describe_one nid)) # evs @ [?ev]"] exI [of _ out]) auto
qed

theorem assign_returns_attached_witness:
  "\<exists>h'. run_state (AssignIPv4ResourcesAndWaitTillReady (\<lambda>b. 3) sample_sdk ''eni-1'' ResourceTypeIPv4Address 2) [] =
      (([''10.0.0.1'', ''10.0.0.2''], None), h') \<and>
     (\<exists>evs out. h' = evs @ [] \<and> AssignEv ''eni-1'' ResourceTypeIPv4Address (Some 2) (Inr (Some out)) \<in> set evs \<and>
        resources_of ResourceTypeIPv4Address out = [''10.0.0.1'', ''10.0.0.2''])"
proof -
  have "fst (run_state (AssignIPv4ResourcesAndWaitTillReady (\<lambda>b. 3) sample_sdk ''eni-1'' ResourceTypeIPv4Address 2) []) =
      ([''10.0.0.1'', ''10.0.0.2''], None)" by code_simp
  then obtain h' where r: "run_state (AssignIPv4ResourcesAndWaitTillReady (\<lambda>b. 3) sample_sdk ''eni-1'' ResourceTypeIPv4Address 2) [] =
      (([''10.0.0.1'', ''10.0.0.2''], None), h')" by (metis prod.collapse)
  show ?thesis using assign_returns_attached [OF disjI1 [OF refl] _ r] r by auto
qed

text \<open>The test for an answer without addresses compares the resource type with the resource name, so it never
  applies to addresses: when EC2 assigns nothing, the call succeeds with an empty list.\<close>

theorem empty_assignment_accepted:
  "fst (run_state (AssignIPv4ResourcesAndWaitTillReady (\<lambda>b. 3)
      (sample_sdk\<lparr>SdkAssign := (\<lambda>h n t c. Inr (Some \<lparr>AssignedIps = [], AssignedPrefixes = []\<rparr>))\<rparr>)
      ''eni-1'' ResourceTypeIPv4Address 2) []) = ([], None) \<and>
   snd (fst (run_state (AssignIPv4ResourcesAndWaitTillReady (\<lambda>b. 3)
      (sample_sdk\<lparr>SdkAssign := (\<lambda>h n t c. Inr (Some \<lparr>AssignedIps = [], AssignedPrefixes = []\<rparr>))\<rparr>)
      ''eni-1'' ResourceTypeIPv4Prefix 2) [])) = Some NothingAssigned"
  by code_simp

section \<open>Reading the pages\<close>

text \<open>EC2 answers the request and the requests with the tokens it returns by the given non-empty pages; the
  last page has no token.\<close>

fun paged :: "('n, 'i) ec2_sdk \<Rightarrow> describe_input \<Rightarrow> raw_interface list list \<Rightarrow> ('n, 'i) trace \<Rightarrow> bool" where
  "paged sdk input [] h = False"
| "paged sdk input (p # ps) h =
     (case SdkDescribe sdk h input of
        Inr (Some out) \<Rightarrow> DInterfaces out = Some p \<and> p \<noteq> [] \<and>
          (case DNextToken out of
             None \<Rightarrow> ps = []
           | Some tok \<Rightarrow> paged sdk (input\<lparr>DToken := Some tok\<rparr>) ps (DescribeEv input (Inr (Some out)) # h))
      | _ \<Rightarrow> False)"

lemma branch_pages_ok:
  "paged sdk input ps h \<Longrightarrow> \<exists>h'. branch_pages sdk input acc h = Some (Inr (acc @ map id_and_tags (concat ps)), h')"
proof (induction sdk input ps h arbitrary: acc rule: paged.induct)
  case (2 sdk input p ps h)
  then obtain out where out: "SdkDescribe sdk h input = Inr (Some out)" "DInterfaces out = Some p" "p \<noteq> []"
    by (auto split: sum.splits option.splits)
  show ?case
  proof (cases "DNextToken out")
    case None
    then show ?thesis using 2(2) out by (subst branch_pages.simps) (auto simp: nil_list_def)
  next
    case (Some tok)
    then have "paged sdk (input\<lparr>DToken := Some tok\<rparr>) ps (DescribeEv input (Inr (Some out)) # h)"
      using "2.prems" out by simp
    from "2.IH" [OF out(1) refl Some this, of "acc @ map id_and_tags p"]
    show ?thesis using out Some by (subst branch_pages.simps) (auto simp: nil_list_def)
  qed
qed simp

text \<open>C17. When EC2 answers in finitely many non-empty pages, the loop over the pages ends, and the branch
  interfaces of a trunk are all interfaces of all pages, in order, with their ids and tags.\<close>

theorem branch_interfaces_complete:
  assumes "paged sdk \<lparr>DIds = [], DFilters = branch_filters trunk subnet, DToken = None\<rparr> ps h"
  shows "\<exists>h'. GetBranchNetworkInterface sdk trunk subnet h = Some (Inr (map id_and_tags (concat ps)), h')"
  using branch_pages_ok [OF assms, of "[]"] by (simp add: GetBranchNetworkInterface_def)

definition paging_sdk :: "(unit, unit) ec2_sdk" where
  "paging_sdk = sample_sdk\<lparr>SdkDescribe := (\<lambda>h i. Inr (Some \<lparr>DInterfaces = Some [sample_raw],
     DNextToken = (if DToken i = None then Some ''next'' else None)\<rparr>))\<rparr>"

theorem branch_interfaces_complete_witness:
  "\<exists>h'. GetBranchNetworkInterface paging_sdk ''eni-trunk'' ''subnet'' [] =
     Some (Inr [id_and_tags sample_raw, id_and_tags sample_raw], h')"
  using branch_interfaces_complete [of paging_sdk "''eni-trunk''" "''subnet''" "[[sample_raw], [sample_raw]]" "[]"]
  by (simp add: paging_sdk_def sample_sdk_def)

end
