(* ===== verification/Node.thy ===== *)
theory Node
  imports Instance K8s_Env "HOL-Library.Sublist"
begin

text \<open>
  \<open>pkg/node/node.go\<close>: a node, its state and the initialisation, update and removal of its resources
  by the resource providers. The node's lock makes each operation one step.

  A provider is known to the node by the interface \<open>ResourceProvider\<close> of \<open>pkg/provider/provider.go\<close>. Here
  it is a record of functions whose answers may depend on all calls the node made before; the
  calls are kept in a log, latest first. \<open>GetResourceProviders\<close> returns a map: the order in which Go ranges
  over it is the order of the list. \<open>None\<close> is a panic.
\<close>

datatype provider_call = InitCall string | DeInitCall string | UpdateCall string

type_synonym provider_log = "provider_call list"

record resource_provider =
  ProviderName :: string
  IsInstanceSupported :: "ec2_instance \<Rightarrow> bool"
  InitResource :: "provider_log \<Rightarrow> hist \<Rightarrow> ec2_instance \<Rightarrow> ec2_instance \<times> hist \<times> string option"
  DeInitResource :: "provider_log \<Rightarrow> ec2_instance \<Rightarrow> string option"
  UpdateResourceCapacity :: "provider_log \<Rightarrow> hist \<Rightarrow> ec2_instance \<Rightarrow> hist \<times> string option"

text \<open>Times and durations are nanoseconds; the zero time is \<open>None\<close>.\<close>

record node_obj =
  ready :: bool
  managed :: bool
  node_instance :: ec2_instance
  nextReconciliationTime :: "int option"
  reconciliationInterval :: int

definition MaxNodeReconciliationInterval :: int where "MaxNodeReconciliationInterval = 15 * 60 * 10 ^ 9"
definition NodeInitialCleanupInterval :: int where "NodeInitialCleanupInterval = 60 * 10 ^ 9"
definition NodeUnsupportedInstanceTypeReason :: string where "NodeUnsupportedInstanceTypeReason = ''Unsupported''"

definition NewManagedNode :: "string \<Rightarrow> string \<Rightarrow> string \<Rightarrow> node_obj" where
  "NewManagedNode nodeName instID osName =
     \<lparr>ready = False, managed = True, node_instance = NewEC2Instance nodeName instID osName,
      nextReconciliationTime = None, reconciliationInterval = NodeInitialCleanupInterval\<rparr>"

definition NewUnManagedNode :: "string \<Rightarrow> string \<Rightarrow> string \<Rightarrow> node_obj" where
  "NewUnManagedNode nodeName instID osName =
     \<lparr>ready = False, managed = False, node_instance = NewEC2Instance nodeName instID osName,
      nextReconciliationTime = None, reconciliationInterval = 0\<rparr>"

datatype node_error =
    LoadFailed instance_error
  | InitFailed string
  | UpdateFailed "string list"
  | DeleteFailed "string list"

section \<open>Updating\<close>

fun update_loop ::
  "resource_provider list \<Rightarrow> ec2_instance \<Rightarrow> hist \<Rightarrow> provider_log \<Rightarrow> string list \<Rightarrow> hist \<times> provider_log \<times> string list" where
  "update_loop [] i h log errs = (h, log, errs)"
| "update_loop (p # ps) i h log errs =
     (if IsInstanceSupported p i then
        (case UpdateResourceCapacity p log h i of
           (h1, err) \<Rightarrow>
             update_loop ps i h1 (UpdateCall (ProviderName p) # log)
               (case err of None \<Rightarrow> errs | Some e \<Rightarrow> errs @ [e]))
      else update_loop ps i h log errs)"

text \<open>An error of the last step is only logged.\<close>

definition UpdateResources ::
  "ec2_api \<Rightarrow> resource_provider list \<Rightarrow> node_obj \<Rightarrow> hist \<Rightarrow> provider_log \<Rightarrow>
   node_obj \<times> hist \<times> provider_log \<times> node_error option" where
  "UpdateResources api ps n h log =
     (if \<not> ready n then (n, h, log, None)
      else
        (case update_loop ps (node_instance n) h log [] of
           (h1, log1, errs) \<Rightarrow>
             if errs \<noteq> [] then (n, h1, log1, Some (UpdateFailed errs))
             else
               (case UpdateCurrentSubnetAndCidrBlock api (node_instance n) h1 of
                  (i1, h2, err) \<Rightarrow> (n\<lparr>node_instance := i1\<rparr>, h2, log1, None))))"

section \<open>Initialising\<close>

text \<open>The loop over the providers stops at the first error; it returns the providers it has initialised.\<close>

fun init_loop ::
  "resource_provider list \<Rightarrow> ec2_instance \<Rightarrow> hist \<Rightarrow> provider_log \<Rightarrow> resource_provider list \<Rightarrow>
   ec2_instance \<times> hist \<times> provider_log \<times> resource_provider list \<times> string option" where
  "init_loop [] i h log done_ps = (i, h, log, done_ps, None)"
| "init_loop (p # ps) i h log done_ps =
     (if IsInstanceSupported p i then
        (case InitResource p log h i of
           (i1, h1, Some err) \<Rightarrow> (i1, h1, InitCall (ProviderName p) # log, done_ps, Some err)
         | (i1, h1, None) \<Rightarrow> init_loop ps i1 h1 (InitCall (ProviderName p) # log) (done_ps @ [p]))
      else init_loop ps i h log done_ps)"

text \<open>\<open>DeInitResource\<close> of all the given providers, whose errors are logged.\<close>

fun deinit_loop :: "resource_provider list \<Rightarrow> ec2_instance \<Rightarrow> provider_log \<Rightarrow> string list \<Rightarrow> provider_log \<times> string list" where
  "deinit_loop [] i log errs = (log, errs)"
| "deinit_loop (p # ps) i log errs =
     deinit_loop ps i (DeInitCall (ProviderName p) # log)
       (case DeInitResource p log i of None \<Rightarrow> errs | Some e \<Rightarrow> errs @ [e])"

definition InitResources ::
  "limits_table \<Rightarrow> ec2_api \<Rightarrow> k8s_api \<Rightarrow> resource_provider list \<Rightarrow> node_obj \<Rightarrow> hist \<Rightarrow> provider_log \<Rightarrow>
   (node_obj \<times> hist \<times> provider_log \<times> effect list \<times> node_error option) option" where
  "InitResources Limits api k8s ps n h log =
     (case LoadDetails Limits api (node_instance n) h of
        None \<Rightarrow> None
      | Some (i1, h1, Some err) \<Rightarrow>
          Some (n\<lparr>node_instance := i1\<rparr>, h1, log,
            (if err = UnsupportedInstanceType
             then SendNodeEventWithNodeName k8s (name i1) NodeUnsupportedInstanceTypeReason EventTypeWarning else []),
            Some (LoadFailed err))
      | Some (i1, h1, None) \<Rightarrow>
         (case init_loop ps i1 h1 log [] of
            (i2, h2, log2, initialized, Some err) \<Rightarrow>
              Some (n\<lparr>node_instance := i2\<rparr>, h2, fst (deinit_loop initialized i2 log2 []), [], Some (InitFailed err))
          | (i2, h2, log2, initialized, None) \<Rightarrow>
              Some (n\<lparr>node_instance := i2, ready := True\<rparr>, h2, log2, [], None)))"

section \<open>Removing\<close>

definition DeleteResources ::
  "resource_provider list \<Rightarrow> node_obj \<Rightarrow> provider_log \<Rightarrow> node_obj \<times> provider_log \<times> node_error option" where
  "DeleteResources ps n log =
     (case deinit_loop (filter (\<lambda>p. IsInstanceSupported p (node_instance n)) ps) (node_instance n) log [] of
        (log1, errs) \<Rightarrow> (n\<lparr>ready := False\<rparr>, log1, if errs \<noteq> [] then Some (DeleteFailed errs) else None))"

definition UpdateCustomNetworkingSpecs :: "string \<Rightarrow> string list \<Rightarrow> node_obj \<Rightarrow> node_obj" where
  "UpdateCustomNetworkingSpecs sn sgs n = n\<lparr>node_instance := SetNewCustomNetworkingSpec sn sgs (node_instance n)\<rparr>"

definition NodeIsNitroInstance :: "limits_table \<Rightarrow> node_obj \<Rightarrow> bool" where
  "NodeIsNitroInstance Limits n \<longleftrightarrow> IsNitroInstance Limits (instanceType (node_instance n)) = Some True"

section \<open>Properties\<close>

text \<open>The calls \<open>init_loop\<close> makes: one per provider it initialised, and one more for the provider that failed.\<close>

lemma init_loop_log:
  assumes "init_loop ps i h log done_ps = (i', h', log', done', err)"
  shows "\<exists>new. done' = done_ps @ new \<and> subseq new ps \<and>
    (err = None \<longrightarrow> log' = rev (map (\<lambda>p. InitCall (ProviderName p)) new) @ log) \<and>
    (err \<noteq> None \<longrightarrow> (\<exists>p \<in> set ps. log' = InitCall (ProviderName p) # rev (map (\<lambda>p. InitCall (ProviderName p)) new) @ log))"
  using assms
proof (induction ps i h log done_ps arbitrary: i' h' log' done' err rule: init_loop.induct)
  case (2 p ps i h log done_ps)
  show ?case
  proof (cases "IsInstanceSupported p i")
    case False
    then show ?thesis using 2 by (fastforce intro: subseq_Cons')
  next
    case True
    obtain i1 h1 e where ir: "InitResource p log h i = (i1, h1, e)" by (metis prod_cases3)
    show ?thesis
    proof (cases e)
      case None
      then obtain new where "done' = (done_ps @ [p]) @ new" "subseq new ps"
          "err = None \<longrightarrow> log' = rev (map (\<lambda>p. InitCall (ProviderName p)) new) @ InitCall (ProviderName p) # log"
          "err \<noteq> None \<longrightarrow> (\<exists>q \<in> set ps. log' = InitCall (ProviderName q) #
             rev (map (\<lambda>p. InitCall (ProviderName p)) new) @ InitCall (ProviderName p) # log)"
        using "2.IH"(1) [OF True ir [symmetric] refl None] "2.prems" True ir by fastforce
      then show ?thesis by (intro exI [of _ "p # new"]) auto
    next
      case (Some x)
      then show ?thesis using "2.prems" True ir by (intro exI [of _ "[]"]) auto
    qed
  qed
qed auto

lemma deinit_loop_log:
  "fst (deinit_loop ps i log errs) = rev (map (\<lambda>p. DeInitCall (ProviderName p)) ps) @ log"
  by (induction ps arbitrary: log errs) auto

text \<open>Whether a provider supports an instance depends on the operating system and the instance type, which no provider
  changes.\<close>

definition support_stable :: "resource_provider list \<Rightarrow> bool" where
  "support_stable ps \<longleftrightarrow> (\<forall>p \<in> set ps. \<forall>q \<in> set ps. \<forall>log h i.
     IsInstanceSupported q (fst (InitResource p log h i)) = IsInstanceSupported q i)"

lemma init_loop_supported:
  assumes "init_loop ps i h log done_ps = (i', h', log', done', None)" "support_stable qs" "set ps \<subseteq> set qs"
  shows "done' = done_ps @ filter (\<lambda>p. IsInstanceSupported p i) ps \<and>
    (\<forall>q \<in> set qs. IsInstanceSupported q i' = IsInstanceSupported q i)"
  using assms(1,3)
proof (induction ps i h log done_ps arbitrary: i' h' log' done' rule: init_loop.induct)
  case (2 p ps i h log done_ps)
  show ?case
  proof (cases "IsInstanceSupported p i")
    case False
    then show ?thesis using "2.IH"(2) [OF False] "2.prems" by simp
  next
    case True
    obtain i1 h1 where ir: "InitResource p log h i = (i1, h1, None)"
        "init_loop ps i1 h1 (InitCall (ProviderName p) # log) (done_ps @ [p]) = (i', h', log', done', None)"
      using "2.prems"(1) True by (auto split: prod.splits option.splits)
    have st: "IsInstanceSupported q i1 = IsInstanceSupported q i" if "q \<in> set qs" for q
      using assms(2) "2.prems"(2) that ir(1) unfolding support_stable_def by (metis fst_conv insert_subset list.simps(15))
    have "done' = (done_ps @ [p]) @ filter (\<lambda>p. IsInstanceSupported p i1) ps \<and>
        (\<forall>q \<in> set qs. IsInstanceSupported q i' = IsInstanceSupported q i1)"
      using "2.IH"(1) [OF True ir(1) [symmetric] refl refl ir(2)] "2.prems"(2) by simp
    moreover have "filter (\<lambda>p. IsInstanceSupported p i1) ps = filter (\<lambda>p. IsInstanceSupported p i) ps"
      using st "2.prems"(2) by (intro filter_cong) auto
    ultimately show ?thesis using True st by simp
  qed
qed auto

text \<open>C18. The resources of a node are initialised by all providers that support the node, or by none. On success
  exactly these providers have been called, in order, and the node is ready. When a
  provider fails, exactly the providers that had been initialised before it are de-initialised, each
  once, and the node does not become ready.\<close>

theorem node_init_all_or_nothing:
  assumes "InitResources Limits api k8s ps n h log = Some (n', h', log', effs, err)" "support_stable ps"
  shows "(err = None \<longrightarrow> ready n' \<and>
      log' = rev (map (\<lambda>p. InitCall (ProviderName p)) (filter (\<lambda>p. IsInstanceSupported p (node_instance n')) ps)) @ log) \<and>
    (err \<noteq> None \<longrightarrow> ready n' = ready n \<and> (log' = log \<or>
      (\<exists>new p. subseq new ps \<and> p \<in> set ps \<and> log' = rev (map (\<lambda>p. DeInitCall (ProviderName p)) new) @
         InitCall (ProviderName p) # rev (map (\<lambda>p. InitCall (ProviderName p)) new) @ log)))"
proof -
  obtain i1 h1 e where l: "LoadDetails Limits api (node_instance n) h = Some (i1, h1, e)"
    using assms(1) by (auto simp: InitResources_def split: option.splits)
  obtain i2 h2 log2 initialized e2 where il: "init_loop ps i1 h1 log [] = (i2, h2, log2, initialized, e2)" by (metis prod_cases5)
  obtain new where new: "initialized = new" "subseq new ps"
      "e2 = None \<longrightarrow> log2 = rev (map (\<lambda>p. InitCall (ProviderName p)) new) @ log"
      "e2 \<noteq> None \<longrightarrow> (\<exists>p \<in> set ps. log2 = InitCall (ProviderName p) # rev (map (\<lambda>p. InitCall (ProviderName p)) new) @ log)"
    using init_loop_log [OF il] by auto
  consider (load) x where "e = Some x" | (bad) x where "e = None" "e2 = Some x" | (ok) "e = None" "e2 = None"
    by (cases e; cases e2) auto
  then show ?thesis
  proof cases
    case load
    then show ?thesis using assms(1) l by (auto simp: InitResources_def)
  next
    case (bad x)
    then obtain p where "p \<in> set ps" "log2 = InitCall (ProviderName p) # rev (map (\<lambda>p. InitCall (ProviderName p)) new) @ log"
      using new(4) by auto
    moreover have "n' = n\<lparr>node_instance := i2\<rparr>" "log' = fst (deinit_loop new i2 log2 [])" "err \<noteq> None"
      using assms(1) l il bad new(1) by (auto simp: InitResources_def)
    ultimately show ?thesis using new(2) unfolding deinit_loop_log by auto
  next
    case ok
    have "initialized = filter (\<lambda>p. IsInstanceSupported p i1) ps" "\<forall>q \<in> set ps. IsInstanceSupported q i2 = IsInstanceSupported q i1"
      using init_loop_supported [OF il [unfolded ok] assms(2)] by auto
    moreover from this have "filter (\<lambda>p. IsInstanceSupported p i2) ps = filter (\<lambda>p. IsInstanceSupported p i1) ps"
      by (intro filter_cong) auto
    ultimately show ?thesis using assms(1) l il ok new(1,3) by (auto simp: InitResources_def)
  qed
qed

definition good_provider :: "string \<Rightarrow> resource_provider" where
  "good_provider n = \<lparr>ProviderName = n, IsInstanceSupported = (\<lambda>i. True), InitResource = (\<lambda>log h i. (i, h, None)),
     DeInitResource = (\<lambda>log i. None), UpdateResourceCapacity = (\<lambda>log h i. (h, None))\<rparr>"

definition bad_provider :: "string \<Rightarrow> resource_provider" where
  "bad_provider n = (good_provider n)\<lparr>InitResource := (\<lambda>log h i. (i, h, Some ''no trunk''))\<rparr>"

definition sample_node_api :: ec2_api where
  "sample_node_api = sample_api\<lparr>GetInstanceDetails := (\<lambda>h i. Inr (Some \<lparr>SubnetId = Some ''subnet-1'', InstanceType = ''a1.medium'',
     InstancePrivateIp = None, NetworkInterfaces = []\<rparr>))\<rparr>"

theorem node_init_all_or_nothing_witness:
  "\<exists>n' h' log' effs e. InitResources sample_limits sample_node_api sample_k8s [good_provider ''ip'', bad_provider ''eni'']
      (NewManagedNode ''node-1'' ''i-1'' ''linux'') [] [] = Some (n', h', log', effs, Some e) \<and>
     log' = [DeInitCall ''ip'', InitCall ''eni'', InitCall ''ip''] \<and> \<not> ready n'"
proof -
  let ?r = "InitResources sample_limits sample_node_api sample_k8s [good_provider ''ip'', bad_provider ''eni'']
      (NewManagedNode ''node-1'' ''i-1'' ''linux'') [] []"
  have "case ?r of None \<Rightarrow> False | Some (n', h', log', effs, err) \<Rightarrow> err = Some (InitFailed ''no trunk'') \<and>
      log' = [DeInitCall ''ip'', InitCall ''eni'', InitCall ''ip'']" by code_simp
  then obtain n' h' log' effs where r: "?r = Some (n', h', log', effs, Some (InitFailed ''no trunk''))"
      "log' = [DeInitCall ''ip'', InitCall ''eni'', InitCall ''ip'']" by (auto split: option.splits)
  have "support_stable [good_provider ''ip'', bad_provider ''eni'']"
    by (auto simp: support_stable_def good_provider_def bad_provider_def)
  from node_init_all_or_nothing [OF r(1) this] have "\<not> ready n'" by (simp add: NewManagedNode_def)
  then show ?thesis using r by blast
qed

end
