(* ===== verification/Node_Manager.thy ===== *)
theory Node_Manager
  imports Node
begin

text \<open>
  \<open>pkg/node/manager/manager.go\<close>: the data store of all nodes of the cluster, the events that change it and
  the jobs on the nodes. The data store and the jobs refer to the same node objects, so the objects
  live in a store and are referred to by their address, an index of the store. The manager's
  lock makes \<open>AddNode\<close>, \<open>UpdateNode\<close>, \<open>DeleteNode\<close> and \<open>removeNodeSafe\<close> one step each; the jobs run
  without it.

  What Kubernetes answers during one operation is the record \<open>node_k8s\<close>. A CNINode may be read several times in one
  operation, with different answers: the first argument of \<open>GetCNINode\<close> counts the reads. The health check is
  in \<open>Health_Checks\<close>.
\<close>

record k8s_node =
  KNodeName :: string
  KProviderID :: string
  KNodeLabels :: "(string, string) gomap"

type_synonym cni_feature = "string \<times> string"

record node_k8s =
  GetK8sNode :: "string \<Rightarrow> k8s_error + k8s_node"
  GetCNINode :: "nat \<Rightarrow> string \<Rightarrow> k8s_error + cni_feature list"
  CreateCNINode :: "string \<Rightarrow> string \<Rightarrow> string \<Rightarrow> k8s_error option"
  GetENIConfig :: "string \<Rightarrow> k8s_error + (string \<times> string list)"
  IsWindowsIPAMEnabled :: bool

definition HasTrunkAttachedLabel :: string where "HasTrunkAttachedLabel = ''vpc.amazonaws.com/has-trunk-attached''"
definition CustomNetworkingLabel :: string where "CustomNetworkingLabel = ''vpc.amazonaws.com/eniConfig''"
definition NodeLabelOS :: string where "NodeLabelOS = ''kubernetes.io/os''"
definition NodeLabelOSBeta :: string where "NodeLabelOSBeta = ''beta.kubernetes.io/os''"
definition SecurityGroupsForPods :: string where "SecurityGroupsForPods = ''SecurityGroupsForPods''"
definition CustomNetworking :: string where "CustomNetworking = ''CustomNetworking''"
definition EniConfigNameNotFoundReason :: string where "EniConfigNameNotFoundReason = ''EniConfigNameNotFound''"
definition VersionNotice :: string where "VersionNotice = ''ControllerVersionNotice''"

datatype AsyncOperation = Init | Update | Delete

datatype NodeUpdateStatus = ManagedToUnManaged | UnManagedToManaged | StillManaged | StillUnManaged

record AsyncOperationJob =
  job_op :: AsyncOperation
  job_node :: nat
  job_nodeName :: string

record node_manager =
  nodes :: "node_obj list"
  dataStore :: "(string, nat) gomap"
  stopHealthCheckAt :: "int option"

definition NewNodeManager :: node_manager where
  "NewNodeManager = \<lparr>nodes = [], dataStore = [], stopHealthCheckAt = None\<rparr>"

datatype manager_error =
    NodeNotInCache string
  | ManagerK8sError k8s_error
  | EniConfigNameNotFound string
  | EniConfigNotFound string k8s_error

definition GetNode :: "string \<Rightarrow> node_manager \<Rightarrow> nat option" where
  "GetNode nodeName m = mget (dataStore m) nodeName"

text \<open>A new object, with its address.\<close>

definition new_node :: "node_obj \<Rightarrow> node_manager \<Rightarrow> nat \<times> node_manager" where
  "new_node n m = (length (nodes m), m\<lparr>nodes := nodes m @ [n]\<rparr>)"

definition upd_obj :: "nat \<Rightarrow> (node_obj \<Rightarrow> node_obj) \<Rightarrow> node_manager \<Rightarrow> node_manager" where
  "upd_obj a f m = m\<lparr>nodes := (nodes m)[a := f (nodes m ! a)]\<rparr>"

section \<open>What the node objects of Kubernetes say\<close>

definition GetNodeInstanceID :: "k8s_node \<Rightarrow> string" where
  "GetNodeInstanceID n = (if KProviderID n \<noteq> '''' then last (Split (KProviderID n) (CHR ''/'')) else '''')"

definition GetNodeOS :: "k8s_node \<Rightarrow> string" where
  "GetNodeOS n =
     (let nodeOS = mgetd '''' (KNodeLabels n) NodeLabelOS
      in if nodeOS = '''' then mgetd '''' (KNodeLabels n) NodeLabelOSBeta else nodeOS)"

definition isWindowsNode :: "k8s_node \<Rightarrow> bool" where
  "isWindowsNode n =
     (case mget (KNodeLabels n) NodeLabelOS of
        Some nodeOS \<Rightarrow> nodeOS = OSWindows
      | None \<Rightarrow> (case mget (KNodeLabels n) NodeLabelOSBeta of Some nodeOS \<Rightarrow> nodeOS = OSWindows | None \<Rightarrow> False))"

text \<open>In the two functions on features the error of the inner scope is lost: they never return an error.\<close>

definition trunkEnabledInCNINode :: "node_k8s \<Rightarrow> nat \<Rightarrow> k8s_node \<Rightarrow> bool" where
  "trunkEnabledInCNINode k r n =
     (case GetCNINode k r (KNodeName n) of
        Inl err \<Rightarrow> False
      | Inr features \<Rightarrow> list_ex (\<lambda>(fname, v). fname = SecurityGroupsForPods) features)"

definition customNetworkEnabledInCNINode :: "node_k8s \<Rightarrow> nat \<Rightarrow> k8s_node \<Rightarrow> bool" where
  "customNetworkEnabledInCNINode k r n =
     (case GetCNINode k r (KNodeName n) of
        Inl err \<Rightarrow> False
      | Inr features \<Rightarrow> list_ex (\<lambda>(fname, v). fname = CustomNetworking) features)"

definition canAttachTrunk :: "node_k8s \<Rightarrow> nat \<Rightarrow> k8s_node \<Rightarrow> bool" where
  "canAttachTrunk k r n = (if mhas (KNodeLabels n) HasTrunkAttachedLabel then True else trunkEnabledInCNINode k r n)"

definition isSelectedForManagement :: "node_k8s \<Rightarrow> nat \<Rightarrow> k8s_node \<Rightarrow> bool" where
  "isSelectedForManagement k r n =
     (if GetNodeOS n = '''' \<or> GetNodeInstanceID n = '''' then False
      else if isWindowsNode n \<and> IsWindowsIPAMEnabled k then True
      else canAttachTrunk k r n)"

definition GetNodeUpdateStatus :: "node_k8s \<Rightarrow> nat \<Rightarrow> k8s_node \<Rightarrow> node_obj \<Rightarrow> NodeUpdateStatus" where
  "GetNodeUpdateStatus k r n cached =
     (let selected = isSelectedForManagement k r n in
      if selected \<and> \<not> managed cached then UnManagedToManaged
      else if \<not> selected \<and> managed cached then ManagedToUnManaged
      else if selected then StillManaged else StillUnManaged)"

fun find_eni_config_name :: "cni_feature list \<Rightarrow> string option" where
  "find_eni_config_name [] = None"
| "find_eni_config_name ((fname, v) # fs) =
     (if fname = CustomNetworking \<and> v \<noteq> '''' then Some v else find_eni_config_name fs)"

definition GetEniConfigName :: "node_k8s \<Rightarrow> nat \<Rightarrow> k8s_node \<Rightarrow> manager_error + string" where
  "GetEniConfigName k r n =
     (case GetCNINode k r (KNodeName n) of
        Inl err \<Rightarrow> Inl (ManagerK8sError err)
      | Inr features \<Rightarrow>
         (case find_eni_config_name features of
            Some v \<Rightarrow> Inr v
          | None \<Rightarrow> Inl (EniConfigNameNotFound (KNodeName n))))"

text \<open>The object \<open>a\<close> gets the custom subnet and security groups. An ENIConfig without a subnet changes nothing.\<close>

definition updateSubnetIfUsingENIConfig ::
  "node_k8s \<Rightarrow> nat \<Rightarrow> nat \<Rightarrow> k8s_node \<Rightarrow> node_manager \<Rightarrow> node_manager \<times> effect list \<times> manager_error option" where
  "updateSubnetIfUsingENIConfig k r a n m =
     (let label = mget (KNodeLabels n) CustomNetworkingLabel in
      if label \<noteq> None \<or> customNetworkEnabledInCNINode k r n then
        (case (case label of Some v \<Rightarrow> Inr v | None \<Rightarrow> GetEniConfigName k (Suc r) n) of
           Inl err \<Rightarrow>
             (m, (case err of EniConfigNameNotFound nm \<Rightarrow> [NodeEvent (KNodeName n) EniConfigNameNotFoundReason EventTypeWarning]
                  | _ \<Rightarrow> []), Some err)
         | Inr eniConfigName \<Rightarrow>
            (case GetENIConfig k eniConfigName of
               Inl err \<Rightarrow> (m, [], Some (EniConfigNotFound eniConfigName err))
             | Inr (sn, sgs) \<Rightarrow>
                 ((if sn \<noteq> '''' then upd_obj a (UpdateCustomNetworkingSpecs sn sgs) m else m), [], None)))
      else (upd_obj a (UpdateCustomNetworkingSpecs '''' []) m, [], None))"

section \<open>Node events\<close>

text \<open>The result of an event: the manager, the effects, the jobs that were submitted and an error.\<close>

type_synonym event_result = "node_manager \<times> effect list \<times> AsyncOperationJob list \<times> manager_error option"

definition CreateCNINodeIfNotExisting :: "node_k8s \<Rightarrow> string \<Rightarrow> k8s_node \<Rightarrow> manager_error option" where
  "CreateCNINodeIfNotExisting k clusterName n =
     (case GetCNINode k 0 (KNodeName n) of
        Inr features \<Rightarrow> None
      | Inl err \<Rightarrow>
          if is_K8sNotFound err then
            map_option ManagerK8sError (CreateCNINode k (KNodeName n) clusterName
              (case GetNodeID (KProviderID n) of Inl e \<Rightarrow> '''' | Inr nodeID \<Rightarrow> nodeID))
          else Some (ManagerK8sError err))"

definition AddNode :: "node_k8s \<Rightarrow> string \<Rightarrow> string \<Rightarrow> node_manager \<Rightarrow> event_result" where
  "AddNode k clusterName nodeName m =
     (case GetK8sNode k nodeName of
        Inl err \<Rightarrow> (m, [], [], Some (NodeNotInCache nodeName))
      | Inr n \<Rightarrow>
          if mhas (dataStore m) (KNodeName n) then (m, [], [], None)
          else
            (case CreateCNINodeIfNotExisting k clusterName n of
               Some err \<Rightarrow> (m, [], [], Some err)
             | None \<Rightarrow>
                 if isSelectedForManagement k 1 n then
                   (case new_node (NewManagedNode (KNodeName n) (GetNodeInstanceID n) (GetNodeOS n)) m of
                      (a, m1) \<Rightarrow>
                        (case updateSubnetIfUsingENIConfig k 2 a n m1 of
                           (m2, effs, Some err) \<Rightarrow> (m2, effs, [], Some err)
                         | (m2, effs, None) \<Rightarrow>
                             (m2\<lparr>dataStore := mput (dataStore m2) (KNodeName n) a\<rparr>, effs,
                              [\<lparr>job_op = Init, job_node = a, job_nodeName = nodeName\<rparr>], None)))
                 else
                   (case new_node (NewUnManagedNode (KNodeName n) (GetNodeInstanceID n) (GetNodeOS n)) m of
                      (a, m1) \<Rightarrow> (m1\<lparr>dataStore := mput (dataStore m1) (KNodeName n) a\<rparr>, [], [], None))))"

definition UpdateNode :: "node_k8s \<Rightarrow> string \<Rightarrow> node_manager \<Rightarrow> event_result" where
  "UpdateNode k nodeName m =
     (case GetK8sNode k nodeName of
        Inl err \<Rightarrow> (m, [], [], Some (NodeNotInCache nodeName))
      | Inr n \<Rightarrow>
         (case mget (dataStore m) nodeName of
            None \<Rightarrow> (m, [], [], None)
          | Some a \<Rightarrow>
             (case GetNodeUpdateStatus k 0 n (nodes m ! a) of
                UnManagedToManaged \<Rightarrow>
                  (case new_node (NewManagedNode (KNodeName n) (GetNodeInstanceID n) (GetNodeOS n)) m of
                     (b, m1) \<Rightarrow>
                       (case updateSubnetIfUsingENIConfig k 1 b n m1 of
                          (m2, effs, Some err) \<Rightarrow> (m2, effs, [], Some err)
                        | (m2, effs, None) \<Rightarrow>
                            (m2\<lparr>dataStore := mput (dataStore m2) nodeName b\<rparr>, effs,
                             [\<lparr>job_op = Init, job_node = b, job_nodeName = nodeName\<rparr>], None)))
              | ManagedToUnManaged \<Rightarrow>
                  (case new_node (NewUnManagedNode (KNodeName n) (GetNodeInstanceID n) (GetNodeOS n)) m of
                     (b, m1) \<Rightarrow>
                       (m1\<lparr>dataStore := mput (dataStore m1) nodeName b\<rparr>, [],
                        [\<lparr>job_op = Delete, job_node = a, job_nodeName = nodeName\<rparr>], None))
              | StillManaged \<Rightarrow>
                  (case updateSubnetIfUsingENIConfig k 1 a n m of
                     (m1, effs, Some err) \<Rightarrow> (m1, effs, [], Some err)
                   | (m1, effs, None) \<Rightarrow> (m1, effs, [\<lparr>job_op = Update, job_node = a, job_nodeName = nodeName\<rparr>], None))
              | StillUnManaged \<Rightarrow> (m, [], [], None))))"

definition DeleteNode :: "string \<Rightarrow> node_manager \<Rightarrow> event_result" where
  "DeleteNode nodeName m =
     (case mget (dataStore m) nodeName of
        None \<Rightarrow> (m, [], [], None)
      | Some a \<Rightarrow>
         (let m1 = m\<lparr>dataStore := mdel (dataStore m) nodeName\<rparr> in
          if \<not> managed (nodes m ! a) then (m1, [], [], None)
          else (m1, [], [\<lparr>job_op = Delete, job_node = a, job_nodeName = nodeName\<rparr>], None)))"

section \<open>Jobs\<close>

definition removeNodeSafe :: "string \<Rightarrow> node_manager \<Rightarrow> node_manager" where
  "removeNodeSafe nodeName m = m\<lparr>dataStore := mdel (dataStore m) nodeName\<rparr>"

definition pausingHealthCheckDuration :: int where "pausingHealthCheckDuration = 10 * 60 * 10 ^ 9"

definition SkipHealthCheck :: "int \<Rightarrow> node_manager \<Rightarrow> bool" where
  "SkipHealthCheck now m = (case stopHealthCheckAt m of None \<Rightarrow> False | Some t \<Rightarrow> now - t < pausingHealthCheckDuration)"

definition setStopHealthCheck :: "int \<Rightarrow> node_manager \<Rightarrow> node_manager" where
  "setStopHealthCheck now m = m\<lparr>stopHealthCheckAt := Some now\<rparr>"

definition PauseHealthCheckErrors :: "string list" where "PauseHealthCheckErrors = [''RequestLimitExceeded'']"

definition pauseHealthCheckOnError :: "string \<Rightarrow> bool" where
  "pauseHealthCheckOnError err = list_ex (\<lambda>e. Contains err e) PauseHealthCheckErrors"

text \<open>The text of an error is the argument \<open>err_text\<close>. A job that is not an \<open>AsyncOperationJob\<close> is \<open>None\<close>. The update
  that follows an initialisation is the same function, called again with the operation changed.\<close>

definition perform_update ::
  "ec2_api \<Rightarrow> resource_provider list \<Rightarrow> nat \<Rightarrow> node_manager \<Rightarrow> hist \<Rightarrow> provider_log \<Rightarrow> node_manager \<times> hist \<times> provider_log" where
  "perform_update api ps a m h log =
     (case UpdateResources api ps (nodes m ! a) h log of
        (n, h1, log1, err) \<Rightarrow> (upd_obj a (\<lambda>_. n) m, h1, log1))"

definition performAsyncOperation ::
  "limits_table \<Rightarrow> ec2_api \<Rightarrow> k8s_api \<Rightarrow> (node_error \<Rightarrow> string) \<Rightarrow> int \<Rightarrow> resource_provider list \<Rightarrow> AsyncOperationJob option \<Rightarrow>
   node_manager \<Rightarrow> hist \<Rightarrow> provider_log \<Rightarrow> (node_manager \<times> hist \<times> provider_log \<times> effect list \<times> ctrl_result) option" where
  "performAsyncOperation Limits api k8s err_text now ps job m h log =
     (case job of
        None \<Rightarrow> Some (m, h, log, [], no_requeue)
      | Some j \<Rightarrow>
         (case job_op j of
            Init \<Rightarrow>
              (let effs = SendNodeEventWithNodeName k8s (job_nodeName j) VersionNotice EventTypeNormal in
               case InitResources Limits api k8s ps (nodes m ! job_node j) h log of
                 None \<Rightarrow> None
               | Some (n, h1, log1, effs1, Some err) \<Rightarrow>
                   (let m1 = upd_obj (job_node j) (\<lambda>_. n) m;
                        m2 = (if pauseHealthCheckOnError (err_text err) \<and> \<not> SkipHealthCheck now m1
                              then setStopHealthCheck now m1 else m1)
                    in Some (removeNodeSafe (job_nodeName j) m2, h1, log1, effs @ effs1, no_requeue))
               | Some (n, h1, log1, effs1, None) \<Rightarrow>
                   (case perform_update api ps (job_node j) (upd_obj (job_node j) (\<lambda>_. n) m) h1 log1 of
                      (m2, h2, log2) \<Rightarrow> Some (m2, h2, log2, effs @ effs1, no_requeue)))
          | Update \<Rightarrow>
              (case perform_update api ps (job_node j) m h log of
                 (m1, h1, log1) \<Rightarrow> Some (m1, h1, log1, [], no_requeue))
          | Delete \<Rightarrow>
              (case DeleteResources ps (nodes m ! job_node j) log of
                 (n, log1, err) \<Rightarrow> Some (upd_obj (job_node j) (\<lambda>_. n) m, h, log1, [], no_requeue))))"

section \<open>Reconciliation of leaked interfaces\<close>

text \<open>\<open>wait.Jitter\<close> is the argument \<open>jitter\<close>; \<open>provider\<close> is the reconciliation of the branch provider, if there is one.
  \<open>now\<close> and \<open>later\<close> are the readings of the clock.\<close>

definition CheckNodeForLeakedENIs ::
  "(int \<Rightarrow> int \<Rightarrow> int) \<Rightarrow> int \<Rightarrow> int \<Rightarrow> (string \<Rightarrow> bool) option \<Rightarrow> string \<Rightarrow> node_manager \<Rightarrow> node_manager" where
  "CheckNodeForLeakedENIs jitter now later provider nodeName m =
     (case GetNode nodeName m of
        None \<Rightarrow> m
      | Some a \<Rightarrow>
          if \<not> managed (nodes m ! a) then m
          else if (case nextReconciliationTime (nodes m ! a) of None \<Rightarrow> True | Some t \<Rightarrow> now > t) then
            (case provider of
               None \<Rightarrow> m
             | Some reconcile \<Rightarrow>
                (let interval = (if reconcile nodeName then NodeInitialCleanupInterval
                       else min (jitter (reconciliationInterval (nodes m ! a)) 5) MaxNodeReconciliationInterval)
                 in upd_obj a (\<lambda>n. n\<lparr>reconciliationInterval := interval, nextReconciliationTime := Some (later + interval)\<rparr>) m))
          else m)"

end
