(* ===== verification/Node_System.thy ===== *)
theory Node_System
  imports Node_Manager
begin

text \<open>
  The node manager with its jobs: node events and jobs interleave in any order, as the jobs are taken by
  several workers. The invariant relates the data store, the node objects and the jobs that were
  submitted for each object.
\<close>

section \<open>The machine\<close>

text \<open>\<open>submitted\<close> is the history of all jobs, \<open>waiting\<close> those that have not run, and \<open>removals\<close> the names whose initialisation
  has failed but which the worker has not yet removed from the data store.\<close>

record node_sys =
  mgr :: node_manager
  submitted :: "AsyncOperationJob list"
  waiting :: "AsyncOperationJob list"
  removals :: "string list"

definition submit :: "AsyncOperationJob list \<Rightarrow> node_manager \<Rightarrow> node_sys \<Rightarrow> node_sys" where
  "submit js m s = s\<lparr>mgr := m, submitted := submitted s @ js, waiting := waiting s @ js\<rparr>"

text \<open>The API server returns the node that was asked for.\<close>

definition names_ok :: "node_k8s \<Rightarrow> bool" where
  "names_ok k \<longleftrightarrow> (\<forall>x n. GetK8sNode k x = Inr n \<longrightarrow> KNodeName n = x)"

inductive node_step :: "node_sys \<Rightarrow> node_sys \<Rightarrow> bool" where
  add: "names_ok k \<Longrightarrow> AddNode k cn x (mgr s) = (m, effs, js, e) \<Longrightarrow> node_step s (submit js m s)"
| update: "names_ok k \<Longrightarrow> UpdateNode k x (mgr s) = (m, effs, js, e) \<Longrightarrow> node_step s (submit js m s)"
| delete: "DeleteNode x (mgr s) = (m, effs, js, e) \<Longrightarrow> node_step s (submit js m s)"
| init_ok: "j \<in> set (waiting s) \<Longrightarrow> job_op j = Init \<Longrightarrow>
    InitResources Limits api k8s ps (nodes (mgr s) ! job_node j) h log = Some (n, h', log', effs, None) \<Longrightarrow>
    perform_update api ps (job_node j) (upd_obj (job_node j) (\<lambda>_. n) (mgr s)) h' log' = (m, h2, log2) \<Longrightarrow>
    node_step s (s\<lparr>mgr := m, waiting := remove1 j (waiting s)\<rparr>)"
| init_failed: "j \<in> set (waiting s) \<Longrightarrow> job_op j = Init \<Longrightarrow>
    InitResources Limits api k8s ps (nodes (mgr s) ! job_node j) h log = Some (n, h', log', effs, Some err) \<Longrightarrow>
    node_step s (s\<lparr>mgr := upd_obj (job_node j) (\<lambda>_. n) (mgr s), waiting := remove1 j (waiting s),
      removals := job_nodeName j # removals s\<rparr>)"
| removed: "x \<in> set (removals s) \<Longrightarrow> node_step s (s\<lparr>mgr := removeNodeSafe x (mgr s), removals := remove1 x (removals s)\<rparr>)"
| updated: "j \<in> set (waiting s) \<Longrightarrow> job_op j = Update \<Longrightarrow>
    perform_update api ps (job_node j) (mgr s) h log = (m, h', log') \<Longrightarrow>
    node_step s (s\<lparr>mgr := m, waiting := remove1 j (waiting s)\<rparr>)"
| deleted: "j \<in> set (waiting s) \<Longrightarrow> job_op j = Delete \<Longrightarrow> DeleteResources ps (nodes (mgr s) ! job_node j) log = (n, log', err) \<Longrightarrow>
    node_step s (s\<lparr>mgr := upd_obj (job_node j) (\<lambda>_. n) (mgr s), waiting := remove1 j (waiting s)\<rparr>)"
| health: "node_step s (s\<lparr>mgr := setStopHealthCheck now (mgr s)\<rparr>)"
| check_leaks: "node_step s (s\<lparr>mgr := CheckNodeForLeakedENIs jitter now later provider x (mgr s)\<rparr>)"

definition node_start :: node_sys where
  "node_start = \<lparr>mgr = NewNodeManager, submitted = [], waiting = [], removals = []\<rparr>"

abbreviation node_reachable :: "node_sys \<Rightarrow> bool" where
  "node_reachable \<equiv> reachable (\<lambda>s. s = node_start) node_step"

section \<open>Node objects\<close>

text \<open>Operations that keep the flags of all objects and the data store.\<close>

definition same_flags :: "node_manager \<Rightarrow> node_manager \<Rightarrow> bool" where
  "same_flags m m' \<longleftrightarrow> length (nodes m') = length (nodes m) \<and> dataStore m' = dataStore m \<and>
     (\<forall>b < length (nodes m). managed (nodes m' ! b) = managed (nodes m ! b) \<and> ready (nodes m' ! b) = ready (nodes m ! b))"

lemma same_flags_refl [simp]: "same_flags m m"
  by (simp add: same_flags_def)

lemma upd_obj_flags:
  assumes "\<And>n. managed (f n) = managed n" "\<And>n. ready (f n) = ready n"
  shows "same_flags m (upd_obj a f m)"
  using assms
  by (cases "a < length (nodes m)") (auto simp: same_flags_def upd_obj_def nth_list_update list_update_beyond)

lemma specs_flags: "same_flags m (upd_obj a (UpdateCustomNetworkingSpecs sn sgs) m)"
  by (rule upd_obj_flags) (simp_all add: UpdateCustomNetworkingSpecs_def)

lemma update_subnet_flags: "updateSubnetIfUsingENIConfig k r a n m = (m', effs, e) \<Longrightarrow> same_flags m m'"
  by (auto simp: updateSubnetIfUsingENIConfig_def Let_def specs_flags split: if_splits sum.splits option.splits prod.splits)

lemma check_leaks_flags: "same_flags m (CheckNodeForLeakedENIs jitter now later provider x m)"
  by (auto simp: CheckNodeForLeakedENIs_def Let_def split: option.splits intro!: upd_obj_flags)

lemma UpdateResources_flags: "UpdateResources api ps n h log = (n', h', log', e) \<Longrightarrow> managed n' = managed n \<and> ready n' = ready n"
  by (auto simp: UpdateResources_def split: if_splits prod.splits)

lemma InitResources_flags:
  "InitResources Limits api k8s ps n h log = Some (n', h', log', effs, e) \<Longrightarrow>
   managed n' = managed n \<and> (ready n' \<longrightarrow> ready n \<or> e = None)"
  by (auto simp: InitResources_def split: option.splits prod.splits)

section \<open>The invariant\<close>

definition ops_of :: "nat \<Rightarrow> AsyncOperationJob list \<Rightarrow> AsyncOperation list" where
  "ops_of a js = map job_op (filter (\<lambda>j. job_node j = a) js)"

lemma ops_of_append [simp]: "ops_of a (js @ js') = ops_of a js @ ops_of a js'"
  by (simp add: ops_of_def)

lemma ops_of_single: "ops_of a [\<lparr>job_op = op1, job_node = b, job_nodeName = x\<rparr>] = (if a = b then [op1] else [])"
  by (simp add: ops_of_def)

text \<open>The jobs of an object that is alive, and of an object of which the manager has let go.\<close>

definition alive :: "AsyncOperation list \<Rightarrow> bool" where
  "alive ops \<longleftrightarrow> (\<exists>k. ops = Init # replicate k Update)"

definition ended :: "AsyncOperation list \<Rightarrow> bool" where
  "ended ops \<longleftrightarrow> ops = [] \<or> (\<exists>k. ops = Init # replicate k Update @ [Delete])"

lemma ended_Nil [simp]: "ended []"
  by (simp add: ended_def)

lemma alive_update: "alive ops \<Longrightarrow> alive (ops @ [Update])"
  by (auto simp: alive_def replicate_append_same intro: exI [of _ "Suc _"])

lemma alive_delete: "alive ops \<Longrightarrow> ended (ops @ [Delete])"
  by (auto simp: alive_def ended_def)

definition obj_ok :: "bool \<Rightarrow> node_obj \<Rightarrow> AsyncOperation list \<Rightarrow> bool" where
  "obj_ok stored n ops \<longleftrightarrow>
     (if stored then if managed n then alive ops else ops = [] else alive ops \<or> ended ops) \<and>
     (ops \<noteq> [] \<longrightarrow> managed n) \<and> (ready n \<longrightarrow> managed n)"

definition store_ok :: "node_manager \<Rightarrow> AsyncOperationJob list \<Rightarrow> bool" where
  "store_ok m js \<longleftrightarrow> wf_map (dataStore m) \<and> distinct (mvals (dataStore m)) \<and>
     (\<forall>a \<in> set (mvals (dataStore m)). a < length (nodes m)) \<and>
     (\<forall>a < length (nodes m). obj_ok (a \<in> set (mvals (dataStore m))) (nodes m ! a) (ops_of a js)) \<and>
     (\<forall>j \<in> set js. job_node j < length (nodes m))"

definition node_sys_inv :: "node_sys \<Rightarrow> bool" where
  "node_sys_inv s \<longleftrightarrow> store_ok (mgr s) (submitted s) \<and> set (waiting s) \<subseteq> set (submitted s)"

lemma start_inv: "node_sys_inv node_start"
  by (simp add: node_sys_inv_def node_start_def NewNodeManager_def store_ok_def mvals_def)

lemma obj_ok_cong: "managed n' = managed n \<Longrightarrow> ready n' = ready n \<Longrightarrow> obj_ok st n' ops = obj_ok st n ops"
  by (simp add: obj_ok_def)

lemma store_ok_flags:
  assumes "store_ok m js" "same_flags m m'"
  shows "store_ok m' js"
proof -
  have "obj_ok (a \<in> set (mvals (dataStore m))) (nodes m' ! a) (ops_of a js)" if "a < length (nodes m)" for a
    using assms that obj_ok_cong [of "nodes m' ! a" "nodes m ! a"] by (simp add: store_ok_def same_flags_def)
  then show ?thesis using assms by (auto simp: store_ok_def same_flags_def)
qed

lemma mvals_del:
  assumes "wf_map m" "distinct (mvals m)"
  shows "distinct (mvals (mdel m x))" "set (mvals (mdel m x)) = set (mvals m) - set_option (mget m x)"
proof -
  have "distinct (mvals (mdel m x)) \<and> set (mvals (mdel m x)) = set (mvals m) - set_option (mget m x)"
  proof (cases "mget m x")
    case None
    then show ?thesis using assms by (simp add: mdel_absent mkeys_mget)
  next
    case (Some b)
    have eq: "mset (mvals m) = mset (b # mvals (mdel m x))" using mset_mvals_split [OF assms(1) Some] by simp
    have "distinct (b # mvals (mdel m x))" using assms(2) eq distinct_mset_eq by metis
    then show ?thesis using Some mset_eq_setD [OF eq] by auto
  qed
  then show "distinct (mvals (mdel m x))" "set (mvals (mdel m x)) = set (mvals m) - set_option (mget m x)" by simp_all
qed

lemma mvals_put:
  assumes "wf_map m" "distinct (mvals m)" "a \<notin> set (mvals m)"
  shows "distinct (mvals (mput m x a))" "set (mvals (mput m x a)) = insert a (set (mvals m) - set_option (mget m x))"
proof -
  have eq: "mset (mvals (mput m x a)) = mset (a # mvals (mdel m x))" using mset_mvals_mput [OF assms(1)] by simp
  have "distinct (a # mvals (mdel m x))" using mvals_del [OF assms(1,2), of x] assms(3) by auto
  then show "distinct (mvals (mput m x a))" using eq distinct_mset_eq by metis
  show "set (mvals (mput m x a)) = insert a (set (mvals m) - set_option (mget m x))"
    using mset_eq_setD [OF eq] mvals_del [OF assms(1,2), of x] by simp
qed

section \<open>Every step keeps the invariant\<close>

text \<open>An object that is let go keeps its jobs, or gets a last job that deletes its resources.\<close>

lemma obj_ok_drop: "obj_ok st n ops \<Longrightarrow> obj_ok False n ops"
  by (cases st; cases "managed n") (auto simp: obj_ok_def)

lemma obj_ok_delete: "obj_ok True n ops \<Longrightarrow> managed n \<Longrightarrow> obj_ok False n (ops @ [Delete])"
  by (simp add: obj_ok_def alive_delete)

lemma obj_ok_update: "obj_ok True n ops \<Longrightarrow> managed n \<Longrightarrow> obj_ok True n (ops @ [Update])"
  by (simp add: obj_ok_def alive_update)

lemma obj_ok_new: "\<not> ready n \<Longrightarrow> obj_ok False n []" "\<not> ready n \<Longrightarrow> managed n \<Longrightarrow> obj_ok True n [Init]"
    "\<not> ready n \<Longrightarrow> \<not> managed n \<Longrightarrow> obj_ok True n []"
  by (auto simp: obj_ok_def ended_def alive_def intro: exI [of _ 0])

lemma ops_of_none: "\<forall>j \<in> set js. job_node j < len \<Longrightarrow> ops_of len js = []"
  by (auto simp: ops_of_def filter_empty_conv)

lemma store_ok_remove:
  assumes "store_ok m js"
  shows "store_ok (m\<lparr>dataStore := mdel (dataStore m) x\<rparr>) js"
proof -
  have "obj_ok (a \<in> set (mvals (mdel (dataStore m) x))) (nodes m ! a) (ops_of a js)" if "a < length (nodes m)" for a
    using assms that mvals_del(2) [of "dataStore m" x] obj_ok_drop
    by (cases "a \<in> set (mvals (mdel (dataStore m) x))") (auto simp: store_ok_def)
  then show ?thesis using assms mvals_del [of "dataStore m" x] by (auto simp: store_ok_def)
qed

text \<open>A new object \<open>n\<close> takes the name \<open>x\<close>; the jobs \<open>js'\<close> are for the new object and for the one that had the name.\<close>

lemma store_ok_put:
  assumes ok: "store_ok m js" and n: "\<not> ready n"
    and m': "length (nodes m') = Suc (length (nodes m))" "same_flags (m\<lparr>nodes := nodes m @ [n]\<rparr>) m'"
    and js': "ops_of (length (nodes m)) js' = (if managed n then [Init] else [])"
      "\<And>b. b < length (nodes m) \<Longrightarrow> ops_of b js' =
         (if mget (dataStore m) x = Some b \<and> managed (nodes m ! b) \<and> \<not> managed n then [Delete] else [])"
      "\<forall>j \<in> set js'. job_node j \<le> length (nodes m)"
  shows "store_ok (m'\<lparr>dataStore := mput (dataStore m') x (length (nodes m))\<rparr>) (js @ js')"
proof -
  let ?a = "length (nodes m)" and ?ds = "mput (dataStore m) x (length (nodes m))"
  have base: "wf_map (dataStore m)" "distinct (mvals (dataStore m))" "?a \<notin> set (mvals (dataStore m))"
      "\<forall>j \<in> set js. job_node j < ?a"
    using ok by (auto simp: store_ok_def)
  note ds = mvals_put [OF base(1-3), of x]
  have flags: "managed (nodes m' ! b) = managed ((nodes m @ [n]) ! b)" "ready (nodes m' ! b) = ready ((nodes m @ [n]) ! b)"
      if "b < Suc ?a" for b
    using m' that by (auto simp: same_flags_def)
  have "obj_ok (b \<in> set (mvals ?ds)) ((nodes m @ [n]) ! b) (ops_of b (js @ js'))" if b: "b < Suc ?a" for b
  proof (cases "b = ?a")
    case True
    then show ?thesis using ds js'(1) n obj_ok_new [of n] ops_of_none [OF base(4)] by simp
  next
    case False
    then have b': "b < ?a" using b by simp
    have old: "obj_ok (b \<in> set (mvals (dataStore m))) (nodes m ! b) (ops_of b js)" using ok b' by (simp add: store_ok_def)
    have mem: "mget (dataStore m) x = Some b \<Longrightarrow> b \<in> set (mvals (dataStore m))"
      using mset_mvals_split [OF base(1)] by (metis mset_eq_setD insertI1 set_mset_add_mset_insert set_mset_mset)
    show ?thesis
    proof (cases "mget (dataStore m) x = Some b")
      case True
      then show ?thesis
        using b' ds js'(2) [OF b'] old mem obj_ok_drop [OF old] obj_ok_delete [of "nodes m ! b" "ops_of b js"]
        by (auto simp: nth_append)
    next
      case False
      then show ?thesis using b' ds js'(2) [OF b'] old by (auto simp: nth_append)
    qed
  qed
  then have "\<forall>b < Suc ?a. obj_ok (b \<in> set (mvals ?ds)) (nodes m' ! b) (ops_of b (js @ js'))"
    using flags obj_ok_cong by metis
  moreover have "dataStore m' = dataStore m" using m'(2) by (simp add: same_flags_def)
  ultimately show ?thesis
    using ds base js'(3) m'(1) ok by (auto simp: store_ok_def less_Suc_eq le_less)
qed

text \<open>A new object that is not stored.\<close>

lemma store_ok_garbage:
  assumes "store_ok m js" "\<not> ready n"
  shows "store_ok (m\<lparr>nodes := nodes m @ [n]\<rparr>) js"
  using assms obj_ok_new(1) [OF assms(2)] ops_of_none [of js "length (nodes m)"]
  by (auto simp: store_ok_def nth_append less_Suc_eq)

lemma store_ok_update:
  assumes ok: "store_ok m js" and a: "a \<in> set (mvals (dataStore m))" "managed (nodes m ! a)"
  shows "store_ok m (js @ [\<lparr>job_op = Update, job_node = a, job_nodeName = x\<rparr>])"
proof -
  have "obj_ok (b \<in> set (mvals (dataStore m))) (nodes m ! b) (ops_of b (js @ [\<lparr>job_op = Update, job_node = a, job_nodeName = x\<rparr>]))"
    if b: "b < length (nodes m)" for b
  proof (cases "b = a")
    case True
    then show ?thesis using ok a b obj_ok_update [of "nodes m ! a" "ops_of a js"] by (auto simp: store_ok_def ops_of_single)
  next
    case False
    then show ?thesis using ok b by (simp add: store_ok_def ops_of_single)
  qed
  then show ?thesis using ok a by (auto simp: store_ok_def)
qed

lemma store_ok_AddNode:
  assumes ok: "store_ok m js" and run: "names_ok k" "AddNode k cn x m = (m', effs, js', e)"
  shows "store_ok m' (js @ js')"
proof (cases "\<exists>n. GetK8sNode k x = Inr n \<and> \<not> mhas (dataStore m) (KNodeName n) \<and> CreateCNINodeIfNotExisting k cn n = None")
  case False
  then have "m' = m \<and> js' = []" using run(2) by (auto simp: AddNode_def split: sum.splits if_splits option.splits)
  then show ?thesis using ok by simp
next
  case True
  then obtain n where n: "GetK8sNode k x = Inr n" "\<not> mhas (dataStore m) (KNodeName n)" "CreateCNINodeIfNotExisting k cn n = None"
    by blast
  have x: "KNodeName n = x" "mget (dataStore m) x = None"
    using n run(1) by (auto simp: names_ok_def mhas_def mkeys_mget)
  let ?a = "length (nodes m)"
  show ?thesis
  proof (cases "isSelectedForManagement k 1 n")
    case True
    let ?n = "NewManagedNode x (GetNodeInstanceID n) (GetNodeOS n)"
    let ?m1 = "m\<lparr>nodes := nodes m @ [?n]\<rparr>"
    obtain m2 effs2 e2 where u: "updateSubnetIfUsingENIConfig k 2 ?a n ?m1 = (m2, effs2, e2)" by (metis prod_cases3)
    note f = update_subnet_flags [OF u]
    have l: "length (nodes m2) = Suc ?a" using f by (simp add: same_flags_def)
    show ?thesis
    proof (cases e2)
      case None
      then have "m' = m2\<lparr>dataStore := mput (dataStore m2) x ?a\<rparr>" "js' = [\<lparr>job_op = Init, job_node = ?a, job_nodeName = x\<rparr>]"
        using run(2) n True u x by (simp_all add: AddNode_def new_node_def)
      then show ?thesis
        using store_ok_put [OF ok _ l f, of js' x] x by (simp add: NewManagedNode_def ops_of_single)
    next
      case (Some err)
      then have m': "m' = m2" "js' = []" using run(2) n True u x by (simp_all add: AddNode_def new_node_def)
      have "store_ok ?m1 js" by (rule store_ok_garbage [OF ok]) (simp add: NewManagedNode_def)
      then show ?thesis using store_ok_flags [OF _ f] m' by simp
    qed
  next
    case False
    let ?n = "NewUnManagedNode x (GetNodeInstanceID n) (GetNodeOS n)"
    let ?m1 = "m\<lparr>nodes := nodes m @ [?n]\<rparr>"
    have "m' = ?m1\<lparr>dataStore := mput (dataStore ?m1) x ?a\<rparr>" "js' = []"
      using run(2) n False x by (simp_all add: AddNode_def new_node_def)
    then show ?thesis
      using store_ok_put [OF ok, of ?n ?m1 "[]" x] x by (simp add: NewUnManagedNode_def ops_of_def)
  qed
qed

lemma store_ok_UpdateNode:
  assumes ok: "store_ok m js" and run: "names_ok k" "UpdateNode k x m = (m', effs, js', e)"
  shows "store_ok m' (js @ js')"
proof (cases "\<exists>n a. GetK8sNode k x = Inr n \<and> mget (dataStore m) x = Some a")
  case False
  then have "m' = m \<and> js' = []" using run(2) by (auto simp: UpdateNode_def split: sum.splits option.splits)
  then show ?thesis using ok by simp
next
  case True
  then obtain n a where n: "GetK8sNode k x = Inr n" "mget (dataStore m) x = Some a" by blast
  have x: "KNodeName n = x" using n run(1) by (simp add: names_ok_def)
  have "a \<in> set (mvals (dataStore m))" using n(2) by (force simp: mget_def mvals_def dest!: map_of_SomeD)
  then have a: "a < length (nodes m)" "obj_ok True (nodes m ! a) (ops_of a js)" using ok by (auto simp: store_ok_def)
  let ?b = "length (nodes m)"
  show ?thesis
  proof (cases "GetNodeUpdateStatus k 0 n (nodes m ! a)")
    case UnManagedToManaged
    then have un: "\<not> managed (nodes m ! a)" by (auto simp: GetNodeUpdateStatus_def Let_def split: if_splits)
    let ?n = "NewManagedNode x (GetNodeInstanceID n) (GetNodeOS n)"
    let ?m1 = "m\<lparr>nodes := nodes m @ [?n]\<rparr>"
    obtain m2 effs2 e2 where u: "updateSubnetIfUsingENIConfig k 1 ?b n ?m1 = (m2, effs2, e2)" by (metis prod_cases3)
    note f = update_subnet_flags [OF u]
    have l: "length (nodes m2) = Suc ?b" using f by (simp add: same_flags_def)
    show ?thesis
    proof (cases e2)
      case None
      then have "m' = m2\<lparr>dataStore := mput (dataStore m2) x ?b\<rparr>" "js' = [\<lparr>job_op = Init, job_node = ?b, job_nodeName = x\<rparr>]"
        using run(2) n u x UnManagedToManaged by (simp_all add: UpdateNode_def new_node_def)
      then show ?thesis
        using store_ok_put [OF ok _ l f, of js' x] un n(2) by (simp add: NewManagedNode_def ops_of_single)
    next
      case (Some err)
      then have m': "m' = m2" "js' = []" using run(2) n u x UnManagedToManaged by (simp_all add: UpdateNode_def new_node_def)
      have "store_ok ?m1 js" by (rule store_ok_garbage [OF ok]) (simp add: NewManagedNode_def)
      then show ?thesis using store_ok_flags [OF _ f] m' by simp
    qed
  next
    case ManagedToUnManaged
    then have mn: "managed (nodes m ! a)" by (auto simp: GetNodeUpdateStatus_def Let_def split: if_splits)
    let ?n = "NewUnManagedNode x (GetNodeInstanceID n) (GetNodeOS n)"
    let ?m1 = "m\<lparr>nodes := nodes m @ [?n]\<rparr>"
    have "m' = ?m1\<lparr>dataStore := mput (dataStore ?m1) x ?b\<rparr>" "js' = [\<lparr>job_op = Delete, job_node = a, job_nodeName = x\<rparr>]"
      using run(2) n x ManagedToUnManaged by (simp_all add: UpdateNode_def new_node_def)
    then show ?thesis
      using store_ok_put [OF ok, of ?n ?m1 js' x] mn a n(2) by (auto simp: NewUnManagedNode_def ops_of_single)
  next
    case StillManaged
    then have mn: "managed (nodes m ! a)" by (auto simp: GetNodeUpdateStatus_def Let_def split: if_splits)
    obtain m1 effs1 e1 where u: "updateSubnetIfUsingENIConfig k 1 a n m = (m1, effs1, e1)" by (metis prod_cases3)
    then have "m' = m1" "js' = (if e1 = None then [\<lparr>job_op = Update, job_node = a, job_nodeName = x\<rparr>] else [])"
      using run(2) n StillManaged by (auto simp: UpdateNode_def split: option.splits)
    moreover have "store_ok m (js @ [\<lparr>job_op = Update, job_node = a, job_nodeName = x\<rparr>])"
      by (rule store_ok_update [OF ok \<open>a \<in> set (mvals (dataStore m))\<close> mn])
    ultimately show ?thesis using store_ok_flags [OF _ update_subnet_flags [OF u]] ok by simp
  next
    case StillUnManaged
    then have "m' = m \<and> js' = []" using run(2) n by (simp add: UpdateNode_def)
    then show ?thesis using ok by simp
  qed
qed

lemma store_ok_DeleteNode:
  assumes ok: "store_ok m js" and run: "DeleteNode x m = (m', effs, js', e)"
  shows "store_ok m' (js @ js')"
proof (cases "mget (dataStore m) x")
  case None
  then show ?thesis using ok run by (simp add: DeleteNode_def)
next
  case (Some a)
  let ?m1 = "m\<lparr>dataStore := mdel (dataStore m) x\<rparr>"
  have mem: "a \<in> set (mvals (dataStore m))" using Some by (force simp: mget_def mvals_def dest!: map_of_SomeD)
  then have a: "a < length (nodes m)" "obj_ok True (nodes m ! a) (ops_of a js)" using ok by (auto simp: store_ok_def)
  have rem: "store_ok ?m1 js" by (rule store_ok_remove [OF ok])
  show ?thesis
  proof (cases "managed (nodes m ! a)")
    case False
    then show ?thesis using rem run Some by (simp add: DeleteNode_def)
  next
    case True
    then have eq: "m' = ?m1" "js' = [\<lparr>job_op = Delete, job_node = a, job_nodeName = x\<rparr>]"
      using run Some by (simp_all add: DeleteNode_def)
    have gone: "a \<notin> set (mvals (mdel (dataStore m) x))"
      using mvals_del(2) [of "dataStore m" x] ok Some by (auto simp: store_ok_def)
    have "obj_ok (b \<in> set (mvals (dataStore ?m1))) (nodes m ! b) (ops_of b (js @ js'))" if b: "b < length (nodes m)" for b
      using rem b obj_ok_delete [OF a(2) True] gone by (cases "b = a") (auto simp: store_ok_def eq ops_of_single)
    then show ?thesis using rem a by (auto simp: store_ok_def eq)
  qed
qed

text \<open>A job changes only the object it is for, which is managed.\<close>

lemma store_ok_job:
  assumes ok: "store_ok m js" and j: "j \<in> set js" and n: "managed n = managed (nodes m ! job_node j)"
  shows "store_ok (upd_obj (job_node j) (\<lambda>_. n) m) js"
proof -
  have a: "job_node j < length (nodes m)" and "ops_of (job_node j) js \<noteq> []"
    using ok j by (auto simp: store_ok_def ops_of_def filter_empty_conv)
  then have "managed (nodes m ! job_node j)" using ok by (auto simp: store_ok_def obj_ok_def)
  then have "obj_ok st n ops" if "obj_ok st (nodes m ! job_node j) ops" for st ops
    using that n by (auto simp: obj_ok_def)
  then show ?thesis using ok a by (auto simp: store_ok_def upd_obj_def nth_list_update)
qed

lemma perform_update_flags:
  assumes "perform_update api ps a m h log = (m', h', log')"
  shows "same_flags m m'"
proof -
  obtain n h1 log1 e where u: "UpdateResources api ps (nodes m ! a) h log = (n, h1, log1, e)" by (metis prod_cases4)
  then have m': "m' = upd_obj a (\<lambda>_. n) m" using assms by (simp add: perform_update_def)
  show ?thesis
    using UpdateResources_flags [OF u]
    by (cases "a < length (nodes m)") (auto simp: m' same_flags_def upd_obj_def nth_list_update list_update_beyond)
qed

lemma node_step_inv:
  assumes "node_step s t" "node_sys_inv s"
  shows "node_sys_inv t"
  using assms
proof (induction rule: node_step.induct)
  case (add k cn x s m effs js e)
  then show ?case using store_ok_AddNode by (auto simp: node_sys_inv_def submit_def)
next
  case (update k x s m effs js e)
  then show ?case using store_ok_UpdateNode by (auto simp: node_sys_inv_def submit_def)
next
  case (delete x s m effs js e)
  then show ?case using store_ok_DeleteNode by (auto simp: node_sys_inv_def submit_def)
next
  case (init_ok j s Limits api k8s ps h log n h' log' effs m h2 log2)
  then have "store_ok (upd_obj (job_node j) (\<lambda>_. n) (mgr s)) (submitted s)"
    using InitResources_flags [OF init_ok(3)] by (auto simp: node_sys_inv_def intro!: store_ok_job)
  then show ?case using init_ok perform_update_flags [OF init_ok(4)] store_ok_flags set_remove1_subset
    by (fastforce simp: node_sys_inv_def)
next
  case (init_failed j s Limits api k8s ps h log n h' log' effs err)
  then have "store_ok (upd_obj (job_node j) (\<lambda>_. n) (mgr s)) (submitted s)"
    using InitResources_flags [OF init_failed(3)] by (auto simp: node_sys_inv_def intro!: store_ok_job)
  then show ?case using init_failed set_remove1_subset by (fastforce simp: node_sys_inv_def)
next
  case (removed x s)
  then show ?case by (auto simp: node_sys_inv_def removeNodeSafe_def intro: store_ok_remove)
next
  case (updated j s api ps h log m h' log')
  then show ?case using perform_update_flags [OF updated(3)] store_ok_flags set_remove1_subset
    by (fastforce simp: node_sys_inv_def)
next
  case (deleted j s ps log n log' err)
  then have "managed n = managed (nodes (mgr s) ! job_node j)" by (auto simp: DeleteResources_def split: prod.splits)
  then have "store_ok (upd_obj (job_node j) (\<lambda>_. n) (mgr s)) (submitted s)"
    using deleted by (auto simp: node_sys_inv_def intro!: store_ok_job)
  then show ?case using deleted set_remove1_subset by (fastforce simp: node_sys_inv_def)
next
  case (health s now)
  have "same_flags (mgr s) (setStopHealthCheck now (mgr s))" by (simp add: same_flags_def setStopHealthCheck_def)
  then show ?case using health store_ok_flags by (auto simp: node_sys_inv_def)
next
  case (check_leaks s jitter now later provider x)
  then show ?case using check_leaks_flags store_ok_flags by (fastforce simp: node_sys_inv_def)
qed

interpretation node_machine: invariant_system "\<lambda>s. s = node_start" node_step node_sys_inv
  by unfold_locales (auto intro: start_inv node_step_inv)

lemma node_reach_start: "node_reachable node_start"
  by (rule reach_init) simp

lemma node_reach_step: "node_reachable s \<Longrightarrow> node_step s t \<Longrightarrow> node_reachable t"
  by (rule reach_step)

section \<open>Properties\<close>


text \<open>A Linux node that has a trunk, and its CNINode.\<close>

definition sample_k8s_node :: k8s_node where
  "sample_k8s_node = \<lparr>KNodeName = ''node-1'', KProviderID = ''aws:///us-west-2a/i-0123456789abcdef0'',
     KNodeLabels = [(NodeLabelOS, ''linux'')]\<rparr>"

definition sample_node_k8s :: node_k8s where
  "sample_node_k8s = \<lparr>GetK8sNode = (\<lambda>x. if x = ''node-1'' then Inr sample_k8s_node else Inl (K8sNotFound x)),
     GetCNINode = (\<lambda>r x. Inr [(SecurityGroupsForPods, '''')]), CreateCNINode = (\<lambda>x c i. None),
     GetENIConfig = (\<lambda>x. Inl (K8sNotFound x)), IsWindowsIPAMEnabled = False\<rparr>"

lemma sample_names: "names_ok sample_node_k8s"
  by (simp add: names_ok_def sample_node_k8s_def sample_k8s_node_def)

definition init_job :: "nat \<Rightarrow> AsyncOperationJob" where
  "init_job a = \<lparr>job_op = Init, job_node = a, job_nodeName = ''node-1''\<rparr>"

definition delete_job :: "nat \<Rightarrow> AsyncOperationJob" where
  "delete_job a = \<lparr>job_op = Delete, job_node = a, job_nodeName = ''node-1''\<rparr>"

text \<open>The object the events below create.\<close>

definition sample_node :: node_obj where
  "sample_node = UpdateCustomNetworkingSpecs '''' [] (NewManagedNode ''node-1'' ''i-0123456789abcdef0'' ''linux'')"

lemma sample_add:
  "AddNode sample_node_k8s ''c'' ''node-1'' \<lparr>nodes = ns, dataStore = [], stopHealthCheckAt = t\<rparr> =
     (\<lparr>nodes = ns @ [sample_node], dataStore = [(''node-1'', length ns)], stopHealthCheckAt = t\<rparr>, [], [init_job (length ns)], None)"
proof -
  have c: "CreateCNINodeIfNotExisting sample_node_k8s ''c'' sample_k8s_node = None"
    "isSelectedForManagement sample_node_k8s 1 sample_k8s_node"
    "GetNodeInstanceID sample_k8s_node = ''i-0123456789abcdef0''" "GetNodeOS sample_k8s_node = ''linux''"
    "customNetworkEnabledInCNINode sample_node_k8s 2 sample_k8s_node = False"
    "mget (KNodeLabels sample_k8s_node) CustomNetworkingLabel = None"
    "KNodeName sample_k8s_node = ''node-1''" "GetK8sNode sample_node_k8s ''node-1'' = Inr sample_k8s_node"
    by code_simp+
  show ?thesis
    by (simp add: AddNode_def c new_node_def updateSubnetIfUsingENIConfig_def upd_obj_def sample_node_def init_job_def
        mhas_def mkeys_def mput_Nil nth_append del: One_nat_def)
qed


text \<open>\<open>trunkEnabledInCNINode\<close> loses the error of the read in a shadowed variable. A single failed read of the CNINode
  of a managed node without the trunk label therefore turns the node into an unmanaged one, and the
  manager submits the job that removes its resources.\<close>

theorem cninode_error_unmanages:
  assumes "GetK8sNode k x = Inr n" "mget (dataStore m) x = Some a" "managed (nodes m ! a)"
    and "GetCNINode k 0 (KNodeName n) = Inl err" "\<not> mhas (KNodeLabels n) HasTrunkAttachedLabel" "\<not> isWindowsNode n"
  shows "\<exists>m' b. UpdateNode k x m = (m', [], [\<lparr>job_op = Delete, job_node = a, job_nodeName = x\<rparr>], None) \<and>
    mget (dataStore m') x = Some b \<and> \<not> managed (nodes m' ! b)"
proof -
  have "\<not> isSelectedForManagement k 0 n"
    using assms(4-6) by (simp add: isSelectedForManagement_def canAttachTrunk_def trunkEnabledInCNINode_def)
  then have "GetNodeUpdateStatus k 0 n (nodes m ! a) = ManagedToUnManaged" using assms(3) by (simp add: GetNodeUpdateStatus_def)
  then show ?thesis using assms(1,2) by (simp add: UpdateNode_def new_node_def NewUnManagedNode_def)
qed

definition failing_node_k8s :: node_k8s where
  "failing_node_k8s = sample_node_k8s\<lparr>GetCNINode := (\<lambda>r x. Inl (K8sError ''timeout''))\<rparr>"

theorem cninode_error_unmanages_witness:
  "\<exists>m' b. UpdateNode failing_node_k8s ''node-1''
       \<lparr>nodes = [sample_node], dataStore = [(''node-1'', 0)], stopHealthCheckAt = None\<rparr> = (m', [], [delete_job 0], None) \<and>
     mget (dataStore m') ''node-1'' = Some b \<and> \<not> managed (nodes m' ! b)"
proof -
  have h: "GetK8sNode failing_node_k8s ''node-1'' = Inr sample_k8s_node"
    "GetCNINode failing_node_k8s 0 (KNodeName sample_k8s_node) = Inl (K8sError ''timeout'')"
    "\<not> mhas (KNodeLabels sample_k8s_node) HasTrunkAttachedLabel" "\<not> isWindowsNode sample_k8s_node"
    by code_simp+
  show ?thesis
    unfolding delete_job_def
    by (rule cninode_error_unmanages [OF h(1) _ _ h(2-4)])
      (simp_all add: mget_Cons sample_node_def UpdateCustomNetworkingSpecs_def NewManagedNode_def)
qed

text \<open>A job that initialises the sample object successfully, without providers.\<close>

definition ready_node :: node_obj where
  "ready_node = (case InitResources sample_limits sample_node_api sample_k8s [] sample_node [] [] of
     None \<Rightarrow> sample_node | Some (n, _) \<Rightarrow> n)"

lemma sample_init: "\<exists>h log effs. InitResources sample_limits sample_node_api sample_k8s [] sample_node [] [] =
    Some (ready_node, h, log, effs, None) \<and> ready ready_node"
proof -
  have "case InitResources sample_limits sample_node_api sample_k8s [] sample_node [] [] of None \<Rightarrow> False
      | Some (n, h, log, effs, err) \<Rightarrow> err = None \<and> ready n" by code_simp
  then show ?thesis unfolding ready_node_def by (auto split: option.splits)
qed

lemma sample_node_facts: "managed sample_node" "\<not> ready sample_node"
  by (simp_all add: sample_node_def UpdateCustomNetworkingSpecs_def NewManagedNode_def)

lemma sample_delete:
  assumes "managed (ns ! a)"
  shows "DeleteNode ''node-1'' \<lparr>nodes = ns, dataStore = [(''node-1'', a)], stopHealthCheckAt = t\<rparr> =
     (\<lparr>nodes = ns, dataStore = [], stopHealthCheckAt = t\<rparr>, [], [delete_job a], None)"
  using assms by (simp add: DeleteNode_def mget_Cons mdel_Cons mdel_Nil delete_job_def)

text \<open>The step that initialises the sample object at address \<open>a\<close>, whatever else is in the state.\<close>

lemma sample_init_step:
  assumes "nodes (mgr s) ! a = sample_node" "a < length (nodes (mgr s))" "init_job a \<in> set (waiting s)"
  obtains n where "ready n"
    "node_step s (s\<lparr>mgr := (mgr s)\<lparr>nodes := (nodes (mgr s))[a := n]\<rparr>, waiting := remove1 (init_job a) (waiting s)\<rparr>)"
proof -
  obtain h log effs where i: "InitResources sample_limits sample_node_api sample_k8s [] sample_node [] [] =
      Some (ready_node, h, log, effs, None)" and r: "ready ready_node" using sample_init by blast
  obtain n h1 log1 e where u: "UpdateResources sample_node_api [] ready_node h log = (n, h1, log1, e)" by (metis prod_cases4)
  have p: "perform_update sample_node_api [] a (upd_obj a (\<lambda>_. ready_node) (mgr s)) h log =
      ((mgr s)\<lparr>nodes := (nodes (mgr s))[a := n]\<rparr>, h1, log1)"
    using assms(2) u by (simp add: perform_update_def upd_obj_def)
  have "ready n" using UpdateResources_flags [OF u] r by simp
  moreover have "node_step s (s\<lparr>mgr := (mgr s)\<lparr>nodes := (nodes (mgr s))[a := n]\<rparr>, waiting := remove1 (init_job a) (waiting s)\<rparr>)"
    by (rule node_step.init_ok [OF assms(3)]) (use i p assms(1) in \<open>simp_all add: init_job_def\<close>)
  ultimately show ?thesis by (rule that)
qed

text \<open>The jobs of one node are taken by different workers. When the job that deletes the resources of a node
  overtakes the job that initialises them, the node ends up initialised and ready although it is no
  longer in the data store and no job is left for it.\<close>

theorem delete_overtakes_init:
  "\<exists>s. node_reachable s \<and> dataStore (mgr s) = [] \<and> waiting s = [] \<and> ready (nodes (mgr s) ! 0) \<and>
     ops_of 0 (submitted s) = [Init, Delete]"
proof -
  let ?m1 = "\<lparr>nodes = [sample_node], dataStore = [(''node-1'', 0)], stopHealthCheckAt = None\<rparr>"
  let ?m2 = "\<lparr>nodes = [sample_node], dataStore = [], stopHealthCheckAt = None\<rparr>"
  let ?s2 = "\<lparr>mgr = ?m2, submitted = [init_job 0, delete_job 0], waiting = [init_job 0, delete_job 0], removals = []\<rparr>"
  let ?s3 = "\<lparr>mgr = ?m2, submitted = [init_job 0, delete_job 0], waiting = [init_job 0], removals = []\<rparr>"
  have st1: "node_step node_start (submit [init_job 0] ?m1 node_start)"
    using sample_add [of "[]" None] by (intro node_step.add [OF sample_names]) (simp add: node_start_def NewNodeManager_def)
  have st2: "node_step (submit [init_job 0] ?m1 node_start) ?s2"
    using node_step.delete [of "''node-1''" "submit [init_job 0] ?m1 node_start" ?m2 "[]" "[delete_job 0]" None]
      sample_delete [of "[sample_node]" 0 None] sample_node_facts by (simp add: submit_def node_start_def)
  have st3: "node_step ?s2 ?s3"
    using node_step.deleted [of "delete_job 0" ?s2 "[]" "[]" sample_node "[]" None] sample_node_facts
    by (simp add: delete_job_def init_job_def DeleteResources_def upd_obj_def)
  have r3: "node_reachable ?s3" by (intro node_reach_step [OF _ st3] node_reach_step [OF _ st2] node_reach_step [OF _ st1] node_reach_start)
  obtain n where n: "ready n" "node_step ?s3 (?s3\<lparr>mgr := ?m2\<lparr>nodes := [n]\<rparr>, waiting := []\<rparr>)"
    using sample_init_step [of ?s3 0] by auto
  let ?s4 = "?s3\<lparr>mgr := ?m2\<lparr>nodes := [n]\<rparr>, waiting := []\<rparr>"
  have "node_reachable ?s4" using r3 n(2) by (rule node_reach_step)
  then show ?thesis
    using n(1) by (intro exI [of _ ?s4]) (simp add: ops_of_def init_job_def delete_job_def)
qed

text \<open>A failed initialisation removes the node by its name. When the node was deleted and added again in the
  meantime, it is the new object that loses its place in the data store: it is initialised and
  ready, but the manager does not know it, and no job to delete its resources was submitted.\<close>

theorem stale_failure_removes_new_node:
  "\<exists>s. node_reachable s \<and> dataStore (mgr s) = [] \<and> ready (nodes (mgr s) ! 1) \<and> ops_of 1 (submitted s) = [Init] \<and>
     removals s = [] \<and> init_job 1 \<notin> set (waiting s)"
proof -
  let ?m1 = "\<lparr>nodes = [sample_node], dataStore = [(''node-1'', 0)], stopHealthCheckAt = None\<rparr>"
  let ?m2 = "\<lparr>nodes = [sample_node], dataStore = [], stopHealthCheckAt = None\<rparr>"
  let ?m3 = "\<lparr>nodes = [sample_node, sample_node], dataStore = [(''node-1'', 1)], stopHealthCheckAt = None\<rparr>"
  let ?m4 = "\<lparr>nodes = [sample_node, sample_node], dataStore = [], stopHealthCheckAt = None\<rparr>"
  let ?s2 = "\<lparr>mgr = ?m2, submitted = [init_job 0, delete_job 0], waiting = [init_job 0, delete_job 0], removals = []\<rparr>"
  let ?s3 = "\<lparr>mgr = ?m3, submitted = [init_job 0, delete_job 0, init_job 1],
    waiting = [init_job 0, delete_job 0, init_job 1], removals = []\<rparr>"
  let ?s4 = "?s3\<lparr>waiting := [delete_job 0, init_job 1], removals := [''node-1'']\<rparr>"
  let ?s5 = "?s3\<lparr>mgr := ?m4, waiting := [delete_job 0, init_job 1]\<rparr>"
  have st1: "node_step node_start (submit [init_job 0] ?m1 node_start)"
    using sample_add [of "[]" None] by (intro node_step.add [OF sample_names]) (simp add: node_start_def NewNodeManager_def)
  have st2: "node_step (submit [init_job 0] ?m1 node_start) ?s2"
    using node_step.delete [of "''node-1''" "submit [init_job 0] ?m1 node_start" ?m2 "[]" "[delete_job 0]" None]
      sample_delete [of "[sample_node]" 0 None] sample_node_facts by (simp add: submit_def node_start_def)
  have st3: "node_step ?s2 ?s3"
    using node_step.add [OF sample_names, of "''c''" "''node-1''" ?s2 ?m3 "[]" "[init_job 1]" None] sample_add [of "[sample_node]" None]
    by (simp add: submit_def)
  have st4: "node_step ?s3 ?s4"
    using node_step.init_failed [of "init_job 0" ?s3 sample_limits sample_api sample_k8s "[]" "[]" "[]" sample_node _ "[]" "[]"
        "LoadFailed InstanceNotFound"]
    by (simp add: init_job_def delete_job_def InitResources_def LoadDetails_def sample_api_def upd_obj_def)
  have st5: "node_step ?s4 ?s5"
    using node_step.removed [of "''node-1''" ?s4] by (simp add: removeNodeSafe_def mdel_Cons mdel_Nil)
  have r5: "node_reachable ?s5" by (intro node_reach_step [OF _ st5] node_reach_step [OF _ st4] node_reach_step [OF _ st3] node_reach_step [OF _ st2] node_reach_step [OF _ st1] node_reach_start)
  obtain n where n: "ready n" "node_step ?s5 (?s5\<lparr>mgr := ?m4\<lparr>nodes := [sample_node, n]\<rparr>, waiting := [delete_job 0]\<rparr>)"
    using sample_init_step [of ?s5 1] by (auto simp: delete_job_def init_job_def)
  let ?s6 = "?s5\<lparr>mgr := ?m4\<lparr>nodes := [sample_node, n]\<rparr>, waiting := [delete_job 0]\<rparr>"
  have "node_reachable ?s6" using r5 n(2) by (rule node_reach_step)
  then show ?thesis
    using n(1) by (intro exI [of _ ?s6]) (simp add: ops_of_def init_job_def delete_job_def)
qed

text \<open>The interval between two reconciliations of a managed node stays between one and fifteen minutes: a reconciliation
  that finds leaked interfaces sets it back to one minute, any other lengthens it by the jitter, and the next
  one is due one interval later.\<close>

theorem reconciliation_interval_bounds:
  assumes "\<And>d f. 0 \<le> d \<Longrightarrow> d \<le> jitter d f" "GetNode x m = Some a" "managed (nodes m ! a)" "a < length (nodes m)"
    and "NodeInitialCleanupInterval \<le> reconciliationInterval (nodes m ! a)" "reconciliationInterval (nodes m ! a) \<le> MaxNodeReconciliationInterval"
    and "m' = CheckNodeForLeakedENIs jitter now later (Some leaked) x m"
  shows "NodeInitialCleanupInterval \<le> reconciliationInterval (nodes m' ! a) \<and>
    reconciliationInterval (nodes m' ! a) \<le> MaxNodeReconciliationInterval \<and>
    (nodes m' = nodes m \<or> nextReconciliationTime (nodes m' ! a) = Some (later + reconciliationInterval (nodes m' ! a)) \<and>
       (if leaked x then reconciliationInterval (nodes m' ! a) = NodeInitialCleanupInterval
        else reconciliationInterval (nodes m ! a) \<le> reconciliationInterval (nodes m' ! a)))"
proof -
  have pos: "(0::int) \<le> NodeInitialCleanupInterval" "NodeInitialCleanupInterval \<le> MaxNodeReconciliationInterval"
    by (simp_all add: NodeInitialCleanupInterval_def MaxNodeReconciliationInterval_def)
  have "reconciliationInterval (nodes m ! a) \<le> jitter (reconciliationInterval (nodes m ! a)) 5"
    using assms(1,5) pos by (intro assms(1)) simp
  then show ?thesis
    using assms(2-7) pos by (auto simp: CheckNodeForLeakedENIs_def upd_obj_def Let_def split: option.splits)
qed

theorem reconciliation_interval_bounds_witness:
  "reconciliationInterval (nodes (CheckNodeForLeakedENIs (\<lambda>d f. 6 * d) 0 7 (Some (\<lambda>x. False)) ''node-1''
      \<lparr>nodes = [sample_node], dataStore = [(''node-1'', 0)], stopHealthCheckAt = None\<rparr>) ! 0) \<le> MaxNodeReconciliationInterval"
proof -
  let ?m = "\<lparr>nodes = [sample_node], dataStore = [(''node-1'', 0)], stopHealthCheckAt = None\<rparr>"
  have "GetNode ''node-1'' ?m = Some 0" by (simp add: GetNode_def mget_Cons)
  moreover have "reconciliationInterval sample_node = NodeInitialCleanupInterval"
    by (simp add: sample_node_def UpdateCustomNetworkingSpecs_def NewManagedNode_def)
  ultimately show ?thesis
    using reconciliation_interval_bounds [of "\<lambda>d f. 6 * d" "''node-1''" ?m 0 _ 0 7 "\<lambda>x. False", OF _ _ _ _ _ _ refl] sample_node_facts
    by (simp add: NodeInitialCleanupInterval_def MaxNodeReconciliationInterval_def)
qed

end
