(* ===== verification/Eni_Cleanup.thy ===== *)
theory Eni_Cleanup
  imports Utils Config
begin

text \<open>
  \<open>pkg/aws/ec2/api/cleanup\<close>: the removal of leaked interfaces, by the periodic cleaner of the cluster and by the
  cleaner that runs when a node terminates. Both use \<open>DeleteLeakedResources\<close> with their own
  \<open>NetworkInterfaceManager\<close>, here a record of functions over the cleaner's state. EC2 is a record of functions whose
  answers may depend on all events before. Logging is left out.
\<close>

type_synonym ec2_filters = "(string \<times> string list) list"

record listed_interface =
  LId :: string
  LTags :: "ec2_tag list"

datatype clean_event =
    DescribeEvent ec2_filters "string + listed_interface list"
  | DeleteEvent string "string option"

record clean_api =
  DescribeNetworkInterfacesPages :: "clean_event list \<Rightarrow> ec2_filters \<Rightarrow> string + listed_interface list"
  CleanDeleteNetworkInterface :: "clean_event list \<Rightarrow> string \<Rightarrow> string option"

record 'm interface_manager =
  GetENITagFilters :: "'m \<Rightarrow> ec2_filters"
  ShouldDeleteENI :: "'m \<Rightarrow> string \<Rightarrow> bool"
  UpdateAvailableENIsIfNeeded :: "string list \<Rightarrow> 'm \<Rightarrow> 'm"

definition NetworkInterfaceOwnerTagKey :: string where "NetworkInterfaceOwnerTagKey = ''eks:eni:owner''"
definition NetworkInterfaceOwnerTagValue :: string where "NetworkInterfaceOwnerTagValue = ''eks-vpc-resource-controller''"
definition NetworkInterfaceOwnerVPCCNITagValue :: string where "NetworkInterfaceOwnerVPCCNITagValue = ''amazon-vpc-cni''"
definition NotFoundInterface :: string where "NotFoundInterface = ''InvalidNetworkInterfaceID.NotFound''"

definition CommonNetworkInterfaceFilters :: ec2_filters where
  "CommonNetworkInterfaceFilters =
     [(''status'', [''available'']),
      (''tag:'' @ NetworkInterfaceOwnerTagKey, [NetworkInterfaceOwnerTagValue, NetworkInterfaceOwnerVPCCNITagValue])]"

section \<open>The common routine\<close>

text \<open>One description per filter of the cleaner; an error ends the cycle.\<close>

fun describe_all ::
  "clean_api \<Rightarrow> ec2_filters \<Rightarrow> ec2_filters \<Rightarrow> clean_event list \<Rightarrow> listed_interface list \<Rightarrow>
   clean_event list \<times> (string + listed_interface list)" where
  "describe_all api filters [] h acc = (h, Inr acc)"
| "describe_all api filters (f # fs) h acc =
     (let res = DescribeNetworkInterfacesPages api h (filters @ [f]); h1 = DescribeEvent (filters @ [f]) res # h in
      case res of
        Inl err \<Rightarrow> (h1, Inl err)
      | Inr nws \<Rightarrow> describe_all api filters fs h1 (acc @ nws))"

text \<open>The counters of the metrics.\<close>

record cleanup_counts =
  vpcrcAvailableCount :: nat
  vpccniAvailableCount :: nat
  leakedENICount :: nat

definition zero_counts :: cleanup_counts where
  "zero_counts = \<lparr>vpcrcAvailableCount = 0, vpccniAvailableCount = 0, leakedENICount = 0\<rparr>"

text \<open>The owner tag of an interface: counted, or an owner that was not asked for.\<close>

definition count_owner :: "string option \<Rightarrow> cleanup_counts \<Rightarrow> cleanup_counts option" where
  "count_owner owner c =
     (case owner of
        None \<Rightarrow> Some c
      | Some v \<Rightarrow>
          if v = NetworkInterfaceOwnerTagValue then Some (c\<lparr>vpcrcAvailableCount := Suc (vpcrcAvailableCount c)\<rparr>)
          else if v = NetworkInterfaceOwnerVPCCNITagValue then Some (c\<lparr>vpccniAvailableCount := Suc (vpccniAvailableCount c)\<rparr>)
          else None)"

fun clean_loop ::
  "clean_api \<Rightarrow> (string \<Rightarrow> bool) \<Rightarrow> listed_interface list \<Rightarrow> clean_event list \<Rightarrow> string list \<Rightarrow> cleanup_counts \<Rightarrow> string list \<Rightarrow>
   clean_event list \<times> string list \<times> cleanup_counts \<times> string list" where
  "clean_loop api should [] h available c errs = (h, available, c, errs)"
| "clean_loop api should (nw # nws) h available c errs =
     (if should (LId nw) then
        (case count_owner (mget (GetTagKeyValueMap (LTags nw)) NetworkInterfaceOwnerTagKey) c of
           None \<Rightarrow> clean_loop api should nws h available c errs
         | Some c1 \<Rightarrow>
            (let res = CleanDeleteNetworkInterface api h (LId nw); h1 = DeleteEvent (LId nw) res # h in
             case res of
               None \<Rightarrow> clean_loop api should nws h1 available c1 errs
             | Some err \<Rightarrow>
                 if \<not> Contains err NotFoundInterface
                 then clean_loop api should nws h1 available (c1\<lparr>leakedENICount := Suc (leakedENICount c1)\<rparr>) (errs @ [''failed to delete leaked network interface '' @ LId nw @ '':'' @ err])
                 else clean_loop api should nws h1 available c1 errs))
      else clean_loop api should nws h (if LId nw \<in> set available then available else available @ [LId nw]) c errs)"

text \<open>A cycle returns the cleaner, the trace, the counters and the errors; a failed description is the single
  error of its cycle and leaves the cleaner as it was.\<close>

definition DeleteLeakedResources ::
  "clean_api \<Rightarrow> 'm interface_manager \<Rightarrow> string \<Rightarrow> bool \<Rightarrow> 'm \<Rightarrow> clean_event list \<Rightarrow>
   'm \<times> clean_event list \<times> cleanup_counts \<times> string list" where
  "DeleteLeakedResources api manager vpcId controllerDisabled m h =
     (let filters = CommonNetworkInterfaceFilters @ [(''vpc-id'', [vpcId])];
          (h1, listed) =
            (if \<not> controllerDisabled then describe_all api filters (GetENITagFilters manager m) h []
             else let res = DescribeNetworkInterfacesPages api h filters in (DescribeEvent filters res # h, res))
      in case listed of
           Inl err \<Rightarrow> (m, h1, zero_counts, [err])
         | Inr nws \<Rightarrow>
            (case clean_loop api (ShouldDeleteENI manager m) nws h1 [] zero_counts [] of
               (h2, available, c, errs) \<Rightarrow> (UpdateAvailableENIsIfNeeded manager available m, h2, c, errs)))"

section \<open>The two cleaners\<close>

record cluster_cleaner =
  ClusterName :: string
  availableENIs :: "string list"

definition ClusterENICleaner :: "cluster_cleaner interface_manager" where
  "ClusterENICleaner =
     \<lparr>GetENITagFilters = (\<lambda>e. [(''tag:'' @ VPCCNIClusterNameKey, [ClusterName e]),
        (''tag:kubernetes.io/cluster/'' @ ClusterName e, [''owned''])]),
      ShouldDeleteENI = (\<lambda>e eni. eni \<in> set (availableENIs e)),
      UpdateAvailableENIsIfNeeded = (\<lambda>enis e. e\<lparr>availableENIs := enis\<rparr>)\<rparr>"

definition SetupCleaner :: "string \<Rightarrow> cluster_cleaner" where
  "SetupCleaner clusterName = \<lparr>ClusterName = clusterName, availableENIs = []\<rparr>"

text \<open>The state of the other cleaner is the id of its node.\<close>

definition NodeTerminationCleaner :: "string interface_manager" where
  "NodeTerminationCleaner =
     \<lparr>GetENITagFilters = (\<lambda>n. [(''tag:'' @ NetworkInterfaceNodeIDKey, [n])]),
      ShouldDeleteENI = (\<lambda>n eni. True),
      UpdateAvailableENIsIfNeeded = (\<lambda>enis n. n)\<rparr>"

section \<open>What a cycle deletes\<close>

definition owned :: "listed_interface \<Rightarrow> bool" where
  "owned nw \<longleftrightarrow> count_owner (mget (GetTagKeyValueMap (LTags nw)) NetworkInterfaceOwnerTagKey) zero_counts \<noteq> None"

lemma count_owner_None: "count_owner owner c = None \<longleftrightarrow> count_owner owner c' = None"
  by (auto simp: count_owner_def split: option.splits)

definition deletes_of :: "clean_event list \<Rightarrow> string list" where
  "deletes_of evs = [x. DeleteEvent x r \<leftarrow> evs]"

lemma deletes_of_simps [simp]: "deletes_of [] = []" "deletes_of (DeleteEvent x r # evs) = x # deletes_of evs"
    "deletes_of (DescribeEvent f r' # evs) = deletes_of evs" "deletes_of (evs @ evs') = deletes_of evs @ deletes_of evs'"
  by (simp_all add: deletes_of_def)

definition real_error :: "clean_event \<Rightarrow> bool" where
  "real_error e = (case e of DeleteEvent x (Some err) \<Rightarrow> \<not> Contains err NotFoundInterface | _ \<Rightarrow> False)"

lemma clean_loop_errs: "clean_loop api should nws h available c errs = (h', available', c', errs') \<Longrightarrow> \<exists>ext. errs' = errs @ ext"
proof (induction nws arbitrary: h available c errs)
  case (Cons nw nws)
  show ?case
    using Cons.prems Cons.IH by (fastforce simp: Let_def split: if_splits option.splits)
qed simp

text \<open>The loop asks EC2 to delete exactly the interfaces that should go and whose owner is known, in order; it
  remembers the others and reports the errors of EC2 except those for interfaces that are gone.\<close>

lemma clean_loop_spec:
  assumes "clean_loop api should nws h available c errs = (h', available', c', errs')"
  shows "\<exists>evs. h' = evs @ h \<and> rev (deletes_of evs) = map LId (filter (\<lambda>nw. should (LId nw) \<and> owned nw) nws) \<and>
    set available' = set available \<union> {LId nw |nw. nw \<in> set nws \<and> \<not> should (LId nw)} \<and>
    (errs' = errs \<longleftrightarrow> list_all (\<lambda>e. \<not> real_error e) evs)"
  using assms
proof (induction nws arbitrary: h available c errs)
  case (Cons nw nws)
  let ?own = "count_owner (mget (GetTagKeyValueMap (LTags nw)) NetworkInterfaceOwnerTagKey)"
  have own: "owned nw \<longleftrightarrow> ?own c \<noteq> None" unfolding owned_def by (simp add: count_owner_None [of _ zero_counts c])
  show ?case
  proof (cases "should (LId nw) \<and> owned nw")
    case False
    then show ?thesis
    proof (cases "should (LId nw)")
      case True
      then have "?own c = None" using False own by blast
      then obtain evs where "h' = evs @ h" "rev (deletes_of evs) = map LId (filter (\<lambda>nw. should (LId nw) \<and> owned nw) nws)"
          "set available' = set available \<union> {LId nw |nw. nw \<in> set nws \<and> \<not> should (LId nw)}"
          "errs' = errs \<longleftrightarrow> list_all (\<lambda>e. \<not> real_error e) evs"
        using Cons.IH [of h available c errs] Cons.prems True by auto
      then show ?thesis using True False by (intro exI [of _ evs]) auto
    next
      case no: False
      let ?av = "if LId nw \<in> set available then available else available @ [LId nw]"
      obtain evs where "h' = evs @ h" "rev (deletes_of evs) = map LId (filter (\<lambda>nw. should (LId nw) \<and> owned nw) nws)"
          "set available' = set ?av \<union> {LId nw |nw. nw \<in> set nws \<and> \<not> should (LId nw)}"
          "errs' = errs \<longleftrightarrow> list_all (\<lambda>e. \<not> real_error e) evs"
        using Cons.IH [of h ?av c errs] Cons.prems no by auto
      then show ?thesis using no by (intro exI [of _ evs]) auto
    qed
  next
    case True
    then obtain c1 where c1: "?own c = Some c1" using own by auto
    let ?res = "CleanDeleteNetworkInterface api h (LId nw)"
    let ?ev = "DeleteEvent (LId nw) ?res"
    let ?msg = "''failed to delete leaked network interface '' @ LId nw @ '':'' @ the ?res"
    obtain c2 where next': "clean_loop api should nws (?ev # h) available c2
        (if real_error ?ev then errs @ [?msg] else errs) = (h', available', c', errs')"
      using Cons.prems True c1 by (cases ?res) (auto simp: Let_def real_error_def split: if_splits)
    obtain evs where "h' = evs @ ?ev # h" "rev (deletes_of evs) = map LId (filter (\<lambda>nw. should (LId nw) \<and> owned nw) nws)"
        "set available' = set available \<union> {LId nw |nw. nw \<in> set nws \<and> \<not> should (LId nw)}"
        "errs' = (if real_error ?ev then errs @ [?msg] else errs) \<longleftrightarrow> list_all (\<lambda>e. \<not> real_error e) evs"
      using Cons.IH [OF next'] by blast
    moreover have "\<exists>ext. errs' = (if real_error ?ev then errs @ [?msg] else errs) @ ext"
      using next' by (rule clean_loop_errs)
    ultimately show ?thesis using True by (intro exI [of _ "evs @ [?ev]"]) (auto split: if_splits)
  qed
qed auto

text \<open>The interfaces EC2 listed in a trace, in the order of its answers.\<close>

definition answer :: "clean_event \<Rightarrow> listed_interface list" where
  "answer e = (case e of DescribeEvent f (Inr nws) \<Rightarrow> nws | _ \<Rightarrow> [])"

definition answers :: "clean_event list \<Rightarrow> listed_interface list" where
  "answers evs = concat (map answer (rev evs))"

definition described :: "clean_event list \<Rightarrow> bool" where
  "described evs = list_all (\<lambda>e. case e of DescribeEvent f (Inl err) \<Rightarrow> False | _ \<Rightarrow> True) evs"

lemma answers_simps [simp]:
  "answers [] = []" "answers (evs' @ evs) = answers evs @ answers evs'" "answers [DeleteEvent x r'] = []"
  "answers [DescribeEvent f (Inr nws)] = nws"
  by (simp_all add: answers_def answer_def)

lemma described_simps [simp]:
  "described []" "described (evs' @ evs) \<longleftrightarrow> described evs' \<and> described evs" "described [DeleteEvent x r']"
  "described [DescribeEvent f r] \<longleftrightarrow> \<not> isl r"
  by (auto simp: described_def split: sum.split)

lemma clean_loop_silent:
  "clean_loop api should nws h available c errs = (evs @ h, available', c', errs') \<Longrightarrow> described evs \<and> answers evs = []"
proof (induction nws arbitrary: h available c errs evs)
  case (Cons nw nws)
  let ?ev = "DeleteEvent (LId nw) (CleanDeleteNetworkInterface api h (LId nw))"
  consider (call) c1 errs1 where "clean_loop api should nws (?ev # h) available c1 errs1 = (evs @ h, available', c', errs')"
    | (skip) av c1 where "clean_loop api should nws h av c1 errs = (evs @ h, available', c', errs')"
    using Cons.prems by (auto simp: Let_def split: if_splits option.splits)
  then show ?case
  proof cases
    case call
    obtain evs0 where e: "evs @ h = evs0 @ ?ev # h" using clean_loop_spec [OF call] by blast
    then have "described evs0 \<and> answers evs0 = []" using Cons.IH [of "?ev # h"] call by metis
    moreover have "evs = evs0 @ [?ev]" using e by simp
    ultimately show ?thesis by simp
  next
    case skip
    then show ?thesis by (rule Cons.IH)
  qed
qed simp

lemma describe_all_spec:
  assumes "describe_all api filters fs h acc = (h', r)"
  shows "\<exists>evs. h' = evs @ h \<and> deletes_of evs = [] \<and> (described evs \<longleftrightarrow> \<not> isl r) \<and>
    (\<forall>nws. r = Inr nws \<longrightarrow> nws = acc @ answers evs)"
  using assms
proof (induction fs arbitrary: h acc)
  case Nil
  then show ?case by (intro exI [of _ "[]"]) auto
next
  case (Cons f fs)
  let ?res = "DescribeNetworkInterfacesPages api h (filters @ [f])"
  let ?ev = "DescribeEvent (filters @ [f]) ?res"
  show ?case
  proof (cases ?res)
    case (Inl err)
    then have "h' = [?ev] @ h" "r = Inl err" using Cons.prems by (auto simp: Let_def)
    then show ?thesis using Inl by (intro exI [of _ "[?ev]"]) simp
  next
    case (Inr nws)
    then have "describe_all api filters fs (?ev # h) (acc @ nws) = (h', r)" using Cons.prems by (simp add: Let_def)
    from Cons.IH [OF this] obtain evs where "h' = evs @ ?ev # h" "deletes_of evs = []" "described evs \<longleftrightarrow> \<not> isl r"
        "\<forall>ws. r = Inr ws \<longrightarrow> ws = (acc @ nws) @ answers evs" by blast
    then show ?thesis using Inr by (intro exI [of _ "evs @ [?ev]"]) simp
  qed
qed

lemma no_deletes_no_errors: "deletes_of evs = [] \<Longrightarrow> list_all (\<lambda>e. \<not> real_error e) evs"
proof (induction evs)
  case (Cons e evs)
  then show ?case by (cases e) (simp_all add: real_error_def)
qed simp

text \<open>One cycle: it deletes exactly the listed interfaces that should go and whose owner is known, and
  remembers exactly the other listed ones. A cycle whose description failed does nothing.\<close>

lemma cycle_spec:
  assumes "DeleteLeakedResources api manager vpc off m h = (m', h', c, errs)"
  shows "\<exists>evs. h' = evs @ h \<and>
    (if described evs
     then rev (deletes_of evs) = map LId (filter (\<lambda>nw. ShouldDeleteENI manager m (LId nw) \<and> owned nw) (answers evs)) \<and>
       (\<exists>seen. m' = UpdateAvailableENIsIfNeeded manager seen m \<and>
         set seen = LId ` {nw \<in> set (answers evs). \<not> ShouldDeleteENI manager m (LId nw)}) \<and>
       (errs = [] \<longleftrightarrow> list_all (\<lambda>e. \<not> real_error e) evs)
     else m' = m \<and> deletes_of evs = [] \<and> errs \<noteq> [])"
proof -
  let ?fs = "CommonNetworkInterfaceFilters @ [(''vpc-id'', [vpc])]"
  obtain h1 r where d: "(if \<not> off then describe_all api ?fs (GetENITagFilters manager m) h []
      else let res = DescribeNetworkInterfacesPages api h ?fs in (DescribeEvent ?fs res # h, res)) = (h1, r)" by (metis surj_pair)
  obtain evs1 where e1: "h1 = evs1 @ h" "deletes_of evs1 = []" "described evs1 \<longleftrightarrow> \<not> isl r" "\<forall>nws. r = Inr nws \<longrightarrow> nws = answers evs1"
  proof (cases off)
    case False
    then have "describe_all api ?fs (GetENITagFilters manager m) h [] = (h1, r)" using d by simp
    from describe_all_spec [OF this] show ?thesis using that by auto
  next
    case True
    then have "h1 = [DescribeEvent ?fs r] @ h" using d by (auto simp: Let_def)
    then show ?thesis using that [of "[DescribeEvent ?fs r]"] by (cases r) simp_all
  qed
  show ?thesis
  proof (cases r)
    case (Inl err)
    then show ?thesis using assms d e1 unfolding DeleteLeakedResources_def Let_def by (intro exI [of _ evs1]) auto
  next
    case (Inr nws)
    obtain h2 available c2 errs2 where l: "clean_loop api (ShouldDeleteENI manager m) nws h1 [] zero_counts [] = (h2, available, c2, errs2)"
      by (metis prod_cases4)
    obtain evs2 where e2: "h2 = evs2 @ h1" "rev (deletes_of evs2) = map LId (filter (\<lambda>nw. ShouldDeleteENI manager m (LId nw) \<and> owned nw) nws)"
        "set available = LId ` {nw \<in> set nws. \<not> ShouldDeleteENI manager m (LId nw)}"
        "errs2 = [] \<longleftrightarrow> list_all (\<lambda>e. \<not> real_error e) evs2"
      using clean_loop_spec [OF l] by (auto simp: setcompr_eq_image)
    have m': "m' = UpdateAvailableENIsIfNeeded manager available m" "h' = (evs2 @ evs1) @ h" "errs = errs2"
      using assms d l Inr e1(1) e2(1) unfolding DeleteLeakedResources_def Let_def by auto
    have silent: "described evs2" "answers evs2 = []" using clean_loop_silent [OF l [unfolded e2(1)]] by simp_all
    have calls: "rev (deletes_of (evs2 @ evs1)) = map LId (filter (\<lambda>nw. ShouldDeleteENI manager m (LId nw) \<and> owned nw) (answers (evs2 @ evs1)))"
      "set available = LId ` {nw \<in> set (answers (evs2 @ evs1)). \<not> ShouldDeleteENI manager m (LId nw)}" "described (evs2 @ evs1)"
      using e1(2-4) e2(2,3) Inr silent by simp_all
    have "list_all (\<lambda>e. \<not> real_error e) evs1" using e1(2) by (rule no_deletes_no_errors)
    then have "errs = [] \<longleftrightarrow> list_all (\<lambda>e. \<not> real_error e) (evs2 @ evs1)" using e2(4) m'(3) by simp
    then show ?thesis using m'(1,2) calls by (intro exI [of _ "evs2 @ evs1"]) (simp only: if_True simp_thms, blast)
  qed
qed

text \<open>The interfaces that a trace lists, by id.\<close>

abbreviation listed_in :: "clean_event list \<Rightarrow> string \<Rightarrow> bool" where
  "listed_in evs x \<equiv> x \<in> LId ` set (answers evs)"

section \<open>The interface of a cleaner that waits for a second look\<close>

text \<open>A cleaner that deletes exactly the interfaces it was told of at the end of the cycle before.\<close>

locale two_look_cleaner =
  fixes manager :: "'m interface_manager"
  assumes second_look: "ShouldDeleteENI manager (UpdateAvailableENIsIfNeeded manager seen m) x \<longleftrightarrow> x \<in> set seen"
begin

lemma second_cycle:
  assumes first: "DeleteLeakedResources api manager vpc off m h = (m1, evs1 @ h, c1, errs1)" "described evs1"
    and second: "DeleteLeakedResources api' manager vpc off m1 (evs1 @ h) = (m2, evs2 @ evs1 @ h, c2, errs2)" "described evs2"
  shows "set (deletes_of evs2) =
    LId ` {nw \<in> set (answers evs2). owned nw \<and> listed_in evs1 (LId nw) \<and> \<not> ShouldDeleteENI manager m (LId nw)}"
proof -
  obtain seen where "m1 = UpdateAvailableENIsIfNeeded manager seen m"
      "set seen = LId ` {nw \<in> set (answers evs1). \<not> ShouldDeleteENI manager m (LId nw)}"
    using cycle_spec [OF first(1)] first(2) by auto
  then have "\<And>x. ShouldDeleteENI manager m1 x \<longleftrightarrow> listed_in evs1 x \<and> \<not> ShouldDeleteENI manager m x"
    using second_look by auto
  moreover have "rev (deletes_of evs2) = map LId (filter (\<lambda>nw. ShouldDeleteENI manager m1 (LId nw) \<and> owned nw) (answers evs2))"
    using cycle_spec [OF second(1)] second(2) by auto
  then have "set (deletes_of evs2) = LId ` {nw \<in> set (answers evs2). ShouldDeleteENI manager m1 (LId nw) \<and> owned nw}"
    by (metis set_rev set_map set_filter)
  ultimately show ?thesis by auto
qed

end

interpretation cluster: two_look_cleaner ClusterENICleaner
  by unfold_locales (simp add: ClusterENICleaner_def)

section \<open>Properties\<close>

text \<open>Two cycles of the periodic cleaner whose descriptions succeed: the second asks EC2 to delete exactly
  the interfaces of known owner that EC2 listed as available in both and that the first cycle did not already mean to
  delete. So an interface that was just created and not attached yet survives, and a leaked one goes at
  the second look.\<close>

theorem cluster_cleaner_two_looks:
  assumes "DeleteLeakedResources api ClusterENICleaner vpc off m h = (m1, evs1 @ h, c1, errs1)" "described evs1"
    and "DeleteLeakedResources api' ClusterENICleaner vpc off m1 (evs1 @ h) = (m2, evs2 @ evs1 @ h, c2, errs2)" "described evs2"
  shows "set (deletes_of evs2) =
    LId ` {nw \<in> set (answers evs2). owned nw \<and> listed_in evs1 (LId nw) \<and> \<not> ShouldDeleteENI ClusterENICleaner m (LId nw)}"
  using assms by (rule cluster.second_cycle)

text \<open>An EC2 that always lists the same interface of the controller.\<close>

definition leaking_api :: clean_api where
  "leaking_api = \<lparr>DescribeNetworkInterfacesPages =
       (\<lambda>h f. Inr [\<lparr>LId = ''eni-1'', LTags = [(NetworkInterfaceOwnerTagKey, NetworkInterfaceOwnerTagValue)]\<rparr>]),
     CleanDeleteNetworkInterface = (\<lambda>h x. None)\<rparr>"

theorem cluster_cleaner_two_looks_witness:
  "\<exists>m1 evs1 m2 evs2. fst (DeleteLeakedResources leaking_api ClusterENICleaner ''vpc'' True (SetupCleaner ''c'') []) = m1 \<and>
     fst (snd (DeleteLeakedResources leaking_api ClusterENICleaner ''vpc'' True m1 evs1)) = evs2 @ evs1 \<and>
     set (deletes_of evs2) = {''eni-1''} \<and> deletes_of evs1 = []"
proof -
  let ?f = "CommonNetworkInterfaceFilters @ [(''vpc-id'', [''vpc''])]"
  let ?nw = "\<lparr>LId = ''eni-1'', LTags = [(NetworkInterfaceOwnerTagKey, NetworkInterfaceOwnerTagValue)]\<rparr>"
  let ?d = "DescribeEvent ?f (Inr [?nw])"
  let ?m1 = "\<lparr>ClusterName = ''c'', availableENIs = [''eni-1'']\<rparr>"
  have owned: "owned ?nw" by (simp add: owned_def GetTagKeyValueMap_def count_owner_def mput_Nil mget_Cons)
  have 1: "DeleteLeakedResources leaking_api ClusterENICleaner ''vpc'' True (SetupCleaner ''c'') [] = (?m1, [?d] @ [], zero_counts, [])"
    by (simp add: DeleteLeakedResources_def leaking_api_def ClusterENICleaner_def SetupCleaner_def Let_def)
  obtain c where 2: "DeleteLeakedResources leaking_api ClusterENICleaner ''vpc'' True ?m1 ([?d] @ []) =
      (?m1\<lparr>availableENIs := []\<rparr>, [DeleteEvent ''eni-1'' None, ?d] @ [?d] @ [], c, [])"
    by (simp add: DeleteLeakedResources_def leaking_api_def ClusterENICleaner_def Let_def GetTagKeyValueMap_def count_owner_def
        mput_Nil mget_Cons)
  have ans: "described [?d]" "answers [DeleteEvent ''eni-1'' None, ?d] = [?nw]" "described [DeleteEvent ''eni-1'' None, ?d]"
    by (simp_all add: described_def answers_def answer_def)
  have "set (deletes_of [DeleteEvent ''eni-1'' None, ?d]) = {''eni-1''}"
    using cluster_cleaner_two_looks [OF 1 ans(1) 2 ans(3)] ans(2) owned by (auto simp: ClusterENICleaner_def SetupCleaner_def)
  then show ?thesis
    using 1 2 by (intro exI [of _ ?m1] exI [of _ "[?d]"] exI [of _ "[DeleteEvent ''eni-1'' None, ?d]"]) auto
qed

text \<open>The cleaner of a terminating node asks EC2 to delete every interface of known owner that EC2 lists for the
  node; its answer is an error exactly if EC2 refuses one of them for another reason than that it is gone, or the description failed.\<close>

theorem node_cleaner_deletes_all:
  assumes "DeleteLeakedResources api NodeTerminationCleaner vpc off node h = (node', evs @ h, c, errs)" "described evs"
  shows "rev (deletes_of evs) = map LId (filter owned (answers evs)) \<and>
    (errs = [] \<longleftrightarrow> list_all (\<lambda>e. \<not> real_error e) evs)"
  using cycle_spec [OF assms(1)] assms(2) by (auto simp: NodeTerminationCleaner_def)

theorem node_cleaner_deletes_all_witness:
  "\<exists>evs. fst (snd (DeleteLeakedResources leaking_api NodeTerminationCleaner ''vpc'' False ''i-1'' [])) = evs @ [] \<and>
     rev (deletes_of evs) = [''eni-1''] \<and> list_all (\<lambda>e. \<not> real_error e) evs"
proof -
  let ?f = "CommonNetworkInterfaceFilters @ [(''vpc-id'', [''vpc''])] @ [(''tag:'' @ NetworkInterfaceNodeIDKey, [''i-1''])]"
  let ?nw = "\<lparr>LId = ''eni-1'', LTags = [(NetworkInterfaceOwnerTagKey, NetworkInterfaceOwnerTagValue)]\<rparr>"
  let ?evs = "[DeleteEvent ''eni-1'' None, DescribeEvent ?f (Inr [?nw])]"
  have owned: "owned ?nw" by (simp add: owned_def GetTagKeyValueMap_def count_owner_def mput_Nil mget_Cons)
  obtain c where 1: "DeleteLeakedResources leaking_api NodeTerminationCleaner ''vpc'' False ''i-1'' [] = (''i-1'', ?evs @ [], c, [])"
    by (simp add: DeleteLeakedResources_def leaking_api_def NodeTerminationCleaner_def Let_def GetTagKeyValueMap_def count_owner_def
        mput_Nil mget_Cons)
  have "described ?evs" "answers ?evs = [?nw]" by (simp_all add: described_def answers_def answer_def)
  with node_cleaner_deletes_all [OF 1] have "rev (deletes_of ?evs) = [''eni-1''] \<and> list_all (\<lambda>e. \<not> real_error e) ?evs"
    using owned by simp
  then show ?thesis using 1 by (intro exI [of _ ?evs]) simp
qed

end
