(* ===== verification/Pod_Controller.thy ===== *)
theory Pod_Controller
  imports Handler_Props Ip_Provider Node_Manager
begin

text \<open>
  \<open>controllers/core/pod_controller.go\<close> and the tables of \<open>pkg/resource/manager.go\<close>: an event of a pod, from the
  request to the calls of the resource handlers. The resource manager holds a handler and a
  provider per resource; the warm handlers act on the pools of their provider, so both are one
  entry here. The secondary IP and the prefix provider annotate the pod under the same name.

  The cache of pods, the answers of Kubernetes, the clock and the node manager are arguments; \<open>ord\<close> is
  the order in which Go ranges over the map of the pod's resources. \<open>None\<close> is a panic.
\<close>

section \<open>The resource manager\<close>

datatype resource_entry = WarmResource string warm_provider | OnDemandResource

type_synonym resource_manager = "(string, resource_entry) gomap"

datatype resource_manager_error = NoResourceConfiguration string | ResourceNotDefined string

text \<open>The workers are new, so that starting them cannot fail.\<close>

fun new_resources :: "string list \<Rightarrow> resource_manager \<Rightarrow> resource_manager_error + resource_manager" where
  "new_resources [] resources = Inr resources"
| "new_resources (resourceName # rest) resources =
     (case mget LoadResourceConfig resourceName of
        None \<Rightarrow> Inl (NoResourceConfiguration resourceName)
      | Some resourceConfig \<Rightarrow>
          if resourceName = ResourceNameIPAddress then
            new_resources rest (mput resources resourceName (WarmResource resourceName (NewWarmProvider resourceConfig)))
          else if resourceName = ResourceNameIPAddressFromPrefix then
            new_resources rest (mput resources resourceName (WarmResource ResourceNameIPAddress (NewWarmProvider resourceConfig)))
          else if resourceName = ResourceNamePodENI then
            new_resources rest (mput resources resourceName OnDemandResource)
          else Inl (ResourceNotDefined resourceName))"

definition NewResourceManager :: "string list \<Rightarrow> resource_manager_error + resource_manager" where
  "NewResourceManager resourceNames = new_resources resourceNames []"

definition GetResource :: "resource_manager \<Rightarrow> string \<Rightarrow> resource_entry option" where
  "GetResource rm resourceName = mget rm resourceName"

text \<open>\<open>prefixProvider.GetPool\<close>; the branch provider has no pools.\<close>

definition provider_pool :: "resource_entry \<Rightarrow> string \<Rightarrow> pool option" where
  "provider_pool e node = (case e of WarmResource key prov \<Rightarrow> GetPool (instanceProviderAndPool prov) node | OnDemandResource \<Rightarrow> None)"

section \<open>The resources of a pod\<close>

definition add_request :: "string \<times> int option \<Rightarrow> (string, int) gomap \<Rightarrow> (string, int) gomap" where
  "add_request r aggregateResources =
     (case r of
        (resourceName, None) \<Rightarrow> aggregateResources
      | (resourceName, Some quantity) \<Rightarrow>
          mput aggregateResources resourceName (i64 (mgetd 0 aggregateResources resourceName + quantity)))"

definition getAggregateResources :: "pod \<Rightarrow> (string, int) gomap" where
  "getAggregateResources pod = fold (\<lambda>c. fold add_request (Requests c)) (PodContainers pod) []"

section \<open>The controller\<close>

record pod_request =
  DeletedObject :: "pod option"
  RequestName :: string

definition PodRequeueRequest :: ctrl_result where
  "PodRequeueRequest = \<lparr>Requeue = True, RequeueAfter = 10 ^ 9\<rparr>"

definition updateResourceName ::
  "limits_table \<Rightarrow> k8s_api \<Rightarrow> resource_manager \<Rightarrow> bool \<Rightarrow> pod \<Rightarrow> node_obj option \<Rightarrow> string option" where
  "updateResourceName Limits k8s rm isDeletionEvent pod node =
     (case GetResource rm ResourceNameIPAddressFromPrefix of
        None \<Rightarrow> Some ResourceNameIPAddress
      | Some prefixProvider \<Rightarrow>
          if isDeletionEvent then
            (case provider_pool prefixProvider (PodNodeName pod) of
               None \<Rightarrow> Some ResourceNameIPAddress
             | Some p \<Rightarrow>
                 Some (if snd (GetAssignedResource (PodUID pod) p) then ResourceNameIPAddressFromPrefix
                       else ResourceNameIPAddress))
          else if IsWindowsPrefixDelegationEnabled k8s then
            (case node of
               None \<Rightarrow> None
             | Some n \<Rightarrow> Some (if NodeIsNitroInstance Limits n then ResourceNameIPAddressFromPrefix else ResourceNameIPAddress))
          else Some ResourceNameIPAddress)"

text \<open>One call of a handler: the entry afterwards, the effects, the result and the error.\<close>

definition handle_resource ::
  "k8s_api \<Rightarrow> int \<Rightarrow> bool \<Rightarrow> int \<Rightarrow> pod \<Rightarrow> resource_entry \<Rightarrow>
   resource_entry \<times> effect list \<times> ctrl_result \<times> handler_error option" where
  "handle_resource k8s now deleting totalCount pod e =
     (case e of
        WarmResource key prov \<Rightarrow>
          (case (if deleting then HandleDelete key now pod (instanceProviderAndPool prov)
                 else HandleCreate key k8s now pod (instanceProviderAndPool prov)) of
             (pools, effs, result, err) \<Rightarrow> (WarmResource key (prov\<lparr>instanceProviderAndPool := pools\<rparr>), effs, result, err))
      | OnDemandResource \<Rightarrow>
          (case (if deleting then on_demand_HandleDelete pod else on_demand_HandleCreate totalCount pod) of
             (effs, result) \<Rightarrow> (OnDemandResource, effs, result, None)))"

text \<open>The loop over the resources; the clock is read at every resource.\<close>

fun resources_loop ::
  "limits_table \<Rightarrow> k8s_api \<Rightarrow> (nat \<Rightarrow> int) \<Rightarrow> bool \<Rightarrow> pod \<Rightarrow> node_obj option \<Rightarrow> (string \<times> int) list \<Rightarrow> nat \<Rightarrow>
   resource_manager \<Rightarrow> effect list \<Rightarrow> (resource_manager \<times> effect list \<times> ctrl_result \<times> handler_error option) option" where
  "resources_loop Limits k8s now deleting pod node [] i rm effs = Some (rm, effs, no_requeue, None)"
| "resources_loop Limits k8s now deleting pod node ((resource, totalCount) # rest) i rm effs =
     (case (if resource = ResourceNameIPAddress then updateResourceName Limits k8s rm deleting pod node else Some resource) of
        None \<Rightarrow> None
      | Some resourceName \<Rightarrow>
         (case GetResource rm resourceName of
            None \<Rightarrow> resources_loop Limits k8s now deleting pod node rest (Suc i) rm effs
          | Some e \<Rightarrow>
             (case handle_resource k8s (now i) deleting totalCount pod e of
                (e', effs', result, err) \<Rightarrow>
                  if err \<noteq> None \<or> Requeue result then Some (mput rm resourceName e', effs @ effs', result, err)
                  else resources_loop Limits k8s now deleting pod node rest (Suc i) (mput rm resourceName e') (effs @ effs'))))"

definition isNodeExistingInCluster :: "k8s_api \<Rightarrow> pod \<Rightarrow> bool" where
  "isNodeExistingInCluster k8s pod = NodeExists k8s (PodNodeName pod)"

text \<open>What an event does before the resources are looked at: an early return, or whether the pod goes away.\<close>

definition pod_event_gate :: "k8s_api \<Rightarrow> bool \<Rightarrow> pod \<Rightarrow> node_obj option \<Rightarrow> ctrl_result + bool" where
  "pod_event_gate k8s isDeleteEvent pod node =
     (if PodNodeName pod = '''' then Inl no_requeue
      else if \<not> isDeleteEvent \<and> isNodeExistingInCluster k8s pod then
        (case node of
           None \<Rightarrow> Inl PodRequeueRequest
         | Some n \<Rightarrow>
             if \<not> managed n then
               (if PodHasENIRequest ResourceNamePodENI (Some pod) then Inl PodRequeueRequest else Inl no_requeue)
             else if \<not> ready n then Inl PodRequeueRequest
             else Inr (pod_completed pod))
      else if (case node of None \<Rightarrow> False | Some n \<Rightarrow> \<not> managed n) then Inl no_requeue
      else Inr True)"

definition cached_node :: "node_manager \<Rightarrow> string \<Rightarrow> node_obj option" where
  "cached_node m node = map_option (\<lambda>a. nodes m ! a) (GetNode node m)"

definition Reconcile ::
  "limits_table \<Rightarrow> ((string, int) gomap \<Rightarrow> (string \<times> int) list) \<Rightarrow> (string \<Rightarrow> string + pod option) \<Rightarrow> k8s_api \<Rightarrow>
   (nat \<Rightarrow> int) \<Rightarrow> node_manager \<Rightarrow> pod_request \<Rightarrow> resource_manager \<Rightarrow>
   (resource_manager \<times> effect list \<times> ctrl_result \<times> handler_error option) option" where
  "Reconcile Limits ord GetByKey k8s now m request rm =
     (case (case DeletedObject request of
              Some pod \<Rightarrow> Some pod
            | None \<Rightarrow> (case GetByKey (RequestName request) of Inl err \<Rightarrow> None | Inr found \<Rightarrow> found)) of
        None \<Rightarrow> Some (rm, [], no_requeue, None)
      | Some pod \<Rightarrow>
         (let node = cached_node m (PodNodeName pod) in
          case pod_event_gate k8s (DeletedObject request \<noteq> None) pod node of
            Inl result \<Rightarrow> Some (rm, [], result, None)
          | Inr deleting \<Rightarrow>
              resources_loop Limits k8s now deleting pod node (ord (getAggregateResources pod)) 0 rm []))"

end
