(* ===== verification/Pod_Props.thy ===== *)
theory Pod_Props
  imports Pod_Controller
begin

text \<open>
  What an event of a pod does to the pools: the aggregated requests against their specification, the
  conditions under which an event is put off, and the life of an address from the event that
  assigns it to the event that gives it back, whatever the provider that is active at the time of
  the second event.
\<close>

section \<open>The aggregated requests\<close>

lemma i64_add_i64: "i64 (i64 a + b) = i64 (a + b)"
proof -
  have "(i64 a + b + 2 ^ 63) mod 2 ^ 64 = ((a + 2 ^ 63) mod 2 ^ 64 + b) mod 2 ^ 64" by (simp add: i64_def)
  also have "\<dots> = (a + 2 ^ 63 + b) mod 2 ^ 64" by (rule mod_add_left_eq)
  also have "\<dots> = (a + b + 2 ^ 63) mod 2 ^ 64" by (simp add: algebra_simps)
  finally show ?thesis by (simp add: i64_def)
qed

definition quantities :: "(string \<times> int option) list \<Rightarrow> string \<Rightarrow> int list" where
  "quantities rs res = [q. (r, Some q) \<leftarrow> rs, r = res]"

lemma quantities_simps [simp]:
  "quantities [] res = []" "quantities (xs @ ys) res = quantities xs res @ quantities ys res"
  "quantities ((r, None) # rs) res = quantities rs res"
  "quantities ((r, Some q) # rs) res = (if r = res then q # quantities rs res else quantities rs res)"
  by (simp_all add: quantities_def)

lemma add_requests:
  "mget (fold add_request rs m) res =
     (if quantities rs res = [] then mget m res else Some (i64 (mgetd 0 m res + sum_list (quantities rs res))))"
proof (induction rs arbitrary: m)
  case (Cons r rs)
  obtain name q where r: "r = (name, q)" by fastforce
  show ?case
  proof (cases q)
    case None
    then show ?thesis using Cons r by (simp add: add_request_def)
  next
    case (Some v)
    then show ?thesis using Cons [of "add_request r m"] r
      by (auto simp: add_request_def i64_add_i64 mgetd_def add.assoc split: option.splits)
  qed
qed simp

lemma aggregate_fold: "fold (\<lambda>c. fold add_request (Requests c)) cs m = fold add_request (concat (map Requests cs)) m"
  by (induction cs arbitrary: m) simp_all

lemma aggregate_wf: "wf_map m \<Longrightarrow> wf_map (fold add_request rs m)"
proof (induction rs arbitrary: m)
  case (Cons r rs)
  then show ?case by (cases r; cases "snd r") (simp_all add: add_request_def)
qed simp

text \<open>The aggregated resources of a pod against their specification: a resource is listed exactly if some
  container requests it in a quantity that is an integer, and its count is the sum of these
  quantities over all containers, modulo the width of the integers.\<close>

theorem aggregate_resources_spec:
  "mget (getAggregateResources pod) res =
     (let qs = concat (map (\<lambda>c. quantities (Requests c) res) (PodContainers pod))
      in if qs = [] then None else Some (i64 (sum_list qs)))"
proof -
  have q: "quantities (concat (map Requests cs)) res = concat (map (\<lambda>c. quantities (Requests c) res) cs)" for cs
    by (induction cs) simp_all
  show ?thesis
    unfolding getAggregateResources_def aggregate_fold add_requests Let_def q by (simp add: mgetd_def)
qed

section \<open>When an event is put off\<close>

lemma update_name_total: "deleting \<or> node \<noteq> None \<Longrightarrow> updateResourceName Limits k8s rm deleting pod node \<noteq> None"
  by (auto simp: updateResourceName_def split: option.splits)

lemma resources_loop_total:
  "deleting \<or> node \<noteq> None \<Longrightarrow> resources_loop Limits k8s now deleting pod node rs i rm effs \<noteq> None"
proof (induction rs arbitrary: i rm effs)
  case (Cons r rs)
  obtain res n where r: "r = (res, n)" by fastforce
  show ?case using Cons update_name_total [OF Cons.prems, of Limits k8s rm pod]
    by (auto simp: r split: option.splits prod.splits)
qed simp

lemma gate_create_node: "pod_event_gate k8s del pod node = Inr deleting \<Longrightarrow> deleting \<or> node \<noteq> None"
  by (auto simp: pod_event_gate_def split: if_splits option.splits)

text \<open>C22. \<open>Reconcile\<close> never uses a node that is not there: an event that creates resources has the node of its pod in
  the cache, whatever the state of the caches and of the cluster.\<close>

theorem reconcile_never_panics: "Reconcile Limits ord GetByKey k8s now m request rm \<noteq> None"
proof -
  have "(let node = cached_node m (PodNodeName pod) in
      case pod_event_gate k8s del pod node of
        Inl result \<Rightarrow> Some (rm, [], result, None)
      | Inr deleting \<Rightarrow> resources_loop Limits k8s now deleting pod node (ord (getAggregateResources pod)) 0 rm []) \<noteq> None" for pod del
    using gate_create_node [of k8s del pod "cached_node m (PodNodeName pod)"]
    by (cases "pod_event_gate k8s del pod (cached_node m (PodNodeName pod))")
      (simp_all add: Let_def resources_loop_total del: not_None_eq)
  then show ?thesis by (simp add: Reconcile_def split: option.split)
qed

text \<open>A Windows node with a secondary IP pool, in the cache of the node manager, and a pod that asks for an address.\<close>

definition sample_ip_pod :: pod where
  "sample_ip_pod = sample_pod_a\<lparr>PodContainers := [\<lparr>Requests = [(ResourceNameIPAddress, Some 1), (''cpu'', None)]\<rparr>]\<rparr>"

definition sample_rm :: "pool \<Rightarrow> resource_manager" where
  "sample_rm p = [(ResourceNameIPAddress, WarmResource ResourceNameIPAddress \<lparr>wpConfig = None, instanceProviderAndPool = sample_pools_map p\<rparr>),
     (ResourceNameIPAddressFromPrefix, WarmResource ResourceNameIPAddress \<lparr>wpConfig = None, instanceProviderAndPool = []\<rparr>)]"

definition sample_nodes :: "bool \<Rightarrow> node_manager" where
  "sample_nodes r = \<lparr>nodes = [(NewManagedNode ''node-1'' ''i-1'' OSWindows)\<lparr>ready := r\<rparr>], dataStore = [(''node-1'', 0)], stopHealthCheckAt = None\<rparr>"

abbreviation sample_event :: pod_request where
  "sample_event \<equiv> \<lparr>DeletedObject = None, RequestName = ''ns/p''\<rparr>"

lemma sample_ip_pod_simps [simp]:
  "PodNodeName sample_ip_pod = ''node-1''" "PodUID sample_ip_pod = ''pod-a''" "PodNamespace sample_ip_pod = ''ns''" "PodName sample_ip_pod = ''p''"
  "PodAnnotations sample_ip_pod = []" "PodPhase sample_ip_pod = PodRunning"
  by (simp_all add: sample_ip_pod_def sample_pod_a_def)

lemma sample_nodes_get [simp]: "cached_node (sample_nodes r) ''node-1'' = Some ((NewManagedNode ''node-1'' ''i-1'' OSWindows)\<lparr>ready := r\<rparr>)"
  by (simp add: cached_node_def sample_nodes_def GetNode_def mget_Cons)

text \<open>An event of a pod that is not deleted and whose node is in the cluster does nothing until the node is
  ready: it comes back after a second if the node is not in the cache yet, is not ready, or is not
  managed although the pod asks for a branch interface.\<close>

theorem unready_node_waits:
  assumes "DeletedObject request = None" "GetByKey (RequestName request) = Inr (Some pod)" "PodNodeName pod \<noteq> ''''"
    and "NodeExists k8s (PodNodeName pod)"
    and "\<forall>n. cached_node m (PodNodeName pod) = Some n \<longrightarrow> \<not> (managed n \<and> ready n)"
  shows "Reconcile Limits ord GetByKey k8s now m request rm =
    Some (rm, [], if \<exists>n. cached_node m (PodNodeName pod) = Some n \<and> \<not> managed n \<and> \<not> PodHasENIRequest ResourceNamePodENI (Some pod)
                  then no_requeue else PodRequeueRequest, None)"
  using assms
  by (auto simp: Reconcile_def Let_def pod_event_gate_def isNodeExistingInCluster_def split: option.splits)

theorem unready_node_waits_witness:
  "Reconcile sample_limits id (\<lambda>k. Inr (Some sample_ip_pod)) sample_k8s (\<lambda>_. 5) (sample_nodes False) sample_event (sample_rm sample_pool) =
     Some (sample_rm sample_pool, [], PodRequeueRequest, None)"
  using unready_node_waits [of sample_event "\<lambda>k. Inr (Some sample_ip_pod)" sample_ip_pod sample_k8s "sample_nodes False" sample_limits id
      "\<lambda>_. 5" "sample_rm sample_pool"]
  by (simp add: sample_k8s_def NewManagedNode_def)

section \<open>Giving an address back\<close>

text \<open>The address a resource has assigned to a pod of a node.\<close>

definition assigned :: "resource_manager \<Rightarrow> string \<Rightarrow> string \<Rightarrow> string \<Rightarrow> string \<times> bool" where
  "assigned rm res node uid =
     (case GetResource rm res of
        None \<Rightarrow> ('''', False)
      | Some e \<Rightarrow> (case provider_pool e node of None \<Rightarrow> ('''', False) | Some p \<Rightarrow> GetAssignedResource uid p))"

text \<open>The invariant of the resource manager: only the two address resources have pools, both annotate under one name, and
  every pool keeps its own invariant.\<close>

definition rm_inv :: "resource_manager \<Rightarrow> bool" where
  "rm_inv rm \<longleftrightarrow> (\<forall>res key prov. GetResource rm res = Some (WarmResource key prov) \<longrightarrow>
     key = ResourceNameIPAddress \<and> res \<in> {ResourceNameIPAddress, ResourceNameIPAddressFromPrefix} \<and>
     (\<forall>node p. GetPool (instanceProviderAndPool prov) node = Some p \<longrightarrow> pool_inv p))"

lemma assigned_warm:
  "GetResource rm res = Some (WarmResource key prov) \<Longrightarrow>
   assigned rm res node q = (case GetPool (instanceProviderAndPool prov) node of None \<Rightarrow> ('''', False) | Some p \<Rightarrow> GetAssignedResource q p)"
  by (simp add: assigned_def provider_pool_def)

lemma assigned_put_other: "r \<noteq> res \<Longrightarrow> assigned (mput rm res e) r node q = assigned rm r node q"
  by (simp add: assigned_def GetResource_def)

lemma GetResource_put: "GetResource (mput rm res e) res = Some e"
  by (simp add: GetResource_def)

lemma reconcilePool_inv: "pool_inv p \<Longrightarrow> reconcilePool b p = (p', effs) \<Longrightarrow> pool_inv p'"
  using ReconcilePool_inv by (auto simp: reconcilePool_def split: if_splits prod.splits)

lemma HandleDelete_result: "HandleDelete key now pod m = (m', effs, result, err) \<Longrightarrow> result = no_requeue \<and> err = None"
  by (auto simp: HandleDelete_def Let_def split: option.splits prod.splits if_splits)

lemma HandleDelete_effs: "HandleDelete key now pod m = (m', effs, result, err) \<Longrightarrow> e \<in> set effs \<Longrightarrow> \<not> is_AnnotatePodCall e"
  using reconcilePool_effs by (fastforce simp: HandleDelete_def Let_def split: option.splits prod.splits if_splits)

text \<open>The annotation of the pod, if it has one, is the address the pool has assigned to it.\<close>

definition agrees :: "pod \<Rightarrow> string \<times> bool \<Rightarrow> bool" where
  "agrees pod a \<longleftrightarrow> (snd a \<longrightarrow> mget (PodAnnotations pod) ResourceNameIPAddress \<in> {None, Some (fst a)})"

lemma delete_outcome:
  assumes "pool_inv p" "GetPool m (PodNodeName pod) = Some p"
    and "HandleDelete ResourceNameIPAddress now pod m = (m', effs, result, err)"
  obtains p' where "GetPool m' (PodNodeName pod) = Some p'" "pool_inv p'"
    "\<And>q. q \<noteq> PodUID pod \<Longrightarrow> GetAssignedResource q p' = GetAssignedResource q p"
    "agrees pod (GetAssignedResource (PodUID pod) p) \<Longrightarrow> GetAssignedResource (PodUID pod) p' = ('''', False)"
    "GetAssignedResource (PodUID pod) p' \<in> {GetAssignedResource (PodUID pod) p, ('''', False)}"
proof -
  let ?a = "case mget (PodAnnotations pod) ResourceNameIPAddress of Some r \<Rightarrow> (r, True) | None \<Rightarrow> GetAssignedResource (PodUID pod) p"
  obtain x present where a: "?a = (x, present)" by fastforce
  note gp = GetPool_set_pool [OF assms(2)]
  show thesis
  proof (cases present)
    case False
    then have "m' = m" "\<not> snd (GetAssignedResource (PodUID pod) p)" using assms(2,3) a
      by (auto simp: HandleDelete_def Let_def split: option.splits)
    then show thesis using that [of p] assms(1,2) wp.lookup_none by blast
  next
    case True
    obtain p1 b oe where f: "FreeResource now (PodUID pod) x p = (p1, b, oe)" by (metis prod_cases3)
    show thesis
    proof (cases oe)
      case (Some e)
      have "GetPool m' (PodNodeName pod) = Some p"
        using assms(2,3) a True f Some gp(1) wp.free_error [OF f [unfolded Some]] by (auto simp: HandleDelete_def Let_def)
      moreover have "GetAssignedResource (PodUID pod) p \<noteq> (x, True)"
        using wp.free_exact [OF assms(1), of now "PodUID pod" x] f Some by auto
      then have "\<not> snd (GetAssignedResource (PodUID pod) p)" if "agrees pod (GetAssignedResource (PodUID pod) p)"
        using that a by (cases "GetAssignedResource (PodUID pod) p") (auto simp: agrees_def split: option.splits)
      ultimately show thesis using that [of p] assms(1) wp.lookup_none by blast
    next
      case None
      obtain p2 jobs where rc: "reconcilePool b p1 = (p2, jobs)" by fastforce
      have inv1: "pool_inv p1" using wp.free_inv [OF assms(1) f] .
      have "GetPool m' (PodNodeName pod) = Some p2"
        using assms(2,3) a True f None rc gp(1) by (auto simp: HandleDelete_def Let_def)
      then show thesis
        using that [of p2] reconcilePool_inv [OF inv1 rc] reconcilePool_lookup [OF inv1 rc] wp.free_ok [OF assms(1) f [unfolded None]]
        by auto
    qed
  qed
qed

lemma handle_delete_entry:
  assumes "rm_inv rm" "GetResource rm res = Some e" "handle_resource k8s t True n pod e = (e', effs, result, err)"
  shows "rm_inv (mput rm res e') \<and> result = no_requeue \<and> err = None \<and> (\<forall>ef \<in> set effs. \<not> is_AnnotatePodCall ef) \<and>
    (\<forall>r node q. r \<noteq> res \<or> node \<noteq> PodNodeName pod \<or> q \<noteq> PodUID pod \<longrightarrow> assigned (mput rm res e') r node q = assigned rm r node q) \<and>
    assigned (mput rm res e') res (PodNodeName pod) (PodUID pod) \<in> {assigned rm res (PodNodeName pod) (PodUID pod), ('''', False)} \<and>
    (agrees pod (assigned rm res (PodNodeName pod) (PodUID pod)) \<longrightarrow>
      assigned (mput rm res e') res (PodNodeName pod) (PodUID pod) = ('''', False))"
proof (cases e)
  case (WarmResource key prov)
  then have key: "key = ResourceNameIPAddress" "res \<in> {ResourceNameIPAddress, ResourceNameIPAddressFromPrefix}"
    and pools: "\<And>node p. GetPool (instanceProviderAndPool prov) node = Some p \<Longrightarrow> pool_inv p"
    using assms(1,2) unfolding rm_inv_def by blast+
  obtain m' where h: "HandleDelete ResourceNameIPAddress t pod (instanceProviderAndPool prov) = (m', effs, result, err)"
    and e': "e' = WarmResource key (prov\<lparr>instanceProviderAndPool := m'\<rparr>)"
    using assms(3) WarmResource key(1) by (auto simp: handle_resource_def split: prod.splits)
  have other: "GetPool m' node = GetPool (instanceProviderAndPool prov) node" if "node \<noteq> PodNodeName pod" for node
    using h that GetPool_set_pool(2) by (auto simp: HandleDelete_def GetPool_def Let_def split: option.splits prod.splits if_splits)
  note old = assigned_warm [OF assms(2) [unfolded WarmResource]]
    and new = assigned_warm [OF GetResource_put, of rm res key "prov\<lparr>instanceProviderAndPool := m'\<rparr>", folded e', simplified]
    and diff = assigned_put_other [of _ res rm e']
  have res: "result = no_requeue \<and> err = None" "\<forall>ef \<in> set effs. \<not> is_AnnotatePodCall ef"
    using HandleDelete_result [OF h] HandleDelete_effs [OF h] by blast+
  show ?thesis
  proof (cases "GetPool (instanceProviderAndPool prov) (PodNodeName pod)")
    case None
    then have "m' = instanceProviderAndPool prov" using h by (simp add: HandleDelete_def)
    then have "rm_inv (mput rm res e')" "assigned (mput rm res e') res node q = assigned rm res node q" for node q
      using assms(1,2) WarmResource e' new old by (auto simp: rm_inv_def GetResource_def)
    then have "rm_inv (mput rm res e')" "\<And>r node q. assigned (mput rm res e') r node q = assigned rm r node q"
      using diff by metis+
    then show ?thesis using res old None by simp
  next
    case (Some p)
    obtain p' where p': "GetPool m' (PodNodeName pod) = Some p'" "pool_inv p'"
      "\<And>q. q \<noteq> PodUID pod \<Longrightarrow> GetAssignedResource q p' = GetAssignedResource q p"
      "agrees pod (GetAssignedResource (PodUID pod) p) \<Longrightarrow> GetAssignedResource (PodUID pod) p' = ('''', False)"
      "GetAssignedResource (PodUID pod) p' \<in> {GetAssignedResource (PodUID pod) p, ('''', False)}"
      using delete_outcome [OF pools [OF Some] Some h] by blast
    have "pool_inv p2" if "GetPool m' node = Some p2" for node p2
      using that p'(1,2) other pools by (cases "node = PodNodeName pod") auto
    then have "rm_inv (mput rm res e')" using assms(1) key e' by (auto simp: rm_inv_def GetResource_def)
    moreover have "assigned (mput rm res e') r node q = assigned rm r node q"
      if "r \<noteq> res \<or> node \<noteq> PodNodeName pod \<or> q \<noteq> PodUID pod" for r node q
      using that diff new old other p'(1,3) Some by (cases "r = res"; cases "node = PodNodeName pod") auto
    ultimately show ?thesis using res new old p'(1,4,5) Some by auto
  qed
next
  case OnDemandResource
  then have "e' = OnDemandResource" "result = no_requeue" "err = None" "\<forall>ef \<in> set effs. \<not> is_AnnotatePodCall ef"
    using assms(3) by (auto simp: handle_resource_def on_demand_HandleDelete_def)
  moreover have "rm_inv (mput rm res OnDemandResource)" using assms(1) by (auto simp: rm_inv_def GetResource_def)
  moreover have "assigned (mput rm res OnDemandResource) r node q = assigned rm r node q" for r node q
    using assms(2) OnDemandResource by (auto simp: assigned_def GetResource_def provider_pool_def)
  ultimately show ?thesis using assms(2) OnDemandResource by (simp add: assigned_def provider_pool_def)
qed

text \<open>At most one resource has an address for the pod, and the pod is annotated with nothing else.\<close>

definition one_owner :: "resource_manager \<Rightarrow> pod \<Rightarrow> bool" where
  "one_owner rm pod \<longleftrightarrow>
     (\<forall>r. agrees pod (assigned rm r (PodNodeName pod) (PodUID pod))) \<and>
     (\<forall>r r'. snd (assigned rm r (PodNodeName pod) (PodUID pod)) \<and> snd (assigned rm r' (PodNodeName pod) (PodUID pod)) \<longrightarrow> r = r')"

lemma assigned_none: "\<not> snd (assigned rm r node uid) \<Longrightarrow> assigned rm r node uid = ('''', False)"
  using wp.lookup_none by (auto simp: assigned_def split: option.splits)

lemma rm_inv_resource: "rm_inv rm \<Longrightarrow> snd (assigned rm r node uid) \<Longrightarrow> r \<in> {ResourceNameIPAddress, ResourceNameIPAddressFromPrefix}"
  by (auto simp: rm_inv_def assigned_def provider_pool_def split: option.splits resource_entry.splits)

text \<open>On deletion the name is that of the resource that has assigned the address.\<close>

lemma delete_name:
  "updateResourceName Limits k8s rm True pod node =
     Some (if snd (assigned rm ResourceNameIPAddressFromPrefix (PodNodeName pod) (PodUID pod))
           then ResourceNameIPAddressFromPrefix else ResourceNameIPAddress)"
  by (simp add: updateResourceName_def assigned_def split: option.split)

lemma delete_loop:
  assumes "rm_inv rm" "one_owner rm pod"
  shows "\<exists>rm' ext. resources_loop Limits k8s now True pod node rs i rm effs = Some (rm', effs @ ext, no_requeue, None) \<and>
    rm_inv rm' \<and> (\<forall>ef \<in> set ext. \<not> is_AnnotatePodCall ef) \<and>
    (\<forall>r nd q. nd \<noteq> PodNodeName pod \<or> q \<noteq> PodUID pod \<longrightarrow> assigned rm' r nd q = assigned rm r nd q) \<and>
    (\<forall>r. assigned rm' r (PodNodeName pod) (PodUID pod) \<in> {assigned rm r (PodNodeName pod) (PodUID pod), ('''', False)}) \<and>
    (ResourceNameIPAddress \<in> fst ` set rs \<longrightarrow> (\<forall>r. \<not> snd (assigned rm' r (PodNodeName pod) (PodUID pod))))"
  using assms
proof (induction rs arbitrary: i rm effs)
  case (Cons rc rs)
  obtain resource n where rc: "rc = (resource, n)" by fastforce
  let ?own = "\<lambda>rm r. assigned rm r (PodNodeName pod) (PodUID pod)"
  define res where "res = (if resource = ResourceNameIPAddress
    then if snd (?own rm ResourceNameIPAddressFromPrefix) then ResourceNameIPAddressFromPrefix else ResourceNameIPAddress
    else resource)"
  have nm: "(if resource = ResourceNameIPAddress then updateResourceName Limits k8s rm True pod node else Some resource) = Some res"
    by (simp add: res_def delete_name)
  obtain rm1 ext1 where step: "resources_loop Limits k8s now True pod node (rc # rs) i rm effs =
        resources_loop Limits k8s now True pod node rs (Suc i) rm1 (effs @ ext1)"
      "rm_inv rm1" "\<forall>ef \<in> set ext1. \<not> is_AnnotatePodCall ef"
      "\<forall>r nd q. r \<noteq> res \<or> nd \<noteq> PodNodeName pod \<or> q \<noteq> PodUID pod \<longrightarrow> assigned rm1 r nd q = assigned rm r nd q"
      "?own rm1 res = ('''', False)"
  proof (cases "GetResource rm res")
    case None
    then show thesis using that [of rm "[]"] Cons.prems(1) nm rc by (simp add: assigned_def)
  next
    case (Some e)
    obtain e' effs' result err where h: "handle_resource k8s (now i) True n pod e = (e', effs', result, err)" by (metis prod_cases4)
    have "agrees pod (?own rm res)" using Cons.prems(2) by (simp add: one_owner_def)
    then show thesis using that [of "mput rm res e'" effs'] handle_delete_entry [OF Cons.prems(1) Some h] nm rc Some h
      by (simp add: no_requeue_def)
  qed
  have left: "?own rm1 r \<in> {?own rm r, ('''', False)}" for r using step(4,5) by (cases "r = res") auto
  then have one: "one_owner rm1 pod" using Cons.prems(2) unfolding one_owner_def agrees_def
    by (metis (no_types, lifting) empty_iff insert_iff snd_conv)
  obtain rm' ext where t: "resources_loop Limits k8s now True pod node rs (Suc i) rm1 (effs @ ext1) = Some (rm', (effs @ ext1) @ ext, no_requeue, None)"
    "rm_inv rm'" "\<forall>ef \<in> set ext. \<not> is_AnnotatePodCall ef"
    "\<forall>r nd q. nd \<noteq> PodNodeName pod \<or> q \<noteq> PodUID pod \<longrightarrow> assigned rm' r nd q = assigned rm1 r nd q"
    "\<forall>r. ?own rm' r \<in> {?own rm1 r, ('''', False)}"
    "ResourceNameIPAddress \<in> fst ` set rs \<longrightarrow> (\<forall>r. \<not> snd (?own rm' r))"
    using Cons.IH [OF step(2) one, of "Suc i" "effs @ ext1"] by blast
  have "\<not> snd (?own rm' r)" if "resource = ResourceNameIPAddress" for r
  proof
    assume "snd (?own rm' r)"
    then have "snd (?own rm1 r)" using t(5) by (metis empty_iff insert_iff snd_conv)
    moreover have r: "r \<noteq> res" using calculation step(5) by auto
    ultimately have r: "r \<noteq> res" "snd (?own rm r)" using step(4) by simp_all
    then show False using rm_inv_resource [OF Cons.prems(1) r(2)] Cons.prems(2) that unfolding one_owner_def res_def by auto
  qed
  moreover have "?own rm' r \<in> {?own rm r, ('''', False)}" for r using left [of r] t(5) by (metis empty_iff insert_iff)
  ultimately show ?case using t(1-4,6) step(1,3,4) rc by (intro exI [of _ rm'] exI [of _ "ext1 @ ext"]) auto
qed auto

section \<open>Assigning an address\<close>

lemma create_pool_inv:
  assumes "pool_inv p" "GetPool m (PodNodeName pod) = Some p" "HandleCreate key k8s t pod m = (m', effs, result, err)"
  obtains p' where "GetPool m' (PodNodeName pod) = Some p'" "pool_inv p'" "\<And>nd. nd \<noteq> PodNodeName pod \<Longrightarrow> GetPool m' nd = GetPool m nd"
proof (cases "mhas (PodAnnotations pod) key")
  case True
  then show thesis using that [of p] assms by (simp add: HandleCreate_def)
next
  case False
  note gp = GetPool_set_pool [OF assms(2)]
  obtain p1 x b oe where a: "AssignResource (PodUID pod) p = (p1, x, b, oe)" by (metis prod_cases4)
  have inv1: "pool_inv p1" using wp.assign_inv [OF assms(1) a] .
  obtain pf bf ef where f: "FreeResource t (PodUID pod) x p1 = (pf, bf, ef)" by (metis prod_cases3)
  have invf: "pool_inv pf" using wp.free_inv [OF inv1 f] .
  have "\<exists>b p2 p3 effs'. pool_inv p2 \<and> reconcilePool b p2 = (p3, effs') \<and> m' = set_pool m (PodNodeName pod) p3"
    using assms(2,3) False a f inv1 invf
    by (auto simp: HandleCreate_def Let_def split: option.splits prod.splits)
  then obtain p3 where "pool_inv p3" "m' = set_pool m (PodNodeName pod) p3" using reconcilePool_inv by blast
  then show thesis using that [of p3] gp by (simp add: GetPool_def)
qed

abbreviation annotates :: "pod \<Rightarrow> string \<Rightarrow> effect" where
  "annotates pod x \<equiv> AnnotatePodCall (PodNamespace pod) (PodName pod) (PodUID pod) ResourceNameIPAddress x"

lemma handle_create_entry:
  assumes "rm_inv rm" "GetResource rm res = Some e" "\<not> mhas (PodAnnotations pod) ResourceNameIPAddress"
    and "handle_resource k8s t False n pod e = (e', effs, result, err)"
  shows "rm_inv (mput rm res e') \<and>
    (\<forall>r node q. r \<noteq> res \<or> node \<noteq> PodNodeName pod \<or> q \<noteq> PodUID pod \<longrightarrow> assigned (mput rm res e') r node q = assigned rm r node q) \<and>
    (\<forall>x. annotates pod x \<in> set effs \<and> err = None \<longrightarrow> assigned (mput rm res e') res (PodNodeName pod) (PodUID pod) = (x, True)) \<and>
    (e = OnDemandResource \<longrightarrow> e' = e \<and> result = no_requeue \<and> err = None \<and> (\<forall>x. annotates pod x \<notin> set effs))"
proof (cases e)
  case (WarmResource key prov)
  then have key: "key = ResourceNameIPAddress" "res \<in> {ResourceNameIPAddress, ResourceNameIPAddressFromPrefix}"
    and pools: "\<And>node p. GetPool (instanceProviderAndPool prov) node = Some p \<Longrightarrow> pool_inv p"
    using assms(1,2) unfolding rm_inv_def by blast+
  obtain m' where h: "HandleCreate ResourceNameIPAddress k8s t pod (instanceProviderAndPool prov) = (m', effs, result, err)"
    and e': "e' = WarmResource key (prov\<lparr>instanceProviderAndPool := m'\<rparr>)"
    using assms(4) WarmResource key(1) by (auto simp: handle_resource_def split: prod.splits)
  note old = assigned_warm [OF assms(2) [unfolded WarmResource]]
    and new = assigned_warm [OF GetResource_put, of rm res key "prov\<lparr>instanceProviderAndPool := m'\<rparr>", folded e', simplified]
    and diff = assigned_put_other [of _ res rm e']
  show ?thesis
  proof (cases "GetPool (instanceProviderAndPool prov) (PodNodeName pod)")
    case None
    then have "m' = instanceProviderAndPool prov" "effs = []" using h by (simp_all add: HandleCreate_def)
    moreover have "rm_inv (mput rm res e')" using assms(1,2) WarmResource e' calculation(1) by (auto simp: rm_inv_def GetResource_def)
    moreover have "assigned (mput rm res e') r node q = assigned rm r node q" for r node q
      using diff new old calculation(1) by (cases "r = res") simp_all
    ultimately show ?thesis using WarmResource by simp
  next
    case (Some p)
    obtain p' where p': "GetPool m' (PodNodeName pod) = Some p'" "pool_inv p'"
      "\<And>nd. nd \<noteq> PodNodeName pod \<Longrightarrow> GetPool m' nd = GetPool (instanceProviderAndPool prov) nd"
      using create_pool_inv [OF pools [OF Some] Some h] by blast
    note out = create_outcome [OF pools [OF Some] Some assms(3) h p'(1)]
    have "pool_inv p2" if "GetPool m' node = Some p2" for node p2
      using that p' pools by (cases "node = PodNodeName pod") auto
    then have "rm_inv (mput rm res e')" using assms(1) key e' by (auto simp: rm_inv_def GetResource_def)
    moreover have "assigned (mput rm res e') r node q = assigned rm r node q"
      if "r \<noteq> res \<or> node \<noteq> PodNodeName pod \<or> q \<noteq> PodUID pod" for r node q
      using that diff new old p'(1,3) out Some by (cases "r = res"; cases "node = PodNodeName pod") auto
    moreover have "assigned (mput rm res e') res (PodNodeName pod) (PodUID pod) = (x, True)" if "annotates pod x \<in> set effs" "err = None" for x
      using that new p'(1) out by auto
    ultimately show ?thesis using WarmResource by blast
  qed
next
  case OnDemandResource
  then have "e' = OnDemandResource" "result = no_requeue" "err = None" "\<forall>x. annotates pod x \<notin> set effs"
    using assms(4) by (auto simp: handle_resource_def on_demand_HandleCreate_def)
  moreover have "rm_inv (mput rm res OnDemandResource)" using assms(1) by (auto simp: rm_inv_def GetResource_def)
  moreover have "assigned (mput rm res OnDemandResource) r node q = assigned rm r node q" for r node q
    using assms(2) OnDemandResource by (auto simp: assigned_def GetResource_def provider_pool_def)
  ultimately show ?thesis using OnDemandResource by simp
qed

lemma create_loop:
  assumes "rm_inv rm" "\<not> mhas (PodAnnotations pod) ResourceNameIPAddress"
    and "distinct (map fst rs)" "ResourceNameIPAddressFromPrefix \<notin> fst ` set rs"
    and "resources_loop Limits k8s now False pod node rs i rm effs = Some (rm', effs', result, err)"
  shows "\<exists>ext. effs' = effs @ ext \<and> rm_inv rm' \<and>
    (\<forall>r nd q. nd \<noteq> PodNodeName pod \<or> q \<noteq> PodUID pod \<longrightarrow> assigned rm' r nd q = assigned rm r nd q) \<and>
    (ResourceNameIPAddress \<notin> fst ` set rs \<longrightarrow> err = None \<and> (\<forall>x. annotates pod x \<notin> set ext) \<and>
       (\<forall>r. assigned rm' r (PodNodeName pod) (PodUID pod) = assigned rm r (PodNodeName pod) (PodUID pod))) \<and>
    (\<forall>x. annotates pod x \<in> set ext \<and> err = None \<longrightarrow>
       (\<exists>res. assigned rm' res (PodNodeName pod) (PodUID pod) = (x, True) \<and>
          (\<forall>r. r \<noteq> res \<longrightarrow> assigned rm' r (PodNodeName pod) (PodUID pod) = assigned rm r (PodNodeName pod) (PodUID pod))))"
  using assms
proof (induction rs arbitrary: i rm effs)
  case (Cons rc rs)
  obtain resource n where rc: "rc = (resource, n)" by fastforce
  let ?own = "\<lambda>rm r. assigned rm r (PodNodeName pod) (PodUID pod)"
  have rest: "distinct (map fst rs)" "ResourceNameIPAddressFromPrefix \<notin> fst ` set rs" "resource \<notin> fst ` set rs"
    using Cons.prems(3,4) rc by auto
  obtain res where nm: "(if resource = ResourceNameIPAddress then updateResourceName Limits k8s rm False pod node else Some resource) = Some res"
    using Cons.prems(5) rc by (auto split: option.splits if_splits)
  show ?case
  proof (cases "GetResource rm res")
    case None
    then have "resources_loop Limits k8s now False pod node rs (Suc i) rm effs = Some (rm', effs', result, err)"
      using Cons.prems(5) nm rc by simp
    from Cons.IH [OF Cons.prems(1,2) rest(1,2) this] show ?thesis using rest(3) rc by (elim exE) (intro exI, auto)
  next
    case (Some e)
    obtain e1 effs1 result1 err1 where h: "handle_resource k8s (now i) False n pod e = (e1, effs1, result1, err1)" by (metis prod_cases4)
    note en = handle_create_entry [OF Cons.prems(1) Some Cons.prems(2) h]
    have od: "e = OnDemandResource" if "resource \<noteq> ResourceNameIPAddress"
      using that nm Some Cons.prems(1,4) rc by (cases e) (auto simp: rm_inv_def)
    show ?thesis
    proof (cases "err1 \<noteq> None \<or> Requeue result1")
      case True
      then have "rm' = mput rm res e1" "effs' = effs @ effs1" "err = err1" using Cons.prems(5) nm rc Some h by auto
      then show ?thesis using en od True rc by (intro exI [of _ effs1]) (auto simp: no_requeue_def)
    next
      case False
      then have l: "resources_loop Limits k8s now False pod node rs (Suc i) (mput rm res e1) (effs @ effs1) = Some (rm', effs', result, err)"
        using Cons.prems(5) nm rc Some h by auto
      have "rm_inv (mput rm res e1)" using en by blast
      from Cons.IH [OF this Cons.prems(2) rest(1,2) l] obtain ext where t: "effs' = (effs @ effs1) @ ext" "rm_inv rm'"
        "\<forall>r nd q. nd \<noteq> PodNodeName pod \<or> q \<noteq> PodUID pod \<longrightarrow> assigned rm' r nd q = assigned (mput rm res e1) r nd q"
        "ResourceNameIPAddress \<notin> fst ` set rs \<longrightarrow> err = None \<and> (\<forall>x. annotates pod x \<notin> set ext) \<and> (\<forall>r. ?own rm' r = ?own (mput rm res e1) r)"
        "\<forall>x. annotates pod x \<in> set ext \<and> err = None \<longrightarrow> (\<exists>r0. ?own rm' r0 = (x, True) \<and> (\<forall>r. r \<noteq> r0 \<longrightarrow> ?own rm' r = ?own (mput rm res e1) r))"
        by blast
      have frame: "\<forall>r nd q. nd \<noteq> PodNodeName pod \<or> q \<noteq> PodUID pod \<longrightarrow> assigned rm' r nd q = assigned rm r nd q"
        using t(3) en by metis
      show ?thesis
      proof (cases "resource = ResourceNameIPAddress")
        case True
        then have "\<forall>r. ?own rm' r = ?own (mput rm res e1) r" "\<forall>x. annotates pod x \<notin> set ext" using t(4) rest(3) by auto
        then show ?thesis using t(1,2) frame en False rc True by (intro exI [of _ "effs1 @ ext"]) auto
      next
        case no: False
        then have "\<forall>r. ?own (mput rm res e1) r = ?own rm r" "\<forall>x. annotates pod x \<notin> set effs1"
          using en od Some by (auto simp: assigned_def GetResource_def)
        then show ?thesis using t frame no rc by (intro exI [of _ "effs1 @ ext"]) auto
      qed
    qed
  qed
qed auto

section \<open>The life of an address\<close>

lemma aggregate_distinct: "mset (ord (getAggregateResources pod)) = mset (getAggregateResources pod) \<Longrightarrow>
   distinct (map fst (ord (getAggregateResources pod))) \<and>
   (\<forall>res. res \<in> fst ` set (ord (getAggregateResources pod)) \<longleftrightarrow> mhas (getAggregateResources pod) res)"
proof -
  assume m: "mset (ord (getAggregateResources pod)) = mset (getAggregateResources pod)"
  have "wf_map (getAggregateResources pod)" by (simp add: getAggregateResources_def aggregate_fold aggregate_wf)
  then have "distinct (map fst (getAggregateResources pod))" by (simp add: wf_map_def mkeys_def)
  moreover have "mset (map fst (ord (getAggregateResources pod))) = mset (map fst (getAggregateResources pod))"
    using m by (simp add: mset_map)
  ultimately have "distinct (map fst (ord (getAggregateResources pod)))" by (metis mset_eq_imp_distinct_iff)
  then show ?thesis using mset_eq_setD [OF m] by (auto simp: mhas_iff mkeys_def)
qed

lemma gate_delete_event:
  "PodNodeName pod \<noteq> '''' \<Longrightarrow> \<forall>n. node = Some n \<longrightarrow> managed n \<Longrightarrow> pod_event_gate k8s True pod node = Inr True"
  by (auto simp: pod_event_gate_def split: option.splits)

lemma gate_missing_node:
  "PodNodeName pod \<noteq> '''' \<Longrightarrow> \<forall>n. node = Some n \<longrightarrow> managed n \<Longrightarrow> \<not> NodeExists k8s (PodNodeName pod) \<Longrightarrow>
   pod_event_gate k8s del pod node = Inr True"
  by (auto simp: pod_event_gate_def isNodeExistingInCluster_def split: option.splits)

lemma delete_event:
  assumes "rm_inv rm" "one_owner rm pod" "\<forall>agg. mset (ord agg) = mset agg"
    and "DeletedObject request = Some pod \<or> (DeletedObject request = None \<and> GetByKey (RequestName request) = Inr (Some pod))"
    and "pod_event_gate k8s (DeletedObject request \<noteq> None) pod (cached_node m (PodNodeName pod)) = Inr True"
    and "mhas (getAggregateResources pod) ResourceNameIPAddress"
  obtains rm' effs where "Reconcile Limits ord GetByKey k8s now m request rm = Some (rm', effs, no_requeue, None)" "rm_inv rm'"
    "\<And>r. assigned rm' r (PodNodeName pod) (PodUID pod) = ('''', False)"
    "\<And>r nd q. nd \<noteq> PodNodeName pod \<or> q \<noteq> PodUID pod \<Longrightarrow> assigned rm' r nd q = assigned rm r nd q"
proof -
  let ?agg = "ord (getAggregateResources pod)"
  have "ResourceNameIPAddress \<in> fst ` set ?agg" using aggregate_distinct [of ord pod] assms(3,6) by blast
  moreover have "Reconcile Limits ord GetByKey k8s now m request rm =
      resources_loop Limits k8s now True pod (cached_node m (PodNodeName pod)) ?agg 0 rm []"
    using assms(4,5) by (auto simp: Reconcile_def Let_def)
  ultimately show thesis
    using that delete_loop [OF assms(1,2), of Limits k8s now "cached_node m (PodNodeName pod)" ?agg 0 "[]"] assigned_none by auto
qed

lemma create_event:
  assumes "rm_inv rm" "\<forall>r. \<not> snd (assigned rm r (PodNodeName pod) (PodUID pod))"
    and "\<not> mhas (PodAnnotations pod) ResourceNameIPAddress" "\<not> mhas (getAggregateResources pod) ResourceNameIPAddressFromPrefix"
    and "\<forall>agg. mset (ord agg) = mset agg"
    and "Reconcile Limits ord GetByKey k8s now m request rm = Some (rm1, effs, result, None)"
    and "DeletedObject request = None" "GetByKey (RequestName request) = Inr (Some pod)" "annotates pod x \<in> set effs"
  obtains res where "rm_inv rm1" "PodNodeName pod \<noteq> ''''" "mhas (getAggregateResources pod) ResourceNameIPAddress"
    "\<forall>r nd q. nd \<noteq> PodNodeName pod \<or> q \<noteq> PodUID pod \<longrightarrow> assigned rm1 r nd q = assigned rm r nd q"
    "assigned rm1 res (PodNodeName pod) (PodUID pod) = (x, True)"
    "\<forall>r. r \<noteq> res \<longrightarrow> assigned rm1 r (PodNodeName pod) (PodUID pod) = assigned rm r (PodNodeName pod) (PodUID pod)"
proof -
  let ?agg = "ord (getAggregateResources pod)" and ?node = "cached_node m (PodNodeName pod)"
  note ord = aggregate_distinct [of ord pod, OF assms(5) [rule_format]]
  have one: "one_owner rm pod" using assms(2) by (simp add: one_owner_def agrees_def)
  obtain deleting where g: "pod_event_gate k8s False pod ?node = Inr deleting"
    and l: "resources_loop Limits k8s now deleting pod ?node ?agg 0 rm [] = Some (rm1, effs, result, None)"
    using assms(6-9) by (auto simp: Reconcile_def Let_def split: sum.splits)
  have name: "PodNodeName pod \<noteq> ''''" using g by (auto simp: pod_event_gate_def)
  have "\<not> deleting"
  proof
    assume deleting
    then have "\<forall>ef \<in> set effs. \<not> is_AnnotatePodCall ef"
      using delete_loop [OF assms(1) one, of Limits k8s now ?node ?agg 0 "[]"] l by auto
    then show False using assms(9) by auto
  qed
  then have l: "resources_loop Limits k8s now False pod ?node ?agg 0 rm [] = Some (rm1, effs, result, None)" using l by simp
  have "ResourceNameIPAddressFromPrefix \<notin> fst ` set ?agg" using ord assms(4) by blast
  from create_loop [OF assms(1,3) conjunct1 [OF ord] this l]
  have c0: "rm_inv rm1" "\<forall>r nd q. nd \<noteq> PodNodeName pod \<or> q \<noteq> PodUID pod \<longrightarrow> assigned rm1 r nd q = assigned rm r nd q"
      "ResourceNameIPAddress \<in> fst ` set ?agg"
      "\<exists>res. assigned rm1 res (PodNodeName pod) (PodUID pod) = (x, True) \<and>
        (\<forall>r. r \<noteq> res \<longrightarrow> assigned rm1 r (PodNodeName pod) (PodUID pod) = assigned rm r (PodNodeName pod) (PodUID pod))"
    using assms(9) by (metis append_Nil)+
  then show thesis using that name ord by blast
qed

text \<open>C21. An address that a pod got under one allocation mode is given back after the mode was switched: the event
  that annotates the pod makes it the owner of the address in one pool, and the deletion of the pod,
  whatever the conditions, the caches and the clock are then, leaves every pool with the owners it had before.\<close>

theorem address_survives_mode_switch:
  assumes "rm_inv rm" "\<forall>r. \<not> snd (assigned rm r (PodNodeName pod) (PodUID pod))"
    and "\<not> mhas (PodAnnotations pod) ResourceNameIPAddress" "\<not> mhas (getAggregateResources pod) ResourceNameIPAddressFromPrefix"
    and "\<forall>agg. mset (ord agg) = mset agg" "\<forall>agg. mset (ord' agg) = mset agg"
    and "Reconcile Limits ord GetByKey k8s now m request rm = Some (rm1, effs, result, None)"
    and "DeletedObject request = None" "GetByKey (RequestName request) = Inr (Some pod)" "annotates pod x \<in> set effs"
    and "DeletedObject request' = Some (pod\<lparr>PodAnnotations := mput (PodAnnotations pod) ResourceNameIPAddress x\<rparr>)"
    and "\<forall>n. cached_node m' (PodNodeName pod) = Some n \<longrightarrow> managed n"
  shows "(\<exists>r. assigned rm1 r (PodNodeName pod) (PodUID pod) = (x, True)) \<and>
    (\<exists>rm2 effs'. Reconcile Limits ord' GetByKey' k8s' now' m' request' rm1 = Some (rm2, effs', no_requeue, None) \<and>
       (\<forall>r node q. assigned rm2 r node q = assigned rm r node q))"
proof -
  let ?pod = "pod\<lparr>PodAnnotations := mput (PodAnnotations pod) ResourceNameIPAddress x\<rparr>"
  have agg: "getAggregateResources ?pod = getAggregateResources pod" by (simp add: getAggregateResources_def)
  obtain res where c1: "rm_inv rm1" "PodNodeName pod \<noteq> ''''" "mhas (getAggregateResources pod) ResourceNameIPAddress"
    "\<forall>r nd q. nd \<noteq> PodNodeName pod \<or> q \<noteq> PodUID pod \<longrightarrow> assigned rm1 r nd q = assigned rm r nd q"
    "assigned rm1 res (PodNodeName pod) (PodUID pod) = (x, True)"
    "\<forall>r. r \<noteq> res \<longrightarrow> assigned rm1 r (PodNodeName pod) (PodUID pod) = assigned rm r (PodNodeName pod) (PodUID pod)"
    by (rule create_event [OF assms(1-5) assms(7-10)]) (rule that)
  have only: "r = res" if "snd (assigned rm1 r (PodNodeName pod) (PodUID pod))" for r
    using that c1(6) assms(2) by (cases "r = res") auto
  have "agrees ?pod (assigned rm1 r (PodNodeName pod) (PodUID pod))" for r
    using only [of r] c1(5) by (auto simp: agrees_def)
  then have one1: "one_owner rm1 ?pod" by (simp add: one_owner_def) (metis only)
  have g': "pod_event_gate k8s' (DeletedObject request' \<noteq> None) ?pod (cached_node m' (PodNodeName ?pod)) = Inr True"
    using gate_delete_event [of ?pod] c1(2) assms(11,12) by simp
  have req: "mhas (getAggregateResources ?pod) ResourceNameIPAddress" using agg c1(3) by simp
  obtain rm2 effs' where d: "Reconcile Limits ord' GetByKey' k8s' now' m' request' rm1 = Some (rm2, effs', no_requeue, None)" "rm_inv rm2"
      "\<And>r. assigned rm2 r (PodNodeName ?pod) (PodUID ?pod) = ('''', False)"
      "\<And>r nd q. nd \<noteq> PodNodeName ?pod \<or> q \<noteq> PodUID ?pod \<Longrightarrow> assigned rm2 r nd q = assigned rm1 r nd q"
    by (rule delete_event [where Limits = Limits and GetByKey = GetByKey' and now = now', OF c1(1) one1 assms(6) disjI1 [OF assms(11)] g' req])
      (rule that)
  have "assigned rm2 r node q = assigned rm r node q" for r node q
  proof (cases "node = PodNodeName pod \<and> q = PodUID pod")
    case True
    then show ?thesis using d(3) [of r] assigned_none [of rm r "PodNodeName pod" "PodUID pod"] assms(2) by simp
  next
    case False
    then show ?thesis using d(4) [of node q r] c1(4) by auto
  qed
  then show ?thesis using c1(5) d(1) by blast
qed

lemma sample_rm_inv: "pool_inv p \<Longrightarrow> rm_inv (sample_rm p)"
  by (auto simp: rm_inv_def GetResource_def sample_rm_def mget_Cons sample_pools_map_def GetPool_def split: if_splits)

lemma sample_aggregate: "getAggregateResources sample_ip_pod = [(ResourceNameIPAddress, 1)]"
  by code_simp

lemma sample_assigned: "assigned (sample_rm p) r node q =
    (if r = ResourceNameIPAddress \<and> node = ''node-1'' then GetAssignedResource q p else ('''', False))"
  by (auto simp: assigned_def GetResource_def sample_rm_def mget_Cons provider_pool_def sample_pools_map_def GetPool_def resource_names)

theorem address_survives_mode_switch_witness:
  "\<exists>rm1 effs result rm2 effs'. Reconcile sample_limits id (\<lambda>k. Inr (Some sample_ip_pod)) sample_k8s (\<lambda>_. 5) (sample_nodes True) sample_event
       (sample_rm sample_pool) = Some (rm1, effs, result, None) \<and>
     assigned rm1 ResourceNameIPAddress ''node-1'' ''pod-a'' = (''10.0.0.1/32'', True) \<and>
     Reconcile sample_limits rev (\<lambda>k. Inl ''gone'') (sample_k8s\<lparr>IsWindowsPrefixDelegationEnabled := True\<rparr>) (\<lambda>_. 9) (sample_nodes True)
       \<lparr>DeletedObject = Some (sample_ip_pod\<lparr>PodAnnotations := [(ResourceNameIPAddress, ''10.0.0.1/32'')]\<rparr>), RequestName = ''ns/p''\<rparr> rm1 =
       Some (rm2, effs', no_requeue, None) \<and>
     (\<forall>r node q. assigned rm2 r node q = assigned (sample_rm sample_pool) r node q)"
proof -
  let ?r = "Reconcile sample_limits id (\<lambda>k. Inr (Some sample_ip_pod)) sample_k8s (\<lambda>_. 5) (sample_nodes True) sample_event (sample_rm sample_pool)"
  have "case ?r of Some (rm1, effs, result, err) \<Rightarrow> err = None \<and>
      hd effs = AnnotatePodCall ''ns'' ''p'' ''pod-a'' ResourceNameIPAddress ''10.0.0.1/32'' \<and> effs \<noteq> [] \<and>
      assigned rm1 ResourceNameIPAddress ''node-1'' ''pod-a'' = (''10.0.0.1/32'', True) | None \<Rightarrow> False" by code_simp
  then obtain rm1 effs result where r: "?r = Some (rm1, effs, result, None)" "annotates sample_ip_pod ''10.0.0.1/32'' \<in> set effs"
      "assigned rm1 ResourceNameIPAddress ''node-1'' ''pod-a'' = (''10.0.0.1/32'', True)"
    by (cases ?r) (auto split: prod.splits, metis hd_in_set)
  have free: "\<forall>r. \<not> snd (assigned (sample_rm sample_pool) r (PodNodeName sample_ip_pod) (PodUID sample_ip_pod))"
    by (simp add: sample_assigned GetAssignedResource_def sample_pools NewResourcePool_def)
  show ?thesis
    using address_survives_mode_switch [OF sample_rm_inv [OF sample_pool_inv] free _ _ _ _ r(1) _ _ r(2),
        where ord' = rev and request' = "\<lparr>DeletedObject = Some (sample_ip_pod\<lparr>PodAnnotations := [(ResourceNameIPAddress, ''10.0.0.1/32'')]\<rparr>), RequestName = ''ns/p''\<rparr>"
        and m' = "sample_nodes True" and GetByKey' = "\<lambda>k. Inl ''gone''" and k8s' = "sample_k8s\<lparr>IsWindowsPrefixDelegationEnabled := True\<rparr>" and now' = "\<lambda>_. 9"] r
    by (simp add: mhas_def sample_aggregate mget_Cons mput_Nil resource_names NewManagedNode_def)
qed

text \<open>C23. \<open>isNodeExistingInCluster\<close> takes every error of the read for the absence of the node. So an event of a running pod
  during which the read of its (managed) node fails gives the address of the pod back, although the
  pod is neither deleted nor completed.\<close>

theorem failed_node_read_releases_address:
  assumes "rm_inv rm" "one_owner rm pod" "\<forall>agg. mset (ord agg) = mset agg"
    and "DeletedObject request = None" "GetByKey (RequestName request) = Inr (Some pod)" "PodPhase pod = PodRunning"
    and "PodNodeName pod \<noteq> ''''" "\<not> NodeExists k8s (PodNodeName pod)" "\<forall>n. cached_node m (PodNodeName pod) = Some n \<longrightarrow> managed n"
    and "mhas (getAggregateResources pod) ResourceNameIPAddress"
  shows "\<exists>rm' effs. Reconcile Limits ord GetByKey k8s now m request rm = Some (rm', effs, no_requeue, None) \<and>
    (\<forall>r. \<not> snd (assigned rm' r (PodNodeName pod) (PodUID pod)))"
proof -
  have "pod_event_gate k8s (DeletedObject request \<noteq> None) pod (cached_node m (PodNodeName pod)) = Inr True"
    using gate_missing_node assms(7-9) by blast
  from delete_event [OF assms(1-3) _ this assms(10)] show ?thesis using assms(4,5) by (metis snd_conv)
qed

theorem failed_node_read_releases_address_witness:
  "\<exists>rm' effs. Reconcile sample_limits id (\<lambda>k. Inr (Some sample_ip_pod)) (sample_k8s\<lparr>NodeExists := (\<lambda>n. False)\<rparr>) (\<lambda>_. 5) (sample_nodes True)
       sample_event (sample_rm sample_used) = Some (rm', effs, no_requeue, None) \<and>
     (\<forall>r. \<not> snd (assigned rm' r ''node-1'' ''pod-a''))"
proof -
  have "one_owner (sample_rm sample_used) sample_ip_pod" by (auto simp: one_owner_def agrees_def sample_assigned)
  moreover have "pool_inv sample_used" using AssignResource_inv [OF sample_pool_inv sample_assign] .
  ultimately show ?thesis
    using failed_node_read_releases_address [of "sample_rm sample_used" sample_ip_pod id sample_event "\<lambda>k. Inr (Some sample_ip_pod)"
        "sample_k8s\<lparr>NodeExists := (\<lambda>n. False)\<rparr>" "sample_nodes True" sample_limits "\<lambda>_. 5"]
    by (simp add: sample_rm_inv mhas_def sample_aggregate mget_Cons NewManagedNode_def)
qed

end
