(* ===== verification/Conditions.thy ===== *)
theory Conditions
  imports K8s_Env Config
begin

text \<open>
  \<open>pkg/condition/conditions.go\<close>: which features are on. The answers of Kubernetes during one call are the
  record \<open>cond_k8s\<close>; the state holds the flag of the pod cache and the two gauges, which are global in the program.
  The registration of the gauges is left out.
\<close>

definition VpcCniConfigMapName :: string where "VpcCniConfigMapName = ''amazon-vpc-cni''"
definition EnableWindowsIPAMKey :: string where "EnableWindowsIPAMKey = ''enable-windows-ipam''"
definition KubeSystemNamespace :: string where "KubeSystemNamespace = ''kube-system''"
definition VpcCNIDaemonSetName :: string where "VpcCNIDaemonSetName = ''aws-node''"
definition OldVPCControllerDeploymentName :: string where "OldVPCControllerDeploymentName = ''vpc-resource-controller''"

record ds_container =
  DsName :: string
  DsEnv :: "(string \<times> string) list"

record cond_k8s =
  GetConfigMap :: "string \<Rightarrow> string \<Rightarrow> k8s_error + config_map"
  GetDeployment :: "string \<Rightarrow> string \<Rightarrow> k8s_error option"
  GetDaemonSet :: "string \<Rightarrow> string \<Rightarrow> k8s_error + ds_container list"

record condition =
  hasDataStoreSynced :: bool
  windowsPDFeatureFlag :: bool
  conditionWindowsIPAMEnabled :: int
  conditionWindowsPrefixDelegationEnabled :: int

definition NewControllerConditions :: "bool \<Rightarrow> condition" where
  "NewControllerConditions flag =
     \<lparr>hasDataStoreSynced = False, windowsPDFeatureFlag = flag, conditionWindowsIPAMEnabled = 0,
      conditionWindowsPrefixDelegationEnabled = 0\<rparr>"

definition IsOldVPCControllerDeploymentPresent :: "cond_k8s \<Rightarrow> bool" where
  "IsOldVPCControllerDeploymentPresent k =
     (case GetDeployment k KubeSystemNamespace OldVPCControllerDeploymentName of
        None \<Rightarrow> True
      | Some err \<Rightarrow> \<not> is_K8sNotFound err)"

text \<open>The value of a flag in the ConfigMap: set, and true for \<open>ParseBool\<close>.\<close>

definition flag_set :: "(string, string) gomap \<Rightarrow> string \<Rightarrow> bool" where
  "flag_set data key = (case mget data key of None \<Rightarrow> False | Some v \<Rightarrow> ParseBool v = Some True)"

definition cond_IsWindowsIPAMEnabled :: "cond_k8s \<Rightarrow> condition \<Rightarrow> bool \<times> condition" where
  "cond_IsWindowsIPAMEnabled k c =
     (if IsOldVPCControllerDeploymentPresent k then (False, c)
      else
        (case GetConfigMap k VpcCniConfigMapName KubeSystemNamespace of
           Inr (Some data) \<Rightarrow>
             if flag_set data EnableWindowsIPAMKey then (True, c\<lparr>conditionWindowsIPAMEnabled := 1\<rparr>)
             else (False, c\<lparr>conditionWindowsIPAMEnabled := 0\<rparr>)
         | _ \<Rightarrow> (False, c\<lparr>conditionWindowsIPAMEnabled := 0\<rparr>)))"

definition cond_IsWindowsPrefixDelegationEnabled :: "cond_k8s \<Rightarrow> condition \<Rightarrow> bool \<times> condition" where
  "cond_IsWindowsPrefixDelegationEnabled k c =
     (if IsOldVPCControllerDeploymentPresent k then (False, c)
      else if \<not> windowsPDFeatureFlag c then (False, c)
      else
        (case GetConfigMap k VpcCniConfigMapName KubeSystemNamespace of
           Inr (Some data) \<Rightarrow>
             if flag_set data EnableWindowsIPAMKey \<and> flag_set data EnableWindowsPrefixDelegationKey
             then (True, c\<lparr>conditionWindowsPrefixDelegationEnabled := 1\<rparr>)
             else (False, c\<lparr>conditionWindowsPrefixDelegationEnabled := 0\<rparr>)
         | _ \<Rightarrow> (False, c\<lparr>conditionWindowsPrefixDelegationEnabled := 0\<rparr>)))"

text \<open>The first \<open>ENABLE_POD_ENI\<close> of a container; a value that does not parse ends the function. The last container of the
  name decides.\<close>

fun pod_eni_env :: "(string \<times> string) list \<Rightarrow> bool option option" where
  "pod_eni_env [] = None"
| "pod_eni_env ((ename, v) # envs) = (if ename = ''ENABLE_POD_ENI'' then Some (ParseBool v) else pod_eni_env envs)"

fun sgp_containers :: "ds_container list \<Rightarrow> bool \<Rightarrow> bool" where
  "sgp_containers [] isSGPEnabled = isSGPEnabled"
| "sgp_containers (c # cs) isSGPEnabled =
     (if DsName c = ''aws-node'' then
        (case pod_eni_env (DsEnv c) of
           None \<Rightarrow> sgp_containers cs isSGPEnabled
         | Some None \<Rightarrow> False
         | Some (Some b) \<Rightarrow> sgp_containers cs b)
      else sgp_containers cs isSGPEnabled)"

definition IsPodSGPEnabled :: "cond_k8s \<Rightarrow> bool" where
  "IsPodSGPEnabled k =
     (case GetDaemonSet k VpcCNIDaemonSetName KubeSystemNamespace of
        Inl err \<Rightarrow> False
      | Inr containers \<Rightarrow> sgp_containers containers False)"

definition GetPodDataStoreSyncStatus :: "condition \<Rightarrow> bool" where
  "GetPodDataStoreSyncStatus c = hasDataStoreSynced c"

definition SetPodDataStoreSyncStatus :: "bool \<Rightarrow> condition \<Rightarrow> condition" where
  "SetPodDataStoreSyncStatus synced c = c\<lparr>hasDataStoreSynced := synced\<rparr>"

section \<open>Properties\<close>

lemma ipam_enabled_iff:
  "fst (cond_IsWindowsIPAMEnabled k c) \<longleftrightarrow> \<not> IsOldVPCControllerDeploymentPresent k \<and>
     (\<exists>data. GetConfigMap k VpcCniConfigMapName KubeSystemNamespace = Inr (Some data) \<and> flag_set data EnableWindowsIPAMKey)"
  by (auto simp: cond_IsWindowsIPAMEnabled_def split: sum.split option.split)

lemma pd_enabled_iff:
  "fst (cond_IsWindowsPrefixDelegationEnabled k c) \<longleftrightarrow> windowsPDFeatureFlag c \<and> \<not> IsOldVPCControllerDeploymentPresent k \<and>
     (\<exists>data. GetConfigMap k VpcCniConfigMapName KubeSystemNamespace = Inr (Some data) \<and>
       flag_set data EnableWindowsIPAMKey \<and> flag_set data EnableWindowsPrefixDelegationKey)"
  by (auto simp: cond_IsWindowsPrefixDelegationEnabled_def split: sum.split option.split)

text \<open>The conditions fail closed. Prefix delegation is on only with the feature flag and with Windows IPAM; both are
  off as soon as the read of the old controller's deployment gives anything but "not found", the
  ConfigMap cannot be read or has no data, or the flag is missing or not a boolean.\<close>

theorem conditions_fail_closed:
  "(fst (cond_IsWindowsPrefixDelegationEnabled k c) \<longrightarrow> windowsPDFeatureFlag c \<and> fst (cond_IsWindowsIPAMEnabled k c)) \<and>
   (fst (cond_IsWindowsIPAMEnabled k c) \<longleftrightarrow>
      (\<exists>e. GetDeployment k KubeSystemNamespace OldVPCControllerDeploymentName = Some (K8sNotFound e)) \<and>
      (\<exists>data v. GetConfigMap k VpcCniConfigMapName KubeSystemNamespace = Inr (Some data) \<and>
         mget data EnableWindowsIPAMKey = Some v \<and> ParseBool v = Some True))"
  unfolding ipam_enabled_iff pd_enabled_iff
  by (auto simp: IsOldVPCControllerDeploymentPresent_def flag_set_def is_K8sNotFound_def split: option.splits)

text \<open>A cluster in which both features are on.\<close>

definition sample_cond_k8s :: cond_k8s where
  "sample_cond_k8s = \<lparr>GetConfigMap = (\<lambda>n ns. Inr (Some [(EnableWindowsIPAMKey, ''true''), (EnableWindowsPrefixDelegationKey, ''true'')])),
     GetDeployment = (\<lambda>ns n. Some (K8sNotFound n)), GetDaemonSet = (\<lambda>n ns. Inr [])\<rparr>"

theorem conditions_fail_closed_witness:
  "fst (cond_IsWindowsIPAMEnabled sample_cond_k8s (NewControllerConditions True)) \<and>
   fst (cond_IsWindowsPrefixDelegationEnabled sample_cond_k8s (NewControllerConditions True))"
proof -
  have "fst (cond_IsWindowsPrefixDelegationEnabled sample_cond_k8s (NewControllerConditions True))" by code_simp
  then show ?thesis using conditions_fail_closed [of sample_cond_k8s "NewControllerConditions True"] by blast
qed

end
