(* ===== verification/Webhooks.thy ===== *)
theory Webhooks
  imports Pod_Controller
begin

text \<open>
  \<open>webhooks/core\<close>: the mutating webhook of pods, the validating webhook of the pods' annotations and the validating
  webhook of nodes. The objects have the fields the webhooks read and write; the other fields of a node are of an
  arbitrary type. Maps that may be nil are options. The decoder of the requests and the JSON
  encoder are arguments; a patch response is the object that results from the patch. \<open>None\<close> is a panic.
\<close>

section \<open>Requests and responses\<close>

type_synonym string_map = "(string, string) gomap"

record adm_container =
  AcLimits :: "(string, int option) gomap option"
  AcRequests :: "(string, int option) gomap option"

record adm_pod =
  ApNamespace :: string
  ApName :: string
  ApUID :: string
  ApLabels :: string_map
  ApAnnotations :: "string_map option"
  ApHostNetwork :: bool
  ApNodeSelector :: string_map
  ApNodeName :: string
  ApServiceAccount :: string
  ApContainers :: "adm_container list"

datatype 'o response = Allowed string | Denied string | Errored int string | Patched 'o

datatype operation = OpCreate | OpUpdate | OpDelete | OpConnect

record 'raw admission_request =
  ReqOperation :: operation
  ReqNamespace :: string
  Username :: string
  ReqObject :: 'raw
  ReqOldObject :: 'raw

fun admitted :: "'o response \<Rightarrow> bool" where
  "admitted (Allowed m) = True"
| "admitted (Patched p) = True"
| "admitted r = False"

text \<open>Reading a nil map is reading an empty one.\<close>

definition mnil :: "('k, 'v) gomap option \<Rightarrow> ('k, 'v) gomap" where
  "mnil m = (case m of None \<Rightarrow> [] | Some m' \<Rightarrow> m')"

text \<open>The pod as the controllers see it.\<close>

definition to_pod :: "adm_pod \<Rightarrow> pod" where
  "to_pod p = \<lparr>PodName = ApName p, PodNamespace = ApNamespace p, PodUID = ApUID p, PodAnnotations = mnil (ApAnnotations p),
     PodLabels = ApLabels p, PodNodeName = ApNodeName p, PodServiceAccount = ApServiceAccount p, PodPhase = PodPending,
     PodContainers = map (\<lambda>c. \<lparr>Requests = mnil (AcRequests c)\<rparr>) (ApContainers p)\<rparr>"

section \<open>The mutating webhook of pods\<close>

definition FargatePodSGAnnotationKey :: string where "FargatePodSGAnnotationKey = ''fargate.amazonaws.com/pod-sg''"
definition FargatePodIdentifierLabelKey :: string where "FargatePodIdentifierLabelKey = ''eks.amazonaws.com/fargate-profile''"

datatype PodType = Fargate | Windows | Linux | HostNetworking

definition hasWindowsNodeSelector :: "adm_pod \<Rightarrow> bool" where
  "hasWindowsNodeSelector p =
     (let osLabel = mgetd '''' (ApNodeSelector p) NodeLabelOS; osLabelBeta = mgetd '''' (ApNodeSelector p) NodeLabelOSBeta
      in \<not> (osLabel \<noteq> OSWindows \<and> osLabelBeta \<noteq> OSWindows))"

definition WhichPod :: "adm_pod \<Rightarrow> PodType" where
  "WhichPod p =
     (if ApHostNetwork p then HostNetworking
      else if mhas (ApLabels p) FargatePodIdentifierLabelKey then Fargate
      else if hasWindowsNodeSelector p then Windows
      else Linux)"

definition InitializeEmptyFields :: "string \<Rightarrow> adm_pod \<Rightarrow> adm_pod option" where
  "InitializeEmptyFields reqNamespace p =
     (case ApContainers p of
        [] \<Rightarrow> None
      | c # cs \<Rightarrow>
          Some (p\<lparr>ApContainers := c\<lparr>AcLimits := Some (mnil (AcLimits c)), AcRequests := Some (mnil (AcRequests c))\<rparr> # cs,
                  ApNamespace := (if ApNamespace p = '''' then reqNamespace else ApNamespace p),
                  ApAnnotations := Some (mnil (ApAnnotations p))\<rparr>))"

definition GetPatchResponse :: "(adm_pod \<Rightarrow> string option) \<Rightarrow> adm_pod \<Rightarrow> adm_pod response" where
  "GetPatchResponse marshal p = (case marshal p of Some err \<Rightarrow> Errored 500 err | None \<Rightarrow> Patched p)"

text \<open>A write to a nil map, or to the first of no containers, is a panic.\<close>

definition annotate :: "string \<Rightarrow> string \<Rightarrow> adm_pod \<Rightarrow> adm_pod option" where
  "annotate key v p = (case ApAnnotations p of None \<Rightarrow> None | Some m \<Rightarrow> Some (p\<lparr>ApAnnotations := Some (mput m key v)\<rparr>))"

definition inject :: "string \<Rightarrow> adm_pod \<Rightarrow> adm_pod option" where
  "inject resourceName p =
     (case ApContainers p of
        [] \<Rightarrow> None
      | c # cs \<Rightarrow>
         (case (AcLimits c, AcRequests c) of
            (Some l, Some r) \<Rightarrow>
              Some (p\<lparr>ApContainers := c\<lparr>AcLimits := Some (mput l resourceName (Some 1)),
                                          AcRequests := Some (mput r resourceName (Some 1))\<rparr> # cs\<rparr>)
          | _ \<Rightarrow> None))"

definition HandleFargatePod ::
  "(adm_pod \<Rightarrow> string option) \<Rightarrow> (pod \<Rightarrow> string + string list) \<Rightarrow> adm_pod \<Rightarrow> adm_pod response option" where
  "HandleFargatePod marshal sgpAPI p =
     (case sgpAPI (to_pod p) of
        Inl err \<Rightarrow> Some (Denied ''Failed to get Matching SGP for Pods, rejecting event'')
      | Inr [] \<Rightarrow>
          if mhas (mnil (ApAnnotations p)) FargatePodSGAnnotationKey
          then Some (GetPatchResponse marshal (p\<lparr>ApAnnotations := map_option (\<lambda>m. mdel m FargatePodSGAnnotationKey) (ApAnnotations p)\<rparr>))
          else Some (Allowed ''Fargate pod not matching any SGP'')
      | Inr sgList \<Rightarrow>
          map_option (GetPatchResponse marshal) (annotate FargatePodSGAnnotationKey (Join sgList (CHR '','')) p))"

definition HandleWindowsPod :: "(adm_pod \<Rightarrow> string option) \<Rightarrow> bool \<Rightarrow> adm_pod \<Rightarrow> adm_pod response option" where
  "HandleWindowsPod marshal isWindowsIPAMEnabled p =
     (if \<not> isWindowsIPAMEnabled then Some (Allowed '''')
      else map_option (GetPatchResponse marshal) (inject ResourceNameIPAddress p))"

definition HandleLinuxPod ::
  "(adm_pod \<Rightarrow> string option) \<Rightarrow> (pod \<Rightarrow> string + string list) \<Rightarrow> adm_pod \<Rightarrow> adm_pod response option" where
  "HandleLinuxPod marshal sgpAPI p =
     (case sgpAPI (to_pod p) of
        Inl err \<Rightarrow> Some (Denied (''Failed to get Matching SGP for Pods, rejecting event, error '' @ err))
      | Inr [] \<Rightarrow> Some (Allowed (''Pod didn'' @ [CHR 0x27] @ ''t match any SGP''))
      | Inr sgList \<Rightarrow> map_option (GetPatchResponse marshal) (inject ResourceNamePodENI p))"

definition MutatePod ::
  "('raw \<Rightarrow> string + adm_pod) \<Rightarrow> (adm_pod \<Rightarrow> string option) \<Rightarrow> (pod \<Rightarrow> string + string list) \<Rightarrow> bool \<Rightarrow>
   'raw admission_request \<Rightarrow> adm_pod response option" where
  "MutatePod decode marshal sgpAPI isWindowsIPAMEnabled req =
     (case decode (ReqObject req) of
        Inl err \<Rightarrow> Some (Errored 400 err)
      | Inr pod \<Rightarrow>
         (case InitializeEmptyFields (ReqNamespace req) pod of
            None \<Rightarrow> None
          | Some p \<Rightarrow>
             (case WhichPod p of
                HostNetworking \<Rightarrow> Some (Allowed ''SGP not supported on Pod running on HostNetwork'')
              | Fargate \<Rightarrow> HandleFargatePod marshal sgpAPI p
              | Linux \<Rightarrow> HandleLinuxPod marshal sgpAPI p
              | Windows \<Rightarrow> HandleWindowsPod marshal isWindowsIPAMEnabled p)))"

section \<open>The validating webhook of annotations\<close>

definition validUserInfo :: string where "validUserInfo = ''system:serviceaccount:kube-system:vpc-resource-controller''"
definition newValidUserInfo :: string where "newValidUserInfo = ''system:serviceaccount:kube-system:eks-vpc-resource-controller''"
definition vpcControllerUserName :: string where "vpcControllerUserName = ''eks:vpc-resource-controller''"

definition getAnnotationKeysToBeValidated :: "bool \<Rightarrow> string list" where
  "getAnnotationKeysToBeValidated isWindowsIPAMEnabled =
     (let annotationsToValidate = [ResourceNamePodENI]
      in if isWindowsIPAMEnabled then annotationsToValidate @ [ResourceNameIPAddress] else annotationsToValidate)"

fun create_keys_loop :: "string_map \<Rightarrow> string list \<Rightarrow> adm_pod response" where
  "create_keys_loop annotations [] = Allowed ''''"
| "create_keys_loop annotations (annotationKey # keys) =
     (if mhas annotations annotationKey then Denied (''pod cannot be created with '' @ annotationKey @ '' annotation'')
      else create_keys_loop annotations keys)"

definition handleCreate :: "('raw \<Rightarrow> string + adm_pod) \<Rightarrow> bool \<Rightarrow> 'raw admission_request \<Rightarrow> adm_pod response" where
  "handleCreate decode ipam req =
     (case decode (ReqObject req) of
        Inl err \<Rightarrow> Errored 400 err
      | Inr pod \<Rightarrow> create_keys_loop (mnil (ApAnnotations pod)) (getAnnotationKeysToBeValidated ipam))"

fun update_keys_loop :: "string \<Rightarrow> string_map \<Rightarrow> string_map \<Rightarrow> string list \<Rightarrow> adm_pod response" where
  "update_keys_loop user annotations oldAnnotations [] = Allowed ''''"
| "update_keys_loop user annotations oldAnnotations (annotationKey # keys) =
     (if mgetd '''' annotations annotationKey \<noteq> mgetd '''' oldAnnotations annotationKey \<and>
         user \<noteq> validUserInfo \<and> user \<noteq> newValidUserInfo \<and> user \<noteq> vpcControllerUserName
      then Denied ''annotation is not set by vpc-resource-controller''
      else update_keys_loop user annotations oldAnnotations keys)"

definition handleUpdate :: "('raw \<Rightarrow> string + adm_pod) \<Rightarrow> bool \<Rightarrow> 'raw admission_request \<Rightarrow> adm_pod response" where
  "handleUpdate decode ipam req =
     (case decode (ReqObject req) of
        Inl err \<Rightarrow> Errored 400 err
      | Inr pod \<Rightarrow>
         (case decode (ReqOldObject req) of
            Inl err \<Rightarrow> Errored 400 err
          | Inr oldPod \<Rightarrow>
              if mgetd '''' (mnil (ApAnnotations pod)) FargatePodSGAnnotationKey \<noteq>
                 mgetd '''' (mnil (ApAnnotations oldPod)) FargatePodSGAnnotationKey
              then Denied ''annotation is not set by mutating webhook''
              else update_keys_loop (Username req) (mnil (ApAnnotations pod)) (mnil (ApAnnotations oldPod))
                     (getAnnotationKeysToBeValidated ipam)))"

definition ValidateAnnotations :: "('raw \<Rightarrow> string + adm_pod) \<Rightarrow> bool \<Rightarrow> 'raw admission_request \<Rightarrow> adm_pod response" where
  "ValidateAnnotations decode ipam req =
     (case ReqOperation req of
        OpCreate \<Rightarrow> handleCreate decode ipam req
      | OpUpdate \<Rightarrow> handleUpdate decode ipam req
      | _ \<Rightarrow> Allowed '''')"

section \<open>The validating webhook of nodes\<close>

definition awsNodeUsername :: string where "awsNodeUsername = ''system:serviceaccount:kube-system:aws-node''"

record ('f, 'r) adm_node =
  AnLabels :: "string_map option"
  AnManagedFields :: "'f list"
  AnSelfLink :: string
  AnRest :: 'r

text \<open>\<open>reflect.DeepEqual\<close> on maps compares the entries, and distinguishes a nil map from an empty one.\<close>

definition map_equal :: "string_map \<Rightarrow> string_map \<Rightarrow> bool" where
  "map_equal a b \<longleftrightarrow> list_all (\<lambda>k. mget a k = mget b k) (mkeys a @ mkeys b)"

definition labels_equal :: "string_map option \<Rightarrow> string_map option \<Rightarrow> bool" where
  "labels_equal a b =
     (case (a, b) of (None, None) \<Rightarrow> True | (Some m, Some m') \<Rightarrow> map_equal m m' | _ \<Rightarrow> False)"

definition node_deep_equal :: "('f, 'r) adm_node \<Rightarrow> ('f, 'r) adm_node \<Rightarrow> bool" where
  "node_deep_equal a b \<longleftrightarrow> labels_equal (AnLabels a) (AnLabels b) \<and> AnManagedFields a = AnManagedFields b \<and>
     AnSelfLink a = AnSelfLink b \<and> AnRest a = AnRest b"

definition strip_node :: "('f, 'r) adm_node \<Rightarrow> ('f, 'r) adm_node" where
  "strip_node n = n\<lparr>AnLabels := map_option (\<lambda>m. mdel (mdel m HasTrunkAttachedLabel) CustomNetworkingLabel) (AnLabels n),
     AnManagedFields := [], AnSelfLink := ''''\<rparr>"

definition NodeUpdateHandle ::
  "('raw \<Rightarrow> string + ('f, 'r) adm_node) \<Rightarrow> 'raw admission_request \<Rightarrow> ('f, 'r) adm_node response" where
  "NodeUpdateHandle decode req =
     (if Username req \<noteq> awsNodeUsername then Allowed ''''
      else
        (case decode (ReqObject req) of
           Inl err \<Rightarrow> Errored 400 err
         | Inr newNode \<Rightarrow>
            (case decode (ReqOldObject req) of
               Inl err \<Rightarrow> Errored 400 err
             | Inr oldNode \<Rightarrow>
                 if \<not> node_deep_equal (strip_node newNode) (strip_node oldNode)
                 then Denied ''aws-node can only update limited fields on the Node Object''
                 else Allowed '''')))"

end
