(* ===== verification/Webhook_Props.thy ===== *)
theory Webhook_Props
  imports Webhooks Pod_Props
begin

text \<open>
  What the webhooks guarantee: what the mutating webhook does to a pod, who can change the annotations of a pod over a
  whole sequence of requests, and which changes of a node are let through.
\<close>

section \<open>The mutating webhook\<close>

lemma mnil_Some [simp]: "mnil (Some m) = m" "mnil None = []"
  by (simp_all add: mnil_def)

lemma initialized:
  assumes "InitializeEmptyFields ns pod = Some p"
  obtains c cs where "ApContainers pod = c # cs"
    "p = pod\<lparr>ApContainers := c\<lparr>AcLimits := Some (mnil (AcLimits c)), AcRequests := Some (mnil (AcRequests c))\<rparr> # cs,
       ApNamespace := (if ApNamespace pod = '''' then ns else ApNamespace pod), ApAnnotations := Some (mnil (ApAnnotations pod))\<rparr>"
  using assms by (auto simp: InitializeEmptyFields_def split: list.splits)

lemma initialized_same:
  assumes "InitializeEmptyFields ns pod = Some p"
  shows "mnil (ApAnnotations p) = mnil (ApAnnotations pod)" "ApLabels p = ApLabels pod" "WhichPod p = WhichPod pod"
    "PodContainers (to_pod p) = PodContainers (to_pod pod)" "ApAnnotations p \<noteq> None"
  using assms by (auto elim!: initialized simp: WhichPod_def hasWindowsNodeSelector_def to_pod_def)

lemma inject_initialized: "InitializeEmptyFields ns pod = Some p \<Longrightarrow> \<exists>p'. inject res p = Some p'"
  by (auto elim!: initialized simp: inject_def)

lemma annotate_initialized: "InitializeEmptyFields ns pod = Some p \<Longrightarrow> \<exists>p'. annotate k v p = Some p'"
  by (auto elim!: initialized simp: annotate_def)

text \<open>The mutating webhook panics exactly for a pod without containers; the writes to the maps of the pod are
  safe because the nil maps have been replaced.\<close>

theorem mutate_panics_without_containers:
  "MutatePod decode marshal sgpAPI ipam req = None \<longleftrightarrow>
     (\<exists>pod. decode (ReqObject req) = Inr pod \<and> ApContainers pod = [])"
proof (cases "decode (ReqObject req)")
  case (Inr pod)
  show ?thesis
  proof (cases "InitializeEmptyFields (ReqNamespace req) pod")
    case None
    then show ?thesis using Inr by (auto simp: MutatePod_def InitializeEmptyFields_def split: list.splits)
  next
    case (Some p)
    then have "ApContainers pod \<noteq> []" by (auto elim: initialized)
    moreover obtain p1 p2 where "inject ResourceNameIPAddress p = Some p1" "inject ResourceNamePodENI p = Some p2"
      using inject_initialized [OF Some] by metis
    moreover have "annotate k v p \<noteq> None" for k v using annotate_initialized [OF Some] by fastforce
    ultimately show ?thesis using Inr Some
      by (auto simp: MutatePod_def HandleFargatePod_def HandleLinuxPod_def HandleWindowsPod_def
          split: PodType.split sum.split list.split)
  qed
qed (simp add: MutatePod_def)

text \<open>The object that is stored when the response is given for an object.\<close>

fun object_after :: "'o \<Rightarrow> 'o response option \<Rightarrow> 'o" where
  "object_after old (Some (Patched new)) = new"
| "object_after old r = old"

lemma patched: "admitted (GetPatchResponse marshal p) \<Longrightarrow> GetPatchResponse marshal p = Patched p"
  by (auto simp: GetPatchResponse_def split: option.splits)

text \<open>The security group annotation of a Fargate pod is the webhook's: on an admitted creation it is the list
  of the matching groups, or absent when none matches, whatever the request had under the key.\<close>

theorem fargate_annotation_is_computed:
  assumes "decode (ReqObject req) = Inr pod" "WhichPod pod = Fargate"
    and "MutatePod decode marshal sgpAPI ipam req = Some r" "admitted r"
  shows "\<exists>p sgs. InitializeEmptyFields (ReqNamespace req) pod = Some p \<and> sgpAPI (to_pod p) = Inr sgs \<and>
    mget (mnil (ApAnnotations (object_after pod (Some r)))) FargatePodSGAnnotationKey =
      (if sgs = [] then None else Some (Join sgs (CHR '','')))"
proof -
  obtain p where p: "InitializeEmptyFields (ReqNamespace req) pod = Some p" using assms(1,3) by (auto simp: MutatePod_def split: option.splits)
  note same = initialized_same [OF p]
  have h: "HandleFargatePod marshal sgpAPI p = Some r" using assms(1-3) p same(3) by (simp add: MutatePod_def)
  obtain ann where ann: "ApAnnotations p = Some ann" using same(5) by blast
  obtain sgs where sgs: "sgpAPI (to_pod p) = Inr sgs" using h assms(4) by (auto simp: HandleFargatePod_def split: sum.splits)
  show ?thesis
  proof (cases sgs)
    case Nil
    show ?thesis
    proof (cases "mhas ann FargatePodSGAnnotationKey")
      case True
      then have "r = Patched (p\<lparr>ApAnnotations := Some (mdel ann FargatePodSGAnnotationKey)\<rparr>)"
        using h sgs Nil ann assms(4) by (auto simp: HandleFargatePod_def patched)
      then show ?thesis using p sgs Nil by simp
    next
      case False
      then have "r = Allowed ''Fargate pod not matching any SGP''" using h sgs Nil ann by (simp add: HandleFargatePod_def)
      then show ?thesis using p sgs Nil same(1) ann False by (simp add: mhas_def)
    qed
  next
    case (Cons g gs)
    then have "r = Patched (p\<lparr>ApAnnotations := Some (mput ann FargatePodSGAnnotationKey (Join sgs (CHR '','')))\<rparr>)"
      using h sgs ann assms(4) by (auto simp: HandleFargatePod_def annotate_def patched)
    then show ?thesis using p sgs Cons by simp
  qed
qed

definition sample_adm_pod :: adm_pod where
  "sample_adm_pod = \<lparr>ApNamespace = ''ns'', ApName = ''p'', ApUID = ''u'', ApLabels = [], ApAnnotations = None, ApHostNetwork = False,
     ApNodeSelector = [], ApNodeName = ''node-1'', ApServiceAccount = ''default'', ApContainers = [\<lparr>AcLimits = None, AcRequests = None\<rparr>]\<rparr>"

abbreviation sample_request :: "adm_pod \<Rightarrow> adm_pod admission_request" where
  "sample_request p \<equiv> \<lparr>ReqOperation = OpCreate, ReqNamespace = ''ns'', Username = ''someone'', ReqObject = p, ReqOldObject = p\<rparr>"

theorem fargate_annotation_is_computed_witness:
  "\<exists>r. MutatePod Inr (\<lambda>_. None) (\<lambda>_. Inr [''sg-1'', ''sg-2'']) False
       (sample_request (sample_adm_pod\<lparr>ApLabels := [(FargatePodIdentifierLabelKey, ''fp'')], ApAnnotations := Some [(FargatePodSGAnnotationKey, ''sg-evil'')]\<rparr>)) = Some r \<and>
     mget (mnil (ApAnnotations (object_after sample_adm_pod (Some r)))) FargatePodSGAnnotationKey = Some ''sg-1,sg-2''"
proof -
  let ?pod = "sample_adm_pod\<lparr>ApLabels := [(FargatePodIdentifierLabelKey, ''fp'')], ApAnnotations := Some [(FargatePodSGAnnotationKey, ''sg-evil'')]\<rparr>"
  let ?m = "MutatePod Inr (\<lambda>_. None) (\<lambda>_. Inr [''sg-1'', ''sg-2'']) False (sample_request ?pod)"
  have f: "WhichPod ?pod = Fargate" "ApContainers ?pod \<noteq> []" by (simp_all add: WhichPod_def sample_adm_pod_def mhas_def mget_Cons)
  have e: "case ?m of Some (Patched p) \<Rightarrow> True | _ \<Rightarrow> False" by code_simp
  then obtain p where p: "?m = Some (Patched p)" by (auto split: option.splits response.splits)
  have "\<exists>q sgs. InitializeEmptyFields ''ns'' ?pod = Some q \<and> Inr [''sg-1'', ''sg-2''] = (Inr sgs :: string + string list) \<and>
      mget (mnil (ApAnnotations (object_after ?pod (Some (Patched p))))) FargatePodSGAnnotationKey = (if sgs = [] then None else Some (Join sgs (CHR '','')))"
    using fargate_annotation_is_computed [of Inr "sample_request ?pod" ?pod "\<lambda>_. None" "\<lambda>_. Inr [''sg-1'', ''sg-2'']" False "Patched p"] f p by simp
  then show ?thesis using p by auto
qed

subsection \<open>Injected requests\<close>

lemma quantities_mput_other: "k \<noteq> res \<Longrightarrow> quantities (mput m k v) res = quantities m res"
proof (induction m)
  case (Cons e m)
  obtain j w where e: "e = (j, w)" by fastforce
  show ?case using Cons by (cases w; cases v) (auto simp: e mput_Cons)
next
  case Nil
  then show ?case by (cases v) (simp_all add: mput_Nil)
qed

lemma quantities_mput_same: "quantities (mput m k (Some q)) k \<noteq> []"
proof (induction m)
  case (Cons e m)
  obtain j w where e: "e = (j, w)" by fastforce
  show ?case using Cons by (cases w) (auto simp: e mput_Cons)
qed (simp add: mput_Nil)

lemma aggregate_get:
  "mget (getAggregateResources pod) res =
     (if quantities (concat (map Requests (PodContainers pod))) res = [] then None
      else Some (i64 (sum_list (quantities (concat (map Requests (PodContainers pod))) res))))"
  by (simp add: getAggregateResources_def aggregate_fold add_requests mgetd_def)

lemma inject_requests:
  assumes "InitializeEmptyFields ns pod = Some p" "inject k p = Some p'"
  shows "res \<noteq> k \<Longrightarrow> mget (getAggregateResources (to_pod p')) res = mget (getAggregateResources (to_pod pod)) res"
    and "mhas (getAggregateResources (to_pod p')) k"
    and "PodHasENIRequest k (Some (to_pod p'))"
    and "ApAnnotations p' = ApAnnotations p"
proof -
  obtain c cs where c: "ApContainers pod = c # cs"
    "p = pod\<lparr>ApContainers := c\<lparr>AcLimits := Some (mnil (AcLimits c)), AcRequests := Some (mnil (AcRequests c))\<rparr> # cs,
       ApNamespace := (if ApNamespace pod = '''' then ns else ApNamespace pod), ApAnnotations := Some (mnil (ApAnnotations pod))\<rparr>"
    using assms(1) by (rule initialized)
  have p': "p' = p\<lparr>ApContainers := c\<lparr>AcLimits := Some (mput (mnil (AcLimits c)) k (Some 1)),
      AcRequests := Some (mput (mnil (AcRequests c)) k (Some 1))\<rparr> # cs\<rparr>"
    using assms(2) c(2) by (simp add: inject_def)
  show "mget (getAggregateResources (to_pod p')) res = mget (getAggregateResources (to_pod pod)) res" if "res \<noteq> k"
    using that by (simp add: aggregate_get to_pod_def p' c quantities_mput_other)
  show "mhas (getAggregateResources (to_pod p')) k"
    using quantities_mput_same [of "mnil (AcRequests c)" k 1] by (simp add: mhas_def aggregate_get to_pod_def p')
  show "PodHasENIRequest k (Some (to_pod p'))" by (simp add: PodHasENIRequest_def to_pod_def p' mhas_def)
  show "ApAnnotations p' = ApAnnotations p" by (simp add: p')
qed



section \<open>Who can write the annotations\<close>

text \<open>
  The life of the pods of one name at the API server, as far as the webhooks admit it: a creation goes through both
  webhooks, an update through the second one. With the failure policy \<open>ignore\<close> a panic of the first
  webhook lets the object through as it is. Requests that do not reach the webhooks at all are not part of
  the machine. Besides the stored pod the state remembers the value of the Fargate key at
  the creation, and for every key the user whose update changed its value last.
\<close>

record pod_store =
  stored :: "adm_pod option"
  fargate_groups :: string
  writers :: "string \<Rightarrow> string option"

definition annotation :: "adm_pod \<Rightarrow> string \<Rightarrow> string" where
  "annotation p key = mgetd '''' (mnil (ApAnnotations p)) key"

definition controllerUsers :: "string list" where
  "controllerUsers = [validUserInfo, newValidUserInfo, vpcControllerUserName]"

inductive admission_step :: "('raw \<Rightarrow> string + adm_pod) \<Rightarrow> bool \<Rightarrow> pod_store \<Rightarrow> pod_store \<Rightarrow> bool"
  for decode :: "'raw \<Rightarrow> string + adm_pod" and ipam :: bool where
  create: "stored s = None \<Longrightarrow> decode (ReqObject req) = Inr pod \<Longrightarrow>
    MutatePod decode marshal sgpAPI ipam req = r \<Longrightarrow> (\<forall>resp. r = Some resp \<longrightarrow> admitted resp) \<Longrightarrow>
    ReqOperation req' = OpCreate \<Longrightarrow> decode (ReqObject req') = Inr (object_after pod r) \<Longrightarrow>
    admitted (ValidateAnnotations decode ipam req') \<Longrightarrow>
    admission_step decode ipam s \<lparr>stored = Some (object_after pod r),
      fargate_groups = annotation (object_after pod r) FargatePodSGAnnotationKey, writers = (\<lambda>_. None)\<rparr>"
| update: "stored s = Some old \<Longrightarrow> ReqOperation req = OpUpdate \<Longrightarrow>
    decode (ReqOldObject req) = Inr old \<Longrightarrow> decode (ReqObject req) = Inr new \<Longrightarrow>
    admitted (ValidateAnnotations decode ipam req) \<Longrightarrow>
    admission_step decode ipam s (s\<lparr>stored := Some new,
      writers := (\<lambda>key. if annotation new key \<noteq> annotation old key then Some (Username req) else writers s key)\<rparr>)"
| delete: "stored s = Some old \<Longrightarrow> admission_step decode ipam s (s\<lparr>stored := None\<rparr>)"

definition no_pod :: "pod_store \<Rightarrow> bool" where
  "no_pod s \<longleftrightarrow> stored s = None"

definition store_inv :: "bool \<Rightarrow> pod_store \<Rightarrow> bool" where
  "store_inv ipam s \<longleftrightarrow> (\<forall>p. stored s = Some p \<longrightarrow>
     annotation p FargatePodSGAnnotationKey = fargate_groups s \<and>
     (\<forall>key \<in> set (getAnnotationKeysToBeValidated ipam). annotation p key = '''' \<or>
        (\<exists>u \<in> set controllerUsers. writers s key = Some u)))"

lemma create_keys: "admitted (create_keys_loop m keys) \<longleftrightarrow> (\<forall>key \<in> set keys. \<not> mhas m key)"
  by (induction keys) auto

lemma update_keys:
  "admitted (update_keys_loop user m m' keys) \<longleftrightarrow>
     (\<forall>key \<in> set keys. mgetd '''' m key \<noteq> mgetd '''' m' key \<longrightarrow> user \<in> set controllerUsers)"
  by (induction keys) (auto simp: controllerUsers_def)

lemma admission_step_inv:
  assumes "admission_step decode ipam s t" "store_inv ipam s"
  shows "store_inv ipam t"
  using assms(1)
proof (cases rule: admission_step.cases)
  case (create req pod marshal sgpAPI r req')
  have "\<forall>key \<in> set (getAnnotationKeysToBeValidated ipam). annotation (object_after pod r) key = ''''"
    using create(6-8) by (auto simp: ValidateAnnotations_def handleCreate_def create_keys annotation_def mgetd_def mhas_def)
  then show ?thesis using create(1) by (simp add: store_inv_def)
next
  case (update old req new)
  have "annotation new FargatePodSGAnnotationKey = annotation old FargatePodSGAnnotationKey"
    "\<forall>key \<in> set (getAnnotationKeysToBeValidated ipam). annotation new key \<noteq> annotation old key \<longrightarrow> Username req \<in> set controllerUsers"
    using update(3-6) by (auto simp: ValidateAnnotations_def handleUpdate_def update_keys annotation_def split: if_splits)
  then show ?thesis using update(1,2) assms(2) by (auto simp: store_inv_def)
next
  case (delete old)
  then show ?thesis by (simp add: store_inv_def)
qed

interpretation admission: invariant_system no_pod "admission_step decode ipam" "store_inv ipam" for decode ipam
  by unfold_locales (simp add: no_pod_def store_inv_def, erule (1) admission_step_inv [rotated])


definition sample_annotated :: adm_pod where
  "sample_annotated = sample_adm_pod\<lparr>ApAnnotations := Some [(ResourceNamePodENI, ''[eni]'')]\<rparr>"

definition sample_store :: pod_store where
  "sample_store = \<lparr>stored = Some sample_adm_pod, fargate_groups = '''', writers = (\<lambda>_. None)\<rparr>"


text \<open>The comparison of the annotations reads a missing key as the empty value, while the handler of the pod's
  events asks whether the key is there. So every user may add the key with an empty value to a pod
  that has none, and the pod then never gets an address.\<close>

theorem empty_annotation_starves_pod:
  assumes "decode (ReqObject req) = Inr new" "decode (ReqOldObject req) = Inr old" "ReqOperation req = OpUpdate"
    and "new = old\<lparr>ApAnnotations := Some (mput (mnil (ApAnnotations old)) ResourceNameIPAddress '''')\<rparr>"
    and "\<not> mhas (mnil (ApAnnotations old)) ResourceNameIPAddress"
    and "GetPool m (ApNodeName old) = Some p"
  shows "admitted (ValidateAnnotations decode ipam req) \<and>
    HandleCreate ResourceNameIPAddress k8s now (to_pod new) m = (m, [], no_requeue, None)"
proof
  have "mgetd '''' (mnil (ApAnnotations new)) key = mgetd '''' (mnil (ApAnnotations old)) key" for key
    using assms(4,5) by (auto simp: mgetd_def mhas_def)
  then show "admitted (ValidateAnnotations decode ipam req)" using assms(1-3) by (simp add: ValidateAnnotations_def handleUpdate_def update_keys)
  show "HandleCreate ResourceNameIPAddress k8s now (to_pod new) m = (m, [], no_requeue, None)"
    using assms(4,6) by (simp add: HandleCreate_def to_pod_def mhas_def)
qed

theorem empty_annotation_starves_pod_witness:
  "\<exists>req :: adm_pod admission_request. Username req = ''someone'' \<and> admitted (ValidateAnnotations Inr True req) \<and>
     HandleCreate ResourceNameIPAddress sample_k8s 5 (to_pod (ReqObject req)) (sample_pools_map sample_pool) =
       (sample_pools_map sample_pool, [], no_requeue, None)"
proof -
  let ?new = "sample_adm_pod\<lparr>ApAnnotations := Some (mput (mnil (ApAnnotations sample_adm_pod)) ResourceNameIPAddress '''')\<rparr>"
  let ?req = "\<lparr>ReqOperation = OpUpdate, ReqNamespace = ''ns'', Username = ''someone'', ReqObject = ?new, ReqOldObject = sample_adm_pod\<rparr>"
  have "ApNodeName sample_adm_pod = ''node-1''" "\<not> mhas (mnil (ApAnnotations sample_adm_pod)) ResourceNameIPAddress"
    by (simp_all add: sample_adm_pod_def mhas_def)
  then show ?thesis
    using empty_annotation_starves_pod [of Inr ?req ?new sample_adm_pod "sample_pools_map sample_pool" sample_pool True sample_k8s 5]
    by (intro exI [of _ ?req]) simp
qed

section \<open>The webhook of nodes\<close>

lemma map_equal_iff: "map_equal a b \<longleftrightarrow> (\<forall>k. mget a k = mget b k)"
  unfolding map_equal_def list_all_iff by (auto simp: mkeys_mget)

text \<open>The webhook of nodes lets an update of \<open>aws-node\<close> through exactly if it changes nothing but the two labels of the
  controller, the managed fields and the self link; every other user is let through. (Adding the
  first label to a node whose labels are nil is denied as well.)\<close>

theorem aws_node_updates_two_labels:
  assumes "decode (ReqObject req) = Inr new" "decode (ReqOldObject req) = Inr old"
  shows "admitted (NodeUpdateHandle decode req) \<longleftrightarrow>
    Username req \<noteq> awsNodeUsername \<or>
    (AnRest new = AnRest old \<and> (AnLabels new = None \<longleftrightarrow> AnLabels old = None) \<and>
     (\<forall>k. k \<notin> {HasTrunkAttachedLabel, CustomNetworkingLabel} \<longrightarrow> mget (mnil (AnLabels new)) k = mget (mnil (AnLabels old)) k))"
  using assms
  by (cases "AnLabels new"; cases "AnLabels old")
    (auto simp: NodeUpdateHandle_def node_deep_equal_def strip_node_def labels_equal_def map_equal_iff)

theorem aws_node_updates_two_labels_witness:
  "\<not> admitted (NodeUpdateHandle (Inr :: (nat, bool) adm_node \<Rightarrow> string + (nat, bool) adm_node)
      \<lparr>ReqOperation = OpUpdate, ReqNamespace = '''', Username = awsNodeUsername,
       ReqObject = \<lparr>AnLabels = Some [(''zone'', ''a'')], AnManagedFields = [], AnSelfLink = '''', AnRest = True\<rparr>,
       ReqOldObject = \<lparr>AnLabels = Some [(''zone'', ''b'')], AnManagedFields = [], AnSelfLink = '''', AnRest = True\<rparr>\<rparr>)"
  using aws_node_updates_two_labels [of "Inr :: (nat, bool) adm_node \<Rightarrow> string + (nat, bool) adm_node"
      "\<lparr>ReqOperation = OpUpdate, ReqNamespace = '''', Username = awsNodeUsername,
       ReqObject = \<lparr>AnLabels = Some [(''zone'', ''a'')], AnManagedFields = [], AnSelfLink = '''', AnRest = True\<rparr>,
       ReqOldObject = \<lparr>AnLabels = Some [(''zone'', ''b'')], AnManagedFields = [], AnSelfLink = '''', AnRest = True\<rparr>\<rparr>"]
  by (auto simp: mget_Cons HasTrunkAttachedLabel_def CustomNetworkingLabel_def dest: spec [of _ "''zone''"])

end
