(* ===== verification/Controllers.thy ===== *)
theory Controllers
  imports Conditions Cooldown Node_System
begin

text \<open>
  The controllers that drive the node manager: \<open>controllers/core/node_controller.go\<close>, \<open>controllers/core/configmap_controller.go\<close> and
  \<open>controllers/apps/deployment_controller.go\<close>. An event returns the new state, the effects, the jobs that the node
  manager submitted, and the error. Answers of Kubernetes are arguments; answers that may differ
  between several reads in one event are functions of the number of the read.
\<close>

datatype controller_error =
    ClientError k8s_error
  | UpdateNodesFailed "manager_error list"
  | NodeManagerError manager_error

section \<open>All nodes\<close>

fun update_nodes_loop ::
  "(nat \<Rightarrow> node_k8s) \<Rightarrow> string list \<Rightarrow> nat \<Rightarrow> node_manager \<Rightarrow> effect list \<Rightarrow> AsyncOperationJob list \<Rightarrow> manager_error list \<Rightarrow>
   node_manager \<times> effect list \<times> AsyncOperationJob list \<times> manager_error list" where
  "update_nodes_loop k [] i m effs jobs errList = (m, effs, jobs, errList)"
| "update_nodes_loop k (node # rest) i m effs jobs errList =
     (case GetNode node m of
        None \<Rightarrow> update_nodes_loop k rest (Suc i) m effs jobs errList
      | Some a \<Rightarrow>
         (case UpdateNode (k i) node m of
            (m1, effs1, jobs1, err) \<Rightarrow>
              update_nodes_loop k rest (Suc i) m1 (effs @ effs1) (jobs @ jobs1)
                (case err of None \<Rightarrow> errList | Some e \<Rightarrow> errList @ [e])))"

definition UpdateNodesOnConfigMapChanges ::
  "k8s_error + string list \<Rightarrow> (nat \<Rightarrow> node_k8s) \<Rightarrow> node_manager \<Rightarrow>
   node_manager \<times> effect list \<times> AsyncOperationJob list \<times> controller_error option" where
  "UpdateNodesOnConfigMapChanges listNodes k m =
     (case listNodes of
        Inl err \<Rightarrow> (m, [], [], Some (ClientError err))
      | Inr nodeList \<Rightarrow>
         (case update_nodes_loop k nodeList 0 m [] [] [] of
            (m1, effs, jobs, errList) \<Rightarrow>
              (m1, effs, jobs, if length errList > 0 then Some (UpdateNodesFailed errList) else None)))"

definition SendBroadcastNodeEvent :: "k8s_error + string list \<Rightarrow> string \<Rightarrow> string \<Rightarrow> effect list" where
  "SendBroadcastNodeEvent listNodes reason eventType =
     (case listNodes of Inl err \<Rightarrow> [] | Inr nodeList \<Rightarrow> map (\<lambda>n. NodeEvent n reason eventType) nodeList)"

section \<open>The ConfigMap controller\<close>

record configmap_reconciler =
  curWinIPAMEnabledCond :: bool
  curWinPrefixDelegationEnabledCond :: bool
  curWinWarmIPTarget :: int
  curWinMinIPTarget :: int
  curWinPDWarmPrefixTarget :: int

text \<open>The state an event of the ConfigMap works on; the cool down period and the conditions are global.\<close>

record config_state =
  reconciler :: configmap_reconciler
  period :: cooldown
  conds :: condition
  cmgr :: node_manager

definition BranchENICoolDownUpdateReason :: string where "BranchENICoolDownUpdateReason = ''BranchENICoolDownPeriodUpdated''"

text \<open>The new period is set before the event is sent. \<open>configMap\<close> is the read of the ConfigMap by the wrapper.\<close>

definition update_cool_down :: "cond_k8s \<Rightarrow> k8s_error + string list \<Rightarrow> cooldown \<Rightarrow> cooldown \<times> effect list" where
  "update_cool_down ck listNodes c =
     (let curCoolDownPeriod = GetCoolDownPeriod c in
      case GetVpcCniConfigMapCoolDownPeriodOrDefault
             (case GetConfigMap ck VpcCniConfigMapName KubeSystemNamespace of Inl err \<Rightarrow> None | Inr data \<Rightarrow> Some data) of
        (newCoolDownPeriod, True) \<Rightarrow> (c, [])
      | (newCoolDownPeriod, False) \<Rightarrow>
          if curCoolDownPeriod \<noteq> newCoolDownPeriod
          then (SetCoolDownPeriod newCoolDownPeriod c, SendBroadcastNodeEvent listNodes BranchENICoolDownUpdateReason EventTypeNormal)
          else (c, []))"

text \<open>The comparison with the values of the last event: the values now, and whether the nodes have to be updated.\<close>

definition detect_changes ::
  "bool \<Rightarrow> bool \<Rightarrow> config_map \<Rightarrow> configmap_reconciler \<Rightarrow> configmap_reconciler \<times> bool" where
  "detect_changes newWinIPAMEnabledCond newWinPrefixDelegationEnabledCond configmap r =
     (let isIPAMFlagUpdated = (curWinIPAMEnabledCond r \<noteq> newWinIPAMEnabledCond);
          r1 = (if isIPAMFlagUpdated then r\<lparr>curWinIPAMEnabledCond := newWinIPAMEnabledCond\<rparr> else r);
          isPrefixFlagUpdated = (curWinPrefixDelegationEnabledCond r1 \<noteq> newWinPrefixDelegationEnabledCond);
          r2 = (if isPrefixFlagUpdated then r1\<lparr>curWinPrefixDelegationEnabledCond := newWinPrefixDelegationEnabledCond\<rparr> else r1);
          (warmIPTarget, minIPTarget, warmPrefixTarget, isPDEnabled) = ParseWinIPTargetConfigs configmap;
          winMinIPTargetUpdated = (curWinMinIPTarget r2 \<noteq> minIPTarget);
          winWarmIPTargetUpdated = (curWinWarmIPTarget r2 \<noteq> warmIPTarget);
          winPDWarmPrefixTargetUpdated = (curWinPDWarmPrefixTarget r2 \<noteq> warmPrefixTarget);
          r3 = (if winWarmIPTargetUpdated \<or> winMinIPTargetUpdated
                then r2\<lparr>curWinWarmIPTarget := warmIPTarget, curWinMinIPTarget := minIPTarget\<rparr> else r2);
          r4 = (if isPDEnabled \<and> winPDWarmPrefixTargetUpdated then r3\<lparr>curWinPDWarmPrefixTarget := warmPrefixTarget\<rparr> else r3);
          isWinIPConfigsUpdated = (winWarmIPTargetUpdated \<or> winMinIPTargetUpdated \<or> (isPDEnabled \<and> winPDWarmPrefixTargetUpdated))
      in (r4, isIPAMFlagUpdated \<or> isPrefixFlagUpdated \<or> isWinIPConfigsUpdated))"

text \<open>\<open>get\<close> is the read of the ConfigMap by the client, \<open>listNodes\<close> are the two lists of the nodes. The object of a
  deleted ConfigMap is empty.\<close>

definition ConfigMapReconcile ::
  "(k8s_error + config_map) \<Rightarrow> cond_k8s \<Rightarrow> (nat \<Rightarrow> k8s_error + string list) \<Rightarrow> (nat \<Rightarrow> node_k8s) \<Rightarrow> string \<times> string \<Rightarrow> config_state \<Rightarrow>
   config_state \<times> effect list \<times> AsyncOperationJob list \<times> controller_error option" where
  "ConfigMapReconcile get ck listNodes k req s =
     (if snd req \<noteq> VpcCniConfigMapName \<or> fst req \<noteq> KubeSystemNamespace then (s, [], [], None)
      else
        (case (case get of Inr data \<Rightarrow> Inr data | Inl err \<Rightarrow> if is_K8sNotFound err then Inr None else Inl err) of
           Inl err \<Rightarrow> (s, [], [], Some (ClientError err))
         | Inr configmap \<Rightarrow>
            (let (period1, effs1) = update_cool_down ck (listNodes 0) (period s);
                 (ipam, conds1) = cond_IsWindowsIPAMEnabled ck (conds s);
                 (pd, conds2) = cond_IsWindowsPrefixDelegationEnabled ck conds1;
                 (r, changed) = detect_changes ipam pd configmap (reconciler s);
                 s1 = s\<lparr>period := period1, conds := conds2, reconciler := r\<rparr>
             in if changed then
                  (case UpdateNodesOnConfigMapChanges (listNodes 1) k (cmgr s) of
                     (m, effs2, jobs, err) \<Rightarrow> (s1\<lparr>cmgr := m\<rparr>, effs1 @ effs2, jobs, err))
                else (s1, effs1, [], None))))"

section \<open>The deployment controller\<close>

definition DeploymentReconcile ::
  "cond_k8s \<Rightarrow> k8s_error + string list \<Rightarrow> (nat \<Rightarrow> node_k8s) \<Rightarrow> string \<times> string \<Rightarrow> bool \<Rightarrow> node_manager \<Rightarrow>
   bool \<times> node_manager \<times> effect list \<times> AsyncOperationJob list \<times> controller_error option" where
  "DeploymentReconcile ck listNodes k req wasOldControllerDeployed m =
     (if snd req \<noteq> OldVPCControllerDeploymentName \<or> fst req \<noteq> KubeSystemNamespace then (wasOldControllerDeployed, m, [], [], None)
      else
        (let isOldControllerDeployed = IsOldVPCControllerDeploymentPresent ck in
         if isOldControllerDeployed = wasOldControllerDeployed then (wasOldControllerDeployed, m, [], [], None)
         else
           (case UpdateNodesOnConfigMapChanges listNodes k m of
              (m1, effs, jobs, err) \<Rightarrow> (isOldControllerDeployed, m1, effs, jobs, err))))"

section \<open>The node controller\<close>

definition computeTypeLabelKey :: string where "computeTypeLabelKey = ''eks.amazonaws.com/compute-type''"
definition autoComputeTypeLabelValue :: string where "autoComputeTypeLabelValue = ''auto''"

text \<open>\<open>leaks\<close> is the check for leaked interfaces with its clock and jitter.\<close>

definition NodeReconcile ::
  "condition \<Rightarrow> (string \<Rightarrow> k8s_error + k8s_node) \<Rightarrow> node_k8s \<Rightarrow> string \<Rightarrow> (string \<Rightarrow> node_manager \<Rightarrow> node_manager) \<Rightarrow> string \<Rightarrow> node_manager \<Rightarrow>
   node_manager \<times> effect list \<times> AsyncOperationJob list \<times> ctrl_result \<times> controller_error option" where
  "NodeReconcile c get k clusterName leaks req m =
     (if \<not> GetPodDataStoreSyncStatus c then (m, [], [], \<lparr>Requeue = False, RequeueAfter = 10 ^ 9\<rparr>, None)
      else
        (case get req of
           Inl err \<Rightarrow>
             if is_K8sNotFound err then
               (case GetNode req m of
                  None \<Rightarrow> (m, [], [], no_requeue, None)
                | Some a \<Rightarrow> (case DeleteNode req m of (m1, effs, jobs, e) \<Rightarrow> (m1, effs, jobs, no_requeue, None)))
             else (m, [], [], no_requeue, Some (ClientError err))
         | Inr node \<Rightarrow>
             if mget (KNodeLabels node) computeTypeLabelKey = Some autoComputeTypeLabelValue then (m, [], [], no_requeue, None)
             else
               (case GetNode req m of
                  Some a \<Rightarrow>
                    (case UpdateNode k req m of
                       (m1, effs, jobs, err) \<Rightarrow> (leaks req m1, effs, jobs, no_requeue, map_option NodeManagerError err))
                | None \<Rightarrow>
                    (case AddNode k clusterName req m of
                       (m1, effs, jobs, err) \<Rightarrow> (m1, effs, jobs, no_requeue, map_option NodeManagerError err)))))"

end
