(* ===== verification/Controllers_Props.thy ===== *)
theory Controllers_Props
  imports Controllers
begin

text \<open>
  The controllers of nodes, of the ConfigMap and of the old deployment only do what the machine of \<open>Node_System\<close>
  allows; a change of the configuration reaches every node of the cache, and a failed one is not tried again.
\<close>

section \<open>The controllers as runs of the node machine\<close>

definition node_run :: "node_sys \<Rightarrow> node_manager \<Rightarrow> AsyncOperationJob list \<Rightarrow> node_sys \<Rightarrow> bool" where
  "node_run s m js s' \<longleftrightarrow> node_step\<^sup>*\<^sup>* s s' \<and> s' = submit js m s"

lemma node_run_refl: "node_run s (mgr s) [] s"
  by (simp add: node_run_def submit_def)

lemma node_run_event:
  assumes "names_ok k"
  shows "AddNode k cn x (mgr s) = (m, effs, js, e) \<Longrightarrow> node_run s m js (submit js m s)"
    and "UpdateNode k x (mgr s) = (m, effs, js, e) \<Longrightarrow> node_run s m js (submit js m s)"
    and "DeleteNode x (mgr s) = (m, effs, js, e) \<Longrightarrow> node_run s m js (submit js m s)"
  using assms by (auto simp: node_run_def intro: r_into_rtranclp node_step.intros)

lemma node_run_trans: "node_run s m js s1 \<Longrightarrow> node_run s1 m' js' s2 \<Longrightarrow> node_run s m' (js @ js') s2"
  by (auto simp: node_run_def submit_def)

lemma node_run_leaks: "node_run s (CheckNodeForLeakedENIs jitter now later prov x (mgr s)) [] (s\<lparr>mgr := CheckNodeForLeakedENIs jitter now later prov x (mgr s)\<rparr>)"
  using node_step.check_leaks [of s jitter now later prov x] by (auto simp: node_run_def submit_def)

lemma node_run_mgr: "node_run s m js s' \<Longrightarrow> mgr s' = m"
  by (simp add: node_run_def submit_def)

lemma update_nodes_run:
  assumes "\<forall>i. names_ok (k i)" "update_nodes_loop k ns i (mgr s) effs js errs = (m', effs', js', errs')"
  shows "\<exists>ext s'. js' = js @ ext \<and> node_run s m' ext s'"
  using assms(2)
proof (induction ns arbitrary: i s effs js errs)
  case Nil
  then show ?case using node_run_refl by auto
next
  case (Cons n ns)
  show ?case
  proof (cases "GetNode n (mgr s)")
    case None
    then show ?thesis using Cons by simp
  next
    case (Some a)
    obtain m1 effs1 js1 e1 where u: "UpdateNode (k i) n (mgr s) = (m1, effs1, js1, e1)" by (metis prod_cases4)
    let ?s1 = "submit js1 m1 s"
    have r: "node_run s m1 js1 ?s1" using node_run_event(2) assms(1) u by blast
    have "update_nodes_loop k ns (Suc i) (mgr ?s1) (effs @ effs1) (js @ js1) (case e1 of None \<Rightarrow> errs | Some e \<Rightarrow> errs @ [e]) = (m', effs', js', errs')"
      using Cons.prems Some u by (simp add: submit_def)
    from Cons.IH [OF this] obtain ext s' where "js' = (js @ js1) @ ext" "node_run ?s1 m' ext s'" by blast
    then show ?thesis using node_run_trans [OF r] by auto
  qed
qed

lemma update_all_run:
  assumes "\<forall>i. names_ok (k i)" "UpdateNodesOnConfigMapChanges ln k (mgr s) = (m', effs, js, e)"
  shows "\<exists>s'. node_run s m' js s'"
proof (cases ln)
  case (Inl err)
  then show ?thesis using assms(2) node_run_refl by (auto simp: UpdateNodesOnConfigMapChanges_def)
next
  case (Inr ns)
  obtain m1 effs1 js1 errs where l: "update_nodes_loop k ns 0 (mgr s) [] [] [] = (m1, effs1, js1, errs)" by (metis prod_cases4)
  then show ?thesis using update_nodes_run [OF assms(1) l] assms(2) Inr by (auto simp: UpdateNodesOnConfigMapChanges_def)
qed

lemma node_reconcile_run:
  assumes "names_ok k" "NodeReconcile c get k cn (CheckNodeForLeakedENIs jitter now later prov) req (mgr s) = (m', effs, js, r, e)"
  shows "\<exists>s'. node_run s m' js s'"
proof (cases "GetPodDataStoreSyncStatus c")
  case False
  then show ?thesis using assms(2) node_run_refl by (auto simp: NodeReconcile_def)
next
  case sync: True
  consider (same) "m' = mgr s" "js = []"
    | (gone) effs' e' where "DeleteNode req (mgr s) = (m', effs', js, e')"
    | (upd) m1 e' where "UpdateNode k req (mgr s) = (m1, effs, js, e')" "m' = CheckNodeForLeakedENIs jitter now later prov req m1"
    | (new) e' where "AddNode k cn req (mgr s) = (m', effs, js, e')"
    using assms(2) sync by (auto simp: NodeReconcile_def split: sum.splits if_splits option.splits prod.splits)
  then show ?thesis
  proof cases
    case upd
    have "node_run s m1 js (submit js m1 s)" using node_run_event(2) [OF assms(1) upd(1)] .
    then show ?thesis using node_run_trans node_run_leaks [of "submit js m1 s"] node_run_mgr upd(2) by (metis append_Nil2)
  next
    case same
    then show ?thesis using node_run_refl by auto
  next
    case gone
    then show ?thesis using node_run_event(3) [OF assms(1) gone] by blast
  next
    case new
    then show ?thesis using node_run_event(1) [OF assms(1) new] by blast
  qed
qed



section \<open>A change of the configuration\<close>

lemma store_changed:
  "(if curWinIPAMEnabledCond r \<noteq> a then r\<lparr>curWinIPAMEnabledCond := a\<rparr> else r) = r\<lparr>curWinIPAMEnabledCond := a\<rparr>"
  "(if curWinPrefixDelegationEnabledCond r \<noteq> a then r\<lparr>curWinPrefixDelegationEnabledCond := a\<rparr> else r) = r\<lparr>curWinPrefixDelegationEnabledCond := a\<rparr>"
  "(if curWinWarmIPTarget r \<noteq> w \<or> curWinMinIPTarget r \<noteq> mi then r\<lparr>curWinWarmIPTarget := w, curWinMinIPTarget := mi\<rparr> else r) =
     r\<lparr>curWinWarmIPTarget := w, curWinMinIPTarget := mi\<rparr>"
  "(if isPD \<and> curWinPDWarmPrefixTarget r \<noteq> pf then r\<lparr>curWinPDWarmPrefixTarget := pf\<rparr> else r) =
     r\<lparr>curWinPDWarmPrefixTarget := (if isPD then pf else curWinPDWarmPrefixTarget r)\<rparr>"
  by (cases r; simp)+

lemma detect_changes_values:
  assumes "ParseWinIPTargetConfigs cm = (w, mi, pf, isPD)"
  shows "fst (detect_changes a b cm r) = \<lparr>curWinIPAMEnabledCond = a, curWinPrefixDelegationEnabledCond = b, curWinWarmIPTarget = w,
      curWinMinIPTarget = mi, curWinPDWarmPrefixTarget = (if isPD then pf else curWinPDWarmPrefixTarget r)\<rparr>"
    and "snd (detect_changes a b cm r) \<longleftrightarrow> curWinIPAMEnabledCond r \<noteq> a \<or> curWinPrefixDelegationEnabledCond r \<noteq> b \<or>
      curWinWarmIPTarget r \<noteq> w \<or> curWinMinIPTarget r \<noteq> mi \<or> (isPD \<and> curWinPDWarmPrefixTarget r \<noteq> pf)"
  unfolding detect_changes_def Let_def store_changed assms by (cases r; simp)+

lemma detect_changes_again:
  assumes "detect_changes a b cm r = (r', changed)"
  shows "detect_changes a b cm r' = (r', False)"
proof -
  obtain w mi pf isPD where p: "ParseWinIPTargetConfigs cm = (w, mi, pf, isPD)" by (rule prod_cases4)
  have r': "r' = fst (detect_changes a b cm r)" using assms by simp
  have "fst (detect_changes a b cm r') = r'" "\<not> snd (detect_changes a b cm r')"
    unfolding r' by (simp_all add: detect_changes_values [OF p])
  then show ?thesis by (simp add: prod_eq_iff)
qed

lemma conditions_again:
  "cond_IsWindowsIPAMEnabled ck c = (b, c') \<Longrightarrow> windowsPDFeatureFlag c' = windowsPDFeatureFlag c"
  "cond_IsWindowsPrefixDelegationEnabled ck c = (b, c') \<Longrightarrow> windowsPDFeatureFlag c' = windowsPDFeatureFlag c"
  by (auto simp: cond_IsWindowsIPAMEnabled_def cond_IsWindowsPrefixDelegationEnabled_def split: if_splits sum.splits option.splits)

lemma conditions_flag:
  "fst (cond_IsWindowsIPAMEnabled ck c) = fst (cond_IsWindowsIPAMEnabled ck c')"
  "windowsPDFeatureFlag c = windowsPDFeatureFlag c' \<Longrightarrow>
    fst (cond_IsWindowsPrefixDelegationEnabled ck c) = fst (cond_IsWindowsPrefixDelegationEnabled ck c')"
  by (simp_all add: ipam_enabled_iff pd_enabled_iff)

abbreviation config_request :: "string \<times> string" where
  "config_request \<equiv> (KubeSystemNamespace, VpcCniConfigMapName)"

text \<open>What an event of the ConfigMap does, with the conditions and the comparison named.\<close>

lemma config_event:
  assumes "get = Inr cm \<or> (cm = None \<and> (\<exists>e. get = Inl (K8sNotFound e)))"
    and "fst (cond_IsWindowsIPAMEnabled ck (conds s)) = ipam" "fst (cond_IsWindowsPrefixDelegationEnabled ck (conds s)) = pd"
    and "detect_changes ipam pd cm (reconciler s) = (r, changed)"
    and "ConfigMapReconcile get ck ln k config_request s = (s', effs, js, e)"
  shows "reconciler s' = r \<and> windowsPDFeatureFlag (conds s') = windowsPDFeatureFlag (conds s) \<and>
    (if changed then \<exists>effs'. UpdateNodesOnConfigMapChanges (ln 1) k (cmgr s) = (cmgr s', effs', js, e)
     else cmgr s' = cmgr s \<and> js = [] \<and> e = None)"
proof -
  obtain ipam' c1 where c1: "cond_IsWindowsIPAMEnabled ck (conds s) = (ipam', c1)" by fastforce
  obtain pd' c2 where c2: "cond_IsWindowsPrefixDelegationEnabled ck c1 = (pd', c2)" by fastforce
  have flag: "windowsPDFeatureFlag c2 = windowsPDFeatureFlag (conds s)" "windowsPDFeatureFlag c1 = windowsPDFeatureFlag (conds s)"
    using conditions_again(1) [OF c1] conditions_again(2) [OF c2] by simp_all
  have "ipam' = ipam" using assms(2) c1 by simp
  moreover have "pd' = pd" using assms(3) c2 conditions_flag(2) [where ck = ck, OF flag(2)] by simp
  ultimately show ?thesis using assms(1,4,5) c1 c2 flag
    by (auto simp: ConfigMapReconcile_def Let_def split: prod.splits if_splits)
qed

text \<open>A failed update of the nodes after a change of the ConfigMap is never made up for: the controller has already
  stored the new values, so the event that is tried again, with the same ConfigMap and conditions,
  finds no change, submits no job and reports success.\<close>

theorem failed_config_update_not_retried:
  assumes "ConfigMapReconcile get ck ln k config_request s = (s1, effs, js, Some (UpdateNodesFailed es))"
  shows "\<exists>s2 effs'. ConfigMapReconcile get ck ln' k' config_request s1 = (s2, effs', [], None) \<and> cmgr s2 = cmgr s1"
proof -
  obtain cm where cm: "get = Inr cm \<or> (cm = None \<and> (\<exists>e. get = Inl (K8sNotFound e)))"
    using assms by (cases get) (auto simp: ConfigMapReconcile_def is_K8sNotFound_def split: if_splits)
  let ?ipam = "fst (cond_IsWindowsIPAMEnabled ck (conds s))" and ?pd = "fst (cond_IsWindowsPrefixDelegationEnabled ck (conds s))"
  obtain r changed where d: "detect_changes ?ipam ?pd cm (reconciler s) = (r, changed)" by fastforce
  note first = config_event [OF cm refl refl d assms]
  obtain s2 effs' js' e' where second: "ConfigMapReconcile get ck ln' k' config_request s1 = (s2, effs', js', e')" by (metis prod_cases4)
  have c: "fst (cond_IsWindowsIPAMEnabled ck (conds s1)) = ?ipam" "fst (cond_IsWindowsPrefixDelegationEnabled ck (conds s1)) = ?pd"
    using first conditions_flag [where ck = ck and c = "conds s1" and c' = "conds s"] by simp_all
  have "detect_changes ?ipam ?pd cm (reconciler s1) = (r, False)" using detect_changes_again [OF d] first by simp
  from config_event [OF cm c this second] show ?thesis using second by simp
qed

definition sample_config_state :: config_state where
  "sample_config_state = \<lparr>reconciler = \<lparr>curWinIPAMEnabledCond = False, curWinPrefixDelegationEnabledCond = False, curWinWarmIPTarget = 0,
      curWinMinIPTarget = 0, curWinPDWarmPrefixTarget = 0\<rparr>, period = \<lparr>coolDownPeriod = 0\<rparr>, conds = NewControllerConditions True,
     cmgr = \<lparr>nodes = [NewManagedNode ''node-1'' ''i-1'' OSWindows], dataStore = [(''node-1'', 0)], stopHealthCheckAt = None\<rparr>\<rparr>"

theorem failed_config_update_not_retried_witness:
  "\<exists>s1 effs js es s2 effs'.
     ConfigMapReconcile (Inr None) sample_cond_k8s (\<lambda>_. Inr [''node-1'']) (\<lambda>_. sample_node_k8s\<lparr>GetK8sNode := (\<lambda>n. Inl (K8sError ''timeout''))\<rparr>)
       config_request sample_config_state = (s1, effs, js, Some (UpdateNodesFailed es)) \<and>
     ConfigMapReconcile (Inr None) sample_cond_k8s (\<lambda>_. Inr [''node-1'']) (\<lambda>_. sample_node_k8s) config_request s1 = (s2, effs', [], None) \<and>
     cmgr s2 = cmgr s1"
proof -
  let ?r = "ConfigMapReconcile (Inr None) sample_cond_k8s (\<lambda>_. Inr [''node-1'']) (\<lambda>_. sample_node_k8s\<lparr>GetK8sNode := (\<lambda>n. Inl (K8sError ''timeout''))\<rparr>)
       config_request sample_config_state"
  have "case ?r of (s1, effs, js, e) \<Rightarrow> e = Some (UpdateNodesFailed [NodeNotInCache ''node-1''])" by code_simp
  moreover obtain s1 effs js e where r: "?r = (s1, effs, js, e)" by (rule prod_cases4)
  ultimately have r: "?r = (s1, effs, js, Some (UpdateNodesFailed [NodeNotInCache ''node-1'']))" by (simp only: split_conv)
  from failed_config_update_not_retried [OF r, of "\<lambda>_. Inr [''node-1'']" "\<lambda>_. sample_node_k8s"]
  obtain s2 effs' where "ConfigMapReconcile (Inr None) sample_cond_k8s (\<lambda>_. Inr [''node-1'']) (\<lambda>_. sample_node_k8s) config_request s1 = (s2, effs', [], None)"
      "cmgr s2 = cmgr s1" by (elim exE conjE)
  with r show ?thesis by (intro exI conjI)
qed

subsection \<open>Every node of the cache\<close>

lemma UpdateNode_frame:
  assumes "UpdateNode k x m = (m', effs, js, e)"
  shows "y \<noteq> x \<Longrightarrow> mget (dataStore m') y = mget (dataStore m) y"
    and "length (nodes m) \<le> length (nodes m')"
    and "b < length (nodes m) \<Longrightarrow> managed (nodes m' ! b) = managed (nodes m ! b)"
proof -
  have "(y \<noteq> x \<longrightarrow> mget (dataStore m') y = mget (dataStore m) y) \<and> length (nodes m) \<le> length (nodes m') \<and>
      (b < length (nodes m) \<longrightarrow> managed (nodes m' ! b) = managed (nodes m ! b))" for y b
    using assms
    by (auto simp: UpdateNode_def new_node_def same_flags_def nth_append split: sum.splits option.splits NodeUpdateStatus.splits prod.splits
        dest!: update_subnet_flags)
  then show "y \<noteq> x \<Longrightarrow> mget (dataStore m') y = mget (dataStore m) y" "length (nodes m) \<le> length (nodes m')"
    "b < length (nodes m) \<Longrightarrow> managed (nodes m' ! b) = managed (nodes m ! b)" by auto
qed

lemma UpdateNode_job:
  assumes "UpdateNode k x m = (m', effs, js, e)" "mget (dataStore m) x = Some a"
  shows "e \<noteq> None \<or> (\<exists>j \<in> set js. job_nodeName j = x) \<or>
    (\<not> managed (nodes m ! a) \<and> (\<exists>n. GetK8sNode k x = Inr n \<and> \<not> isSelectedForManagement k 0 n))"
  using assms
  by (auto simp: UpdateNode_def new_node_def GetNodeUpdateStatus_def Let_def split: sum.splits option.splits NodeUpdateStatus.splits prod.splits if_splits)

lemma update_nodes_reach:
  assumes "update_nodes_loop k ns i m effs js errs = (m', effs', js', errs')" "distinct ns"
    and "x \<in> set ns" "mget (dataStore m) x = Some a" "a < length (nodes m)"
  shows "errs' \<noteq> [] \<or> (\<exists>j \<in> set js'. job_nodeName j = x) \<or>
    (\<not> managed (nodes m ! a) \<and> (\<exists>i n. GetK8sNode (k i) x = Inr n \<and> \<not> isSelectedForManagement (k i) 0 n))"
  using assms
proof (induction ns arbitrary: i m effs js errs)
  case (Cons y ns)
  show ?case
  proof (cases "GetNode y m")
    case None
    then show ?thesis using Cons by (auto simp: GetNode_def)
  next
    case (Some b)
    obtain m1 effs1 js1 e1 where u: "UpdateNode (k i) y m = (m1, effs1, js1, e1)" by (rule prod_cases4)
    let ?errs = "case e1 of None \<Rightarrow> errs | Some e \<Rightarrow> errs @ [e]"
    have l: "update_nodes_loop k ns (Suc i) m1 (effs @ effs1) (js @ js1) ?errs = (m', effs', js', errs')"
      using Cons.prems(1) Some u by simp
    have mono: "(\<exists>ext. js' = js0 @ ext) \<and> (\<exists>ext. errs' = errs0 @ ext)"
      if "update_nodes_loop k ns i0 m0 effs0 js0 errs0 = (m', effs', js', errs')" for i0 m0 effs0 js0 errs0
      using that
    proof (induction ns arbitrary: i0 m0 effs0 js0 errs0)
      case (Cons z zs)
      then show ?case by (fastforce split: option.splits prod.splits)
    qed simp
    show ?thesis
    proof (cases "x = y")
      case True
      then show ?thesis using UpdateNode_job [OF u] Cons.prems(4) mono [OF l] by (auto split: option.splits)
    next
      case False
      then have "x \<in> set ns" "mget (dataStore m1) x = Some a" "a < length (nodes m1)" "managed (nodes m1 ! a) = managed (nodes m ! a)"
        using Cons.prems UpdateNode_frame [OF u] by auto
      then show ?thesis using Cons.IH [OF l] Cons.prems(2) by simp
    qed
  qed
qed simp

text \<open>A change of the configuration reaches every node: after an event of the ConfigMap that finds a change, every
  listed node of the cache has a job of this event, unless the event reports an error or the node
  is neither managed nor to be managed now.\<close>

theorem config_change_reaches_every_node:
  assumes "get = Inr cm" "snd (detect_changes (fst (cond_IsWindowsIPAMEnabled ck (conds s)))
      (fst (cond_IsWindowsPrefixDelegationEnabled ck (conds s))) cm (reconciler s))"
    and "ConfigMapReconcile get ck ln k config_request s = (s', effs, js, None)"
    and "ln 1 = Inr ns" "distinct ns" "x \<in> set ns" "mget (dataStore (cmgr s)) x = Some a" "a < length (nodes (cmgr s))"
  shows "(\<exists>j \<in> set js. job_nodeName j = x) \<or>
    (\<not> managed (nodes (cmgr s) ! a) \<and> (\<exists>i n. GetK8sNode (k i) x = Inr n \<and> \<not> isSelectedForManagement (k i) 0 n))"
proof -
  obtain r where d: "detect_changes (fst (cond_IsWindowsIPAMEnabled ck (conds s)))
      (fst (cond_IsWindowsPrefixDelegationEnabled ck (conds s))) cm (reconciler s) = (r, True)"
    using assms(2) by (metis prod.collapse)
  obtain effs' where "UpdateNodesOnConfigMapChanges (Inr ns) k (cmgr s) = (cmgr s', effs', js, None)"
    using config_event [OF disjI1 [OF assms(1)] refl refl d assms(3)] assms(4) by auto
  moreover obtain m1 effs1 js1 errs where l: "update_nodes_loop k ns 0 (cmgr s) [] [] [] = (m1, effs1, js1, errs)" by (rule prod_cases4)
  ultimately have "js1 = js" "errs = []" by (auto simp: UpdateNodesOnConfigMapChanges_def split: if_splits)
  then show ?thesis using update_nodes_reach [OF l assms(5-8)] by simp
qed

theorem config_change_reaches_every_node_witness:
  "\<exists>s' effs js. ConfigMapReconcile (Inr None) sample_cond_k8s (\<lambda>_. Inr [''node-1'']) (\<lambda>_. sample_node_k8s) config_request sample_config_state =
       (s', effs, js, None) \<and> (\<exists>j \<in> set js. job_nodeName j = ''node-1'')"
proof -
  let ?r = "ConfigMapReconcile (Inr None) sample_cond_k8s (\<lambda>_. Inr [''node-1'']) (\<lambda>_. sample_node_k8s) config_request sample_config_state"
  have "case ?r of (s1, effs, js, e) \<Rightarrow> e = None" by code_simp
  moreover obtain s' effs js e where r: "?r = (s', effs, js, e)" by (rule prod_cases4)
  ultimately have r: "?r = (s', effs, js, None)" by (simp only: split_conv)
  have "snd (detect_changes (fst (cond_IsWindowsIPAMEnabled sample_cond_k8s (conds sample_config_state)))
      (fst (cond_IsWindowsPrefixDelegationEnabled sample_cond_k8s (conds sample_config_state))) None (reconciler sample_config_state))" by code_simp
  moreover have "mget (dataStore (cmgr sample_config_state)) ''node-1'' = Some 0" "0 < length (nodes (cmgr sample_config_state))"
      "managed (nodes (cmgr sample_config_state) ! 0)" by (simp_all add: sample_config_state_def mget_Cons NewManagedNode_def)
  ultimately have "\<exists>j \<in> set js. job_nodeName j = ''node-1''"
    using config_change_reaches_every_node [OF refl _ r, of "[''node-1'']" "''node-1''" 0] by auto
  with r show ?thesis by (intro exI conjI)
qed

end
