(* ===== verification/Cninode_Controller.thy ===== *)
theory Cninode_Controller
  imports Node_Manager Eni_Cleanup
begin

text \<open>
  \<open>controllers/crds/cninode_controller.go\<close>: tags, label and finalizer of the CNINode objects, the clean up of a terminated node
  and the recreation of an object that was deleted while its node lives; and \<open>pkg/k8s/finalizer.go\<close>. The
  owner references and the rest of the spec of an object are one field of an arbitrary type.

  Kubernetes is a record of answers, numbered where a call may be repeated. The clean up runs in its own routine: its start
  is an effect, and the semaphore that bounds the number of routines is the state. The functions of the
  controller-runtime package on finalizers are arguments; so are the number of polls until \<open>PollUntilContextTimeout\<close> gives up
  and the number of attempts \<open>retry.OnError\<close> makes.
\<close>

record 'r cni_node =
  CnName :: string
  CnLabels :: "(string, string) gomap option"
  CnTags :: "(string, string) gomap option"
  CnManagedBy :: string
  CnFinalizers :: "string list"
  CnDeleting :: bool
  CnRest :: 'r

datatype patch_error = is_Conflict: Conflict string | OtherPatchError string

record 'r cninode_api =
  GetCNINodeObject :: "string \<Rightarrow> k8s_error + 'r cni_node"
  GetNodeObject :: "string \<Rightarrow> k8s_error + k8s_node"
  PatchObject :: "'r cni_node \<Rightarrow> 'r cni_node \<Rightarrow> patch_error option"
  PollGone :: "nat \<Rightarrow> string \<Rightarrow> bool"
  CreateObject :: "nat \<Rightarrow> 'r cni_node \<Rightarrow> string option"
  EventNodeExists :: bool

record finalizer_lib =
  AddFinalizer :: "string list \<Rightarrow> string \<Rightarrow> string list \<times> bool"
  RemoveFinalizer :: "string list \<Rightarrow> string \<Rightarrow> string list \<times> bool"
  ContainsFinalizer :: "string list \<Rightarrow> string \<Rightarrow> bool"

datatype 'r cni_effect =
    PatchCNINode "'r cni_node" "'r cni_node"
  | StartCleanup string
  | CreateCNINodeCall "'r cni_node"
  | CNINodeEvent string
  | NodeEventOf string string

datatype cninode_error =
    CninodeClientError k8s_error
  | CninodePatchError patch_error
  | CninodeNodeIDError node_id_error
  | CninodeNotDeleted

definition NodeTerminationFinalizer :: string where "NodeTerminationFinalizer = ''networking.k8s.aws/resource-cleanup''"
definition ManagedByVPCResourceController :: string where "ManagedByVPCResourceController = ''vpc-resource-controller''"
definition CNINodeDeleteFailed :: string where "CNINodeDeleteFailed = ''CNINodeDeletionFailed''"
definition CNINodeCreateFailed :: string where "CNINodeCreateFailed = ''CNINodeCreationFailed''"

text \<open>A node that was not found is the empty object.\<close>

definition empty_node :: k8s_node where
  "empty_node = \<lparr>KNodeName = '''', KProviderID = '''', KNodeLabels = []\<rparr>"

section \<open>Tags, label and finalizer\<close>

text \<open>The result is the object, whether it has to be patched, and the error of the node id. The pointer to the node is never nil.\<close>

definition ensureTagsAndLabels :: "string \<Rightarrow> 'r cni_node \<Rightarrow> k8s_node \<Rightarrow> 'r cni_node \<times> bool \<times> cninode_error option" where
  "ensureTagsAndLabels clusterName cniNode node =
     (let tags = (case CnTags cniNode of None \<Rightarrow> [] | Some t \<Rightarrow> t);
          patchCluster = (mgetd '''' tags VPCCNIClusterNameKey \<noteq> clusterName);
          tags1 = (if patchCluster then mput tags VPCCNIClusterNameKey clusterName else tags);
          (nodeID, err) = (case GetNodeID (KProviderID node) of Inl e \<Rightarrow> ('''', Some (CninodeNodeIDError e)) | Inr i \<Rightarrow> (i, None));
          patchID = (nodeID \<noteq> '''' \<and> mgetd '''' tags1 NetworkInterfaceNodeIDKey \<noteq> nodeID);
          tags2 = (if patchID then mput tags1 NetworkInterfaceNodeIDKey nodeID else tags1);
          labels = (case CnLabels cniNode of None \<Rightarrow> [] | Some l \<Rightarrow> l);
          patchLabel = (mgetd '''' labels NodeLabelOS \<noteq> mgetd '''' (KNodeLabels node) NodeLabelOS);
          labels1 = (if patchLabel then mput labels NodeLabelOS (mgetd '''' (KNodeLabels node) NodeLabelOS) else labels)
      in (cniNode\<lparr>CnTags := Some tags2, CnLabels := Some labels1\<rparr>, patchCluster \<or> patchID \<or> patchLabel, err))"

definition removeFinalizer :: "finalizer_lib \<Rightarrow> 'r cninode_api \<Rightarrow> 'r cni_node \<Rightarrow> string \<Rightarrow> 'r cni_effect list \<times> patch_error option" where
  "removeFinalizer lib api cniNode finalizer =
     (case RemoveFinalizer lib (CnFinalizers cniNode) finalizer of
        (fs, True) \<Rightarrow> (let new = cniNode\<lparr>CnFinalizers := fs\<rparr> in ([PatchCNINode cniNode new], PatchObject api cniNode new))
      | (fs, False) \<Rightarrow> ([], None))"

section \<open>Recreation\<close>

fun poll_loop :: "(nat \<Rightarrow> bool) \<Rightarrow> nat \<Rightarrow> nat \<Rightarrow> bool" where
  "poll_loop gone i 0 = False"
| "poll_loop gone i (Suc left) = (if gone i then True else poll_loop gone (Suc i) left)"

definition waitTillCNINodeDeleted :: "nat \<Rightarrow> 'r cninode_api \<Rightarrow> string \<Rightarrow> cninode_error option" where
  "waitTillCNINodeDeleted polls api objName = (if poll_loop (\<lambda>i. PollGone api i objName) 0 polls then None else Some CninodeNotDeleted)"

fun create_retry :: "'r cninode_api \<Rightarrow> 'r cni_node \<Rightarrow> nat \<Rightarrow> nat \<Rightarrow> 'r cni_effect list \<times> bool" where
  "create_retry api obj i 0 = ([], False)"
| "create_retry api obj i (Suc left) =
     (case CreateObject api i obj of
        None \<Rightarrow> ([CreateCNINodeCall obj], True)
      | Some err \<Rightarrow> (case create_retry api obj (Suc i) left of (effs, ok) \<Rightarrow> (CreateCNINodeCall obj # effs, ok)))"

definition createCNINodeFromObj :: "nat \<Rightarrow> 'r cninode_api \<Rightarrow> 'r cni_node \<Rightarrow> 'r cni_effect list \<times> bool" where
  "createCNINodeFromObj tries api newCNINode = create_retry api newCNINode 0 tries"

text \<open>The object that is created again: name, owner references, finalizers and spec of the old one, no labels.\<close>

definition recreated :: "'r cni_node \<Rightarrow> 'r cni_node" where
  "recreated cniNode = cniNode\<lparr>CnLabels := None, CnDeleting := False\<rparr>"

section \<open>The three branches of the reconciliation\<close>

definition reconcile_live ::
  "finalizer_lib \<Rightarrow> 'r cninode_api \<Rightarrow> string \<Rightarrow> 'r cni_node \<Rightarrow> k8s_node \<Rightarrow> 'r cni_effect list \<times> ctrl_result \<times> cninode_error option" where
  "reconcile_live lib api clusterName cniNode node =
     (case ensureTagsAndLabels clusterName cniNode node of
        (c1, patch1, err) \<Rightarrow>
         (case AddFinalizer lib (CnFinalizers c1) NodeTerminationFinalizer of
            (fs, added) \<Rightarrow>
             (let c2 = c1\<lparr>CnFinalizers := fs\<rparr> in
              if added \<or> patch1 then
                (case PatchObject api cniNode c2 of
                   Some e \<Rightarrow>
                     if is_Conflict e then ([PatchCNINode cniNode c2], \<lparr>Requeue = True, RequeueAfter = 0\<rparr>, None)
                     else ([PatchCNINode cniNode c2], no_requeue, Some (CninodePatchError e))
                 | None \<Rightarrow> ([PatchCNINode cniNode c2], no_requeue, err))
              else ([], no_requeue, err))))"

text \<open>The id of a terminated Linux node, if the object has it.\<close>

definition cleanup_id :: "'r cni_node \<Rightarrow> string option" where
  "cleanup_id cniNode =
     (if mget (case CnLabels cniNode of None \<Rightarrow> [] | Some l \<Rightarrow> l) NodeLabelOS = Some OSLinux then
        (case mget (case CnTags cniNode of None \<Rightarrow> [] | Some t \<Rightarrow> t) NetworkInterfaceNodeIDKey of
           None \<Rightarrow> None
         | Some nodeID \<Rightarrow> if nodeID \<noteq> '''' then Some nodeID else None)
      else None)"

definition reconcile_terminated ::
  "finalizer_lib \<Rightarrow> 'r cninode_api \<Rightarrow> 'r cni_node \<Rightarrow> nat \<Rightarrow> nat \<times> 'r cni_effect list \<times> ctrl_result \<times> cninode_error option" where
  "reconcile_terminated lib api cniNode permits =
     (if cleanup_id cniNode \<noteq> None \<and> permits = 0 then (permits, [], \<lparr>Requeue = False, RequeueAfter = 10 * 10 ^ 9\<rparr>, None)
      else
        (let (permits1, effs1) =
               (case cleanup_id cniNode of None \<Rightarrow> (permits, []) | Some nodeID \<Rightarrow> (permits - 1, [StartCleanup nodeID]))
         in case removeFinalizer lib api cniNode NodeTerminationFinalizer of
              (effs2, Some e) \<Rightarrow>
                if is_Conflict e then (permits1, effs1 @ effs2, \<lparr>Requeue = True, RequeueAfter = 0\<rparr>, None)
                else (permits1, effs1 @ effs2, no_requeue, Some (CninodePatchError e))
            | (effs2, None) \<Rightarrow> (permits1, effs1 @ effs2, no_requeue, None)))"

definition reconcile_recreate ::
  "finalizer_lib \<Rightarrow> 'r cninode_api \<Rightarrow> nat \<Rightarrow> nat \<Rightarrow> 'r cni_node \<Rightarrow> k8s_node \<Rightarrow> 'r cni_effect list \<times> cninode_error option" where
  "reconcile_recreate lib api polls tries cniNode node =
     (case removeFinalizer lib api cniNode NodeTerminationFinalizer of
        (effs1, Some e) \<Rightarrow> (effs1, Some (CninodePatchError e))
      | (effs1, None) \<Rightarrow>
         (case waitTillCNINodeDeleted polls api (CnName cniNode) of
            Some e \<Rightarrow> (effs1 @ [CNINodeEvent CNINodeDeleteFailed], Some e)
          | None \<Rightarrow>
             (case createCNINodeFromObj tries api (recreated cniNode) of
                (effs2, ok) \<Rightarrow>
                  (effs1 @ effs2 @ (if \<not> ok \<and> EventNodeExists api then [NodeEventOf (KNodeName node) CNINodeCreateFailed] else []), None))))"

definition CNINodeReconcile ::
  "finalizer_lib \<Rightarrow> 'r cninode_api \<Rightarrow> nat \<Rightarrow> nat \<Rightarrow> string \<Rightarrow> string \<Rightarrow> nat \<Rightarrow>
   nat \<times> 'r cni_effect list \<times> ctrl_result \<times> cninode_error option" where
  "CNINodeReconcile lib api polls tries clusterName req permits =
     (case GetCNINodeObject api req of
        Inl err \<Rightarrow> (permits, [], no_requeue, if is_K8sNotFound err then None else Some (CninodeClientError err))
      | Inr cniNode \<Rightarrow>
          if CnManagedBy cniNode \<noteq> '''' \<and> CnManagedBy cniNode \<noteq> ManagedByVPCResourceController then (permits, [], no_requeue, None)
          else
            (case (case GetNodeObject api req of
                     Inr n \<Rightarrow> Inr (True, n)
                   | Inl err \<Rightarrow> if is_K8sNotFound err then Inr (False, empty_node) else Inl err) of
               Inl err \<Rightarrow> (permits, [], no_requeue, Some (CninodeClientError err))
             | Inr (nodeFound, node) \<Rightarrow>
                 if \<not> CnDeleting cniNode then (permits, reconcile_live lib api clusterName cniNode node)
                 else if \<not> nodeFound then reconcile_terminated lib api cniNode permits
                 else
                   (case reconcile_recreate lib api polls tries cniNode node of
                      (effs, err) \<Rightarrow> (permits, effs, no_requeue, err))))"

text \<open>The routine of the clean up: its error is only counted, and the permit is given back.\<close>

definition cleanup_routine :: "clean_api \<Rightarrow> string \<Rightarrow> string \<Rightarrow> nat \<Rightarrow> clean_event list \<Rightarrow> nat \<times> clean_event list \<times> bool" where
  "cleanup_routine ec2 vpcId nodeID permits h =
     (case DeleteLeakedResources ec2 NodeTerminationCleaner vpcId False nodeID h of
        (node, h1, c, errs) \<Rightarrow> (Suc permits, h1, errs \<noteq> []))"

section \<open>The finalizer manager\<close>

text \<open>One loop for both operations: \<open>skip\<close> says when a finalizer needs no change, \<open>change\<close> changes the list.\<close>

fun finalizers_loop :: "(string list \<Rightarrow> string \<Rightarrow> bool) \<Rightarrow> (string list \<Rightarrow> string \<Rightarrow> string list) \<Rightarrow> string list \<Rightarrow> string list \<Rightarrow> bool \<Rightarrow> string list \<times> bool" where
  "finalizers_loop skip change [] fs needsUpdate = (fs, needsUpdate)"
| "finalizers_loop skip change (finalizer # rest) fs needsUpdate =
     (if \<not> skip fs finalizer then finalizers_loop skip change rest (change fs finalizer) True
      else finalizers_loop skip change rest fs needsUpdate)"

definition patch_finalizers ::
  "'r cninode_api \<Rightarrow> (string list \<Rightarrow> string \<Rightarrow> bool) \<Rightarrow> (string list \<Rightarrow> string \<Rightarrow> string list) \<Rightarrow> string \<Rightarrow> string list \<Rightarrow>
   'r cni_effect list \<times> cninode_error option" where
  "patch_finalizers api skip change objName finalizers =
     (case GetCNINodeObject api objName of
        Inl err \<Rightarrow> ([], Some (CninodeClientError err))
      | Inr obj \<Rightarrow>
         (case finalizers_loop skip change finalizers (CnFinalizers obj) False of
            (fs, False) \<Rightarrow> ([], None)
          | (fs, True) \<Rightarrow>
              (let new = obj\<lparr>CnFinalizers := fs\<rparr>
               in ([PatchCNINode obj new], map_option CninodePatchError (PatchObject api obj new)))))"

definition AddFinalizers :: "finalizer_lib \<Rightarrow> 'r cninode_api \<Rightarrow> string \<Rightarrow> string list \<Rightarrow> 'r cni_effect list \<times> cninode_error option" where
  "AddFinalizers lib api objName finalizers =
     patch_finalizers api (ContainsFinalizer lib) (\<lambda>fs f. fst (AddFinalizer lib fs f)) objName finalizers"

definition RemoveFinalizers :: "finalizer_lib \<Rightarrow> 'r cninode_api \<Rightarrow> string \<Rightarrow> string list \<Rightarrow> 'r cni_effect list \<times> cninode_error option" where
  "RemoveFinalizers lib api objName finalizers =
     patch_finalizers api (\<lambda>fs f. \<not> ContainsFinalizer lib fs f) (\<lambda>fs f. fst (RemoveFinalizer lib fs f)) objName finalizers"

end
