(* ===== verification/Cninode_Props.thy ===== *)
theory Cninode_Props
  imports Cninode_Controller
begin

text \<open>
  The controller of the CNINode objects: what it writes, that the resources of a terminated node are cleaned up before the
  finalizer goes, that the number of clean up routines is bounded, and the case in which the clean up is lost.
\<close>

text \<open>What the documentation of controller-runtime says of its functions on finalizers.\<close>

definition finalizer_laws :: "finalizer_lib \<Rightarrow> bool" where
  "finalizer_laws lib \<longleftrightarrow> (\<forall>fs f.
     set (fst (AddFinalizer lib fs f)) = insert f (set fs) \<and> (snd (AddFinalizer lib fs f) \<longleftrightarrow> f \<notin> set fs) \<and>
     set (fst (RemoveFinalizer lib fs f)) = set fs - {f} \<and> (snd (RemoveFinalizer lib fs f) \<longleftrightarrow> f \<in> set fs) \<and>
     (ContainsFinalizer lib fs f \<longleftrightarrow> f \<in> set fs))"

definition sample_finalizers :: finalizer_lib where
  "sample_finalizers = \<lparr>AddFinalizer = (\<lambda>fs f. if f \<in> set fs then (fs, False) else (fs @ [f], True)),
     RemoveFinalizer = (\<lambda>fs f. (removeAll f fs, f \<in> set fs)), ContainsFinalizer = (\<lambda>fs f. f \<in> set fs)\<rparr>"

lemma sample_finalizer_laws: "finalizer_laws sample_finalizers"
  by (auto simp: finalizer_laws_def sample_finalizers_def)

definition sample_cni :: "unit cni_node" where
  "sample_cni = \<lparr>CnName = ''node-1'', CnLabels = Some [(NodeLabelOS, OSLinux)], CnTags = Some [(VPCCNIClusterNameKey, ''c''), (NetworkInterfaceNodeIDKey, ''i-12345678'')],
     CnManagedBy = '''', CnFinalizers = [NodeTerminationFinalizer], CnDeleting = False, CnRest = ()\<rparr>"

definition sample_cni_api :: "unit cni_node \<Rightarrow> k8s_error + k8s_node \<Rightarrow> unit cninode_api" where
  "sample_cni_api c n = \<lparr>GetCNINodeObject = (\<lambda>_. Inr c), GetNodeObject = (\<lambda>_. n), PatchObject = (\<lambda>_ _. None), PollGone = (\<lambda>_ _. True),
     CreateObject = (\<lambda>_ _. None), EventNodeExists = True\<rparr>"

definition sample_linux_node :: k8s_node where
  "sample_linux_node = \<lparr>KNodeName = ''node-1'', KProviderID = ''aws:///zone/i-12345678'', KNodeLabels = [(NodeLabelOS, OSLinux)]\<rparr>"

section \<open>Tags, label and finalizer\<close>

definition tag :: "'r cni_node \<Rightarrow> string \<Rightarrow> string" where
  "tag c k = mgetd '''' (case CnTags c of None \<Rightarrow> [] | Some t \<Rightarrow> t) k"

definition label :: "'r cni_node \<Rightarrow> string \<Rightarrow> string" where
  "label c k = mgetd '''' (case CnLabels c of None \<Rightarrow> [] | Some l \<Rightarrow> l) k"

definition node_id :: "k8s_node \<Rightarrow> string" where
  "node_id n = (case GetNodeID (KProviderID n) of Inl e \<Rightarrow> '''' | Inr i \<Rightarrow> i)"

text \<open>The values the object should have for its node.\<close>

definition in_order :: "string \<Rightarrow> k8s_node \<Rightarrow> 'r cni_node \<Rightarrow> bool" where
  "in_order cluster n c \<longleftrightarrow> tag c VPCCNIClusterNameKey = cluster \<and> (node_id n \<noteq> '''' \<longrightarrow> tag c NetworkInterfaceNodeIDKey = node_id n) \<and>
     label c NodeLabelOS = mgetd '''' (KNodeLabels n) NodeLabelOS"

lemma tag_keys: "VPCCNIClusterNameKey \<noteq> NetworkInterfaceNodeIDKey"
  by (simp add: VPCCNIClusterNameKey_def NetworkInterfaceNodeIDKey_def)

lemma ensure_result:
  assumes "ensureTagsAndLabels cluster c n = (c', patch, err)"
  shows "in_order cluster n c'" and "patch \<longleftrightarrow> \<not> in_order cluster n c" and "CnFinalizers c' = CnFinalizers c"
    and "label c' k = (if k = NodeLabelOS then mgetd '''' (KNodeLabels n) NodeLabelOS else label c k)"
  using assms tag_keys
  by (auto simp: ensureTagsAndLabels_def Let_def in_order_def tag_def label_def node_id_def split: sum.splits if_splits)

text \<open>One event of a live object whose node is there brings it in order: when the patch succeeds, the patched object has the cluster tag, the
  id of the node, the label and the finalizer, and the next event patches nothing.\<close>

theorem cninode_converges:
  assumes "finalizer_laws lib" "GetCNINodeObject api req = Inr c" "CnManagedBy c = ''''" "\<not> CnDeleting c" "GetNodeObject api req = Inr n"
    and "PatchCNINode old new \<in> set (fst (snd (CNINodeReconcile lib api polls tries cluster req permits)))"
    and "GetCNINodeObject api' req = Inr new" "GetNodeObject api' req = Inr n"
  shows "old = c \<and> in_order cluster n new \<and> NodeTerminationFinalizer \<in> set (CnFinalizers new) \<and>
    fst (snd (CNINodeReconcile lib api' polls tries cluster req permits')) = []"
proof -
  obtain c1 patch err where e: "ensureTagsAndLabels cluster c n = (c1, patch, err)" by (rule prod_cases3)
  obtain fs added where f: "AddFinalizer lib (CnFinalizers c1) NodeTerminationFinalizer = (fs, added)" by fastforce
  have m: "CnManagedBy c1 = ''''" "\<not> CnDeleting c1" using assms(3,4) e by (auto simp: ensureTagsAndLabels_def Let_def split: sum.splits)
  have p: "old = c" "new = c1\<lparr>CnFinalizers := fs\<rparr>"
    using assms(2-6) e f by (auto simp: CNINodeReconcile_def reconcile_live_def Let_def split: if_splits option.splits)
  have fin: "NodeTerminationFinalizer \<in> set fs" using assms(1) f unfolding finalizer_laws_def by (metis fst_conv insertI1)
  have ord: "in_order cluster n new" using ensure_result(1) [OF e] p(2) by (simp add: in_order_def tag_def label_def)
  obtain c2 patch2 err2 where e2: "ensureTagsAndLabels cluster new n = (c2, patch2, err2)" by (rule prod_cases3)
  obtain fs2 added2 where f2: "AddFinalizer lib (CnFinalizers c2) NodeTerminationFinalizer = (fs2, added2)" by fastforce
  have "\<not> patch2" using ensure_result(2) [OF e2] ord by simp
  moreover have "CnFinalizers c2 = fs" using ensure_result(3) [OF e2] p(2) by simp
  then have "\<not> added2" using assms(1) f2 fin by (auto simp: finalizer_laws_def dest: spec [of _ fs] arg_cong [of _ _ snd])
  ultimately have "fst (snd (CNINodeReconcile lib api' polls tries cluster req permits')) = []"
    using assms(7,8) m p(2) e2 f2 by (simp add: CNINodeReconcile_def reconcile_live_def Let_def)
  then show ?thesis using p ord fin by simp
qed

theorem cninode_converges_witness:
  "\<exists>new. PatchCNINode (sample_cni\<lparr>CnTags := None, CnFinalizers := []\<rparr>) new \<in> set (fst (snd (CNINodeReconcile sample_finalizers
       (sample_cni_api (sample_cni\<lparr>CnTags := None, CnFinalizers := []\<rparr>) (Inr sample_linux_node)) 6 4 ''c'' ''node-1'' 1))) \<and>
     in_order ''c'' sample_linux_node new \<and>
     fst (snd (CNINodeReconcile sample_finalizers (sample_cni_api new (Inr sample_linux_node)) 6 4 ''c'' ''node-1'' 1)) = []"
proof -
  let ?c = "sample_cni\<lparr>CnTags := None, CnFinalizers := []\<rparr>"
  let ?r = "fst (snd (CNINodeReconcile sample_finalizers (sample_cni_api ?c (Inr sample_linux_node)) 6 4 ''c'' ''node-1'' 1))"
  have "case ?r of [PatchCNINode old new] \<Rightarrow> old = ?c | _ \<Rightarrow> False" by code_simp
  then obtain new where new: "?r = [PatchCNINode ?c new]" by (auto split: list.splits cni_effect.splits)
  then have "PatchCNINode ?c new \<in> set ?r" by simp
  from cninode_converges [OF sample_finalizer_laws _ _ _ _ this, where n = sample_linux_node and api' = "sample_cni_api new (Inr sample_linux_node)" and permits' = 1] new
  show ?thesis by (intro exI [of _ new]) (simp add: sample_cni_api_def sample_cni_def)
qed

section \<open>The clean up of a terminated node\<close>

lemma terminated_reconcile:
  assumes "GetCNINodeObject api req = Inr c" "CnManagedBy c = ''''" "CnDeleting c" "GetNodeObject api req = Inl (K8sNotFound e)"
  shows "CNINodeReconcile lib api polls tries cluster req permits = reconcile_terminated lib api c permits"
  using assms by (simp add: CNINodeReconcile_def)



subsection \<open>The number of routines\<close>

text \<open>Events and the ends of the routines, in any order; \<open>routines\<close> are the ids of the nodes whose clean up runs.\<close>

record 'r cleanup_sys =
  free_permits :: nat
  routines :: "string list"
  trace :: "'r cni_effect list"

definition started :: "'r cni_effect list \<Rightarrow> string list" where
  "started effs = [i. StartCleanup i \<leftarrow> effs]"

lemma started_simps [simp]: "started [] = []" "started (a @ b) = started a @ started b" "started (StartCleanup i # effs) = i # started effs"
    "started (PatchCNINode x y # effs) = started effs" "started (CreateCNINodeCall x # effs) = started effs"
    "started (CNINodeEvent z # effs) = started effs" "started (NodeEventOf z w # effs) = started effs"
  by (simp_all add: started_def)

inductive cleanup_step :: "'r cleanup_sys \<Rightarrow> 'r cleanup_sys \<Rightarrow> bool" where
  event: "CNINodeReconcile lib api polls tries cluster req (free_permits s) = (p, effs, r, e) \<Longrightarrow>
    cleanup_step s \<lparr>free_permits = p, routines = routines s @ started effs, trace = trace s @ effs\<rparr>"
| finish: "i \<in> set (routines s) \<Longrightarrow> cleanup_routine ec2 vpc i (free_permits s) h = (p, h', failed) \<Longrightarrow>
    cleanup_step s (s\<lparr>free_permits := p, routines := remove1 i (routines s)\<rparr>)"

definition cleanup_inv :: "nat \<Rightarrow> 'r cleanup_sys \<Rightarrow> bool" where
  "cleanup_inv maxWorkers s \<longleftrightarrow> free_permits s + length (routines s) = maxWorkers"

lemma remove_starts_nothing: "removeFinalizer lib api c f = (effs, e) \<Longrightarrow> started effs = []"
  by (auto simp: removeFinalizer_def Let_def split: prod.splits bool.splits)

lemma create_starts_nothing: "create_retry api obj i left = (effs, ok) \<Longrightarrow> started effs = []"
  by (induction api obj i left arbitrary: effs ok rule: create_retry.induct) (auto split: option.splits prod.splits)

lemma live_starts_nothing: "reconcile_live lib api cluster c n = (effs, r, e) \<Longrightarrow> started effs = []"
  by (auto simp: reconcile_live_def Let_def split: prod.splits option.splits if_splits)

lemma recreate_starts_nothing: "reconcile_recreate lib api polls tries c n = (effs, e) \<Longrightarrow> started effs = []"
  using remove_starts_nothing create_starts_nothing
  by (auto simp: reconcile_recreate_def createCNINodeFromObj_def split: prod.splits option.splits if_splits)

lemma terminated_permits: "reconcile_terminated lib api c permits = (p, effs, r, e) \<Longrightarrow> p + length (started effs) = permits"
  using remove_starts_nothing
  by (auto simp: reconcile_terminated_def Let_def split: prod.splits option.splits if_splits)

lemma reconcile_permits: "CNINodeReconcile lib api polls tries cluster req permits = (p, effs, r, e) \<Longrightarrow> p + length (started effs) = permits"
  using live_starts_nothing recreate_starts_nothing terminated_permits
  by (auto simp: CNINodeReconcile_def split: sum.splits prod.splits if_splits)

lemma cleanup_step_inv:
  assumes "cleanup_step s t" "cleanup_inv m s"
  shows "cleanup_inv m t"
  using assms(1)
proof (cases rule: cleanup_step.cases)
  case (event lib api polls tries cluster req p effs r e)
  then show ?thesis using reconcile_permits [OF event(2)] assms(2) by (auto simp: cleanup_inv_def)
next
  case (finish i ec2 vpc h p h' failed)
  then show ?thesis using assms(2) length_remove1 [of i "routines s"] length_pos_if_in_set [OF finish(2)]
    by (auto simp: cleanup_inv_def cleanup_routine_def split: prod.splits)
qed

interpretation cleanup_machine: invariant_system "\<lambda>s. free_permits s = m \<and> routines s = []" cleanup_step "cleanup_inv m" for m
  by unfold_locales (simp add: cleanup_inv_def, erule (1) cleanup_step_inv [rotated])

text \<open>C36. However events and the ends of the routines interleave, at most \<open>maxConcurrentWorkers\<close> clean ups run at a time, and no
  permit of the semaphore is lost or made up.\<close>

theorem cleanups_bounded:
  assumes "reachable (\<lambda>s. free_permits s = maxConcurrentWorkers \<and> routines s = []) cleanup_step s"
  shows "length (routines s) \<le> maxConcurrentWorkers \<and> free_permits s = maxConcurrentWorkers - length (routines s)"
  using cleanup_machine.reachable_inv [OF assms] by (simp add: cleanup_inv_def)

theorem cleanups_bounded_witness:
  "\<exists>s :: unit cleanup_sys. reachable (\<lambda>s. free_permits s = 1 \<and> routines s = []) cleanup_step s \<and> routines s = [''i-12345678''] \<and> free_permits s = 0"
proof -
  let ?api = "sample_cni_api (sample_cni\<lparr>CnDeleting := True\<rparr>) (Inl (K8sNotFound ''node-1''))"
  let ?s0 = "\<lparr>free_permits = 1, routines = [], trace = []\<rparr> :: unit cleanup_sys"
  obtain p effs r e where h: "CNINodeReconcile sample_finalizers ?api 6 4 ''c'' ''node-1'' (free_permits ?s0) = (p, effs, r, e)" by (rule prod_cases4)
  have "case CNINodeReconcile sample_finalizers ?api 6 4 ''c'' ''node-1'' 1 of (p, effs, r, e) \<Rightarrow> started effs = [''i-12345678'']" by code_simp
  then have st: "started effs = [''i-12345678'']" using h by simp
  let ?s1 = "\<lparr>free_permits = p, routines = routines ?s0 @ started effs, trace = trace ?s0 @ effs\<rparr>"
  have "reachable (\<lambda>s. free_permits s = 1 \<and> routines s = []) cleanup_step ?s0" by (simp add: reach_init)
  then have r1: "reachable (\<lambda>s. free_permits s = 1 \<and> routines s = []) cleanup_step ?s1" using cleanup_step.event [OF h] by (rule reach_step)
  have "routines ?s1 = [''i-12345678'']" "free_permits ?s1 = 0" using cleanups_bounded [OF r1] st by simp_all
  then show ?thesis using r1 by (intro exI [of _ ?s1]) simp
qed

subsection \<open>A clean up that is lost\<close>

lemma ensure_missing_node:
  "ensureTagsAndLabels cluster c empty_node = (c', patch, err) \<Longrightarrow> label c NodeLabelOS = OSLinux \<Longrightarrow> label c' NodeLabelOS = '''' \<and> patch"
  using ensure_result(2,4) by (fastforce simp: in_order_def empty_node_def mgetd_def OSLinux_def)

lemma no_cleanup_id: "label c NodeLabelOS = '''' \<Longrightarrow> cleanup_id c = None"
  by (auto simp: label_def cleanup_id_def mgetd_def OSLinux_def split: option.splits)

text \<open>A node that is not found is handled as an empty node, not as a missing one: an event of a live object whose Linux
  node is already gone overwrites the label of the operating system. When the object is deleted
  afterwards, no clean up of the node is started.\<close>

theorem missing_node_loses_cleanup:
  assumes "GetCNINodeObject api req = Inr c" "CnManagedBy c = ''''" "\<not> CnDeleting c" "GetNodeObject api req = Inl (K8sNotFound e)"
    and "label c NodeLabelOS = OSLinux"
  shows "\<exists>new. fst (snd (CNINodeReconcile lib api polls tries cluster req permits)) = [PatchCNINode c new] \<and> label new NodeLabelOS = '''' \<and>
    (\<forall>api' e'. GetCNINodeObject api' req = Inr (new\<lparr>CnDeleting := True\<rparr>) \<and> GetNodeObject api' req = Inl (K8sNotFound e') \<longrightarrow>
      started (fst (snd (CNINodeReconcile lib api' polls tries cluster req permits'))) = [])"
proof -
  obtain c1 patch err where en: "ensureTagsAndLabels cluster c empty_node = (c1, patch, err)" by (rule prod_cases3)
  obtain fs added where f: "AddFinalizer lib (CnFinalizers c1) NodeTerminationFinalizer = (fs, added)" by fastforce
  note l = ensure_missing_node [OF en assms(5)]
  let ?new = "c1\<lparr>CnFinalizers := fs\<rparr>"
  have m: "CnManagedBy c1 = ''''" using assms(2) en by (auto simp: ensureTagsAndLabels_def Let_def split: sum.splits)
  have "fst (snd (CNINodeReconcile lib api polls tries cluster req permits)) = [PatchCNINode c ?new]"
    using assms(1-4) en f l by (auto simp: CNINodeReconcile_def reconcile_live_def Let_def split: option.splits)
  moreover have lab: "label ?new NodeLabelOS = ''''" using l by (simp add: label_def)
  moreover have "started (fst (snd (CNINodeReconcile lib api' polls tries cluster req permits'))) = []"
    if "GetCNINodeObject api' req = Inr (?new\<lparr>CnDeleting := True\<rparr>)" "GetNodeObject api' req = Inl (K8sNotFound e')" for api' e'
  proof -
    have "cleanup_id (?new\<lparr>CnDeleting := True\<rparr>) = None" using lab by (intro no_cleanup_id) (simp add: label_def)
    then show ?thesis using terminated_reconcile [OF that(1) _ _ that(2)] m remove_starts_nothing
      by (auto simp: reconcile_terminated_def split: prod.splits option.splits)
  qed
  ultimately show ?thesis by blast
qed

theorem missing_node_loses_cleanup_witness:
  "\<exists>new. fst (snd (CNINodeReconcile sample_finalizers (sample_cni_api sample_cni (Inl (K8sNotFound ''node-1''))) 6 4 ''c'' ''node-1'' 1)) = [PatchCNINode sample_cni new] \<and>
     started (fst (snd (CNINodeReconcile sample_finalizers (sample_cni_api (new\<lparr>CnDeleting := True\<rparr>) (Inl (K8sNotFound ''node-1''))) 6 4 ''c'' ''node-1'' 1))) = []"
proof -
  have "label sample_cni NodeLabelOS = OSLinux" by (simp add: label_def sample_cni_def mgetd_def mget_Cons)
  from missing_node_loses_cleanup [OF _ _ _ _ this, of "sample_cni_api sample_cni (Inl (K8sNotFound ''node-1''))" "''node-1''" "''node-1''" sample_finalizers 6 4 "''c''" 1 1]
  obtain new where "fst (snd (CNINodeReconcile sample_finalizers (sample_cni_api sample_cni (Inl (K8sNotFound ''node-1''))) 6 4 ''c'' ''node-1'' 1)) = [PatchCNINode sample_cni new]"
      "\<forall>api' e'. GetCNINodeObject api' ''node-1'' = Inr (new\<lparr>CnDeleting := True\<rparr>) \<and> GetNodeObject api' ''node-1'' = Inl (K8sNotFound e') \<longrightarrow>
        started (fst (snd (CNINodeReconcile sample_finalizers api' 6 4 ''c'' ''node-1'' 1))) = []"
    by (auto simp: sample_cni_api_def sample_cni_def)
  then show ?thesis by (intro exI [of _ new]) (simp add: sample_cni_api_def)
qed

subsection \<open>Recreation\<close>

lemma create_retry_calls: "create_retry api obj i left = (effs, ok) \<Longrightarrow> x \<in> set effs \<Longrightarrow> x = CreateCNINodeCall obj"
  by (induction api obj i left arbitrary: effs ok rule: create_retry.induct) (auto split: option.splits prod.splits)

lemma poll_loop_seen: "poll_loop gone i left \<Longrightarrow> \<exists>j \<ge> i. gone j"
  by (induction gone i left rule: poll_loop.induct) (auto split: if_splits intro: Suc_leD)

text \<open>An object that was deleted while its node lives is created again only after its finalizer was removed without an error
  and its absence was seen; the new object has the name, the tags, the finalizers and the rest of the old one.\<close>

theorem recreated_after_absence:
  assumes "finalizer_laws lib" "reconcile_recreate lib api polls tries c n = (effs, err)" "CreateCNINodeCall obj \<in> set effs"
  shows "obj = recreated c \<and> (\<exists>i. PollGone api i (CnName c)) \<and>
    (NodeTerminationFinalizer \<in> set (CnFinalizers c) \<longrightarrow>
      (\<exists>new rest. effs = PatchCNINode c new # rest \<and> PatchObject api c new = None \<and>
         set (CnFinalizers new) = set (CnFinalizers c) - {NodeTerminationFinalizer}))"
proof -
  obtain effs1 e1 where r: "removeFinalizer lib api c NodeTerminationFinalizer = (effs1, e1)" by fastforce
  obtain fs changed where rf: "RemoveFinalizer lib (CnFinalizers c) NodeTerminationFinalizer = (fs, changed)" by fastforce
  have laws: "set fs = set (CnFinalizers c) - {NodeTerminationFinalizer}" "changed \<longleftrightarrow> NodeTerminationFinalizer \<in> set (CnFinalizers c)"
    using assms(1) rf unfolding finalizer_laws_def by (metis fst_conv, metis snd_conv)
  have effs1: "effs1 = (if changed then [PatchCNINode c (c\<lparr>CnFinalizers := fs\<rparr>)] else [])"
      "e1 = (if changed then PatchObject api c (c\<lparr>CnFinalizers := fs\<rparr>) else None)"
    using r rf by (auto simp: removeFinalizer_def Let_def split: bool.splits)
  then have "e1 = None" "waitTillCNINodeDeleted polls api (CnName c) = None"
    using assms(2,3) r by (auto simp: reconcile_recreate_def split: option.splits prod.splits if_splits)
  then obtain effs2 ok where w: "createCNINodeFromObj tries api (recreated c) = (effs2, ok)" "poll_loop (\<lambda>i. PollGone api i (CnName c)) 0 polls"
      "effs = effs1 @ effs2 @ (if \<not> ok \<and> EventNodeExists api then [NodeEventOf (KNodeName n) CNINodeCreateFailed] else [])"
    using assms(2) r by (auto simp: reconcile_recreate_def waitTillCNINodeDeleted_def split: prod.splits if_splits)
  have "obj = recreated c"
  proof -
    have "CreateCNINodeCall obj \<in> set effs2" using assms(3) w(3) effs1(1) by (auto split: if_splits)
    then show ?thesis using create_retry_calls w(1) by (fastforce simp: createCNINodeFromObj_def)
  qed
  moreover have "\<exists>i. PollGone api i (CnName c)" using poll_loop_seen [OF w(2)] by blast
  moreover have "\<exists>new rest. effs = PatchCNINode c new # rest \<and> PatchObject api c new = None \<and>
      set (CnFinalizers new) = set (CnFinalizers c) - {NodeTerminationFinalizer}" if "NodeTerminationFinalizer \<in> set (CnFinalizers c)"
  proof -
    let ?new = "c\<lparr>CnFinalizers := fs\<rparr>"
    have "effs = PatchCNINode c ?new # effs2 @ (if \<not> ok \<and> EventNodeExists api then [NodeEventOf (KNodeName n) CNINodeCreateFailed] else [])"
      "PatchObject api c ?new = None" "set (CnFinalizers ?new) = set (CnFinalizers c) - {NodeTerminationFinalizer}"
      using that laws effs1 w(3) \<open>e1 = None\<close> by simp_all
    then show ?thesis by (intro exI conjI)
  qed
  ultimately show ?thesis by (intro conjI impI)
qed

theorem recreated_after_absence_witness:
  "\<exists>effs. reconcile_recreate sample_finalizers (sample_cni_api sample_cni (Inr sample_linux_node)) 6 4 sample_cni sample_linux_node = (effs, None) \<and>
     (\<exists>new rest. effs = PatchCNINode sample_cni new # rest \<and> set (CnFinalizers new) = {})"
proof -
  let ?api = "sample_cni_api sample_cni (Inr sample_linux_node)"
  have r: "reconcile_recreate sample_finalizers ?api 6 4 sample_cni sample_linux_node =
      ([PatchCNINode sample_cni (sample_cni\<lparr>CnFinalizers := []\<rparr>), CreateCNINodeCall (recreated sample_cni)], None)"
    by (simp add: reconcile_recreate_def removeFinalizer_def waitTillCNINodeDeleted_def createCNINodeFromObj_def sample_cni_api_def
        sample_cni_def sample_finalizers_def eval_nat_numeral)
  then have "CreateCNINodeCall (recreated sample_cni) \<in> set [PatchCNINode sample_cni (sample_cni\<lparr>CnFinalizers := []\<rparr>), CreateCNINodeCall (recreated sample_cni)]"
    by simp
  from recreated_after_absence [OF sample_finalizer_laws r this] show ?thesis using r by (auto simp: sample_cni_def)
qed

end
