(* ===== verification/Custom_Controller.thy ===== *)
theory Custom_Controller
  imports Pod_Controller Conditions
begin

text \<open>
  The cache of pods: \<open>pkg/k8s/pod/converter.go\<close>, which keeps of a pod what the controller needs, the \<open>Process\<close> function of
  \<open>controllers/custom/builder.go\<close>, which turns the changes of the watch into updates of the cache and requests, and the handling of
  a request in \<open>controllers/custom/custom_controller.go\<close>. The cache is an indexer of client-go: a record of operations over a state
  of an arbitrary type. What goes to the work queue is a list. The lists and watches themselves are calls of client-go.
\<close>

section \<open>The converter\<close>

definition VPCResourcePrefix :: string where "VPCResourcePrefix = ''vpc.amazonaws.com/''"

definition getVPCControllerAnnotations :: "(string, string) gomap \<Rightarrow> (string, string) gomap" where
  "getVPCControllerAnnotations annotations = filter (\<lambda>(key, val). HasPrefix key VPCResourcePrefix) annotations"

text \<open>A container without such a request is dropped.\<close>

definition strip_container :: "container \<Rightarrow> container" where
  "strip_container c = \<lparr>Requests = filter (\<lambda>(limitKey, limitVal). HasPrefix limitKey VPCResourcePrefix) (Requests c)\<rparr>"

definition getContainersWithVPCLimits :: "container list \<Rightarrow> container list" where
  "getContainersWithVPCLimits containers = filter (\<lambda>c. Requests c \<noteq> []) (map strip_container containers)"

definition StripDownPod :: "pod \<Rightarrow> pod" where
  "StripDownPod pod =
     \<lparr>PodName = PodName pod, PodNamespace = PodNamespace pod, PodUID = PodUID pod,
      PodAnnotations = getVPCControllerAnnotations (PodAnnotations pod), PodLabels = [],
      PodNodeName = PodNodeName pod, PodServiceAccount = PodServiceAccount pod, PodPhase = PodPhase pod,
      PodContainers = getContainersWithVPCLimits (PodContainers pod)\<rparr>"

text \<open>What the queue of changes may hold: a pod, the last known state of a pod whose deletion the watch has missed, or something else.\<close>

datatype watched = PodObject pod | DeletedFinalStateUnknown string pod | OtherObject

definition ConvertObject :: "watched \<Rightarrow> string + pod" where
  "ConvertObject obj = (case obj of PodObject pod \<Rightarrow> Inr (StripDownPod pod) | _ \<Rightarrow> Inl ''failed to convert object to pod'')"

text \<open>The metadata of a list keeps its continue token and its version.\<close>

record pod_list =
  Continue :: string
  ListVersion :: string
  Items :: "pod list"

definition ConvertList :: "pod_list option \<Rightarrow> string + pod_list" where
  "ConvertList originalList =
     (case originalList of
        None \<Rightarrow> Inl ''faield to convert object to pod list''
      | Some podList \<Rightarrow> Inr \<lparr>Continue = Continue podList, ListVersion = ListVersion podList, Items = map StripDownPod (Items podList)\<rparr>)"

definition pod_key :: "pod \<Rightarrow> string" where
  "pod_key pod = PodNamespace pod @ ''/'' @ PodName pod"

text \<open>The list function of the optimised list and watch: the page of the API server, stripped down. A page of another type ends in
  a failed type assertion on the nil result of the converter, a panic.\<close>

definition list_func :: "k8s_error + pod_list option \<Rightarrow> (k8s_error + pod_list) option" where
  "list_func page =
     (case page of
        Inl err \<Rightarrow> Some (Inl err)
      | Inr l \<Rightarrow> (case ConvertList l of Inl err \<Rightarrow> None | Inr convertedList \<Rightarrow> Some (Inr convertedList)))"

section \<open>The builder\<close>

record controller_options =
  OptName :: string
  PageLimit :: int
  OptNamespace :: string
  ResyncPeriod :: int
  MaxConcurrentReconciles :: int

definition NamespaceAll :: string where "NamespaceAll = ''''"

definition SetDefaults :: "string \<Rightarrow> controller_options \<Rightarrow> controller_options" where
  "SetDefaults resource o0 =
     (let o1 = (if OptName o0 = '''' then o0\<lparr>OptName := resource @ '' custom controller''\<rparr> else o0);
          o2 = (if OptNamespace o1 = '''' then o1\<lparr>OptNamespace := NamespaceAll\<rparr> else o1);
          o3 = (if MaxConcurrentReconciles o2 = 0 then o2\<lparr>MaxConcurrentReconciles := 1\<rparr> else o2);
          o4 = (if PageLimit o3 = 0 then o3\<lparr>PageLimit := 100\<rparr> else o3)
      in if ResyncPeriod o4 = 0 then o4\<lparr>ResyncPeriod := 30 * 60 * 10 ^ 9\<rparr> else o4)"

text \<open>The guards of \<open>Complete\<close>: what must have been given to the builder.\<close>

record builder =
  hasLogger :: bool
  hasConverter :: bool
  hasClientSet :: bool
  hasDataStore :: bool
  options :: controller_options

datatype builder_error = NeedLogger | NeedConverter | NeedClientSet | NeedDataStore

definition Complete_guards :: "string \<Rightarrow> builder \<Rightarrow> builder_error + builder" where
  "Complete_guards resource b =
     (if \<not> hasLogger b then Inl NeedLogger
      else if \<not> hasConverter b then Inl NeedConverter
      else if \<not> hasClientSet b then Inl NeedClientSet
      else if \<not> hasDataStore b then Inl NeedDataStore
      else Inr (b\<lparr>options := SetDefaults resource (options b)\<rparr>))"

text \<open>The answer of client-go's wait: whether the cache synced before the shutdown.\<close>

definition WaitForCacheSync :: "bool \<Rightarrow> condition \<Rightarrow> condition \<times> bool" where
  "WaitForCacheSync synced c = (if \<not> synced then (c, False) else (SetPodDataStoreSyncStatus True c, True))"

text \<open>\<open>Start\<close>: the number of workers that are started.\<close>

definition Start :: "bool \<Rightarrow> controller_options \<Rightarrow> condition \<Rightarrow> condition \<times> nat \<times> bool" where
  "Start synced opts c =
     (case WaitForCacheSync synced c of
        (c', False) \<Rightarrow> (c', 0, False)
      | (c', True) \<Rightarrow> (c', nat (MaxConcurrentReconciles opts), True))"

section \<open>The changes of the watch\<close>

datatype delta_type = Sync | Added | Updated | Deleted | Replaced

record 'd indexer =
  IxGet :: "pod \<Rightarrow> 'd \<Rightarrow> string + bool"
  IxAdd :: "pod \<Rightarrow> 'd \<Rightarrow> 'd \<times> string option"
  IxUpdate :: "pod \<Rightarrow> 'd \<Rightarrow> 'd \<times> string option"
  IxDelete :: "pod \<Rightarrow> 'd \<Rightarrow> 'd \<times> string option"

definition upsert_request :: "pod \<Rightarrow> pod_request" where
  "upsert_request pod = \<lparr>DeletedObject = None, RequestName = pod_key pod\<rparr>"

definition delete_request :: "pod \<Rightarrow> pod_request" where
  "delete_request pod = \<lparr>DeletedObject = Some pod, RequestName = ''/''\<rparr>"

fun process_deltas ::
  "'d indexer \<Rightarrow> (delta_type \<times> watched) list \<Rightarrow> 'd \<Rightarrow> pod_request list \<Rightarrow> 'd \<times> pod_request list \<times> string option" where
  "process_deltas ix [] store queue = (store, queue, None)"
| "process_deltas ix ((ty, obj) # rest) store queue =
     (case ConvertObject obj of
        Inl err \<Rightarrow> (store, queue, Some err)
      | Inr pod \<Rightarrow>
          if ty \<in> {Sync, Added, Updated} then
            (case (case IxGet ix pod store of Inr True \<Rightarrow> IxUpdate ix pod store | _ \<Rightarrow> IxAdd ix pod store) of
               (store1, Some err) \<Rightarrow> (store1, queue, Some err)
             | (store1, None) \<Rightarrow> process_deltas ix rest store1 (queue @ [upsert_request pod]))
          else if ty = Deleted then
            (case IxDelete ix pod store of
               (store1, Some err) \<Rightarrow> (store1, queue, Some err)
             | (store1, None) \<Rightarrow> process_deltas ix rest store1 (queue @ [delete_request pod]))
          else process_deltas ix rest store queue)"

definition Process :: "'d indexer \<Rightarrow> (delta_type \<times> watched) list \<Rightarrow> 'd \<Rightarrow> 'd \<times> pod_request list \<times> string option" where
  "Process ix deltas store = process_deltas ix deltas store []"

section \<open>Handling a request\<close>

datatype queue_op = Forget pod_request | ForgetInvalid | AddRateLimited pod_request | AddAfter pod_request int

text \<open>The answer is what goes to the queue and whether the worker goes on at once.\<close>

definition reconcileHandler :: "(pod_request \<Rightarrow> ctrl_result \<times> handler_error option) \<Rightarrow> pod_request option \<Rightarrow> queue_op list \<times> bool" where
  "reconcileHandler Do obj =
     (case obj of
        None \<Rightarrow> ([ForgetInvalid], True)
      | Some req \<Rightarrow>
         (case Do req of
            (result, Some err) \<Rightarrow> ([AddRateLimited req], False)
          | (result, None) \<Rightarrow>
              if RequeueAfter result > 0 then ([Forget req, AddAfter req (RequeueAfter result)], True)
              else if Requeue result then ([AddRateLimited req], True)
              else ([Forget req], True)))"

definition processNextWorkItem ::
  "(pod_request \<Rightarrow> ctrl_result \<times> handler_error option) \<Rightarrow> (pod_request option) option \<Rightarrow> queue_op list \<times> bool" where
  "processNextWorkItem Do item = (case item of None \<Rightarrow> ([], False) | Some obj \<Rightarrow> reconcileHandler Do obj)"

end
