(* ===== verification/Custom_Props.thy ===== *)
theory Custom_Props
  imports Custom_Controller Pod_Props
begin

text \<open>
  The cache of pods: that it mirrors the pods of the cluster, stripped down, as long as the watch misses nothing; that the
  pod controller does the same with a stripped pod as with the pod of the cluster; and what becomes of a deletion that the watch has
  missed. The cache is any indexer that keeps the laws of the locale \<open>pod_indexer\<close>.
\<close>

section \<open>The indexer of client-go\<close>

locale pod_indexer =
  fixes ix :: "'d indexer"
    and lookup :: "'d \<Rightarrow> string \<Rightarrow> pod option"
  assumes get_law: "IxGet ix pod d = Inr (lookup d (pod_key pod) \<noteq> None)"
    and add_law: "\<exists>d'. IxAdd ix pod d = (d', None) \<and> lookup d' = (lookup d)(pod_key pod \<mapsto> pod)"
    and update_law: "\<exists>d'. IxUpdate ix pod d = (d', None) \<and> lookup d' = (lookup d)(pod_key pod \<mapsto> pod)"
    and delete_law: "\<exists>d'. IxDelete ix pod d = (d', None) \<and> lookup d' = (lookup d)(pod_key pod := None)"
begin

lemma upsert_step:
  "\<exists>d'. (case IxGet ix pod d of Inr True \<Rightarrow> IxUpdate ix pod d | _ \<Rightarrow> IxAdd ix pod d) = (d', None) \<and>
     lookup d' = (lookup d)(pod_key pod \<mapsto> pod)"
  using add_law [of pod d] update_law [of pod d] by (simp add: get_law split: bool.split)

end

text \<open>A store kept in a map, as the one of client-go.\<close>

definition map_indexer :: "((string, pod) gomap) indexer" where
  "map_indexer =
     \<lparr>IxGet = (\<lambda>pod d. Inr (mhas d (pod_key pod))),
      IxAdd = (\<lambda>pod d. (mput d (pod_key pod) pod, None)),
      IxUpdate = (\<lambda>pod d. (mput d (pod_key pod) pod, None)),
      IxDelete = (\<lambda>pod d. (mdel d (pod_key pod), None))\<rparr>"

interpretation map_store: pod_indexer map_indexer mget
  by unfold_locales (auto simp: map_indexer_def mhas_def fun_eq_iff)

section \<open>The converter\<close>

lemma mget_filter:
  assumes "P k"
  shows "mget (filter (\<lambda>(j, v). P j) m) k = mget m k"
  using assms by (induction m) (auto simp: mget_Cons)

lemma strip_idem [simp]: "StripDownPod (StripDownPod pod) = StripDownPod pod"
proof -
  have c: "getContainersWithVPCLimits (getContainersWithVPCLimits cs) = getContainersWithVPCLimits cs" for cs
    by (induction cs) (auto simp: getContainersWithVPCLimits_def strip_container_def)
  show ?thesis unfolding StripDownPod_def pod.simps c by (simp add: getVPCControllerAnnotations_def)
qed

lemma strip_fields [simp]:
  "PodName (StripDownPod pod) = PodName pod" "PodNamespace (StripDownPod pod) = PodNamespace pod"
  "PodUID (StripDownPod pod) = PodUID pod" "PodNodeName (StripDownPod pod) = PodNodeName pod"
  "PodPhase (StripDownPod pod) = PodPhase pod" "pod_key (StripDownPod pod) = pod_key pod"
  "pod_completed (StripDownPod pod) = pod_completed pod"
  by (simp_all add: StripDownPod_def pod_key_def pod_completed_def)

lemma strip_annotation [simp]:
  "HasPrefix key VPCResourcePrefix \<Longrightarrow> mget (PodAnnotations (StripDownPod pod)) key = mget (PodAnnotations pod) key"
  by (simp add: StripDownPod_def getVPCControllerAnnotations_def mget_filter)

section \<open>The cache and the cluster\<close>

text \<open>The pods of the cluster, by namespace and name, after the changes the watch reports; and the request each
  change leads to.\<close>

fun cluster_after :: "(delta_type \<times> watched) list \<Rightarrow> (string \<Rightarrow> pod option) \<Rightarrow> string \<Rightarrow> pod option" where
  "cluster_after [] c = c"
| "cluster_after ((ty, PodObject pod) # rest) c =
     cluster_after rest (if ty = Deleted then c(pod_key pod := None) else c(pod_key pod \<mapsto> pod))"
| "cluster_after (_ # rest) c = cluster_after rest c"

definition request_of :: "delta_type \<times> watched \<Rightarrow> pod_request" where
  "request_of x = (case x of (ty, PodObject pod) \<Rightarrow> if ty = Deleted then delete_request (StripDownPod pod) else upsert_request pod)"

definition seen_pod :: "delta_type \<times> watched \<Rightarrow> bool" where
  "seen_pod x = (case x of (ty, PodObject pod) \<Rightarrow> ty \<noteq> Replaced | _ \<Rightarrow> False)"

context pod_indexer
begin

lemma process_mirrors:
  assumes "list_all seen_pod deltas" "lookup d = map_option StripDownPod \<circ> c"
  shows "\<exists>d'. process_deltas ix deltas d q = (d', q @ map request_of deltas, None) \<and>
    lookup d' = map_option StripDownPod \<circ> cluster_after deltas c"
  using assms
proof (induction deltas arbitrary: d q c)
  case (Cons x deltas)
  obtain ty pod where x: "x = (ty, PodObject pod)" "ty \<noteq> Replaced"
    using Cons.prems(1) by (auto simp: seen_pod_def split: watched.splits prod.splits)
  let ?s = "StripDownPod pod" and ?c' = "if ty = Deleted then c(pod_key pod := None) else c(pod_key pod \<mapsto> pod)"
  obtain d' where d': "process_deltas ix (x # deltas) d q = process_deltas ix deltas d' (q @ [request_of x])"
    "lookup d' = map_option StripDownPod \<circ> ?c'"
  proof (cases "ty = Deleted")
    case True
    then show thesis using delete_law [of ?s d] x Cons.prems(2)
      by (intro that [of "fst (IxDelete ix ?s d)"]) (auto simp: ConvertObject_def request_of_def)
  next
    case False
    then have "ty \<in> {Sync, Added, Updated}" using x(2) by (cases ty) auto
    then show thesis using upsert_step [of ?s d] x Cons.prems(2) False
      by (intro that [of "fst (case IxGet ix ?s d of Inr True \<Rightarrow> IxUpdate ix ?s d | _ \<Rightarrow> IxAdd ix ?s d)"])
        (auto simp: ConvertObject_def request_of_def upsert_request_def)
  qed
  show ?case using Cons.IH [of d' ?c' "q @ [request_of x]"] Cons.prems(1) d' x by simp
qed simp

text \<open>Re-syncs of a pod that is in the cache leave it there, and their requests never say that it is gone.\<close>

lemma resyncs_keep:
  assumes "lookup d (pod_key pod) = Some pod" "StripDownPod pod = pod"
  shows "\<exists>d'. process_deltas ix (replicate n (Sync, PodObject pod)) d q = (d', q @ replicate n (upsert_request pod), None) \<and>
    lookup d' = lookup d"
  using assms(1)
proof (induction n arbitrary: d q)
  case (Suc n)
  obtain d' where d': "(case IxGet ix pod d of Inr True \<Rightarrow> IxUpdate ix pod d | _ \<Rightarrow> IxAdd ix pod d) = (d', None)"
    "lookup d' = (lookup d)(pod_key pod \<mapsto> pod)" using upsert_step [of pod d] by blast
  then have "lookup d' = lookup d" using Suc.prems by auto
  then show ?case using Suc.IH [of d' "q @ [upsert_request pod]"] Suc.prems d' assms(2) by (simp add: ConvertObject_def)
qed simp

end

text \<open>C37. The cache mirrors the cluster. When the watch reports the changes of the pods and the cache held the stripped pods of the
  cluster before, it holds the stripped pods of the cluster afterwards; each change has led to one request, in the order of the
  changes: the name of a pod that is there, the stripped pod itself when it was deleted.\<close>

theorem cache_mirrors_cluster:
  assumes "pod_indexer ix lookup" "list_all seen_pod deltas" "lookup d = map_option StripDownPod \<circ> c"
    and "Process ix deltas d = (d', requests, err)"
  shows "err = None \<and> lookup d' = map_option StripDownPod \<circ> cluster_after deltas c \<and> requests = map request_of deltas"
  using pod_indexer.process_mirrors [OF assms(1-3), of "[]"] assms(4) by (auto simp: Process_def)

definition sample_pod_of :: "string \<Rightarrow> string \<Rightarrow> (string, string) gomap \<Rightarrow> container list \<Rightarrow> pod" where
  "sample_pod_of nm uid anns cs =
     \<lparr>PodName = nm, PodNamespace = ''default'', PodUID = uid, PodAnnotations = anns, PodLabels = [(''app'', ''web'')],
      PodNodeName = ''node-1'', PodServiceAccount = ''default'', PodPhase = PodRunning, PodContainers = cs\<rparr>"

definition sample_deltas :: "(delta_type \<times> watched) list" where
  "sample_deltas =
     [(Added, PodObject (sample_pod_of ''a'' ''u1'' [(''other'', ''x'')] [])),
      (Updated, PodObject (sample_pod_of ''a'' ''u1'' [(ResourceNameIPAddress, ''10.0.0.5/19'')] [])),
      (Deleted, PodObject (sample_pod_of ''a'' ''u1'' [(ResourceNameIPAddress, ''10.0.0.5/19'')] []))]"

theorem cache_mirrors_cluster_witness:
  "Process map_indexer sample_deltas [] = ([], map request_of sample_deltas, None) \<and> cluster_after sample_deltas Map.empty = Map.empty"
proof -
  have r: "Process map_indexer sample_deltas [] = ([], map request_of sample_deltas, None)" by code_simp
  moreover have "cluster_after sample_deltas Map.empty = Map.empty" by (simp add: sample_deltas_def sample_pod_of_def pod_key_def)
  moreover have "mget ([] :: (string, pod) gomap) = map_option StripDownPod \<circ> Map.empty" by (simp add: fun_eq_iff)
  ultimately show ?thesis using cache_mirrors_cluster [OF map_store.pod_indexer_axioms _ _ r, of Map.empty]
    by (simp add: sample_deltas_def seen_pod_def)
qed

section \<open>A deletion the watch has missed\<close>

text \<open>C39. A deletion that the watch has missed is lost. The list that follows an interrupted watch reports it with the last known state
  of the pod, which the converter refuses: the cache keeps the pod, no request is made, and the later changes in the same
  batch are dropped. Every re-sync after that finds the pod in the cache and asks for it as for a pod that is there; no request ever says
  that it is gone.\<close>

theorem missed_delete_is_lost:
  assumes "pod_indexer ix lookup" "lookup d (pod_key pod) = Some (StripDownPod pod)"
  shows "Process ix ((Deleted, DeletedFinalStateUnknown k p) # later) d = (d, [], Some ''failed to convert object to pod'') \<and>
    (\<exists>d'. Process ix (replicate n (Sync, PodObject (StripDownPod pod))) d = (d', replicate n (upsert_request pod), None) \<and>
       lookup d' (pod_key pod) = Some (StripDownPod pod))"
proof -
  have u: "upsert_request (StripDownPod pod) = upsert_request pod" by (simp add: upsert_request_def)
  show ?thesis
    using pod_indexer.resyncs_keep [OF assms(1), of d "StripDownPod pod" n "[]"] assms(2)
    by (auto simp: Process_def ConvertObject_def u)
qed

theorem missed_delete_is_lost_witness:
  "\<exists>d'. Process map_indexer [(Deleted, DeletedFinalStateUnknown ''default/a'' (sample_pod_of ''a'' ''u1'' [] []))] d' = (d', [], Some ''failed to convert object to pod'') \<and>
     mget d' ''default/a'' \<noteq> None"
proof -
  let ?p = "sample_pod_of ''a'' ''u1'' [] []"
  let ?d = "mput [] (pod_key ?p) (StripDownPod ?p)"
  have k: "pod_key ?p = ''default/a''" by (simp add: sample_pod_of_def pod_key_def)
  show ?thesis
    using missed_delete_is_lost [OF map_store.pod_indexer_axioms, of ?d ?p "''default/a''" ?p "[]" 1]
    by (intro exI [of _ ?d]) (simp add: k)
qed

section \<open>A stripped pod and the pod controller\<close>

abbreviation vpc_name :: "string \<Rightarrow> bool" where
  "vpc_name k \<equiv> HasPrefix k VPCResourcePrefix"

abbreviation vpc_part :: "(string, 'v) gomap \<Rightarrow> (string, 'v) gomap" where
  "vpc_part m \<equiv> filter (\<lambda>(k, v). vpc_name k) m"

lemma resource_names_vpc [simp]:
  "vpc_name ResourceNameIPAddress" "vpc_name ResourceNameIPAddressFromPrefix" "vpc_name ResourceNamePodENI"
  by (simp_all add: VPCResourcePrefix_def ResourceNameIPAddress_def ResourceNameIPAddressFromPrefix_def ResourceNamePodENI_def)

lemma vpc_part_mput: "vpc_part (mput m k v) = (if vpc_name k then mput (vpc_part m) k v else vpc_part m)"
  by (induction m) (auto simp: mput_Nil mput_Cons)

lemma add_request_vpc: "vpc_part (add_request r m) = (if vpc_name (fst r) then add_request r (vpc_part m) else vpc_part m)"
  by (cases r; cases "snd r") (auto simp: add_request_def vpc_part_mput mgetd_def mget_filter)

lemma fold_requests_vpc: "fold add_request (vpc_part rs) (vpc_part m) = vpc_part (fold add_request rs m)"
proof (induction rs arbitrary: m)
  case (Cons r rs)
  show ?case using Cons [of "add_request r m"] by (cases r) (simp add: add_request_vpc split: if_splits)
qed simp

lemma stripped_requests: "concat (map Requests (getContainersWithVPCLimits cs)) = vpc_part (concat (map Requests cs))"
  by (induction cs) (auto simp: getContainersWithVPCLimits_def strip_container_def)

lemma aggregate_strip: "getAggregateResources (StripDownPod pod) = vpc_part (getAggregateResources pod)"
  using fold_requests_vpc [of "concat (map Requests (PodContainers pod))" "[]"]
  by (simp add: getAggregateResources_def aggregate_fold StripDownPod_def stripped_requests)

lemma eni_request_strip: "PodHasENIRequest ResourceNamePodENI (Some (StripDownPod pod)) = PodHasENIRequest ResourceNamePodENI (Some pod)"
proof -
  have "list_ex (\<lambda>c. mhas (Requests c) ResourceNamePodENI) (getContainersWithVPCLimits cs) = list_ex (\<lambda>c. mhas (Requests c) ResourceNamePodENI) cs" for cs
  proof (induction cs)
    case (Cons c cs)
    have "mget (vpc_part (Requests c)) ResourceNamePodENI = mget (Requests c) ResourceNamePodENI" by (simp add: mget_filter)
    then show ?case using Cons by (auto simp: getContainersWithVPCLimits_def strip_container_def mhas_def)
  qed (simp add: getContainersWithVPCLimits_def)
  then show ?thesis by (simp add: PodHasENIRequest_def StripDownPod_def)
qed

text \<open>A resource manager whose resources and annotation keys all have the prefix, as the one that \<open>NewResourceManager\<close> builds.\<close>

definition vpc_entry :: "string \<Rightarrow> resource_entry \<Rightarrow> bool" where
  "vpc_entry k e \<longleftrightarrow> vpc_name k \<and> (case e of WarmResource key prov \<Rightarrow> vpc_name key | OnDemandResource \<Rightarrow> True)"

definition vpc_manager :: "resource_manager \<Rightarrow> bool" where
  "vpc_manager rm \<longleftrightarrow> (\<forall>k e. mget rm k = Some e \<longrightarrow> vpc_entry k e)"

lemma vpc_manager_put: "vpc_manager rm \<Longrightarrow> vpc_entry k e \<Longrightarrow> vpc_manager (mput rm k e)"
  by (simp add: vpc_manager_def)

lemma new_resources_vpc: "new_resources names rm0 = Inr rm \<Longrightarrow> vpc_manager rm0 \<Longrightarrow> vpc_manager rm"
  by (induction names rm0 rule: new_resources.induct)
    (auto simp: vpc_entry_def vpc_manager_put split: option.splits if_splits)

lemma handle_strip:
  assumes "vpc_entry k e"
  shows "handle_resource k8s now deleting n (StripDownPod pod) e = handle_resource k8s now deleting n pod e"
proof (cases e)
  case (WarmResource key prov)
  then have v: "vpc_name key" using assms by (simp add: vpc_entry_def)
  have af: "assign_failed key k8s (StripDownPod pod) = assign_failed key k8s pod" unfolding fun_eq_iff assign_failed_def strip_fields by simp
  have "HandleCreate key k8s now (StripDownPod pod) m = HandleCreate key k8s now pod m" for m
    unfolding HandleCreate_def mhas_def strip_fields strip_annotation [OF v] af by simp
  moreover have "HandleDelete key now (StripDownPod pod) m = HandleDelete key now pod m" for m
    unfolding HandleDelete_def strip_fields strip_annotation [OF v] by simp
  ultimately show ?thesis using WarmResource by (simp add: handle_resource_def)
qed (simp add: handle_resource_def on_demand_HandleCreate_def on_demand_HandleDelete_def)

lemma handle_keeps_vpc:
  "vpc_entry k e \<Longrightarrow> handle_resource k8s now deleting n pod e = (e', effs, result, err) \<Longrightarrow> vpc_entry k e'"
  by (auto simp: handle_resource_def vpc_entry_def split: resource_entry.splits prod.splits)

lemma resources_loop_strip:
  assumes "vpc_manager rm" "\<forall>j \<le> length rs. now' (i' + j) = now (i + length (vpc_part (take j rs)))"
  shows "resources_loop Limits k8s now deleting (StripDownPod pod) node (vpc_part rs) i rm effs =
    resources_loop Limits k8s now' deleting pod node rs i' rm effs"
  using assms
proof (induction rs arbitrary: i i' rm effs)
  case (Cons r rs)
  obtain res n where r: "r = (res, n)" by fastforce
  let ?i = "if vpc_name res then Suc i else i"
  have step: "\<forall>j \<le> length rs. now' (Suc i' + j) = now (?i + length (vpc_part (take j rs)))"
  proof (intro allI impI)
    fix j
    assume "j \<le> length rs"
    then show "now' (Suc i' + j) = now (?i + length (vpc_part (take j rs)))"
      using spec [OF Cons.prems(2), of "Suc j"] r by simp
  qed
  have head: "now' i' = now i" using Cons.prems(2) by (auto dest: spec [of _ 0])
  have name: "updateResourceName Limits k8s rm deleting (StripDownPod pod) node = updateResourceName Limits k8s rm deleting pod node"
    unfolding updateResourceName_def strip_fields ..
  show ?case
  proof (cases "vpc_name res")
    case False
    then have "res \<noteq> ResourceNameIPAddress" "GetResource rm res = None"
      using Cons.prems(1) by (auto simp: GetResource_def vpc_manager_def vpc_entry_def intro: ccontr)
    then show ?thesis using Cons.IH [OF Cons.prems(1) step] False r by simp
  next
    case True
    let ?name = "if res = ResourceNameIPAddress then updateResourceName Limits k8s rm deleting pod node else Some res"
    show ?thesis
    proof (cases "Option.bind ?name (GetResource rm)")
      case None
      then show ?thesis using Cons.IH [OF Cons.prems(1) step] True r name by (cases ?name) (simp_all cong: if_cong split del: if_split)
    next
      case (Some e)
      then obtain resourceName where nm: "?name = Some resourceName" "GetResource rm resourceName = Some e" by (cases ?name) auto
      then have v: "vpc_entry resourceName e" using Cons.prems(1) by (simp add: GetResource_def vpc_manager_def)
      obtain e' effs' result err where h: "handle_resource k8s (now i) deleting n pod e = (e', effs', result, err)" by (rule prod_cases4)
      have "vpc_manager (mput rm resourceName e')" by (rule vpc_manager_put [OF Cons.prems(1) handle_keeps_vpc [OF v h]])
      from Cons.IH [OF this step, of "effs @ effs'"] show ?thesis
        using True r nm h name head by (simp add: handle_strip [OF v] cong: if_cong split del: if_split)
    qed
  qed
qed simp

text \<open>The pod of a request, and what follows once it is there.\<close>

definition requested_pod :: "(string \<Rightarrow> string + pod option) \<Rightarrow> pod_request \<Rightarrow> pod option" where
  "requested_pod GetByKey request =
     (case DeletedObject request of
        Some pod \<Rightarrow> Some pod
      | None \<Rightarrow> (case GetByKey (RequestName request) of Inl err \<Rightarrow> None | Inr found \<Rightarrow> found))"

lemma requested_strip:
  "requested_pod (\<lambda>k. map_sum id (map_option StripDownPod) (GetByKey k)) (request\<lparr>DeletedObject := map_option StripDownPod (DeletedObject request)\<rparr>) =
   map_option StripDownPod (requested_pod GetByKey request)"
  by (auto simp: requested_pod_def split: option.split sum.split)

definition reconcile_pod where
  "reconcile_pod Limits ord k8s now m isDelete pod rm =
     (case pod_event_gate k8s isDelete pod (cached_node m (PodNodeName pod)) of
        Inl result \<Rightarrow> Some (rm, [], result, None)
      | Inr deleting \<Rightarrow> resources_loop Limits k8s now deleting pod (cached_node m (PodNodeName pod)) (ord (getAggregateResources pod)) 0 rm [])"

lemma Reconcile_pod:
  "Reconcile Limits ord GetByKey k8s now m request rm =
     (case requested_pod GetByKey request of
        None \<Rightarrow> Some (rm, [], no_requeue, None)
      | Some pod \<Rightarrow> reconcile_pod Limits ord k8s now m (DeletedObject request \<noteq> None) pod rm)"
  unfolding Reconcile_def requested_pod_def reconcile_pod_def Let_def ..

lemma gate_strip: "pod_event_gate k8s b (StripDownPod pod) node = pod_event_gate k8s b pod node"
  unfolding pod_event_gate_def isNodeExistingInCluster_def eni_request_strip strip_fields ..

lemma reconcile_pod_strip:
  assumes "vpc_manager rm" "\<forall>m. ord (vpc_part m) = vpc_part (ord m)"
  shows "\<exists>now'. reconcile_pod Limits ord k8s now m b (StripDownPod pod) rm = reconcile_pod Limits ord k8s now' m b pod rm"
proof -
  let ?rs = "ord (getAggregateResources pod)"
  define now' where "now' j = now (length (vpc_part (take j ?rs)))" for j
  have "resources_loop Limits k8s now deleting (StripDownPod pod) node (vpc_part ?rs) 0 rm [] =
    resources_loop Limits k8s now' deleting pod node ?rs 0 rm []" for deleting node
    by (rule resources_loop_strip [OF assms(1)]) (simp add: now'_def)
  then show ?thesis using assms(2)
    by (intro exI [of _ now']) (simp add: reconcile_pod_def gate_strip aggregate_strip split: sum.split)
qed

text \<open>C38. The pod controller does the same with a stripped pod as with the pod of the cluster. For the resources of the controller,
  whose names and annotation keys all have the prefix that the converter keeps, an event leads to the same pools,
  calls, result and error whether the cache and the deleted object hold the whole pod or the stripped one; only the clock is read less
  often.\<close>

theorem stripped_pod_same_result:
  assumes "vpc_manager rm" "\<forall>m. ord (vpc_part m) = vpc_part (ord m)"
  shows "\<exists>now'. Reconcile Limits ord (\<lambda>k. map_sum id (map_option StripDownPod) (GetByKey k)) k8s now m
      (request\<lparr>DeletedObject := map_option StripDownPod (DeletedObject request)\<rparr>) rm =
    Reconcile Limits ord GetByKey k8s now' m request rm"
  using reconcile_pod_strip [OF assms]
  by (cases "requested_pod GetByKey request") (simp_all add: Reconcile_pod requested_strip)

theorem stripped_pod_same_result_witness:
  "\<exists>rm now'. NewResourceManager [ResourceNameIPAddress, ResourceNamePodENI] = Inr rm \<and>
     Reconcile sample_limits id (\<lambda>k. map_sum id (map_option StripDownPod) (Inr (Some sample_ip_pod))) sample_k8s int (sample_nodes True) sample_event rm =
     Reconcile sample_limits id (\<lambda>k. Inr (Some sample_ip_pod)) sample_k8s now' (sample_nodes True) sample_event rm"
proof -
  obtain rm where rm: "NewResourceManager [ResourceNameIPAddress, ResourceNamePodENI] = Inr rm"
  proof (cases "NewResourceManager [ResourceNameIPAddress, ResourceNamePodENI]")
    case (Inl err)
    moreover have "case NewResourceManager [ResourceNameIPAddress, ResourceNamePodENI] of Inl err \<Rightarrow> False | Inr rm \<Rightarrow> True" by code_simp
    ultimately show ?thesis by simp
  qed (rule that)
  then have "vpc_manager rm" unfolding NewResourceManager_def by (rule new_resources_vpc) (simp add: vpc_manager_def)
  from stripped_pod_same_result [OF this, of id, where GetByKey = "\<lambda>k. Inr (Some sample_ip_pod)" and request = sample_event] rm
  show ?thesis by auto
qed

end
