(* ===== verification/K8s_Wrapper.thy ===== *)
theory K8s_Wrapper
  imports Custom_Controller Cninode_Controller
begin

text \<open>
  \<open>pkg/k8s/pod/client_wrapper.go\<close> and the operations of \<open>pkg/k8s/wrapper.go\<close> that decide something: the
  reads of the pod cache, the annotation of a pod, the advertisement of a capacity, the label of a node and the creation of a CNINode
  object. The cache and the API server are a state of an arbitrary type behind a record of calls; so are \<open>retry.RetryOnConflict\<close> and \<open>client.IgnoreAlreadyExists\<close>. The
  other functions of \<open>wrapper.go\<close>, one call of the client each, are in \<open>K8s_Reads\<close>. The metrics are left out.
\<close>

datatype client_error =
    ClientConflict
  | ClientNotFound string
  | ClientUIDMismatch string string
  | is_AlreadyExists: ClientAlreadyExists
  | ClientError string

record ('w, 'r) server =
  StoreGetByKey :: "string \<Rightarrow> 'w \<Rightarrow> client_error + pod option"
  StoreByNode :: "string \<Rightarrow> 'w \<Rightarrow> client_error + pod list"
  PatchPod :: "pod \<Rightarrow> pod \<Rightarrow> 'w \<Rightarrow> 'w \<times> client_error option"
  ReadCapacity :: "string \<Rightarrow> 'w \<Rightarrow> client_error + (string, int) gomap option"
  PatchCapacity :: "string \<Rightarrow> (string, int) gomap \<Rightarrow> (string, int) gomap \<Rightarrow> 'w \<Rightarrow> 'w \<times> client_error option"
  PatchNodeLabels :: "string \<Rightarrow> (string, string) gomap \<Rightarrow> (string, string) gomap \<Rightarrow> 'w \<Rightarrow> 'w \<times> client_error option"
  CreateCNINodeObject :: "'r cni_node \<Rightarrow> 'w \<Rightarrow> 'w \<times> client_error option"
  IgnoreAlreadyExists :: "client_error option \<Rightarrow> client_error option"
  RetryOnConflict :: "('w \<Rightarrow> 'w \<times> client_error option) \<Rightarrow> 'w \<Rightarrow> 'w \<times> client_error option"

section \<open>The pod client\<close>

definition client_ListPods :: "('w, 'r) server \<Rightarrow> string \<Rightarrow> 'w \<Rightarrow> client_error + pod list" where
  "client_ListPods srv nodename w = StoreByNode srv nodename w"

fun running_loop :: "pod list \<Rightarrow> pod list \<Rightarrow> pod list" where
  "running_loop [] runningPods = runningPods"
| "running_loop (pod # pods) runningPods =
     (if PodPhase pod = PodSucceeded \<or> PodPhase pod = PodFailed then running_loop pods runningPods
      else running_loop pods (runningPods @ [pod]))"

definition client_GetRunningPodsOnNode :: "('w, 'r) server \<Rightarrow> string \<Rightarrow> 'w \<Rightarrow> client_error + pod list" where
  "client_GetRunningPodsOnNode srv nodename w =
     (case client_ListPods srv nodename w of Inl err \<Rightarrow> Inl err | Inr allPodList \<Rightarrow> Inr (running_loop allPodList []))"

definition client_GetPod :: "('w, 'r) server \<Rightarrow> string \<Rightarrow> string \<Rightarrow> 'w \<Rightarrow> client_error + pod" where
  "client_GetPod srv ns podname w =
     (case StoreGetByKey srv (ns @ ''/'' @ podname) w of
        Inl err \<Rightarrow> Inl err
      | Inr None \<Rightarrow> Inl (ClientNotFound (ns @ ''/'' @ podname))
      | Inr (Some obj) \<Rightarrow> Inr obj)"

text \<open>One attempt: the pod of the cache, whose annotations the converter has made, so that the map is not nil; the check of the UID;
  the patch, which carries no version of the object.\<close>

definition annotate_attempt ::
  "('w, 'r) server \<Rightarrow> string \<Rightarrow> string \<Rightarrow> string \<Rightarrow> string \<Rightarrow> string \<Rightarrow> 'w \<Rightarrow> 'w \<times> client_error option" where
  "annotate_attempt srv podNamespace podName uid key val w =
     (case client_GetPod srv podNamespace podName w of
        Inl err \<Rightarrow> (w, Some err)
      | Inr pod \<Rightarrow>
          if PodUID pod \<noteq> uid then (w, Some (ClientUIDMismatch (PodUID pod) uid))
          else PatchPod srv (pod\<lparr>PodAnnotations := mput (PodAnnotations pod) key val\<rparr>) pod w)"

definition client_AnnotatePod ::
  "('w, 'r) server \<Rightarrow> string \<Rightarrow> string \<Rightarrow> string \<Rightarrow> string \<Rightarrow> string \<Rightarrow> 'w \<Rightarrow> 'w \<times> client_error option" where
  "client_AnnotatePod srv podNamespace podName uid key val w =
     RetryOnConflict srv (annotate_attempt srv podNamespace podName uid key val) w"

section \<open>The wrapper\<close>

text \<open>A node without a capacity map is a conflict of the wrapper's own, so that the read is tried again.\<close>

definition advertise_attempt :: "('w, 'r) server \<Rightarrow> string \<Rightarrow> string \<Rightarrow> int \<Rightarrow> 'w \<Rightarrow> 'w \<times> client_error option" where
  "advertise_attempt srv nodename resourceName cap0 w =
     (case ReadCapacity srv nodename w of
        Inl err \<Rightarrow> (w, Some err)
      | Inr None \<Rightarrow> (w, Some ClientConflict)
      | Inr (Some cap) \<Rightarrow>
          (let existingCapacity = mgetd 0 cap resourceName in
           if existingCapacity \<noteq> 0 \<and> existingCapacity = cap0 then (w, None)
           else PatchCapacity srv nodename (mput cap resourceName cap0) cap w))"

definition client_AdvertiseCapacityIfNotSet :: "('w, 'r) server \<Rightarrow> string \<Rightarrow> string \<Rightarrow> int \<Rightarrow> 'w \<Rightarrow> 'w \<times> client_error option" where
  "client_AdvertiseCapacityIfNotSet srv nodename resourceName cap0 w =
     RetryOnConflict srv (advertise_attempt srv nodename resourceName cap0) w"

text \<open>Writing to the nil map of a node without labels is a panic, \<open>None\<close>.\<close>

definition AddLabelToManageNode ::
  "('w, 'r) server \<Rightarrow> string \<Rightarrow> (string, string) gomap option \<Rightarrow> string \<Rightarrow> string \<Rightarrow> 'w \<Rightarrow> ('w \<times> bool \<times> client_error option) option" where
  "AddLabelToManageNode srv nodename labels labelKey labelValue w =
     (if mgetd '''' (case labels of None \<Rightarrow> [] | Some l \<Rightarrow> l) labelKey = labelValue then Some (w, False, None)
      else
        (case labels of
           None \<Rightarrow> None
         | Some l \<Rightarrow> (case PatchNodeLabels srv nodename (mput l labelKey labelValue) l w of (w', err) \<Rightarrow> Some (w', err = None, err))))"

record owner_reference =
  OwnerAPIVersion :: string
  OwnerKind :: string
  OwnerName :: string
  OwnerUID :: string
  OwnerController :: bool

record k8s_node_object = k8s_node +
  KAPIVersion :: string
  KKind :: string
  KUID :: string

definition new_cninode :: "k8s_node_object \<Rightarrow> string \<Rightarrow> string \<Rightarrow> (owner_reference list) cni_node" where
  "new_cninode node clusterName nodeID =
     \<lparr>CnName = KNodeName node,
      CnLabels = Some [(NodeLabelOS, mgetd '''' (KNodeLabels node) NodeLabelOS)],
      CnTags = Some [(VPCCNIClusterNameKey, clusterName), (NetworkInterfaceNodeIDKey, nodeID)],
      CnManagedBy = '''', CnFinalizers = [NodeTerminationFinalizer], CnDeleting = False,
      CnRest = [\<lparr>OwnerAPIVersion = KAPIVersion node, OwnerKind = KKind node, OwnerName = KNodeName node,
                 OwnerUID = KUID node, OwnerController = True\<rparr>]\<rparr>"

definition wrapper_CreateCNINode ::
  "('w, owner_reference list) server \<Rightarrow> k8s_node_object \<Rightarrow> string \<Rightarrow> string \<Rightarrow> 'w \<Rightarrow> 'w \<times> client_error option" where
  "wrapper_CreateCNINode srv node clusterName nodeID w =
     (case CreateCNINodeObject srv (new_cninode node clusterName nodeID) w of (w', err) \<Rightarrow> (w', IgnoreAlreadyExists srv err))"

end
