(* ===== verification/K8s_Props.thy ===== *)
theory K8s_Props
  imports K8s_Wrapper Cninode_Props Custom_Props
begin

text \<open>
  The wrappers of the clients: what a successful annotation or advertisement has done, what the check of the UID against the cache
  does not prevent, and that a CNINode object comes into being in the state the CNINode controller wants.
\<close>

section \<open>Retries\<close>

text \<open>A run of \<open>RetryOnConflict\<close>: the function is called; after a conflict it may be called again, in a state that others have
  changed in the meantime, or the conflict is returned.\<close>

inductive conflict_run ::
  "('w \<Rightarrow> 'w \<Rightarrow> bool) \<Rightarrow> ('w \<Rightarrow> 'w \<times> client_error option) \<Rightarrow> 'w \<Rightarrow> 'w \<times> client_error option \<Rightarrow> bool"
  for later and fn where
  last_attempt: "conflict_run later fn w (fn w)"
| another_attempt: "fn w = (w1, Some ClientConflict) \<Longrightarrow> later w1 w2 \<Longrightarrow> conflict_run later fn w2 r \<Longrightarrow> conflict_run later fn w r"

locale conflict_retry =
  fixes later :: "'w \<Rightarrow> 'w \<Rightarrow> bool"
    and retry :: "('w \<Rightarrow> 'w \<times> client_error option) \<Rightarrow> 'w \<Rightarrow> 'w \<times> client_error option"
  assumes retry_runs: "conflict_run later fn w (retry fn w)"
begin

text \<open>The result is the one of some attempt.\<close>

lemma retry_result: "\<exists>w1. retry fn w = fn w1"
proof -
  have "conflict_run later fn w r \<Longrightarrow> \<exists>w1. r = fn w1" for r w
    by (induction rule: conflict_run.induct) auto
  then show ?thesis using retry_runs by blast
qed

text \<open>A first attempt that does not end in a conflict is the only one.\<close>

lemma no_retry:
  assumes "snd (fn w) \<noteq> Some ClientConflict"
  shows "retry fn w = fn w"
  using retry_runs [of fn w] assms by (cases rule: conflict_run.cases) auto

text \<open>Attempts that all end in a conflict end in a conflict.\<close>

lemma always_conflict:
  assumes "\<And>w. snd (fn w) = Some ClientConflict"
  shows "snd (retry fn w) = Some ClientConflict"
  using retry_result [of fn w] assms by auto

end

text \<open>An API server and its cache as two maps, for the closed instances; what is patched lands in the server's map and not in the cache.\<close>

type_synonym sample_world = "(string, pod) gomap \<times> (string, pod) gomap"

definition patch_annotations :: "pod \<Rightarrow> pod \<Rightarrow> pod \<Rightarrow> pod" where
  "patch_annotations new old p =
     p\<lparr>PodAnnotations := filter (\<lambda>(k, v). mget (PodAnnotations old) k \<noteq> Some v) (PodAnnotations new) @ PodAnnotations p\<rparr>"

definition sample_server :: "(sample_world, owner_reference list) server" where
  "sample_server =
     \<lparr>StoreGetByKey = (\<lambda>k w. Inr (mget (fst w) k)),
      StoreByNode = (\<lambda>n w. Inr (filter (\<lambda>p. PodNodeName p = n) (mvals (fst w)))),
      PatchPod = (\<lambda>new old w. case mget (snd w) (pod_key new) of
         None \<Rightarrow> (w, Some (ClientNotFound (pod_key new)))
       | Some p \<Rightarrow> ((fst w, mput (snd w) (pod_key new) (patch_annotations new old p)), None)),
      ReadCapacity = (\<lambda>n w. Inr (Some [])), PatchCapacity = (\<lambda>n new old w. (w, None)), PatchNodeLabels = (\<lambda>n new old w. (w, None)),
      CreateCNINodeObject = (\<lambda>c w. (w, Some ClientAlreadyExists)), IgnoreAlreadyExists = (\<lambda>err. if err = Some ClientAlreadyExists then None else err),
      RetryOnConflict = (\<lambda>fn. fn)\<rparr>"

interpretation sample_retry: conflict_retry "\<lambda>w w'. True" "RetryOnConflict sample_server"
  by unfold_locales (simp add: sample_server_def last_attempt)

section \<open>The annotation of a pod\<close>

text \<open>What the documentation says of a merge patch without a version: it applies to the object of that name, whatever its UID.\<close>

definition merge_patch_law :: "('w, 'r) server \<Rightarrow> ('w \<Rightarrow> string \<Rightarrow> pod option) \<Rightarrow> bool" where
  "merge_patch_law srv cluster \<longleftrightarrow> (\<forall>new old w p k v.
     cluster w (pod_key new) = Some p \<and> wf_map (PodAnnotations old) \<and> PodAnnotations new = mput (PodAnnotations old) k v \<and> mget (PodAnnotations old) k \<noteq> Some v \<longrightarrow>
     (\<exists>w' p'. PatchPod srv new old w = (w', None) \<and> cluster w' (pod_key new) = Some p' \<and> PodUID p' = PodUID p \<and>
        mget (PodAnnotations p') k = Some v))"

lemma sample_merge_patch: "merge_patch_law sample_server (\<lambda>w. mget (snd w))"
proof -
  have "mget (filter (\<lambda>(k, v). mget old k \<noteq> Some v) (mput old k v) @ m) k = Some v" if "wf_map old" "mget old k \<noteq> Some v"
    for k v and old m :: "(string, string) gomap"
  proof -
    let ?xs = "filter (\<lambda>(k, v). mget old k \<noteq> Some v) (mput old k v)"
    have "wf_map (mput old k v)" using that(1) by simp
    then have "wf_map ?xs" unfolding wf_map_def mkeys_def by (rule distinct_map_filter)
    moreover have "(k, v) \<in> set ?xs" using that by (simp add: set_mput)
    ultimately have "mget ?xs k = Some v" by (rule mem_mget)
    then show ?thesis by (simp add: mget_def map_add_def)
  qed
  then show ?thesis by (auto simp: merge_patch_law_def sample_server_def patch_annotations_def)
qed

text \<open>An annotation that has succeeded was decided on the pod's UID: at the time of the attempt that succeeded the cache held a pod of that
  name and UID, and the patch was that pod with the one annotation. When the first read finds another UID, nothing is
  patched and the call fails.\<close>

theorem annotate_checks_uid:
  assumes "conflict_retry later (RetryOnConflict srv)"
  shows "(client_AnnotatePod srv ns podname uid k v w = (w', None) \<longrightarrow>
      (\<exists>w1 pod. StoreGetByKey srv (ns @ ''/'' @ podname) w1 = Inr (Some pod) \<and> PodUID pod = uid \<and>
         PatchPod srv (pod\<lparr>PodAnnotations := mput (PodAnnotations pod) k v\<rparr>) pod w1 = (w', None))) \<and>
    (StoreGetByKey srv (ns @ ''/'' @ podname) w = Inr (Some pod) \<and> PodUID pod \<noteq> uid \<longrightarrow>
      client_AnnotatePod srv ns podname uid k v w = (w, Some (ClientUIDMismatch (PodUID pod) uid)))"
proof (rule conjI)
  let ?fn = "annotate_attempt srv ns podname uid k v"
  show "client_AnnotatePod srv ns podname uid k v w = (w', None) \<longrightarrow>
      (\<exists>w1 pod. StoreGetByKey srv (ns @ ''/'' @ podname) w1 = Inr (Some pod) \<and> PodUID pod = uid \<and>
         PatchPod srv (pod\<lparr>PodAnnotations := mput (PodAnnotations pod) k v\<rparr>) pod w1 = (w', None))"
    using conflict_retry.retry_result [OF assms, of ?fn w]
    by (fastforce simp: client_AnnotatePod_def annotate_attempt_def client_GetPod_def split: sum.splits option.splits if_splits)
  show "StoreGetByKey srv (ns @ ''/'' @ podname) w = Inr (Some pod) \<and> PodUID pod \<noteq> uid \<longrightarrow>
      client_AnnotatePod srv ns podname uid k v w = (w, Some (ClientUIDMismatch (PodUID pod) uid))"
    using conflict_retry.no_retry [OF assms, of ?fn w]
    by (auto simp: client_AnnotatePod_def annotate_attempt_def client_GetPod_def)
qed

abbreviation old_pod :: pod where "old_pod \<equiv> sample_pod_of ''a'' ''u1'' [] []"
abbreviation new_pod :: pod where "new_pod \<equiv> sample_pod_of ''a'' ''u2'' [] []"

theorem annotate_checks_uid_witness:
  "client_AnnotatePod sample_server ''default'' ''a'' ''u1'' ResourceNameIPAddress ''10.0.0.5/19'' ([(''default/a'', new_pod)], [(''default/a'', new_pod)]) =
     (([(''default/a'', new_pod)], [(''default/a'', new_pod)]), Some (ClientUIDMismatch ''u2'' ''u1''))"
  using annotate_checks_uid [OF sample_retry.conflict_retry_axioms, of "''default''" "''a''" "''u1''" ResourceNameIPAddress "''10.0.0.5/19''"
      "([(''default/a'', new_pod)], [(''default/a'', new_pod)])" _ new_pod]
  by (simp add: sample_server_def sample_pod_of_def mget_Cons)

text \<open>The UID is checked against the cache, and the patch carries neither the UID nor a version. While the cache still holds a deleted
  pod, the annotation that was meant for it succeeds and is written to the pod that was created under the same name.\<close>

theorem stale_cache_annotates_new_pod:
  assumes "conflict_retry later (RetryOnConflict srv)" "merge_patch_law srv cluster"
    and "StoreGetByKey srv (pod_key old) w = Inr (Some old)" "wf_map (PodAnnotations old)" "mget (PodAnnotations old) k = None"
    and "cluster w (pod_key old) = Some new" "PodUID new \<noteq> PodUID old"
  shows "\<exists>w' new'. client_AnnotatePod srv (PodNamespace old) (PodName old) (PodUID old) k v w = (w', None) \<and>
    cluster w' (pod_key old) = Some new' \<and> PodUID new' = PodUID new \<and> mget (PodAnnotations new') k = Some v"
proof -
  let ?fn = "annotate_attempt srv (PodNamespace old) (PodName old) (PodUID old) k v"
  let ?p = "old\<lparr>PodAnnotations := mput (PodAnnotations old) k v\<rparr>"
  have key: "pod_key ?p = pod_key old" by (simp add: pod_key_def)
  have fn: "?fn w = PatchPod srv ?p old w" using assms(3) by (simp add: annotate_attempt_def client_GetPod_def pod_key_def)
  obtain w' new' where p: "PatchPod srv ?p old w = (w', None)" "cluster w' (pod_key old) = Some new'" "PodUID new' = PodUID new"
    "mget (PodAnnotations new') k = Some v"
    using assms(2) [unfolded merge_patch_law_def, rule_format, of w ?p new old k v] assms(4-6) key by auto
  have "client_AnnotatePod srv (PodNamespace old) (PodName old) (PodUID old) k v w = (w', None)"
    using conflict_retry.no_retry [OF assms(1), of ?fn w] p(1) fn by (simp add: client_AnnotatePod_def)
  then show ?thesis using p by blast
qed

theorem stale_cache_annotates_new_pod_witness:
  "\<exists>w' new'. client_AnnotatePod sample_server ''default'' ''a'' ''u1'' ResourceNameIPAddress ''10.0.0.5/19'' ([(''default/a'', old_pod)], [(''default/a'', new_pod)]) = (w', None) \<and>
     mget (snd w') ''default/a'' = Some new' \<and> PodUID new' = ''u2'' \<and> mget (PodAnnotations new') ResourceNameIPAddress = Some ''10.0.0.5/19''"
proof -
  have k: "pod_key old_pod = ''default/a''" by (simp add: pod_key_def sample_pod_of_def)
  show ?thesis
    using stale_cache_annotates_new_pod [OF sample_retry.conflict_retry_axioms sample_merge_patch, of old_pod "([(''default/a'', old_pod)], [(''default/a'', new_pod)])"
        ResourceNameIPAddress new_pod "''10.0.0.5/19''", unfolded k]
    by (simp add: sample_server_def sample_pod_of_def mget_Cons)
qed

section \<open>The capacity of a node\<close>

text \<open>An advertisement that has succeeded found the capacity on the node, or has patched the node with the
  capacity it read and the one value changed. A node that never shows a capacity map ends in an error, not in a panic.\<close>

theorem advertise_outcome:
  assumes "conflict_retry later (RetryOnConflict srv)"
  shows "(client_AdvertiseCapacityIfNotSet srv node res n w = (w', None) \<longrightarrow>
      (\<exists>w1 cap. ReadCapacity srv node w1 = Inr (Some cap) \<and>
         (if mget cap res = Some n \<and> n \<noteq> 0 then w' = w1 else PatchCapacity srv node (mput cap res n) cap w1 = (w', None)))) \<and>
    ((\<forall>w. ReadCapacity srv node w = Inr None) \<longrightarrow> snd (client_AdvertiseCapacityIfNotSet srv node res n w) = Some ClientConflict)"
proof (rule conjI)
  let ?fn = "advertise_attempt srv node res n"
  show "client_AdvertiseCapacityIfNotSet srv node res n w = (w', None) \<longrightarrow>
      (\<exists>w1 cap. ReadCapacity srv node w1 = Inr (Some cap) \<and>
         (if mget cap res = Some n \<and> n \<noteq> 0 then w' = w1 else PatchCapacity srv node (mput cap res n) cap w1 = (w', None)))"
    using conflict_retry.retry_result [OF assms, of ?fn w]
    by (fastforce simp: client_AdvertiseCapacityIfNotSet_def advertise_attempt_def mgetd_def Let_def split: sum.splits option.splits if_splits)
  show "(\<forall>w. ReadCapacity srv node w = Inr None) \<longrightarrow> snd (client_AdvertiseCapacityIfNotSet srv node res n w) = Some ClientConflict"
    using conflict_retry.always_conflict [OF assms, of ?fn w]
    by (simp add: client_AdvertiseCapacityIfNotSet_def advertise_attempt_def)
qed

theorem advertise_outcome_witness:
  "snd (client_AdvertiseCapacityIfNotSet (sample_server\<lparr>ReadCapacity := (\<lambda>n w. Inr None)\<rparr>) ''node-1'' ResourceNamePodENI 9 ([], [])) = Some ClientConflict"
  using advertise_outcome [of "\<lambda>w w'. True" "sample_server\<lparr>ReadCapacity := (\<lambda>n w. Inr None)\<rparr>" "''node-1''" ResourceNamePodENI 9 "([], [])"]
    sample_retry.conflict_retry_axioms by simp

section \<open>A new CNINode object\<close>

text \<open>The object the wrapper creates for a node is in the state the CNINode controller wants: the controller's first event of it patches
  nothing and ends without an error.\<close>

theorem new_cninode_settled:
  assumes "finalizer_laws lib" "GetNodeID (KProviderID node) = Inr nodeID"
    and "GetCNINodeObject api req = Inr (new_cninode node cluster nodeID)" "GetNodeObject api req = Inr (k8s_node.truncate node)"
  shows "CNINodeReconcile lib api polls tries cluster req permits = (permits, [], no_requeue, None)"
proof -
  let ?c = "new_cninode node cluster nodeID" and ?n = "k8s_node.truncate node"
  obtain c1 patch err where e: "ensureTagsAndLabels cluster ?c ?n = (c1, patch, err)" by (rule prod_cases3)
  obtain fs added where f: "AddFinalizer lib (CnFinalizers c1) NodeTerminationFinalizer = (fs, added)" by fastforce
  have id: "node_id ?n = nodeID" using assms(2) by (simp add: node_id_def k8s_node.truncate_def)
  have "in_order cluster ?n ?c" unfolding in_order_def id
    by (simp add: tag_def label_def new_cninode_def mgetd_def mget_Cons tag_keys [symmetric] k8s_node.truncate_def)
  then have "\<not> patch" using ensure_result(2) [OF e] by simp
  moreover have "NodeTerminationFinalizer \<in> set (CnFinalizers c1)" using ensure_result(3) [OF e] by (simp add: new_cninode_def)
  then have "\<not> added" using assms(1) f unfolding finalizer_laws_def by (metis snd_conv)
  moreover have "err = None" using e assms(2) by (auto simp: ensureTagsAndLabels_def Let_def k8s_node.truncate_def split: sum.splits)
  ultimately show ?thesis using assms(3,4) e f
    by (simp add: CNINodeReconcile_def reconcile_live_def new_cninode_def)
qed

definition sample_node_object :: k8s_node_object where
  "sample_node_object = \<lparr>KNodeName = ''node-1'', KProviderID = ''aws:///zone/i-12345678'', KNodeLabels = [(NodeLabelOS, OSLinux)],
     KAPIVersion = ''v1'', KKind = ''Node'', KUID = ''n1''\<rparr>"

theorem new_cninode_settled_witness:
  "CNINodeReconcile sample_finalizers
     \<lparr>GetCNINodeObject = (\<lambda>_. Inr (new_cninode sample_node_object ''c'' ''i-12345678'')), GetNodeObject = (\<lambda>_. Inr (k8s_node.truncate sample_node_object)),
      PatchObject = (\<lambda>_ _. None), PollGone = (\<lambda>_ _. True), CreateObject = (\<lambda>_ _. None), EventNodeExists = True\<rparr> 6 4 ''c'' ''node-1'' 1 =
   (1, [], no_requeue, None)"
proof (rule new_cninode_settled [OF sample_finalizer_laws])
  show "GetNodeID (KProviderID sample_node_object) = Inr ''i-12345678''" by code_simp
qed simp_all

end
