(* ===== verification/Ec2_Wrapper.thy ===== *)
theory Ec2_Wrapper
  imports Prelude GoStrings
begin

text \<open>
  \<open>pkg/aws/ec2/api/wrapper.go\<close>, with \<open>pkg/utils/httpClient.go\<close> and the ARN helper of \<open>pkg/utils/helper.go\<close>: the two clients of the EC2 API, which
  call goes through which client, and the counters that are exported. The SDK is an argument of every call: a function of the client
  and the input. The latencies are left out. The counters are a map from the name of the variable to its value.
\<close>

section \<open>The clients\<close>

text \<open>A client without a limit, or a rate and a burst.\<close>

datatype http_client = NewAWSSDKHTTPClient | RateLimited int int

datatype wrapper_error = BurstExpected int | IncorrectARN string | ARNParseError string | ConfigError string | EndpointError string

definition NewRateLimitedClient :: "int \<Rightarrow> int \<Rightarrow> wrapper_error + http_client" where
  "NewRateLimitedClient qps burst =
     (if qps = 0 then Inr NewAWSSDKHTTPClient
      else if burst < 1 then Inl (BurstExpected burst)
      else Inr (RateLimited qps burst))"

text \<open>A request through a limited client: it waits for the limiter first, and only then gets its time limit, in seconds. The transport and the limiter are
  arguments; a request carries the context it came with.\<close>

definition defaultAWSSDKClientTimeout :: int where "defaultAWSSDKClientTimeout = 30"

definition RoundTrip :: "('c \<Rightarrow> string option) \<Rightarrow> ('c \<times> int \<Rightarrow> string + 'r) \<Rightarrow> 'c \<Rightarrow> string + 'r" where
  "RoundTrip Wait rt ctx =
     (case Wait ctx of
        Some err \<Rightarrow> Inl err
      | None \<Rightarrow> rt (ctx, defaultAWSSDKClientTimeout))"

record arn =
  Partition :: string
  AccountID :: string

text \<open>The ARN functions of the SDK are arguments. The results are the account, the partition and the ARN of the cluster.\<close>

definition GetSourceAcctAndArn ::
  "(string \<Rightarrow> bool) \<Rightarrow> (string \<Rightarrow> string + arn) \<Rightarrow> string \<Rightarrow> string \<Rightarrow> string \<Rightarrow> wrapper_error + string \<times> string \<times> string" where
  "GetSourceAcctAndArn IsARN Parse roleARN region clusterName =
     (if \<not> IsARN roleARN then Inl (IncorrectARN roleARN)
      else if region = '''' then Inr ('''', '''', '''')
      else
        (case Parse roleARN of
           Inl err \<Rightarrow> Inl (ARNParseError err)
         | Inr parsedArn \<Rightarrow>
             Inr (AccountID parsedArn, Partition parsedArn,
                  ''arn:'' @ Partition parsedArn @ '':eks:'' @ region @ '':'' @ AccountID parsedArn @ '':cluster/'' @ clusterName)))"

text \<open>The headers of the STS client: the ARN and the account of the cluster, or none.\<close>

definition createSTSClient :: "string \<Rightarrow> string \<Rightarrow> (string \<times> string) list" where
  "createSTSClient sourceAcct sourceArn =
     (if sourceAcct \<noteq> '''' \<and> sourceArn \<noteq> '''' then [(''x-amz-source-arn'', sourceArn), (''x-amz-source-account'', sourceAcct)] else [])"

text \<open>What the environment answers while the clients are built: the region and the account of the instance, the ARN functions and
  the STS end point.\<close>

record wrapper_env =
  InstanceConfig :: "string + string \<times> string"
  LoadConfig :: "string option"
  EnvIsARN :: "string \<Rightarrow> bool"
  EnvParseARN :: "string \<Rightarrow> string + arn"
  StsEndpoint :: "string \<Rightarrow> string + string"

text \<open>How \<open>InstanceConfig\<close> and \<open>StsEndpoint\<close> are made from the answers of the SDK and of the metadata service; the URI of an end point is its text.\<close>

definition getInstanceConfig :: "string option \<Rightarrow> string + string \<Rightarrow> string + string \<Rightarrow> string + string \<times> string" where
  "getInstanceConfig LoadDefaultConfig GetRegion GetInstanceIdentityDocument =
     (case LoadDefaultConfig of
        Some err \<Rightarrow> Inl (''failed to load AWS config: '' @ err)
      | None \<Rightarrow>
         (case GetRegion of
            Inl err \<Rightarrow> Inl (''failed to find the region from ec2 metadata: '' @ err)
          | Inr region \<Rightarrow>
             (case GetInstanceIdentityDocument of
                Inl err \<Rightarrow> Inl (''failed to get the instance identity document '' @ err)
              | Inr account \<Rightarrow> Inr (region, account))))"

definition getRegionalStsEndpoint :: "(string \<Rightarrow> string + string) \<Rightarrow> string \<Rightarrow> string + string" where
  "getRegionalStsEndpoint ResolveEndpoint region =
     (case ResolveEndpoint region of Inl err \<Rightarrow> Inl err | Inr uri \<Rightarrow> Inr uri)"

datatype ec2_credentials = InstanceRole | AssumedRole string "(string \<times> string) list"

record ec2_client =
  HTTPClient :: http_client
  Credentials :: ec2_credentials

record ec2_wrapper =
  instanceServiceClient :: ec2_client
  userServiceClient :: ec2_client
  accountID :: string

definition getInstanceServiceClient :: "int \<Rightarrow> int \<Rightarrow> wrapper_error + ec2_client" where
  "getInstanceServiceClient qps burst =
     (case NewRateLimitedClient qps burst of
        Inl err \<Rightarrow> Inl err
      | Inr instanceClient \<Rightarrow> Inr \<lparr>HTTPClient = instanceClient, Credentials = InstanceRole\<rparr>)"

text \<open>\<open>strings.Trim\<close> of the quotes.\<close>

definition trim_quotes :: "string \<Rightarrow> string" where
  "trim_quotes s = rev (dropWhile (\<lambda>c. c = CHR 0x22) (rev (dropWhile (\<lambda>c. c = CHR 0x22) s)))"

definition getClientUsingAssumedRole :: "wrapper_env \<Rightarrow> string \<Rightarrow> string \<Rightarrow> string \<Rightarrow> int \<Rightarrow> int \<Rightarrow> wrapper_error + ec2_client" where
  "getClientUsingAssumedRole env roleARN0 clusterName region qps burst =
     (case LoadConfig env of
        Some err \<Rightarrow> Inl (ConfigError err)
      | None \<Rightarrow>
         (case NewRateLimitedClient qps burst of
            Inl err \<Rightarrow> Inl err
          | Inr client \<Rightarrow>
             (let roleARN = trim_quotes roleARN0 in
              case GetSourceAcctAndArn (EnvIsARN env) (EnvParseARN env) roleARN region clusterName of
                Inl err \<Rightarrow> Inl err
              | Inr (sourceAcct, partitionID, sourceArn) \<Rightarrow>
                 (case StsEndpoint env region of
                    Inl err \<Rightarrow> Inl (EndpointError err)
                  | Inr endpoint \<Rightarrow>
                      Inr \<lparr>HTTPClient = client, Credentials = AssumedRole roleARN (createSTSClient sourceAcct sourceArn)\<rparr>))))"

definition NewEC2Wrapper ::
  "wrapper_env \<Rightarrow> string \<Rightarrow> string \<Rightarrow> string \<Rightarrow> int \<Rightarrow> int \<Rightarrow> int \<Rightarrow> int \<Rightarrow> wrapper_error + ec2_wrapper" where
  "NewEC2Wrapper env roleARN clusterName region instanceClientQPS instanceClientBurst userClientQPS userClientBurst =
     (case InstanceConfig env of
        Inl err \<Rightarrow> Inl (ConfigError err)
      | Inr (cfgRegion, account) \<Rightarrow>
          if roleARN \<noteq> '''' then
            (case getInstanceServiceClient instanceClientQPS instanceClientBurst of
               Inl err \<Rightarrow> Inl err
             | Inr instanceClient \<Rightarrow>
                (case getClientUsingAssumedRole env roleARN clusterName region userClientQPS userClientBurst of
                   Inl err \<Rightarrow> Inl err
                 | Inr userClient \<Rightarrow>
                     Inr \<lparr>instanceServiceClient = instanceClient, userServiceClient = userClient, accountID = account\<rparr>))
          else
            (case getInstanceServiceClient userClientQPS userClientBurst of
               Inl err \<Rightarrow> Inl err
             | Inr c \<Rightarrow> Inr \<lparr>instanceServiceClient = c, userServiceClient = c, accountID = account\<rparr>))"

section \<open>The calls\<close>

type_synonym ec2_metrics = "(string, int) gomap"

definition add_metric :: "string \<Rightarrow> int \<Rightarrow> ec2_metrics \<Rightarrow> ec2_metrics" where
  "add_metric c n m = mput m c (mgetd 0 m c + n)"

definition Inc :: "string \<Rightarrow> ec2_metrics \<Rightarrow> ec2_metrics" where
  "Inc c m = add_metric c 1 m"

text \<open>The updates every call makes: the call is counted, in all and for its kind; the amount it asked for; then the error.\<close>

definition count_call :: "string \<Rightarrow> string \<Rightarrow> (ec2_metrics \<Rightarrow> ec2_metrics) \<Rightarrow> 'e + 'o \<Rightarrow> ec2_metrics \<Rightarrow> ('e + 'o) \<times> ec2_metrics" where
  "count_call callCnt errCnt amount answer m =
     (let m1 = amount (Inc callCnt (Inc ''ec2APICallCnt'' m)) in
      (answer, case answer of Inl err \<Rightarrow> Inc errCnt (Inc ''ec2APIErrCnt'' m1) | Inr output \<Rightarrow> m1))"

definition wDescribeInstances :: "(ec2_client \<Rightarrow> 'i \<Rightarrow> 'e + 'o) \<Rightarrow> ec2_wrapper \<Rightarrow> 'i \<Rightarrow> ec2_metrics \<Rightarrow> ('e + 'o) \<times> ec2_metrics" where
  "wDescribeInstances send e input m =
     count_call ''ec2DescribeInstancesAPICnt'' ''ec2DescribeInstancesAPIErrCnt'' id (send (userServiceClient e) input) m"

text \<open>The inputs of which the wrapper reads a field: the number of addresses or prefixes that are asked for, the addresses or
  prefixes that are given back, the page size and the account.\<close>

record create_input =
  CreateSecondaryCount :: "int option"

record assign_input =
  SecondaryPrivateIpAddressCount :: "int option"
  Ipv4PrefixCount :: "int option"

record unassign_input =
  PrivateIpAddresses :: "string list"
  Ipv4Prefixes :: "string list"

record pages_input =
  MaxResults :: "int option"

record permission_input =
  AwsAccountId :: "string option"

definition wCreateNetworkInterface ::
  "(ec2_client \<Rightarrow> 'i create_input_scheme \<Rightarrow> 'e + 'o) \<Rightarrow> ec2_wrapper \<Rightarrow> 'i create_input_scheme \<Rightarrow> ec2_metrics \<Rightarrow> ('e + 'o) \<times> ec2_metrics" where
  "wCreateNetworkInterface send e input m =
     count_call ''ec2CreateNetworkInterfaceAPICallCnt'' ''ec2CreateNetworkInterfaceAPIErrCnt''
       (\<lambda>m1. case CreateSecondaryCount input of None \<Rightarrow> m1 | Some n \<Rightarrow> add_metric ''numAssignedSecondaryIPAddress'' n m1)
       (send (userServiceClient e) input) m"

definition wAttachNetworkInterface :: "(ec2_client \<Rightarrow> 'i \<Rightarrow> 'e + 'o) \<Rightarrow> ec2_wrapper \<Rightarrow> 'i \<Rightarrow> ec2_metrics \<Rightarrow> ('e + 'o) \<times> ec2_metrics" where
  "wAttachNetworkInterface send e input m =
     count_call ''ec2AttachNetworkInterfaceAPICallCnt'' ''ec2AttachNetworkInterfaceAPIErrCnt'' id (send (userServiceClient e) input) m"

definition wDeleteNetworkInterface :: "(ec2_client \<Rightarrow> 'i \<Rightarrow> 'e + 'o) \<Rightarrow> ec2_wrapper \<Rightarrow> 'i \<Rightarrow> ec2_metrics \<Rightarrow> ('e + 'o) \<times> ec2_metrics" where
  "wDeleteNetworkInterface send e input m =
     count_call ''ec2DeleteNetworkInterfaceAPICallCnt'' ''ec2DeleteNetworkInterfaceAPIErrCnt'' id (send (userServiceClient e) input) m"

definition wDetachNetworkInterface :: "(ec2_client \<Rightarrow> 'i \<Rightarrow> 'e + 'o) \<Rightarrow> ec2_wrapper \<Rightarrow> 'i \<Rightarrow> ec2_metrics \<Rightarrow> ('e + 'o) \<times> ec2_metrics" where
  "wDetachNetworkInterface send e input m =
     count_call ''ec2DetachNetworkInterfaceAPICallCnt'' ''ec2DetachNetworkInterfaceAPIErrCnt'' id (send (userServiceClient e) input) m"

definition wDescribeNetworkInterfaces :: "(ec2_client \<Rightarrow> 'i \<Rightarrow> 'e + 'o) \<Rightarrow> ec2_wrapper \<Rightarrow> 'i \<Rightarrow> ec2_metrics \<Rightarrow> ('e + 'o) \<times> ec2_metrics" where
  "wDescribeNetworkInterfaces send e input m =
     count_call ''ec2DescribeNetworkInterfaceAPICallCnt'' ''ec2DescribeNetworkInterfaceAPIErrCnt'' id (send (userServiceClient e) input) m"

text \<open>The pages: \<open>keep\<close> is the part of an interface that is kept (id, tags, attachment). The answers of the paginator until it has no more
  pages are a list. A page that fails is counted as an error only.\<close>

definition DescribeNetworkInterfacesMaxResults :: int where "DescribeNetworkInterfacesMaxResults = 1000"

fun pages_loop :: "('n \<Rightarrow> 'k) \<Rightarrow> ('e + 'n list) list \<Rightarrow> 'k list \<Rightarrow> ec2_metrics \<Rightarrow> ('e + 'k list) \<times> ec2_metrics" where
  "pages_loop keep [] nwInterfaces m = (Inr nwInterfaces, m)"
| "pages_loop keep (Inl err # pages) nwInterfaces m =
     (Inl err, Inc ''ec2DescribeNetworkInterfacesPagesAPIErrCnt'' (Inc ''ec2APIErrCnt'' m))"
| "pages_loop keep (Inr output # pages) nwInterfaces m =
     pages_loop keep pages (nwInterfaces @ map keep output)
       (Inc ''ec2DescribeNetworkInterfacesPagesAPICallCnt'' (Inc ''ec2APICallCnt'' m))"

definition wDescribeNetworkInterfacesPages ::
  "('n \<Rightarrow> 'k) \<Rightarrow> (ec2_client \<Rightarrow> 'i pages_input_scheme \<Rightarrow> ('e + 'n list) list) \<Rightarrow> ec2_wrapper \<Rightarrow> 'i pages_input_scheme \<Rightarrow> ec2_metrics \<Rightarrow>
   ('e + 'k list) \<times> ec2_metrics" where
  "wDescribeNetworkInterfacesPages keep pages e input m =
     (let input1 = (if MaxResults input = None then input\<lparr>MaxResults := Some DescribeNetworkInterfacesMaxResults\<rparr> else input)
      in pages_loop keep (pages (userServiceClient e) input1) [] m)"

definition wAssignPrivateIPAddresses ::
  "(ec2_client \<Rightarrow> 'i assign_input_scheme \<Rightarrow> 'e + 'o) \<Rightarrow> ec2_wrapper \<Rightarrow> 'i assign_input_scheme \<Rightarrow> ec2_metrics \<Rightarrow> ('e + 'o) \<times> ec2_metrics" where
  "wAssignPrivateIPAddresses send e input m =
     count_call ''ec2AssignPrivateIPAddressAPICallCnt'' ''ec2AssignPrivateIPAddressAPIErrCnt''
       (\<lambda>m1. case (SecondaryPrivateIpAddressCount input, Ipv4PrefixCount input) of
          (Some n, p) \<Rightarrow>
            if n \<noteq> 0 then add_metric ''numAssignedSecondaryIPAddress'' n m1
            else (case p of Some k \<Rightarrow> if k \<noteq> 0 then add_metric ''numAssignedIPv4Prefixes'' k m1 else m1 | None \<Rightarrow> m1)
        | (None, Some k) \<Rightarrow> if k \<noteq> 0 then add_metric ''numAssignedIPv4Prefixes'' k m1 else m1
        | (None, None) \<Rightarrow> m1)
       (send (userServiceClient e) input) m"

definition wUnassignPrivateIPAddresses ::
  "(ec2_client \<Rightarrow> 'i unassign_input_scheme \<Rightarrow> 'e + 'o) \<Rightarrow> ec2_wrapper \<Rightarrow> 'i unassign_input_scheme \<Rightarrow> ec2_metrics \<Rightarrow> ('e + 'o) \<times> ec2_metrics" where
  "wUnassignPrivateIPAddresses send e input m =
     count_call ''ec2UnassignPrivateIPAddressAPICallCnt'' ''ec2UnassignPrivateIPAddressAPIErrCnt''
       (\<lambda>m1. if PrivateIpAddresses input \<noteq> [] then add_metric ''numUnassignedSecondaryIPAddress'' (int (length (PrivateIpAddresses input))) m1
             else if Ipv4Prefixes input \<noteq> [] then add_metric ''numUnassignedIPv4Prefixes'' (int (length (Ipv4Prefixes input))) m1
             else m1)
       (send (userServiceClient e) input) m"

definition wCreateTags :: "(ec2_client \<Rightarrow> 'i \<Rightarrow> 'e + 'o) \<Rightarrow> ec2_wrapper \<Rightarrow> 'i \<Rightarrow> ec2_metrics \<Rightarrow> ('e + 'o) \<times> ec2_metrics" where
  "wCreateTags send e input m =
     count_call ''ec2TagNetworkInterfaceAPICallCnt'' ''ec2TagNetworkInterfaceAPIErrCnt'' id (send (userServiceClient e) input) m"

definition wDescribeSubnets :: "(ec2_client \<Rightarrow> 'i \<Rightarrow> 'e + 'o) \<Rightarrow> ec2_wrapper \<Rightarrow> 'i \<Rightarrow> ec2_metrics \<Rightarrow> ('e + 'o) \<times> ec2_metrics" where
  "wDescribeSubnets send e input m =
     count_call ''ec2DescribeSubnetsAPICallCnt'' ''ec2DescribeSubnetsAPIErrCnt'' id (send (userServiceClient e) input) m"

definition wDescribeTrunkInterfaceAssociations ::
  "(ec2_client \<Rightarrow> 'i \<Rightarrow> 'e + 'o) \<Rightarrow> ec2_wrapper \<Rightarrow> 'i \<Rightarrow> ec2_metrics \<Rightarrow> ('e + 'o) \<times> ec2_metrics" where
  "wDescribeTrunkInterfaceAssociations send e input m =
     count_call ''ec2describeTrunkInterfaceAssociationAPICallCnt'' ''ec2describeTrunkInterfaceAssociationAPIErrCnt'' id
       (send (instanceServiceClient e) input) m"

definition wAssociateTrunkInterface :: "(ec2_client \<Rightarrow> 'i \<Rightarrow> 'e + 'o) \<Rightarrow> ec2_wrapper \<Rightarrow> 'i \<Rightarrow> ec2_metrics \<Rightarrow> ('e + 'o) \<times> ec2_metrics" where
  "wAssociateTrunkInterface send e input m =
     count_call ''ec2AssociateTrunkInterfaceAPICallCnt'' ''ec2AssociateTrunkInterfaceAPIErrCnt'' id (send (instanceServiceClient e) input) m"

definition wModifyNetworkInterfaceAttribute ::
  "(ec2_client \<Rightarrow> 'i \<Rightarrow> 'e + 'o) \<Rightarrow> ec2_wrapper \<Rightarrow> 'i \<Rightarrow> ec2_metrics \<Rightarrow> ('e + 'o) \<times> ec2_metrics" where
  "wModifyNetworkInterfaceAttribute send e input m =
     count_call ''ec2modifyNetworkInterfaceAttributeAPICallCnt'' ''ec2modifyNetworkInterfaceAttributeAPIErrCnt'' id
       (send (userServiceClient e) input) m"

definition wCreateNetworkInterfacePermission ::
  "(ec2_client \<Rightarrow> 'i permission_input_scheme \<Rightarrow> 'e + 'o) \<Rightarrow> ec2_wrapper \<Rightarrow> 'i permission_input_scheme \<Rightarrow> ec2_metrics \<Rightarrow> ('e + 'o) \<times> ec2_metrics" where
  "wCreateNetworkInterfacePermission send e input m =
     count_call ''ec2CreateNetworkInterfacePermissionCallCnt'' ''ec2CreateNetworkInterfacePermissionErrCnt'' id
       (send (userServiceClient e) (input\<lparr>AwsAccountId := Some (accountID e)\<rparr>)) m"

definition wDisassociateTrunkInterface :: "(ec2_client \<Rightarrow> 'i \<Rightarrow> 'e + 'o) \<Rightarrow> ec2_wrapper \<Rightarrow> 'i \<Rightarrow> ec2_metrics \<Rightarrow> 'e option \<times> ec2_metrics" where
  "wDisassociateTrunkInterface send e input m =
     (case count_call ''ec2DisassociateTrunkInterfaceCallCnt'' ''ec2DisassociateTrunkInterfaceErrCnt'' id (send (instanceServiceClient e) input) m of
        (Inl err, m') \<Rightarrow> (Some err, m')
      | (Inr output, m') \<Rightarrow> (None, m'))"

text \<open>The counters that are exported.\<close>

definition prometheusRegister :: "string list" where
  "prometheusRegister =
     [''ec2APICallCnt'', ''ec2APIErrCnt'', ''ec2DescribeInstancesAPICnt'', ''ec2DescribeInstancesAPIErrCnt'',
      ''ec2CreateNetworkInterfaceAPICallCnt'', ''ec2CreateNetworkInterfaceAPIErrCnt'', ''ec2TagNetworkInterfaceAPICallCnt'',
      ''ec2TagNetworkInterfaceAPIErrCnt'', ''ec2AttachNetworkInterfaceAPICallCnt'', ''ec2AttachNetworkInterfaceAPIErrCnt'',
      ''ec2DescribeNetworkInterfaceAPICallCnt'', ''ec2DescribeNetworkInterfaceAPIErrCnt'', ''numAssignedSecondaryIPAddress'',
      ''numAssignedIPv4Prefixes'', ''numUnassignedSecondaryIPAddress'', ''numUnassignedIPv4Prefixes'',
      ''ec2AssignPrivateIPAddressAPICallCnt'', ''ec2AssignPrivateIPAddressAPIErrCnt'', ''ec2DetachNetworkInterfaceAPICallCnt'',
      ''ec2DetachNetworkInterfaceAPIErrCnt'', ''ec2DeleteNetworkInterfaceAPICallCnt'', ''ec2DeleteNetworkInterfaceAPIErrCnt'',
      ''ec2DescribeSubnetsAPICallCnt'', ''ec2DescribeSubnetsAPIErrCnt'', ''ec2AssociateTrunkInterfaceAPICallCnt'',
      ''ec2AssociateTrunkInterfaceAPIErrCnt'', ''ec2describeTrunkInterfaceAssociationAPICallCnt'',
      ''ec2describeTrunkInterfaceAssociationAPIErrCnt'', ''ec2modifyNetworkInterfaceAttributeAPICallCnt'',
      ''ec2modifyNetworkInterfaceAttributeAPIErrCnt'', ''ec2APICallLatencies'', ''ec2DisassociateTrunkInterfaceCallCnt'',
      ''ec2DisassociateTrunkInterfaceErrCnt'', ''VpcRcAvailableClusterENICnt'', ''VpcCniAvailableClusterENICnt'',
      ''LeakedENIClusterCleanupCnt'', ''ec2DescribeNetworkInterfacesPagesAPICallCnt'',
      ''ec2DescribeNetworkInterfacesPagesAPIErrCnt'', ''NodeTerminationENICleanupFailure'']"

section \<open>Properties\<close>

abbreviation answered :: "'e + 'o \<Rightarrow> bool" where
  "answered x \<equiv> \<not> isl x"

lemma mgetd_Inc [simp]: "mgetd 0 (Inc c m) k = mgetd 0 m k + (if k = c then 1 else 0)"
  by (simp add: Inc_def add_metric_def)

lemma pages_loop_result:
  "fst (pages_loop keep ps acc m) =
     (if list_all answered ps then Inr (acc @ map keep (concat (map projr ps))) else Inl (projl (ps ! length (takeWhile answered ps))))"
  by (induction keep ps acc m rule: pages_loop.induct) auto

lemma pages_loop_counts:
  "mgetd 0 (snd (pages_loop keep ps acc m)) ''ec2APICallCnt'' = mgetd 0 m ''ec2APICallCnt'' + int (length (takeWhile answered ps))"
  "mgetd 0 (snd (pages_loop keep ps acc m)) ''ec2APIErrCnt'' = mgetd 0 m ''ec2APIErrCnt'' + (if list_all answered ps then 0 else 1)"
  by (induction keep ps acc m rule: pages_loop.induct) auto

text \<open>The paged description returns the interfaces of all pages in order, or the first error and no interface. It counts the
  pages before the error as calls and the failing page as an error only, so that the error counter can exceed the
  counter of the calls.\<close>

theorem describe_pages_outcome:
  defines "first_input input \<equiv> (if MaxResults input = None then input\<lparr>MaxResults := Some 1000\<rparr> else input)"
  shows "let ps = pages (userServiceClient e) (first_input input); (r, m') = wDescribeNetworkInterfacesPages keep pages e input m in
    r = (if list_all answered ps then Inr (map keep (concat (map projr ps))) else Inl (projl (ps ! length (takeWhile answered ps)))) \<and>
    mgetd 0 m' ''ec2APICallCnt'' = mgetd 0 m ''ec2APICallCnt'' + int (length (takeWhile answered ps)) \<and>
    mgetd 0 m' ''ec2APIErrCnt'' = mgetd 0 m ''ec2APIErrCnt'' + (if list_all answered ps then 0 else 1)"
proof -
  let ?ps = "pages (userServiceClient e) (first_input input)"
  have "wDescribeNetworkInterfacesPages keep pages e input m = pages_loop keep ?ps [] m"
    by (simp add: wDescribeNetworkInterfacesPages_def first_input_def DescribeNetworkInterfacesMaxResults_def)
  then show ?thesis
    using pages_loop_result [of keep ?ps "[]" m] pages_loop_counts [of keep ?ps "[]" m]
    by (cases "pages_loop keep ?ps [] m") (simp add: Let_def)
qed

text \<open>The clients of the wrapper. With a role the calls of the trunk associations go through the client of the instance, limited by its
  own rate, and all others through a client that assumes the role; without a role there is one client, limited
  by the rate of the user client. A client has no limit exactly when the rate it was given is zero.\<close>

theorem wrapper_clients:
  assumes "NewEC2Wrapper env roleARN clusterName region iq ib uq ub = Inr e"
  shows "(if roleARN = '''' then instanceServiceClient e = userServiceClient e \<and> Credentials (userServiceClient e) = InstanceRole
      else Credentials (instanceServiceClient e) = InstanceRole \<and>
        (\<exists>headers. Credentials (userServiceClient e) = AssumedRole (trim_quotes roleARN) headers) \<and>
        HTTPClient (instanceServiceClient e) = (if iq = 0 then NewAWSSDKHTTPClient else RateLimited iq ib)) \<and>
    HTTPClient (userServiceClient e) = (if uq = 0 then NewAWSSDKHTTPClient else RateLimited uq ub) \<and>
    (uq \<noteq> 0 \<longrightarrow> ub \<ge> 1)"
  using assms
  by (auto simp: NewEC2Wrapper_def getInstanceServiceClient_def getClientUsingAssumedRole_def NewRateLimitedClient_def Let_def
      split: sum.splits if_splits option.splits prod.splits)

definition sample_wrapper_env :: wrapper_env where
  "sample_wrapper_env = \<lparr>InstanceConfig = Inr (''us-west-2'', ''111122223333''), LoadConfig = None, EnvIsARN = (\<lambda>s. True),
     EnvParseARN = (\<lambda>s. Inr \<lparr>Partition = ''aws'', AccountID = ''444455556666''\<rparr>), StsEndpoint = (\<lambda>r. Inr ''https://sts'')\<rparr>"

theorem wrapper_clients_witness:
  "\<exists>e. NewEC2Wrapper sample_wrapper_env ''role'' ''c'' ''us-west-2'' 12 18 24 36 = Inr e \<and>
     HTTPClient (instanceServiceClient e) = RateLimited 12 18 \<and> HTTPClient (userServiceClient e) = RateLimited 24 36"
proof -
  have "answered (NewEC2Wrapper sample_wrapper_env ''role'' ''c'' ''us-west-2'' 12 18 24 36)" by code_simp
  then obtain e where e: "NewEC2Wrapper sample_wrapper_env ''role'' ''c'' ''us-west-2'' 12 18 24 36 = Inr e"
    by (cases "NewEC2Wrapper sample_wrapper_env ''role'' ''c'' ''us-west-2'' 12 18 24 36") auto
  then show ?thesis using wrapper_clients [OF e] by auto
qed

end
