(* ===== verification/Startup.thy ===== *)
theory Startup
  imports Ec2_Wrapper Pod_Controller Conditions
begin

text \<open>
  How the parts are put together: \<open>main.go\<close> after the flags are parsed, the health checks of \<open>pkg/healthz/healthz.go\<close>, the handlers of
  \<open>pkg/resource/introspect.go\<close> and the idle webhooks of \<open>webhooks/idle/webhooks.go\<close>. The calls that create the manager, the client set and
  the runnables belong to controller-runtime and client-go; their answers are the record \<open>setup_env\<close>. Logging, profiling and the
  HTTP servers are left out. A fatal error is the value it exits with.
\<close>

section \<open>Health checks\<close>

type_synonym 'c checkers_map = "(string, 'c) gomap"

definition AddControllerHealthChecker :: "string \<Rightarrow> 'c \<Rightarrow> 'c checkers_map \<Rightarrow> 'c checkers_map" where
  "AddControllerHealthChecker nm controllerCheck hh = (if mhas hh nm then hh else mput hh nm controllerCheck)"

definition AddControllersHealthCheckers :: "(string \<times> 'c) list \<Rightarrow> 'c checkers_map \<Rightarrow> 'c checkers_map" where
  "AddControllersHealthCheckers controllerCheckers hh =
     fold (\<lambda>(key, val). AddControllerHealthChecker key val) controllerCheckers hh"

datatype healthz_error = NoChecks | AddCheckError string

fun checkControllersHealthStatus :: "(string \<Rightarrow> string option) \<Rightarrow> (string \<times> 'c) list \<Rightarrow> healthz_error option" where
  "checkControllersHealthStatus AddHealthzCheck [] = None"
| "checkControllersHealthStatus AddHealthzCheck ((nm, check) # rest) =
     (case AddHealthzCheck nm of
        Some err \<Rightarrow> Some (AddCheckError err)
      | None \<Rightarrow> checkControllersHealthStatus AddHealthzCheck rest)"

definition AddControllersHealthStatusChecksToManager ::
  "(string \<Rightarrow> string option) \<Rightarrow> ('c checkers_map \<Rightarrow> (string \<times> 'c) list) \<Rightarrow> 'c checkers_map \<Rightarrow> healthz_error option" where
  "AddControllersHealthStatusChecksToManager AddHealthzCheck ord hh =
     (if length hh > 0 then checkControllersHealthStatus AddHealthzCheck (ord hh) else Some NoChecks)"

text \<open>The probe and the time it takes, in seconds, \<open>None\<close> when it never answers. When both channels are ready Go picks either, which is
  the argument \<open>pick_timeout\<close>.\<close>

datatype 'e ping_error = PingTimeout | PingFailed 'e

definition PingWithTimeout :: "int \<Rightarrow> bool \<Rightarrow> (int \<times> 'e option) option \<Rightarrow> 'e ping_error option" where
  "PingWithTimeout HealthzTimeout pick_timeout probe =
     (case probe of
        None \<Rightarrow> Some PingTimeout
      | Some (t, status) \<Rightarrow>
          if t > HealthzTimeout \<or> t = HealthzTimeout \<and> pick_timeout then Some PingTimeout
          else map_option PingFailed status)"

section \<open>Introspection\<close>

datatype http_response = HTTPOk string | HTTPInternalServerError string

definition write_json :: "('r \<Rightarrow> string + string) \<Rightarrow> 'r \<Rightarrow> http_response" where
  "write_json MarshalIndent response =
     (case MarshalIndent response of Inl err \<Rightarrow> HTTPInternalServerError err | Inr jsonData \<Rightarrow> HTTPOk jsonData)"

definition ResourceHandler ::
  "((string, 'd) gomap \<Rightarrow> string + string) \<Rightarrow> ('p \<Rightarrow> 'd) \<Rightarrow> (string, 'p) gomap \<Rightarrow> http_response" where
  "ResourceHandler MarshalIndent IntrospectAll providers =
     write_json MarshalIndent (fold (\<lambda>(resourceName, provider) response. mput response resourceName (IntrospectAll provider)) providers [])"

definition GetNodeResourcesPath :: string where "GetNodeResourcesPath = ''/node/''"

definition NodeResourceHandler ::
  "((string, 'd) gomap \<Rightarrow> string + string) \<Rightarrow> ('p \<Rightarrow> string \<Rightarrow> 'd option) \<Rightarrow> (string, 'p) gomap \<Rightarrow> string \<Rightarrow> http_response" where
  "NodeResourceHandler MarshalIndent IntrospectNode providers path =
     (let node = drop (length GetNodeResourcesPath) path in
      write_json MarshalIndent
        (fold (\<lambda>(resourceName, provider) response.
                 case IntrospectNode provider node of None \<Rightarrow> response | Some data \<Rightarrow> mput response resourceName data) providers []))"

definition ResourceSummaryHandler ::
  "((string, 'd) gomap \<Rightarrow> string + string) \<Rightarrow> ('p \<Rightarrow> 'd) \<Rightarrow> (string, 'p) gomap \<Rightarrow> http_response" where
  "ResourceSummaryHandler MarshalIndent IntrospectSummary providers =
     write_json MarshalIndent (fold (\<lambda>(resourceName, provider) response. mput response resourceName (IntrospectSummary provider)) providers [])"

section \<open>The program\<close>

record flags =
  clusterNameFlag :: string
  vpcIDFlag :: string
  regionFlag :: string
  roleARNFlag :: string
  disableController :: bool
  enableWindowsPrefixDelegation :: bool
  instanceClientQPS :: int
  instanceClientBurst :: int
  userClientQPS :: int
  userClientBurst :: int

record setup_env =
  NewManager :: "string option"
  NewClientSet :: "string option"
  WrapperEnv :: wrapper_env
  SetupRunnable :: "string \<Rightarrow> string option"
  AddCheck :: "string \<Rightarrow> string option"

datatype fatal =
    ClusterNameRequired
  | VpcIDRequired
  | ManagerFailed string
  | ClientSetFailed string
  | EC2WrapperFailed wrapper_error
  | ResourcesFailed resource_manager_error
  | SetupFailed string string
  | HealthFailed healthz_error

definition regionPlaceHolder :: string where "regionPlaceHolder = ''CLUSTER_REGION''"

definition supportedResources :: "bool \<Rightarrow> string list" where
  "supportedResources pd =
     (if pd then [ResourceNamePodENI, ResourceNameIPAddress, ResourceNameIPAddressFromPrefix]
      else [ResourceNamePodENI, ResourceNameIPAddress])"

text \<open>The runnables in the order in which they are set up, with the health checks each adds; the first that fails ends the program.\<close>

fun setup_loop :: "setup_env \<Rightarrow> (string \<times> string list) list \<Rightarrow> unit checkers_map \<Rightarrow> fatal + unit checkers_map" where
  "setup_loop env [] hh = Inr hh"
| "setup_loop env ((runnable, checks) # rest) hh =
     (let hh1 = AddControllersHealthCheckers (map (\<lambda>c. (c, ())) checks) hh in
      case SetupRunnable env runnable of
        Some err \<Rightarrow> Inl (SetupFailed runnable err)
      | None \<Rightarrow> setup_loop env rest hh1)"

definition controllers :: "(string \<times> string list) list" where
  "controllers =
     [(''node manager'', [''health-node-manager'']),
      (''pod'', [''health-pod-controller'', ''health-custom-pod-controller'']),
      (''Node'', [''health-node-controller'']),
      (''ConfigMap'', [''health-cm-controller'']),
      (''Deployment'', [''health-deploy-controller'']),
      (''introspect'', [''health-introspect-controller'']),
      (''CNINode'', [])]"

text \<open>The checks of the resource manager: its own and one for each provider.\<close>

definition provider_check :: "string \<Rightarrow> string" where
  "provider_check resourceName =
     (if resourceName = ResourceNameIPAddress then ''health-ipv4-provider''
      else if resourceName = ResourceNameIPAddressFromPrefix then ''health-ipv4-prefix-provider''
      else ''health-branch-provider'')"

definition webhook_checks :: "string list" where
  "webhook_checks = [''health-pod-mutating-webhook'', ''health-node-validating-webhook'', ''health-annotation-validating-webhook'']"

definition webhook_paths :: "string list" where
  "webhook_paths = [''/mutate-v1-pod'', ''/validate-v1-node'', ''/validate-v1-pod'']"

record program =
  sgp_enabled :: int
  resources :: resource_manager
  runnables :: "string list"
  webhooks :: "string list"
  cleanerDisabled :: bool
  ec2 :: ec2_wrapper

text \<open>Everything that is set up unless the controller is disabled.\<close>

definition setup_controllers :: "setup_env \<Rightarrow> flags \<Rightarrow> unit checkers_map \<Rightarrow> fatal + (resource_manager \<times> unit checkers_map)" where
  "setup_controllers env f hh =
     (case NewResourceManager (supportedResources (enableWindowsPrefixDelegation f)) of
        Inl err \<Rightarrow> Inl (ResourcesFailed err)
      | Inr rm \<Rightarrow>
         (let hh1 = AddControllersHealthCheckers
                (map (\<lambda>c. (c, ())) (''health-resource-manager'' # map provider_check (supportedResources (enableWindowsPrefixDelegation f)))) hh in
          case setup_loop env controllers hh1 of
            Inl e \<Rightarrow> Inl e
          | Inr hh2 \<Rightarrow> Inr (rm, AddControllersHealthCheckers (map (\<lambda>c. (c, ())) webhook_checks) hh2)))"

definition start_program ::
  "setup_env \<Rightarrow> (unit checkers_map \<Rightarrow> (string \<times> unit) list) \<Rightarrow> flags \<Rightarrow> fatal + program" where
  "start_program env ord f =
     (if clusterNameFlag f = '''' then Inl ClusterNameRequired
      else if vpcIDFlag f = '''' then Inl VpcIDRequired
      else
        (case NewManager env of
           Some err \<Rightarrow> Inl (ManagerFailed err)
         | None \<Rightarrow>
            (case NewClientSet env of
               Some err \<Rightarrow> Inl (ClientSetFailed err)
             | None \<Rightarrow>
                (let region = (if regionFlag f = regionPlaceHolder then '''' else regionFlag f);
                     hh0 = AddControllerHealthChecker ''health-root-manager-ping'' () [] in
                 case NewEC2Wrapper (WrapperEnv env) (roleARNFlag f) (clusterNameFlag f) region
                        (instanceClientQPS f) (instanceClientBurst f) (userClientQPS f) (userClientBurst f) of
                   Inl err \<Rightarrow> Inl (EC2WrapperFailed err)
                 | Inr w \<Rightarrow>
                    (case (if disableController f then Inr ([], hh0) else setup_controllers env f hh0) of
                       Inl e \<Rightarrow> Inl e
                     | Inr (rm, hh1) \<Rightarrow>
                        (case setup_loop env [(''eni cleaner'', [''health-interface-cleaner''])] hh1 of
                           Inl e \<Rightarrow> Inl e
                         | Inr hh2 \<Rightarrow>
                            (case AddControllersHealthStatusChecksToManager (AddCheck env) ord hh2 of
                               Some err \<Rightarrow> Inl (HealthFailed err)
                             | None \<Rightarrow>
                                 Inr \<lparr>sgp_enabled = (if disableController f then 0 else 1), resources = rm,
                                      runnables = (if disableController f then [] else map fst controllers) @ [''eni cleaner''],
                                      webhooks = (if disableController f then [] else webhook_paths),
                                      cleanerDisabled = disableController f, ec2 = w\<rparr>)))))))"

text \<open>The idle webhooks admit every request. The program never registers them.\<close>

datatype idle_response = Allowed string

definition idle_Handle :: "'q \<Rightarrow> idle_response" where
  "idle_Handle req = Allowed ''the controller is disabled''"

end
