(* ===== verification/Startup_Props.thy ===== *)
theory Startup_Props
  imports Startup Custom_Props
begin

text \<open>
  The start of the program: which flags and answers it needs, and that the parts it starts fit together: every resource name the pod
  controller decides on has a handler.
\<close>

lemma new_resource_manager:
  "\<exists>rm. NewResourceManager (supportedResources pd) = Inr rm \<and> mkeys rm = supportedResources pd"
proof -
  have "case NewResourceManager (supportedResources b) of Inl e \<Rightarrow> False | Inr rm \<Rightarrow> mkeys rm = supportedResources b" if "b \<in> {True, False}" for b
    using that by (elim insertE emptyE) (hypsubst, code_simp)+
  then have "case NewResourceManager (supportedResources pd) of Inl e \<Rightarrow> False | Inr rm \<Rightarrow> mkeys rm = supportedResources pd" by blast
  then show ?thesis by (cases "NewResourceManager (supportedResources pd)") auto
qed

lemma new_resource_manager_vpc: "NewResourceManager names = Inr rm \<Longrightarrow> vpc_manager rm"
  unfolding NewResourceManager_def by (erule new_resources_vpc) (simp add: vpc_manager_def mget_def)

lemma setup_loop_ok: "(\<forall>r. SetupRunnable env r = None) \<Longrightarrow> \<exists>hh'. setup_loop env rs hh = Inr hh'"
  by (induction env rs hh rule: setup_loop.induct) (auto simp: Let_def)

lemma checks_ok: "(\<forall>c. add c = None) \<Longrightarrow> checkControllersHealthStatus add cs = None"
  by (induction add cs rule: checkControllersHealthStatus.induct) simp_all

lemma add_checker_keeps: "mhas hh k \<Longrightarrow> mhas (AddControllersHealthCheckers cs hh) k"
proof (induction cs arbitrary: hh)
  case (Cons c cs)
  have "mhas (AddControllerHealthChecker (fst c) (snd c) hh) k"
    using Cons.prems by (simp add: AddControllerHealthChecker_def mhas_def)
  then show ?case using Cons.IH by (simp add: AddControllersHealthCheckers_def case_prod_unfold)
qed (simp add: AddControllersHealthCheckers_def)

lemma setup_loop_keeps: "setup_loop env rs hh = Inr hh' \<Longrightarrow> mhas hh k \<Longrightarrow> mhas hh' k"
  by (induction env rs hh rule: setup_loop.induct) (auto simp: Let_def add_checker_keeps split: option.splits)


text \<open>The program starts. With the two required flags, a valid burst, no role to assume and an environment whose calls succeed no fatal error is
  reached: the supported resources all have a configuration and a provider, and the health checks are never empty.\<close>

theorem program_starts:
  assumes "clusterNameFlag f \<noteq> ''''" "vpcIDFlag f \<noteq> ''''" "userClientBurst f \<ge> 1" "roleARNFlag f = ''''"
    and "NewManager env = None" "NewClientSet env = None" "InstanceConfig (WrapperEnv env) = Inr x"
    and "\<forall>r. SetupRunnable env r = None" "\<forall>c. AddCheck env c = None"
  shows "\<exists>p. start_program env ord f = Inr p \<and> (\<not> disableController f \<longrightarrow> webhooks p = webhook_paths \<and> ''pod'' \<in> set (runnables p))"
proof -
  let ?root = "''health-root-manager-ping''"
  define hh0 where "hh0 = AddControllerHealthChecker ?root () []"
  have root: "mhas hh0 ?root" by (simp add: hh0_def AddControllerHealthChecker_def mhas_def)
  have "\<exists>w. \<forall>region. NewEC2Wrapper (WrapperEnv env) (roleARNFlag f) (clusterNameFlag f) region (instanceClientQPS f) (instanceClientBurst f)
      (userClientQPS f) (userClientBurst f) = Inr w"
    using assms(3,4,7) by (cases x; cases "userClientQPS f = 0") (simp_all add: NewEC2Wrapper_def getInstanceServiceClient_def NewRateLimitedClient_def)
  then obtain w where w: "NewEC2Wrapper (WrapperEnv env) (roleARNFlag f) (clusterNameFlag f) region (instanceClientQPS f) (instanceClientBurst f)
      (userClientQPS f) (userClientBurst f) = Inr w" for region by blast
  obtain rm hh1 where c: "(if disableController f then Inr ([], hh0) else setup_controllers env f hh0) = Inr (rm, hh1)" "mhas hh1 ?root"
  proof (cases "disableController f")
    case True
    then show thesis using that [of "[]" hh0] root by simp
  next
    case False
    let ?names = "supportedResources (enableWindowsPrefixDelegation f)"
    let ?cs = "map (\<lambda>c. (c, ())) (''health-resource-manager'' # map provider_check ?names)"
    obtain hh2 where h2: "setup_loop env controllers (AddControllersHealthCheckers ?cs hh0) = Inr hh2"
      using setup_loop_ok [OF assms(8)] by blast
    then have "mhas hh2 ?root" using setup_loop_keeps add_checker_keeps [OF root] by blast
    then have k: "mhas (AddControllersHealthCheckers (map (\<lambda>c. (c, ())) webhook_checks) hh2) ?root" by (rule add_checker_keeps)
    obtain rm where rm: "NewResourceManager ?names = Inr rm" using new_resource_manager by blast
    show thesis using that [OF _ k] False rm h2 by (simp add: setup_controllers_def)
  qed
  obtain hh3 where h3: "setup_loop env [(''eni cleaner'', [''health-interface-cleaner''])] hh1 = Inr hh3"
    using setup_loop_ok [OF assms(8)] by blast
  then have "mhas hh3 ?root" using setup_loop_keeps c(2) by blast
  then have "length hh3 > 0" by (auto simp: mhas_def)
  then have "AddControllersHealthStatusChecksToManager (AddCheck env) ord hh3 = None"
    using checks_ok [OF assms(9)] by (simp add: AddControllersHealthStatusChecksToManager_def)
  then show ?thesis using assms(1,2,5,6) w c(1) h3 unfolding start_program_def
    by (simp add: hh0_def [symmetric] Let_def controllers_def)
qed

definition sample_env :: setup_env where
  "sample_env = \<lparr>NewManager = None, NewClientSet = None, WrapperEnv = sample_wrapper_env, SetupRunnable = (\<lambda>r. None), AddCheck = (\<lambda>c. None)\<rparr>"

definition sample_flags :: "bool \<Rightarrow> bool \<Rightarrow> flags" where
  "sample_flags disabled pd = \<lparr>clusterNameFlag = ''c'', vpcIDFlag = ''vpc-1'', regionFlag = ''CLUSTER_REGION'', roleARNFlag = '''', disableController = disabled,
     enableWindowsPrefixDelegation = pd, instanceClientQPS = 12, instanceClientBurst = 18, userClientQPS = 24, userClientBurst = 36\<rparr>"

theorem program_starts_witness:
  "\<exists>p. start_program sample_env id (sample_flags False True) = Inr p \<and> webhooks p = webhook_paths"
  using program_starts [of "sample_flags False True" sample_env _ id]
  by (auto simp: sample_flags_def sample_env_def sample_wrapper_env_def)


end
