(* ===== verification/Limits_Table.thy ===== *)
theory Limits_Table
  imports Objects
begin

text \<open>
  \<open>pkg/aws/vpc/limits.go\<close>: the table of the limits of the instance types, one definition per instance family in the order of the
  file. The components take the table as an argument; this theory is the table of the program. A row is written with its fields in the order
  of the source; the performance of a network card is never set there.
\<close>

definition card_of :: "int \<Rightarrow> int \<Rightarrow> network_card" where
  "card_of maximumNetworkInterfaces networkCardIndex =
     \<lparr>MaximumNetworkInterfaces = maximumNetworkInterfaces, NetworkCardIndex = networkCardIndex\<rparr>"

definition row :: "int \<Rightarrow> int \<Rightarrow> bool \<Rightarrow> int \<Rightarrow> int \<Rightarrow> network_card list \<Rightarrow> string \<Rightarrow> bool \<Rightarrow> vpc_limits" where
  "row interface ipv4PerInterface isTrunkingCompatible branchInterface defaultNetworkCardIndex networkCards hypervisor isBareMetal =
     \<lparr>Interface = interface, IPv4PerInterface = ipv4PerInterface, IsTrunkingCompatible = isTrunkingCompatible,
      BranchInterface = branchInterface, NetworkCards = networkCards, DefaultNetworkCardIndex = defaultNetworkCardIndex,
      Hypervisor = hypervisor, IsBareMetal = isBareMetal\<rparr>"

definition Limits_a1 :: "(string \<times> vpc_limits) list" where
  "Limits_a1 = [
     (''a1.2xlarge'', row 4 15 True 38 0 [card_of 4 0] ''nitro'' False),
     (''a1.4xlarge'', row 8 30 True 54 0 [card_of 8 0] ''nitro'' False),
     (''a1.large'', row 3 10 True 9 0 [card_of 3 0] ''nitro'' False),
     (''a1.medium'', row 2 4 True 10 0 [card_of 2 0] ''nitro'' False),
     (''a1.metal'', row 8 30 True 54 0 [card_of 8 0] '''' True),
     (''a1.xlarge'', row 4 15 True 18 0 [card_of 4 0] ''nitro'' False)]"

definition Limits_c1 :: "(string \<times> vpc_limits) list" where
  "Limits_c1 = [
     (''c1.medium'', row 2 6 False 0 0 [card_of 2 0] ''xen'' False),
     (''c1.xlarge'', row 4 15 False 0 0 [card_of 4 0] ''xen'' False)]"

definition Limits_c3 :: "(string \<times> vpc_limits) list" where
  "Limits_c3 = [
     (''c3.2xlarge'', row 4 15 False 0 0 [card_of 4 0] ''xen'' False),
     (''c3.4xlarge'', row 8 30 False 0 0 [card_of 8 0] ''xen'' False),
     (''c3.8xlarge'', row 8 30 False 0 0 [card_of 8 0] ''xen'' False),
     (''c3.large'', row 3 10 False 0 0 [card_of 3 0] ''xen'' False),
     (''c3.xlarge'', row 4 15 False 0 0 [card_of 4 0] ''xen'' False)]"

definition Limits_c4 :: "(string \<times> vpc_limits) list" where
  "Limits_c4 = [
     (''c4.2xlarge'', row 4 15 False 0 0 [card_of 4 0] ''xen'' False),
     (''c4.4xlarge'', row 8 30 False 0 0 [card_of 8 0] ''xen'' False),
     (''c4.8xlarge'', row 8 30 False 0 0 [card_of 8 0] ''xen'' False),
     (''c4.large'', row 3 10 False 0 0 [card_of 3 0] ''xen'' False),
     (''c4.xlarge'', row 4 15 False 0 0 [card_of 4 0] ''xen'' False)]"

definition Limits_c5 :: "(string \<times> vpc_limits) list" where
  "Limits_c5 = [
     (''c5.12xlarge'', row 8 30 True 54 0 [card_of 8 0] ''nitro'' False),
     (''c5.18xlarge'', row 15 50 True 107 0 [card_of 15 0] ''nitro'' False),
     (''c5.24xlarge'', row 15 50 True 107 0 [card_of 15 0] ''nitro'' False),
     (''c5.2xlarge'', row 4 15 True 38 0 [card_of 4 0] ''nitro'' False),
     (''c5.4xlarge'', row 8 30 True 54 0 [card_of 8 0] ''nitro'' False),
     (''c5.9xlarge'', row 8 30 True 54 0 [card_of 8 0] ''nitro'' False),
     (''c5.large'', row 3 10 True 9 0 [card_of 3 0] ''nitro'' False),
     (''c5.metal'', row 15 50 True 107 0 [card_of 15 0] '''' True),
     (''c5.xlarge'', row 4 15 True 18 0 [card_of 4 0] ''nitro'' False)]"

definition Limits_c5a :: "(string \<times> vpc_limits) list" where
  "Limits_c5a = [
     (''c5a.12xlarge'', row 8 30 True 54 0 [card_of 8 0] ''nitro'' False),
     (''c5a.16xlarge'', row 15 50 True 107 0 [card_of 15 0] ''nitro'' False),
     (''c5a.24xlarge'', row 15 50 True 107 0 [card_of 15 0] ''nitro'' False),
     (''c5a.2xlarge'', row 4 15 True 38 0 [card_of 4 0] ''nitro'' False),
     (''c5a.4xlarge'', row 8 30 True 54 0 [card_of 8 0] ''nitro'' False),
     (''c5a.8xlarge'', row 8 30 True 54 0 [card_of 8 0] ''nitro'' False),
     (''c5a.large'', row 3 10 True 9 0 [card_of 3 0] ''nitro'' False),
     (''c5a.xlarge'', row 4 15 True 18 0 [card_of 4 0] ''nitro'' False)]"

definition Limits_c5ad :: "(string \<times> vpc_limits) list" where
  "Limits_c5ad = [
     (''c5ad.12xlarge'', row 8 30 True 54 0 [card_of 8 0] ''nitro'' False),
     (''c5ad.16xlarge'', row 15 50 True 107 0 [card_of 15 0] ''nitro'' False),
     (''c5ad.24xlarge'', row 15 50 True 107 0 [card_of 15 0] ''nitro'' False),
     (''c5ad.2xlarge'', row 4 15 True 38 0 [card_of 4 0] ''nitro'' False),
     (''c5ad.4xlarge'', row 8 30 True 54 0 [card_of 8 0] ''nitro'' False),
     (''c5ad.8xlarge'', row 8 30 True 54 0 [card_of 8 0] ''nitro'' False),
     (''c5ad.large'', row 3 10 True 9 0 [card_of 3 0] ''nitro'' False),
     (''c5ad.xlarge'', row 4 15 True 18 0 [card_of 4 0] ''nitro'' False)]"

definition Limits_c5d :: "(string \<times> vpc_limits) list" where
  "Limits_c5d = [
     (''c5d.12xlarge'', row 8 30 True 54 0 [card_of 8 0] ''nitro'' False),
     (''c5d.18xlarge'', row 15 50 True 107 0 [card_of 15 0] ''nitro'' False),
     (''c5d.24xlarge'', row 15 50 True 107 0 [card_of 15 0] ''nitro'' False),
     (''c5d.2xlarge'', row 4 15 True 38 0 [card_of 4 0] ''nitro'' False),
     (''c5d.4xlarge'', row 8 30 True 54 0 [card_of 8 0] ''nitro'' False),
     (''c5d.9xlarge'', row 8 30 True 54 0 [card_of 8 0] ''nitro'' False),
     (''c5d.large'', row 3 10 True 9 0 [card_of 3 0] ''nitro'' False),
     (''c5d.metal'', row 15 50 True 107 0 [card_of 15 0] '''' True),
     (''c5d.xlarge'', row 4 15 True 18 0 [card_of 4 0] ''nitro'' False)]"

definition Limits_c5n :: "(string \<times> vpc_limits) list" where
  "Limits_c5n = [
     (''c5n.18xlarge'', row 15 50 True 107 0 [card_of 15 0] ''nitro'' False),
     (''c5n.2xlarge'', row 4 15 True 38 0 [card_of 4 0] ''nitro'' False),
     (''c5n.4xlarge'', row 8 30 True 54 0 [card_of 8 0] ''nitro'' False),
     (''c5n.9xlarge'', row 8 30 True 54 0 [card_of 8 0] ''nitro'' False),
     (''c5n.large'', row 3 10 True 9 0 [card_of 3 0] ''nitro'' False),
     (''c5n.metal'', row 15 50 True 107 0 [card_of 15 0] '''' True),
     (''c5n.xlarge'', row 4 15 True 18 0 [card_of 4 0] ''nitro'' False)]"

definition Limits_c6a :: "(string \<times> vpc_limits) list" where
  "Limits_c6a = [
     (''c6a.12xlarge'', row 8 30 True 114 0 [card_of 8 0] ''nitro'' False),
     (''c6a.16xlarge'', row 15 50 True 107 0 [card_of 15 0] ''nitro'' False),
     (''c6a.24xlarge'', row 15 50 True 107 0 [card_of 15 0] ''nitro'' False),
     (''c6a.2xlarge'', row 4 15 True 38 0 [card_of 4 0] ''nitro'' False),
     (''c6a.32xlarge'', row 15 50 True 107 0 [card_of 15 0] ''nitro'' False),
     (''c6a.48xlarge'', row 15 50 True 107 0 [card_of 15 0] ''nitro'' False),
     (''c6a.4xlarge'', row 8 30 True 54 0 [card_of 8 0] ''nitro'' False),
     (''c6a.8xlarge'', row 8 30 True 84 0 [card_of 8 0] ''nitro'' False),
     (''c6a.large'', row 3 10 True 9 0 [card_of 3 0] ''nitro'' False),
     (''c6a.metal'', row 15 50 True 107 0 [card_of 15 0] '''' True),
     (''c6a.xlarge'', row 4 15 True 18 0 [card_of 4 0] ''nitro'' False)]"

definition Limits_c6g :: "(string \<times> vpc_limits) list" where
  "Limits_c6g = [
     (''c6g.12xlarge'', row 8 30 True 54 0 [card_of 8 0] ''nitro'' False),
     (''c6g.16xlarge'', row 15 50 True 107 0 [card_of 15 0] ''nitro'' False),
     (''c6g.2xlarge'', row 4 15 True 38 0 [card_of 4 0] ''nitro'' False),
     (''c6g.4xlarge'', row 8 30 True 54 0 [card_of 8 0] ''nitro'' False),
     (''c6g.8xlarge'', row 8 30 True 54 0 [card_of 8 0] ''nitro'' False),
     (''c6g.large'', row 3 10 True 9 0 [card_of 3 0] ''nitro'' False),
     (''c6g.medium'', row 2 4 True 4 0 [card_of 2 0] ''nitro'' False),
     (''c6g.metal'', row 15 50 True 107 0 [card_of 15 0] '''' True),
     (''c6g.xlarge'', row 4 15 True 18 0 [card_of 4 0] ''nitro'' False)]"

definition Limits_c6gd :: "(string \<times> vpc_limits) list" where
  "Limits_c6gd = [
     (''c6gd.12xlarge'', row 8 30 True 54 0 [card_of 8 0] ''nitro'' False),
     (''c6gd.16xlarge'', row 15 50 True 107 0 [card_of 15 0] ''nitro'' False),
     (''c6gd.2xlarge'', row 4 15 True 38 0 [card_of 4 0] ''nitro'' False),
     (''c6gd.4xlarge'', row 8 30 True 54 0 [card_of 8 0] ''nitro'' False),
     (''c6gd.8xlarge'', row 8 30 True 54 0 [card_of 8 0] ''nitro'' False),
     (''c6gd.large'', row 3 10 True 9 0 [card_of 3 0] ''nitro'' False),
     (''c6gd.medium'', row 2 4 True 4 0 [card_of 2 0] ''nitro'' False),
     (''c6gd.metal'', row 15 50 True 107 0 [card_of 15 0] '''' True),
     (''c6gd.xlarge'', row 4 15 True 18 0 [card_of 4 0] ''nitro'' False)]"

definition Limits_c6gn :: "(string \<times> vpc_limits) list" where
  "Limits_c6gn = [
     (''c6gn.12xlarge'', row 8 30 True 54 0 [card_of 8 0] ''nitro'' False),
     (''c6gn.16xlarge'', row 15 50 True 107 0 [card_of 15 0] ''nitro'' False),
     (''c6gn.2xlarge'', row 4 15 True 38 0 [card_of 4 0] ''nitro'' False),
     (''c6gn.4xlarge'', row 8 30 True 54 0 [card_of 8 0] ''nitro'' False),
     (''c6gn.8xlarge'', row 8 30 True 54 0 [card_of 8 0] ''nitro'' False),
     (''c6gn.large'', row 3 10 True 9 0 [card_of 3 0] ''nitro'' False),
     (''c6gn.medium'', row 2 4 True 4 0 [card_of 2 0] ''nitro'' False),
     (''c6gn.xlarge'', row 4 15 True 18 0 [card_of 4 0] ''nitro'' False)]"

definition Limits_c6i :: "(string \<times> vpc_limits) list" where
  "Limits_c6i = [
     (''c6i.12xlarge'', row 8 30 True 114 0 [card_of 8 0] ''nitro'' False),
     (''c6i.16xlarge'', row 15 50 True 107 0 [card_of 15 0] ''nitro'' False),
     (''c6i.24xlarge'', row 15 50 True 107 0 [card_of 15 0] ''nitro'' False),
     (''c6i.2xlarge'', row 4 15 True 38 0 [card_of 4 0] ''nitro'' False),
     (''c6i.32xlarge'', row 15 50 True 107 0 [card_of 15 0] ''nitro'' False),
     (''c6i.4xlarge'', row 8 30 True 54 0 [card_of 8 0] ''nitro'' False),
     (''c6i.8xlarge'', row 8 30 True 84 0 [card_of 8 0] ''nitro'' False),
     (''c6i.large'', row 3 10 True 9 0 [card_of 3 0] ''nitro'' False),
     (''c6i.metal'', row 15 50 True 107 0 [card_of 15 0] '''' True),
     (''c6i.xlarge'', row 4 15 True 18 0 [card_of 4 0] ''nitro'' False)]"

definition Limits_c6id :: "(string \<times> vpc_limits) list" where
  "Limits_c6id = [
     (''c6id.12xlarge'', row 8 30 True 114 0 [card_of 8 0] ''nitro'' False),
     (''c6id.16xlarge'', row 15 50 True 107 0 [card_of 15 0] ''nitro'' False),
     (''c6id.24xlarge'', row 15 50 True 107 0 [card_of 15 0] ''nitro'' False),
     (''c6id.2xlarge'', row 4 15 True 38 0 [card_of 4 0] ''nitro'' False),
     (''c6id.32xlarge'', row 15 50 True 107 0 [card_of 15 0] ''nitro'' False),
     (''c6id.4xlarge'', row 8 30 True 54 0 [card_of 8 0] ''nitro'' False),
     (''c6id.8xlarge'', row 8 30 True 84 0 [card_of 8 0] ''nitro'' False),
     (''c6id.large'', row 3 10 True 9 0 [card_of 3 0] ''nitro'' False),
     (''c6id.metal'', row 15 50 True 107 0 [card_of 15 0] '''' True),
     (''c6id.xlarge'', row 4 15 True 18 0 [card_of 4 0] ''nitro'' False)]"

definition Limits_c6in :: "(string \<times> vpc_limits) list" where
  "Limits_c6in = [
     (''c6in.12xlarge'', row 8 30 True 114 0 [card_of 8 0] ''nitro'' False),
     (''c6in.16xlarge'', row 15 50 True 107 0 [card_of 15 0] ''nitro'' False),
     (''c6in.24xlarge'', row 15 50 True 107 0 [card_of 15 0] ''nitro'' False),
     (''c6in.2xlarge'', row 4 15 True 38 0 [card_of 4 0] ''nitro'' False),
     (''c6in.32xlarge'', row 16 50 True 106 0 [card_of 8 0, card_of 8 1] ''nitro'' False),
     (''c6in.4xlarge'', row 8 30 True 54 0 [card_of 8 0] ''nitro'' False),
     (''c6in.8xlarge'', row 8 30 True 84 0 [card_of 8 0] ''nitro'' False),
     (''c6in.large'', row 3 10 True 9 0 [card_of 3 0] ''nitro'' False),
     (''c6in.metal'', row 16 50 True 106 0 [card_of 8 0, card_of 8 1] '''' True),
     (''c6in.xlarge'', row 4 15 True 18 0 [card_of 4 0] ''nitro'' False)]"

definition Limits_c7a :: "(string \<times> vpc_limits) list" where
  "Limits_c7a = [
     (''c7a.12xlarge'', row 8 30 True 114 0 [card_of 8 0] ''nitro'' False),
     (''c7a.16xlarge'', row 15 50 True 107 0 [card_of 15 0] ''nitro'' False),
     (''c7a.24xlarge'', row 15 50 True 107 0 [card_of 15 0] ''nitro'' False),
     (''c7a.2xlarge'', row 4 15 True 38 0 [card_of 4 0] ''nitro'' False),
     (''c7a.32xlarge'', row 15 50 True 107 0 [card_of 15 0] ''nitro'' False),
     (''c7a.48xlarge'', row 15 50 True 107 0 [card_of 15 0] ''nitro'' False),
     (''c7a.4xlarge'', row 8 30 True 54 0 [card_of 8 0] ''nitro'' False),
     (''c7a.8xlarge'', row 8 30 True 84 0 [card_of 8 0] ''nitro'' False),
     (''c7a.large'', row 3 10 True 9 0 [card_of 3 0] ''nitro'' False),
     (''c7a.medium'', row 2 4 True 4 0 [card_of 2 0] ''nitro'' False),
     (''c7a.metal-48xl'', row 15 50 True 107 0 [card_of 15 0] '''' True),
     (''c7a.xlarge'', row 4 15 True 18 0 [card_of 4 0] ''nitro'' False)]"

definition Limits_c7g_flex :: "(string \<times> vpc_limits) list" where
  "Limits_c7g_flex = [
     (''c7g-flex.2xlarge'', row 4 15 True 18 0 [card_of 4 0] ''nitro'' False),
     (''c7g-flex.4xlarge'', row 8 30 True 34 0 [card_of 8 0] ''nitro'' False),
     (''c7g-flex.8xlarge'', row 8 30 True 54 0 [card_of 8 0] ''nitro'' False),
     (''c7g-flex.large'', row 3 10 True 3 0 [card_of 3 0] ''nitro'' False),
     (''c7g-flex.medium'', row 2 4 True 1 0 [card_of 2 0] ''nitro'' False),
     (''c7g-flex.xlarge'', row 4 15 True 8 0 [card_of 4 0] ''nitro'' False)]"

definition Limits_c7g :: "(string \<times> vpc_limits) list" where
  "Limits_c7g = [
     (''c7g.12xlarge'', row 8 30 True 54 0 [card_of 8 0] ''nitro'' False),
     (''c7g.16xlarge'', row 15 50 True 107 0 [card_of 15 0] ''nitro'' False),
     (''c7g.2xlarge'', row 4 15 True 38 0 [card_of 4 0] ''nitro'' False),
     (''c7g.4xlarge'', row 8 30 True 54 0 [card_of 8 0] ''nitro'' False),
     (''c7g.8xlarge'', row 8 30 True 54 0 [card_of 8 0] ''nitro'' False),
     (''c7g.large'', row 3 10 True 9 0 [card_of 3 0] ''nitro'' False),
     (''c7g.medium'', row 2 4 True 4 0 [card_of 2 0] ''nitro'' False),
     (''c7g.metal'', row 15 50 True 107 0 [card_of 15 0] '''' True),
     (''c7g.xlarge'', row 4 15 True 18 0 [card_of 4 0] ''nitro'' False)]"

definition Limits_c7gd :: "(string \<times> vpc_limits) list" where
  "Limits_c7gd = [
     (''c7gd.12xlarge'', row 8 30 True 54 0 [card_of 8 0] ''nitro'' False),
     (''c7gd.16xlarge'', row 15 50 True 107 0 [card_of 15 0] ''nitro'' False),
     (''c7gd.2xlarge'', row 4 15 True 38 0 [card_of 4 0] ''nitro'' False),
     (''c7gd.4xlarge'', row 8 30 True 54 0 [card_of 8 0] ''nitro'' False),
     (''c7gd.8xlarge'', row 8 30 True 54 0 [card_of 8 0] ''nitro'' False),
     (''c7gd.large'', row 3 10 True 9 0 [card_of 3 0] ''nitro'' False),
     (''c7gd.medium'', row 2 4 True 4 0 [card_of 2 0] ''nitro'' False),
     (''c7gd.metal'', row 15 50 True 107 0 [card_of 15 0] '''' True),
     (''c7gd.xlarge'', row 4 15 True 18 0 [card_of 4 0] ''nitro'' False)]"

definition Limits_c7gn :: "(string \<times> vpc_limits) list" where
  "Limits_c7gn = [
     (''c7gn.12xlarge'', row 8 30 True 54 0 [card_of 8 0] ''nitro'' False),
     (''c7gn.16xlarge'', row 15 50 True 107 0 [card_of 15 0] ''nitro'' False),
     (''c7gn.2xlarge'', row 4 15 True 38 0 [card_of 4 0] ''nitro'' False),
     (''c7gn.4xlarge'', row 8 30 True 54 0 [card_of 8 0] ''nitro'' False),
     (''c7gn.8xlarge'', row 8 30 True 54 0 [card_of 8 0] ''nitro'' False),
     (''c7gn.large'', row 3 10 True 9 0 [card_of 3 0] ''nitro'' False),
     (''c7gn.medium'', row 2 4 True 4 0 [card_of 2 0] ''nitro'' False),
     (''c7gn.metal'', row 15 50 True 107 0 [card_of 15 0] '''' True),
     (''c7gn.xlarge'', row 4 15 True 18 0 [card_of 4 0] ''nitro'' False)]"

definition Limits_c7i_flex :: "(string \<times> vpc_limits) list" where
  "Limits_c7i_flex = [
     (''c7i-flex.12xlarge'', row 8 30 True 114 0 [card_of 8 0] ''nitro'' False),
     (''c7i-flex.16xlarge'', row 15 50 True 107 0 [card_of 15 0] ''nitro'' False),
     (''c7i-flex.2xlarge'', row 4 15 True 18 0 [card_of 4 0] ''nitro'' False),
     (''c7i-flex.4xlarge'', row 8 30 True 34 0 [card_of 8 0] ''nitro'' False),
     (''c7i-flex.8xlarge'', row 8 30 True 54 0 [card_of 8 0] ''nitro'' False),
     (''c7i-flex.large'', row 3 10 True 3 0 [card_of 3 0] ''nitro'' False),
     (''c7i-flex.xlarge'', row 4 15 True 8 0 [card_of 4 0] ''nitro'' False)]"

definition Limits_c7i :: "(string \<times> vpc_limits) list" where
  "Limits_c7i = [
     (''c7i.12xlarge'', row 8 30 True 114 0 [card_of 8 0] ''nitro'' False),
     (''c7i.16xlarge'', row 15 50 True 107 0 [card_of 15 0] ''nitro'' False),
     (''c7i.24xlarge'', row 15 50 True 107 0 [card_of 15 0] ''nitro'' False),
     (''c7i.2xlarge'', row 4 15 True 38 0 [card_of 4 0] ''nitro'' False),
     (''c7i.32xlarge'', row 15 50 True 107 0 [card_of 15 0] ''nitro'' False),
     (''c7i.48xlarge'', row 15 50 True 107 0 [card_of 15 0] ''nitro'' False),
     (''c7i.4xlarge'', row 8 30 True 54 0 [card_of 8 0] ''nitro'' False),
     (''c7i.8xlarge'', row 8 30 True 84 0 [card_of 8 0] ''nitro'' False),
     (''c7i.large'', row 3 10 True 9 0 [card_of 3 0] ''nitro'' False),
     (''c7i.metal-24xl'', row 15 50 True 107 0 [card_of 15 0] '''' True),
     (''c7i.metal-48xl'', row 15 50 True 107 0 [card_of 15 0] '''' True),
     (''c7i.xlarge'', row 4 15 True 18 0 [card_of 4 0] ''nitro'' False)]"

definition Limits_c8a :: "(string \<times> vpc_limits) list" where
  "Limits_c8a = [
     (''c8a.12xlarge'', row 12 64 True 110 0 [card_of 12 0] ''nitro'' False),
     (''c8a.16xlarge'', row 16 64 True 106 0 [card_of 16 0] ''nitro'' False),
     (''c8a.24xlarge'', row 16 64 True 106 0 [card_of 16 0] ''nitro'' False),
     (''c8a.2xlarge'', row 4 40 True 38 0 [card_of 4 0] ''nitro'' False),
     (''c8a.48xlarge'', row 24 64 True 98 0 [card_of 24 0] ''nitro'' False),
     (''c8a.4xlarge'', row 8 40 True 54 0 [card_of 8 0] ''nitro'' False),
     (''c8a.8xlarge'', row 10 40 True 82 0 [card_of 10 0] ''nitro'' False),
     (''c8a.large'', row 3 20 True 9 0 [card_of 3 0] ''nitro'' False),
     (''c8a.medium'', row 2 4 True 4 0 [card_of 2 0] ''nitro'' False),
     (''c8a.metal-24xl'', row 16 64 True 106 0 [card_of 16 0] '''' True),
     (''c8a.metal-48xl'', row 24 64 True 98 0 [card_of 24 0] '''' True),
     (''c8a.xlarge'', row 4 20 True 18 0 [card_of 4 0] ''nitro'' False)]"

definition Limits_c8g_flex :: "(string \<times> vpc_limits) list" where
  "Limits_c8g_flex = [
     (''c8g-flex.12xlarge'', row 8 30 True 54 0 [card_of 8 0] ''nitro'' False),
     (''c8g-flex.16xlarge'', row 15 50 True 47 0 [card_of 15 0] ''nitro'' False),
     (''c8g-flex.2xlarge'', row 4 15 True 18 0 [card_of 4 0] ''nitro'' False),
     (''c8g-flex.4xlarge'', row 8 30 True 34 0 [card_of 8 0] ''nitro'' False),
     (''c8g-flex.8xlarge'', row 8 30 True 54 0 [card_of 8 0] ''nitro'' False),
     (''c8g-flex.large'', row 3 10 True 3 0 [card_of 3 0] ''nitro'' False),
     (''c8g-flex.medium'', row 2 4 True 1 0 [card_of 2 0] ''nitro'' False),
     (''c8g-flex.xlarge'', row 4 15 True 8 0 [card_of 4 0] ''nitro'' False)]"

definition Limits_c8g :: "(string \<times> vpc_limits) list" where
  "Limits_c8g = [
     (''c8g.12xlarge'', row 8 30 True 54 0 [card_of 8 0] ''nitro'' False),
     (''c8g.16xlarge'', row 15 50 True 107 0 [card_of 15 0] ''nitro'' False),
     (''c8g.24xlarge'', row 15 50 True 107 0 [card_of 15 0] ''nitro'' False),
     (''c8g.2xlarge'', row 4 15 True 38 0 [card_of 4 0] ''nitro'' False),
     (''c8g.48xlarge'', row 15 50 True 107 0 [card_of 15 0] ''nitro'' False),
     (''c8g.4xlarge'', row 8 30 True 54 0 [card_of 8 0] ''nitro'' False),
     (''c8g.8xlarge'', row 8 30 True 54 0 [card_of 8 0] ''nitro'' False),
     (''c8g.large'', row 3 10 True 9 0 [card_of 3 0] ''nitro'' False),
     (''c8g.medium'', row 2 4 True 4 0 [card_of 2 0] ''nitro'' False),
     (''c8g.metal-24xl'', row 15 50 True 107 0 [card_of 15 0] '''' True),
     (''c8g.metal-48xl'', row 15 50 True 107 0 [card_of 15 0] '''' True),
     (''c8g.xlarge'', row 4 15 True 18 0 [card_of 4 0] ''nitro'' False)]"

definition Limits_c8gb :: "(string \<times> vpc_limits) list" where
  "Limits_c8gb = [
     (''c8gb.12xlarge'', row 12 30 True 50 0 [card_of 12 0] ''nitro'' False),
     (''c8gb.16xlarge'', row 16 50 True 106 0 [card_of 16 0] ''nitro'' False),
     (''c8gb.24xlarge'', row 24 50 True 98 0 [card_of 24 0] ''nitro'' False),
     (''c8gb.2xlarge'', row 4 15 True 38 0 [card_of 4 0] ''nitro'' False),
     (''c8gb.48xlarge'', row 24 50 True 98 0 [card_of 12 0, card_of 12 1] ''nitro'' False),
     (''c8gb.4xlarge'', row 8 30 True 54 0 [card_of 8 0] ''nitro'' False),
     (''c8gb.8xlarge'', row 10 30 True 52 0 [card_of 10 0] ''nitro'' False),
     (''c8gb.large'', row 3 10 True 9 0 [card_of 3 0] ''nitro'' False),
     (''c8gb.medium'', row 2 4 True 4 0 [card_of 2 0] ''nitro'' False),
     (''c8gb.metal-24xl'', row 24 50 True 98 0 [card_of 24 0] '''' True),
     (''c8gb.metal-48xl'', row 24 50 True 98 0 [card_of 12 0, card_of 12 1] '''' True),
     (''c8gb.xlarge'', row 4 15 True 18 0 [card_of 4 0] ''nitro'' False)]"

definition Limits_c8gd :: "(string \<times> vpc_limits) list" where
  "Limits_c8gd = [
     (''c8gd.12xlarge'', row 8 30 True 54 0 [card_of 8 0] ''nitro'' False),
     (''c8gd.16xlarge'', row 15 50 True 107 0 [card_of 15 0] ''nitro'' False),
     (''c8gd.24xlarge'', row 15 50 True 107 0 [card_of 15 0] ''nitro'' False),
     (''c8gd.2xlarge'', row 4 15 True 38 0 [card_of 4 0] ''nitro'' False),
     (''c8gd.48xlarge'', row 15 50 True 107 0 [card_of 15 0] ''nitro'' False),
     (''c8gd.4xlarge'', row 8 30 True 54 0 [card_of 8 0] ''nitro'' False),
     (''c8gd.8xlarge'', row 8 30 True 54 0 [card_of 8 0] ''nitro'' False),
     (''c8gd.large'', row 3 10 True 9 0 [card_of 3 0] ''nitro'' False),
     (''c8gd.medium'', row 2 4 True 4 0 [card_of 2 0] ''nitro'' False),
     (''c8gd.metal-24xl'', row 15 50 True 107 0 [card_of 15 0] '''' True),
     (''c8gd.metal-48xl'', row 15 50 True 107 0 [card_of 15 0] '''' True),
     (''c8gd.xlarge'', row 4 15 True 18 0 [card_of 4 0] ''nitro'' False)]"

definition Limits_c8gn :: "(string \<times> vpc_limits) list" where
  "Limits_c8gn = [
     (''c8gn.12xlarge'', row 12 30 True 50 0 [card_of 12 0] ''nitro'' False),
     (''c8gn.16xlarge'', row 16 50 True 106 0 [card_of 16 0] ''nitro'' False),
     (''c8gn.24xlarge'', row 24 50 True 98 0 [card_of 24 0] ''nitro'' False),
     (''c8gn.2xlarge'', row 4 15 True 38 0 [card_of 4 0] ''nitro'' False),
     (''c8gn.48xlarge'', row 24 50 True 98 0 [card_of 12 0, card_of 12 1] ''nitro'' False),
     (''c8gn.4xlarge'', row 8 30 True 54 0 [card_of 8 0] ''nitro'' False),
     (''c8gn.8xlarge'', row 10 30 True 52 0 [card_of 10 0] ''nitro'' False),
     (''c8gn.large'', row 3 10 True 9 0 [card_of 3 0] ''nitro'' False),
     (''c8gn.medium'', row 2 4 True 4 0 [card_of 2 0] ''nitro'' False),
     (''c8gn.metal-24xl'', row 24 50 True 98 0 [card_of 24 0] '''' True),
     (''c8gn.metal-48xl'', row 24 50 True 98 0 [card_of 12 0, card_of 12 1] '''' True),
     (''c8gn.xlarge'', row 4 15 True 18 0 [card_of 4 0] ''nitro'' False)]"

definition Limits_c8i_flex :: "(string \<times> vpc_limits) list" where
  "Limits_c8i_flex = [
     (''c8i-flex.12xlarge'', row 12 50 True 110 0 [card_of 12 0] ''nitro'' False),
     (''c8i-flex.16xlarge'', row 16 64 True 106 0 [card_of 16 0] ''nitro'' False),
     (''c8i-flex.2xlarge'', row 4 30 True 18 0 [card_of 4 0] ''nitro'' False),
     (''c8i-flex.4xlarge'', row 8 50 True 34 0 [card_of 8 0] ''nitro'' False),
     (''c8i-flex.8xlarge'', row 10 50 True 52 0 [card_of 10 0] ''nitro'' False),
     (''c8i-flex.large'', row 3 20 True 3 0 [card_of 3 0] ''nitro'' False),
     (''c8i-flex.xlarge'', row 4 30 True 8 0 [card_of 4 0] ''nitro'' False)]"

definition Limits_c8i :: "(string \<times> vpc_limits) list" where
  "Limits_c8i = [
     (''c8i.12xlarge'', row 12 50 True 110 0 [card_of 12 0] ''nitro'' False),
     (''c8i.16xlarge'', row 16 64 True 106 0 [card_of 16 0] ''nitro'' False),
     (''c8i.24xlarge'', row 16 64 True 106 0 [card_of 16 0] ''nitro'' False),
     (''c8i.2xlarge'', row 4 30 True 38 0 [card_of 4 0] ''nitro'' False),
     (''c8i.32xlarge'', row 24 64 True 98 0 [card_of 24 0] ''nitro'' False),
     (''c8i.48xlarge'', row 24 64 True 98 0 [card_of 24 0] ''nitro'' False),
     (''c8i.4xlarge'', row 8 50 True 54 0 [card_of 8 0] ''nitro'' False),
     (''c8i.8xlarge'', row 10 50 True 82 0 [card_of 10 0] ''nitro'' False),
     (''c8i.96xlarge'', row 24 64 True 98 0 [card_of 24 0] ''nitro'' False),
     (''c8i.large'', row 3 20 True 9 0 [card_of 3 0] ''nitro'' False),
     (''c8i.metal-48xl'', row 24 64 True 98 0 [card_of 24 0] '''' True),
     (''c8i.metal-96xl'', row 24 64 True 98 0 [card_of 24 0] '''' True),
     (''c8i.xlarge'', row 4 30 True 18 0 [card_of 4 0] ''nitro'' False)]"

definition Limits_c8ib :: "(string \<times> vpc_limits) list" where
  "Limits_c8ib = [
     (''c8ib.12xlarge'', row 12 50 True 110 0 [card_of 12 0] ''nitro'' False),
     (''c8ib.16xlarge'', row 16 64 True 106 0 [card_of 16 0] ''nitro'' False),
     (''c8ib.24xlarge'', row 16 64 True 106 0 [card_of 16 0] ''nitro'' False),
     (''c8ib.2xlarge'', row 4 30 True 38 0 [card_of 4 0] ''nitro'' False),
     (''c8ib.32xlarge'', row 16 64 True 106 0 [card_of 16 0] ''nitro'' False),
     (''c8ib.48xlarge'', row 24 64 True 98 0 [card_of 24 0] ''nitro'' False),
     (''c8ib.4xlarge'', row 8 50 True 54 0 [card_of 8 0] ''nitro'' False),
     (''c8ib.8xlarge'', row 8 50 True 84 0 [card_of 8 0] ''nitro'' False),
     (''c8ib.96xlarge'', row 24 64 True 98 0 [card_of 12 0, card_of 12 1] ''nitro'' False),
     (''c8ib.large'', row 4 20 True 8 0 [card_of 4 0] ''nitro'' False),
     (''c8ib.metal-48xl'', row 24 64 True 98 0 [card_of 24 0] '''' True),
     (''c8ib.metal-96xl'', row 24 64 True 98 0 [card_of 12 0, card_of 12 1] '''' True),
     (''c8ib.xlarge'', row 4 30 True 18 0 [card_of 4 0] ''nitro'' False)]"

definition Limits_c8id :: "(string \<times> vpc_limits) list" where
  "Limits_c8id = [
     (''c8id.12xlarge'', row 12 50 True 110 0 [card_of 12 0] ''nitro'' False),
     (''c8id.16xlarge'', row 16 64 True 106 0 [card_of 16 0] ''nitro'' False),
     (''c8id.24xlarge'', row 16 64 True 106 0 [card_of 16 0] ''nitro'' False),
     (''c8id.2xlarge'', row 4 30 True 38 0 [card_of 4 0] ''nitro'' False),
     (''c8id.32xlarge'', row 24 64 True 98 0 [card_of 24 0] ''nitro'' False),
     (''c8id.48xlarge'', row 24 64 True 98 0 [card_of 24 0] ''nitro'' False),
     (''c8id.4xlarge'', row 8 50 True 54 0 [card_of 8 0] ''nitro'' False),
     (''c8id.8xlarge'', row 10 50 True 82 0 [card_of 10 0] ''nitro'' False),
     (''c8id.96xlarge'', row 24 64 True 98 0 [card_of 24 0] ''nitro'' False),
     (''c8id.large'', row 3 20 True 9 0 [card_of 3 0] ''nitro'' False),
     (''c8id.metal-48xl'', row 24 64 True 98 0 [card_of 24 0] '''' True),
     (''c8id.metal-96xl'', row 24 64 True 98 0 [card_of 24 0] '''' True),
     (''c8id.xlarge'', row 4 30 True 18 0 [card_of 4 0] ''nitro'' False)]"

definition Limits_c8in :: "(string \<times> vpc_limits) list" where
  "Limits_c8in = [
     (''c8in.12xlarge'', row 12 50 True 110 0 [card_of 12 0] ''nitro'' False),
     (''c8in.16xlarge'', row 16 64 True 106 0 [card_of 16 0] ''nitro'' False),
     (''c8in.24xlarge'', row 16 64 True 106 0 [card_of 16 0] ''nitro'' False),
     (''c8in.2xlarge'', row 4 30 True 38 0 [card_of 4 0] ''nitro'' False),
     (''c8in.32xlarge'', row 16 64 True 106 0 [card_of 16 0] ''nitro'' False),
     (''c8in.48xlarge'', row 24 64 True 98 0 [card_of 24 0] ''nitro'' False),
     (''c8in.4xlarge'', row 8 50 True 54 0 [card_of 8 0] ''nitro'' False),
     (''c8in.8xlarge'', row 8 50 True 84 0 [card_of 8 0] ''nitro'' False),
     (''c8in.96xlarge'', row 24 64 True 98 0 [card_of 12 0, card_of 12 1] ''nitro'' False),
     (''c8in.large'', row 4 20 True 8 0 [card_of 4 0] ''nitro'' False),
     (''c8in.metal-48xl'', row 24 64 True 98 0 [card_of 24 0] '''' True),
     (''c8in.metal-96xl'', row 24 64 True 98 0 [card_of 12 0, card_of 12 1] '''' True),
     (''c8in.xlarge'', row 4 30 True 18 0 [card_of 4 0] ''nitro'' False)]"

definition Limits_c8ine :: "(string \<times> vpc_limits) list" where
  "Limits_c8ine = [
     (''c8ine.12xlarge'', row 12 50 True 110 0 [card_of 12 0] ''nitro'' False),
     (''c8ine.2xlarge'', row 4 30 True 38 0 [card_of 4 0] ''nitro'' False),
     (''c8ine.4xlarge'', row 8 50 True 54 0 [card_of 8 0] ''nitro'' False),
     (''c8ine.8xlarge'', row 8 50 True 84 0 [card_of 8 0] ''nitro'' False),
     (''c8ine.large'', row 4 20 True 8 0 [card_of 4 0] ''nitro'' False),
     (''c8ine.xlarge'', row 4 30 True 18 0 [card_of 4 0] ''nitro'' False)]"

definition Limits_c9g :: "(string \<times> vpc_limits) list" where
  "Limits_c9g = [
     (''c9g.12xlarge'', row 12 50 True 50 0 [card_of 12 0] ''nitro'' False),
     (''c9g.16xlarge'', row 16 64 True 106 0 [card_of 16 0] ''nitro'' False),
     (''c9g.24xlarge'', row 24 64 True 98 0 [card_of 24 0] ''nitro'' False),
     (''c9g.2xlarge'', row 4 30 True 38 0 [card_of 4 0] ''nitro'' False),
     (''c9g.48xlarge'', row 24 64 True 98 0 [card_of 24 0] ''nitro'' False),
     (''c9g.4xlarge'', row 8 50 True 54 0 [card_of 8 0] ''nitro'' False),
     (''c9g.8xlarge'', row 10 50 True 52 0 [card_of 10 0] ''nitro'' False),
     (''c9g.large'', row 3 20 True 9 0 [card_of 3 0] ''nitro'' False),
     (''c9g.medium'', row 2 20 True 4 0 [card_of 2 0] ''nitro'' False),
     (''c9g.metal-48xl'', row 24 64 True 98 0 [card_of 24 0] '''' True),
     (''c9g.xlarge'', row 4 30 True 18 0 [card_of 4 0] ''nitro'' False)]"

definition Limits_c9gd :: "(string \<times> vpc_limits) list" where
  "Limits_c9gd = [
     (''c9gd.12xlarge'', row 12 50 True 50 0 [card_of 12 0] ''nitro'' False),
     (''c9gd.16xlarge'', row 16 64 True 106 0 [card_of 16 0] ''nitro'' False),
     (''c9gd.24xlarge'', row 24 64 True 98 0 [card_of 24 0] ''nitro'' False),
     (''c9gd.2xlarge'', row 4 30 True 38 0 [card_of 4 0] ''nitro'' False),
     (''c9gd.48xlarge'', row 24 64 True 98 0 [card_of 24 0] ''nitro'' False),
     (''c9gd.4xlarge'', row 8 50 True 54 0 [card_of 8 0] ''nitro'' False),
     (''c9gd.8xlarge'', row 10 50 True 52 0 [card_of 10 0] ''nitro'' False),
     (''c9gd.large'', row 3 20 True 9 0 [card_of 3 0] ''nitro'' False),
     (''c9gd.medium'', row 2 20 True 4 0 [card_of 2 0] ''nitro'' False),
     (''c9gd.metal-48xl'', row 24 64 True 98 0 [card_of 24 0] '''' True),
     (''c9gd.xlarge'', row 4 30 True 18 0 [card_of 4 0] ''nitro'' False)]"

definition Limits_d2 :: "(string \<times> vpc_limits) list" where
  "Limits_d2 = [
     (''d2.2xlarge'', row 4 15 False 0 0 [card_of 4 0] ''xen'' False),
     (''d2.4xlarge'', row 8 30 False 0 0 [card_of 8 0] ''xen'' False),
     (''d2.8xlarge'', row 8 30 False 0 0 [card_of 8 0] ''xen'' False),
     (''d2.xlarge'', row 4 15 False 0 0 [card_of 4 0] ''xen'' False)]"

definition Limits_d3 :: "(string \<times> vpc_limits) list" where
  "Limits_d3 = [
     (''d3.2xlarge'', row 4 5 True 92 0 [card_of 4 0] ''nitro'' False),
     (''d3.4xlarge'', row 4 10 True 118 0 [card_of 4 0] ''nitro'' False),
     (''d3.8xlarge'', row 3 20 True 119 0 [card_of 3 0] ''nitro'' False),
     (''d3.xlarge'', row 4 3 True 42 0 [card_of 4 0] ''nitro'' False)]"

definition Limits_d3en :: "(string \<times> vpc_limits) list" where
  "Limits_d3en = [
     (''d3en.12xlarge'', row 3 30 True 119 0 [card_of 3 0] ''nitro'' False),
     (''d3en.2xlarge'', row 4 5 True 58 0 [card_of 4 0] ''nitro'' False),
     (''d3en.4xlarge'', row 4 10 True 118 0 [card_of 4 0] ''nitro'' False),
     (''d3en.6xlarge'', row 4 15 True 118 0 [card_of 4 0] ''nitro'' False),
     (''d3en.8xlarge'', row 4 20 True 118 0 [card_of 4 0] ''nitro'' False),
     (''d3en.xlarge'', row 4 3 True 24 0 [card_of 4 0] ''nitro'' False)]"

definition Limits_dl1 :: "(string \<times> vpc_limits) list" where
  "Limits_dl1 = [
     (''dl1.24xlarge'', row 60 50 True 62 0 [card_of 15 0, card_of 15 1, card_of 15 2, card_of 15 3] ''nitro'' False)]"

definition Limits_dl2q :: "(string \<times> vpc_limits) list" where
  "Limits_dl2q = [
     (''dl2q.24xlarge'', row 15 50 True 107 0 [card_of 15 0] ''nitro'' False)]"

definition Limits_f1 :: "(string \<times> vpc_limits) list" where
  "Limits_f1 = [
     (''f1.16xlarge'', row 8 50 False 0 0 [card_of 8 0] ''xen'' False),
     (''f1.2xlarge'', row 4 15 False 0 0 [card_of 4 0] ''xen'' False),
     (''f1.4xlarge'', row 8 30 False 0 0 [card_of 8 0] ''xen'' False)]"

definition Limits_f2 :: "(string \<times> vpc_limits) list" where
  "Limits_f2 = [
     (''f2.12xlarge'', row 8 30 True 114 0 [card_of 8 0] ''nitro'' False),
     (''f2.48xlarge'', row 15 50 True 107 0 [card_of 15 0] ''nitro'' False),
     (''f2.6xlarge'', row 8 30 True 84 0 [card_of 8 0] ''nitro'' False)]"

definition Limits_g4ad :: "(string \<times> vpc_limits) list" where
  "Limits_g4ad = [
     (''g4ad.16xlarge'', row 8 30 True 6 0 [card_of 8 0] ''nitro'' False),
     (''g4ad.2xlarge'', row 2 4 True 12 0 [card_of 2 0] ''nitro'' False),
     (''g4ad.4xlarge'', row 3 10 True 11 0 [card_of 3 0] ''nitro'' False),
     (''g4ad.8xlarge'', row 4 15 True 10 0 [card_of 4 0] ''nitro'' False),
     (''g4ad.xlarge'', row 2 4 True 12 0 [card_of 2 0] ''nitro'' False)]"

definition Limits_g4dn :: "(string \<times> vpc_limits) list" where
  "Limits_g4dn = [
     (''g4dn.12xlarge'', row 8 30 True 54 0 [card_of 8 0] ''nitro'' False),
     (''g4dn.16xlarge'', row 4 15 True 118 0 [card_of 4 0] ''nitro'' False),
     (''g4dn.2xlarge'', row 3 10 True 39 0 [card_of 3 0] ''nitro'' False),
     (''g4dn.4xlarge'', row 3 10 True 59 0 [card_of 3 0] ''nitro'' False),
     (''g4dn.8xlarge'', row 4 15 True 58 0 [card_of 4 0] ''nitro'' False),
     (''g4dn.metal'', row 15 50 True 107 0 [card_of 15 0] '''' True),
     (''g4dn.xlarge'', row 3 10 True 39 0 [card_of 3 0] ''nitro'' False)]"

definition Limits_g5 :: "(string \<times> vpc_limits) list" where
  "Limits_g5 = [
     (''g5.12xlarge'', row 15 50 True 107 0 [card_of 15 0] ''nitro'' False),
     (''g5.16xlarge'', row 8 30 True 114 0 [card_of 8 0] ''nitro'' False),
     (''g5.24xlarge'', row 15 50 True 107 0 [card_of 15 0] ''nitro'' False),
     (''g5.2xlarge'', row 4 15 True 17 0 [card_of 4 0] ''nitro'' False),
     (''g5.48xlarge'', row 7 50 True 115 0 [card_of 7 0] ''nitro'' False),
     (''g5.4xlarge'', row 8 30 True 34 0 [card_of 8 0] ''nitro'' False),
     (''g5.8xlarge'', row 8 30 True 84 0 [card_of 8 0] ''nitro'' False),
     (''g5.xlarge'', row 4 15 True 4 0 [card_of 4 0] ''nitro'' False)]"

definition Limits_g5g :: "(string \<times> vpc_limits) list" where
  "Limits_g5g = [
     (''g5g.16xlarge'', row 15 50 True 107 0 [card_of 15 0] ''nitro'' False),
     (''g5g.2xlarge'', row 4 15 True 38 0 [card_of 4 0] ''nitro'' False),
     (''g5g.4xlarge'', row 8 30 True 54 0 [card_of 8 0] ''nitro'' False),
     (''g5g.8xlarge'', row 8 30 True 54 0 [card_of 8 0] ''nitro'' False),
     (''g5g.metal'', row 15 50 True 107 0 [card_of 15 0] '''' True),
     (''g5g.xlarge'', row 4 15 True 18 0 [card_of 4 0] ''nitro'' False)]"

definition Limits_g6 :: "(string \<times> vpc_limits) list" where
  "Limits_g6 = [
     (''g6.12xlarge'', row 8 30 True 114 0 [card_of 8 0] ''nitro'' False),
     (''g6.16xlarge'', row 15 50 True 107 0 [card_of 15 0] ''nitro'' False),
     (''g6.24xlarge'', row 15 50 True 107 0 [card_of 15 0] ''nitro'' False),
     (''g6.2xlarge'', row 4 15 True 38 0 [card_of 4 0] ''nitro'' False),
     (''g6.48xlarge'', row 15 50 True 107 0 [card_of 15 0] ''nitro'' False),
     (''g6.4xlarge'', row 8 30 True 54 0 [card_of 8 0] ''nitro'' False),
     (''g6.8xlarge'', row 8 30 True 84 0 [card_of 8 0] ''nitro'' False),
     (''g6.xlarge'', row 4 15 True 18 0 [card_of 4 0] ''nitro'' False)]"

definition Limits_g6e :: "(string \<times> vpc_limits) list" where
  "Limits_g6e = [
     (''g6e.12xlarge'', row 10 30 True 112 0 [card_of 10 0] ''nitro'' False),
     (''g6e.16xlarge'', row 15 50 True 107 0 [card_of 15 0] ''nitro'' False),
     (''g6e.24xlarge'', row 20 50 True 102 0 [card_of 10 0, card_of 10 1] ''nitro'' False),
     (''g6e.2xlarge'', row 4 15 True 38 0 [card_of 4 0] ''nitro'' False),
     (''g6e.48xlarge'', row 40 50 True 82 0 [card_of 10 0, card_of 10 1, card_of 10 2, card_of 10 3] ''nitro'' False),
     (''g6e.4xlarge'', row 8 30 True 54 0 [card_of 8 0] ''nitro'' False),
     (''g6e.8xlarge'', row 8 30 True 84 0 [card_of 8 0] ''nitro'' False),
     (''g6e.xlarge'', row 4 15 True 18 0 [card_of 4 0] ''nitro'' False)]"

definition Limits_g6f :: "(string \<times> vpc_limits) list" where
  "Limits_g6f = [
     (''g6f.2xlarge'', row 4 15 True 38 0 [card_of 4 0] ''nitro'' False),
     (''g6f.4xlarge'', row 8 30 True 54 0 [card_of 8 0] ''nitro'' False),
     (''g6f.large'', row 2 10 True 10 0 [card_of 2 0] ''nitro'' False),
     (''g6f.xlarge'', row 4 15 True 18 0 [card_of 4 0] ''nitro'' False)]"

definition Limits_g7 :: "(string \<times> vpc_limits) list" where
  "Limits_g7 = [
     (''g7.12xlarge'', row 12 64 True 110 0 [card_of 12 0] ''nitro'' False),
     (''g7.24xlarge'', row 24 64 True 98 0 [card_of 24 0] ''nitro'' False),
     (''g7.2xlarge'', row 4 64 True 38 0 [card_of 4 0] ''nitro'' False),
     (''g7.48xlarge'', row 24 64 True 98 0 [card_of 12 0, card_of 12 1] ''nitro'' False),
     (''g7.4xlarge'', row 8 64 True 54 0 [card_of 8 0] ''nitro'' False),
     (''g7.8xlarge'', row 10 64 True 82 0 [card_of 10 0] ''nitro'' False)]"

definition Limits_g7e :: "(string \<times> vpc_limits) list" where
  "Limits_g7e = [
     (''g7e.12xlarge'', row 10 64 True 120 0 [card_of 10 0] ''nitro'' False),
     (''g7e.24xlarge'', row 20 64 True 120 0 [card_of 10 0, card_of 10 1] ''nitro'' False),
     (''g7e.2xlarge'', row 4 64 True 120 0 [card_of 4 0] ''nitro'' False),
     (''g7e.48xlarge'', row 40 64 True 120 0 [card_of 10 0, card_of 10 1, card_of 10 2, card_of 10 3] ''nitro'' False),
     (''g7e.4xlarge'', row 8 64 True 120 0 [card_of 8 0] ''nitro'' False),
     (''g7e.8xlarge'', row 8 64 True 120 0 [card_of 8 0] ''nitro'' False)]"

definition Limits_gr6 :: "(string \<times> vpc_limits) list" where
  "Limits_gr6 = [
     (''gr6.4xlarge'', row 8 30 True 54 0 [card_of 8 0] ''nitro'' False),
     (''gr6.8xlarge'', row 8 30 True 84 0 [card_of 8 0] ''nitro'' False)]"

definition Limits_gr6f :: "(string \<times> vpc_limits) list" where
  "Limits_gr6f = [
     (''gr6f.4xlarge'', row 8 30 True 54 0 [card_of 8 0] ''nitro'' False)]"

definition Limits_h1 :: "(string \<times> vpc_limits) list" where
  "Limits_h1 = [
     (''h1.16xlarge'', row 8 50 False 0 0 [card_of 8 0] ''xen'' False),
     (''h1.2xlarge'', row 4 15 False 0 0 [card_of 4 0] ''xen'' False),
     (''h1.4xlarge'', row 8 30 False 0 0 [card_of 8 0] ''xen'' False),
     (''h1.8xlarge'', row 8 30 False 0 0 [card_of 8 0] ''xen'' False)]"

definition Limits_hpc7g :: "(string \<times> vpc_limits) list" where
  "Limits_hpc7g = [
     (''hpc7g.16xlarge'', row 4 50 True 118 0 [card_of 4 0] ''nitro'' False),
     (''hpc7g.4xlarge'', row 4 50 True 118 0 [card_of 4 0] ''nitro'' False),
     (''hpc7g.8xlarge'', row 4 50 True 118 0 [card_of 4 0] ''nitro'' False)]"

definition Limits_i2 :: "(string \<times> vpc_limits) list" where
  "Limits_i2 = [
     (''i2.2xlarge'', row 4 15 False 0 0 [card_of 4 0] ''xen'' False),
     (''i2.4xlarge'', row 8 30 False 0 0 [card_of 8 0] ''xen'' False),
     (''i2.8xlarge'', row 8 30 False 0 0 [card_of 8 0] ''xen'' False),
     (''i2.xlarge'', row 4 15 False 0 0 [card_of 4 0] ''xen'' False)]"

definition Limits_i3 :: "(string \<times> vpc_limits) list" where
  "Limits_i3 = [
     (''i3.16xlarge'', row 15 50 False 0 0 [card_of 15 0] ''xen'' False),
     (''i3.2xlarge'', row 4 15 False 0 0 [card_of 4 0] ''xen'' False),
     (''i3.4xlarge'', row 8 30 False 0 0 [card_of 8 0] ''xen'' False),
     (''i3.8xlarge'', row 8 30 False 0 0 [card_of 8 0] ''xen'' False),
     (''i3.large'', row 3 10 False 0 0 [card_of 3 0] ''xen'' False),
     (''i3.metal'', row 15 50 True 120 0 [card_of 15 0] '''' True),
     (''i3.xlarge'', row 4 15 False 0 0 [card_of 4 0] ''xen'' False)]"

definition Limits_i3en :: "(string \<times> vpc_limits) list" where
  "Limits_i3en = [
     (''i3en.12xlarge'', row 8 30 True 54 0 [card_of 8 0] ''nitro'' False),
     (''i3en.24xlarge'', row 15 50 True 107 0 [card_of 15 0] ''nitro'' False),
     (''i3en.2xlarge'', row 4 15 True 28 0 [card_of 4 0] ''nitro'' False),
     (''i3en.3xlarge'', row 4 15 True 38 0 [card_of 4 0] ''nitro'' False),
     (''i3en.6xlarge'', row 8 30 True 54 0 [card_of 8 0] ''nitro'' False),
     (''i3en.large'', row 3 10 True 5 0 [card_of 3 0] ''nitro'' False),
     (''i3en.metal'', row 15 50 True 107 0 [card_of 15 0] '''' True),
     (''i3en.xlarge'', row 4 15 True 12 0 [card_of 4 0] ''nitro'' False)]"

definition Limits_i4g :: "(string \<times> vpc_limits) list" where
  "Limits_i4g = [
     (''i4g.16xlarge'', row 15 50 True 107 0 [card_of 15 0] ''nitro'' False),
     (''i4g.2xlarge'', row 4 15 True 38 0 [card_of 4 0] ''nitro'' False),
     (''i4g.4xlarge'', row 8 30 True 54 0 [card_of 8 0] ''nitro'' False),
     (''i4g.8xlarge'', row 8 30 True 54 0 [card_of 8 0] ''nitro'' False),
     (''i4g.large'', row 3 10 True 9 0 [card_of 3 0] ''nitro'' False),
     (''i4g.xlarge'', row 4 15 True 18 0 [card_of 4 0] ''nitro'' False)]"

definition Limits_i4i :: "(string \<times> vpc_limits) list" where
  "Limits_i4i = [
     (''i4i.12xlarge'', row 8 30 True 112 0 [card_of 8 0] ''nitro'' False),
     (''i4i.16xlarge'', row 15 50 True 120 0 [card_of 15 0] ''nitro'' False),
     (''i4i.24xlarge'', row 15 30 True 105 0 [card_of 15 0] ''nitro'' False),
     (''i4i.2xlarge'', row 4 15 True 26 0 [card_of 4 0] ''nitro'' False),
     (''i4i.32xlarge'', row 15 50 True 120 0 [card_of 15 0] ''nitro'' False),
     (''i4i.4xlarge'', row 8 30 True 52 0 [card_of 8 0] ''nitro'' False),
     (''i4i.8xlarge'', row 8 30 True 112 0 [card_of 8 0] ''nitro'' False),
     (''i4i.large'', row 3 10 True 9 0 [card_of 3 0] ''nitro'' False),
     (''i4i.metal'', row 15 50 True 120 0 [card_of 15 0] '''' True),
     (''i4i.xlarge'', row 4 15 True 6 0 [card_of 4 0] ''nitro'' False)]"

definition Limits_i7i :: "(string \<times> vpc_limits) list" where
  "Limits_i7i = [
     (''i7i.12xlarge'', row 8 30 True 84 0 [card_of 8 0] ''nitro'' False),
     (''i7i.16xlarge'', row 15 50 True 107 0 [card_of 15 0] ''nitro'' False),
     (''i7i.24xlarge'', row 15 50 True 107 0 [card_of 15 0] ''nitro'' False),
     (''i7i.2xlarge'', row 4 15 True 38 0 [card_of 4 0] ''nitro'' False),
     (''i7i.48xlarge'', row 15 50 True 107 0 [card_of 15 0] ''nitro'' False),
     (''i7i.4xlarge'', row 8 30 True 54 0 [card_of 8 0] ''nitro'' False),
     (''i7i.8xlarge'', row 8 30 True 84 0 [card_of 8 0] ''nitro'' False),
     (''i7i.large'', row 3 10 True 9 0 [card_of 3 0] ''nitro'' False),
     (''i7i.metal-24xl'', row 15 50 True 107 0 [card_of 15 0] '''' True),
     (''i7i.metal-48xl'', row 15 50 True 107 0 [card_of 15 0] '''' True),
     (''i7i.xlarge'', row 4 15 True 18 0 [card_of 4 0] ''nitro'' False)]"

definition Limits_i7ie :: "(string \<times> vpc_limits) list" where
  "Limits_i7ie = [
     (''i7ie.12xlarge'', row 8 50 True 54 0 [card_of 8 0] ''nitro'' False),
     (''i7ie.18xlarge'', row 15 50 True 107 0 [card_of 15 0] ''nitro'' False),
     (''i7ie.24xlarge'', row 15 50 True 107 0 [card_of 15 0] ''nitro'' False),
     (''i7ie.2xlarge'', row 4 15 True 27 0 [card_of 4 0] ''nitro'' False),
     (''i7ie.3xlarge'', row 4 15 True 27 0 [card_of 4 0] ''nitro'' False),
     (''i7ie.48xlarge'', row 15 50 True 107 0 [card_of 8 0, card_of 7 1] ''nitro'' False),
     (''i7ie.6xlarge'', row 8 30 True 54 0 [card_of 8 0] ''nitro'' False),
     (''i7ie.large'', row 3 10 True 19 0 [card_of 3 0] ''nitro'' False),
     (''i7ie.metal-24xl'', row 15 50 True 107 0 [card_of 15 0] '''' True),
     (''i7ie.metal-48xl'', row 15 50 True 107 0 [card_of 8 0, card_of 7 1] '''' True),
     (''i7ie.xlarge'', row 4 15 True 27 0 [card_of 4 0] ''nitro'' False)]"

definition Limits_i8g :: "(string \<times> vpc_limits) list" where
  "Limits_i8g = [
     (''i8g.12xlarge'', row 8 30 True 54 0 [card_of 8 0] ''nitro'' False),
     (''i8g.16xlarge'', row 15 50 True 107 0 [card_of 15 0] ''nitro'' False),
     (''i8g.24xlarge'', row 15 50 True 107 0 [card_of 15 0] ''nitro'' False),
     (''i8g.2xlarge'', row 4 15 True 38 0 [card_of 4 0] ''nitro'' False),
     (''i8g.48xlarge'', row 15 50 True 107 0 [card_of 15 0] ''nitro'' False),
     (''i8g.4xlarge'', row 8 30 True 54 0 [card_of 8 0] ''nitro'' False),
     (''i8g.8xlarge'', row 8 30 True 54 0 [card_of 8 0] ''nitro'' False),
     (''i8g.large'', row 3 10 True 9 0 [card_of 3 0] ''nitro'' False),
     (''i8g.metal-24xl'', row 15 50 True 107 0 [card_of 15 0] '''' True),
     (''i8g.metal-48xl'', row 15 50 True 107 0 [card_of 15 0] '''' True),
     (''i8g.xlarge'', row 4 15 True 18 0 [card_of 4 0] ''nitro'' False)]"

definition Limits_i8ge :: "(string \<times> vpc_limits) list" where
  "Limits_i8ge = [
     (''i8ge.12xlarge'', row 12 30 True 50 0 [card_of 12 0] ''nitro'' False),
     (''i8ge.18xlarge'', row 16 50 True 106 0 [card_of 16 0] ''nitro'' False),
     (''i8ge.24xlarge'', row 16 50 True 106 0 [card_of 16 0] ''nitro'' False),
     (''i8ge.2xlarge'', row 4 15 True 27 0 [card_of 4 0] ''nitro'' False),
     (''i8ge.3xlarge'', row 6 30 True 25 0 [card_of 6 0] ''nitro'' False),
     (''i8ge.48xlarge'', row 24 50 True 98 0 [card_of 12 0, card_of 12 1] ''nitro'' False),
     (''i8ge.6xlarge'', row 10 30 True 52 0 [card_of 10 0] ''nitro'' False),
     (''i8ge.large'', row 3 10 True 19 0 [card_of 3 0] ''nitro'' False),
     (''i8ge.metal-24xl'', row 16 50 True 106 0 [card_of 16 0] '''' True),
     (''i8ge.metal-48xl'', row 24 50 True 98 0 [card_of 12 0, card_of 12 1] '''' True),
     (''i8ge.xlarge'', row 4 15 True 27 0 [card_of 4 0] ''nitro'' False)]"

definition Limits_im4gn :: "(string \<times> vpc_limits) list" where
  "Limits_im4gn = [
     (''im4gn.16xlarge'', row 15 50 True 107 0 [card_of 15 0] ''nitro'' False),
     (''im4gn.2xlarge'', row 4 15 True 38 0 [card_of 4 0] ''nitro'' False),
     (''im4gn.4xlarge'', row 8 30 True 54 0 [card_of 8 0] ''nitro'' False),
     (''im4gn.8xlarge'', row 8 30 True 54 0 [card_of 8 0] ''nitro'' False),
     (''im4gn.large'', row 3 10 True 9 0 [card_of 3 0] ''nitro'' False),
     (''im4gn.xlarge'', row 4 15 True 18 0 [card_of 4 0] ''nitro'' False)]"

definition Limits_inf1 :: "(string \<times> vpc_limits) list" where
  "Limits_inf1 = [
     (''inf1.24xlarge'', row 11 30 True 111 0 [card_of 11 0] ''nitro'' False),
     (''inf1.2xlarge'', row 4 10 True 38 0 [card_of 4 0] ''nitro'' False),
     (''inf1.6xlarge'', row 8 30 True 54 0 [card_of 8 0] ''nitro'' False),
     (''inf1.xlarge'', row 4 10 True 38 0 [card_of 4 0] ''nitro'' False)]"

definition Limits_inf2 :: "(string \<times> vpc_limits) list" where
  "Limits_inf2 = [
     (''inf2.24xlarge'', row 15 50 True 107 0 [card_of 15 0] ''nitro'' False),
     (''inf2.48xlarge'', row 15 50 True 107 0 [card_of 15 0] ''nitro'' False),
     (''inf2.8xlarge'', row 8 30 True 84 0 [card_of 8 0] ''nitro'' False),
     (''inf2.xlarge'', row 4 15 True 18 0 [card_of 4 0] ''nitro'' False)]"

definition Limits_is4gen :: "(string \<times> vpc_limits) list" where
  "Limits_is4gen = [
     (''is4gen.2xlarge'', row 4 15 True 38 0 [card_of 4 0] ''nitro'' False),
     (''is4gen.4xlarge'', row 8 30 True 54 0 [card_of 8 0] ''nitro'' False),
     (''is4gen.8xlarge'', row 8 30 True 54 0 [card_of 8 0] ''nitro'' False),
     (''is4gen.large'', row 3 10 True 9 0 [card_of 3 0] ''nitro'' False),
     (''is4gen.medium'', row 2 4 True 4 0 [card_of 2 0] ''nitro'' False),
     (''is4gen.xlarge'', row 4 15 True 18 0 [card_of 4 0] ''nitro'' False)]"

definition Limits_m1 :: "(string \<times> vpc_limits) list" where
  "Limits_m1 = [
     (''m1.large'', row 3 10 False 0 0 [card_of 3 0] ''xen'' False),
     (''m1.medium'', row 2 6 False 0 0 [card_of 2 0] ''xen'' False),
     (''m1.small'', row 2 4 False 0 0 [card_of 2 0] ''xen'' False),
     (''m1.xlarge'', row 4 15 False 0 0 [card_of 4 0] ''xen'' False)]"

definition Limits_m2 :: "(string \<times> vpc_limits) list" where
  "Limits_m2 = [
     (''m2.2xlarge'', row 4 30 False 0 0 [card_of 4 0] ''xen'' False),
     (''m2.4xlarge'', row 8 30 False 0 0 [card_of 8 0] ''xen'' False),
     (''m2.xlarge'', row 4 15 False 0 0 [card_of 4 0] ''xen'' False)]"

definition Limits_m3 :: "(string \<times> vpc_limits) list" where
  "Limits_m3 = [
     (''m3.2xlarge'', row 4 30 False 0 0 [card_of 4 0] ''xen'' False),
     (''m3.large'', row 3 10 False 0 0 [card_of 3 0] ''xen'' False),
     (''m3.medium'', row 2 6 False 0 0 [card_of 2 0] ''xen'' False),
     (''m3.xlarge'', row 4 15 False 0 0 [card_of 4 0] ''xen'' False)]"

definition Limits_m4 :: "(string \<times> vpc_limits) list" where
  "Limits_m4 = [
     (''m4.10xlarge'', row 8 30 False 0 0 [card_of 8 0] ''xen'' False),
     (''m4.16xlarge'', row 8 30 False 0 0 [card_of 8 0] ''xen'' False),
     (''m4.2xlarge'', row 4 15 False 0 0 [card_of 4 0] ''xen'' False),
     (''m4.4xlarge'', row 8 30 False 0 0 [card_of 8 0] ''xen'' False),
     (''m4.large'', row 2 10 False 0 0 [card_of 2 0] ''xen'' False),
     (''m4.xlarge'', row 4 15 False 0 0 [card_of 4 0] ''xen'' False)]"

definition Limits_m5 :: "(string \<times> vpc_limits) list" where
  "Limits_m5 = [
     (''m5.12xlarge'', row 8 30 True 54 0 [card_of 8 0] ''nitro'' False),
     (''m5.16xlarge'', row 15 50 True 107 0 [card_of 15 0] ''nitro'' False),
     (''m5.24xlarge'', row 15 50 True 107 0 [card_of 15 0] ''nitro'' False),
     (''m5.2xlarge'', row 4 15 True 38 0 [card_of 4 0] ''nitro'' False),
     (''m5.4xlarge'', row 8 30 True 54 0 [card_of 8 0] ''nitro'' False),
     (''m5.8xlarge'', row 8 30 True 54 0 [card_of 8 0] ''nitro'' False),
     (''m5.large'', row 3 10 True 9 0 [card_of 3 0] ''nitro'' False),
     (''m5.metal'', row 15 50 True 120 0 [card_of 15 0] '''' True),
     (''m5.xlarge'', row 4 15 True 18 0 [card_of 4 0] ''nitro'' False)]"

definition Limits_m5a :: "(string \<times> vpc_limits) list" where
  "Limits_m5a = [
     (''m5a.12xlarge'', row 8 30 True 54 0 [card_of 8 0] ''nitro'' False),
     (''m5a.16xlarge'', row 15 50 True 107 0 [card_of 15 0] ''nitro'' False),
     (''m5a.24xlarge'', row 15 50 True 107 0 [card_of 15 0] ''nitro'' False),
     (''m5a.2xlarge'', row 4 15 True 38 0 [card_of 4 0] ''nitro'' False),
     (''m5a.4xlarge'', row 8 30 True 54 0 [card_of 8 0] ''nitro'' False),
     (''m5a.8xlarge'', row 8 30 True 54 0 [card_of 8 0] ''nitro'' False),
     (''m5a.large'', row 3 10 True 9 0 [card_of 3 0] ''nitro'' False),
     (''m5a.xlarge'', row 4 15 True 18 0 [card_of 4 0] ''nitro'' False)]"

definition Limits_m5ad :: "(string \<times> vpc_limits) list" where
  "Limits_m5ad = [
     (''m5ad.12xlarge'', row 8 30 True 54 0 [card_of 8 0] ''nitro'' False),
     (''m5ad.16xlarge'', row 15 50 True 107 0 [card_of 15 0] ''nitro'' False),
     (''m5ad.24xlarge'', row 15 50 True 107 0 [card_of 15 0] ''nitro'' False),
     (''m5ad.2xlarge'', row 4 15 True 38 0 [card_of 4 0] ''nitro'' False),
     (''m5ad.4xlarge'', row 8 30 True 54 0 [card_of 8 0] ''nitro'' False),
     (''m5ad.8xlarge'', row 8 30 True 54 0 [card_of 8 0] ''nitro'' False),
     (''m5ad.large'', row 3 10 True 9 0 [card_of 3 0] ''nitro'' False),
     (''m5ad.xlarge'', row 4 15 True 18 0 [card_of 4 0] ''nitro'' False)]"

definition Limits_m5d :: "(string \<times> vpc_limits) list" where
  "Limits_m5d = [
     (''m5d.12xlarge'', row 8 30 True 54 0 [card_of 8 0] ''nitro'' False),
     (''m5d.16xlarge'', row 15 50 True 107 0 [card_of 15 0] ''nitro'' False),
     (''m5d.24xlarge'', row 15 50 True 107 0 [card_of 15 0] ''nitro'' False),
     (''m5d.2xlarge'', row 4 15 True 38 0 [card_of 4 0] ''nitro'' False),
     (''m5d.4xlarge'', row 8 30 True 54 0 [card_of 8 0] ''nitro'' False),
     (''m5d.8xlarge'', row 8 30 True 54 0 [card_of 8 0] ''nitro'' False),
     (''m5d.large'', row 3 10 True 9 0 [card_of 3 0] ''nitro'' False),
     (''m5d.metal'', row 15 50 True 107 0 [card_of 15 0] '''' True),
     (''m5d.xlarge'', row 4 15 True 18 0 [card_of 4 0] ''nitro'' False)]"

definition Limits_m5dn :: "(string \<times> vpc_limits) list" where
  "Limits_m5dn = [
     (''m5dn.12xlarge'', row 8 30 True 54 0 [card_of 8 0] ''nitro'' False),
     (''m5dn.16xlarge'', row 15 50 True 107 0 [card_of 15 0] ''nitro'' False),
     (''m5dn.24xlarge'', row 15 50 True 107 0 [card_of 15 0] ''nitro'' False),
     (''m5dn.2xlarge'', row 4 15 True 38 0 [card_of 4 0] ''nitro'' False),
     (''m5dn.4xlarge'', row 8 30 True 54 0 [card_of 8 0] ''nitro'' False),
     (''m5dn.8xlarge'', row 8 30 True 54 0 [card_of 8 0] ''nitro'' False),
     (''m5dn.large'', row 3 10 True 9 0 [card_of 3 0] ''nitro'' False),
     (''m5dn.metal'', row 15 50 True 107 0 [card_of 15 0] '''' True),
     (''m5dn.xlarge'', row 4 15 True 18 0 [card_of 4 0] ''nitro'' False)]"

definition Limits_m5n :: "(string \<times> vpc_limits) list" where
  "Limits_m5n = [
     (''m5n.12xlarge'', row 8 30 True 54 0 [card_of 8 0] ''nitro'' False),
     (''m5n.16xlarge'', row 15 50 True 107 0 [card_of 15 0] ''nitro'' False),
     (''m5n.24xlarge'', row 15 50 True 107 0 [card_of 15 0] ''nitro'' False),
     (''m5n.2xlarge'', row 4 15 True 38 0 [card_of 4 0] ''nitro'' False),
     (''m5n.4xlarge'', row 8 30 True 54 0 [card_of 8 0] ''nitro'' False),
     (''m5n.8xlarge'', row 8 30 True 54 0 [card_of 8 0] ''nitro'' False),
     (''m5n.large'', row 3 10 True 9 0 [card_of 3 0] ''nitro'' False),
     (''m5n.metal'', row 15 50 True 107 0 [card_of 15 0] '''' True),
     (''m5n.xlarge'', row 4 15 True 18 0 [card_of 4 0] ''nitro'' False)]"

definition Limits_m5zn :: "(string \<times> vpc_limits) list" where
  "Limits_m5zn = [
     (''m5zn.12xlarge'', row 15 50 True 107 0 [card_of 15 0] ''nitro'' False),
     (''m5zn.2xlarge'', row 4 15 True 62 0 [card_of 4 0] ''nitro'' False),
     (''m5zn.3xlarge'', row 8 30 True 92 0 [card_of 8 0] ''nitro'' False),
     (''m5zn.6xlarge'', row 8 30 True 114 0 [card_of 8 0] ''nitro'' False),
     (''m5zn.large'', row 3 10 True 13 0 [card_of 3 0] ''nitro'' False),
     (''m5zn.metal'', row 15 50 True 107 0 [card_of 15 0] '''' True),
     (''m5zn.xlarge'', row 4 15 True 29 0 [card_of 4 0] ''nitro'' False)]"

definition Limits_m6a :: "(string \<times> vpc_limits) list" where
  "Limits_m6a = [
     (''m6a.12xlarge'', row 8 30 True 114 0 [card_of 8 0] ''nitro'' False),
     (''m6a.16xlarge'', row 15 50 True 107 0 [card_of 15 0] ''nitro'' False),
     (''m6a.24xlarge'', row 15 50 True 107 0 [card_of 15 0] ''nitro'' False),
     (''m6a.2xlarge'', row 4 15 True 38 0 [card_of 4 0] ''nitro'' False),
     (''m6a.32xlarge'', row 15 50 True 107 0 [card_of 15 0] ''nitro'' False),
     (''m6a.48xlarge'', row 15 50 True 107 0 [card_of 15 0] ''nitro'' False),
     (''m6a.4xlarge'', row 8 30 True 54 0 [card_of 8 0] ''nitro'' False),
     (''m6a.8xlarge'', row 8 30 True 84 0 [card_of 8 0] ''nitro'' False),
     (''m6a.large'', row 3 10 True 9 0 [card_of 3 0] ''nitro'' False),
     (''m6a.metal'', row 15 50 True 107 0 [card_of 15 0] '''' True),
     (''m6a.xlarge'', row 4 15 True 18 0 [card_of 4 0] ''nitro'' False)]"

definition Limits_m6g :: "(string \<times> vpc_limits) list" where
  "Limits_m6g = [
     (''m6g.12xlarge'', row 8 30 True 54 0 [card_of 8 0] ''nitro'' False),
     (''m6g.16xlarge'', row 15 50 True 107 0 [card_of 15 0] ''nitro'' False),
     (''m6g.2xlarge'', row 4 15 True 38 0 [card_of 4 0] ''nitro'' False),
     (''m6g.4xlarge'', row 8 30 True 54 0 [card_of 8 0] ''nitro'' False),
     (''m6g.8xlarge'', row 8 30 True 54 0 [card_of 8 0] ''nitro'' False),
     (''m6g.large'', row 3 10 True 9 0 [card_of 3 0] ''nitro'' False),
     (''m6g.medium'', row 2 4 True 4 0 [card_of 2 0] ''nitro'' False),
     (''m6g.metal'', row 15 50 True 107 0 [card_of 15 0] '''' True),
     (''m6g.xlarge'', row 4 15 True 18 0 [card_of 4 0] ''nitro'' False)]"

definition Limits_m6gd :: "(string \<times> vpc_limits) list" where
  "Limits_m6gd = [
     (''m6gd.12xlarge'', row 8 30 True 54 0 [card_of 8 0] ''nitro'' False),
     (''m6gd.16xlarge'', row 15 50 True 107 0 [card_of 15 0] ''nitro'' False),
     (''m6gd.2xlarge'', row 4 15 True 38 0 [card_of 4 0] ''nitro'' False),
     (''m6gd.4xlarge'', row 8 30 True 54 0 [card_of 8 0] ''nitro'' False),
     (''m6gd.8xlarge'', row 8 30 True 54 0 [card_of 8 0] ''nitro'' False),
     (''m6gd.large'', row 3 10 True 9 0 [card_of 3 0] ''nitro'' False),
     (''m6gd.medium'', row 2 4 True 4 0 [card_of 2 0] ''nitro'' False),
     (''m6gd.metal'', row 15 50 True 107 0 [card_of 15 0] '''' True),
     (''m6gd.xlarge'', row 4 15 True 18 0 [card_of 4 0] ''nitro'' False)]"

definition Limits_m6i :: "(string \<times> vpc_limits) list" where
  "Limits_m6i = [
     (''m6i.12xlarge'', row 8 30 True 114 0 [card_of 8 0] ''nitro'' False),
     (''m6i.16xlarge'', row 15 50 True 107 0 [card_of 15 0] ''nitro'' False),
     (''m6i.24xlarge'', row 15 50 True 107 0 [card_of 15 0] ''nitro'' False),
     (''m6i.2xlarge'', row 4 15 True 38 0 [card_of 4 0] ''nitro'' False),
     (''m6i.32xlarge'', row 15 50 True 107 0 [card_of 15 0] ''nitro'' False),
     (''m6i.4xlarge'', row 8 30 True 54 0 [card_of 8 0] ''nitro'' False),
     (''m6i.8xlarge'', row 8 30 True 84 0 [card_of 8 0] ''nitro'' False),
     (''m6i.large'', row 3 10 True 9 0 [card_of 3 0] ''nitro'' False),
     (''m6i.metal'', row 15 50 True 107 0 [card_of 15 0] '''' True),
     (''m6i.xlarge'', row 4 15 True 18 0 [card_of 4 0] ''nitro'' False)]"

definition Limits_m6id :: "(string \<times> vpc_limits) list" where
  "Limits_m6id = [
     (''m6id.12xlarge'', row 8 30 True 114 0 [card_of 8 0] ''nitro'' False),
     (''m6id.16xlarge'', row 15 50 True 107 0 [card_of 15 0] ''nitro'' False),
     (''m6id.24xlarge'', row 15 50 True 107 0 [card_of 15 0] ''nitro'' False),
     (''m6id.2xlarge'', row 4 15 True 38 0 [card_of 4 0] ''nitro'' False),
     (''m6id.32xlarge'', row 15 50 True 107 0 [card_of 15 0] ''nitro'' False),
     (''m6id.4xlarge'', row 8 30 True 54 0 [card_of 8 0] ''nitro'' False),
     (''m6id.8xlarge'', row 8 30 True 84 0 [card_of 8 0] ''nitro'' False),
     (''m6id.large'', row 3 10 True 9 0 [card_of 3 0] ''nitro'' False),
     (''m6id.metal'', row 15 50 True 107 0 [card_of 15 0] '''' True),
     (''m6id.xlarge'', row 4 15 True 18 0 [card_of 4 0] ''nitro'' False)]"

definition Limits_m6idn :: "(string \<times> vpc_limits) list" where
  "Limits_m6idn = [
     (''m6idn.12xlarge'', row 8 30 True 114 0 [card_of 8 0] ''nitro'' False),
     (''m6idn.16xlarge'', row 15 50 True 107 0 [card_of 15 0] ''nitro'' False),
     (''m6idn.24xlarge'', row 15 50 True 107 0 [card_of 15 0] ''nitro'' False),
     (''m6idn.2xlarge'', row 4 15 True 38 0 [card_of 4 0] ''nitro'' False),
     (''m6idn.32xlarge'', row 16 50 True 106 0 [card_of 8 0, card_of 8 1] ''nitro'' False),
     (''m6idn.4xlarge'', row 8 30 True 54 0 [card_of 8 0] ''nitro'' False),
     (''m6idn.8xlarge'', row 8 30 True 84 0 [card_of 8 0] ''nitro'' False),
     (''m6idn.large'', row 3 10 True 9 0 [card_of 3 0] ''nitro'' False),
     (''m6idn.metal'', row 16 50 True 106 0 [card_of 8 0, card_of 8 1] '''' True),
     (''m6idn.xlarge'', row 4 15 True 18 0 [card_of 4 0] ''nitro'' False)]"

definition Limits_m6in :: "(string \<times> vpc_limits) list" where
  "Limits_m6in = [
     (''m6in.12xlarge'', row 8 30 True 114 0 [card_of 8 0] ''nitro'' False),
     (''m6in.16xlarge'', row 15 50 True 107 0 [card_of 15 0] ''nitro'' False),
     (''m6in.24xlarge'', row 15 50 True 107 0 [card_of 15 0] ''nitro'' False),
     (''m6in.2xlarge'', row 4 15 True 38 0 [card_of 4 0] ''nitro'' False),
     (''m6in.32xlarge'', row 16 50 True 106 0 [card_of 8 0, card_of 8 1] ''nitro'' False),
     (''m6in.4xlarge'', row 8 30 True 54 0 [card_of 8 0] ''nitro'' False),
     (''m6in.8xlarge'', row 8 30 True 84 0 [card_of 8 0] ''nitro'' False),
     (''m6in.large'', row 3 10 True 9 0 [card_of 3 0] ''nitro'' False),
     (''m6in.metal'', row 16 50 True 106 0 [card_of 8 0, card_of 8 1] '''' True),
     (''m6in.xlarge'', row 4 15 True 18 0 [card_of 4 0] ''nitro'' False)]"

definition Limits_m7a :: "(string \<times> vpc_limits) list" where
  "Limits_m7a = [
     (''m7a.12xlarge'', row 8 30 True 114 0 [card_of 8 0] ''nitro'' False),
     (''m7a.16xlarge'', row 15 50 True 107 0 [card_of 15 0] ''nitro'' False),
     (''m7a.24xlarge'', row 15 50 True 107 0 [card_of 15 0] ''nitro'' False),
     (''m7a.2xlarge'', row 4 15 True 38 0 [card_of 4 0] ''nitro'' False),
     (''m7a.32xlarge'', row 15 50 True 107 0 [card_of 15 0] ''nitro'' False),
     (''m7a.48xlarge'', row 15 50 True 107 0 [card_of 15 0] ''nitro'' False),
     (''m7a.4xlarge'', row 8 30 True 54 0 [card_of 8 0] ''nitro'' False),
     (''m7a.8xlarge'', row 8 30 True 84 0 [card_of 8 0] ''nitro'' False),
     (''m7a.large'', row 3 10 True 9 0 [card_of 3 0] ''nitro'' False),
     (''m7a.medium'', row 2 4 True 4 0 [card_of 2 0] ''nitro'' False),
     (''m7a.metal-48xl'', row 15 50 True 107 0 [card_of 15 0] '''' True),
     (''m7a.xlarge'', row 4 15 True 18 0 [card_of 4 0] ''nitro'' False)]"

definition Limits_m7g_flex :: "(string \<times> vpc_limits) list" where
  "Limits_m7g_flex = [
     (''m7g-flex.2xlarge'', row 4 15 True 18 0 [card_of 4 0] ''nitro'' False),
     (''m7g-flex.4xlarge'', row 8 30 True 34 0 [card_of 8 0] ''nitro'' False),
     (''m7g-flex.8xlarge'', row 8 30 True 54 0 [card_of 8 0] ''nitro'' False),
     (''m7g-flex.large'', row 3 10 True 3 0 [card_of 3 0] ''nitro'' False),
     (''m7g-flex.medium'', row 2 4 True 1 0 [card_of 2 0] ''nitro'' False),
     (''m7g-flex.xlarge'', row 4 15 True 8 0 [card_of 4 0] ''nitro'' False)]"

definition Limits_m7g :: "(string \<times> vpc_limits) list" where
  "Limits_m7g = [
     (''m7g.12xlarge'', row 8 30 True 54 0 [card_of 8 0] ''nitro'' False),
     (''m7g.16xlarge'', row 15 50 True 107 0 [card_of 15 0] ''nitro'' False),
     (''m7g.2xlarge'', row 4 15 True 38 0 [card_of 4 0] ''nitro'' False),
     (''m7g.4xlarge'', row 8 30 True 54 0 [card_of 8 0] ''nitro'' False),
     (''m7g.8xlarge'', row 8 30 True 54 0 [card_of 8 0] ''nitro'' False),
     (''m7g.large'', row 3 10 True 9 0 [card_of 3 0] ''nitro'' False),
     (''m7g.medium'', row 2 4 True 4 0 [card_of 2 0] ''nitro'' False),
     (''m7g.metal'', row 15 50 True 107 0 [card_of 15 0] '''' True),
     (''m7g.xlarge'', row 4 15 True 18 0 [card_of 4 0] ''nitro'' False)]"

definition Limits_m7gd :: "(string \<times> vpc_limits) list" where
  "Limits_m7gd = [
     (''m7gd.12xlarge'', row 8 30 True 54 0 [card_of 8 0] ''nitro'' False),
     (''m7gd.16xlarge'', row 15 50 True 107 0 [card_of 15 0] ''nitro'' False),
     (''m7gd.2xlarge'', row 4 15 True 38 0 [card_of 4 0] ''nitro'' False),
     (''m7gd.4xlarge'', row 8 30 True 54 0 [card_of 8 0] ''nitro'' False),
     (''m7gd.8xlarge'', row 8 30 True 54 0 [card_of 8 0] ''nitro'' False),
     (''m7gd.large'', row 3 10 True 9 0 [card_of 3 0] ''nitro'' False),
     (''m7gd.medium'', row 2 4 True 4 0 [card_of 2 0] ''nitro'' False),
     (''m7gd.metal'', row 15 50 True 107 0 [card_of 15 0] '''' True),
     (''m7gd.xlarge'', row 4 15 True 18 0 [card_of 4 0] ''nitro'' False)]"

definition Limits_m7i_flex :: "(string \<times> vpc_limits) list" where
  "Limits_m7i_flex = [
     (''m7i-flex.12xlarge'', row 8 30 True 114 0 [card_of 8 0] ''nitro'' False),
     (''m7i-flex.16xlarge'', row 15 50 True 107 0 [card_of 15 0] ''nitro'' False),
     (''m7i-flex.2xlarge'', row 4 15 True 18 0 [card_of 4 0] ''nitro'' False),
     (''m7i-flex.4xlarge'', row 8 30 True 34 0 [card_of 8 0] ''nitro'' False),
     (''m7i-flex.8xlarge'', row 8 30 True 54 0 [card_of 8 0] ''nitro'' False),
     (''m7i-flex.large'', row 3 10 True 3 0 [card_of 3 0] ''nitro'' False),
     (''m7i-flex.xlarge'', row 4 15 True 8 0 [card_of 4 0] ''nitro'' False)]"

definition Limits_m7i :: "(string \<times> vpc_limits) list" where
  "Limits_m7i = [
     (''m7i.12xlarge'', row 8 30 True 114 0 [card_of 8 0] ''nitro'' False),
     (''m7i.16xlarge'', row 15 50 True 107 0 [card_of 15 0] ''nitro'' False),
     (''m7i.24xlarge'', row 15 50 True 107 0 [card_of 15 0] ''nitro'' False),
     (''m7i.2xlarge'', row 4 15 True 38 0 [card_of 4 0] ''nitro'' False),
     (''m7i.48xlarge'', row 15 50 True 107 0 [card_of 15 0] ''nitro'' False),
     (''m7i.4xlarge'', row 8 30 True 54 0 [card_of 8 0] ''nitro'' False),
     (''m7i.8xlarge'', row 8 30 True 84 0 [card_of 8 0] ''nitro'' False),
     (''m7i.large'', row 3 10 True 9 0 [card_of 3 0] ''nitro'' False),
     (''m7i.metal-24xl'', row 15 50 True 107 0 [card_of 15 0] '''' True),
     (''m7i.metal-48xl'', row 15 50 True 107 0 [card_of 15 0] '''' True),
     (''m7i.xlarge'', row 4 15 True 18 0 [card_of 4 0] ''nitro'' False)]"

definition Limits_m8a :: "(string \<times> vpc_limits) list" where
  "Limits_m8a = [
     (''m8a.12xlarge'', row 12 64 True 110 0 [card_of 12 0] ''nitro'' False),
     (''m8a.16xlarge'', row 16 64 True 106 0 [card_of 16 0] ''nitro'' False),
     (''m8a.24xlarge'', row 16 64 True 106 0 [card_of 16 0] ''nitro'' False),
     (''m8a.2xlarge'', row 4 40 True 38 0 [card_of 4 0] ''nitro'' False),
     (''m8a.48xlarge'', row 24 64 True 98 0 [card_of 24 0] ''nitro'' False),
     (''m8a.4xlarge'', row 8 40 True 54 0 [card_of 8 0] ''nitro'' False),
     (''m8a.8xlarge'', row 10 40 True 82 0 [card_of 10 0] ''nitro'' False),
     (''m8a.large'', row 3 20 True 9 0 [card_of 3 0] ''nitro'' False),
     (''m8a.medium'', row 2 4 True 4 0 [card_of 2 0] ''nitro'' False),
     (''m8a.metal-24xl'', row 16 64 True 106 0 [card_of 16 0] '''' True),
     (''m8a.metal-48xl'', row 24 64 True 98 0 [card_of 24 0] '''' True),
     (''m8a.xlarge'', row 4 20 True 18 0 [card_of 4 0] ''nitro'' False)]"

definition Limits_m8azn :: "(string \<times> vpc_limits) list" where
  "Limits_m8azn = [
     (''m8azn.12xlarge'', row 16 64 True 106 0 [card_of 16 0] ''nitro'' False),
     (''m8azn.24xlarge'', row 16 64 True 106 0 [card_of 16 0] ''nitro'' False),
     (''m8azn.3xlarge'', row 8 40 True 34 0 [card_of 8 0] ''nitro'' False),
     (''m8azn.6xlarge'', row 8 40 True 54 0 [card_of 8 0] ''nitro'' False),
     (''m8azn.large'', row 4 20 True 8 0 [card_of 4 0] ''nitro'' False),
     (''m8azn.medium'', row 3 4 True 3 0 [card_of 3 0] ''nitro'' False),
     (''m8azn.metal-12xl'', row 16 64 True 106 0 [card_of 16 0] '''' True),
     (''m8azn.metal-24xl'', row 16 64 True 106 0 [card_of 16 0] '''' True),
     (''m8azn.xlarge'', row 4 20 True 18 0 [card_of 4 0] ''nitro'' False)]"

definition Limits_m8g_flex :: "(string \<times> vpc_limits) list" where
  "Limits_m8g_flex = [
     (''m8g-flex.12xlarge'', row 8 30 True 54 0 [card_of 8 0] ''nitro'' False),
     (''m8g-flex.16xlarge'', row 15 50 True 47 0 [card_of 15 0] ''nitro'' False),
     (''m8g-flex.2xlarge'', row 4 15 True 18 0 [card_of 4 0] ''nitro'' False),
     (''m8g-flex.4xlarge'', row 8 30 True 34 0 [card_of 8 0] ''nitro'' False),
     (''m8g-flex.8xlarge'', row 8 30 True 54 0 [card_of 8 0] ''nitro'' False),
     (''m8g-flex.large'', row 3 10 True 3 0 [card_of 3 0] ''nitro'' False),
     (''m8g-flex.medium'', row 2 4 True 1 0 [card_of 2 0] ''nitro'' False),
     (''m8g-flex.xlarge'', row 4 15 True 8 0 [card_of 4 0] ''nitro'' False)]"

definition Limits_m8g :: "(string \<times> vpc_limits) list" where
  "Limits_m8g = [
     (''m8g.12xlarge'', row 8 30 True 54 0 [card_of 8 0] ''nitro'' False),
     (''m8g.16xlarge'', row 15 50 True 107 0 [card_of 15 0] ''nitro'' False),
     (''m8g.24xlarge'', row 15 50 True 107 0 [card_of 15 0] ''nitro'' False),
     (''m8g.2xlarge'', row 4 15 True 38 0 [card_of 4 0] ''nitro'' False),
     (''m8g.48xlarge'', row 15 50 True 107 0 [card_of 15 0] ''nitro'' False),
     (''m8g.4xlarge'', row 8 30 True 54 0 [card_of 8 0] ''nitro'' False),
     (''m8g.8xlarge'', row 8 30 True 54 0 [card_of 8 0] ''nitro'' False),
     (''m8g.large'', row 3 10 True 9 0 [card_of 3 0] ''nitro'' False),
     (''m8g.medium'', row 2 4 True 4 0 [card_of 2 0] ''nitro'' False),
     (''m8g.metal-24xl'', row 15 50 True 107 0 [card_of 15 0] '''' True),
     (''m8g.metal-48xl'', row 15 50 True 107 0 [card_of 15 0] '''' True),
     (''m8g.xlarge'', row 4 15 True 18 0 [card_of 4 0] ''nitro'' False)]"

definition Limits_m8gb :: "(string \<times> vpc_limits) list" where
  "Limits_m8gb = [
     (''m8gb.12xlarge'', row 12 30 True 50 0 [card_of 12 0] ''nitro'' False),
     (''m8gb.16xlarge'', row 16 50 True 106 0 [card_of 16 0] ''nitro'' False),
     (''m8gb.24xlarge'', row 24 50 True 98 0 [card_of 24 0] ''nitro'' False),
     (''m8gb.2xlarge'', row 4 15 True 38 0 [card_of 4 0] ''nitro'' False),
     (''m8gb.48xlarge'', row 24 50 True 98 0 [card_of 12 0, card_of 12 1] ''nitro'' False),
     (''m8gb.4xlarge'', row 8 30 True 54 0 [card_of 8 0] ''nitro'' False),
     (''m8gb.8xlarge'', row 10 30 True 52 0 [card_of 10 0] ''nitro'' False),
     (''m8gb.large'', row 3 10 True 9 0 [card_of 3 0] ''nitro'' False),
     (''m8gb.medium'', row 2 4 True 4 0 [card_of 2 0] ''nitro'' False),
     (''m8gb.metal-24xl'', row 24 50 True 98 0 [card_of 24 0] '''' True),
     (''m8gb.metal-48xl'', row 24 50 True 98 0 [card_of 12 0, card_of 12 1] '''' True),
     (''m8gb.xlarge'', row 4 15 True 18 0 [card_of 4 0] ''nitro'' False)]"

definition Limits_m8gd :: "(string \<times> vpc_limits) list" where
  "Limits_m8gd = [
     (''m8gd.12xlarge'', row 8 30 True 54 0 [card_of 8 0] ''nitro'' False),
     (''m8gd.16xlarge'', row 15 50 True 107 0 [card_of 15 0] ''nitro'' False),
     (''m8gd.24xlarge'', row 15 50 True 107 0 [card_of 15 0] ''nitro'' False),
     (''m8gd.2xlarge'', row 4 15 True 38 0 [card_of 4 0] ''nitro'' False),
     (''m8gd.48xlarge'', row 15 50 True 107 0 [card_of 15 0] ''nitro'' False),
     (''m8gd.4xlarge'', row 8 30 True 54 0 [card_of 8 0] ''nitro'' False),
     (''m8gd.8xlarge'', row 8 30 True 54 0 [card_of 8 0] ''nitro'' False),
     (''m8gd.large'', row 3 10 True 9 0 [card_of 3 0] ''nitro'' False),
     (''m8gd.medium'', row 2 4 True 4 0 [card_of 2 0] ''nitro'' False),
     (''m8gd.metal-24xl'', row 15 50 True 107 0 [card_of 15 0] '''' True),
     (''m8gd.metal-48xl'', row 15 50 True 107 0 [card_of 15 0] '''' True),
     (''m8gd.xlarge'', row 4 15 True 18 0 [card_of 4 0] ''nitro'' False)]"

definition Limits_m8gn :: "(string \<times> vpc_limits) list" where
  "Limits_m8gn = [
     (''m8gn.12xlarge'', row 12 30 True 50 0 [card_of 12 0] ''nitro'' False),
     (''m8gn.16xlarge'', row 16 50 True 106 0 [card_of 16 0] ''nitro'' False),
     (''m8gn.24xlarge'', row 24 50 True 98 0 [card_of 24 0] ''nitro'' False),
     (''m8gn.2xlarge'', row 4 15 True 38 0 [card_of 4 0] ''nitro'' False),
     (''m8gn.48xlarge'', row 24 50 True 98 0 [card_of 12 0, card_of 12 1] ''nitro'' False),
     (''m8gn.4xlarge'', row 8 30 True 54 0 [card_of 8 0] ''nitro'' False),
     (''m8gn.8xlarge'', row 10 30 True 52 0 [card_of 10 0] ''nitro'' False),
     (''m8gn.large'', row 3 10 True 9 0 [card_of 3 0] ''nitro'' False),
     (''m8gn.medium'', row 2 4 True 4 0 [card_of 2 0] ''nitro'' False),
     (''m8gn.metal-24xl'', row 24 50 True 98 0 [card_of 24 0] '''' True),
     (''m8gn.metal-48xl'', row 24 50 True 98 0 [card_of 12 0, card_of 12 1] '''' True),
     (''m8gn.xlarge'', row 4 15 True 18 0 [card_of 4 0] ''nitro'' False)]"

definition Limits_m8i_flex :: "(string \<times> vpc_limits) list" where
  "Limits_m8i_flex = [
     (''m8i-flex.12xlarge'', row 12 50 True 110 0 [card_of 12 0] ''nitro'' False),
     (''m8i-flex.16xlarge'', row 16 64 True 106 0 [card_of 16 0] ''nitro'' False),
     (''m8i-flex.2xlarge'', row 4 30 True 18 0 [card_of 4 0] ''nitro'' False),
     (''m8i-flex.4xlarge'', row 8 50 True 34 0 [card_of 8 0] ''nitro'' False),
     (''m8i-flex.8xlarge'', row 10 50 True 52 0 [card_of 10 0] ''nitro'' False),
     (''m8i-flex.large'', row 3 20 True 3 0 [card_of 3 0] ''nitro'' False),
     (''m8i-flex.xlarge'', row 4 30 True 8 0 [card_of 4 0] ''nitro'' False)]"

definition Limits_m8i :: "(string \<times> vpc_limits) list" where
  "Limits_m8i = [
     (''m8i.12xlarge'', row 12 50 True 110 0 [card_of 12 0] ''nitro'' False),
     (''m8i.16xlarge'', row 16 64 True 106 0 [card_of 16 0] ''nitro'' False),
     (''m8i.24xlarge'', row 16 64 True 106 0 [card_of 16 0] ''nitro'' False),
     (''m8i.2xlarge'', row 4 30 True 38 0 [card_of 4 0] ''nitro'' False),
     (''m8i.32xlarge'', row 24 64 True 98 0 [card_of 24 0] ''nitro'' False),
     (''m8i.48xlarge'', row 24 64 True 98 0 [card_of 24 0] ''nitro'' False),
     (''m8i.4xlarge'', row 8 50 True 54 0 [card_of 8 0] ''nitro'' False),
     (''m8i.8xlarge'', row 10 50 True 82 0 [card_of 10 0] ''nitro'' False),
     (''m8i.96xlarge'', row 24 64 True 98 0 [card_of 24 0] ''nitro'' False),
     (''m8i.large'', row 3 20 True 9 0 [card_of 3 0] ''nitro'' False),
     (''m8i.metal-48xl'', row 24 64 True 98 0 [card_of 24 0] '''' True),
     (''m8i.metal-96xl'', row 24 64 True 98 0 [card_of 24 0] '''' True),
     (''m8i.xlarge'', row 4 30 True 18 0 [card_of 4 0] ''nitro'' False)]"

definition Limits_m8ib :: "(string \<times> vpc_limits) list" where
  "Limits_m8ib = [
     (''m8ib.12xlarge'', row 12 50 True 110 0 [card_of 12 0] ''nitro'' False),
     (''m8ib.16xlarge'', row 16 64 True 106 0 [card_of 16 0] ''nitro'' False),
     (''m8ib.24xlarge'', row 16 64 True 106 0 [card_of 16 0] ''nitro'' False),
     (''m8ib.2xlarge'', row 4 30 True 38 0 [card_of 4 0] ''nitro'' False),
     (''m8ib.32xlarge'', row 16 64 True 106 0 [card_of 16 0] ''nitro'' False),
     (''m8ib.48xlarge'', row 24 64 True 98 0 [card_of 24 0] ''nitro'' False),
     (''m8ib.4xlarge'', row 8 50 True 54 0 [card_of 8 0] ''nitro'' False),
     (''m8ib.8xlarge'', row 8 50 True 84 0 [card_of 8 0] ''nitro'' False),
     (''m8ib.96xlarge'', row 24 64 True 98 0 [card_of 12 0, card_of 12 1] ''nitro'' False),
     (''m8ib.large'', row 4 20 True 8 0 [card_of 4 0] ''nitro'' False),
     (''m8ib.metal-48xl'', row 24 64 True 98 0 [card_of 24 0] '''' True),
     (''m8ib.metal-96xl'', row 24 64 True 98 0 [card_of 12 0, card_of 12 1] '''' True),
     (''m8ib.xlarge'', row 4 30 True 18 0 [card_of 4 0] ''nitro'' False)]"

definition Limits_m8id :: "(string \<times> vpc_limits) list" where
  "Limits_m8id = [
     (''m8id.12xlarge'', row 12 50 True 110 0 [card_of 12 0] ''nitro'' False),
     (''m8id.16xlarge'', row 16 64 True 106 0 [card_of 16 0] ''nitro'' False),
     (''m8id.24xlarge'', row 16 64 True 106 0 [card_of 16 0] ''nitro'' False),
     (''m8id.2xlarge'', row 4 30 True 38 0 [card_of 4 0] ''nitro'' False),
     (''m8id.32xlarge'', row 24 64 True 98 0 [card_of 24 0] ''nitro'' False),
     (''m8id.48xlarge'', row 24 64 True 98 0 [card_of 24 0] ''nitro'' False),
     (''m8id.4xlarge'', row 8 50 True 54 0 [card_of 8 0] ''nitro'' False),
     (''m8id.8xlarge'', row 10 50 True 82 0 [card_of 10 0] ''nitro'' False),
     (''m8id.96xlarge'', row 24 64 True 98 0 [card_of 24 0] ''nitro'' False),
     (''m8id.large'', row 3 20 True 9 0 [card_of 3 0] ''nitro'' False),
     (''m8id.metal-48xl'', row 24 64 True 98 0 [card_of 24 0] '''' True),
     (''m8id.metal-96xl'', row 24 64 True 98 0 [card_of 24 0] '''' True),
     (''m8id.xlarge'', row 4 30 True 18 0 [card_of 4 0] ''nitro'' False)]"

definition Limits_m8idb :: "(string \<times> vpc_limits) list" where
  "Limits_m8idb = [
     (''m8idb.12xlarge'', row 12 50 True 110 0 [card_of 12 0] ''nitro'' False),
     (''m8idb.16xlarge'', row 16 64 True 106 0 [card_of 16 0] ''nitro'' False),
     (''m8idb.24xlarge'', row 16 64 True 106 0 [card_of 16 0] ''nitro'' False),
     (''m8idb.2xlarge'', row 4 30 True 38 0 [card_of 4 0] ''nitro'' False),
     (''m8idb.32xlarge'', row 16 64 True 106 0 [card_of 16 0] ''nitro'' False),
     (''m8idb.48xlarge'', row 24 64 True 98 0 [card_of 24 0] ''nitro'' False),
     (''m8idb.4xlarge'', row 8 50 True 54 0 [card_of 8 0] ''nitro'' False),
     (''m8idb.8xlarge'', row 8 50 True 84 0 [card_of 8 0] ''nitro'' False),
     (''m8idb.96xlarge'', row 24 64 True 98 0 [card_of 12 0, card_of 12 1] ''nitro'' False),
     (''m8idb.large'', row 4 20 True 8 0 [card_of 4 0] ''nitro'' False),
     (''m8idb.metal-48xl'', row 24 64 True 98 0 [card_of 24 0] '''' True),
     (''m8idb.metal-96xl'', row 24 64 True 98 0 [card_of 12 0, card_of 12 1] '''' True),
     (''m8idb.xlarge'', row 4 30 True 18 0 [card_of 4 0] ''nitro'' False)]"

definition Limits_m8idn :: "(string \<times> vpc_limits) list" where
  "Limits_m8idn = [
     (''m8idn.12xlarge'', row 12 50 True 110 0 [card_of 12 0] ''nitro'' False),
     (''m8idn.16xlarge'', row 16 64 True 106 0 [card_of 16 0] ''nitro'' False),
     (''m8idn.24xlarge'', row 16 64 True 106 0 [card_of 16 0] ''nitro'' False),
     (''m8idn.2xlarge'', row 4 30 True 38 0 [card_of 4 0] ''nitro'' False),
     (''m8idn.32xlarge'', row 16 64 True 106 0 [card_of 16 0] ''nitro'' False),
     (''m8idn.48xlarge'', row 24 64 True 98 0 [card_of 24 0] ''nitro'' False),
     (''m8idn.4xlarge'', row 8 50 True 54 0 [card_of 8 0] ''nitro'' False),
     (''m8idn.8xlarge'', row 8 50 True 84 0 [card_of 8 0] ''nitro'' False),
     (''m8idn.96xlarge'', row 24 64 True 98 0 [card_of 12 0, card_of 12 1] ''nitro'' False),
     (''m8idn.large'', row 4 20 True 8 0 [card_of 4 0] ''nitro'' False),
     (''m8idn.metal-48xl'', row 24 64 True 98 0 [card_of 24 0] '''' True),
     (''m8idn.metal-96xl'', row 24 64 True 98 0 [card_of 12 0, card_of 12 1] '''' True),
     (''m8idn.xlarge'', row 4 30 True 18 0 [card_of 4 0] ''nitro'' False)]"

definition Limits_m8in :: "(string \<times> vpc_limits) list" where
  "Limits_m8in = [
     (''m8in.12xlarge'', row 12 50 True 110 0 [card_of 12 0] ''nitro'' False),
     (''m8in.16xlarge'', row 16 64 True 106 0 [card_of 16 0] ''nitro'' False),
     (''m8in.24xlarge'', row 16 64 True 106 0 [card_of 16 0] ''nitro'' False),
     (''m8in.2xlarge'', row 4 30 True 38 0 [card_of 4 0] ''nitro'' False),
     (''m8in.32xlarge'', row 16 64 True 106 0 [card_of 16 0] ''nitro'' False),
     (''m8in.48xlarge'', row 24 64 True 98 0 [card_of 24 0] ''nitro'' False),
     (''m8in.4xlarge'', row 8 50 True 54 0 [card_of 8 0] ''nitro'' False),
     (''m8in.8xlarge'', row 8 50 True 84 0 [card_of 8 0] ''nitro'' False),
     (''m8in.96xlarge'', row 24 64 True 98 0 [card_of 12 0, card_of 12 1] ''nitro'' False),
     (''m8in.large'', row 4 20 True 8 0 [card_of 4 0] ''nitro'' False),
     (''m8in.metal-48xl'', row 24 64 True 98 0 [card_of 24 0] '''' True),
     (''m8in.metal-96xl'', row 24 64 True 98 0 [card_of 12 0, card_of 12 1] '''' True),
     (''m8in.xlarge'', row 4 30 True 18 0 [card_of 4 0] ''nitro'' False)]"

definition Limits_m8ine :: "(string \<times> vpc_limits) list" where
  "Limits_m8ine = [
     (''m8ine.12xlarge'', row 12 50 True 110 0 [card_of 12 0] ''nitro'' False),
     (''m8ine.2xlarge'', row 4 30 True 38 0 [card_of 4 0] ''nitro'' False),
     (''m8ine.4xlarge'', row 8 50 True 54 0 [card_of 8 0] ''nitro'' False),
     (''m8ine.8xlarge'', row 8 50 True 84 0 [card_of 8 0] ''nitro'' False),
     (''m8ine.large'', row 4 20 True 8 0 [card_of 4 0] ''nitro'' False),
     (''m8ine.xlarge'', row 4 30 True 18 0 [card_of 4 0] ''nitro'' False)]"

definition Limits_m9g :: "(string \<times> vpc_limits) list" where
  "Limits_m9g = [
     (''m9g.12xlarge'', row 12 50 True 50 0 [card_of 12 0] ''nitro'' False),
     (''m9g.16xlarge'', row 16 64 True 106 0 [card_of 16 0] ''nitro'' False),
     (''m9g.24xlarge'', row 24 64 True 98 0 [card_of 24 0] ''nitro'' False),
     (''m9g.2xlarge'', row 4 30 True 38 0 [card_of 4 0] ''nitro'' False),
     (''m9g.48xlarge'', row 24 64 True 98 0 [card_of 24 0] ''nitro'' False),
     (''m9g.4xlarge'', row 8 50 True 54 0 [card_of 8 0] ''nitro'' False),
     (''m9g.8xlarge'', row 10 50 True 52 0 [card_of 10 0] ''nitro'' False),
     (''m9g.large'', row 3 20 True 9 0 [card_of 3 0] ''nitro'' False),
     (''m9g.medium'', row 2 20 True 4 0 [card_of 2 0] ''nitro'' False),
     (''m9g.metal-48xl'', row 24 64 True 98 0 [card_of 24 0] '''' True),
     (''m9g.xlarge'', row 4 30 True 18 0 [card_of 4 0] ''nitro'' False)]"

definition Limits_m9gd :: "(string \<times> vpc_limits) list" where
  "Limits_m9gd = [
     (''m9gd.12xlarge'', row 12 50 True 50 0 [card_of 12 0] ''nitro'' False),
     (''m9gd.16xlarge'', row 16 64 True 106 0 [card_of 16 0] ''nitro'' False),
     (''m9gd.24xlarge'', row 24 64 True 98 0 [card_of 24 0] ''nitro'' False),
     (''m9gd.2xlarge'', row 4 30 True 38 0 [card_of 4 0] ''nitro'' False),
     (''m9gd.48xlarge'', row 24 64 True 98 0 [card_of 24 0] ''nitro'' False),
     (''m9gd.4xlarge'', row 8 50 True 54 0 [card_of 8 0] ''nitro'' False),
     (''m9gd.8xlarge'', row 10 50 True 52 0 [card_of 10 0] ''nitro'' False),
     (''m9gd.large'', row 3 20 True 9 0 [card_of 3 0] ''nitro'' False),
     (''m9gd.medium'', row 2 20 True 4 0 [card_of 2 0] ''nitro'' False),
     (''m9gd.metal-48xl'', row 24 64 True 98 0 [card_of 24 0] '''' True),
     (''m9gd.xlarge'', row 4 30 True 18 0 [card_of 4 0] ''nitro'' False)]"

definition Limits_mac_m3ultra :: "(string \<times> vpc_limits) list" where
  "Limits_mac_m3ultra = [
     (''mac-m3ultra.metal'', row 8 30 True 6 0 [card_of 8 0] '''' True)]"

definition Limits_mac_m4 :: "(string \<times> vpc_limits) list" where
  "Limits_mac_m4 = [
     (''mac-m4.metal'', row 8 30 True 6 0 [card_of 8 0] '''' True)]"

definition Limits_mac_m4max :: "(string \<times> vpc_limits) list" where
  "Limits_mac_m4max = [
     (''mac-m4max.metal'', row 8 30 True 6 0 [card_of 8 0] '''' True)]"

definition Limits_mac_m4pro :: "(string \<times> vpc_limits) list" where
  "Limits_mac_m4pro = [
     (''mac-m4pro.metal'', row 8 30 True 6 0 [card_of 8 0] '''' True)]"

definition Limits_mac1 :: "(string \<times> vpc_limits) list" where
  "Limits_mac1 = [
     (''mac1.metal'', row 8 30 True 6 0 [card_of 8 0] '''' True)]"

definition Limits_mac2_m1ultra :: "(string \<times> vpc_limits) list" where
  "Limits_mac2_m1ultra = [
     (''mac2-m1ultra.metal'', row 8 30 True 6 0 [card_of 8 0] '''' True)]"

definition Limits_mac2_m2 :: "(string \<times> vpc_limits) list" where
  "Limits_mac2_m2 = [
     (''mac2-m2.metal'', row 8 30 True 6 0 [card_of 8 0] '''' True)]"

definition Limits_mac2_m2pro :: "(string \<times> vpc_limits) list" where
  "Limits_mac2_m2pro = [
     (''mac2-m2pro.metal'', row 8 30 True 6 0 [card_of 8 0] '''' True)]"

definition Limits_mac2 :: "(string \<times> vpc_limits) list" where
  "Limits_mac2 = [
     (''mac2.metal'', row 8 30 True 6 0 [card_of 8 0] '''' True)]"

definition Limits_p3 :: "(string \<times> vpc_limits) list" where
  "Limits_p3 = [
     (''p3.16xlarge'', row 8 30 False 0 0 [card_of 8 0] ''xen'' False),
     (''p3.2xlarge'', row 4 15 False 0 0 [card_of 4 0] ''xen'' False),
     (''p3.8xlarge'', row 8 30 False 0 0 [card_of 8 0] ''xen'' False)]"

definition Limits_p3dn :: "(string \<times> vpc_limits) list" where
  "Limits_p3dn = [
     (''p3dn.24xlarge'', row 15 50 True 107 0 [card_of 15 0] ''nitro'' False)]"

definition Limits_p4d :: "(string \<times> vpc_limits) list" where
  "Limits_p4d = [
     (''p4d.24xlarge'', row 60 50 True 62 0 [card_of 15 0, card_of 15 1, card_of 15 2, card_of 15 3] ''nitro'' False)]"

definition Limits_p4de :: "(string \<times> vpc_limits) list" where
  "Limits_p4de = [
     (''p4de.24xlarge'', row 60 50 True 62 0 [card_of 15 0, card_of 15 1, card_of 15 2, card_of 15 3] ''nitro'' False)]"

definition Limits_p5 :: "(string \<times> vpc_limits) list" where
  "Limits_p5 = [
     (''p5.48xlarge'', row 64 50 True 120 0 [card_of 2 0, card_of 2 1, card_of 2 2, card_of 2 3, card_of 2 4, card_of 2 5, card_of 2 6, card_of 2 7, card_of 2 8, card_of 2 9, card_of 2 10, card_of 2 11, card_of 2 12, card_of 2 13, card_of 2 14, card_of 2 15, card_of 2 16, card_of 2 17, card_of 2 18, card_of 2 19, card_of 2 20, card_of 2 21, card_of 2 22, card_of 2 23, card_of 2 24, card_of 2 25, card_of 2 26, card_of 2 27, card_of 2 28, card_of 2 29, card_of 2 30, card_of 2 31] ''nitro'' False),
     (''p5.4xlarge'', row 4 30 True 58 0 [card_of 4 0] ''nitro'' False)]"

definition Limits_p5e :: "(string \<times> vpc_limits) list" where
  "Limits_p5e = [
     (''p5e.48xlarge'', row 64 50 True 120 0 [card_of 2 0, card_of 2 1, card_of 2 2, card_of 2 3, card_of 2 4, card_of 2 5, card_of 2 6, card_of 2 7, card_of 2 8, card_of 2 9, card_of 2 10, card_of 2 11, card_of 2 12, card_of 2 13, card_of 2 14, card_of 2 15, card_of 2 16, card_of 2 17, card_of 2 18, card_of 2 19, card_of 2 20, card_of 2 21, card_of 2 22, card_of 2 23, card_of 2 24, card_of 2 25, card_of 2 26, card_of 2 27, card_of 2 28, card_of 2 29, card_of 2 30, card_of 2 31] ''nitro'' False)]"

definition Limits_p5en :: "(string \<times> vpc_limits) list" where
  "Limits_p5en = [
     (''p5en.48xlarge'', row 64 50 True 120 0 [card_of 4 0, card_of 4 1, card_of 4 2, card_of 4 3, card_of 4 4, card_of 4 5, card_of 4 6, card_of 4 7, card_of 4 8, card_of 4 9, card_of 4 10, card_of 4 11, card_of 4 12, card_of 4 13, card_of 4 14, card_of 4 15] ''nitro'' False)]"

definition Limits_p6_b200 :: "(string \<times> vpc_limits) list" where
  "Limits_p6_b200 = [
     (''p6-b200.48xlarge'', row 32 50 True 120 0 [card_of 4 0, card_of 4 1, card_of 4 2, card_of 4 3, card_of 4 4, card_of 4 5, card_of 4 6, card_of 4 7] ''nitro'' False)]"

definition Limits_p6_b300 :: "(string \<times> vpc_limits) list" where
  "Limits_p6_b300 = [
     (''p6-b300.48xlarge'', row 68 50 True 120 0 [card_of 4 0, card_of 4 1, card_of 4 2, card_of 4 3, card_of 4 4, card_of 4 5, card_of 4 6, card_of 4 7, card_of 4 8, card_of 4 9, card_of 4 10, card_of 4 11, card_of 4 12, card_of 4 13, card_of 4 14, card_of 4 15, card_of 4 16] ''nitro'' False)]"

definition Limits_r3 :: "(string \<times> vpc_limits) list" where
  "Limits_r3 = [
     (''r3.2xlarge'', row 4 15 False 0 0 [card_of 4 0] ''xen'' False),
     (''r3.4xlarge'', row 8 30 False 0 0 [card_of 8 0] ''xen'' False),
     (''r3.8xlarge'', row 8 30 False 0 0 [card_of 8 0] ''xen'' False),
     (''r3.large'', row 3 10 False 0 0 [card_of 3 0] ''xen'' False),
     (''r3.xlarge'', row 4 15 False 0 0 [card_of 4 0] ''xen'' False)]"

definition Limits_r4 :: "(string \<times> vpc_limits) list" where
  "Limits_r4 = [
     (''r4.16xlarge'', row 15 50 False 0 0 [card_of 15 0] ''xen'' False),
     (''r4.2xlarge'', row 4 15 False 0 0 [card_of 4 0] ''xen'' False),
     (''r4.4xlarge'', row 8 30 False 0 0 [card_of 8 0] ''xen'' False),
     (''r4.8xlarge'', row 8 30 False 0 0 [card_of 8 0] ''xen'' False),
     (''r4.large'', row 3 10 False 0 0 [card_of 3 0] ''xen'' False),
     (''r4.xlarge'', row 4 15 False 0 0 [card_of 4 0] ''xen'' False)]"

definition Limits_r5 :: "(string \<times> vpc_limits) list" where
  "Limits_r5 = [
     (''r5.12xlarge'', row 8 30 True 54 0 [card_of 8 0] ''nitro'' False),
     (''r5.16xlarge'', row 15 50 True 107 0 [card_of 15 0] ''nitro'' False),
     (''r5.24xlarge'', row 15 50 True 107 0 [card_of 15 0] ''nitro'' False),
     (''r5.2xlarge'', row 4 15 True 38 0 [card_of 4 0] ''nitro'' False),
     (''r5.4xlarge'', row 8 30 True 54 0 [card_of 8 0] ''nitro'' False),
     (''r5.8xlarge'', row 8 30 True 54 0 [card_of 8 0] ''nitro'' False),
     (''r5.large'', row 3 10 True 9 0 [card_of 3 0] ''nitro'' False),
     (''r5.metal'', row 15 50 True 120 0 [card_of 15 0] '''' True),
     (''r5.xlarge'', row 4 15 True 18 0 [card_of 4 0] ''nitro'' False)]"

definition Limits_r5a :: "(string \<times> vpc_limits) list" where
  "Limits_r5a = [
     (''r5a.12xlarge'', row 8 30 True 54 0 [card_of 8 0] ''nitro'' False),
     (''r5a.16xlarge'', row 15 50 True 107 0 [card_of 15 0] ''nitro'' False),
     (''r5a.24xlarge'', row 15 50 True 107 0 [card_of 15 0] ''nitro'' False),
     (''r5a.2xlarge'', row 4 15 True 38 0 [card_of 4 0] ''nitro'' False),
     (''r5a.4xlarge'', row 8 30 True 54 0 [card_of 8 0] ''nitro'' False),
     (''r5a.8xlarge'', row 8 30 True 54 0 [card_of 8 0] ''nitro'' False),
     (''r5a.large'', row 3 10 True 9 0 [card_of 3 0] ''nitro'' False),
     (''r5a.xlarge'', row 4 15 True 18 0 [card_of 4 0] ''nitro'' False)]"

definition Limits_r5ad :: "(string \<times> vpc_limits) list" where
  "Limits_r5ad = [
     (''r5ad.12xlarge'', row 8 30 True 54 0 [card_of 8 0] ''nitro'' False),
     (''r5ad.16xlarge'', row 15 50 True 107 0 [card_of 15 0] ''nitro'' False),
     (''r5ad.24xlarge'', row 15 50 True 107 0 [card_of 15 0] ''nitro'' False),
     (''r5ad.2xlarge'', row 4 15 True 38 0 [card_of 4 0] ''nitro'' False),
     (''r5ad.4xlarge'', row 8 30 True 54 0 [card_of 8 0] ''nitro'' False),
     (''r5ad.8xlarge'', row 8 30 True 54 0 [card_of 8 0] ''nitro'' False),
     (''r5ad.large'', row 3 10 True 9 0 [card_of 3 0] ''nitro'' False),
     (''r5ad.xlarge'', row 4 15 True 18 0 [card_of 4 0] ''nitro'' False)]"

definition Limits_r5b :: "(string \<times> vpc_limits) list" where
  "Limits_r5b = [
     (''r5b.12xlarge'', row 8 30 True 54 0 [card_of 8 0] ''nitro'' False),
     (''r5b.16xlarge'', row 15 50 True 107 0 [card_of 15 0] ''nitro'' False),
     (''r5b.24xlarge'', row 15 50 True 107 0 [card_of 15 0] ''nitro'' False),
     (''r5b.2xlarge'', row 4 15 True 38 0 [card_of 4 0] ''nitro'' False),
     (''r5b.4xlarge'', row 8 30 True 54 0 [card_of 8 0] ''nitro'' False),
     (''r5b.8xlarge'', row 8 30 True 54 0 [card_of 8 0] ''nitro'' False),
     (''r5b.large'', row 3 10 True 9 0 [card_of 3 0] ''nitro'' False),
     (''r5b.metal'', row 15 50 True 107 0 [card_of 15 0] '''' True),
     (''r5b.xlarge'', row 4 15 True 18 0 [card_of 4 0] ''nitro'' False)]"

definition Limits_r5d :: "(string \<times> vpc_limits) list" where
  "Limits_r5d = [
     (''r5d.12xlarge'', row 8 30 True 54 0 [card_of 8 0] ''nitro'' False),
     (''r5d.16xlarge'', row 15 50 True 107 0 [card_of 15 0] ''nitro'' False),
     (''r5d.24xlarge'', row 15 50 True 107 0 [card_of 15 0] ''nitro'' False),
     (''r5d.2xlarge'', row 4 15 True 38 0 [card_of 4 0] ''nitro'' False),
     (''r5d.4xlarge'', row 8 30 True 54 0 [card_of 8 0] ''nitro'' False),
     (''r5d.8xlarge'', row 8 30 True 54 0 [card_of 8 0] ''nitro'' False),
     (''r5d.large'', row 3 10 True 9 0 [card_of 3 0] ''nitro'' False),
     (''r5d.metal'', row 15 50 True 107 0 [card_of 15 0] '''' True),
     (''r5d.xlarge'', row 4 15 True 18 0 [card_of 4 0] ''nitro'' False)]"

definition Limits_r5dn :: "(string \<times> vpc_limits) list" where
  "Limits_r5dn = [
     (''r5dn.12xlarge'', row 8 30 True 54 0 [card_of 8 0] ''nitro'' False),
     (''r5dn.16xlarge'', row 15 50 True 107 0 [card_of 15 0] ''nitro'' False),
     (''r5dn.24xlarge'', row 15 50 True 107 0 [card_of 15 0] ''nitro'' False),
     (''r5dn.2xlarge'', row 4 15 True 38 0 [card_of 4 0] ''nitro'' False),
     (''r5dn.4xlarge'', row 8 30 True 54 0 [card_of 8 0] ''nitro'' False),
     (''r5dn.8xlarge'', row 8 30 True 54 0 [card_of 8 0] ''nitro'' False),
     (''r5dn.large'', row 3 10 True 9 0 [card_of 3 0] ''nitro'' False),
     (''r5dn.metal'', row 15 50 True 107 0 [card_of 15 0] '''' True),
     (''r5dn.xlarge'', row 4 15 True 18 0 [card_of 4 0] ''nitro'' False)]"

definition Limits_r5n :: "(string \<times> vpc_limits) list" where
  "Limits_r5n = [
     (''r5n.12xlarge'', row 8 30 True 54 0 [card_of 8 0] ''nitro'' False),
     (''r5n.16xlarge'', row 15 50 True 107 0 [card_of 15 0] ''nitro'' False),
     (''r5n.24xlarge'', row 15 50 True 107 0 [card_of 15 0] ''nitro'' False),
     (''r5n.2xlarge'', row 4 15 True 38 0 [card_of 4 0] ''nitro'' False),
     (''r5n.4xlarge'', row 8 30 True 54 0 [card_of 8 0] ''nitro'' False),
     (''r5n.8xlarge'', row 8 30 True 54 0 [card_of 8 0] ''nitro'' False),
     (''r5n.large'', row 3 10 True 9 0 [card_of 3 0] ''nitro'' False),
     (''r5n.metal'', row 15 50 True 107 0 [card_of 15 0] '''' True),
     (''r5n.xlarge'', row 4 15 True 18 0 [card_of 4 0] ''nitro'' False)]"

definition Limits_r6a :: "(string \<times> vpc_limits) list" where
  "Limits_r6a = [
     (''r6a.12xlarge'', row 8 30 True 114 0 [card_of 8 0] ''nitro'' False),
     (''r6a.16xlarge'', row 15 50 True 107 0 [card_of 15 0] ''nitro'' False),
     (''r6a.24xlarge'', row 15 50 True 107 0 [card_of 15 0] ''nitro'' False),
     (''r6a.2xlarge'', row 4 15 True 38 0 [card_of 4 0] ''nitro'' False),
     (''r6a.32xlarge'', row 15 50 True 107 0 [card_of 15 0] ''nitro'' False),
     (''r6a.48xlarge'', row 15 50 True 107 0 [card_of 15 0] ''nitro'' False),
     (''r6a.4xlarge'', row 8 30 True 54 0 [card_of 8 0] ''nitro'' False),
     (''r6a.8xlarge'', row 8 30 True 84 0 [card_of 8 0] ''nitro'' False),
     (''r6a.large'', row 3 10 True 9 0 [card_of 3 0] ''nitro'' False),
     (''r6a.metal'', row 15 50 True 107 0 [card_of 15 0] '''' True),
     (''r6a.xlarge'', row 4 15 True 18 0 [card_of 4 0] ''nitro'' False)]"

definition Limits_r6g :: "(string \<times> vpc_limits) list" where
  "Limits_r6g = [
     (''r6g.12xlarge'', row 8 30 True 54 0 [card_of 8 0] ''nitro'' False),
     (''r6g.16xlarge'', row 15 50 True 107 0 [card_of 15 0] ''nitro'' False),
     (''r6g.2xlarge'', row 4 15 True 38 0 [card_of 4 0] ''nitro'' False),
     (''r6g.4xlarge'', row 8 30 True 54 0 [card_of 8 0] ''nitro'' False),
     (''r6g.8xlarge'', row 8 30 True 54 0 [card_of 8 0] ''nitro'' False),
     (''r6g.large'', row 3 10 True 9 0 [card_of 3 0] ''nitro'' False),
     (''r6g.medium'', row 2 4 True 4 0 [card_of 2 0] ''nitro'' False),
     (''r6g.metal'', row 15 50 True 107 0 [card_of 15 0] '''' True),
     (''r6g.xlarge'', row 4 15 True 18 0 [card_of 4 0] ''nitro'' False)]"

definition Limits_r6gd :: "(string \<times> vpc_limits) list" where
  "Limits_r6gd = [
     (''r6gd.12xlarge'', row 8 30 True 54 0 [card_of 8 0] ''nitro'' False),
     (''r6gd.16xlarge'', row 15 50 True 107 0 [card_of 15 0] ''nitro'' False),
     (''r6gd.2xlarge'', row 4 15 True 38 0 [card_of 4 0] ''nitro'' False),
     (''r6gd.4xlarge'', row 8 30 True 54 0 [card_of 8 0] ''nitro'' False),
     (''r6gd.8xlarge'', row 8 30 True 54 0 [card_of 8 0] ''nitro'' False),
     (''r6gd.large'', row 3 10 True 9 0 [card_of 3 0] ''nitro'' False),
     (''r6gd.medium'', row 2 4 True 4 0 [card_of 2 0] ''nitro'' False),
     (''r6gd.metal'', row 15 50 True 107 0 [card_of 15 0] '''' True),
     (''r6gd.xlarge'', row 4 15 True 18 0 [card_of 4 0] ''nitro'' False)]"

definition Limits_r6i :: "(string \<times> vpc_limits) list" where
  "Limits_r6i = [
     (''r6i.12xlarge'', row 8 30 True 114 0 [card_of 8 0] ''nitro'' False),
     (''r6i.16xlarge'', row 15 50 True 107 0 [card_of 15 0] ''nitro'' False),
     (''r6i.24xlarge'', row 15 50 True 107 0 [card_of 15 0] ''nitro'' False),
     (''r6i.2xlarge'', row 4 15 True 38 0 [card_of 4 0] ''nitro'' False),
     (''r6i.32xlarge'', row 15 50 True 107 0 [card_of 15 0] ''nitro'' False),
     (''r6i.4xlarge'', row 8 30 True 54 0 [card_of 8 0] ''nitro'' False),
     (''r6i.8xlarge'', row 8 30 True 84 0 [card_of 8 0] ''nitro'' False),
     (''r6i.large'', row 3 10 True 9 0 [card_of 3 0] ''nitro'' False),
     (''r6i.metal'', row 15 50 True 107 0 [card_of 15 0] '''' True),
     (''r6i.xlarge'', row 4 15 True 18 0 [card_of 4 0] ''nitro'' False)]"

definition Limits_r6id :: "(string \<times> vpc_limits) list" where
  "Limits_r6id = [
     (''r6id.12xlarge'', row 8 30 True 114 0 [card_of 8 0] ''nitro'' False),
     (''r6id.16xlarge'', row 15 50 True 107 0 [card_of 15 0] ''nitro'' False),
     (''r6id.24xlarge'', row 15 50 True 107 0 [card_of 15 0] ''nitro'' False),
     (''r6id.2xlarge'', row 4 15 True 38 0 [card_of 4 0] ''nitro'' False),
     (''r6id.32xlarge'', row 15 50 True 107 0 [card_of 15 0] ''nitro'' False),
     (''r6id.4xlarge'', row 8 30 True 54 0 [card_of 8 0] ''nitro'' False),
     (''r6id.8xlarge'', row 8 30 True 84 0 [card_of 8 0] ''nitro'' False),
     (''r6id.large'', row 3 10 True 9 0 [card_of 3 0] ''nitro'' False),
     (''r6id.metal'', row 15 50 True 107 0 [card_of 15 0] '''' True),
     (''r6id.xlarge'', row 4 15 True 18 0 [card_of 4 0] ''nitro'' False)]"

definition Limits_r6idn :: "(string \<times> vpc_limits) list" where
  "Limits_r6idn = [
     (''r6idn.12xlarge'', row 8 30 True 114 0 [card_of 8 0] ''nitro'' False),
     (''r6idn.16xlarge'', row 15 50 True 107 0 [card_of 15 0] ''nitro'' False),
     (''r6idn.24xlarge'', row 15 50 True 107 0 [card_of 15 0] ''nitro'' False),
     (''r6idn.2xlarge'', row 4 15 True 38 0 [card_of 4 0] ''nitro'' False),
     (''r6idn.32xlarge'', row 16 50 True 106 0 [card_of 8 0, card_of 8 1] ''nitro'' False),
     (''r6idn.4xlarge'', row 8 30 True 54 0 [card_of 8 0] ''nitro'' False),
     (''r6idn.8xlarge'', row 8 30 True 84 0 [card_of 8 0] ''nitro'' False),
     (''r6idn.large'', row 3 10 True 9 0 [card_of 3 0] ''nitro'' False),
     (''r6idn.metal'', row 16 50 True 106 0 [card_of 8 0, card_of 8 1] '''' True),
     (''r6idn.xlarge'', row 4 15 True 18 0 [card_of 4 0] ''nitro'' False)]"

definition Limits_r6in :: "(string \<times> vpc_limits) list" where
  "Limits_r6in = [
     (''r6in.12xlarge'', row 8 30 True 114 0 [card_of 8 0] ''nitro'' False),
     (''r6in.16xlarge'', row 15 50 True 107 0 [card_of 15 0] ''nitro'' False),
     (''r6in.24xlarge'', row 15 50 True 107 0 [card_of 15 0] ''nitro'' False),
     (''r6in.2xlarge'', row 4 15 True 38 0 [card_of 4 0] ''nitro'' False),
     (''r6in.32xlarge'', row 16 50 True 106 0 [card_of 8 0, card_of 8 1] ''nitro'' False),
     (''r6in.4xlarge'', row 8 30 True 54 0 [card_of 8 0] ''nitro'' False),
     (''r6in.8xlarge'', row 8 30 True 84 0 [card_of 8 0] ''nitro'' False),
     (''r6in.large'', row 3 10 True 9 0 [card_of 3 0] ''nitro'' False),
     (''r6in.metal'', row 16 50 True 106 0 [card_of 8 0, card_of 8 1] '''' True),
     (''r6in.xlarge'', row 4 15 True 18 0 [card_of 4 0] ''nitro'' False)]"

definition Limits_r7a :: "(string \<times> vpc_limits) list" where
  "Limits_r7a = [
     (''r7a.12xlarge'', row 8 30 True 114 0 [card_of 8 0] ''nitro'' False),
     (''r7a.16xlarge'', row 15 50 True 107 0 [card_of 15 0] ''nitro'' False),
     (''r7a.24xlarge'', row 15 50 True 107 0 [card_of 15 0] ''nitro'' False),
     (''r7a.2xlarge'', row 4 15 True 38 0 [card_of 4 0] ''nitro'' False),
     (''r7a.32xlarge'', row 15 50 True 107 0 [card_of 15 0] ''nitro'' False),
     (''r7a.48xlarge'', row 15 50 True 107 0 [card_of 15 0] ''nitro'' False),
     (''r7a.4xlarge'', row 8 30 True 54 0 [card_of 8 0] ''nitro'' False),
     (''r7a.8xlarge'', row 8 30 True 84 0 [card_of 8 0] ''nitro'' False),
     (''r7a.large'', row 3 10 True 9 0 [card_of 3 0] ''nitro'' False),
     (''r7a.medium'', row 2 4 True 4 0 [card_of 2 0] ''nitro'' False),
     (''r7a.metal-48xl'', row 15 50 True 107 0 [card_of 15 0] '''' True),
     (''r7a.xlarge'', row 4 15 True 18 0 [card_of 4 0] ''nitro'' False)]"

definition Limits_r7g :: "(string \<times> vpc_limits) list" where
  "Limits_r7g = [
     (''r7g.12xlarge'', row 8 30 True 54 0 [card_of 8 0] ''nitro'' False),
     (''r7g.16xlarge'', row 15 50 True 107 0 [card_of 15 0] ''nitro'' False),
     (''r7g.2xlarge'', row 4 15 True 38 0 [card_of 4 0] ''nitro'' False),
     (''r7g.4xlarge'', row 8 30 True 54 0 [card_of 8 0] ''nitro'' False),
     (''r7g.8xlarge'', row 8 30 True 54 0 [card_of 8 0] ''nitro'' False),
     (''r7g.large'', row 3 10 True 9 0 [card_of 3 0] ''nitro'' False),
     (''r7g.medium'', row 2 4 True 4 0 [card_of 2 0] ''nitro'' False),
     (''r7g.metal'', row 15 50 True 107 0 [card_of 15 0] '''' True),
     (''r7g.xlarge'', row 4 15 True 18 0 [card_of 4 0] ''nitro'' False)]"

definition Limits_r7gd :: "(string \<times> vpc_limits) list" where
  "Limits_r7gd = [
     (''r7gd.12xlarge'', row 8 30 True 54 0 [card_of 8 0] ''nitro'' False),
     (''r7gd.16xlarge'', row 15 50 True 107 0 [card_of 15 0] ''nitro'' False),
     (''r7gd.2xlarge'', row 4 15 True 38 0 [card_of 4 0] ''nitro'' False),
     (''r7gd.4xlarge'', row 8 30 True 54 0 [card_of 8 0] ''nitro'' False),
     (''r7gd.8xlarge'', row 8 30 True 54 0 [card_of 8 0] ''nitro'' False),
     (''r7gd.large'', row 3 10 True 9 0 [card_of 3 0] ''nitro'' False),
     (''r7gd.medium'', row 2 4 True 4 0 [card_of 2 0] ''nitro'' False),
     (''r7gd.metal'', row 15 50 True 107 0 [card_of 15 0] '''' True),
     (''r7gd.xlarge'', row 4 15 True 18 0 [card_of 4 0] ''nitro'' False)]"

definition Limits_r7i :: "(string \<times> vpc_limits) list" where
  "Limits_r7i = [
     (''r7i.12xlarge'', row 8 30 True 114 0 [card_of 8 0] ''nitro'' False),
     (''r7i.16xlarge'', row 15 50 True 107 0 [card_of 15 0] ''nitro'' False),
     (''r7i.24xlarge'', row 15 50 True 107 0 [card_of 15 0] ''nitro'' False),
     (''r7i.2xlarge'', row 4 15 True 38 0 [card_of 4 0] ''nitro'' False),
     (''r7i.48xlarge'', row 15 50 True 107 0 [card_of 15 0] ''nitro'' False),
     (''r7i.4xlarge'', row 8 30 True 54 0 [card_of 8 0] ''nitro'' False),
     (''r7i.8xlarge'', row 8 30 True 84 0 [card_of 8 0] ''nitro'' False),
     (''r7i.large'', row 3 10 True 9 0 [card_of 3 0] ''nitro'' False),
     (''r7i.metal-24xl'', row 15 50 True 107 0 [card_of 15 0] '''' True),
     (''r7i.metal-48xl'', row 15 50 True 107 0 [card_of 15 0] '''' True),
     (''r7i.xlarge'', row 4 15 True 18 0 [card_of 4 0] ''nitro'' False)]"

definition Limits_r7iz :: "(string \<times> vpc_limits) list" where
  "Limits_r7iz = [
     (''r7iz.12xlarge'', row 8 30 True 114 0 [card_of 8 0] ''nitro'' False),
     (''r7iz.16xlarge'', row 15 50 True 107 0 [card_of 15 0] ''nitro'' False),
     (''r7iz.2xlarge'', row 4 15 True 38 0 [card_of 4 0] ''nitro'' False),
     (''r7iz.32xlarge'', row 15 50 True 107 0 [card_of 15 0] ''nitro'' False),
     (''r7iz.4xlarge'', row 8 30 True 54 0 [card_of 8 0] ''nitro'' False),
     (''r7iz.8xlarge'', row 8 30 True 84 0 [card_of 8 0] ''nitro'' False),
     (''r7iz.large'', row 3 10 True 9 0 [card_of 3 0] ''nitro'' False),
     (''r7iz.metal-16xl'', row 15 50 True 107 0 [card_of 15 0] '''' True),
     (''r7iz.metal-32xl'', row 15 50 True 107 0 [card_of 15 0] '''' True),
     (''r7iz.xlarge'', row 4 15 True 18 0 [card_of 4 0] ''nitro'' False)]"

definition Limits_r8a :: "(string \<times> vpc_limits) list" where
  "Limits_r8a = [
     (''r8a.12xlarge'', row 12 64 True 110 0 [card_of 12 0] ''nitro'' False),
     (''r8a.16xlarge'', row 16 64 True 106 0 [card_of 16 0] ''nitro'' False),
     (''r8a.24xlarge'', row 16 64 True 106 0 [card_of 16 0] ''nitro'' False),
     (''r8a.2xlarge'', row 4 40 True 38 0 [card_of 4 0] ''nitro'' False),
     (''r8a.48xlarge'', row 24 64 True 98 0 [card_of 24 0] ''nitro'' False),
     (''r8a.4xlarge'', row 8 40 True 54 0 [card_of 8 0] ''nitro'' False),
     (''r8a.8xlarge'', row 10 40 True 82 0 [card_of 10 0] ''nitro'' False),
     (''r8a.large'', row 3 20 True 9 0 [card_of 3 0] ''nitro'' False),
     (''r8a.medium'', row 2 4 True 4 0 [card_of 2 0] ''nitro'' False),
     (''r8a.metal-24xl'', row 16 64 True 106 0 [card_of 16 0] '''' True),
     (''r8a.metal-48xl'', row 24 64 True 98 0 [card_of 24 0] '''' True),
     (''r8a.xlarge'', row 4 20 True 18 0 [card_of 4 0] ''nitro'' False)]"

definition Limits_r8g :: "(string \<times> vpc_limits) list" where
  "Limits_r8g = [
     (''r8g.12xlarge'', row 8 30 True 54 0 [card_of 8 0] ''nitro'' False),
     (''r8g.16xlarge'', row 15 50 True 107 0 [card_of 15 0] ''nitro'' False),
     (''r8g.24xlarge'', row 15 50 True 107 0 [card_of 15 0] ''nitro'' False),
     (''r8g.2xlarge'', row 4 15 True 38 0 [card_of 4 0] ''nitro'' False),
     (''r8g.48xlarge'', row 15 50 True 107 0 [card_of 15 0] ''nitro'' False),
     (''r8g.4xlarge'', row 8 30 True 54 0 [card_of 8 0] ''nitro'' False),
     (''r8g.8xlarge'', row 8 30 True 54 0 [card_of 8 0] ''nitro'' False),
     (''r8g.large'', row 3 10 True 9 0 [card_of 3 0] ''nitro'' False),
     (''r8g.medium'', row 2 4 True 4 0 [card_of 2 0] ''nitro'' False),
     (''r8g.metal-24xl'', row 15 50 True 107 0 [card_of 15 0] '''' True),
     (''r8g.metal-48xl'', row 15 50 True 107 0 [card_of 15 0] '''' True),
     (''r8g.xlarge'', row 4 15 True 18 0 [card_of 4 0] ''nitro'' False)]"

definition Limits_r8gb :: "(string \<times> vpc_limits) list" where
  "Limits_r8gb = [
     (''r8gb.12xlarge'', row 12 30 True 50 0 [card_of 12 0] ''nitro'' False),
     (''r8gb.16xlarge'', row 16 50 True 106 0 [card_of 16 0] ''nitro'' False),
     (''r8gb.24xlarge'', row 24 50 True 98 0 [card_of 24 0] ''nitro'' False),
     (''r8gb.2xlarge'', row 4 15 True 38 0 [card_of 4 0] ''nitro'' False),
     (''r8gb.48xlarge'', row 24 50 True 98 0 [card_of 12 0, card_of 12 1] ''nitro'' False),
     (''r8gb.4xlarge'', row 8 30 True 54 0 [card_of 8 0] ''nitro'' False),
     (''r8gb.8xlarge'', row 10 30 True 52 0 [card_of 10 0] ''nitro'' False),
     (''r8gb.large'', row 3 10 True 9 0 [card_of 3 0] ''nitro'' False),
     (''r8gb.medium'', row 2 4 True 4 0 [card_of 2 0] ''nitro'' False),
     (''r8gb.metal-24xl'', row 24 50 True 98 0 [card_of 24 0] '''' True),
     (''r8gb.metal-48xl'', row 24 50 True 98 0 [card_of 12 0, card_of 12 1] '''' True),
     (''r8gb.xlarge'', row 4 15 True 18 0 [card_of 4 0] ''nitro'' False)]"

definition Limits_r8gd :: "(string \<times> vpc_limits) list" where
  "Limits_r8gd = [
     (''r8gd.12xlarge'', row 8 30 True 54 0 [card_of 8 0] ''nitro'' False),
     (''r8gd.16xlarge'', row 15 50 True 107 0 [card_of 15 0] ''nitro'' False),
     (''r8gd.24xlarge'', row 15 50 True 107 0 [card_of 15 0] ''nitro'' False),
     (''r8gd.2xlarge'', row 4 15 True 38 0 [card_of 4 0] ''nitro'' False),
     (''r8gd.48xlarge'', row 15 50 True 107 0 [card_of 15 0] ''nitro'' False),
     (''r8gd.4xlarge'', row 8 30 True 54 0 [card_of 8 0] ''nitro'' False),
     (''r8gd.8xlarge'', row 8 30 True 54 0 [card_of 8 0] ''nitro'' False),
     (''r8gd.large'', row 3 10 True 9 0 [card_of 3 0] ''nitro'' False),
     (''r8gd.medium'', row 2 4 True 4 0 [card_of 2 0] ''nitro'' False),
     (''r8gd.metal-24xl'', row 15 50 True 107 0 [card_of 15 0] '''' True),
     (''r8gd.metal-48xl'', row 15 50 True 107 0 [card_of 15 0] '''' True),
     (''r8gd.xlarge'', row 4 15 True 18 0 [card_of 4 0] ''nitro'' False)]"

definition Limits_r8gn :: "(string \<times> vpc_limits) list" where
  "Limits_r8gn = [
     (''r8gn.12xlarge'', row 12 30 True 50 0 [card_of 12 0] ''nitro'' False),
     (''r8gn.16xlarge'', row 16 50 True 106 0 [card_of 16 0] ''nitro'' False),
     (''r8gn.24xlarge'', row 24 50 True 98 0 [card_of 24 0] ''nitro'' False),
     (''r8gn.2xlarge'', row 4 15 True 38 0 [card_of 4 0] ''nitro'' False),
     (''r8gn.48xlarge'', row 24 50 True 98 0 [card_of 12 0, card_of 12 1] ''nitro'' False),
     (''r8gn.4xlarge'', row 8 30 True 54 0 [card_of 8 0] ''nitro'' False),
     (''r8gn.8xlarge'', row 10 30 True 52 0 [card_of 10 0] ''nitro'' False),
     (''r8gn.large'', row 3 10 True 9 0 [card_of 3 0] ''nitro'' False),
     (''r8gn.medium'', row 2 4 True 4 0 [card_of 2 0] ''nitro'' False),
     (''r8gn.metal-24xl'', row 24 50 True 98 0 [card_of 24 0] '''' True),
     (''r8gn.metal-48xl'', row 24 50 True 98 0 [card_of 12 0, card_of 12 1] '''' True),
     (''r8gn.xlarge'', row 4 15 True 18 0 [card_of 4 0] ''nitro'' False)]"

definition Limits_r8i_flex :: "(string \<times> vpc_limits) list" where
  "Limits_r8i_flex = [
     (''r8i-flex.12xlarge'', row 12 50 True 110 0 [card_of 12 0] ''nitro'' False),
     (''r8i-flex.16xlarge'', row 16 64 True 106 0 [card_of 16 0] ''nitro'' False),
     (''r8i-flex.2xlarge'', row 4 30 True 18 0 [card_of 4 0] ''nitro'' False),
     (''r8i-flex.4xlarge'', row 8 50 True 34 0 [card_of 8 0] ''nitro'' False),
     (''r8i-flex.8xlarge'', row 10 50 True 52 0 [card_of 10 0] ''nitro'' False),
     (''r8i-flex.large'', row 3 20 True 3 0 [card_of 3 0] ''nitro'' False),
     (''r8i-flex.xlarge'', row 4 30 True 8 0 [card_of 4 0] ''nitro'' False)]"

definition Limits_r8i :: "(string \<times> vpc_limits) list" where
  "Limits_r8i = [
     (''r8i.12xlarge'', row 12 50 True 110 0 [card_of 12 0] ''nitro'' False),
     (''r8i.16xlarge'', row 16 64 True 106 0 [card_of 16 0] ''nitro'' False),
     (''r8i.24xlarge'', row 16 64 True 106 0 [card_of 16 0] ''nitro'' False),
     (''r8i.2xlarge'', row 4 30 True 38 0 [card_of 4 0] ''nitro'' False),
     (''r8i.32xlarge'', row 24 64 True 98 0 [card_of 24 0] ''nitro'' False),
     (''r8i.48xlarge'', row 24 64 True 98 0 [card_of 24 0] ''nitro'' False),
     (''r8i.4xlarge'', row 8 50 True 54 0 [card_of 8 0] ''nitro'' False),
     (''r8i.8xlarge'', row 10 50 True 82 0 [card_of 10 0] ''nitro'' False),
     (''r8i.96xlarge'', row 24 64 True 98 0 [card_of 24 0] ''nitro'' False),
     (''r8i.large'', row 3 20 True 9 0 [card_of 3 0] ''nitro'' False),
     (''r8i.metal-48xl'', row 24 64 True 98 0 [card_of 24 0] '''' True),
     (''r8i.metal-96xl'', row 24 64 True 98 0 [card_of 24 0] '''' True),
     (''r8i.xlarge'', row 4 30 True 18 0 [card_of 4 0] ''nitro'' False)]"

definition Limits_r8ib :: "(string \<times> vpc_limits) list" where
  "Limits_r8ib = [
     (''r8ib.12xlarge'', row 12 50 True 110 0 [card_of 12 0] ''nitro'' False),
     (''r8ib.16xlarge'', row 16 64 True 106 0 [card_of 16 0] ''nitro'' False),
     (''r8ib.24xlarge'', row 16 64 True 106 0 [card_of 16 0] ''nitro'' False),
     (''r8ib.2xlarge'', row 4 30 True 38 0 [card_of 4 0] ''nitro'' False),
     (''r8ib.32xlarge'', row 16 64 True 106 0 [card_of 16 0] ''nitro'' False),
     (''r8ib.48xlarge'', row 24 64 True 98 0 [card_of 24 0] ''nitro'' False),
     (''r8ib.4xlarge'', row 8 50 True 54 0 [card_of 8 0] ''nitro'' False),
     (''r8ib.8xlarge'', row 8 50 True 84 0 [card_of 8 0] ''nitro'' False),
     (''r8ib.96xlarge'', row 24 64 True 98 0 [card_of 12 0, card_of 12 1] ''nitro'' False),
     (''r8ib.large'', row 4 20 True 8 0 [card_of 4 0] ''nitro'' False),
     (''r8ib.metal-48xl'', row 24 64 True 98 0 [card_of 24 0] '''' True),
     (''r8ib.metal-96xl'', row 24 64 True 98 0 [card_of 12 0, card_of 12 1] '''' True),
     (''r8ib.xlarge'', row 4 30 True 18 0 [card_of 4 0] ''nitro'' False)]"

definition Limits_r8id :: "(string \<times> vpc_limits) list" where
  "Limits_r8id = [
     (''r8id.12xlarge'', row 12 50 True 110 0 [card_of 12 0] ''nitro'' False),
     (''r8id.16xlarge'', row 16 64 True 106 0 [card_of 16 0] ''nitro'' False),
     (''r8id.24xlarge'', row 16 64 True 106 0 [card_of 16 0] ''nitro'' False),
     (''r8id.2xlarge'', row 4 30 True 38 0 [card_of 4 0] ''nitro'' False),
     (''r8id.32xlarge'', row 24 64 True 98 0 [card_of 24 0] ''nitro'' False),
     (''r8id.48xlarge'', row 24 64 True 98 0 [card_of 24 0] ''nitro'' False),
     (''r8id.4xlarge'', row 8 50 True 54 0 [card_of 8 0] ''nitro'' False),
     (''r8id.8xlarge'', row 10 50 True 82 0 [card_of 10 0] ''nitro'' False),
     (''r8id.96xlarge'', row 24 64 True 98 0 [card_of 24 0] ''nitro'' False),
     (''r8id.large'', row 3 20 True 9 0 [card_of 3 0] ''nitro'' False),
     (''r8id.metal-48xl'', row 24 64 True 98 0 [card_of 24 0] '''' True),
     (''r8id.metal-96xl'', row 24 64 True 98 0 [card_of 24 0] '''' True),
     (''r8id.xlarge'', row 4 30 True 18 0 [card_of 4 0] ''nitro'' False)]"

definition Limits_r8idb :: "(string \<times> vpc_limits) list" where
  "Limits_r8idb = [
     (''r8idb.12xlarge'', row 12 50 True 110 0 [card_of 12 0] ''nitro'' False),
     (''r8idb.16xlarge'', row 16 64 True 106 0 [card_of 16 0] ''nitro'' False),
     (''r8idb.24xlarge'', row 16 64 True 106 0 [card_of 16 0] ''nitro'' False),
     (''r8idb.2xlarge'', row 4 30 True 38 0 [card_of 4 0] ''nitro'' False),
     (''r8idb.32xlarge'', row 16 64 True 106 0 [card_of 16 0] ''nitro'' False),
     (''r8idb.48xlarge'', row 24 64 True 98 0 [card_of 24 0] ''nitro'' False),
     (''r8idb.4xlarge'', row 8 50 True 54 0 [card_of 8 0] ''nitro'' False),
     (''r8idb.8xlarge'', row 8 50 True 84 0 [card_of 8 0] ''nitro'' False),
     (''r8idb.96xlarge'', row 24 64 True 98 0 [card_of 12 0, card_of 12 1] ''nitro'' False),
     (''r8idb.large'', row 4 20 True 8 0 [card_of 4 0] ''nitro'' False),
     (''r8idb.metal-48xl'', row 24 64 True 98 0 [card_of 24 0] '''' True),
     (''r8idb.metal-96xl'', row 24 64 True 98 0 [card_of 12 0, card_of 12 1] '''' True),
     (''r8idb.xlarge'', row 4 30 True 18 0 [card_of 4 0] ''nitro'' False)]"

definition Limits_r8idn :: "(string \<times> vpc_limits) list" where
  "Limits_r8idn = [
     (''r8idn.12xlarge'', row 12 50 True 110 0 [card_of 12 0] ''nitro'' False),
     (''r8idn.16xlarge'', row 16 64 True 106 0 [card_of 16 0] ''nitro'' False),
     (''r8idn.24xlarge'', row 16 64 True 106 0 [card_of 16 0] ''nitro'' False),
     (''r8idn.2xlarge'', row 4 30 True 38 0 [card_of 4 0] ''nitro'' False),
     (''r8idn.32xlarge'', row 16 64 True 106 0 [card_of 16 0] ''nitro'' False),
     (''r8idn.48xlarge'', row 24 64 True 98 0 [card_of 24 0] ''nitro'' False),
     (''r8idn.4xlarge'', row 8 50 True 54 0 [card_of 8 0] ''nitro'' False),
     (''r8idn.8xlarge'', row 8 50 True 84 0 [card_of 8 0] ''nitro'' False),
     (''r8idn.96xlarge'', row 24 64 True 98 0 [card_of 12 0, card_of 12 1] ''nitro'' False),
     (''r8idn.large'', row 4 20 True 8 0 [card_of 4 0] ''nitro'' False),
     (''r8idn.metal-48xl'', row 24 64 True 98 0 [card_of 24 0] '''' True),
     (''r8idn.metal-96xl'', row 24 64 True 98 0 [card_of 12 0, card_of 12 1] '''' True),
     (''r8idn.xlarge'', row 4 30 True 18 0 [card_of 4 0] ''nitro'' False)]"

definition Limits_r8in :: "(string \<times> vpc_limits) list" where
  "Limits_r8in = [
     (''r8in.12xlarge'', row 12 50 True 110 0 [card_of 12 0] ''nitro'' False),
     (''r8in.16xlarge'', row 16 64 True 106 0 [card_of 16 0] ''nitro'' False),
     (''r8in.24xlarge'', row 16 64 True 106 0 [card_of 16 0] ''nitro'' False),
     (''r8in.2xlarge'', row 4 30 True 38 0 [card_of 4 0] ''nitro'' False),
     (''r8in.32xlarge'', row 16 64 True 106 0 [card_of 16 0] ''nitro'' False),
     (''r8in.48xlarge'', row 24 64 True 98 0 [card_of 24 0] ''nitro'' False),
     (''r8in.4xlarge'', row 8 50 True 54 0 [card_of 8 0] ''nitro'' False),
     (''r8in.8xlarge'', row 8 50 True 84 0 [card_of 8 0] ''nitro'' False),
     (''r8in.96xlarge'', row 24 64 True 98 0 [card_of 12 0, card_of 12 1] ''nitro'' False),
     (''r8in.large'', row 4 20 True 8 0 [card_of 4 0] ''nitro'' False),
     (''r8in.metal-48xl'', row 24 64 True 98 0 [card_of 24 0] '''' True),
     (''r8in.metal-96xl'', row 24 64 True 98 0 [card_of 12 0, card_of 12 1] '''' True),
     (''r8in.xlarge'', row 4 30 True 18 0 [card_of 4 0] ''nitro'' False)]"

definition Limits_r9g :: "(string \<times> vpc_limits) list" where
  "Limits_r9g = [
     (''r9g.12xlarge'', row 12 50 True 50 0 [card_of 12 0] ''nitro'' False),
     (''r9g.16xlarge'', row 16 64 True 106 0 [card_of 16 0] ''nitro'' False),
     (''r9g.24xlarge'', row 24 64 True 98 0 [card_of 24 0] ''nitro'' False),
     (''r9g.2xlarge'', row 4 30 True 38 0 [card_of 4 0] ''nitro'' False),
     (''r9g.48xlarge'', row 24 64 True 98 0 [card_of 24 0] ''nitro'' False),
     (''r9g.4xlarge'', row 8 50 True 54 0 [card_of 8 0] ''nitro'' False),
     (''r9g.8xlarge'', row 10 50 True 52 0 [card_of 10 0] ''nitro'' False),
     (''r9g.large'', row 3 20 True 9 0 [card_of 3 0] ''nitro'' False),
     (''r9g.medium'', row 2 20 True 4 0 [card_of 2 0] ''nitro'' False),
     (''r9g.metal-48xl'', row 24 64 True 98 0 [card_of 24 0] '''' True),
     (''r9g.xlarge'', row 4 30 True 18 0 [card_of 4 0] ''nitro'' False)]"

definition Limits_r9gd :: "(string \<times> vpc_limits) list" where
  "Limits_r9gd = [
     (''r9gd.12xlarge'', row 12 50 True 50 0 [card_of 12 0] ''nitro'' False),
     (''r9gd.16xlarge'', row 16 64 True 106 0 [card_of 16 0] ''nitro'' False),
     (''r9gd.24xlarge'', row 24 64 True 98 0 [card_of 24 0] ''nitro'' False),
     (''r9gd.2xlarge'', row 4 30 True 38 0 [card_of 4 0] ''nitro'' False),
     (''r9gd.48xlarge'', row 24 64 True 98 0 [card_of 24 0] ''nitro'' False),
     (''r9gd.4xlarge'', row 8 50 True 54 0 [card_of 8 0] ''nitro'' False),
     (''r9gd.8xlarge'', row 10 50 True 52 0 [card_of 10 0] ''nitro'' False),
     (''r9gd.large'', row 3 20 True 9 0 [card_of 3 0] ''nitro'' False),
     (''r9gd.medium'', row 2 20 True 4 0 [card_of 2 0] ''nitro'' False),
     (''r9gd.metal-48xl'', row 24 64 True 98 0 [card_of 24 0] '''' True),
     (''r9gd.xlarge'', row 4 30 True 18 0 [card_of 4 0] ''nitro'' False)]"

definition Limits_t1 :: "(string \<times> vpc_limits) list" where
  "Limits_t1 = [
     (''t1.micro'', row 2 2 False 0 0 [card_of 2 0] ''xen'' False)]"

definition Limits_t2 :: "(string \<times> vpc_limits) list" where
  "Limits_t2 = [
     (''t2.2xlarge'', row 3 15 False 0 0 [card_of 3 0] ''xen'' False),
     (''t2.large'', row 3 12 False 0 0 [card_of 3 0] ''xen'' False),
     (''t2.medium'', row 3 6 False 0 0 [card_of 3 0] ''xen'' False),
     (''t2.micro'', row 2 2 False 0 0 [card_of 2 0] ''xen'' False),
     (''t2.nano'', row 2 2 False 0 0 [card_of 2 0] ''xen'' False),
     (''t2.small'', row 3 4 False 0 0 [card_of 3 0] ''xen'' False),
     (''t2.xlarge'', row 3 15 False 0 0 [card_of 3 0] ''xen'' False)]"

definition Limits_t3 :: "(string \<times> vpc_limits) list" where
  "Limits_t3 = [
     (''t3.2xlarge'', row 4 15 False 0 0 [card_of 4 0] ''nitro'' False),
     (''t3.large'', row 3 12 False 0 0 [card_of 3 0] ''nitro'' False),
     (''t3.medium'', row 3 6 False 0 0 [card_of 3 0] ''nitro'' False),
     (''t3.micro'', row 2 2 False 0 0 [card_of 2 0] ''nitro'' False),
     (''t3.nano'', row 2 2 False 0 0 [card_of 2 0] ''nitro'' False),
     (''t3.small'', row 3 4 False 0 0 [card_of 3 0] ''nitro'' False),
     (''t3.xlarge'', row 4 15 False 0 0 [card_of 4 0] ''nitro'' False)]"

definition Limits_t3a :: "(string \<times> vpc_limits) list" where
  "Limits_t3a = [
     (''t3a.2xlarge'', row 4 15 False 0 0 [card_of 4 0] ''nitro'' False),
     (''t3a.large'', row 3 12 False 0 0 [card_of 3 0] ''nitro'' False),
     (''t3a.medium'', row 3 6 False 0 0 [card_of 3 0] ''nitro'' False),
     (''t3a.micro'', row 2 2 False 0 0 [card_of 2 0] ''nitro'' False),
     (''t3a.nano'', row 2 2 False 0 0 [card_of 2 0] ''nitro'' False),
     (''t3a.small'', row 2 4 False 0 0 [card_of 2 0] ''nitro'' False),
     (''t3a.xlarge'', row 4 15 False 0 0 [card_of 4 0] ''nitro'' False)]"

definition Limits_t4g :: "(string \<times> vpc_limits) list" where
  "Limits_t4g = [
     (''t4g.2xlarge'', row 4 15 False 0 0 [card_of 4 0] ''nitro'' False),
     (''t4g.large'', row 3 12 False 0 0 [card_of 3 0] ''nitro'' False),
     (''t4g.medium'', row 3 6 False 0 0 [card_of 3 0] ''nitro'' False),
     (''t4g.micro'', row 2 2 False 0 0 [card_of 2 0] ''nitro'' False),
     (''t4g.nano'', row 2 2 False 0 0 [card_of 2 0] ''nitro'' False),
     (''t4g.small'', row 3 4 False 0 0 [card_of 3 0] ''nitro'' False),
     (''t4g.xlarge'', row 4 15 False 0 0 [card_of 4 0] ''nitro'' False)]"

definition Limits_trn1 :: "(string \<times> vpc_limits) list" where
  "Limits_trn1 = [
     (''trn1.2xlarge'', row 4 15 True 17 0 [card_of 4 0] ''nitro'' False),
     (''trn1.32xlarge'', row 40 50 True 82 0 [card_of 5 0, card_of 5 1, card_of 5 2, card_of 5 3, card_of 5 4, card_of 5 5, card_of 5 6, card_of 5 7] ''nitro'' False)]"

definition Limits_trn1n :: "(string \<times> vpc_limits) list" where
  "Limits_trn1n = [
     (''trn1n.32xlarge'', row 80 50 True 120 0 [card_of 5 0, card_of 5 1, card_of 5 2, card_of 5 3, card_of 5 4, card_of 5 5, card_of 5 6, card_of 5 7, card_of 5 8, card_of 5 9, card_of 5 10, card_of 5 11, card_of 5 12, card_of 5 13, card_of 5 14, card_of 5 15] ''nitro'' False)]"

definition Limits_u_3tb1 :: "(string \<times> vpc_limits) list" where
  "Limits_u_3tb1 = [
     (''u-3tb1.56xlarge'', row 8 30 True 6 0 [card_of 8 0] ''nitro'' False)]"

definition Limits_u_6tb1 :: "(string \<times> vpc_limits) list" where
  "Limits_u_6tb1 = [
     (''u-6tb1.112xlarge'', row 15 50 False 0 0 [card_of 15 0] ''nitro'' False),
     (''u-6tb1.56xlarge'', row 15 50 False 0 0 [card_of 15 0] ''nitro'' False)]"

definition Limits_u7i_12tb :: "(string \<times> vpc_limits) list" where
  "Limits_u7i_12tb = [
     (''u7i-12tb.224xlarge'', row 15 50 True 107 0 [card_of 15 0] ''nitro'' False)]"

definition Limits_u7i_6tb :: "(string \<times> vpc_limits) list" where
  "Limits_u7i_6tb = [
     (''u7i-6tb.112xlarge'', row 15 50 True 107 0 [card_of 15 0] ''nitro'' False)]"

definition Limits_u7i_8tb :: "(string \<times> vpc_limits) list" where
  "Limits_u7i_8tb = [
     (''u7i-8tb.112xlarge'', row 15 50 True 107 0 [card_of 15 0] ''nitro'' False)]"

definition Limits_u7in_16tb :: "(string \<times> vpc_limits) list" where
  "Limits_u7in_16tb = [
     (''u7in-16tb.224xlarge'', row 16 50 True 106 0 [card_of 8 0, card_of 8 1] ''nitro'' False)]"

definition Limits_u7in_24tb :: "(string \<times> vpc_limits) list" where
  "Limits_u7in_24tb = [
     (''u7in-24tb.224xlarge'', row 16 50 True 106 0 [card_of 8 0, card_of 8 1] ''nitro'' False)]"

definition Limits_u7in_32tb :: "(string \<times> vpc_limits) list" where
  "Limits_u7in_32tb = [
     (''u7in-32tb.224xlarge'', row 16 50 True 106 0 [card_of 8 0, card_of 8 1] ''nitro'' False)]"

definition Limits_vt1 :: "(string \<times> vpc_limits) list" where
  "Limits_vt1 = [
     (''vt1.24xlarge'', row 15 50 True 107 0 [card_of 15 0] ''nitro'' False),
     (''vt1.3xlarge'', row 4 15 True 38 0 [card_of 4 0] ''nitro'' False),
     (''vt1.6xlarge'', row 8 30 True 54 0 [card_of 8 0] ''nitro'' False)]"

definition Limits_x1 :: "(string \<times> vpc_limits) list" where
  "Limits_x1 = [
     (''x1.16xlarge'', row 8 30 False 0 0 [card_of 8 0] ''xen'' False),
     (''x1.32xlarge'', row 8 30 False 0 0 [card_of 8 0] ''xen'' False)]"

definition Limits_x1e :: "(string \<times> vpc_limits) list" where
  "Limits_x1e = [
     (''x1e.16xlarge'', row 8 30 False 0 0 [card_of 8 0] ''xen'' False),
     (''x1e.2xlarge'', row 4 15 False 0 0 [card_of 4 0] ''xen'' False),
     (''x1e.32xlarge'', row 8 30 False 0 0 [card_of 8 0] ''xen'' False),
     (''x1e.4xlarge'', row 4 15 False 0 0 [card_of 4 0] ''xen'' False),
     (''x1e.8xlarge'', row 4 15 False 0 0 [card_of 4 0] ''xen'' False),
     (''x1e.xlarge'', row 3 10 False 0 0 [card_of 3 0] ''xen'' False)]"

definition Limits_x2gd :: "(string \<times> vpc_limits) list" where
  "Limits_x2gd = [
     (''x2gd.12xlarge'', row 8 30 True 54 0 [card_of 8 0] ''nitro'' False),
     (''x2gd.16xlarge'', row 15 50 True 107 0 [card_of 15 0] ''nitro'' False),
     (''x2gd.2xlarge'', row 4 15 True 38 0 [card_of 4 0] ''nitro'' False),
     (''x2gd.4xlarge'', row 8 30 True 54 0 [card_of 8 0] ''nitro'' False),
     (''x2gd.8xlarge'', row 8 30 True 54 0 [card_of 8 0] ''nitro'' False),
     (''x2gd.large'', row 3 10 True 9 0 [card_of 3 0] ''nitro'' False),
     (''x2gd.medium'', row 2 4 True 10 0 [card_of 2 0] ''nitro'' False),
     (''x2gd.metal'', row 15 50 True 107 0 [card_of 15 0] '''' True),
     (''x2gd.xlarge'', row 4 15 True 18 0 [card_of 4 0] ''nitro'' False)]"

definition Limits_x2idn :: "(string \<times> vpc_limits) list" where
  "Limits_x2idn = [
     (''x2idn.16xlarge'', row 15 50 True 107 0 [card_of 15 0] ''nitro'' False),
     (''x2idn.24xlarge'', row 15 50 True 107 0 [card_of 15 0] ''nitro'' False),
     (''x2idn.32xlarge'', row 15 50 True 107 0 [card_of 15 0] ''nitro'' False),
     (''x2idn.metal'', row 15 50 True 107 0 [card_of 15 0] '''' True)]"

definition Limits_x2iedn :: "(string \<times> vpc_limits) list" where
  "Limits_x2iedn = [
     (''x2iedn.16xlarge'', row 15 50 True 107 0 [card_of 15 0] ''nitro'' False),
     (''x2iedn.24xlarge'', row 15 50 True 107 0 [card_of 15 0] ''nitro'' False),
     (''x2iedn.2xlarge'', row 4 15 True 27 0 [card_of 4 0] ''nitro'' False),
     (''x2iedn.32xlarge'', row 15 50 True 107 0 [card_of 15 0] ''nitro'' False),
     (''x2iedn.4xlarge'', row 8 30 True 54 0 [card_of 8 0] ''nitro'' False),
     (''x2iedn.8xlarge'', row 8 30 True 114 0 [card_of 8 0] ''nitro'' False),
     (''x2iedn.metal'', row 15 50 True 107 0 [card_of 15 0] '''' True),
     (''x2iedn.xlarge'', row 4 15 True 11 0 [card_of 4 0] ''nitro'' False)]"

definition Limits_x2iezn :: "(string \<times> vpc_limits) list" where
  "Limits_x2iezn = [
     (''x2iezn.12xlarge'', row 15 50 True 107 0 [card_of 15 0] ''nitro'' False),
     (''x2iezn.2xlarge'', row 4 15 True 62 0 [card_of 4 0] ''nitro'' False),
     (''x2iezn.4xlarge'', row 8 30 True 114 0 [card_of 8 0] ''nitro'' False),
     (''x2iezn.6xlarge'', row 8 30 True 114 0 [card_of 8 0] ''nitro'' False),
     (''x2iezn.8xlarge'', row 8 30 True 114 0 [card_of 8 0] ''nitro'' False),
     (''x2iezn.metal'', row 15 50 True 107 0 [card_of 15 0] '''' True)]"

definition Limits_x8aedz :: "(string \<times> vpc_limits) list" where
  "Limits_x8aedz = [
     (''x8aedz.12xlarge'', row 16 64 True 106 0 [card_of 16 0] ''nitro'' False),
     (''x8aedz.24xlarge'', row 16 64 True 106 0 [card_of 16 0] ''nitro'' False),
     (''x8aedz.3xlarge'', row 8 40 True 34 0 [card_of 8 0] ''nitro'' False),
     (''x8aedz.6xlarge'', row 8 40 True 54 0 [card_of 8 0] ''nitro'' False),
     (''x8aedz.large'', row 4 20 True 8 0 [card_of 4 0] ''nitro'' False),
     (''x8aedz.metal-12xl'', row 16 64 True 106 0 [card_of 16 0] '''' True),
     (''x8aedz.metal-24xl'', row 16 64 True 106 0 [card_of 16 0] '''' True),
     (''x8aedz.xlarge'', row 4 20 True 18 0 [card_of 4 0] ''nitro'' False)]"

definition Limits_x8g :: "(string \<times> vpc_limits) list" where
  "Limits_x8g = [
     (''x8g.12xlarge'', row 8 30 True 54 0 [card_of 8 0] ''nitro'' False),
     (''x8g.16xlarge'', row 15 50 True 107 0 [card_of 15 0] ''nitro'' False),
     (''x8g.24xlarge'', row 15 50 True 107 0 [card_of 15 0] ''nitro'' False),
     (''x8g.2xlarge'', row 4 15 True 38 0 [card_of 4 0] ''nitro'' False),
     (''x8g.48xlarge'', row 15 50 True 107 0 [card_of 15 0] ''nitro'' False),
     (''x8g.4xlarge'', row 8 30 True 54 0 [card_of 8 0] ''nitro'' False),
     (''x8g.8xlarge'', row 8 30 True 54 0 [card_of 8 0] ''nitro'' False),
     (''x8g.large'', row 3 10 True 9 0 [card_of 3 0] ''nitro'' False),
     (''x8g.medium'', row 2 4 True 4 0 [card_of 2 0] ''nitro'' False),
     (''x8g.metal-24xl'', row 15 50 True 107 0 [card_of 15 0] '''' True),
     (''x8g.metal-48xl'', row 15 50 True 107 0 [card_of 15 0] '''' True),
     (''x8g.xlarge'', row 4 15 True 18 0 [card_of 4 0] ''nitro'' False)]"

definition Limits_x8i :: "(string \<times> vpc_limits) list" where
  "Limits_x8i = [
     (''x8i.12xlarge'', row 12 50 True 110 0 [card_of 12 0] ''nitro'' False),
     (''x8i.16xlarge'', row 16 64 True 106 0 [card_of 16 0] ''nitro'' False),
     (''x8i.24xlarge'', row 16 64 True 106 0 [card_of 16 0] ''nitro'' False),
     (''x8i.2xlarge'', row 4 30 True 38 0 [card_of 4 0] ''nitro'' False),
     (''x8i.32xlarge'', row 24 64 True 98 0 [card_of 24 0] ''nitro'' False),
     (''x8i.48xlarge'', row 24 64 True 98 0 [card_of 24 0] ''nitro'' False),
     (''x8i.4xlarge'', row 8 50 True 54 0 [card_of 8 0] ''nitro'' False),
     (''x8i.64xlarge'', row 24 64 True 98 0 [card_of 24 0] ''nitro'' False),
     (''x8i.8xlarge'', row 10 50 True 82 0 [card_of 10 0] ''nitro'' False),
     (''x8i.96xlarge'', row 24 64 True 98 0 [card_of 24 0] ''nitro'' False),
     (''x8i.large'', row 3 20 True 9 0 [card_of 3 0] ''nitro'' False),
     (''x8i.metal-48xl'', row 24 64 True 98 0 [card_of 24 0] '''' True),
     (''x8i.metal-96xl'', row 24 64 True 98 0 [card_of 24 0] '''' True),
     (''x8i.xlarge'', row 4 30 True 18 0 [card_of 4 0] ''nitro'' False)]"

definition Limits_z1d :: "(string \<times> vpc_limits) list" where
  "Limits_z1d = [
     (''z1d.12xlarge'', row 15 50 True 107 0 [card_of 15 0] ''nitro'' False),
     (''z1d.2xlarge'', row 4 15 True 58 0 [card_of 4 0] ''nitro'' False),
     (''z1d.3xlarge'', row 8 30 True 54 0 [card_of 8 0] ''nitro'' False),
     (''z1d.6xlarge'', row 8 30 True 54 0 [card_of 8 0] ''nitro'' False),
     (''z1d.large'', row 3 10 True 13 0 [card_of 3 0] ''nitro'' False),
     (''z1d.metal'', row 15 50 True 107 0 [card_of 15 0] '''' True),
     (''z1d.xlarge'', row 4 15 True 28 0 [card_of 4 0] ''nitro'' False)]"

text \<open>The families by their first letter, and the whole table.\<close>

definition Group_a :: "(string \<times> vpc_limits) list" where
  "Group_a = concat [Limits_a1]"

definition Group_c :: "(string \<times> vpc_limits) list" where
  "Group_c = concat [Limits_c1, Limits_c3, Limits_c4, Limits_c5, Limits_c5a, Limits_c5ad, Limits_c5d, Limits_c5n, Limits_c6a, Limits_c6g, Limits_c6gd, Limits_c6gn, Limits_c6i, Limits_c6id, Limits_c6in, Limits_c7a, Limits_c7g_flex, Limits_c7g, Limits_c7gd, Limits_c7gn, Limits_c7i_flex, Limits_c7i, Limits_c8a, Limits_c8g_flex, Limits_c8g, Limits_c8gb, Limits_c8gd, Limits_c8gn, Limits_c8i_flex, Limits_c8i, Limits_c8ib, Limits_c8id, Limits_c8in, Limits_c8ine, Limits_c9g, Limits_c9gd]"

definition Group_d :: "(string \<times> vpc_limits) list" where
  "Group_d = concat [Limits_d2, Limits_d3, Limits_d3en, Limits_dl1, Limits_dl2q]"

definition Group_f :: "(string \<times> vpc_limits) list" where
  "Group_f = concat [Limits_f1, Limits_f2]"

definition Group_g :: "(string \<times> vpc_limits) list" where
  "Group_g = concat [Limits_g4ad, Limits_g4dn, Limits_g5, Limits_g5g, Limits_g6, Limits_g6e, Limits_g6f, Limits_g7, Limits_g7e, Limits_gr6, Limits_gr6f]"

definition Group_h :: "(string \<times> vpc_limits) list" where
  "Group_h = concat [Limits_h1, Limits_hpc7g]"

definition Group_i :: "(string \<times> vpc_limits) list" where
  "Group_i = concat [Limits_i2, Limits_i3, Limits_i3en, Limits_i4g, Limits_i4i, Limits_i7i, Limits_i7ie, Limits_i8g, Limits_i8ge, Limits_im4gn, Limits_inf1, Limits_inf2, Limits_is4gen]"

definition Group_m :: "(string \<times> vpc_limits) list" where
  "Group_m = concat [Limits_m1, Limits_m2, Limits_m3, Limits_m4, Limits_m5, Limits_m5a, Limits_m5ad, Limits_m5d, Limits_m5dn, Limits_m5n, Limits_m5zn, Limits_m6a, Limits_m6g, Limits_m6gd, Limits_m6i, Limits_m6id, Limits_m6idn, Limits_m6in, Limits_m7a, Limits_m7g_flex, Limits_m7g, Limits_m7gd, Limits_m7i_flex, Limits_m7i, Limits_m8a, Limits_m8azn, Limits_m8g_flex, Limits_m8g, Limits_m8gb, Limits_m8gd, Limits_m8gn, Limits_m8i_flex, Limits_m8i, Limits_m8ib, Limits_m8id, Limits_m8idb, Limits_m8idn, Limits_m8in, Limits_m8ine, Limits_m9g, Limits_m9gd, Limits_mac_m3ultra, Limits_mac_m4, Limits_mac_m4max, Limits_mac_m4pro, Limits_mac1, Limits_mac2_m1ultra, Limits_mac2_m2, Limits_mac2_m2pro, Limits_mac2]"

definition Group_p :: "(string \<times> vpc_limits) list" where
  "Group_p = concat [Limits_p3, Limits_p3dn, Limits_p4d, Limits_p4de, Limits_p5, Limits_p5e, Limits_p5en, Limits_p6_b200, Limits_p6_b300]"

definition Group_r :: "(string \<times> vpc_limits) list" where
  "Group_r = concat [Limits_r3, Limits_r4, Limits_r5, Limits_r5a, Limits_r5ad, Limits_r5b, Limits_r5d, Limits_r5dn, Limits_r5n, Limits_r6a, Limits_r6g, Limits_r6gd, Limits_r6i, Limits_r6id, Limits_r6idn, Limits_r6in, Limits_r7a, Limits_r7g, Limits_r7gd, Limits_r7i, Limits_r7iz, Limits_r8a, Limits_r8g, Limits_r8gb, Limits_r8gd, Limits_r8gn, Limits_r8i_flex, Limits_r8i, Limits_r8ib, Limits_r8id, Limits_r8idb, Limits_r8idn, Limits_r8in, Limits_r9g, Limits_r9gd]"

definition Group_t :: "(string \<times> vpc_limits) list" where
  "Group_t = concat [Limits_t1, Limits_t2, Limits_t3, Limits_t3a, Limits_t4g, Limits_trn1, Limits_trn1n]"

definition Group_u :: "(string \<times> vpc_limits) list" where
  "Group_u = concat [Limits_u_3tb1, Limits_u_6tb1, Limits_u7i_12tb, Limits_u7i_6tb, Limits_u7i_8tb, Limits_u7in_16tb, Limits_u7in_24tb, Limits_u7in_32tb]"

definition Group_v :: "(string \<times> vpc_limits) list" where
  "Group_v = concat [Limits_vt1]"

definition Group_x :: "(string \<times> vpc_limits) list" where
  "Group_x = concat [Limits_x1, Limits_x1e, Limits_x2gd, Limits_x2idn, Limits_x2iedn, Limits_x2iezn, Limits_x8aedz, Limits_x8g, Limits_x8i]"

definition Group_z :: "(string \<times> vpc_limits) list" where
  "Group_z = concat [Limits_z1d]"

definition LimitsList :: "(string, vpc_limits) gomap" where
  "LimitsList = concat [Group_a, Group_c, Group_d, Group_f, Group_g, Group_h, Group_i, Group_m, Group_p, Group_r, Group_t, Group_u, Group_v, Group_x, Group_z]"

definition VPCLimits :: limits_table where
  "VPCLimits instanceType = mget LimitsList instanceType"

end
