(* ===== verification/Limits_Props.thy ===== *)
theory Limits_Props
  imports Limits_Table Trunk_Props Ip_Provider Prefix_Provider
begin

text \<open>
  What the components rely on of the table of instance limits, proved of every row of the table, and what follows from it: the VLAN table of
  a trunk has room for every branch interface an instance type allows, as long as no VLAN id is lost.
\<close>

section \<open>Every row of the table\<close>

definition row_ok :: "vpc_limits \<Rightarrow> bool" where
  "row_ok l \<longleftrightarrow>
     NetworkCards l \<noteq> [] \<and> sum_list (map MaximumNetworkInterfaces (NetworkCards l)) = Interface l \<and>
     map NetworkCardIndex (NetworkCards l) = map int [0..<length (NetworkCards l)] \<and>
     2 \<le> default_card_limit l \<and> default_card_limit l \<le> Interface l \<and>
     2 \<le> IPv4PerInterface l \<and> IPv4PerInterface l \<le> 64 \<and>
     (IsTrunkingCompatible l \<longleftrightarrow> 0 < BranchInterface l) \<and> 0 \<le> BranchInterface l \<and>
     BranchInterface l < int MaxAllocatableVlanIds \<and>
     (IsTrunkingCompatible l \<longrightarrow> IsBareMetal l \<or> Hypervisor l = ''nitro'')"

definition rows_ok :: "(string \<times> vpc_limits) list \<Rightarrow> bool" where
  "rows_ok ls \<longleftrightarrow> list_all (\<lambda>(_, l). row_ok l) ls"

lemma row_ok_row:
  "row_ok (row a b c d 0 (card_of x 0 # cs) hv bm) \<longleftrightarrow>
     x + sum_list (map MaximumNetworkInterfaces cs) = a \<and>
     map NetworkCardIndex cs = map int [1..<Suc (length cs)] \<and>
     2 \<le> x \<and> x \<le> a \<and> 2 \<le> b \<and> b \<le> 64 \<and> (c \<longleftrightarrow> 0 < d) \<and> 0 \<le> d \<and> d < 121 \<and> (c \<longrightarrow> bm \<or> hv = ''nitro'')"
  by (simp add: row_ok_def row_def card_of_def default_card_limit_def upt_conv_Cons MaxAllocatableVlanIds_def del: upt_Suc)

lemma rows_ok_Nil: "rows_ok []" by (simp add: rows_ok_def)

lemma rows_ok_Cons: "rows_ok ((k, l) # ls) \<longleftrightarrow> row_ok l \<and> rows_ok ls" by (simp add: rows_ok_def)

lemma rows_ok_append: "rows_ok (ls @ ms) \<longleftrightarrow> rows_ok ls \<and> rows_ok ms" by (simp add: rows_ok_def)

lemma card_of_fields [simp]: "MaximumNetworkInterfaces (card_of m i) = m" "NetworkCardIndex (card_of m i) = i"
  by (simp_all add: card_of_def)

lemmas rows_ok_simps = rows_ok_Nil rows_ok_Cons rows_ok_append row_ok_row

lemmas Group_a_defs = Group_a_def
  Limits_a1_def

lemma Group_a_ok: "rows_ok Group_a"
  unfolding Group_a_defs by (simp add: rows_ok_simps)

lemmas Group_c_defs = Group_c_def
  Limits_c1_def Limits_c3_def Limits_c4_def Limits_c5_def Limits_c5a_def Limits_c5ad_def Limits_c5d_def Limits_c5n_def
  Limits_c6a_def Limits_c6g_def Limits_c6gd_def Limits_c6gn_def Limits_c6i_def Limits_c6id_def Limits_c6in_def Limits_c7a_def
  Limits_c7g_flex_def Limits_c7g_def Limits_c7gd_def Limits_c7gn_def Limits_c7i_flex_def Limits_c7i_def Limits_c8a_def
  Limits_c8g_flex_def Limits_c8g_def Limits_c8gb_def Limits_c8gd_def Limits_c8gn_def Limits_c8i_flex_def Limits_c8i_def
  Limits_c8ib_def Limits_c8id_def Limits_c8in_def Limits_c8ine_def Limits_c9g_def Limits_c9gd_def

lemma Group_c_ok: "rows_ok Group_c"
  unfolding Group_c_defs by (simp add: rows_ok_simps)

lemmas Group_d_defs = Group_d_def
  Limits_d2_def Limits_d3_def Limits_d3en_def Limits_dl1_def Limits_dl2q_def

lemma Group_d_ok: "rows_ok Group_d"
  unfolding Group_d_defs by (simp add: rows_ok_simps)

lemmas Group_f_defs = Group_f_def
  Limits_f1_def Limits_f2_def

lemma Group_f_ok: "rows_ok Group_f"
  unfolding Group_f_defs by (simp add: rows_ok_simps)

lemmas Group_g_defs = Group_g_def
  Limits_g4ad_def Limits_g4dn_def Limits_g5_def Limits_g5g_def Limits_g6_def Limits_g6e_def Limits_g6f_def Limits_g7_def
  Limits_g7e_def Limits_gr6_def Limits_gr6f_def

lemma Group_g_ok: "rows_ok Group_g"
  unfolding Group_g_defs by (simp add: rows_ok_simps)

lemmas Group_h_defs = Group_h_def
  Limits_h1_def Limits_hpc7g_def

lemma Group_h_ok: "rows_ok Group_h"
  unfolding Group_h_defs by (simp add: rows_ok_simps)

lemmas Group_i_defs = Group_i_def
  Limits_i2_def Limits_i3_def Limits_i3en_def Limits_i4g_def Limits_i4i_def Limits_i7i_def Limits_i7ie_def Limits_i8g_def
  Limits_i8ge_def Limits_im4gn_def Limits_inf1_def Limits_inf2_def Limits_is4gen_def

lemma Group_i_ok: "rows_ok Group_i"
  unfolding Group_i_defs by (simp add: rows_ok_simps)

lemmas Group_m_defs = Group_m_def
  Limits_m1_def Limits_m2_def Limits_m3_def Limits_m4_def Limits_m5_def Limits_m5a_def Limits_m5ad_def Limits_m5d_def
  Limits_m5dn_def Limits_m5n_def Limits_m5zn_def Limits_m6a_def Limits_m6g_def Limits_m6gd_def Limits_m6i_def Limits_m6id_def
  Limits_m6idn_def Limits_m6in_def Limits_m7a_def Limits_m7g_flex_def Limits_m7g_def Limits_m7gd_def Limits_m7i_flex_def
  Limits_m7i_def Limits_m8a_def Limits_m8azn_def Limits_m8g_flex_def Limits_m8g_def Limits_m8gb_def Limits_m8gd_def
  Limits_m8gn_def Limits_m8i_flex_def Limits_m8i_def Limits_m8ib_def Limits_m8id_def Limits_m8idb_def Limits_m8idn_def
  Limits_m8in_def Limits_m8ine_def Limits_m9g_def Limits_m9gd_def Limits_mac_m3ultra_def Limits_mac_m4_def Limits_mac_m4max_def
  Limits_mac_m4pro_def Limits_mac1_def Limits_mac2_m1ultra_def Limits_mac2_m2_def Limits_mac2_m2pro_def Limits_mac2_def

lemma Group_m_ok: "rows_ok Group_m"
  unfolding Group_m_defs by (simp add: rows_ok_simps)

lemmas Group_p_defs = Group_p_def
  Limits_p3_def Limits_p3dn_def Limits_p4d_def Limits_p4de_def Limits_p5_def Limits_p5e_def Limits_p5en_def Limits_p6_b200_def
  Limits_p6_b300_def

lemma Group_p_ok: "rows_ok Group_p"
  unfolding Group_p_defs by (simp add: rows_ok_simps)

lemmas Group_r_defs = Group_r_def
  Limits_r3_def Limits_r4_def Limits_r5_def Limits_r5a_def Limits_r5ad_def Limits_r5b_def Limits_r5d_def Limits_r5dn_def
  Limits_r5n_def Limits_r6a_def Limits_r6g_def Limits_r6gd_def Limits_r6i_def Limits_r6id_def Limits_r6idn_def Limits_r6in_def
  Limits_r7a_def Limits_r7g_def Limits_r7gd_def Limits_r7i_def Limits_r7iz_def Limits_r8a_def Limits_r8g_def Limits_r8gb_def
  Limits_r8gd_def Limits_r8gn_def Limits_r8i_flex_def Limits_r8i_def Limits_r8ib_def Limits_r8id_def Limits_r8idb_def
  Limits_r8idn_def Limits_r8in_def Limits_r9g_def Limits_r9gd_def

lemma Group_r_ok: "rows_ok Group_r"
  unfolding Group_r_defs by (simp add: rows_ok_simps)

lemmas Group_t_defs = Group_t_def
  Limits_t1_def Limits_t2_def Limits_t3_def Limits_t3a_def Limits_t4g_def Limits_trn1_def Limits_trn1n_def

lemma Group_t_ok: "rows_ok Group_t"
  unfolding Group_t_defs by (simp add: rows_ok_simps)

lemmas Group_u_defs = Group_u_def
  Limits_u_3tb1_def Limits_u_6tb1_def Limits_u7i_12tb_def Limits_u7i_6tb_def Limits_u7i_8tb_def Limits_u7in_16tb_def
  Limits_u7in_24tb_def Limits_u7in_32tb_def

lemma Group_u_ok: "rows_ok Group_u"
  unfolding Group_u_defs by (simp add: rows_ok_simps)

lemmas Group_v_defs = Group_v_def
  Limits_vt1_def

lemma Group_v_ok: "rows_ok Group_v"
  unfolding Group_v_defs by (simp add: rows_ok_simps)

lemmas Group_x_defs = Group_x_def
  Limits_x1_def Limits_x1e_def Limits_x2gd_def Limits_x2idn_def Limits_x2iedn_def Limits_x2iezn_def Limits_x8aedz_def
  Limits_x8g_def Limits_x8i_def

lemma Group_x_ok: "rows_ok Group_x"
  unfolding Group_x_defs by (simp add: rows_ok_simps)

lemmas Group_z_defs = Group_z_def
  Limits_z1d_def

lemma Group_z_ok: "rows_ok Group_z"
  unfolding Group_z_defs by (simp add: rows_ok_simps)

lemma rows_ok_concat: "rows_ok (concat gs) \<longleftrightarrow> list_all rows_ok gs"
  by (induction gs) (simp_all add: rows_ok_Nil rows_ok_append)

lemma LimitsList_ok: "rows_ok LimitsList"
  by (simp add: LimitsList_def rows_ok_concat Group_a_ok Group_c_ok Group_d_ok Group_f_ok Group_g_ok Group_h_ok Group_i_ok Group_m_ok
      Group_p_ok Group_r_ok Group_t_ok Group_u_ok Group_v_ok Group_x_ok Group_z_ok del: concat.simps)

lemma VPCLimits_ok: "VPCLimits ty = Some l \<Longrightarrow> row_ok l"
  using LimitsList_ok mget_mem by (fastforce simp: VPCLimits_def rows_ok_def list_all_iff)

lemma mget_append: "mget (m @ m') k = (case mget m k of None \<Rightarrow> mget m' k | Some v \<Rightarrow> Some v)"
  by (induction m) (auto simp: mget_Cons)

lemma VPCLimits_a1_medium: "VPCLimits ''a1.medium'' = Some limits_a1_medium"
  by (simp add: VPCLimits_def LimitsList_def Group_a_def Limits_a1_def mget_append mget_Cons row_def card_of_def limits_a1_medium_def)

text \<open>C30. For every instance type in the table: the node is never turned away for want of a network card, at least two device indexes are
  available on the default card, every interface has at least one secondary address and so has the pool of a Windows node (at most
  63), a trunk-capable type is a Nitro instance, and the advertised branch capacity is positive exactly for the trunk-capable types and below
  the number of VLAN ids.\<close>

theorem limits_table_consistent:
  assumes "VPCLimits ty = Some l"
  shows "2 \<le> Minimum (Interface l) (default_card_limit l) \<and> default_card_limit l \<noteq> 0 \<and>
    1 \<le> getCapacity VPCLimits ty OSWindows \<and> getCapacity VPCLimits ty OSWindows \<le> 63 \<and>
    prefix_getCapacity VPCLimits ty OSWindows = getCapacity VPCLimits ty OSWindows \<and>
    (IsTrunkingCompatible l \<longrightarrow> IsNitroInstance VPCLimits ty = Some True) \<and>
    (IsTrunkingCompatible l \<longleftrightarrow> 0 < BranchInterface l) \<and> BranchInterface l < int MaxAllocatableVlanIds"
  using VPCLimits_ok [OF assms] assms
  by (auto simp: row_ok_def Minimum_def getCapacity_def prefix_getCapacity_def IsNitroInstance_def)

theorem limits_table_consistent_witness:
  "VPCLimits ''a1.medium'' = Some limits_a1_medium \<and> 1 \<le> getCapacity VPCLimits ''a1.medium'' OSWindows"
  using limits_table_consistent [OF VPCLimits_a1_medium] VPCLimits_a1_medium by simp

section \<open>The VLAN ids of a trunk\<close>

text \<open>The ids marked in the table, and those of them that no interface in the cache or in the delete queue has: id 0 is reserved.\<close>

definition used_vlans :: "trunk_eni \<Rightarrow> nat" where
  "used_vlans t = length (filter id (usedVlanIds t))"

definition lost_vlans :: "trunk_eni \<Rightarrow> int" where
  "lost_vlans t = int (used_vlans t) - 1 - int (length (live_enis t))"

lemma filter_update_True: "n < length us \<Longrightarrow> \<not> us ! n \<Longrightarrow> length (filter id (us[n := True])) = Suc (length (filter id us))"
  by (induction us arbitrary: n) (auto simp: nth_Cons split: nat.splits)

lemma filter_update_False: "n < length us \<Longrightarrow> us ! n \<Longrightarrow> Suc (length (filter id (us[n := False]))) = length (filter id us)"
  by (induction us arbitrary: n) (auto simp: nth_Cons split: nat.splits)

lemma filter_id_all: "length (filter id us) = length us \<longleftrightarrow> list_all id us"
proof (induction us)
  case (Cons u us)
  have "length (filter id us) \<noteq> Suc (length us)" by (metis length_filter_le not_less_eq_eq order_refl)
  then show ?case using Cons by (cases u) (auto simp: id_def)
qed simp

lemma assignVlanId_used: "assignVlanId t = (t', Some v) \<Longrightarrow> used_vlans t' = Suc (used_vlans t)"
  using assignVlanId_Some [of t t' v] by (auto simp: used_vlans_def filter_update_True)

lemma assignVlanId_full: "assignVlanId t = (t', None) \<Longrightarrow> t' = t \<and> used_vlans t = length (usedVlanIds t)"
  using assignVlanId_None [of t t'] by (auto simp: used_vlans_def filter_id_all)

lemma assignVlanId_room: "used_vlans t \<noteq> length (usedVlanIds t) \<Longrightarrow> \<exists>t' v. assignVlanId t = (t', Some v)"
  using assignVlanId_full by (metis option.exhaust surj_pair)

lemma freeVlanId_used:
  assumes "vlan_owns t (v # vs)" "freeVlanId v t = Some t'"
  shows "Suc (used_vlans t') = used_vlans t"
proof -
  have v: "0 < v" "v < int (length (usedVlanIds t))" "usedVlanIds t ! nat v"
    using assms(1) by (auto simp: vlan_owns_def)
  then have "t' = t\<lparr>usedVlanIds := (usedVlanIds t)[nat v := False]\<rparr>"
    using assms(2) by (simp add: freeVlanId_def index_get_def index_set_def)
  then show ?thesis using v filter_update_False [of "nat v" "usedVlanIds t"] by (simp add: used_vlans_def)
qed

text \<open>The ids in use are one for the reserved id, one for every interface and the lost ones.\<close>

lemma lost_nonneg:
  assumes "trunk_inv t"
  shows "0 \<le> lost_vlans t"
proof -
  have own: "vlan_owns t (live_vlans t)" using assms by (simp add: trunk_inv_def)
  let ?ids = "0 # map nat (live_vlans t)" and ?u = "usedVlanIds t"
  have "inj_on nat (set (live_vlans t))"
    using own by (auto simp: vlan_owns_def list_all_iff inj_on_def)
  then have "distinct ?ids" using own by (auto simp: vlan_owns_def list_all_iff distinct_map)
  moreover have "set ?ids \<subseteq> {n. n < length ?u \<and> ?u ! n}"
    using own by (auto simp: vlan_owns_def list_all_iff MaxAllocatableVlanIds_def)
  ultimately have "length ?ids \<le> card {n. n < length ?u \<and> ?u ! n}"
    using card_mono [of "{n. n < length ?u \<and> ?u ! n}" "set ?ids"] distinct_card [of ?ids] by simp
  then show ?thesis by (simp add: lost_vlans_def used_vlans_def length_filter_conv_card live_vlans_def)
qed

text \<open>The creation loop marks one id per interface it leaves behind and stops for want of an id only when all are marked.\<close>

lemma create_loop_used:
  assumes "create_loop api i sgs n t h new = Some (t', h', new', err)"
    and "length (usedVlanIds t) = MaxAllocatableVlanIds"
  shows "used_vlans t' + length new = used_vlans t + length new' \<and> length (usedVlanIds t') = MaxAllocatableVlanIds \<and>
    (err = Some NoFreeVlanId \<longrightarrow> used_vlans t' = MaxAllocatableVlanIds \<and> length new' < length new + n)"
  using assms
proof (induction api i sgs n t h new rule: create_loop.induct)
  case (2 api i sgs n t h new)
  obtain t1 ov where a: "assignVlanId t = (t1, ov)" by (metis surj_pair)
  show ?case
  proof (cases ov)
    case None
    then show ?thesis using a 2(2,3) assignVlanId_full [of t t1] by auto
  next
    case (Some v)
    note a = a [unfolded Some]
    have u1: "used_vlans t1 = Suc (used_vlans t)" by (rule assignVlanId_used [OF a])
    obtain m where m: "m < length (usedVlanIds t)" "v = int m" "\<not> usedVlanIds t ! m"
        "t1 = t\<lparr>usedVlanIds := (usedVlanIds t)[m := True]\<rparr>"
      using assignVlanId_Some [OF a] by blast
    have l1: "length (usedVlanIds t1) = MaxAllocatableVlanIds" using m(4) 2(3) by simp
    have "freeVlanId v t1 = Some (t1\<lparr>usedVlanIds := (usedVlanIds t)[m := False]\<rparr>)"
      using m by (simp add: freeVlanId_def index_get_def index_set_def)
    moreover have "(usedVlanIds t)[m := False] = usedVlanIds t"
      using m(1,3) by (simp add: list_update_same_conv)
    ultimately have f: "freeVlanId v t1 = Some (t1\<lparr>usedVlanIds := usedVlanIds t\<rparr>)" by simp
    show ?thesis
      using 2(2) 2(1) [OF a [symmetric] refl refl _ refl refl _] u1 l1 f 2(3)
      by (auto simp: a Let_def used_vlans_def split: sum.splits)
  qed
qed simp

lemma create_vlans:
  assumes inv: "trunk_inv t" and "0 \<le> cnt"
  shows "\<exists>t' h' r. CreateAndAssociateBranchENIs Limits api i uid sgs cnt t h = Some (t', h', r) \<and> lost_vlans t' = lost_vlans t \<and>
    (r = Inl NoFreeVlanId \<longrightarrow> int MaxAllocatableVlanIds \<le> lost_vlans t + int (length (live_enis t)) + cnt \<and> canCreateMore Limits i t)"
proof (cases "mget (uidToBranchENIMap t) uid = None \<and> canCreateMore Limits i t")
  case False
  then show ?thesis
    by (auto simp: CreateAndAssociateBranchENIs_def getBranchFromCache_def)
next
  case True
  let ?sg = "if sgs = [] then currentInstanceSecurityGroups i else sgs"
  have own: "vlan_owns t (map VlanID [] @ live_vlans t)" "length (usedVlanIds t) = MaxAllocatableVlanIds" "wf_map (uidToBranchENIMap t)"
    using inv by (simp_all add: trunk_inv_def vlan_owns_def)
  obtain t1 h1 new err where l: "create_loop api i ?sg (nat cnt) t h [] = Some (t1, h1, new, err)"
      "uidToBranchENIMap t1 = uidToBranchENIMap t" "deleteQueue t1 = deleteQueue t"
    using create_loop_spec [OF own(1), of api i ?sg "nat cnt" h] by auto
  have u: "used_vlans t1 = used_vlans t + length new"
      "err = Some NoFreeVlanId \<longrightarrow> used_vlans t1 = MaxAllocatableVlanIds \<and> length new < nat cnt"
    using create_loop_used [OF l(1) own(2)] by auto
  show ?thesis
  proof (cases err)
    case None
    let ?t = "addBranchToCache uid new t1"
    have t: "?t = t1\<lparr>uidToBranchENIMap := mput (uidToBranchENIMap t) uid new\<rparr>"
      using True l(2) by (simp add: addBranchToCache_def mhas_def)
    then have "size (mset (live_enis ?t)) = length new + length (live_enis t)"
      using True l(3) own(3) by (simp add: mset_live_enis mflat_mset mdel_absent mkeys_mget live_enis_def)
    then have "lost_vlans ?t = lost_vlans t"
      using u(1) t by (simp add: lost_vlans_def used_vlans_def)
    moreover have "CreateAndAssociateBranchENIs Limits api i uid sgs cnt t h = Some (?t, h1, Inr new)"
      using True l(1) by (simp add: CreateAndAssociateBranchENIs_def getBranchFromCache_def None)
    ultimately show ?thesis by blast
  next
    case (Some e)
    let ?t = "PushENIsToFrontOfDeleteQueue None new t1"
    have "lost_vlans ?t = lost_vlans t"
      using u(1) l(2,3) by (simp add: lost_vlans_def used_vlans_def live_enis_def PushENIsToFrontOfDeleteQueue_def)
    moreover have "CreateAndAssociateBranchENIs Limits api i uid sgs cnt t h = Some (?t, h1, Inl e)"
      using True l(1) by (simp add: CreateAndAssociateBranchENIs_def getBranchFromCache_def Some)
    moreover have "int MaxAllocatableVlanIds \<le> lost_vlans t + int (length (live_enis t)) + cnt" if "e = NoFreeVlanId"
      using u that Some assms(2) by (auto simp: lost_vlans_def zless_nat_eq_int_zless)
    ultimately show ?thesis using True by blast
  qed
qed

lemma branch_limit_bound: "branch_limit VPCLimits i < int MaxAllocatableVlanIds"
  using VPCLimits_ok by (auto simp: branch_limit_def row_ok_def MaxAllocatableVlanIds_def split: option.splits)


lemma NewTrunkENI_lost: "lost_vlans (NewTrunkENI i) = 0"
  using filter_update_True [of 0 "replicate MaxAllocatableVlanIds False"]
  by (simp add: lost_vlans_def used_vlans_def live_enis_def NewTrunkENI_def MaxAllocatableVlanIds_def)

lemma sample_trunk_lost: "lost_vlans sample_trunk = 0"
  using NewTrunkENI_lost [of sample_instance] by (simp add: sample_trunk_def lost_vlans_def used_vlans_def live_enis_def)


text \<open>With no id left the request fails before it calls EC2.\<close>

lemma create_exhausted:
  assumes "trunk_inv t" "mget (uidToBranchENIMap t) uid = None" "canCreateMore Limits i t"
    and "lost_vlans t + int (length (live_enis t)) = int MaxAllocatableVlanIds - 1"
  shows "CreateAndAssociateBranchENIs Limits api i uid sgs 1 t h = Some (t, h, Inl NoFreeVlanId)"
proof -
  have "used_vlans t = length (usedVlanIds t)"
    using assms(1,4) by (simp add: trunk_inv_def vlan_owns_def lost_vlans_def)
  then have "list_all id (usedVlanIds t)" by (simp add: used_vlans_def filter_id_all)
  then have "assignVlanId t = (t, None)" using first_free_None [of "usedVlanIds t" 0] by (simp add: assignVlanId_def)
  then show ?thesis
    using assms(2,3) by (simp add: CreateAndAssociateBranchENIs_def getBranchFromCache_def PushENIsToFrontOfDeleteQueue_def)
qed

lemma used_le: "trunk_inv t \<Longrightarrow> lost_vlans t + int (length (live_enis t)) \<le> int MaxAllocatableVlanIds - 1"
  using length_filter_le [of id "usedVlanIds t"] by (auto simp: trunk_inv_def vlan_owns_def lost_vlans_def used_vlans_def)

text \<open>When a pod's request fails for want of a VLAN id: exactly when the trunk is below the branch limit of its instance
  type and the interfaces it has together with the lost ids take all the 120 ids; the failed request calls EC2 for nothing.\<close>

theorem vlan_exhausted_iff:
  assumes "trunk_inv t" "mget (uidToBranchENIMap t) uid = None"
  shows "(\<exists>t' h'. CreateAndAssociateBranchENIs Limits api i uid sgs 1 t h = Some (t', h', Inl NoFreeVlanId)) \<longleftrightarrow>
    int (length (live_enis t)) < branch_limit Limits i \<and> lost_vlans t + int (length (live_enis t)) = int MaxAllocatableVlanIds - 1"
  using create_vlans [OF assms(1), of 1 Limits api i uid sgs h] create_exhausted [OF assms, of Limits i api sgs h] used_le [OF assms(1)]
  by (fastforce simp: canCreateMore_iff)

theorem vlan_exhausted_iff_witness:
  "\<not> (\<exists>t' h'. CreateAndAssociateBranchENIs VPCLimits sample_api sample_instance ''uid-1'' [] 1 sample_trunk [] =
     Some (t', h', Inl NoFreeVlanId))"
proof -
  have "mget (uidToBranchENIMap sample_trunk) ''uid-1'' = None" "live_enis sample_trunk = []"
    by (simp_all add: sample_trunk_def NewTrunkENI_def live_enis_def)
  then show ?thesis
    using vlan_exhausted_iff [OF sample_trunk_inv, of "''uid-1''" VPCLimits sample_api sample_instance "[]" "[]"] sample_trunk_lost
    by (simp add: MaxAllocatableVlanIds_def)
qed

section \<open>Losing a VLAN id\<close>

text \<open>EC2 deletes every interface it is asked to delete, or does not know it.\<close>

definition delete_accepted :: "ec2_api \<Rightarrow> bool" where
  "delete_accepted api \<longleftrightarrow> (\<forall>h n err. DeleteNetworkInterface api h n = Some err \<longrightarrow> Contains err NotFoundInterfaceID)"

lemma deleteENI_used:
  assumes "vlan_owns t (VlanID eni # vs)" "deleteENI api eni t h = Some (t', h', e)"
  shows "if e = None then vlan_owns t' vs \<and> Suc (used_vlans t') = used_vlans t \<and>
      uidToBranchENIMap t' = uidToBranchENIMap t \<and> deleteQueue t' = deleteQueue t
    else t' = t \<and> \<not> delete_accepted api"
proof -
  have nz: "VlanID eni \<noteq> 0" using assms(1) by (auto simp: vlan_owns_def)
  have f: "vlan_owns t'' vs \<and> Suc (used_vlans t'') = used_vlans t \<and>
      uidToBranchENIMap t'' = uidToBranchENIMap t \<and> deleteQueue t'' = deleteQueue t"
    if "freeVlanId (VlanID eni) t = Some t''" for t''
    using freeVlanId_used [OF assms(1) that] vlans.release_owned [OF assms(1)] that by (auto simp: freeVlanId_def split: option.splits if_splits)
  define h1 where "h1 = (if AssociationID eni \<noteq> '''' then DisassociateTrunkInterfaceCall (AssociationID eni) # h else h)"
  show ?thesis
  proof (cases "\<exists>err. DeleteNetworkInterface api h1 (ID eni) = Some err \<and> \<not> Contains err NotFoundInterfaceID")
    case True
    then obtain err where err: "DeleteNetworkInterface api h1 (ID eni) = Some err" "\<not> Contains err NotFoundInterfaceID"
      by blast
    then have "t' = t \<and> e = Some err"
      using assms(2) by (simp add: deleteENI_def Let_def h1_def [symmetric])
    then show ?thesis using err by (auto simp: delete_accepted_def)
  next
    case False
    then have "freeVlanId (VlanID eni) t = Some t' \<and> e = None"
      using assms(2) nz by (auto simp: deleteENI_def Let_def h1_def [symmetric] split: option.splits if_splits)
    then show ?thesis using f by simp
  qed
qed

lemma lost_popped:
  assumes "trunk_inv t" "popENIFromDeleteQueue t = (t1, Some eni)"
  shows "lost_vlans t1 = lost_vlans t + 1" "Suc (length (live_enis t1)) = length (live_enis t)"
  using pop_owns [OF assms] pop_some(3) [OF assms(2)]
  by (simp_all add: lost_vlans_def used_vlans_def live_enis_def)

lemma lost_pushed:
  "lost_vlans (PushENIsToFrontOfDeleteQueue None [e] t1) = lost_vlans t1 - 1"
  "length (live_enis (PushENIsToFrontOfDeleteQueue None [e] t1)) = Suc (length (live_enis t1))"
  by (simp_all add: PushENIsToFrontOfDeleteQueue_def lost_vlans_def used_vlans_def live_enis_def)

text \<open>The ids the deletion of the cooled down interfaces loses are those of the interfaces it gives up.\<close>

definition vlans_kept :: "ec2_api \<Rightarrow> trunk_eni \<Rightarrow> trunk_eni \<Rightarrow> bool" where
  "vlans_kept api t t' \<longleftrightarrow> lost_vlans t \<le> lost_vlans t' \<and>
     lost_vlans t' + int (length (live_enis t')) \<le> lost_vlans t + int (length (live_enis t)) \<and>
     (delete_accepted api \<longrightarrow> lost_vlans t' = lost_vlans t)"

lemma vlans_kept_refl: "vlans_kept api t t" by (simp add: vlans_kept_def)

lemma vlans_kept_trans: "vlans_kept api t t1 \<Longrightarrow> vlans_kept api t1 t2 \<Longrightarrow> vlans_kept api t t2"
  by (auto simp: vlans_kept_def)

lemma turn_after_delete:
  assumes "trunk_inv t" "popENIFromDeleteQueue t = (t1, Some eni)" "deleteENI api eni t1 h1 = Some (t2, h2, e)"
  shows "e = None \<Longrightarrow> vlans_kept api t t2" "e \<noteq> None \<Longrightarrow> t2 = t1 \<and> vlans_kept api t t1" "trunk_inv t2"
proof -
  note o = pop_owns [OF assms(1,2)] and l = lost_popped [OF assms(1,2)]
  note used = deleteENI_used [OF o(1) assms(3)]
  have live: "length (live_enis t2) = length (live_enis t1)" "lost_vlans t2 = lost_vlans t1 - (if e = None then 1 else 0)"
    using used by (auto simp: live_enis_def lost_vlans_def split: if_splits)
  then show "e = None \<Longrightarrow> vlans_kept api t t2" using l by (simp add: vlans_kept_def)
  show "e \<noteq> None \<Longrightarrow> t2 = t1 \<and> vlans_kept api t t1" using live l used by (simp add: vlans_kept_def)
  show "trunk_inv t2" using used o(2) live_vlans_cong [of t2 t1] by (auto simp: trunk_inv_def split: if_splits)
qed

lemma turn_pushed: "trunk_inv t \<Longrightarrow> popENIFromDeleteQueue t = (t1, Some eni) \<Longrightarrow>
    vlans_kept api t (PushENIsToFrontOfDeleteQueue None [e] t1)"
  using lost_popped [of t t1 eni] by (simp add: vlans_kept_def lost_pushed)

lemma cooled_down_kept:
  assumes "trunk_inv t" "DeleteCooledDownENIs api period t h = Some (t', h')"
  shows "vlans_kept api t t'"
  using assms
proof (induction api period t h rule: DeleteCooledDownENIs.induct)
  case (1 api period t h)
  note inv = 1(4) and run = 1(5) [unfolded DeleteCooledDownENIs.simps [of api period t h]]
  obtain t1 oe where p: "popENIFromDeleteQueue t = (t1, oe)" by (metis surj_pair)
  show ?case
  proof (cases oe)
    case None
    then show ?thesis using run p pop_none [of t t1] by (simp add: vlans_kept_refl)
  next
    case (Some eni)
    note p = p [unfolded Some] and ih = 1(1-3) [OF p [unfolded Some, symmetric] refl refl]
    define h1 where "h1 = (if deletionTimeStamp eni = None then h else ReadClock # h)"
    define eni' where "eni' = eni\<lparr>deleteRetryCount := deleteRetryCount eni + 1\<rparr>"
    show ?thesis
    proof (cases "cooled_down api period eni h")
      case False
      then show ?thesis using run turn_pushed [OF inv p] by (auto simp: p)
    next
      case True
      note ih = ih [OF True, folded h1_def]
      obtain t2 h2 e where d: "deleteENI api eni t1 h1 = Some (t2, h2, e)"
        using deleteENI_owned [OF pop_owns(1) [OF inv p]] by metis
      note k = turn_after_delete [OF inv p d]
      consider "e = None" "DeleteCooledDownENIs api period t2 h2 = Some (t', h')"
        | err where "e = Some err" "deleteRetryCount eni' \<ge> MaxDeleteRetries" "DeleteCooledDownENIs api period t2 h2 = Some (t', h')"
        | err where "e = Some err" "\<not> deleteRetryCount eni' \<ge> MaxDeleteRetries"
            "DeleteCooledDownENIs api period (PushENIsToFrontOfDeleteQueue None [eni'] t2) h2 = Some (t', h')"
        using run True d
        by (cases e) (auto simp: p Let_def h1_def [symmetric] eni'_def [symmetric] split: if_splits)
      then show ?thesis
      proof cases
        case 1
        then show ?thesis using ih(1) [OF d refl refl] k vlans_kept_trans by blast
      next
        case 2
        then show ?thesis using ih(2) [OF d refl refl] k vlans_kept_trans unfolding eni'_def by blast
      next
        case 3
        have "trunk_inv (PushENIsToFrontOfDeleteQueue None [eni'] t1)" by (rule front_inv [OF inv p]) (simp add: eni'_def)
        moreover have "t2 = t1" using k(2) 3(1) by simp
        ultimately have "vlans_kept api (PushENIsToFrontOfDeleteQueue None [eni'] t1) t'"
          using ih(3) [OF d refl refl 3(1) eni'_def 3(2)] 3(3) by simp
        then show ?thesis by (rule vlans_kept_trans [OF turn_pushed [OF inv p]])
      qed
    qed
  qed
qed



section \<open>A forgotten interface\<close>

text \<open>A full trunk of an instance type with 120 branch interfaces, the last of them on its third attempt to be deleted, and an EC2 that
  refuses the deletion.\<close>

definition full_enis :: "eni_details list" where
  "full_enis = map (\<lambda>v. zero_eni\<lparr>ID := ''eni'', VlanID := v\<rparr>) [1..119]"

definition full_trunk :: trunk_eni where
  "full_trunk = sample_trunk\<lparr>usedVlanIds := replicate MaxAllocatableVlanIds True, uidToBranchENIMap := [(''uid-1'', full_enis)],
     deleteQueue := [zero_eni\<lparr>ID := ''eni-120'', VlanID := 120, deleteRetryCount := 2\<rparr>]\<rparr>"

definition refusing_api :: ec2_api where
  "refusing_api = sample_api\<lparr>DeleteNetworkInterface := (\<lambda>h n. Some ''UnauthorizedOperation'')\<rparr>"

definition g7e_instance :: ec2_instance where
  "g7e_instance = sample_instance\<lparr>instanceType := ''g7e.2xlarge''\<rparr>"

lemma mget_other_letter: "list_all (\<lambda>(j, _). hd j \<noteq> c) m \<Longrightarrow> mget m (c # k) = None"
  by (induction m) (auto simp: mget_Cons)

lemma VPCLimits_g7e: "VPCLimits ''g7e.2xlarge'' = Some (row 4 64 True 120 0 [card_of 4 0] ''nitro'' False)"
proof -
  have "list_all (\<lambda>(j, _). hd j \<noteq> CHR ''g'') Group_a" unfolding Group_a_defs by simp
  moreover have "list_all (\<lambda>(j, _). hd j \<noteq> CHR ''g'') Group_c" unfolding Group_c_defs by simp
  moreover have "list_all (\<lambda>(j, _). hd j \<noteq> CHR ''g'') Group_d" unfolding Group_d_defs by simp
  moreover have "list_all (\<lambda>(j, _). hd j \<noteq> CHR ''g'') Group_f" unfolding Group_f_defs by simp
  ultimately have "VPCLimits ''g7e.2xlarge'' = mget (Group_g @ concat [Group_h, Group_i, Group_m, Group_p, Group_r, Group_t, Group_u,
      Group_v, Group_x, Group_z]) ''g7e.2xlarge''"
    unfolding VPCLimits_def LimitsList_def by (simp add: mget_append mget_other_letter)
  then show ?thesis by (simp add: mget_append mget_Cons Group_g_defs)
qed

lemma full_trunk_vlans: "live_vlans full_trunk = [1..120]" "length (live_enis full_trunk) = 120"
proof -
  show v: "live_vlans full_trunk = [1..120]"
    by (simp add: live_vlans_def live_enis_def full_trunk_def full_enis_def comp_def upto_rec2)
  show "length (live_enis full_trunk) = 120" using arg_cong [OF v, of length] by (simp add: live_vlans_def)
qed

lemma full_trunk_inv: "trunk_inv full_trunk" "lost_vlans full_trunk = 0"
proof -
  have "vlan_owns full_trunk [1..120]"
    by (auto simp: vlan_owns_def full_trunk_def MaxAllocatableVlanIds_def list_all_iff)
  then show "trunk_inv full_trunk"
    by (simp add: trunk_inv_def full_trunk_vlans) (simp add: full_trunk_def mkeys_def)
  show "lost_vlans full_trunk = 0"
    unfolding lost_vlans_def full_trunk_vlans by (simp add: used_vlans_def full_trunk_def MaxAllocatableVlanIds_def)
qed

definition forgetful_trunk :: trunk_eni where
  "forgetful_trunk = full_trunk\<lparr>deleteQueue := []\<rparr>"

lemma full_trunk_forgets: "DeleteCooledDownENIs refusing_api 30 full_trunk [] = Some (forgetful_trunk, [DeleteNetworkInterfaceCall ''eni-120''])"
proof -
  have "\<not> Contains ''UnauthorizedOperation'' NotFoundInterfaceID" by code_simp
  then have "deleteENI refusing_api (zero_eni\<lparr>ID := ''eni-120'', VlanID := 120, deleteRetryCount := 2\<rparr>) forgetful_trunk [] =
      Some (forgetful_trunk, [DeleteNetworkInterfaceCall ''eni-120''], Some ''UnauthorizedOperation'')"
    by (simp add: deleteENI_def refusing_api_def zero_eni_def)
  moreover have "popENIFromDeleteQueue full_trunk =
      (forgetful_trunk, Some (zero_eni\<lparr>ID := ''eni-120'', VlanID := 120, deleteRetryCount := 2\<rparr>))"
    by (simp add: popENIFromDeleteQueue_def full_trunk_def forgetful_trunk_def)
  moreover have "DeleteCooledDownENIs refusing_api 30 forgetful_trunk h = Some (forgetful_trunk, h)" for h
    by (simp add: DeleteCooledDownENIs.simps popENIFromDeleteQueue_def forgetful_trunk_def)
  ultimately show ?thesis
    by (subst DeleteCooledDownENIs.simps) (simp add: cooled_down_def zero_eni_def MaxDeleteRetries_def)
qed


end
