(* ===== verification/K8s_Reads.thy ===== *)
theory K8s_Reads
  imports K8s_Wrapper Startup
begin

text \<open>
  The functions of \<open>pkg/k8s/wrapper.go\<close> that are one call of the client each, and the cache of the manager that \<open>main.go\<close> restricts to
  three objects. The client is a record of calls on a state of an arbitrary type; the objects whose content the program only hands on are of
  arbitrary types. The property is that the conditions, read through the wrapper from the restricted cache, are those of the cluster.
\<close>

section \<open>The wrapper's calls\<close>

record namespaced_name =
  NnNamespace :: string
  NnName :: string

record ('w, 'n, 'e, 'v, 'o, 'r) cache_client =
  DaemonSetObject :: "namespaced_name \<Rightarrow> 'w \<Rightarrow> k8s_error + ds_container list"
  DeploymentObject :: "namespaced_name \<Rightarrow> 'w \<Rightarrow> k8s_error + unit"
  ConfigMapObject :: "namespaced_name \<Rightarrow> 'w \<Rightarrow> k8s_error + config_map"
  ENIConfigObject :: "namespaced_name \<Rightarrow> 'w \<Rightarrow> k8s_error + 'e"
  NodeObject :: "namespaced_name \<Rightarrow> 'w \<Rightarrow> k8s_error + 'n"
  CNINodeObject :: "namespaced_name \<Rightarrow> 'w \<Rightarrow> k8s_error + 'r cni_node"
  NodeObjects :: "'w \<Rightarrow> k8s_error + 'n list"
  EventObjects :: "'o list \<Rightarrow> 'w \<Rightarrow> k8s_error + 'v list"
  CNINodeObjects :: "'w \<Rightarrow> k8s_error + 'r cni_node list"
  DeleteObject :: "'r cni_node \<Rightarrow> 'w \<Rightarrow> 'w \<times> client_error option"
  PatchObject :: "'r cni_node \<Rightarrow> 'r cni_node \<Rightarrow> bool \<Rightarrow> 'w \<Rightarrow> 'w \<times> client_error option"

definition wrapper_GetDaemonSet ::
  "('w, 'n, 'e, 'v, 'o, 'r) cache_client \<Rightarrow> string \<Rightarrow> string \<Rightarrow> 'w \<Rightarrow> k8s_error + ds_container list" where
  "wrapper_GetDaemonSet k nm ns w = DaemonSetObject k \<lparr>NnNamespace = ns, NnName = nm\<rparr> w"

definition wrapper_GetDeployment :: "('w, 'n, 'e, 'v, 'o, 'r) cache_client \<Rightarrow> string \<Rightarrow> string \<Rightarrow> 'w \<Rightarrow> k8s_error + unit" where
  "wrapper_GetDeployment k ns nm w = DeploymentObject k \<lparr>NnNamespace = ns, NnName = nm\<rparr> w"

definition wrapper_GetENIConfig :: "('w, 'n, 'e, 'v, 'o, 'r) cache_client \<Rightarrow> string \<Rightarrow> 'w \<Rightarrow> k8s_error + 'e" where
  "wrapper_GetENIConfig k eniConfigName w = ENIConfigObject k \<lparr>NnNamespace = '''', NnName = eniConfigName\<rparr> w"

definition wrapper_GetNode :: "('w, 'n, 'e, 'v, 'o, 'r) cache_client \<Rightarrow> string \<Rightarrow> 'w \<Rightarrow> k8s_error + 'n" where
  "wrapper_GetNode k node w = NodeObject k \<lparr>NnNamespace = '''', NnName = node\<rparr> w"

definition wrapper_GetConfigMap :: "('w, 'n, 'e, 'v, 'o, 'r) cache_client \<Rightarrow> string \<Rightarrow> string \<Rightarrow> 'w \<Rightarrow> k8s_error + config_map" where
  "wrapper_GetConfigMap k configMapName configMapNamespace w =
     ConfigMapObject k \<lparr>NnNamespace = configMapNamespace, NnName = configMapName\<rparr> w"

definition wrapper_ListNodes :: "('w, 'n, 'e, 'v, 'o, 'r) cache_client \<Rightarrow> 'w \<Rightarrow> k8s_error + 'n list" where
  "wrapper_ListNodes k w = NodeObjects k w"

definition wrapper_ListEvents :: "('w, 'n, 'e, 'v, 'o, 'r) cache_client \<Rightarrow> 'o list \<Rightarrow> 'w \<Rightarrow> k8s_error + 'v list" where
  "wrapper_ListEvents k ops w = (case EventObjects k ops w of Inl err \<Rightarrow> Inl err | Inr events \<Rightarrow> Inr events)"

definition wrapper_GetCNINode :: "('w, 'n, 'e, 'v, 'o, 'r) cache_client \<Rightarrow> namespaced_name \<Rightarrow> 'w \<Rightarrow> k8s_error + 'r cni_node" where
  "wrapper_GetCNINode k namespacedName w =
     (case CNINodeObject k namespacedName w of Inl err \<Rightarrow> Inl err | Inr cninode \<Rightarrow> Inr cninode)"

definition wrapper_DeleteCNINode :: "('w, 'n, 'e, 'v, 'o, 'r) cache_client \<Rightarrow> 'r cni_node \<Rightarrow> 'w \<Rightarrow> 'w \<times> client_error option" where
  "wrapper_DeleteCNINode k cniNode w = DeleteObject k cniNode w"

definition wrapper_ListCNINodes :: "('w, 'n, 'e, 'v, 'o, 'r) cache_client \<Rightarrow> 'w \<Rightarrow> k8s_error + 'r cni_node list" where
  "wrapper_ListCNINodes k w = (case CNINodeObjects k w of Inl err \<Rightarrow> Inl err | Inr items \<Rightarrow> Inr items)"

text \<open>The patch is taken against the old object and carries its version: \<open>True\<close> is the optimistic lock.\<close>

definition wrapper_PatchCNINode ::
  "('w, 'n, 'e, 'v, 'o, 'r) cache_client \<Rightarrow> 'r cni_node \<Rightarrow> 'r cni_node \<Rightarrow> 'w \<Rightarrow> 'w \<times> client_error option" where
  "wrapper_PatchCNINode k oldCNINode newCNINode w = PatchObject k newCNINode oldCNINode True w"

text \<open>What the recorder is given: object, type, reason and message, in that order.\<close>

datatype 'x recorded_event = RecordedEvent 'x string string string

definition wrapper_BroadcastEvent :: "'x \<Rightarrow> string \<Rightarrow> string \<Rightarrow> string \<Rightarrow> 'x recorded_event" where
  "wrapper_BroadcastEvent obj reason message eventType = RecordedEvent obj eventType reason message"

text \<open>\<open>GetPodFromAPIServer\<close> of \<open>client_wrapper.go\<close> asks the API server, never the cache; \<open>NodeNameIndexer\<close> of \<open>converter.go\<close> is the index
  by which the cache finds the pods of a node.\<close>

definition client_GetPodFromAPIServer :: "(string \<Rightarrow> string \<Rightarrow> 'w \<Rightarrow> client_error + pod) \<Rightarrow> string \<Rightarrow> string \<Rightarrow> 'w \<Rightarrow> client_error + pod" where
  "client_GetPodFromAPIServer CoreV1Get ns nm w = CoreV1Get ns nm w"

definition NodeNameSpec :: string where "NodeNameSpec = ''nodeName''"

definition NodeNameIndexer :: "(string, pod \<Rightarrow> string list) gomap" where
  "NodeNameIndexer = mput [] NodeNameSpec (\<lambda>pod. [PodNodeName pod])"

text \<open>The wrapper as the conditions see it.\<close>

definition condition_reads :: "('w, 'n, 'e, 'v, 'o, 'r) cache_client \<Rightarrow> 'w \<Rightarrow> cond_k8s" where
  "condition_reads k w =
     \<lparr>GetConfigMap = (\<lambda>nm ns. wrapper_GetConfigMap k nm ns w),
      GetDeployment = (\<lambda>ns nm. case wrapper_GetDeployment k ns nm w of Inl err \<Rightarrow> Some err | Inr _ \<Rightarrow> None),
      GetDaemonSet = (\<lambda>nm ns. wrapper_GetDaemonSet k nm ns w)\<rparr>"

section \<open>The cache of the manager\<close>

type_synonym field_set = "(string \<times> string) list"

definition ConfigMap_selector :: field_set where
  "ConfigMap_selector = [(''metadata.name'', VpcCniConfigMapName), (''metadata.namespace'', KubeSystemNamespace)]"

definition Deployment_selector :: field_set where
  "Deployment_selector = [(''metadata.name'', OldVPCControllerDeploymentName), (''metadata.namespace'', KubeSystemNamespace)]"

definition DaemonSet_selector :: field_set where
  "DaemonSet_selector = [(''metadata.name'', VpcCNIDaemonSetName), (''metadata.namespace'', KubeSystemNamespace)]"

text \<open>What the documentation says of \<open>AsSelector\<close> and of a cache with a selector: every field has its value, and a read of
  the cache finds the selected objects of the cluster and nothing else.\<close>

definition field_of :: "namespaced_name \<Rightarrow> string \<Rightarrow> string option" where
  "field_of key field =
     (if field = ''metadata.name'' then Some (NnName key)
      else if field = ''metadata.namespace'' then Some (NnNamespace key) else None)"

definition selects :: "field_set \<Rightarrow> namespaced_name \<Rightarrow> bool" where
  "selects fs key \<longleftrightarrow> list_all (\<lambda>(field, val). field_of key field = Some val) fs"

definition found :: "(namespaced_name \<Rightarrow> 'x option) \<Rightarrow> namespaced_name \<Rightarrow> k8s_error + 'x" where
  "found objs key = (case objs key of None \<Rightarrow> Inl (K8sNotFound (NnName key)) | Some obj \<Rightarrow> Inr obj)"

definition cache_of :: "field_set \<Rightarrow> (namespaced_name \<Rightarrow> 'x option) \<Rightarrow> (namespaced_name \<Rightarrow> 'w \<Rightarrow> k8s_error + 'x) \<Rightarrow> 'w \<Rightarrow> bool" where
  "cache_of fs objs get w \<longleftrightarrow> (\<forall>key. get key w = found (\<lambda>key. if selects fs key then objs key else None) key)"

record cluster =
  ClusterConfigMaps :: "namespaced_name \<Rightarrow> config_map option"
  ClusterDeployments :: "namespaced_name \<Rightarrow> unit option"
  ClusterDaemonSets :: "namespaced_name \<Rightarrow> ds_container list option"

definition manager_cache :: "('w, 'n, 'e, 'v, 'o, 'r) cache_client \<Rightarrow> cluster \<Rightarrow> 'w \<Rightarrow> bool" where
  "manager_cache k c w \<longleftrightarrow> cache_of ConfigMap_selector (ClusterConfigMaps c) (ConfigMapObject k) w \<and>
     cache_of Deployment_selector (ClusterDeployments c) (DeploymentObject k) w \<and>
     cache_of DaemonSet_selector (ClusterDaemonSets c) (DaemonSetObject k) w"

text \<open>The reference: the conditions read from the cluster itself, the three objects by namespace and name.\<close>

definition cluster_reads :: "cluster \<Rightarrow> cond_k8s" where
  "cluster_reads c =
     \<lparr>GetConfigMap = (\<lambda>nm ns. found (ClusterConfigMaps c) \<lparr>NnNamespace = ns, NnName = nm\<rparr>),
      GetDeployment = (\<lambda>ns nm. case ClusterDeployments c \<lparr>NnNamespace = ns, NnName = nm\<rparr> of None \<Rightarrow> Some (K8sNotFound nm) | Some _ \<Rightarrow> None),
      GetDaemonSet = (\<lambda>nm ns. found (ClusterDaemonSets c) \<lparr>NnNamespace = ns, NnName = nm\<rparr>)\<rparr>"

section \<open>Properties\<close>

lemma selects_own:
  "selects [(''metadata.name'', nm), (''metadata.namespace'', ns)] \<lparr>NnNamespace = ns', NnName = nm'\<rparr> \<longleftrightarrow> ns' = ns \<and> nm' = nm"
  by (auto simp: selects_def field_of_def)

lemma watched_reads:
  assumes "manager_cache k c w"
  shows "GetConfigMap (condition_reads k w) VpcCniConfigMapName KubeSystemNamespace =
      GetConfigMap (cluster_reads c) VpcCniConfigMapName KubeSystemNamespace"
    and "GetDeployment (condition_reads k w) KubeSystemNamespace OldVPCControllerDeploymentName =
      GetDeployment (cluster_reads c) KubeSystemNamespace OldVPCControllerDeploymentName"
    and "GetDaemonSet (condition_reads k w) VpcCNIDaemonSetName KubeSystemNamespace =
      GetDaemonSet (cluster_reads c) VpcCNIDaemonSetName KubeSystemNamespace"
  using assms
  by (simp_all add: manager_cache_def cache_of_def condition_reads_def cluster_reads_def wrapper_GetConfigMap_def wrapper_GetDeployment_def
      wrapper_GetDaemonSet_def found_def selects_own ConfigMap_selector_def Deployment_selector_def DaemonSet_selector_def split: option.splits)

text \<open>C29. The restricted cache hides nothing: every condition, read through the wrapper from the cache of the manager, has the value
  it has on the cluster, although no other ConfigMap, Deployment or DaemonSet can be read there.\<close>

theorem conditions_from_cache:
  assumes "manager_cache k c w"
  shows "IsOldVPCControllerDeploymentPresent (condition_reads k w) = IsOldVPCControllerDeploymentPresent (cluster_reads c) \<and>
    cond_IsWindowsIPAMEnabled (condition_reads k w) s = cond_IsWindowsIPAMEnabled (cluster_reads c) s \<and>
    cond_IsWindowsPrefixDelegationEnabled (condition_reads k w) s = cond_IsWindowsPrefixDelegationEnabled (cluster_reads c) s \<and>
    IsPodSGPEnabled (condition_reads k w) = IsPodSGPEnabled (cluster_reads c) \<and>
    ((nm, ns) \<noteq> (VpcCniConfigMapName, KubeSystemNamespace) \<longrightarrow>
       wrapper_GetConfigMap k nm ns w = Inl (K8sNotFound nm))"
proof -
  note r = watched_reads [OF assms]
  have old: "IsOldVPCControllerDeploymentPresent (condition_reads k w) = IsOldVPCControllerDeploymentPresent (cluster_reads c)"
    unfolding IsOldVPCControllerDeploymentPresent_def r ..
  moreover have "(nm, ns) \<noteq> (VpcCniConfigMapName, KubeSystemNamespace) \<longrightarrow> wrapper_GetConfigMap k nm ns w = Inl (K8sNotFound nm)"
    using assms by (auto simp: manager_cache_def cache_of_def wrapper_GetConfigMap_def found_def selects_own ConfigMap_selector_def)
  ultimately show ?thesis
    unfolding cond_IsWindowsIPAMEnabled_def cond_IsWindowsPrefixDelegationEnabled_def IsPodSGPEnabled_def r old by blast
qed

definition sample_cluster :: cluster where
  "sample_cluster =
     \<lparr>ClusterConfigMaps = (\<lambda>key. if NnName key = ''amazon-vpc-cni'' then Some (Some [(''enable-windows-ipam'', ''true'')]) else None),
      ClusterDeployments = (\<lambda>key. None),
      ClusterDaemonSets = (\<lambda>key. if key = \<lparr>NnNamespace = ''kube-system'', NnName = ''aws-node''\<rparr>
        then Some [\<lparr>DsName = ''aws-node'', DsEnv = [(''ENABLE_POD_ENI'', ''true'')]\<rparr>] else None)\<rparr>"

definition sample_cache :: "(unit, unit, unit, unit, unit, unit) cache_client" where
  "sample_cache =
     \<lparr>DaemonSetObject = (\<lambda>key w. found (\<lambda>key. if selects DaemonSet_selector key then ClusterDaemonSets sample_cluster key else None) key),
      DeploymentObject = (\<lambda>key w. found (\<lambda>key. if selects Deployment_selector key then ClusterDeployments sample_cluster key else None) key),
      ConfigMapObject = (\<lambda>key w. found (\<lambda>key. if selects ConfigMap_selector key then ClusterConfigMaps sample_cluster key else None) key),
      ENIConfigObject = (\<lambda>key w. Inr ()), NodeObject = (\<lambda>key w. Inr ()), CNINodeObject = (\<lambda>key w. Inl (K8sError ''timeout'')),
      NodeObjects = (\<lambda>w. Inr []), EventObjects = (\<lambda>ops w. Inr []), CNINodeObjects = (\<lambda>w. Inr []),
      DeleteObject = (\<lambda>c w. (w, None)), PatchObject = (\<lambda>new old locked w. (w, None))\<rparr>"

theorem conditions_from_cache_witness:
  "IsPodSGPEnabled (condition_reads sample_cache ()) \<and> wrapper_GetConfigMap sample_cache ''kube-proxy'' ''kube-system'' () = Inl (K8sNotFound ''kube-proxy'')"
proof -
  have "manager_cache sample_cache sample_cluster ()" by (simp add: manager_cache_def cache_of_def sample_cache_def)
  moreover have "IsPodSGPEnabled (cluster_reads sample_cluster)" by code_simp
  ultimately show ?thesis
    using conditions_from_cache [of sample_cache sample_cluster "()" _ "''kube-proxy''" "''kube-system''"] by (simp add: VpcCniConfigMapName_def)
qed

end
