(* ===== verification/Pod_Pipeline.thy ===== *)
theory Pod_Pipeline
  imports Custom_Props Branch_Props
begin

text \<open>
  From the watch to the pools: the loop of a worker of \<open>controllers/custom/custom_controller.go\<close>, which takes the requests that \<open>Process\<close>
  has put into the work queue and hands them to the pod controller, and what such a run does to the addresses of the pods whose deletion
  the watch has reported.
\<close>

section \<open>The worker\<close>

text \<open>What the work queue hands out, in order: \<open>None\<close> is the shutdown, \<open>Some None\<close> an item that is not a request. The run ends when the queue is
  shut down, when a reconciliation fails (the loop is entered again after a second) or when nothing is left to hand out; the items that are
  left and what goes back to the queue are part of the answer. \<open>None\<close> as an answer is a panic of the reconciler.\<close>

fun custom_worker ::
  "(pod_request \<Rightarrow> 's \<Rightarrow> ('s \<times> ctrl_result \<times> handler_error option) option) \<Rightarrow> pod_request option option list \<Rightarrow> 's \<Rightarrow> queue_op list \<Rightarrow>
   ('s \<times> queue_op list \<times> pod_request option option list) option" where
  "custom_worker Do [] s ops = Some (s, ops, [])"
| "custom_worker Do (item # items) s ops =
     (case item of
        Some (Some req) \<Rightarrow>
         (case Do req s of
            None \<Rightarrow> None
          | Some (s', answer) \<Rightarrow>
             (case processNextWorkItem (\<lambda>_. answer) item of
                (ops', True) \<Rightarrow> custom_worker Do items s' (ops @ ops')
              | (ops', False) \<Rightarrow> Some (s', ops @ ops', items)))
      | _ \<Rightarrow>
         (case processNextWorkItem (\<lambda>_. (no_requeue, None)) item of
            (ops', True) \<Rightarrow> custom_worker Do items s (ops @ ops')
          | (ops', False) \<Rightarrow> Some (s, ops @ ops', items)))"

text \<open>The reconciler of the pod controller with the pools and the record of the handled requests as its state; the answers of Kubernetes and
  the clock are functions of that record.\<close>

type_synonym pod_log = "(pod_request \<times> effect list) list"

definition pod_reconciler ::
  "limits_table \<Rightarrow> ((string, int) gomap \<Rightarrow> (string \<times> int) list) \<Rightarrow> (pod_log \<Rightarrow> string \<Rightarrow> string + pod option) \<Rightarrow> (pod_log \<Rightarrow> k8s_api) \<Rightarrow>
   (pod_log \<Rightarrow> nat \<Rightarrow> int) \<Rightarrow> node_manager \<Rightarrow> pod_request \<Rightarrow> resource_manager \<times> pod_log \<Rightarrow>
   ((resource_manager \<times> pod_log) \<times> ctrl_result \<times> handler_error option) option" where
  "pod_reconciler Limits ord GetByKey k8s now m request s =
     (case s of
        (rm, log) \<Rightarrow> map_option (\<lambda>(rm', effs, answer). ((rm', log @ [(request, effs)]), answer))
          (Reconcile Limits ord (GetByKey log) (k8s log) (now log) m request rm))"

section \<open>The deletion of a pod\<close>

text \<open>A pod whose deletion gives its address back: it has been scheduled, its node is managed or no longer known, it asked for an address, and
  its address is that of its annotation.\<close>

definition releasable :: "node_manager \<Rightarrow> resource_manager \<Rightarrow> pod \<Rightarrow> bool" where
  "releasable m rm pod \<longleftrightarrow> PodNodeName pod \<noteq> '''' \<and> (\<forall>n. cached_node m (PodNodeName pod) = Some n \<longrightarrow> managed n) \<and>
     mhas (getAggregateResources pod) ResourceNameIPAddress \<and> one_owner rm pod"

abbreviation owner_of :: "pod \<Rightarrow> string \<times> string" where
  "owner_of pod \<equiv> (PodNodeName pod, PodUID pod)"

definition released :: "resource_manager \<Rightarrow> resource_manager \<Rightarrow> (string \<times> string) set \<Rightarrow> bool" where
  "released rm rm' owners \<longleftrightarrow> (\<forall>r nd q. if (nd, q) \<in> owners then \<not> snd (assigned rm' r nd q) else assigned rm' r nd q = assigned rm r nd q)"

lemma one_owner_strip: "one_owner rm (StripDownPod pod) = one_owner rm pod"
  by (simp add: one_owner_def agrees_def)

lemma address_request_strip:
  "mhas (getAggregateResources (StripDownPod pod)) ResourceNameIPAddress = mhas (getAggregateResources pod) ResourceNameIPAddress"
  by (simp add: aggregate_strip mhas_def mget_filter)

lemma releasable_strip: "releasable m rm (StripDownPod pod) = releasable m rm pod"
  by (simp add: releasable_def one_owner_strip address_request_strip)

lemma releasable_after:
  assumes "releasable m rm pod" "released rm rm' owners"
  shows "releasable m rm' pod"
proof -
  have "assigned rm' r nd q \<in> {assigned rm r nd q, ('''', False)}" for r nd q
    using assms(2) assigned_none by (cases "(nd, q) \<in> owners") (auto simp: released_def)
  then have "one_owner rm' pod" using assms(1) unfolding releasable_def one_owner_def agrees_def
    by (metis (no_types, lifting) empty_iff insert_iff snd_conv)
  then show ?thesis using assms(1) by (simp add: releasable_def)
qed

lemma reconcile_deleted:
  assumes "rm_inv rm" "releasable m rm pod" "\<forall>agg. mset (ord agg) = mset agg"
  shows "\<exists>rm' effs. Reconcile Limits ord GetByKey k8s now m (delete_request pod) rm = Some (rm', effs, no_requeue, None) \<and>
    rm_inv rm' \<and> released rm rm' {owner_of pod}"
proof -
  let ?node = "cached_node m (PodNodeName pod)" and ?rs = "ord (getAggregateResources pod)"
  have gate: "pod_event_gate k8s True pod ?node = Inr True"
    using assms(2) by (auto simp: pod_event_gate_def releasable_def split: option.splits)
  have "set ?rs = set (getAggregateResources pod)" using assms(3) by (metis set_mset_mset)
  then have req: "ResourceNameIPAddress \<in> fst ` set ?rs"
    using assms(2) mget_mem by (force simp: releasable_def mhas_def)
  obtain rm' effs where l: "resources_loop Limits k8s now True pod ?node ?rs 0 rm [] = Some (rm', effs, no_requeue, None)" "rm_inv rm'"
      "\<forall>r nd q. nd \<noteq> PodNodeName pod \<or> q \<noteq> PodUID pod \<longrightarrow> assigned rm' r nd q = assigned rm r nd q"
      "\<forall>r. \<not> snd (assigned rm' r (PodNodeName pod) (PodUID pod))"
    using delete_loop [OF assms(1), of pod Limits k8s now ?node ?rs 0 "[]"] assms(2) req by (auto simp: releasable_def)
  have "released rm rm' {owner_of pod}" using l(3,4) by (auto simp: released_def)
  then show ?thesis using l(1,2) gate by (simp add: Reconcile_def delete_request_def)
qed

lemma released_trans: "released rm rm1 A \<Longrightarrow> released rm1 rm2 B \<Longrightarrow> released rm rm2 (A \<union> B)"
  by (auto simp: released_def split: if_splits) (metis (full_types))+

text \<open>A run of the worker over the requests of a list of deleted pods.\<close>

lemma worker_deletes:
  assumes "rm_inv rm" "list_all (releasable m rm) pods" "\<forall>agg. mset (ord agg) = mset agg"
  shows "\<exists>rm' log'. custom_worker (pod_reconciler Limits ord GetByKey k8s now m) (map (\<lambda>pod. Some (Some (delete_request pod))) pods) (rm, log) ops =
      Some ((rm', log'), ops @ map (Forget \<circ> delete_request) pods, []) \<and> rm_inv rm' \<and> released rm rm' (owner_of ` set pods) \<and>
      map fst log' = map fst log @ map delete_request pods"
  using assms(1,2)
proof (induction pods arbitrary: rm log ops)
  case Nil
  then show ?case by (simp add: released_def)
next
  case (Cons pod pods)
  let ?Do = "pod_reconciler Limits ord GetByKey k8s now m"
  obtain rm1 effs where r: "Reconcile Limits ord (GetByKey log) (k8s log) (now log) m (delete_request pod) rm = Some (rm1, effs, no_requeue, None)"
      "rm_inv rm1" "released rm rm1 {owner_of pod}"
    using reconcile_deleted [OF Cons.prems(1) _ assms(3), of m pod Limits "GetByKey log" "k8s log" "now log"] Cons.prems(2) by auto
  let ?log = "log @ [(delete_request pod, effs)]"
  have "list_all (releasable m rm1) pods" using Cons.prems(2) releasable_after [OF _ r(3)] by (auto simp: list_all_iff)
  from Cons.IH [OF r(2) this, of ?log "ops @ [Forget (delete_request pod)]"] obtain rm' log' where ih:
    "custom_worker ?Do (map (\<lambda>pod. Some (Some (delete_request pod))) pods) (rm1, ?log) (ops @ [Forget (delete_request pod)]) =
       Some ((rm', log'), ops @ map (Forget \<circ> delete_request) (pod # pods), [])"
    "rm_inv rm'" "released rm1 rm' (owner_of ` set pods)" "map fst log' = map fst ?log @ map delete_request pods" by auto
  have "?Do (delete_request pod) (rm, log) = Some ((rm1, ?log), no_requeue, None)"
    using r(1) by (simp add: pod_reconciler_def)
  moreover have "processNextWorkItem (\<lambda>_. (no_requeue, None)) (Some (Some (delete_request pod))) = ([Forget (delete_request pod)], True)"
    by (simp add: processNextWorkItem_def reconcileHandler_def no_requeue_def)
  ultimately have "custom_worker ?Do (map (\<lambda>pod. Some (Some (delete_request pod))) (pod # pods)) (rm, log) ops =
      Some ((rm', log'), ops @ map (Forget \<circ> delete_request) (pod # pods), [])"
    using ih(1) by simp
  moreover have "released rm rm' (owner_of ` set (pod # pods))" using released_trans [OF r(3) ih(3)] by simp
  ultimately show ?case using ih(2,4) by (intro exI [of _ rm'] exI [of _ log']) simp
qed

text \<open>The changes that report the deletion of a list of pods, and what is left of the cluster.\<close>

abbreviation deletions :: "pod list \<Rightarrow> (delta_type \<times> watched) list" where
  "deletions pods \<equiv> map (\<lambda>pod. (Deleted, PodObject pod)) pods"

lemma cluster_after_deletions: "cluster_after (deletions pods) c = (\<lambda>k. if k \<in> pod_key ` set pods then None else c k)"
  by (induction pods arbitrary: c) (auto simp: fun_eq_iff)

lemma deletions_seen: "list_all seen_pod (deletions pods)"
  by (simp add: list_all_iff seen_pod_def)

lemma deletion_requests: "map request_of (deletions pods) = map (delete_request \<circ> StripDownPod) pods"
  by (simp add: request_of_def)

section \<open>The deletion of a pod with branch interfaces\<close>

abbreviation deleted_job :: "pod \<Rightarrow> OnDemandJob" where
  "deleted_job pod \<equiv> NewOnDemandDeletedJob (PodNodeName pod) (PodUID pod)"

lemma delete_loop_submits:
  assumes "rm_inv rm" "GetResource rm ResourceNamePodENI = Some OnDemandResource"
  shows "\<exists>rm' ext. resources_loop Limits k8s now True pod node rs i rm effs = Some (rm', effs @ ext, no_requeue, None) \<and>
    (ResourceNamePodENI \<in> fst ` set rs \<longrightarrow> SubmitOnDemandJob (deleted_job pod) \<in> set ext)"
  using assms
proof (induction rs arbitrary: i rm effs)
  case (Cons rc rs)
  obtain resource n where rc: "rc = (resource, n)" by fastforce
  obtain res where nm: "(if resource = ResourceNameIPAddress then updateResourceName Limits k8s rm True pod node else Some resource) = Some res"
      "resource = ResourceNamePodENI \<longrightarrow> res = ResourceNamePodENI" "resource \<noteq> ResourceNamePodENI \<longrightarrow> res \<noteq> ResourceNamePodENI"
    by (cases "resource = ResourceNameIPAddress") (auto simp: delete_name resource_names)
  show ?case
  proof (cases "GetResource rm res")
    case None
    then have "resource \<noteq> ResourceNamePodENI" using Cons.prems(2) nm(2) by auto
    then show ?thesis using Cons.IH [OF Cons.prems, of "Suc i" effs] nm(1) None by (auto simp: rc)
  next
    case (Some e)
    obtain e' effs' result err where h: "handle_resource k8s (now i) True n pod e = (e', effs', result, err)" by (metis prod_cases4)
    note k = handle_delete_entry [OF Cons.prems(1) Some h]
    have "GetResource (mput rm res e') ResourceNamePodENI = Some OnDemandResource"
    proof (cases "res = ResourceNamePodENI")
      case True
      then show ?thesis using Some Cons.prems(2) h by (auto simp: GetResource_def handle_resource_def split: prod.splits)
    next
      case False
      then show ?thesis using Cons.prems(2) by (simp add: GetResource_def)
    qed
    from Cons.IH [OF conjunct1 [OF k] this, of "Suc i" "effs @ effs'"] obtain rm' ext where ih:
      "resources_loop Limits k8s now True pod node rs (Suc i) (mput rm res e') (effs @ effs') = Some (rm', (effs @ effs') @ ext, no_requeue, None)"
      "ResourceNamePodENI \<in> fst ` set rs \<longrightarrow> SubmitOnDemandJob (deleted_job pod) \<in> set ext" by blast
    have "SubmitOnDemandJob (deleted_job pod) \<in> set effs'" if "resource = ResourceNamePodENI"
      using that nm(2) Some Cons.prems(2) h by (auto simp: handle_resource_def on_demand_HandleDelete_def)
    then show ?thesis using ih k nm(1) Some h
      by (intro exI [of _ rm'] exI [of _ "effs' @ ext"]) (auto simp: rc no_requeue_def)
  qed
qed simp

lemma delete_job_cools:
  assumes "mget b (PodNodeName pod) = Some t" "mget (uidToBranchENIMap t) (PodUID pod) = Some enis"
  shows "\<exists>b' h' t' st. BranchProcessAsyncJob Limits marshal api k8s period insts (AnOnDemandJob (deleted_job pod)) b h =
      Some (b', h', [], no_requeue, None) \<and> mget b' (PodNodeName pod) = Some t' \<and>
    t' = t\<lparr>deleteQueue := deleteQueue t @ st, uidToBranchENIMap := mdel (uidToBranchENIMap t) (PodUID pod)\<rparr> \<and>
    map ID st = map ID enis \<and> map VlanID st = map VlanID enis \<and> (\<forall>e \<in> set st. deletionTimeStamp e \<noteq> None)"
proof -
  obtain t1 h1 where p: "PushBranchENIsToCoolDownQueue api (PodUID pod) t h = (t1, h1)" by (metis surj_pair)
  then show ?thesis
  proof (cases rule: PushBranch_cases)
    case missing
    then show ?thesis using assms(2) by simp
  next
    case (moved enis' st)
    then have "list_all2 same_eni st enis" using assms(2) by simp
    moreover have "BranchProcessAsyncJob Limits marshal api k8s period insts (AnOnDemandJob (deleted_job pod)) b h =
        Some (mput b (PodNodeName pod) t1, h1, [], no_requeue, None)"
      using assms(1) p by (simp add: BranchProcessAsyncJob_def NewOnDemandDeletedJob_def DeleteBranchUsedByPods_def getTrunkFromCache_def)
    ultimately show ?thesis using moved(3,4) same_eni_ids same_eni_vlans by fastforce
  qed
qed

end
