(* ===== verification/Controller_Setup.thy ===== *)
theory Controller_Setup
  imports K8s_Reads K8s_Props
begin

text \<open>
  How the pod controller is put together: the setters of the builder of \<open>controllers/custom/builder.go\<close>, \<open>Complete\<close> as a whole, and the \<open>SetupWithManager\<close>
  of \<open>controllers/core/pod_controller.go\<close>; and what the index of the pod cache gives to the readers of the pods of a node. Of an interface the builder holds only whether
  it was given; the logger counts when it has a sink.
\<close>

section \<open>The builder\<close>

definition NewControllerManagedBy :: builder where
  "NewControllerManagedBy = \<lparr>hasLogger = False, hasConverter = False, hasClientSet = False, hasDataStore = False,
     options = \<lparr>OptName = '''', PageLimit = 0, OptNamespace = '''', ResyncPeriod = 0, MaxConcurrentReconciles = 0\<rparr>\<rparr>"

definition Named :: "string \<Rightarrow> builder \<Rightarrow> builder" where
  "Named nm b = b\<lparr>options := (options b)\<lparr>OptName := nm\<rparr>\<rparr>"

definition UsingConverter :: "bool \<Rightarrow> builder \<Rightarrow> builder" where
  "UsingConverter converter b = b\<lparr>hasConverter := converter\<rparr>"

definition WithClientSet :: "bool \<Rightarrow> builder \<Rightarrow> builder" where
  "WithClientSet clientSet b = b\<lparr>hasClientSet := clientSet\<rparr>"

definition UsingDataStore :: "bool \<Rightarrow> builder \<Rightarrow> builder" where
  "UsingDataStore store b = b\<lparr>hasDataStore := store\<rparr>"

definition WithLogger :: "bool \<Rightarrow> builder \<Rightarrow> builder" where
  "WithLogger logger b = b\<lparr>hasLogger := logger\<rparr>"

definition Options :: "controller_options \<Rightarrow> builder \<Rightarrow> builder" where
  "Options o0 b = b\<lparr>options := o0\<rparr>"

text \<open>What the controller is made of: its options and the answer of its health check; the reconciler, the queue and the configuration of the low level controller are
  those of the other theories.\<close>

record custom_controller =
  ccOptions :: controller_options
  ccWatchListPageSize :: int
  ccFullResyncPeriod :: int

definition NewCustomController :: "controller_options \<Rightarrow> custom_controller" where
  "NewCustomController o0 = \<lparr>ccOptions = o0, ccWatchListPageSize = PageLimit o0, ccFullResyncPeriod = ResyncPeriod o0\<rparr>"

datatype setup_error = BuilderError builder_error | ManagerAddError string

definition Complete :: "string \<Rightarrow> (custom_controller \<Rightarrow> string option) \<Rightarrow> builder \<Rightarrow> setup_error + custom_controller" where
  "Complete resource mgrAdd b =
     (case Complete_guards resource b of
        Inl err \<Rightarrow> Inl (BuilderError err)
      | Inr b1 \<Rightarrow>
         (let controller = NewCustomController (options b1) in
          case mgrAdd controller of Some err \<Rightarrow> Inl (ManagerAddError err) | None \<Rightarrow> Inr controller))"

text \<open>The health checks are added whether or not the set up has failed.\<close>

definition PodSetupWithManager ::
  "bool \<Rightarrow> bool \<Rightarrow> bool \<Rightarrow> (custom_controller \<Rightarrow> string option) \<Rightarrow> int \<Rightarrow> int \<Rightarrow> int \<Rightarrow> unit checkers_map \<Rightarrow>
   unit checkers_map \<times> (setup_error + custom_controller)" where
  "PodSetupWithManager logger store clientSet mgrAdd pageLimit syncPeriod maxConcurrentReconciles hh =
     (let built = Complete ''pods'' mgrAdd
            (Options \<lparr>OptName = '''', PageLimit = pageLimit, OptNamespace = '''', ResyncPeriod = syncPeriod,
                      MaxConcurrentReconciles = maxConcurrentReconciles\<rparr>
              (UsingConverter True (WithClientSet clientSet (UsingDataStore store (WithLogger logger NewControllerManagedBy)))))
      in (AddControllersHealthCheckers [(''health-pod-controller'', ()), (''health-custom-pod-controller'', ())] hh, built))"

section \<open>Properties\<close>

lemmas builder_defs = NewControllerManagedBy_def UsingConverter_def WithClientSet_def UsingDataStore_def WithLogger_def Options_def Named_def
  Complete_def Complete_guards_def SetDefaults_def NewCustomController_def Let_def

text \<open>The pod controller that the program sets up watches the pods of all namespaces, and as soon as its cache has synced it has a worker.\<close>

theorem pod_controller_runs:
  assumes "\<forall>c. mgrAdd c = None" "0 \<le> maxReconciles"
  shows "\<exists>c. snd (PodSetupWithManager True True True mgrAdd pageLimit syncPeriod maxReconciles hh) = Inr c \<and>
    OptName (ccOptions c) = ''pods custom controller'' \<and> OptNamespace (ccOptions c) = NamespaceAll \<and>
    ccWatchListPageSize c = (if pageLimit = 0 then 100 else pageLimit) \<and>
    (\<exists>cond n. Start True (ccOptions c) (NewControllerConditions flag) = (cond, n, True) \<and> 1 \<le> n \<and> GetPodDataStoreSyncStatus cond)"
  using assms
  by (auto simp: PodSetupWithManager_def builder_defs Start_def WaitForCacheSync_def SetPodDataStoreSyncStatus_def
      GetPodDataStoreSyncStatus_def NewControllerConditions_def NamespaceAll_def)

section \<open>The pods of a node\<close>

text \<open>What the documentation says of \<open>ByIndex\<close>: it returns the objects of the store for which the function of the index yields the value.\<close>

definition index_function :: "string \<Rightarrow> pod \<Rightarrow> string list" where
  "index_function index pod = (case mget NodeNameIndexer index of None \<Rightarrow> [] | Some f \<Rightarrow> f pod)"

definition by_index_law :: "('w, 'r) server \<Rightarrow> (string \<Rightarrow> pod option) \<Rightarrow> 'w \<Rightarrow> bool" where
  "by_index_law srv stored w \<longleftrightarrow> (\<forall>node. \<exists>items. StoreByNode srv node w = Inr items \<and>
     set items = {pod. \<exists>k. stored k = Some pod \<and> node \<in> set (index_function NodeNameSpec pod)})"

lemma index_function_node [simp]: "index_function NodeNameSpec pod = [PodNodeName pod]"
  by (simp add: index_function_def NodeNameIndexer_def)

lemma running_loop_filter:
  "running_loop pods acc = acc @ filter (\<lambda>pod. PodPhase pod \<noteq> PodSucceeded \<and> PodPhase pod \<noteq> PodFailed) pods"
  by (induction pods arbitrary: acc) auto



end
