(* ===== verification/Health_Checks.thy ===== *)
theory Health_Checks
  imports Startup Custom_Controller Branch_Provider Prefix_Provider Worker_Props
begin

text \<open>
  The health checks of the single parts. A check runs a probe in a goroutine and waits for it as \<open>PingWithTimeout\<close> of \<open>pkg/healthz\<close> says. A probe
  takes locks, submits an empty job or asks for an object that cannot exist, so it is a function of the state of its part; what it leaves behind and
  what it reports is modelled here, the time it takes is an argument.
\<close>

section \<open>The probes\<close>

definition NewHealthzHandler :: "int \<Rightarrow> 'c checkers_map \<times> int" where
  "NewHealthzHandler timeout = ([], timeout)"

definition SimplePing :: "handler_error option" where
  "SimplePing = None"

text \<open>What a probe does: the state it leaves and the status it sends.\<close>

type_synonym 's probe = "'s \<Rightarrow> 's \<times> handler_error option"

definition ip_probe :: "'q work_queue \<Rightarrow> 'q probe" where
  "ip_probe Q q = (SubmitJob Q ANilJob q, None)"

definition prefix_probe :: "'q work_queue \<Rightarrow> 'q probe" where
  "prefix_probe Q q = (SubmitJob Q ANilJob q, None)"

text \<open>The lookup of a trunk that does not exist is only logged.\<close>

definition branch_probe :: "'q work_queue \<Rightarrow> string \<Rightarrow> ('q \<times> trunk_cache) probe" where
  "branch_probe Q uuid s =
     (case s of
        (q, b) \<Rightarrow>
          (let q1 = SubmitJob Q ANilJob q; found = getTrunkFromCache (''test-node'' @ uuid) b in ((q1, b), None)))"

definition node_manager_probe :: "'q work_queue \<Rightarrow> string \<Rightarrow> int \<Rightarrow> ('q \<times> node_manager) probe" where
  "node_manager_probe Q randomName now s =
     (case s of
        (q, m) \<Rightarrow>
          (let found = GetNode randomName m in
           if SkipHealthCheck now m then ((q, m), None) else ((SubmitJob Q ANilJob q, m), None)))"

definition ping_request :: "string \<Rightarrow> pod_request" where
  "ping_request uuid = \<lparr>DeletedObject = None, RequestName = ''default/'' @ uuid\<rparr>"

text \<open>The pod controller handles a request for a pod that does not exist; the effects are part of its state. A panic is \<open>None\<close>.\<close>

definition pod_probe ::
  "limits_table \<Rightarrow> ((string, int) gomap \<Rightarrow> (string \<times> int) list) \<Rightarrow> (string \<Rightarrow> string + pod option) \<Rightarrow> k8s_api \<Rightarrow> (nat \<Rightarrow> int) \<Rightarrow> node_manager \<Rightarrow>
   string \<Rightarrow> resource_manager \<times> effect list \<Rightarrow> ((resource_manager \<times> effect list) \<times> handler_error option) option" where
  "pod_probe Limits ord GetByKey k8s now m uuid s =
     (case s of
        (rm, effs) \<Rightarrow> map_option (\<lambda>(rm', effs', result, rErr). ((rm', effs @ effs'), rErr))
          (Reconcile Limits ord GetByKey k8s now m (ping_request uuid) rm))"

text \<open>The number of requeues of the empty item is only read.\<close>

definition CustomCheck_probe :: "'q work_queue \<Rightarrow> 'q probe" where
  "CustomCheck_probe Q q = (let n = qNumRequeues Q ANilJob q in (q, None))"

text \<open>A check: the probe and the time it takes, \<open>None\<close> when a lock is never released.\<close>

definition check :: "int \<Rightarrow> bool \<Rightarrow> int option \<Rightarrow> 's probe \<Rightarrow> 's \<Rightarrow> 's \<times> handler_error ping_error option" where
  "check timeout pick_timeout delay probe s =
     (case delay of
        None \<Rightarrow> (s, PingWithTimeout timeout pick_timeout None)
      | Some t \<Rightarrow> (case probe s of (s', status) \<Rightarrow> (s', PingWithTimeout timeout pick_timeout (Some (t, status)))))"

section \<open>Properties\<close>

lemma nil_job_ignored: "SubmitJob Q ANilJob q = q"
  by (simp add: SubmitJob_def)

definition harmless :: "'s probe \<Rightarrow> bool" where
  "harmless probe \<longleftrightarrow> (\<forall>s. probe s = (s, None))"

lemma probes_harmless:
  "harmless (ip_probe Q)" "harmless (prefix_probe Q)" "harmless (branch_probe Q uuid)" "harmless (node_manager_probe Q uuid now)"
  "harmless (CustomCheck_probe Q)"
  by (auto simp: harmless_def ip_probe_def prefix_probe_def branch_probe_def node_manager_probe_def CustomCheck_probe_def nil_job_ignored Let_def)

text \<open>The verdict on a probe that only has to answer: a failure exactly when it is late.\<close>

definition verdict :: "int \<Rightarrow> bool \<Rightarrow> int option \<Rightarrow> handler_error ping_error option" where
  "verdict timeout pick delay =
     (if (case delay of None \<Rightarrow> True | Some t \<Rightarrow> t > timeout \<or> t = timeout \<and> pick) then Some PingTimeout else None)"

lemma check_harmless: "harmless probe \<Longrightarrow> check timeout pick delay probe s = (s, verdict timeout pick delay)"
  by (auto simp: check_def harmless_def PingWithTimeout_def verdict_def split: option.split)

text \<open>A health check is an observation: no check of a provider, of the node manager or of the custom controller changes a queue, a pool, a trunk or a node; it
  fails exactly when its probe does not answer in time, that is, when a lock is held too long. The request of the pod controller's check for a pod that is
  not in the cache changes no pool, makes no call and reports no error.\<close>

theorem health_checks_observe:
  assumes "\<forall>pod. GetByKey (''default/'' @ uuid) \<noteq> Inr (Some pod)"
  shows "check timeout pick delay (ip_probe Q) q = (q, verdict timeout pick delay) \<and>
   check timeout pick delay (prefix_probe Q) q = (q, verdict timeout pick delay) \<and>
   check timeout pick delay (branch_probe Q uuid) (q, b) = ((q, b), verdict timeout pick delay) \<and>
   check timeout pick delay (node_manager_probe Q uuid now) (q, m) = ((q, m), verdict timeout pick delay) \<and>
   check timeout pick delay (CustomCheck_probe Q) q = (q, verdict timeout pick delay) \<and>
   pod_probe Limits ord GetByKey k8s readings m uuid (rm, effs) = Some ((rm, effs), None)"
proof -
  have "(case GetByKey (''default/'' @ uuid) of Inl err \<Rightarrow> None | Inr found \<Rightarrow> found) = None"
    using assms by (auto split: sum.split)
  then have "pod_probe Limits ord GetByKey k8s readings m uuid (rm, effs) = Some ((rm, effs), None)"
    by (simp add: pod_probe_def Reconcile_def ping_request_def)
  then show ?thesis by (simp add: check_harmless probes_harmless)
qed

theorem health_checks_observe_witness:
  "check 2 False (Some 1) (ip_probe sample_queue) ([], \<lambda>j. 0) = (([], \<lambda>j. 0), None) \<and>
   check 2 False None (branch_probe sample_queue ''u'') (([], \<lambda>j. 0), []) = ((([], \<lambda>j. 0), []), Some PingTimeout) \<and>
   pod_probe sample_limits id (\<lambda>k. Inr None) sample_k8s (\<lambda>_. 5) NewNodeManager ''u'' ([], []) = Some (([], []), None)"
  using health_checks_observe [of "\<lambda>k. Inr None" "''u''" 2 False "Some 1" sample_queue "([], \<lambda>j. 0)" "[]" 0 NewNodeManager
      sample_limits id sample_k8s "\<lambda>_. 5" "[]" "[]"]
    health_checks_observe [of "\<lambda>k. Inr None" "''u''" 2 False None sample_queue "([], \<lambda>j. 0)" "[]"]
  by (simp add: verdict_def)

end
