(* ===== verification/Cleaner_Loop.thy ===== *)
theory Cleaner_Loop
  imports Eni_Cleanup
begin

text \<open>
  The loop of the periodic cleaner of \<open>pkg/aws/ec2/api/cleanup/eni_cleanup.go\<close>: a cycle, a pause, and again until the shutdown is seen.
  The flag that the goroutine of \<open>Start\<close> sets is the argument \<open>shutdown\<close>, read before every cycle; a loop that is never shut down does not
  return, which is the value \<open>None\<close>. The gauges are the counts of the last cycle.
\<close>

definition UpdateCleanupMetrics :: "cleanup_counts \<Rightarrow> cleanup_counts \<Rightarrow> cleanup_counts" where
  "UpdateCleanupMetrics counts gauges = counts"

text \<open>The answer carries the cycles, each as its events.\<close>

partial_function (option) cleaner_Start ::
  "clean_api \<Rightarrow> string \<Rightarrow> bool \<Rightarrow> (nat \<Rightarrow> bool) \<Rightarrow> nat \<Rightarrow> cluster_cleaner \<Rightarrow> clean_event list \<Rightarrow> cleanup_counts \<Rightarrow>
   (cluster_cleaner \<times> clean_event list \<times> cleanup_counts) option" where
  "cleaner_Start api vpc off shutdown k m h g =
     (if shutdown k then Some (m, h, g)
      else
        (case DeleteLeakedResources api ClusterENICleaner vpc off m h of
           (m1, h1, counts, errs) \<Rightarrow> cleaner_Start api vpc off shutdown (Suc k) m1 h1 (UpdateCleanupMetrics counts g)))"

definition NewNodeResourceCleaner :: "string \<Rightarrow> string" where
  "NewNodeResourceCleaner nodeID = nodeID"

section \<open>What a run deletes\<close>

text \<open>The interfaces a cycle deletes were listed by EC2 in that cycle and in the last described cycle before; at the start of a run those the
  cleaner remembers take its place.\<close>

definition second_looks :: "string list \<Rightarrow> clean_event list list \<Rightarrow> bool" where
  "second_looks remembered cycles \<longleftrightarrow> (\<forall>i x. i < length cycles \<and> x \<in> set (deletes_of (cycles ! i)) \<longrightarrow>
     listed_in (cycles ! i) x \<and>
     ((\<forall>l < i. \<not> described (cycles ! l)) \<and> x \<in> set remembered \<or>
      (\<exists>j < i. described (cycles ! j) \<and> listed_in (cycles ! j) x \<and> (\<forall>l. j < l \<and> l < i \<longrightarrow> \<not> described (cycles ! l)))))"

lemma cluster_cycle:
  assumes "DeleteLeakedResources api ClusterENICleaner vpc off m h = (m1, h1, counts, errs)"
  obtains evs where "h1 = evs @ h" "\<And>x. x \<in> set (deletes_of evs) \<Longrightarrow> listed_in evs x \<and> x \<in> set (availableENIs m)"
    "\<And>x. described evs \<Longrightarrow> x \<in> set (availableENIs m1) \<Longrightarrow> listed_in evs x" "\<not> described evs \<Longrightarrow> m1 = m"
proof -
  obtain evs where e: "h1 = evs @ h" "if described evs
     then rev (deletes_of evs) = map LId (filter (\<lambda>nw. ShouldDeleteENI ClusterENICleaner m (LId nw) \<and> owned nw) (answers evs)) \<and>
       (\<exists>seen. m1 = UpdateAvailableENIsIfNeeded ClusterENICleaner seen m \<and>
         set seen = LId ` {nw \<in> set (answers evs). \<not> ShouldDeleteENI ClusterENICleaner m (LId nw)}) \<and>
       (errs = [] \<longleftrightarrow> list_all (\<lambda>e. \<not> real_error e) evs)
     else m1 = m \<and> deletes_of evs = [] \<and> errs \<noteq> []"
    using cycle_spec [OF assms] by blast
  show thesis
  proof (cases "described evs")
    case True
    then obtain seen where c: "rev (deletes_of evs) = map LId (filter (\<lambda>nw. ShouldDeleteENI ClusterENICleaner m (LId nw) \<and> owned nw) (answers evs))"
        "m1 = UpdateAvailableENIsIfNeeded ClusterENICleaner seen m"
        "set seen = LId ` {nw \<in> set (answers evs). \<not> ShouldDeleteENI ClusterENICleaner m (LId nw)}"
      using e(2) by auto
    have d: "set (deletes_of evs) = LId ` {nw \<in> set (answers evs). ShouldDeleteENI ClusterENICleaner m (LId nw) \<and> owned nw}"
      using arg_cong [OF c(1), of set] by simp
    show thesis
    proof (rule that [OF e(1)])
      show "listed_in evs x \<and> x \<in> set (availableENIs m)" if "x \<in> set (deletes_of evs)" for x
        using that d by (auto simp: ClusterENICleaner_def)
      show "listed_in evs x" if "x \<in> set (availableENIs m1)" for x
        using that c(2,3) by (auto simp: ClusterENICleaner_def)
      show "m1 = m" if "\<not> described evs" using that True by simp
    qed
  next
    case False
    then have "m1 = m" "deletes_of evs = []" using e(2) by simp_all
    then show thesis using False by (intro that [OF e(1)]) simp_all
  qed
qed

lemma second_looks_Cons:
  assumes "second_looks remembered' cycles"
    and "\<And>x. x \<in> set (deletes_of evs) \<Longrightarrow> listed_in evs x \<and> x \<in> set remembered"
    and "\<And>x. described evs \<Longrightarrow> x \<in> set remembered' \<Longrightarrow> listed_in evs x" "\<not> described evs \<Longrightarrow> remembered' = remembered"
  shows "second_looks remembered (evs # cycles)"
  unfolding second_looks_def
proof (intro allI impI, elim conjE)
  fix i x
  assume i: "i < length (evs # cycles)" and x: "x \<in> set (deletes_of ((evs # cycles) ! i))"
  show "listed_in ((evs # cycles) ! i) x \<and>
     ((\<forall>l < i. \<not> described ((evs # cycles) ! l)) \<and> x \<in> set remembered \<or>
      (\<exists>j < i. described ((evs # cycles) ! j) \<and> listed_in ((evs # cycles) ! j) x \<and>
         (\<forall>l. j < l \<and> l < i \<longrightarrow> \<not> described ((evs # cycles) ! l))))"
  proof (cases i)
    case 0
    then show ?thesis using x assms(2) by auto
  next
    case (Suc i')
    then have "listed_in (cycles ! i') x" and c: "(\<forall>l < i'. \<not> described (cycles ! l)) \<and> x \<in> set remembered' \<or>
        (\<exists>j < i'. described (cycles ! j) \<and> listed_in (cycles ! j) x \<and> (\<forall>l. j < l \<and> l < i' \<longrightarrow> \<not> described (cycles ! l)))"
      using assms(1) i x unfolding second_looks_def by auto
    moreover from c have "(\<forall>l < i. \<not> described ((evs # cycles) ! l)) \<and> x \<in> set remembered \<or>
      (\<exists>j < i. described ((evs # cycles) ! j) \<and> listed_in ((evs # cycles) ! j) x \<and>
         (\<forall>l. j < l \<and> l < i \<longrightarrow> \<not> described ((evs # cycles) ! l)))"
    proof
      assume new: "(\<forall>l < i'. \<not> described (cycles ! l)) \<and> x \<in> set remembered'"
      show ?thesis
      proof (cases "described evs")
        case True
        then show ?thesis using new assms(3) Suc by (intro disjI2 exI [of _ 0]) (auto simp: nth_Cons')
      next
        case False
        then show ?thesis using new assms(4) Suc by (intro disjI1) (auto simp: nth_Cons')
      qed
    next
      assume "\<exists>j < i'. described (cycles ! j) \<and> listed_in (cycles ! j) x \<and> (\<forall>l. j < l \<and> l < i' \<longrightarrow> \<not> described (cycles ! l))"
      then obtain j where j: "j < i'" "described (cycles ! j)" "listed_in (cycles ! j) x" "\<forall>l. j < l \<and> l < i' \<longrightarrow> \<not> described (cycles ! l)"
        by blast
      then show ?thesis using Suc by (intro disjI2 exI [of _ "Suc j"]) (auto simp: nth_Cons split: nat.splits)
    qed
    ultimately show ?thesis using Suc by simp
  qed
qed

lemma cleaner_run:
  assumes "\<forall>j < n. \<not> shutdown (k + j)" "shutdown (k + n)"
  shows "\<exists>m' cycles g'. cleaner_Start api vpc off shutdown k m h g = Some (m', concat (rev cycles) @ h, g') \<and> length cycles = n \<and>
    second_looks (availableENIs m) cycles"
  using assms
proof (induction n arbitrary: k m h g)
  case 0
  then show ?case by (intro exI [of _ m] exI [of _ "[]"] exI [of _ g]) (simp add: cleaner_Start.simps second_looks_def)
next
  case (Suc n)
  obtain m1 h1 counts errs where c: "DeleteLeakedResources api ClusterENICleaner vpc off m h = (m1, h1, counts, errs)" by (metis prod_cases4)
  obtain evs where evs: "h1 = evs @ h" "\<And>x. x \<in> set (deletes_of evs) \<Longrightarrow> listed_in evs x \<and> x \<in> set (availableENIs m)"
      "\<And>x. described evs \<Longrightarrow> x \<in> set (availableENIs m1) \<Longrightarrow> listed_in evs x" "\<not> described evs \<Longrightarrow> m1 = m"
    using cluster_cycle [OF c] by blast
  have "\<not> shutdown k" using Suc.prems(1) by (metis add_0_right zero_less_Suc)
  then have step: "cleaner_Start api vpc off shutdown k m h g = cleaner_Start api vpc off shutdown (Suc k) m1 h1 counts"
    by (simp add: cleaner_Start.simps [of _ _ _ _ k] c UpdateCleanupMetrics_def)
  have "\<forall>j < n. \<not> shutdown (Suc k + j)" "shutdown (Suc k + n)"
    using Suc.prems by (metis Suc_less_eq add_Suc add_Suc_right, simp)
  from Suc.IH [OF this, of m1 h1 counts] obtain m' cycles g' where
    "cleaner_Start api vpc off shutdown (Suc k) m1 h1 counts = Some (m', concat (rev cycles) @ h1, g')" "length cycles = n"
    "second_looks (availableENIs m1) cycles" by blast
  then show ?case using step evs second_looks_Cons [of "availableENIs m1" cycles evs "availableENIs m"]
    by (intro exI [of _ m'] exI [of _ "evs # cycles"] exI [of _ g']) auto
qed

text \<open>C20. The periodic cleaner, from its set up to the shutdown: it returns after exactly the cycles that were started before the shutdown was seen, and
  whatever EC2 answers it only ever deletes an interface that EC2 lists as available in the same cycle and listed in the last cycle before that
  could read the interfaces, half an hour or more earlier.\<close>

theorem periodic_cleaner_second_looks:
  assumes "shutdown n" "\<forall>j < n. \<not> shutdown j"
  shows "\<exists>m cycles g'. cleaner_Start api vpc off shutdown 0 (SetupCleaner clusterName) [] g = Some (m, concat (rev cycles), g') \<and> length cycles = n \<and>
    (\<forall>i x. i < n \<and> x \<in> set (deletes_of (cycles ! i)) \<longrightarrow> listed_in (cycles ! i) x \<and>
       (\<exists>j < i. described (cycles ! j) \<and> listed_in (cycles ! j) x \<and> (\<forall>l. j < l \<and> l < i \<longrightarrow> \<not> described (cycles ! l))))"
  using cleaner_run [of n shutdown 0 api vpc off "SetupCleaner clusterName" "[]" g] assms
  by (auto simp: second_looks_def SetupCleaner_def)

theorem periodic_cleaner_second_looks_witness:
  "\<exists>m cycles g. cleaner_Start leaking_api ''vpc'' True (\<lambda>k. 3 \<le> k) 0 (SetupCleaner ''c'') [] zero_counts = Some (m, concat (rev cycles), g) \<and>
     length cycles = 3"
  using periodic_cleaner_second_looks [of "\<lambda>k. 3 \<le> k" 3 leaking_api "''vpc''" True "''c''" zero_counts] by fastforce

section \<open>A deletion that EC2 refuses\<close>

text \<open>An interface that a cycle has tried to delete is not tried again in the next: the failed deletion does not go into the
  list of available interfaces, so that the next cycle takes the interface for a new one.\<close>

theorem failed_delete_skips_a_cycle:
  assumes "DeleteLeakedResources api ClusterENICleaner vpc off m h = (m1, evs1 @ h, c1, errs1)" "x \<in> set (deletes_of evs1)"
    and "DeleteLeakedResources api' ClusterENICleaner vpc off m1 (evs1 @ h) = (m2, evs2 @ evs1 @ h, c2, errs2)"
  shows "x \<notin> set (deletes_of evs2)"
proof -
  have first: "described evs1" "ShouldDeleteENI ClusterENICleaner m x"
    using cycle_spec [OF assms(1)] assms(2) by (auto split: if_splits dest!: arg_cong [of _ _ set])
  show ?thesis
  proof (cases "described evs2")
    case True
    then show ?thesis using cluster.second_cycle [OF assms(1) first(1) assms(3) True] first(2) by auto
  next
    case False
    then show ?thesis using cycle_spec [OF assms(3)] by auto
  qed
qed

end
