(* ===== verification/Spec2Isabelle.thy ===== *)
theory Spec2Isabelle
  imports Pool_Props Trunk_Props Eni_Props Worker_Props Handler_Props Provider_Props Branch_Props Ec2_Helper_Props Node_System
    Eni_Cleanup Pod_Props Conditions Webhook_Props Controllers_Props Cninode_Props Custom_Props K8s_Props Startup_Props
    Limits_Props K8s_Reads Pod_Pipeline Controller_Setup Health_Checks Cleaner_Loop
begin

text \<open>
  A verification of the Amazon VPC Resource Controller for Kubernetes (the Go program under \<open>src/\<close>).

  \<^bold>\<open>The program.\<close> The controller gives pods addresses and network interfaces of an AWS VPC. On Windows nodes a pod gets a private
  IPv4 address from a warm pool of its node, filled with secondary addresses or with the addresses of /28 prefixes. On Linux nodes a
  pod that a security group policy selects gets branch interfaces of the trunk interface of its node. The parts and their
  interaction:

  \<^item> \<^emph>\<open>Clients.\<close> EC2 is reached through \<open>pkg/aws/ec2/api\<close> (a wrapper around the SDK with rate limits and counters, and a helper with
    retries and roll back), Kubernetes through \<open>pkg/k8s\<close>. Pods are read from a cache that the custom controller keeps.
  \<^item> \<^emph>\<open>Nodes.\<close> The node, ConfigMap and deployment controllers call the node manager, which keeps one object per node and
    submits jobs that initialise, update and delete the resources of a node through the providers.
  \<^item> \<^emph>\<open>Pods.\<close> The pod controller turns a pod event into calls of the resource handlers: the warm handler works on the pool of the node
    at once, the on demand handler submits a job to the branch provider. Providers run jobs in worker pools and call EC2.
  \<^item> \<^emph>\<open>Admission.\<close> Webhooks inject the request for a branch interface into pods and protect the annotations through which
    addresses are handed to the CNI plug-in.
  \<^item> \<^emph>\<open>Clean up.\<close> Cleaners delete leaked interfaces periodically and when a node terminates, the latter driven by the CNINode controller.

  \<^bold>\<open>The theories.\<close> A theory \<open>X\<close> holds the definitions of a component in the order of the code, \<open>X_Inv\<close>, \<open>X_Props\<close> and \<open>X_System\<close> its
  invariants, theorems and state machine.

  \<^item> \<open>Prelude\<close>: 64-bit integers, Go maps (locale \<open>go_map\<close>, interpreted on association lists), state machines with an invariant (locale
    \<open>invariant_system\<close>, interpreted for the pool, the node manager, the admission of pods and the clean up routines). \<open>GoStrings\<close>: what the code
    uses of \<open>strings\<close> and \<open>strconv\<close>. \<open>Objects\<close>, \<open>Env\<close>, \<open>K8s_Env\<close>: the Kubernetes and EC2 objects, EC2 and Kubernetes as the components see them.
  \<^item> \<open>Utils\<close> (\<open>pkg/utils\<close>), \<open>Config\<close> (\<open>pkg/config\<close>), \<open>Jobs\<close> (\<open>pkg/worker/jobs.go\<close>), \<open>Instance\<close> (\<open>pkg/aws/ec2/instance.go\<close>), \<open>Conditions\<close>
    (\<open>pkg/condition\<close>), \<open>Cooldown\<close> (\<open>pkg/provider/branch/cooldown\<close>).
  \<^item> \<open>Pool\<close> (\<open>pkg/pool/pool.go\<close>), with \<open>Pool_Inv\<close>, \<open>Pool_Reconcile\<close>, \<open>Pool_ReSync\<close>, \<open>Pool_System\<close> (locale \<open>warm_pool\<close>) and \<open>Pool_Props\<close>: in
    every interleaving of assignments, releases, jobs and re-synchronisations no address is in two places, none is assigned again
    before its cool down is over, and the pending counters count the jobs in flight; the deviations are the least that
    meet the targets and keep the capacity; a re-synchronisation leaves what EC2 and the pods have.
  \<^item> \<open>Trunk\<close> (\<open>pkg/provider/branch/trunk/trunk.go\<close>), with \<open>Trunk_Inv\<close> (locale \<open>id_allocator\<close> of the VLAN ids), \<open>Trunk_Init\<close>, \<open>Trunk_Props\<close>: creation
    leaves nothing behind on failure, the VLAN ids in use differ, the state is rebuilt from EC2 and the annotations, the deletion of
    cooled down interfaces returns.
  \<^item> \<open>Eni_Manager\<close> (\<open>pkg/provider/ip/eni/eni.go\<close>), \<open>Eni_Inv\<close>, \<open>Eni_Props\<close>: the slots of the interfaces are accounted for.
  \<^item> \<open>Worker\<close> (\<open>pkg/worker/worker.go\<close>), \<open>Worker_Props\<close>: how often a failing job runs.
  \<^item> \<open>Warm_Handler\<close> (\<open>pkg/handler\<close>), \<open>Handler_Props\<close>: the handler refines the machine of the pool. \<open>Ip_Provider\<close>, \<open>Prefix_Provider\<close>, \<open>Provider_Props\<close>
    (\<open>pkg/provider/ip\<close>, \<open>pkg/provider/prefix\<close>): so do the jobs. \<open>Branch_Provider\<close>, \<open>Branch_Props\<close> (\<open>pkg/provider/branch/provider.go\<close>): no job
    panics or breaks the invariant of a trunk, and what a creation does in every case.
  \<^item> \<open>Ec2_Wrapper\<close>, \<open>Ec2_Helper\<close>, \<open>Ec2_Helper_Props\<close> (\<open>pkg/aws/ec2/api\<close>): which client makes which call and what is counted; creation with attachment
    leaks nothing; the paged reads are complete. \<open>Eni_Cleanup\<close> (\<open>pkg/aws/ec2/api/cleanup\<close>): only interfaces seen twice are deleted.
  \<^item> \<open>Node\<close>, \<open>Node_Manager\<close>, \<open>Node_System\<close> (\<open>pkg/node\<close>): the life of a node object in every interleaving of events and jobs.
    \<open>Controllers\<close>, \<open>Controllers_Props\<close> (\<open>controllers/core/node_controller.go\<close>, \<open>configmap_controller.go\<close>, \<open>controllers/apps\<close>): the controllers are runs of
    that machine.
  \<^item> \<open>Pod_Controller\<close>, \<open>Pod_Props\<close> (\<open>controllers/core/pod_controller.go\<close>, \<open>pkg/resource/manager.go\<close>): an address goes back to the pool it came
    from. \<open>Custom_Controller\<close>, \<open>Custom_Props\<close> (\<open>controllers/custom\<close>, \<open>pkg/k8s/pod/converter.go\<close>): the cache mirrors the cluster for every indexer of
    the locale \<open>pod_indexer\<close>, and a stripped pod is handled as the whole one. \<open>K8s_Wrapper\<close>, \<open>K8s_Props\<close> (\<open>pkg/k8s\<close>): annotation and capacity under
    every retry of the locale \<open>conflict_retry\<close>.
  \<^item> \<open>Webhooks\<close>, \<open>Webhook_Props\<close> (\<open>webhooks/core\<close>): who can have written an annotation. \<open>Cninode_Controller\<close>, \<open>Cninode_Props\<close> (\<open>controllers/crds\<close>,
    \<open>pkg/k8s/finalizer.go\<close>): the clean up starts before the finalizer goes, and the routines are bounded.
  \<^item> \<open>Startup\<close>, \<open>Startup_Props\<close> (\<open>main.go\<close>, \<open>pkg/healthz\<close>, \<open>pkg/resource/introspect.go\<close>, \<open>webhooks/idle\<close>): the parts that are started fit together.
    \<open>Health_Checks\<close>: the probes of the single parts observe and change nothing.
  \<^item> \<open>Limits_Table\<close> (\<open>pkg/aws/vpc/limits.go\<close>): the table of the instance types, one definition per family. \<open>Limits_Props\<close>: what the components rely on,
    proved of every row; the VLAN table has an id for every branch interface a type allows, exactly as long as no id is lost, and when ids are lost.
  \<^item> \<open>K8s_Reads\<close> (the single calls of \<open>pkg/k8s/wrapper.go\<close> and the selectors of the cache in \<open>main.go\<close>): the restricted cache hides nothing from the conditions.
    \<open>Controller_Setup\<close> (the builder of \<open>controllers/custom\<close>, \<open>SetupWithManager\<close> of the pod controller): the readers of the pod cache see the pods of the cluster.
    \<open>Cleaner_Loop\<close> (the loop of the periodic cleaner): every deletion of a whole run is a second look.
  \<^item> \<open>Pod_Pipeline\<close> (the workers of \<open>controllers/custom/custom_controller.go\<close>) and this theory: the components composed, from the change the watch reports
    through the cache, the work queue, the pod controller and the handlers to the pools, and across the job queue to the trunks.

  \<^bold>\<open>How code becomes definitions.\<close> A struct is a record, an operation a function that returns the new state, the effects in order, the result
  and the error; a method under a lock is one step. A Go map is an association list; an argument \<open>ord\<close> is the order of a \<open>range\<close>. A panic is
  \<open>None\<close>, an error a value of an error type. Integers are \<open>int\<close>, with \<open>i64\<close> where the code can wrap. Objects that several parts hold
  are addresses into a list. The clock, the jitter and every answer of EC2 and Kubernetes are arguments: functions of the calls made
  so far, or of the number of the read, so that a theorem holds for every behaviour of the outside. The table of the instance limits is an argument of
  the components too, and \<open>VPCLimits\<close> is the table of the program. Packages that are not under
  \<open>src/\<close> (the AWS SDK, client-go, controller-runtime, the JSON encoder) are arguments too. What the code relies on of them is a named
  hypothesis that restates their documentation: \<open>finalizer_laws\<close>, \<open>pod_indexer\<close>, \<open>conflict_retry\<close>, \<open>merge_patch_law\<close>, \<open>cache_of\<close> for the cache with a selector, \<open>by_index_law\<close>, \<open>queue_ok\<close> for the work queue;
  each has a concrete instance in a closed theorem.

  \<^bold>\<open>Loops.\<close> Almost all loops are structural recursions over the list or the count the code ranges over. \<open>DeleteCooledDownENIs\<close> puts
  entries back into the queue it empties; its termination proof counts the remaining retries. The loop over the pages of EC2 in
  the helper, which ends only if EC2 ends it, is a partial function, and \<open>branch_interfaces_complete\<close> proves that it returns when
  the pages are finitely many. The loop of the periodic cleaner runs until the shutdown and is a partial function too;
  \<open>periodic_cleaner_second_looks\<close> proves that it returns then. The numbers of attempts and polls that client-go makes are arguments without a bound. No definition has fuel.

  \<^bold>\<open>Error theorems.\<close> Several theorems prove what the code does where it does not do what it means to: a read error that is taken for a
  missing node or an unmanaged one, an event that is not retried because the new values were already stored, a label that is
  emptied so that the clean up is skipped, a missed deletion that is never seen, an annotation that lands on the next pod of the
  same name, an annotation with an empty value that keeps a pod without an address, an interface that is given up with its VLAN id, so that a full node refuses the
  next pod.

  \<^bold>\<open>Not modelled.\<close> \<open>apis\<close> declares types, of which the records have the fields the controller reads; its deep copies are generated and, on values, the
  identity. The constructors that only store their arguments, the accessors of single fields, flag parsing, logging, latencies, the HTTP servers, the lists and watches of
  client-go, the pauses of the periodic loops and \<open>DescribeTrunkInterfaceAssociation\<close>, which nothing calls, are left out: they keep no state of
  the program and take no decision.
\<close>

section \<open>From the watch to the pools and the trunks\<close>

text \<open>C26. From the watch to the pools: when the watch reports the deletion of pods, the cache forgets exactly these pods, every deletion is put into the
  work queue once, the run of a worker over these requests neither panics nor puts one of them back, and afterwards no pool holds an address
  for one of the pods while every other pod keeps its own, whatever Kubernetes answers in the meantime.\<close>

theorem deleted_pods_release_addresses:
  assumes "pod_indexer ix lookup" "lookup d = map_option StripDownPod \<circ> c" "rm_inv rm" "list_all (releasable m rm) pods"
    and "\<forall>agg. mset (ord agg) = mset agg"
  shows "\<exists>d' requests rm' log. Process ix (deletions pods) d = (d', requests, None) \<and>
    (\<forall>k. lookup d' k = (if k \<in> pod_key ` set pods then None else lookup d k)) \<and>
    custom_worker (pod_reconciler Limits ord GetByKey k8s now m) (map (Some \<circ> Some) requests) (rm, []) [] =
      Some ((rm', log), map Forget requests, []) \<and> map fst log = requests \<and> rm_inv rm' \<and> released rm rm' (owner_of ` set pods)"
proof -
  let ?requests = "map (delete_request \<circ> StripDownPod) pods"
  obtain d' where d': "Process ix (deletions pods) d = (d', ?requests, None)"
      "lookup d' = map_option StripDownPod \<circ> cluster_after (deletions pods) c"
    using pod_indexer.process_mirrors [OF assms(1) deletions_seen assms(2), of pods "[]"]
    unfolding Process_def deletion_requests append_Nil by blast
  have "list_all (releasable m rm) (map StripDownPod pods)" using assms(4) by (simp add: list_all_iff releasable_strip)
  moreover have "owner_of ` set (map StripDownPod pods) = owner_of ` set pods" by (simp add: image_image)
  ultimately obtain rm' log where w: "custom_worker (pod_reconciler Limits ord GetByKey k8s now m)
      (map (\<lambda>pod. Some (Some (delete_request pod))) (map StripDownPod pods)) (rm, []) [] =
        Some ((rm', log), map (Forget \<circ> delete_request) (map StripDownPod pods), [])"
      "rm_inv rm'" "released rm rm' (owner_of ` set pods)" "map fst log = ?requests"
    using worker_deletes [OF assms(3) _ assms(5), of m "map StripDownPod pods" Limits GetByKey k8s now "[]" "[]"] by auto
  moreover have "lookup d' k = (if k \<in> pod_key ` set pods then None else lookup d k)" for k
    by (simp add: d'(2) assms(2) cluster_after_deletions)
  ultimately show ?thesis using d'(1)
    by (intro exI [of _ d'] exI [of _ ?requests] exI [of _ rm'] exI [of _ log]) (simp add: comp_def)
qed

theorem deleted_pods_release_addresses_witness:
  "\<exists>rm' log. custom_worker (pod_reconciler sample_limits rev (\<lambda>log k. Inl ''gone'') (\<lambda>log. sample_k8s) (\<lambda>log n. 5) (sample_nodes True))
      (map (Some \<circ> Some) (fst (snd (Process map_indexer (deletions [sample_ip_pod]) [(''ns/p'', StripDownPod sample_ip_pod)]))))
      (sample_rm sample_used, []) [] = Some ((rm', log), [Forget (delete_request (StripDownPod sample_ip_pod))], []) \<and>
    assigned (sample_rm sample_used) ResourceNameIPAddress ''node-1'' ''pod-a'' = (''10.0.0.1/32'', True) \<and>
    \<not> snd (assigned rm' ResourceNameIPAddress ''node-1'' ''pod-a'')"
proof -
  let ?d = "[(''ns/p'', StripDownPod sample_ip_pod)]"
  have own: "assigned (sample_rm sample_used) ResourceNameIPAddress ''node-1'' ''pod-a'' = (''10.0.0.1/32'', True)" by code_simp
  have "one_owner (sample_rm sample_used) sample_ip_pod" by (auto simp: one_owner_def agrees_def sample_assigned)
  then have "releasable (sample_nodes True) (sample_rm sample_used) sample_ip_pod"
    by (simp add: releasable_def mhas_def sample_aggregate mget_Cons NewManagedNode_def)
  moreover have "rm_inv (sample_rm sample_used)" using sample_rm_inv [OF AssignResource_inv [OF sample_pool_inv sample_assign]] .
  moreover have "mget ?d = map_option StripDownPod \<circ> [''ns/p'' \<mapsto> sample_ip_pod]" by (simp add: fun_eq_iff mget_Cons)
  moreover have "Process map_indexer (deletions [sample_ip_pod]) ?d = ([], [delete_request (StripDownPod sample_ip_pod)], None)" by code_simp
  ultimately show ?thesis
    using deleted_pods_release_addresses [OF map_store.pod_indexer_axioms, of ?d "[''ns/p'' \<mapsto> sample_ip_pod]" "sample_rm sample_used"
        "sample_nodes True" "[sample_ip_pod]" rev sample_limits "\<lambda>log k. Inl ''gone''" "\<lambda>log. sample_k8s" "\<lambda>log n. 5"] own
    by (auto simp: released_def)
qed

text \<open>C27. The same for a pod with branch interfaces, across the job queue: the request for its deletion, which carries the stripped pod, submits a job, and the job
  stamps exactly the interfaces the trunk has cached for the pod and moves them, in order, to the end of its delete queue.\<close>

theorem deleted_pod_cools_branch_interfaces:
  assumes "rm_inv rm" "GetResource rm ResourceNamePodENI = Some OnDemandResource" "\<forall>agg. mset (ord agg) = mset agg"
    and "PodNodeName pod \<noteq> ''''" "\<forall>n. cached_node m (PodNodeName pod) = Some n \<longrightarrow> managed n"
    and "mhas (getAggregateResources pod) ResourceNamePodENI"
    and "mget b (PodNodeName pod) = Some t" "mget (uidToBranchENIMap t) (PodUID pod) = Some enis"
  shows "\<exists>rm' effs job b' h' st.
    Reconcile Limits ord GetByKey k8s now m (request_of (Deleted, PodObject pod)) rm = Some (rm', effs, no_requeue, None) \<and>
    SubmitOnDemandJob job \<in> set effs \<and>
    BranchProcessAsyncJob Limits marshal api k8s' secs insts (AnOnDemandJob job) b h = Some (b', h', [], no_requeue, None) \<and>
    mget b' (PodNodeName pod) =
      Some (t\<lparr>deleteQueue := deleteQueue t @ st, uidToBranchENIMap := mdel (uidToBranchENIMap t) (PodUID pod)\<rparr>) \<and>
    map ID st = map ID enis \<and> map VlanID st = map VlanID enis \<and> (\<forall>e \<in> set st. deletionTimeStamp e \<noteq> None)"
proof -
  let ?pod = "StripDownPod pod" and ?node = "cached_node m (PodNodeName pod)"
  have gate: "pod_event_gate k8s True ?pod ?node = Inr True"
    using assms(4,5) by (auto simp: pod_event_gate_def split: option.splits)
  have "mhas (getAggregateResources ?pod) ResourceNamePodENI" using assms(6) by (simp add: aggregate_strip mhas_def mget_filter)
  moreover have "set (ord (getAggregateResources ?pod)) = set (getAggregateResources ?pod)" using assms(3) by (metis set_mset_mset)
  ultimately have req: "ResourceNamePodENI \<in> fst ` set (ord (getAggregateResources ?pod))" using mget_mem by (force simp: mhas_def)
  obtain rm' effs where "resources_loop Limits k8s now True ?pod ?node (ord (getAggregateResources ?pod)) 0 rm [] = Some (rm', effs, no_requeue, None)"
      "SubmitOnDemandJob (deleted_job pod) \<in> set effs"
    using delete_loop_submits [OF assms(1,2), of Limits k8s now ?pod ?node _ 0 "[]"] req by fastforce
  moreover have "Reconcile Limits ord GetByKey k8s now m (request_of (Deleted, PodObject pod)) rm =
      resources_loop Limits k8s now True ?pod ?node (ord (getAggregateResources ?pod)) 0 rm []"
    using gate by (simp add: Reconcile_def request_of_def delete_request_def)
  ultimately show ?thesis
    using delete_job_cools [OF assms(7,8), of Limits marshal api k8s' secs insts h] by fastforce
qed

definition sample_eni_pod :: pod where
  "sample_eni_pod = sample_pod_of ''p'' ''uid-1'' [] [\<lparr>Requests = [(''cpu'', None), (ResourceNamePodENI, Some 1)]\<rparr>]"

theorem deleted_pod_cools_branch_interfaces_witness:
  "\<exists>rm' effs job b' h' t'.
     Reconcile sample_limits id (\<lambda>k. Inl ''gone'') sample_k8s (\<lambda>_. 5) NewNodeManager (request_of (Deleted, PodObject sample_eni_pod))
       [(ResourceNamePodENI, OnDemandResource)] = Some (rm', effs, no_requeue, None) \<and> SubmitOnDemandJob job \<in> set effs \<and>
     BranchProcessAsyncJob sample_limits (\<lambda>enis. Inr ''[]'') sample_api sample_k8s 30 (\<lambda>n. sample_instance) (AnOnDemandJob job)
       [(''node-1'', sample_busy_trunk)] [] = Some (b', h', [], no_requeue, None) \<and>
     mget b' ''node-1'' = Some t' \<and> map ID (deleteQueue t') = [''eni-5'']"
proof -
  have "rm_inv [(ResourceNamePodENI, OnDemandResource)]" by (simp add: rm_inv_def GetResource_def mget_Cons)
  moreover have "GetResource [(ResourceNamePodENI, OnDemandResource)] ResourceNamePodENI = Some OnDemandResource"
    by (simp add: GetResource_def mget_Cons)
  moreover have "mhas (getAggregateResources sample_eni_pod) ResourceNamePodENI" by code_simp
  moreover have "cached_node NewNodeManager nd = None" for nd by (simp add: cached_node_def GetNode_def NewNodeManager_def)
  moreover have "mget (uidToBranchENIMap sample_busy_trunk) (PodUID sample_eni_pod) = Some [sample_eni]" "PodNodeName sample_eni_pod = ''node-1''"
    "deleteQueue sample_busy_trunk = []" "ID sample_eni = ''eni-5''"
    by (simp_all add: sample_busy_trunk_def sample_trunk_def NewTrunkENI_def sample_eni_pod_def sample_pod_of_def sample_eni_def mget_Cons)
  ultimately show ?thesis
    using deleted_pod_cools_branch_interfaces [of "[(ResourceNamePodENI, OnDemandResource)]" id sample_eni_pod NewNodeManager
        "[(''node-1'', sample_busy_trunk)]" sample_busy_trunk "[sample_eni]" sample_limits "\<lambda>k. Inl ''gone''" sample_k8s "\<lambda>_. 5"
        "\<lambda>enis. Inr ''[]''" sample_api sample_k8s 30 "\<lambda>n. sample_instance" "[]"]
    by (fastforce simp: mget_Cons)
qed

end
